(* ===== verification/Prelude.thy ===== *)
theory Prelude
  imports Complex_Main "HOL-Library.Sublist"
begin

text \<open>
  Prelude of the glimmung development: what the component theories share.
  Go values and library routines the source uses everywhere are modelled here once:
  byte strings (a Go string is a list of bytes, here \<^typ>\<open>char list\<close>), the
  \<open>strings\<close> package functions the code calls (\<open>TrimSpace\<close>, \<open>HasPrefix\<close>,
  \<open>TrimPrefix\<close>, \<open>Index\<close>, \<open>Contains\<close>, \<open>Split\<close> and \<open>Join\<close>
  with their behaviour on bytes), \<open>strconv.Itoa\<close> and \<open>strconv.Atoi\<close> on 64-bit
  integers, Go floats with their NaN comparison, maps as association lists in the order a
  \<open>range\<close> visits them, and results as sums with the error on the left.
\<close>

section \<open>Collections of facts\<close>

named_theorems text_simps "evaluation facts on Go strings"
named_theorems inv_intros "preservation facts of the component invariants"

section \<open>Results\<close>

type_synonym ('e, 'a) res = "'e + 'a"

fun res_bind :: "('e, 'a) res \<Rightarrow> ('a \<Rightarrow> ('e, 'b) res) \<Rightarrow> ('e, 'b) res" where
  "res_bind (Inl e) f = Inl e"
| "res_bind (Inr a) f = f a"

lemma res_bind_Inr_iff: "res_bind r f = Inr b \<longleftrightarrow> (\<exists>a. r = Inr a \<and> f a = Inr b)"
  by (cases r) auto

lemma res_bind_Inl_iff:
  "res_bind r f = Inl e \<longleftrightarrow> r = Inl e \<or> (\<exists>a. r = Inr a \<and> f a = Inl e)"
  by (cases r) auto

fun is_ok :: "('e, 'a) res \<Rightarrow> bool" where
  "is_ok (Inl _) = False"
| "is_ok (Inr _) = True"

lemma is_ok_iff: "is_ok r \<longleftrightarrow> (\<exists>a. r = Inr a)"
  by (cases r) auto

text \<open>A Go loop that returns the first error of its body.\<close>

fun check_all :: "('a \<Rightarrow> 'e option) \<Rightarrow> 'a list \<Rightarrow> 'e option" where
  "check_all f [] = None"
| "check_all f (x # xs) = (case f x of Some e \<Rightarrow> Some e | None \<Rightarrow> check_all f xs)"

lemma check_all_None [simp]: "check_all f xs = None \<longleftrightarrow> (\<forall>x \<in> set xs. f x = None)"
  by (induction xs) (auto split: option.splits)

lemma check_all_Some: "check_all f xs = Some e \<Longrightarrow> \<exists>x \<in> set xs. f x = Some e"
  by (induction xs) (auto split: option.splits)

lemma check_all_append:
  "check_all f (xs @ ys) = (case check_all f xs of Some e \<Rightarrow> Some e | None \<Rightarrow> check_all f ys)"
  by (induction xs) (simp_all split: option.split del: check_all_None)

text \<open>The same with the elements already visited, and a row of guards.\<close>

fun check_prefix :: "('a list \<Rightarrow> 'a \<Rightarrow> 'e option) \<Rightarrow> 'a list \<Rightarrow> 'a list \<Rightarrow> 'e option" where
  "check_prefix f before [] = None"
| "check_prefix f before (x # xs) =
     (case f before x of Some e \<Rightarrow> Some e | None \<Rightarrow> check_prefix f (before @ [x]) xs)"

lemma check_prefix_None:
  "check_prefix f before xs = None \<longleftrightarrow> (\<forall>i < length xs. f (before @ take i xs) (xs ! i) = None)"
  by (induction xs arbitrary: before) (auto simp: All_less_Suc2 split: option.splits)

lemma check_prefix_Cons [simp]:
  "check_prefix f before (x # xs) = None \<longleftrightarrow> f before x = None \<and> check_prefix f (before @ [x]) xs = None"
  by (simp split: option.split)

declare check_prefix.simps(2) [simp del]

fun first_error :: "'e option list \<Rightarrow> 'e option" where
  "first_error [] = None"
| "first_error (r # rs) = (case r of Some e \<Rightarrow> Some e | None \<Rightarrow> first_error rs)"

lemma first_error_None [simp]: "first_error rs = None \<longleftrightarrow> list_all (\<lambda>r. r = None) rs"
  by (induction rs) (auto split: option.split)

text \<open>Rows of guards are read through the lemma, not unfolded.\<close>

declare first_error.simps(2) [simp del]

definition reject :: "bool \<Rightarrow> 'e \<Rightarrow> 'e option" where
  "reject b e = (if b then Some e else None)"

lemma reject_None [simp]: "reject b e = None \<longleftrightarrow> \<not> b"
  by (simp add: reject_def)

text \<open>The place of an element in what was visited, as a Go map from names to indices holds it.\<close>

fun index_of :: "'a \<Rightarrow> 'a list \<Rightarrow> nat option" where
  "index_of x [] = None"
| "index_of x (y # ys) = (if y = x then Some 0 else map_option Suc (index_of x ys))"

lemma index_of_None [simp]: "index_of x ys = None \<longleftrightarrow> x \<notin> set ys"
  by (induction ys) auto

lemma distinct_by_prefix:
  "(\<And>i. i < length xs \<Longrightarrow> f (xs ! i) \<notin> f ` set (take i xs)) \<Longrightarrow> distinct (map f xs)"
proof (induction xs rule: rev_induct)
  case (snoc x xs)
  have "f (xs ! i) \<notin> f ` set (take i xs)" if "i < length xs" for i
    using snoc.prems [of i] that by (simp add: nth_append)
  with snoc.IH have "distinct (map f xs)" by blast
  with snoc.prems [of "length xs"] show ?case by simp
qed simp

lemma find_result_in: "find P xs = Some x \<Longrightarrow> P x \<and> x \<in> set xs"
  by (auto simp: find_Some_iff)

lemma find_append: "find P (xs @ ys) = (case find P xs of Some x \<Rightarrow> Some x | None \<Rightarrow> find P ys)"
  by (induction xs) (auto split: option.split)

text \<open>A loop that edits the first element it looks for and leaves.\<close>

fun update_first :: "('a \<Rightarrow> bool) \<Rightarrow> ('a \<Rightarrow> 'a) \<Rightarrow> 'a list \<Rightarrow> 'a list" where
  "update_first P f [] = []"
| "update_first P f (x # xs) = (if P x then f x # xs else x # update_first P f xs)"

lemma update_first_none: "\<not> list_ex P xs \<Longrightarrow> update_first P f xs = xs"
  by (induction xs) auto

lemma update_first_map:
  "(\<And>x. x \<in> set xs \<Longrightarrow> P x \<Longrightarrow> g (f x) = g x) \<Longrightarrow> map g (update_first P f xs) = map g xs"
  by (induction xs) auto

lemma length_update_first [simp]: "length (update_first P f xs) = length xs"
  by (induction xs) auto

lemma update_first_ex:
  "(\<And>x. P x \<Longrightarrow> P (f x)) \<Longrightarrow> list_ex P (update_first P f xs) = list_ex P xs"
  by (induction xs) auto

lemma update_first_twice:
  "(\<And>x. x \<in> set xs \<Longrightarrow> P x \<Longrightarrow> P (f x) \<and> f (f x) = f x) \<Longrightarrow>
     update_first P f (update_first P f xs) = update_first P f xs"
  by (induction xs) auto

lemma update_first_split:
  "list_ex P xs \<Longrightarrow>
     \<exists>us x vs. xs = us @ x # vs \<and> P x \<and> (\<forall>u \<in> set us. \<not> P u) \<and> update_first P f xs = us @ f x # vs"
proof (induction xs)
  case (Cons y xs)
  show ?case
  proof (cases "P y")
    case True
    then show ?thesis by (intro exI [of _ "[]"] exI [of _ y] exI [of _ xs]) simp
  next
    case False
    with Cons obtain us x vs where parts:
        "xs = us @ x # vs" "P x" "\<forall>u \<in> set us. \<not> P u" "update_first P f xs = us @ f x # vs"
      by auto
    with False show ?thesis
      by (intro exI [of _ "y # us"] exI [of _ x] exI [of _ vs]) simp
  qed
qed simp

section \<open>Byte strings\<close>

text \<open>
  \<open>strings.TrimSpace\<close> removes the characters of Unicode's White_Space property at both
  ends. In UTF-8 they are the byte sequences listed here, so trimming is removing any of these
  sequences while one is a prefix (a suffix, on the reversed string).
\<close>

definition white_seqs :: "string list" where
  "white_seqs =
     [[CHR 0x20], [CHR 0x09], [CHR 0x0A], [CHR 0x0B], [CHR 0x0C], [CHR 0x0D],
      [CHR 0xC2, CHR 0x85], [CHR 0xC2, CHR 0xA0], [CHR 0xE1, CHR 0x9A, CHR 0x80],
      [CHR 0xE2, CHR 0x80, CHR 0x80], [CHR 0xE2, CHR 0x80, CHR 0x81],
      [CHR 0xE2, CHR 0x80, CHR 0x82], [CHR 0xE2, CHR 0x80, CHR 0x83],
      [CHR 0xE2, CHR 0x80, CHR 0x84], [CHR 0xE2, CHR 0x80, CHR 0x85],
      [CHR 0xE2, CHR 0x80, CHR 0x86], [CHR 0xE2, CHR 0x80, CHR 0x87],
      [CHR 0xE2, CHR 0x80, CHR 0x88], [CHR 0xE2, CHR 0x80, CHR 0x89],
      [CHR 0xE2, CHR 0x80, CHR 0x8A], [CHR 0xE2, CHR 0x80, CHR 0xA8],
      [CHR 0xE2, CHR 0x80, CHR 0xA9], [CHR 0xE2, CHR 0x80, CHR 0xAF],
      [CHR 0xE2, CHR 0x81, CHR 0x9F], [CHR 0xE3, CHR 0x80, CHR 0x80]]"

function strip_heads :: "string list \<Rightarrow> string \<Rightarrow> string" where
  "strip_heads ws s =
     (case find (\<lambda>w. w \<noteq> [] \<and> prefix w s) ws of
        None \<Rightarrow> s
      | Some w \<Rightarrow> strip_heads ws (drop (length w) s))"
  by pat_completeness auto
termination
  by (relation "measure (\<lambda>(ws, s). length s)")
    (auto simp: find_Some_iff prefix_def)

declare strip_heads.simps [simp del]

lemma strip_heads_stop:
  "find (\<lambda>w. w \<noteq> [] \<and> prefix w s) ws = None \<Longrightarrow> strip_heads ws s = s"
  by (subst strip_heads.simps) simp

lemma strip_heads_step:
  "find (\<lambda>w. w \<noteq> [] \<and> prefix w s) ws = Some w \<Longrightarrow>
     strip_heads ws s = strip_heads ws (drop (length w) s)"
  by (subst strip_heads.simps) simp

definition trim_left :: "string \<Rightarrow> string" where
  "trim_left s = strip_heads white_seqs s"

definition trim_right :: "string \<Rightarrow> string" where
  "trim_right s = rev (strip_heads (map rev white_seqs) (rev s))"

definition trim_space :: "string \<Rightarrow> string" where
  "trim_space s = trim_right (trim_left s)"

lemma strip_heads_suffix: "suffix (strip_heads ws s) s"
proof (induction ws s rule: strip_heads.induct)
  case (1 ws s)
  show ?case
  proof (cases "find (\<lambda>w. w \<noteq> [] \<and> prefix w s) ws")
    case None
    then show ?thesis by (simp add: strip_heads_stop)
  next
    case (Some w)
    with "1.IH" have "suffix (strip_heads ws (drop (length w) s)) (drop (length w) s)" by simp
    then have "suffix (strip_heads ws (drop (length w) s)) s"
      using suffix_drop suffix_order.trans by blast
    with Some show ?thesis by (simp only: strip_heads_step)
  qed
qed

lemma strip_heads_no_head: "w \<in> set ws \<Longrightarrow> w \<noteq> [] \<Longrightarrow> \<not> prefix w (strip_heads ws s)"
proof (induction ws s rule: strip_heads.induct)
  case (1 ws s)
  show ?case
  proof (cases "find (\<lambda>w. w \<noteq> [] \<and> prefix w s) ws")
    case None
    then have "strip_heads ws s = s" by (rule strip_heads_stop)
    with None "1.prems" show ?thesis by (simp add: find_None_iff) blast
  next
    case (Some v)
    have "\<not> prefix w (strip_heads ws (drop (length v) s))"
      by (rule "1.IH" [OF Some]) (use "1.prems" in auto)
    with Some show ?thesis by (simp only: strip_heads_step not_False_eq_True)
  qed
qed

lemma strip_heads_id: "(\<And>w. w \<in> set ws \<Longrightarrow> w \<noteq> [] \<Longrightarrow> \<not> prefix w s) \<Longrightarrow> strip_heads ws s = s"
  by (rule strip_heads_stop) (auto simp: find_None_iff)

lemma trim_right_prefix: "prefix (trim_right s) s"
  unfolding trim_right_def suffix_to_prefix by (metis strip_heads_suffix suffix_to_prefix rev_rev_ident)

text \<open>Trimming is idempotent: a trimmed text has no white space at either end.\<close>

lemma trim_left_id_iff: "trim_left s = s \<longleftrightarrow> (\<forall>w \<in> set white_seqs. \<not> prefix w s)"
proof
  have ne: "w \<noteq> []" if "w \<in> set white_seqs" for w
    using that by (auto simp: white_seqs_def)
  show "trim_left s = s" if "\<forall>w \<in> set white_seqs. \<not> prefix w s"
    unfolding trim_left_def using that by (intro strip_heads_id) auto
  show "\<forall>w \<in> set white_seqs. \<not> prefix w s" if "trim_left s = s"
    using that ne strip_heads_no_head [of _ white_seqs s] by (metis trim_left_def)
qed

lemma trim_right_idem [simp]: "trim_right (trim_right s) = trim_right s"
proof -
  let ?ws = "map rev white_seqs" and ?t = "strip_heads (map rev white_seqs) (rev s)"
  have "strip_heads ?ws ?t = ?t"
    by (rule strip_heads_id) (use strip_heads_no_head in blast)
  then show ?thesis by (simp add: trim_right_def)
qed

lemma trim_left_trim_right: "trim_left s = s \<Longrightarrow> trim_left (trim_right s) = trim_right s"
  using trim_right_prefix prefix_order.trans by (simp add: trim_left_id_iff) blast

lemma trim_left_idem [simp]: "trim_left (trim_left s) = trim_left s"
  unfolding trim_left_def by (rule strip_heads_id) (use strip_heads_no_head in blast)

lemma trim_space_idem [simp]: "trim_space (trim_space s) = trim_space s"
  by (simp add: trim_space_def trim_left_trim_right)

text \<open>The bytes that can start or end a white-space sequence; a text with neither is trimmed.\<close>

definition white_heads :: "char list" where
  "white_heads = [CHR 0x20, CHR 0x09, CHR 0x0A, CHR 0x0B, CHR 0x0C, CHR 0x0D,
     CHR 0xC2, CHR 0xE1, CHR 0xE2, CHR 0xE3]"

definition white_lasts :: "char list" where
  "white_lasts = map last white_seqs"

lemma white_seq_head: "w \<in> set white_seqs \<Longrightarrow> prefix w (c # s) \<Longrightarrow> c \<in> set white_heads"
  by (auto simp: white_seqs_def white_heads_def)

lemma white_seq_last: "w \<in> set white_seqs \<Longrightarrow> suffix w (s @ [c]) \<Longrightarrow> c \<in> set white_lasts"
proof -
  assume w: "w \<in> set white_seqs" and suf: "suffix w (s @ [c])"
  from w have "w \<noteq> []" by (auto simp: white_seqs_def)
  with suf have "last w = c"
    by (metis last_appendR last_snoc suffixE)
  with w show ?thesis by (auto simp: white_lasts_def)
qed

lemma trim_left_plain: "c \<notin> set white_heads \<Longrightarrow> trim_left (c # s) = c # s"
  using white_seq_head by (auto simp: trim_left_id_iff)

lemma trim_right_plain: "c \<notin> set white_lasts \<Longrightarrow> trim_right (s @ [c]) = s @ [c]"
proof -
  assume c: "c \<notin> set white_lasts"
  have "\<not> prefix (rev w) (rev (s @ [c]))" if "w \<in> set white_seqs" for w
    using that c white_seq_last [of w s c] suffix_to_prefix [of w "s @ [c]"] by metis
  then have "strip_heads (map rev white_seqs) (rev (s @ [c])) = rev (s @ [c])"
    by (intro strip_heads_id) auto
  then show ?thesis by (simp add: trim_right_def)
qed

lemma trim_space_plain:
  assumes "s \<noteq> []" and "hd s \<notin> set white_heads" and "last s \<notin> set white_lasts"
  shows "trim_space s = s"
proof -
  have "trim_left s = s" using assms(1,2) by (cases s) (simp_all add: trim_left_plain)
  moreover have "trim_right s = s"
    using trim_right_plain [of "last s" "butlast s"] assms(1,3) by simp
  ultimately show ?thesis by (simp add: trim_space_def)
qed

lemma trim_space_Nil [simp]: "trim_space [] = []"
  by (simp add: trim_space_def trim_left_def trim_right_def strip_heads_id)
lemma trim_left_space: "trim_left (CHR '' '' # s) = trim_left s"
proof -
  have "find (\<lambda>w. w \<noteq> [] \<and> prefix w (CHR '' '' # s)) white_seqs = Some '' ''"
    unfolding white_seqs_def by (subst find.simps(2)) simp
  from strip_heads_step [OF this] show ?thesis by (simp add: trim_left_def)
qed

lemma trim_right_space: "trim_right (s @ '' '') = trim_right s"
proof -
  have "find (\<lambda>w. w \<noteq> [] \<and> prefix w (CHR '' '' # rev s)) (map rev white_seqs) = Some '' ''"
    unfolding white_seqs_def list.map by (subst find.simps(2)) simp
  from strip_heads_step [OF this] show ?thesis by (simp add: trim_right_def)
qed

text \<open>A text with no white space at its ends, and the same text padded with a blank.\<close>

definition clean_ends :: "string \<Rightarrow> bool" where
  "clean_ends s = (s \<noteq> [] \<and> hd s \<notin> set white_heads \<and> last s \<notin> set white_lasts)"

lemma clean_trim [simp]: "clean_ends s \<Longrightarrow> trim_space s = s"
  by (simp add: clean_ends_def trim_space_plain)

lemma clean_trim_parts: "clean_ends s \<Longrightarrow> trim_left s = s \<and> trim_right s = s"
proof -
  assume c: "clean_ends s"
  then have l: "trim_left s = s" by (cases s) (simp_all add: clean_ends_def trim_left_plain)
  moreover have "trim_right s = s"
    using c l clean_trim [OF c] by (simp add: trim_space_def)
  ultimately show ?thesis by simp
qed

lemma clean_trim_before: "clean_ends s \<Longrightarrow> trim_space (CHR '' '' # s) = s"
  using clean_trim_parts by (simp add: trim_space_def trim_left_space)

lemma clean_trim_after: "clean_ends s \<Longrightarrow> trim_space (s @ '' '') = s"
proof -
  assume c: "clean_ends s"
  then have "trim_left (s @ '' '') = s @ '' ''"
    by (cases s) (simp_all add: clean_ends_def trim_left_plain)
  with c show ?thesis using clean_trim_parts by (simp add: trim_space_def trim_right_space)
qed

lemma clean_ends_append:
  "s \<noteq> [] \<Longrightarrow> t \<noteq> [] \<Longrightarrow> hd s \<notin> set white_heads \<Longrightarrow> last t \<notin> set white_lasts \<Longrightarrow>
     clean_ends (s @ u @ t)"
  by (simp add: clean_ends_def)

end
