(* ===== verification/GoText.thy ===== *)
theory GoText
  imports Prelude "HOL-Library.Char_ord" "HOL-Library.List_Lexorder"
begin

text \<open>
  Text and numbers as the Go standard library treats them, as far as the modelled code uses
  them: the \<open>strings\<close> functions on byte strings, decimal integers (\<open>strconv.Itoa\<close>
  and \<open>strconv.Atoi\<close> on 64-bit \<open>int\<close>), percent encoding of path segments
  (\<open>url.PathEscape\<close> and \<open>url.PathUnescape\<close>), ASCII case folding, and
  \<open>float64\<close> values with their comparison. The lemmas are the ones the components need:
  splitting undoes joining, decoding undoes encoding, and a rendered number parses back.
\<close>

section \<open>Searching and splitting\<close>

text \<open>\<open>strings.Index\<close>: the first position, \<open>None\<close> for -1.\<close>

fun go_index :: "string \<Rightarrow> string \<Rightarrow> nat option" where
  "go_index [] sub = (if sub = [] then Some 0 else None)"
| "go_index (c # cs) sub =
     (if prefix sub (c # cs) then Some 0 else map_option Suc (go_index cs sub))"

definition str_contains :: "string \<Rightarrow> string \<Rightarrow> bool" where
  "str_contains s sub = (go_index s sub \<noteq> None)"

definition trim_prefix :: "string \<Rightarrow> string \<Rightarrow> string" where
  "trim_prefix p s = (if prefix p s then drop (length p) s else s)"

lemma trim_prefix_append [simp]: "trim_prefix p (p @ s) = s"
  by (simp add: trim_prefix_def)

lemma go_index_sublist: "go_index s sub \<noteq> None \<longleftrightarrow> sublist sub s"
  by (induction s) (simp_all add: sublist_Cons_right)

lemma str_contains_iff: "str_contains s sub \<longleftrightarrow> sublist sub s"
  by (simp only: str_contains_def go_index_sublist)

lemma go_index_Some:
  "go_index s sub = Some i \<Longrightarrow> i \<le> length s \<and> prefix sub (drop i s)"
proof (induction s sub arbitrary: i rule: go_index.induct)
  case (1 sub)
  then show ?case by (auto split: if_splits)
next
  case (2 c cs sub)
  then show ?case by (cases "prefix sub (c # cs)") auto
qed

lemma go_index_skip:
  "prefix sub v \<Longrightarrow> (\<And>i. i < length u \<Longrightarrow> \<not> prefix sub (drop i (u @ v))) \<Longrightarrow>
     go_index (u @ v) sub = Some (length u)"
proof (induction u)
  case Nil
  then show ?case by (cases v) auto
next
  case (Cons c u)
  have "\<not> prefix sub (drop i (u @ v))" if "i < length u" for i
    using Cons.prems(2) [of "Suc i"] that by simp
  moreover have "\<not> prefix sub (c # u @ v)" using Cons.prems(2) [of 0] by simp
  ultimately show ?case using Cons.IH Cons.prems(1) by simp
qed

text \<open>\<open>strings.Split\<close> by one separator byte, and \<open>strings.Join\<close>.\<close>

fun split_on :: "char \<Rightarrow> string \<Rightarrow> string list" where
  "split_on c [] = [[]]"
| "split_on c (x # xs) =
     (if x = c then [] # split_on c xs
      else (case split_on c xs of [] \<Rightarrow> [[x]] | h # t \<Rightarrow> (x # h) # t))"

fun join_with :: "string \<Rightarrow> string list \<Rightarrow> string" where
  "join_with sep [] = []"
| "join_with sep [x] = x"
| "join_with sep (x # y # ys) = x @ sep @ join_with sep (y # ys)"

lemma split_on_ne [simp]: "split_on c s \<noteq> []"
  by (induction s) (auto split: list.split)

lemma split_on_none: "c \<notin> set s \<Longrightarrow> split_on c s = [s]"
  by (induction s) auto

lemma split_on_append: "c \<notin> set s \<Longrightarrow> split_on c (s @ c # t) = s # split_on c t"
  by (induction s) auto

lemma split_on_join:
  "xs \<noteq> [] \<Longrightarrow> \<forall>x \<in> set xs. c \<notin> set x \<Longrightarrow> split_on c (join_with [c] xs) = xs"
  by (induction "[c]" xs rule: join_with.induct) (auto simp: split_on_none split_on_append)

section \<open>Character classes\<close>

definition byte_of :: "char \<Rightarrow> nat" where
  "byte_of c = of_char c"

definition between :: "nat \<Rightarrow> nat \<Rightarrow> char \<Rightarrow> bool" where
  "between lo hi c = (lo \<le> byte_of c \<and> byte_of c \<le> hi)"

definition is_digit :: "char \<Rightarrow> bool" where
  "is_digit c = between 48 57 c"

definition is_upper :: "char \<Rightarrow> bool" where
  "is_upper c = between 65 90 c"

definition is_lower :: "char \<Rightarrow> bool" where
  "is_lower c = between 97 122 c"

definition is_alnum :: "char \<Rightarrow> bool" where
  "is_alnum c = (is_digit c \<or> is_upper c \<or> is_lower c)"

text \<open>The class \<open>\s\<close> of Go's regular expressions: tab, newline, form feed, return, space.\<close>

definition re_space :: "char \<Rightarrow> bool" where
  "re_space c = (c \<in> {CHR 0x09, CHR 0x0A, CHR 0x0C, CHR 0x0D, CHR 0x20})"

lemmas char_class_defs = byte_of_def between_def is_digit_def is_upper_def is_lower_def is_alnum_def

text \<open>
  Case-insensitive keys. \<open>strings.ToLower\<close> and \<open>strings.EqualFold\<close> are used by the
  modelled code only to compare with ASCII constants. ToLower sends to an ASCII letter the
  ASCII capitals, the Kelvin sign (to \<open>k\<close>) and the dotted capital I (to \<open>i\<close>);
  EqualFold identifies the ASCII cases, the Kelvin sign with \<open>k\<close> and the long s with
  \<open>s\<close>. Every other byte stays apart from the ASCII constants.
\<close>

definition lower_char :: "char \<Rightarrow> char" where
  "lower_char c = (if is_upper c then char_of (byte_of c + 32) else c)"

fun lower_key :: "string \<Rightarrow> string" where
  "lower_key (a # b # c # s) =
     (if [a, b, c] = [CHR 0xE2, CHR 0x84, CHR 0xAA] then CHR ''k'' # lower_key s
      else if [a, b] = [CHR 0xC4, CHR 0xB0] then CHR ''i'' # lower_key (c # s)
      else lower_char a # lower_key (b # c # s))"
| "lower_key [a, b] =
     (if [a, b] = [CHR 0xC4, CHR 0xB0] then ''i'' else [lower_char a, lower_char b])"
| "lower_key [a] = [lower_char a]"
| "lower_key [] = []"

fun fold_key :: "string \<Rightarrow> string" where
  "fold_key (a # b # c # s) =
     (if [a, b, c] = [CHR 0xE2, CHR 0x84, CHR 0xAA] then CHR ''k'' # fold_key s
      else if [a, b] = [CHR 0xC5, CHR 0xBF] then CHR ''s'' # fold_key (c # s)
      else lower_char a # fold_key (b # c # s))"
| "fold_key [a, b] =
     (if [a, b] = [CHR 0xC5, CHR 0xBF] then ''s'' else [lower_char a, lower_char b])"
| "fold_key [a] = [lower_char a]"
| "fold_key [] = []"

definition equal_fold :: "string \<Rightarrow> string \<Rightarrow> bool" where
  "equal_fold s t = (fold_key s = fold_key t)"

section \<open>Decimal integers\<close>

definition digit_char :: "nat \<Rightarrow> char" where
  "digit_char d = char_of (48 + d)"

definition digit_val :: "char \<Rightarrow> nat" where
  "digit_val c = byte_of c - 48"

fun nat_dec :: "nat \<Rightarrow> string" where
  "nat_dec n = (if n < 10 then [digit_char n] else nat_dec (n div 10) @ [digit_char (n mod 10)])"

declare nat_dec.simps [simp del]

text \<open>\<open>strconv.Itoa\<close>.\<close>

definition itoa :: "int \<Rightarrow> string" where
  "itoa n = (if n < 0 then CHR ''-'' # nat_dec (nat (- n)) else nat_dec (nat n))"

definition dec_val :: "string \<Rightarrow> nat" where
  "dec_val s = foldl (\<lambda>v c. 10 * v + digit_val c) 0 s"

definition int64_ok :: "int \<Rightarrow> bool" where
  "int64_ok n = (- (2 ^ 63) \<le> n \<and> n < 2 ^ 63)"

text \<open>\<open>strconv.Atoi\<close>: an optional sign, at least one digit, and a value that fits.\<close>

definition atoi :: "string \<Rightarrow> int option" where
  "atoi s =
     (let neg = (s \<noteq> [] \<and> hd s = CHR ''-'');
          ds = (if s \<noteq> [] \<and> (hd s = CHR ''-'' \<or> hd s = CHR ''+'') then tl s else s);
          v = (if neg then - int (dec_val ds) else int (dec_val ds))
      in if ds \<noteq> [] \<and> list_all is_digit ds \<and> int64_ok v then Some v else None)"

lemma byte_of_digit_char: "d < 10 \<Longrightarrow> byte_of (digit_char d) = 48 + d"
  by (simp add: byte_of_def digit_char_def)

lemma is_digit_digit_char [simp]: "d < 10 \<Longrightarrow> is_digit (digit_char d)"
  by (simp add: is_digit_def between_def byte_of_digit_char)

lemma digit_val_digit_char [simp]: "d < 10 \<Longrightarrow> digit_val (digit_char d) = d"
  by (simp add: digit_val_def byte_of_digit_char)

lemma dec_val_append [simp]: "dec_val (s @ [c]) = 10 * dec_val s + digit_val c"
  by (simp add: dec_val_def)

lemma nat_dec_digits: "list_all is_digit (nat_dec n)"
proof (induction n rule: nat_dec.induct)
  case (1 n)
  then show ?case by (cases "n < 10") (simp_all add: nat_dec.simps [of n])
qed

lemma nat_dec_ne [simp]: "nat_dec n \<noteq> []"
  by (subst nat_dec.simps) simp

lemma dec_val_nat_dec [simp]: "dec_val (nat_dec n) = n"
proof (induction n rule: nat_dec.induct)
  case (1 n)
  then show ?case
    by (cases "n < 10") (simp_all add: nat_dec.simps [of n] dec_val_def [of "[_]"])
qed

lemma is_digit_not_sign: "is_digit c \<Longrightarrow> c \<noteq> CHR ''-'' \<and> c \<noteq> CHR ''+''"
  by (auto simp: char_class_defs)

lemma nat_dec_hd: "is_digit (hd (nat_dec n))"
  using nat_dec_digits [of n] by (cases "nat_dec n") simp_all

lemma itoa_nonneg_digits: "0 \<le> n \<Longrightarrow> list_all is_digit (itoa n)"
  by (simp add: itoa_def nat_dec_digits)

lemma itoa_ne [simp]: "itoa n \<noteq> []"
  by (simp add: itoa_def)

text \<open>Rendering then parsing gives the number back.\<close>

lemma atoi_itoa: "int64_ok n \<Longrightarrow> atoi (itoa n) = Some n"
proof (cases "n < 0")
  case True
  assume "int64_ok n"
  with True show ?thesis by (simp add: itoa_def atoi_def nat_dec_digits)
next
  case False
  assume ok: "int64_ok n"
  have hd: "hd (itoa n) \<noteq> CHR ''-'' \<and> hd (itoa n) \<noteq> CHR ''+''"
    using False nat_dec_hd is_digit_not_sign by (simp add: itoa_def)
  have val: "int (dec_val (itoa n)) = n" using False by (simp add: itoa_def)
  have digits: "list_all is_digit (itoa n)" using False itoa_nonneg_digits by simp
  show ?thesis using ok hd val digits by (simp add: atoi_def)
qed

text \<open>Digits are neither white space nor a separator.\<close>

lemma digit_not_white:
  "is_digit c \<Longrightarrow> c \<notin> set white_heads \<and> c \<notin> set white_lasts"
  by (auto simp: char_class_defs white_heads_def white_lasts_def white_seqs_def)

lemma trim_space_digits: "list_all is_digit s \<Longrightarrow> trim_space s = s"
proof (cases "s = []")
  case False
  assume "list_all is_digit s"
  then have "\<forall>c \<in> set s. is_digit c" by (simp add: list_all_iff)
  with False show ?thesis
    by (intro trim_space_plain) (simp_all add: digit_not_white)
qed simp

section \<open>Percent encoding of a path segment\<close>

definition hex_char :: "nat \<Rightarrow> char" where
  "hex_char n = (if n < 10 then char_of (48 + n) else char_of (55 + n))"

definition is_hex :: "char \<Rightarrow> bool" where
  "is_hex c = (is_digit c \<or> between 97 102 c \<or> between 65 70 c)"

definition unhex :: "char \<Rightarrow> nat" where
  "unhex c =
     (if is_digit c then byte_of c - 48
      else if between 97 102 c then byte_of c - 87
      else byte_of c - 55)"

text \<open>\<open>shouldEscape\<close> in the mode of a path segment.\<close>

definition seg_safe :: "char \<Rightarrow> bool" where
  "seg_safe c = (is_alnum c \<or> c \<in> set ''-_.~$&+:=@'')"

fun path_escape :: "string \<Rightarrow> string" where
  "path_escape [] = []"
| "path_escape (c # s) =
     (if seg_safe c then c # path_escape s
      else CHR ''%'' # hex_char (byte_of c div 16) # hex_char (byte_of c mod 16) # path_escape s)"

fun path_unescape :: "string \<Rightarrow> string option" where
  "path_unescape [] = Some []"
| "path_unescape (c # s) =
     (if c = CHR ''%'' then
        (case s of
           a # b # t \<Rightarrow>
             if is_hex a \<and> is_hex b
             then map_option (Cons (char_of (16 * unhex a + unhex b))) (path_unescape t)
             else None
         | _ \<Rightarrow> None)
      else map_option (Cons c) (path_unescape s))"

lemma unhex_hex_char: "n < 16 \<Longrightarrow> is_hex (hex_char n) \<and> unhex (hex_char n) = n"
  by (simp add: hex_char_def is_hex_def unhex_def char_class_defs)

lemma byte_of_less: "byte_of c < 256"
  by (simp add: byte_of_def)

lemma percent_not_safe [simp]: "\<not> seg_safe (CHR ''%'')"
  by (simp add: seg_safe_def char_class_defs)

lemma path_unescape_escape [simp]: "path_unescape (path_escape s) = Some s"
proof (induction s)
  case (Cons c s)
  have h: "byte_of c div 16 < 16" "byte_of c mod 16 < 16"
    using byte_of_less [of c] by simp_all
  show ?case
  proof (cases "seg_safe c")
    case True
    then have "c \<noteq> CHR ''%''" using percent_not_safe by blast
    with True Cons show ?thesis by simp
  next
    case False
    have "char_of (16 * (byte_of c div 16) + byte_of c mod 16) = c"
      by (simp add: byte_of_def)
    with False Cons unhex_hex_char [OF h(1)] unhex_hex_char [OF h(2)] show ?thesis by simp
  qed
qed simp

definition seg_char :: "char \<Rightarrow> bool" where
  "seg_char c = (seg_safe c \<or> c = CHR ''%'')"

lemma hex_char_safe: "n < 16 \<Longrightarrow> seg_safe (hex_char n)"
  by (simp add: hex_char_def seg_safe_def char_class_defs)

lemma path_escape_chars: "c \<in> set (path_escape s) \<Longrightarrow> seg_char c"
proof (induction s)
  case (Cons d s)
  have h: "byte_of d div 16 < 16" "byte_of d mod 16 < 16"
    using byte_of_less [of d] by simp_all
  from Cons show ?case
    by (auto simp: seg_char_def hex_char_safe [OF h(1)] hex_char_safe [OF h(2)] split: if_splits)
qed simp

lemma path_escape_ne [simp]: "path_escape s = [] \<longleftrightarrow> s = []"
  by (cases s) simp_all

lemma digit_seg_char: "is_digit c \<Longrightarrow> seg_char c"
  by (simp add: seg_char_def seg_safe_def is_alnum_def)

lemma seg_char_not_special:
  "seg_char c \<Longrightarrow> c \<noteq> CHR ''/'' \<and> c \<noteq> CHR ''?'' \<and> c \<noteq> CHR ''#'' \<and>
     c \<notin> set white_heads \<and> c \<notin> set white_lasts"
  by (auto simp: seg_char_def seg_safe_def char_class_defs white_heads_def white_lasts_def white_seqs_def)

lemma path_unescape_plain: "CHR ''%'' \<notin> set s \<Longrightarrow> path_unescape s = Some s"
  by (induction s) auto

section \<open>Floating point\<close>

text \<open>
  A \<open>float64\<close>: a finite value, an infinity, or not-a-number. Comparisons are exact;
  every comparison with NaN is false.
\<close>

datatype gofloat = Fin rat | PosInf | NegInf | NaN

fun float_le :: "gofloat \<Rightarrow> gofloat \<Rightarrow> bool" where
  "float_le NaN _ = False"
| "float_le _ NaN = False"
| "float_le NegInf _ = True"
| "float_le _ PosInf = True"
| "float_le (Fin x) (Fin y) = (x \<le> y)"
| "float_le _ _ = False"

abbreviation float_ge :: "gofloat \<Rightarrow> gofloat \<Rightarrow> bool" where
  "float_ge a b \<equiv> float_le b a"

abbreviation float_gt :: "gofloat \<Rightarrow> gofloat \<Rightarrow> bool" where
  "float_gt a b \<equiv> float_le b a \<and> \<not> float_le a b"

lemma float_le_NaN [simp]: "\<not> float_le x NaN" "\<not> float_le NaN x"
  by (cases x; simp)+

end
