(* ===== verification/Decision.thy ===== *)
theory Decision
  imports GoText
begin

text \<open>
  The verify-loop decision engine (\<open>internal/domain/decision/decision.go\<close>) and the
  run budget (\<open>internal/domain/budget/budget.go\<close>): the data the engine reads, the
  decision for one attempt, the attempt an abort explanation is about, and the explanation
  itself. Text built by string concatenation is the text; a message built by
  \<open>fmt.Sprintf\<close> is a constructor holding the arguments of the call. The counter the
  engine increments is observability and is not modelled.
\<close>

section \<open>Budget\<close>

record budget_config =
  total :: gofloat

definition label_prefix :: string where
  "label_prefix = ''agent-budget:''"

definition default_budget :: budget_config where
  "default_budget = \<lparr>total = Fin 25\<rparr>"

text \<open>
  \<open>strconv.ParseFloat\<close> rounds a decimal to binary; its result is the parameter
  \<open>pf\<close> (\<open>None\<close> for an error).
\<close>

definition parse_budget_label :: "(string \<Rightarrow> gofloat option) \<Rightarrow> string \<Rightarrow> budget_config option" where
  "parse_budget_label pf label =
     (if \<not> prefix label_prefix label then None
      else (case pf (trim_prefix label_prefix label) of
              None \<Rightarrow> None
            | Some t \<Rightarrow> if float_le t (Fin 0) then None else Some \<lparr>total = t\<rparr>))"

fun resolve_budget ::
  "(string \<Rightarrow> gofloat option) \<Rightarrow> string list \<Rightarrow> budget_config option \<Rightarrow> budget_config" where
  "resolve_budget pf [] wf_default =
     (case wf_default of Some c \<Rightarrow> c | None \<Rightarrow> default_budget)"
| "resolve_budget pf (label # labels) wf_default =
     (case parse_budget_label pf label of
        Some c \<Rightarrow> c
      | None \<Rightarrow> resolve_budget pf labels wf_default)"

section \<open>Data of the engine\<close>

datatype run_decision =
    Retry | Advance | AbortBudgetAttempts | AbortBudgetCost | AbortMalformed | AbortRequested

fun decision_str :: "run_decision \<Rightarrow> string" where
  "decision_str Retry = ''retry''"
| "decision_str Advance = ''advance''"
| "decision_str AbortBudgetAttempts = ''abort_budget_attempts''"
| "decision_str AbortBudgetCost = ''abort_budget_cost''"
| "decision_str AbortMalformed = ''abort_malformed''"
| "decision_str AbortRequested = ''abort_requested''"

record verification_failure =
  vf_expected :: string
  vf_observed :: string
  vf_where :: string
  vf_suspected_cause :: string
  vf_cause_detail :: string

record verification =
  v_status :: string
  v_reasons :: "string list"
  v_failure :: "verification_failure option"

record dattempt =
  da_phase :: string
  da_conclusion :: string
  da_verification :: "verification option"
  da_abort_reason :: string

record drecycle_policy =
  rp_max_attempts :: int
  rp_on :: "string list"

record dphase_spec =
  dp_name :: string
  dp_verify :: bool
  dp_evidence_gate :: bool
  dp_purpose :: string
  dp_recycle :: "drecycle_policy option"

type_synonym dworkflow = "dphase_spec list"

record drun =
  dr_attempts :: "dattempt list"
  dr_cost :: gofloat
  dr_budget :: budget_config

datatype decide_error =
    NoAttempts
  | AttemptIndexOutOfRange int int
  | PhaseNotInWorkflow string

section \<open>Deciding\<close>

definition is_advance_conclusion :: "string \<Rightarrow> bool" where
  "is_advance_conclusion c = (c = ''success'' \<or> c = ''skipped'')"

definition phase_is_teardown :: "dphase_spec \<Rightarrow> bool" where
  "phase_is_teardown p = (dp_purpose p = ''teardown'')"

definition dphase_is_primary :: "dphase_spec \<Rightarrow> bool" where
  "dphase_is_primary p = (dp_purpose p \<notin> {''teardown'', ''review'', ''review_gate''})"

fun phase_by_name :: "dworkflow \<Rightarrow> string \<Rightarrow> dphase_spec option" where
  "phase_by_name [] name = None"
| "phase_by_name (p # ps) name = (if dp_name p = name then Some p else phase_by_name ps name)"

fun next_phase_after :: "dworkflow \<Rightarrow> string \<Rightarrow> dphase_spec option" where
  "next_phase_after [] name = None"
| "next_phase_after (p # ps) name =
     (if dp_name p = name then (case ps of [] \<Rightarrow> None | q # _ \<Rightarrow> Some q)
      else next_phase_after ps name)"

definition trigger_for_attempt :: "dattempt \<Rightarrow> string" where
  "trigger_for_attempt a =
     (case da_verification a of None \<Rightarrow> ''verify_malformed'' | Some _ \<Rightarrow> ''verify_fail'')"

fun attempts_in_phase :: "dattempt list \<Rightarrow> string \<Rightarrow> int" where
  "attempts_in_phase [] ph = 0"
| "attempts_in_phase (a # as) ph = (if da_phase a = ph then 1 else 0) + attempts_in_phase as ph"

text \<open>The attempt being decided: the last one, or the one the optional index names.\<close>

definition deciding_index :: "drun \<Rightarrow> int option \<Rightarrow> (decide_error, nat) res" where
  "deciding_index run idx =
     (let n = int (length (dr_attempts run)) in
      if n = 0 then Inl NoAttempts
      else (case idx of
              None \<Rightarrow> Inr (length (dr_attempts run) - 1)
            | Some i \<Rightarrow> if i < 0 \<or> n \<le> i then Inl (AttemptIndexOutOfRange i (n - 1)) else Inr (nat i)))"

definition over_budget :: "drun \<Rightarrow> bool" where
  "over_budget run = float_ge (dr_cost run) (total (dr_budget run))"

text \<open>The three phase shapes, in the order \<open>Decide\<close> tries them.\<close>

definition decide_gate :: "drun \<Rightarrow> dphase_spec \<Rightarrow> dattempt \<Rightarrow> run_decision" where
  "decide_gate run spec a =
     (if is_advance_conclusion (da_conclusion a) then Advance
      else if over_budget run then AbortBudgetCost
      else (case dp_recycle spec of
              None \<Rightarrow> AbortBudgetAttempts
            | Some rp \<Rightarrow>
                if ''verify_fail'' \<notin> set (rp_on rp) then AbortBudgetAttempts
                else if attempts_in_phase (dr_attempts run) (da_phase a) \<ge> rp_max_attempts rp
                then AbortBudgetAttempts
                else Retry))"

definition decide_plain :: "dphase_spec \<Rightarrow> dattempt \<Rightarrow> run_decision" where
  "decide_plain spec a =
     (if is_advance_conclusion (da_conclusion a) then Advance
      else if phase_is_teardown spec then Advance
      else AbortMalformed)"

definition passed :: "dattempt \<Rightarrow> bool" where
  "passed a = (case da_verification a of None \<Rightarrow> False | Some v \<Rightarrow> v_status v = ''pass'')"

definition decide_verify :: "drun \<Rightarrow> dphase_spec \<Rightarrow> dattempt \<Rightarrow> run_decision" where
  "decide_verify run spec a =
     (if passed a then Advance
      else if over_budget run then AbortBudgetCost
      else (let trigger = trigger_for_attempt a in
            case dp_recycle spec of
              None \<Rightarrow> if trigger = ''verify_malformed'' then AbortMalformed else AbortBudgetAttempts
            | Some rp \<Rightarrow>
                if trigger \<notin> set (rp_on rp)
                then (if trigger = ''verify_malformed'' then AbortMalformed else AbortBudgetAttempts)
                else if attempts_in_phase (dr_attempts run) (da_phase a) \<ge> rp_max_attempts rp
                then AbortBudgetAttempts
                else Retry))"

definition decide_attempt :: "drun \<Rightarrow> dworkflow \<Rightarrow> dattempt \<Rightarrow> (decide_error, run_decision) res" where
  "decide_attempt run wkf a =
     (if trim_space (da_abort_reason a) \<noteq> [] then Inr AbortRequested
      else (case phase_by_name wkf (da_phase a) of
              None \<Rightarrow> Inl (PhaseNotInWorkflow (da_phase a))
            | Some spec \<Rightarrow>
                if dp_evidence_gate spec then Inr (decide_gate run spec a)
                else if \<not> dp_verify spec then Inr (decide_plain spec a)
                else (case next_phase_after wkf (dp_name spec) of
                        Some nxt \<Rightarrow>
                          if dp_evidence_gate nxt
                          then Inr (if is_advance_conclusion (da_conclusion a) then Advance else AbortMalformed)
                          else Inr (decide_verify run spec a)
                      | None \<Rightarrow> Inr (decide_verify run spec a))))"

definition decide :: "drun \<Rightarrow> dworkflow \<Rightarrow> int option \<Rightarrow> (decide_error, run_decision) res" where
  "decide run wkf idx =
     (case deciding_index run idx of
        Inl e \<Rightarrow> Inl e
      | Inr i \<Rightarrow> decide_attempt run wkf (dr_attempts run ! i))"

section \<open>Explaining an abort\<close>

text \<open>The latest attempt on a primary phase (or on a phase the workflow lacks), else the latest.\<close>

definition primary_attempt :: "drun \<Rightarrow> dworkflow \<Rightarrow> dattempt option" where
  "primary_attempt run wkf =
     (case find (\<lambda>a. case phase_by_name wkf (da_phase a) of
                       None \<Rightarrow> True | Some p \<Rightarrow> dphase_is_primary p) (rev (dr_attempts run)) of
        Some a \<Rightarrow> Some a
      | None \<Rightarrow> if dr_attempts run = [] then None else Some (last (dr_attempts run)))"

text \<open>The em dash of the message, in UTF-8.\<close>

definition em_dash :: string where
  "em_dash = [CHR 0xE2, CHR 0x80, CHR 0x94]"

definition failure_lines :: "verification_failure \<Rightarrow> string list" where
  "failure_lines f =
     (if trim_space (vf_expected f) \<noteq> [] then [''- expected: '' @ trim_space (vf_expected f)] else []) @
     (if trim_space (vf_observed f) \<noteq> []
      then [''- observed: '' @ trim_space (vf_observed f) @
            (if trim_space (vf_where f) \<noteq> [] then '' ['' @ trim_space (vf_where f) @ '']'' else [])]
      else []) @
     (if trim_space (vf_suspected_cause f) \<noteq> []
      then [''- suspected cause: '' @ trim_space (vf_suspected_cause f) @
            (if trim_space (vf_cause_detail f) \<noteq> []
             then '' '' @ em_dash @ '' '' @ trim_space (vf_cause_detail f) else [])]
      else [])"

definition verification_failure_detail :: "dattempt option \<Rightarrow> string" where
  "verification_failure_detail a =
     (case Option.bind (Option.bind a da_verification) v_failure of
        None \<Rightarrow> []
      | Some f \<Rightarrow>
          if failure_lines f = [] then []
          else [CHR 0x0A, CHR 0x0A] @ ''Verification failure detail:'' @ [CHR 0x0A] @
               join_with [CHR 0x0A] (failure_lines f))"

definition reasons_detail :: "dattempt option \<Rightarrow> string" where
  "reasons_detail a =
     (case Option.bind a da_verification of
        None \<Rightarrow> []
      | Some v \<Rightarrow>
          if v_reasons v = [] then []
          else [CHR 0x0A, CHR 0x0A] @ ''Most recent verification reasons:'' @ [CHR 0x0A] @
               join_with [CHR 0x0A] (map (\<lambda>r. ''- '' @ r) (v_reasons v)))"

text \<open>One constructor for each message template, with the arguments it is formatted from.\<close>

datatype malformed_explanation =
    ProducerFailure string string
  | MissingVerification string
  | GenericMalformed

datatype abort_explanation =
    RequestedNoReason string string
  | RequestedWithReason string string string
  | AttemptsNoAttempt string
  | AttemptsReached int string int string
  | AttemptsNoRetryPath string string
  | CostExceeded gofloat gofloat string
  | Malformed malformed_explanation

definition malformed_abort_explanation :: "dattempt option \<Rightarrow> dworkflow \<Rightarrow> malformed_explanation" where
  "malformed_abort_explanation last_a wkf =
     (case last_a of
        None \<Rightarrow> GenericMalformed
      | Some a \<Rightarrow>
          (case phase_by_name wkf (da_phase a) of
             None \<Rightarrow> GenericMalformed
           | Some p \<Rightarrow>
               let conclusion = trim_space (da_conclusion a) in
               if \<not> dp_verify p \<and> \<not> dp_evidence_gate p \<and> conclusion \<noteq> [] \<and>
                  \<not> is_advance_conclusion conclusion
               then ProducerFailure (da_phase a) conclusion
               else if dp_verify p \<and> da_verification a = None
               then MissingVerification (da_phase a)
               else GenericMalformed))"

definition abort_explanation :: "drun \<Rightarrow> dworkflow \<Rightarrow> run_decision \<Rightarrow> abort_explanation option" where
  "abort_explanation run wkf d =
     (let last_a = primary_attempt run wkf;
          detail = reasons_detail last_a @ verification_failure_detail last_a
      in case d of
           AbortRequested \<Rightarrow>
             let reason = (case last_a of None \<Rightarrow> [] | Some a \<Rightarrow> trim_space (da_abort_reason a));
                 phase = (case last_a of None \<Rightarrow> ''?''
                          | Some a \<Rightarrow> if da_phase a \<noteq> [] then da_phase a else ''?'')
             in Some (if reason = [] then RequestedNoReason phase detail
                      else RequestedWithReason phase reason detail)
         | AbortBudgetAttempts \<Rightarrow>
             Some (case last_a of
                None \<Rightarrow> AttemptsNoAttempt detail
              | Some a \<Rightarrow>
                  (case Option.bind (phase_by_name wkf (da_phase a)) dp_recycle of
                     Some rp \<Rightarrow>
                       AttemptsReached (attempts_in_phase (dr_attempts run) (da_phase a))
                         (da_phase a) (rp_max_attempts rp) detail
                   | None \<Rightarrow> AttemptsNoRetryPath (da_phase a) detail))
         | AbortBudgetCost \<Rightarrow> Some (CostExceeded (dr_cost run) (total (dr_budget run)) detail)
         | AbortMalformed \<Rightarrow> Some (Malformed (malformed_abort_explanation last_a wkf))
         | _ \<Rightarrow> None)"

section \<open>Lemmas of the engine\<close>

lemma phase_by_name_Some: "phase_by_name wkf n = Some p \<Longrightarrow> p \<in> set wkf \<and> dp_name p = n"
  by (induction wkf) (auto split: if_splits)

lemma attempts_in_phase_append:
  "attempts_in_phase (xs @ ys) ph = attempts_in_phase xs ph + attempts_in_phase ys ph"
  by (induction xs) auto

lemma attempts_in_phase_nonneg: "0 \<le> attempts_in_phase xs ph"
  by (induction xs) auto

lemma attempts_in_phase_replicate:
  "da_phase a = ph \<Longrightarrow> attempts_in_phase (replicate n a) ph = int n"
  by (induction n) auto

lemma attempts_in_phase_pos: "a \<in> set xs \<Longrightarrow> da_phase a = ph \<Longrightarrow> 1 \<le> attempts_in_phase xs ph"
  using attempts_in_phase_nonneg by (induction xs) (fastforce simp: le_add_same_cancel1)+

lemma deciding_index_bounds:
  "deciding_index run idx = Inr i \<Longrightarrow> i < length (dr_attempts run)"
  by (auto simp: deciding_index_def Let_def split: if_splits option.splits)

lemma decide_gate_Retry:
  "decide_gate run spec a = Retry \<longleftrightarrow>
     \<not> is_advance_conclusion (da_conclusion a) \<and> \<not> over_budget run \<and>
     (\<exists>rp. dp_recycle spec = Some rp \<and> ''verify_fail'' \<in> set (rp_on rp) \<and>
        attempts_in_phase (dr_attempts run) (da_phase a) < rp_max_attempts rp)"
  by (auto simp: decide_gate_def split: option.splits)

lemma passed_iff [simp]: "passed a \<longleftrightarrow> (\<exists>v. da_verification a = Some v \<and> v_status v = ''pass'')"
  by (simp add: passed_def split: option.split)

lemma decide_verify_Retry:
  "decide_verify run spec a = Retry \<longleftrightarrow>
     \<not> (\<exists>v. da_verification a = Some v \<and> v_status v = ''pass'') \<and> \<not> over_budget run \<and>
     (\<exists>rp. dp_recycle spec = Some rp \<and> trigger_for_attempt a \<in> set (rp_on rp) \<and>
        attempts_in_phase (dr_attempts run) (da_phase a) < rp_max_attempts rp)"
  by (auto simp: decide_verify_def Let_def split: option.splits)

lemma decide_plain_not_Retry [simp]: "decide_plain spec a \<noteq> Retry"
  by (simp add: decide_plain_def)

lemma decide_attempt_Retry:
  assumes "decide_attempt run wkf a = Inr Retry"
  obtains spec rp where "phase_by_name wkf (da_phase a) = Some spec"
    and "dp_recycle spec = Some rp"
    and "attempts_in_phase (dr_attempts run) (da_phase a) < rp_max_attempts rp"
    and "\<not> over_budget run" and "dp_evidence_gate spec \<or> dp_verify spec"
  using assms
  by (auto simp: decide_attempt_def decide_gate_Retry decide_verify_Retry
      split: option.splits if_splits)

lemma primary_attempt_in: "primary_attempt run wkf = Some a \<Longrightarrow> a \<in> set (dr_attempts run)"
  by (auto simp: primary_attempt_def dest: find_result_in split: option.splits if_splits)

section \<open>Properties\<close>

text \<open>
  C30: A retry is only ever granted with head room: the deciding attempt's phase is in the
  workflow and has a recycle policy, fewer attempts than the policy's maximum have run in that
  phase, the cost is still below the budget, and the phase did not ask for an abort.
\<close>

theorem decide_retry_headroom:
  assumes "decide run wkf idx = Inr Retry"
  shows "\<exists>i a spec rp. deciding_index run idx = Inr i \<and> a = dr_attempts run ! i \<and>
     phase_by_name wkf (da_phase a) = Some spec \<and> dp_recycle spec = Some rp \<and>
     attempts_in_phase (dr_attempts run) (da_phase a) < rp_max_attempts rp \<and>
     \<not> over_budget run \<and> trim_space (da_abort_reason a) = []"
proof -
  from assms obtain i where i: "deciding_index run idx = Inr i"
    and d: "decide_attempt run wkf (dr_attempts run ! i) = Inr Retry"
    by (auto simp: decide_def split: sum.splits)
  from d have "trim_space (da_abort_reason (dr_attempts run ! i)) = []"
    by (auto simp: decide_attempt_def split: if_splits)
  with i d show ?thesis by (elim decide_attempt_Retry) auto
qed

definition retry_example_run :: drun where
  "retry_example_run =
     \<lparr>dr_attempts = [\<lparr>da_phase = ''verify'', da_conclusion = ''failure'',
        da_verification = Some \<lparr>v_status = ''fail'', v_reasons = [], v_failure = None\<rparr>,
        da_abort_reason = []\<rparr>],
      dr_cost = Fin 3, dr_budget = default_budget\<rparr>"

definition retry_example_workflow :: dworkflow where
  "retry_example_workflow =
     [\<lparr>dp_name = ''verify'', dp_verify = True, dp_evidence_gate = False,
       dp_purpose = ''verification'',
       dp_recycle = Some \<lparr>rp_max_attempts = 2, rp_on = [''verify_fail'']\<rparr>\<rparr>]"

lemma decide_retry_headroom_witness:
  "decide retry_example_run retry_example_workflow None = Inr Retry \<and>
   (\<exists>i a spec rp. deciding_index retry_example_run None = Inr i \<and>
     a = dr_attempts retry_example_run ! i \<and>
     phase_by_name retry_example_workflow (da_phase a) = Some spec \<and> dp_recycle spec = Some rp \<and>
     attempts_in_phase (dr_attempts retry_example_run) (da_phase a) < rp_max_attempts rp \<and>
     \<not> over_budget retry_example_run \<and> trim_space (da_abort_reason a) = [])"
proof -
  have "decide retry_example_run retry_example_workflow None = Inr Retry"
    by (simp add: decide_def deciding_index_def decide_attempt_def decide_verify_def over_budget_def
        trigger_for_attempt_def retry_example_run_def retry_example_workflow_def default_budget_def)
  from this decide_retry_headroom [OF this] show ?thesis by blast
qed

text \<open>
  The engine reads the typed verdict, never the executor's exit state alone: a verify phase
  that is not followed by an evidence gate advances only on a verification that passed.
\<close>

theorem decide_advance_needs_verdict:
  assumes "decide run wkf idx = Inr Advance"
    and "deciding_index run idx = Inr i"
    and "phase_by_name wkf (da_phase (dr_attempts run ! i)) = Some spec"
    and "dp_verify spec" and "\<not> dp_evidence_gate spec"
    and "\<forall>nxt. next_phase_after wkf (dp_name spec) = Some nxt \<longrightarrow> \<not> dp_evidence_gate nxt"
  shows "\<exists>v. da_verification (dr_attempts run ! i) = Some v \<and> v_status v = ''pass''"
proof -
  have "decide_attempt run wkf (dr_attempts run ! i) = Inr (decide_verify run spec (dr_attempts run ! i))"
    if "trim_space (da_abort_reason (dr_attempts run ! i)) = []"
    using assms(3-6) that by (auto simp: decide_attempt_def split: option.splits)
  then have "decide_verify run spec (dr_attempts run ! i) = Advance"
    using assms(1,2) by (auto simp: decide_def decide_attempt_def split: if_splits)
  then show ?thesis
    by (auto simp: decide_verify_def Let_def split: if_splits option.splits)
qed

definition pass_example_run :: drun where
  "pass_example_run =
     retry_example_run\<lparr>dr_attempts := map (\<lambda>a. a\<lparr>da_verification :=
        Some \<lparr>v_status = ''pass'', v_reasons = [], v_failure = None\<rparr>\<rparr>)
        (dr_attempts retry_example_run)\<rparr>"

lemma decide_advance_needs_verdict_witness:
  "decide pass_example_run retry_example_workflow None = Inr Advance \<and>
   (\<exists>v. da_verification (dr_attempts pass_example_run ! 0) = Some v \<and> v_status v = ''pass'')"
proof -
  let ?spec = "hd retry_example_workflow"
  have d: "decide pass_example_run retry_example_workflow None = Inr Advance"
    and i: "deciding_index pass_example_run None = Inr 0"
    and p: "phase_by_name retry_example_workflow (da_phase (dr_attempts pass_example_run ! 0)) = Some ?spec"
    and v: "dp_verify ?spec" and g: "\<not> dp_evidence_gate ?spec"
    and n: "\<forall>nxt. next_phase_after retry_example_workflow (dp_name ?spec) = Some nxt \<longrightarrow>
              \<not> dp_evidence_gate nxt"
    by (simp_all add: decide_def deciding_index_def decide_attempt_def decide_verify_def
        pass_example_run_def retry_example_run_def retry_example_workflow_def)
  from d decide_advance_needs_verdict [OF d i p v g n] show ?thesis by blast
qed

text \<open>
  A run is aborted on request exactly when the attempt being decided carries a non-blank
  abort reason, whatever the workflow, the budget or the verification say.
\<close>

theorem decide_abort_requested_iff:
  "decide run wkf idx = Inr AbortRequested \<longleftrightarrow>
     (\<exists>i. deciding_index run idx = Inr i \<and>
          trim_space (da_abort_reason (dr_attempts run ! i)) \<noteq> [])"
proof -
  have "decide_attempt run wkf a = Inr AbortRequested \<longleftrightarrow> trim_space (da_abort_reason a) \<noteq> []" for a
    by (auto simp: decide_attempt_def decide_gate_def decide_plain_def decide_verify_def Let_def
        split: option.splits)
  then show ?thesis by (auto simp: decide_def split: sum.splits)
qed

text \<open>
  The engine fails in exactly three ways: there is no attempt, the given index is out of
  range, or the attempt's phase is not in the workflow and no abort was requested. On every
  other input it returns a decision.
\<close>

theorem decide_error_iff:
  "decide run wkf idx = Inl e \<longleftrightarrow>
     deciding_index run idx = Inl e \<or>
     (\<exists>i. deciding_index run idx = Inr i \<and>
        trim_space (da_abort_reason (dr_attempts run ! i)) = [] \<and>
        phase_by_name wkf (da_phase (dr_attempts run ! i)) = None \<and>
        e = PhaseNotInWorkflow (da_phase (dr_attempts run ! i)))"
proof -
  have "decide_attempt run wkf a = Inl e \<longleftrightarrow>
      trim_space (da_abort_reason a) = [] \<and> phase_by_name wkf (da_phase a) = None \<and>
      e = PhaseNotInWorkflow (da_phase a)" for a
    by (auto simp: decide_attempt_def split: option.splits)
  then show ?thesis by (auto simp: decide_def split: sum.splits)
qed

text \<open>
  A budget label whose number parses as not-a-number is accepted (the guard
  \<open>total <= 0\<close> is false for NaN), and under that budget the cost ceiling never stops the
  run, at any cost.
\<close>

theorem budget_nan_label_disables_ceiling:
  assumes "pf ''nan'' = Some NaN"
  shows "resolve_budget pf [''agent-budget:nan''] dflt = \<lparr>total = NaN\<rparr> \<and>
     decide (run\<lparr>dr_budget := resolve_budget pf [''agent-budget:nan''] dflt\<rparr>) wkf idx
       \<noteq> Inr AbortBudgetCost"
proof -
  have b: "resolve_budget pf [''agent-budget:nan''] dflt = \<lparr>total = NaN\<rparr>"
    using assms by (simp add: parse_budget_label_def label_prefix_def trim_prefix_def)
  have "\<not> over_budget (run\<lparr>dr_budget := \<lparr>total = NaN\<rparr>\<rparr>)"
    by (simp add: over_budget_def)
  then have "decide_attempt (run\<lparr>dr_budget := \<lparr>total = NaN\<rparr>\<rparr>) wkf a \<noteq> Inr AbortBudgetCost" for a
    by (auto simp: decide_attempt_def decide_gate_def decide_plain_def decide_verify_def Let_def
        split: option.splits)
  with b show ?thesis by (auto simp: decide_def split: sum.splits)
qed

lemma budget_nan_label_witness:
  "resolve_budget (\<lambda>s. if s = ''nan'' then Some NaN else None) [''agent-budget:nan''] None
     = \<lparr>total = NaN\<rparr>"
  using budget_nan_label_disables_ceiling
    [of "\<lambda>s. if s = ''nan'' then Some NaN else None" None retry_example_run retry_example_workflow None]
  by simp

text \<open>
  An abort is explained by the primary phase: the explained attempt is on a primary phase
  (or one the workflow lacks) whenever any attempt is, and no such attempt comes after it.
\<close>

theorem explanation_primary:
  assumes "dr_attempts run = before @ a # after"
    and "(case phase_by_name wkf (da_phase a) of None \<Rightarrow> True | Some p \<Rightarrow> dphase_is_primary p)"
    and "\<forall>b \<in> set after. \<exists>p. phase_by_name wkf (da_phase b) = Some p \<and> \<not> dphase_is_primary p"
  shows "primary_attempt run wkf = Some a"
proof -
  let ?P = "\<lambda>a. case phase_by_name wkf (da_phase a) of None \<Rightarrow> True | Some p \<Rightarrow> dphase_is_primary p"
  have "find ?P (rev after) = None"
    using assms(3) by (auto simp: find_None_iff)
  then have "find ?P (rev (dr_attempts run)) = Some a"
    using assms(1,2) by (simp add: find_append)
  then show ?thesis by (simp add: primary_attempt_def)
qed

lemma explanation_primary_witness:
  "primary_attempt retry_example_run retry_example_workflow
     = Some (hd (dr_attempts retry_example_run))"
  by (rule explanation_primary [where before = "[]" and after = "[]"])
    (simp_all add: retry_example_run_def retry_example_workflow_def dphase_is_primary_def)

end
