(* ===== verification/WhenExpr.thy ===== *)
theory WhenExpr
  imports GoText
begin

text \<open>
  The closed condition grammar of phase and job \<open>when\<close> fields
  (\<open>internal/domain/whenexpr/whenexpr.go\<close>): parsing, registration-time validation and
  evaluation. The two regular expressions are the matchers \<open>match_template\<close> and
  \<open>bare_literal\<close>; their character classes are disjoint from what follows them, so greedy
  matching is the only match. Errors are constructors that carry the arguments of the message.
\<close>

section \<open>Data\<close>

record when_term =
  wt_ref :: string
  wt_value :: string

record when_expr =
  we_literal :: "bool option"
  we_left :: when_term
  we_right :: when_term
  we_negate :: bool
  we_source :: string

record when_context =
  wc_vars :: "string \<rightharpoonup> string"
  wc_inputs :: "string \<rightharpoonup> string"
  wc_preserve :: bool

datatype when_error =
    NoComparison string
  | ManyOperators string
  | EmptyTerm string
  | VarsKeyMissing string
  | InputsKeyMissing string
  | UnknownFact string string
  | UnknownRoot string string
  | MalformedTemplate string string
  | BadLiteral string string

definition run_facts :: "string list" where
  "run_facts = [''preserve_test_env'']"

definition empty_term :: when_term where
  "empty_term = \<lparr>wt_ref = [], wt_value = []\<rparr>"

section \<open>Lexical classes\<close>

definition ident_start :: "char \<Rightarrow> bool" where
  "ident_start c = (is_upper c \<or> is_lower c \<or> c = CHR ''_'')"

definition ident_char :: "char \<Rightarrow> bool" where
  "ident_char c = (is_alnum c \<or> c = CHR ''_'' \<or> c = CHR ''.'' \<or> c = CHR ''-'')"

definition match_template :: "string \<Rightarrow> string option" where
  "match_template raw =
     (if \<not> prefix ''${{'' raw then None
      else (let r = dropWhile re_space (drop 3 raw);
                ident = takeWhile ident_char r;
                rest = dropWhile re_space (dropWhile ident_char r)
            in if ident \<noteq> [] \<and> ident_start (hd ident) \<and> rest = ''}}'' then Some ident else None))"

definition bare_literal :: "string \<Rightarrow> bool" where
  "bare_literal raw = (raw \<noteq> [] \<and> list_all ident_char raw)"

section \<open>Parsing\<close>

definition validate_ref_shape :: "string \<Rightarrow> string \<Rightarrow> when_error option" where
  "validate_ref_shape source ref =
     (if prefix ''vars.'' ref then
        (if trim_prefix ''vars.'' ref = [] then Some (VarsKeyMissing source) else None)
      else if prefix ''inputs.'' ref then
        (if trim_prefix ''inputs.'' ref = [] then Some (InputsKeyMissing source) else None)
      else if prefix ''run.'' ref then
        (let fact = trim_prefix ''run.'' ref
         in if fact \<notin> set run_facts then Some (UnknownFact source fact) else None)
      else Some (UnknownRoot source ref))"

definition quoted :: "string \<Rightarrow> bool" where
  "quoted raw = (prefix [CHR 0x27] raw \<and> suffix [CHR 0x27] raw \<and> 2 \<le> length raw)"

definition parse_term :: "string \<Rightarrow> string \<Rightarrow> (when_error, when_term) res" where
  "parse_term source raw =
     (if raw = [] then Inl (EmptyTerm source)
      else (case match_template raw of
              Some ref \<Rightarrow>
                (case validate_ref_shape source ref of
                   Some e \<Rightarrow> Inl e
                 | None \<Rightarrow> Inr \<lparr>wt_ref = ref, wt_value = []\<rparr>)
            | None \<Rightarrow>
                if quoted raw then Inr \<lparr>wt_ref = [], wt_value = butlast (tl raw)\<rparr>
                else if str_contains raw ''${{'' then Inl (MalformedTemplate source raw)
                else if \<not> bare_literal raw then Inl (BadLiteral source raw)
                else Inr \<lparr>wt_ref = [], wt_value = raw\<rparr>))"

text \<open>The first comparison operator of the text: whether it is \<open>!=\<close>, and where.\<close>

definition find_operator :: "string \<Rightarrow> (bool \<times> nat) option" where
  "find_operator source =
     (case (go_index source ''!='', go_index source ''=='') of
        (None, None) \<Rightarrow> None
      | (Some i, None) \<Rightarrow> Some (True, i)
      | (None, Some j) \<Rightarrow> Some (False, j)
      | (Some i, Some j) \<Rightarrow> if j < i then Some (False, j) else Some (True, i))"

definition when_parse :: "string \<Rightarrow> (when_error, when_expr option) res" where
  "when_parse raw =
     (let source = trim_space raw in
      if source = [] then Inr None
      else if source = ''true'' then
        Inr (Some \<lparr>we_literal = Some True, we_left = empty_term, we_right = empty_term,
                   we_negate = False, we_source = source\<rparr>)
      else if source = ''false'' then
        Inr (Some \<lparr>we_literal = Some False, we_left = empty_term, we_right = empty_term,
                   we_negate = False, we_source = source\<rparr>)
      else (case find_operator source of
              None \<Rightarrow> Inl (NoComparison source)
            | Some (neg, i) \<Rightarrow>
                let left_raw = trim_space (take i source);
                    right_raw = trim_space (drop (i + 2) source)
                in if str_contains right_raw ''=='' \<or> str_contains right_raw ''!=''
                   then Inl (ManyOperators source)
                   else res_bind (parse_term source left_raw) (\<lambda>l.
                        res_bind (parse_term source right_raw) (\<lambda>r.
                        Inr (Some \<lparr>we_literal = None, we_left = l, we_right = r,
                                   we_negate = neg, we_source = source\<rparr>)))))"

section \<open>Validation\<close>

datatype when_reg_error =
    BadExpression string when_error
  | UndeclaredVar string string string
  | UndeclaredInput string string string

definition validate_term ::
  "string \<Rightarrow> string \<Rightarrow> (string \<rightharpoonup> string) \<Rightarrow> string set \<Rightarrow> when_term \<Rightarrow> when_reg_error option" where
  "validate_term location source declared_vars declared_inputs t =
     (if wt_ref t = [] then None
      else if prefix ''vars.'' (wt_ref t) then
        (let key = trim_prefix ''vars.'' (wt_ref t)
         in if declared_vars key = None then Some (UndeclaredVar location source key) else None)
      else if prefix ''inputs.'' (wt_ref t) then
        (let key = trim_prefix ''inputs.'' (wt_ref t)
         in if key \<notin> declared_inputs then Some (UndeclaredInput location source key) else None)
      else None)"

definition when_validate ::
  "string \<Rightarrow> string \<Rightarrow> (string \<rightharpoonup> string) \<Rightarrow> string set \<Rightarrow> when_reg_error option" where
  "when_validate raw location declared_vars declared_inputs =
     (case when_parse raw of
        Inl e \<Rightarrow> Some (BadExpression location e)
      | Inr None \<Rightarrow> None
      | Inr (Some e) \<Rightarrow>
          if we_literal e \<noteq> None then None
          else check_all (validate_term location (we_source e) declared_vars declared_inputs)
                 [we_left e, we_right e])"

section \<open>Evaluation\<close>

definition map_or_empty :: "(string \<rightharpoonup> string) \<Rightarrow> string \<Rightarrow> string" where
  "map_or_empty m k = (case m k of None \<Rightarrow> [] | Some v \<Rightarrow> v)"

definition when_resolve :: "when_term \<Rightarrow> when_context \<Rightarrow> string" where
  "when_resolve t ctx =
     (if wt_ref t = [] then wt_value t
      else if prefix ''vars.'' (wt_ref t)
        then map_or_empty (wc_vars ctx) (trim_prefix ''vars.'' (wt_ref t))
      else if prefix ''inputs.'' (wt_ref t)
        then map_or_empty (wc_inputs ctx) (trim_prefix ''inputs.'' (wt_ref t))
      else if wt_ref t = ''run.preserve_test_env''
        then (if wc_preserve ctx then ''true'' else ''false'')
      else [])"

definition quote_trace :: "when_term \<Rightarrow> string \<Rightarrow> string" where
  "quote_trace t resolved =
     (if wt_ref t \<noteq> []
      then ''${{ '' @ wt_ref t @ '' }}='' @ [CHR 0x27] @ resolved @ [CHR 0x27]
      else [CHR 0x27] @ resolved @ [CHR 0x27])"

definition when_eval :: "when_expr option \<Rightarrow> when_context \<Rightarrow> bool \<times> string" where
  "when_eval eo ctx =
     (case eo of
        None \<Rightarrow> (True, [])
      | Some e \<Rightarrow>
          (case we_literal e of
             Some b \<Rightarrow> (b, we_source e)
           | None \<Rightarrow>
               let l = when_resolve (we_left e) ctx;
                   r = when_resolve (we_right e) ctx;
                   result = (if we_negate e then l \<noteq> r else l = r)
               in (result,
                   we_source e @ '' -> '' @ quote_trace (we_left e) l @ '' '' @
                   (if we_negate e then ''!='' else ''=='') @ '' '' @
                   quote_trace (we_right e) r @ '' -> '' @ (if result then ''true'' else ''false''))))"

section \<open>Lemmas\<close>

text \<open>The references a parsed term can hold.\<close>

definition closed_ref :: "string \<Rightarrow> bool" where
  "closed_ref ref \<longleftrightarrow>
     (\<exists>k. k \<noteq> [] \<and> (ref = ''vars.'' @ k \<or> ref = ''inputs.'' @ k)) \<or> ref = ''run.preserve_test_env''"

lemma validate_ref_shape_closed: "validate_ref_shape source ref = None \<Longrightarrow> closed_ref ref"
  by (auto simp: validate_ref_shape_def closed_ref_def trim_prefix_def prefix_def run_facts_def Let_def
      split: if_splits)

lemma match_template_ne: "match_template raw = Some ref \<Longrightarrow> ref \<noteq> []"
  by (auto simp: match_template_def Let_def split: if_splits)

lemma parse_term_closed:
  "parse_term source raw = Inr t \<Longrightarrow> wt_ref t \<noteq> [] \<Longrightarrow> closed_ref (wt_ref t)"
  by (auto simp: parse_term_def validate_ref_shape_closed split: if_splits option.splits)

lemma when_parse_comparison:
  assumes "when_parse raw = Inr (Some e)" and "we_literal e = None"
  obtains left_raw right_raw where
    "parse_term (trim_space raw) left_raw = Inr (we_left e)"
    and "parse_term (trim_space raw) right_raw = Inr (we_right e)"
    and "we_source e = trim_space raw"
  using assms
  by (auto simp: when_parse_def Let_def res_bind_Inr_iff split: if_splits option.splits prod.splits)

lemma when_parse_closed:
  assumes "when_parse raw = Inr (Some e)" and "we_literal e = None"
    and "t \<in> {we_left e, we_right e}" and "wt_ref t \<noteq> []"
  shows "closed_ref (wt_ref t)"
  using assms by (elim when_parse_comparison) (auto dest: parse_term_closed)

section \<open>Round trip\<close>

text \<open>The canonical text of a term and of a comparison.\<close>

definition show_term :: "when_term \<Rightarrow> string" where
  "show_term t =
     (if wt_ref t \<noteq> [] then ''${{ '' @ wt_ref t @ '' }}'' else [CHR 0x27] @ wt_value t @ [CHR 0x27])"

definition show_comparison :: "when_term \<Rightarrow> bool \<Rightarrow> when_term \<Rightarrow> string" where
  "show_comparison l neg r =
     show_term l @ '' '' @ (if neg then ''!='' else ''=='') @ '' '' @ show_term r"

definition printable_term :: "when_term \<Rightarrow> bool" where
  "printable_term t =
     (if wt_ref t = [] then CHR ''='' \<notin> set (wt_value t)
      else wt_value t = [] \<and> closed_ref (wt_ref t) \<and> list_all ident_char (wt_ref t))"

lemma closed_ref_start: "closed_ref ref \<Longrightarrow> ref \<noteq> [] \<and> ident_start (hd ref)"
  by (auto simp: closed_ref_def ident_start_def char_class_defs)

lemma closed_ref_shape: "closed_ref ref \<Longrightarrow> validate_ref_shape source ref = None"
  by (auto simp: closed_ref_def validate_ref_shape_def trim_prefix_def run_facts_def)

lemma ident_char_not_space: "ident_char c \<Longrightarrow> \<not> re_space c"
  by (auto simp: ident_char_def re_space_def char_class_defs)

lemma match_template_show:
  assumes "list_all ident_char ref" and "ref \<noteq> []" and "ident_start (hd ref)"
  shows "match_template (''${{ '' @ ref @ '' }}'') = Some ref"
proof -
  have sp: "re_space (CHR '' '')" "\<not> re_space (CHR ''}'')" "\<not> ident_char (CHR '' '')"
    by (simp_all add: re_space_def ident_char_def char_class_defs)
  have "\<not> re_space (hd ref)"
    using assms by (cases ref) (auto simp: ident_char_not_space)
  then have "dropWhile re_space (ref @ '' }}'') = ref @ '' }}''"
    using assms(2) by (cases ref) simp_all
  moreover have "takeWhile ident_char (ref @ '' }}'') = ref"
    using assms(1) sp(3) by (simp add: takeWhile_append2 list_all_iff)
  moreover have "dropWhile ident_char (ref @ '' }}'') = '' }}''"
    using assms(1) sp(3) by (simp add: dropWhile_append2 list_all_iff)
  ultimately show ?thesis using assms sp by (simp add: match_template_def)
qed

lemma parse_term_show: "printable_term t \<Longrightarrow> parse_term source (show_term t) = Inr t"
proof (cases "wt_ref t = []")
  case True
  have "match_template (show_term t) = None"
    using True by (simp add: match_template_def show_term_def)
  moreover have "quoted (show_term t)"
    using True by (simp add: quoted_def show_term_def suffix_def)
  ultimately show ?thesis using True by (simp add: parse_term_def show_term_def)
next
  case False
  assume p: "printable_term t"
  with False have c: "closed_ref (wt_ref t)" and a: "list_all ident_char (wt_ref t)"
    and v: "wt_value t = []"
    by (simp_all add: printable_term_def)
  have "match_template (show_term t) = Some (wt_ref t)"
    using False match_template_show [OF a] closed_ref_start [OF c] by (simp add: show_term_def)
  then show ?thesis
    using c v False by (simp add: parse_term_def closed_ref_shape show_term_def)
qed

lemma show_term_clean: "clean_ends (show_term t)"
  by (simp add: clean_ends_def show_term_def white_heads_def white_lasts_def white_seqs_def)

lemma show_term_no_eq: "printable_term t \<Longrightarrow> CHR ''='' \<notin> set (show_term t)"
  by (auto simp: printable_term_def show_term_def list_all_iff ident_char_def char_class_defs
      split: if_splits)

lemma no_eq_no_operator:
  "CHR ''='' \<notin> set s \<Longrightarrow> \<not> str_contains s ''=='' \<and> \<not> str_contains s ''!=''"
  by (auto simp: str_contains_iff sublist_def)

lemma two_at_drop: "prefix [a, b] (drop i w) \<Longrightarrow> w ! i = a \<and> w ! Suc i = b"
  by (auto simp: prefix_def) (metis nth_via_drop drop_Suc tl_drop list.sel(3))+

lemma find_operator_show:
  assumes "CHR ''='' \<notin> set u" and "CHR ''='' \<notin> set v"
  shows "find_operator (u @ '' '' @ (if neg then ''!='' else ''=='') @ '' '' @ v) = Some (neg, length u + 1)"
proof -
  let ?op = "if neg then ''!='' else ''==''" and ?other = "if neg then ''=='' else ''!=''"
  let ?s = "u @ '' '' @ ?op @ '' '' @ v"
  have nth: "\<And>i. i < length u \<Longrightarrow> u ! i \<noteq> CHR ''=''" using assms(1) by (metis nth_mem)
  have "\<not> prefix ?op (drop i ((u @ '' '') @ ?op @ '' '' @ v))" if i: "i < length (u @ '' '')" for i
  proof
    define w where "w = (u @ '' '') @ ?op @ '' '' @ v"
    assume "prefix ?op (drop i ((u @ '' '') @ ?op @ '' '' @ v))"
    then have "prefix ?op (drop i w)" by (simp only: w_def)
    then have at: "w ! i = ?op ! 0 \<and> w ! Suc i = ?op ! 1"
      by (cases neg) (auto dest: two_at_drop)
    have "w ! i \<noteq> CHR ''=''"
      unfolding w_def using i nth [of i] by (auto simp: nth_append)
    moreover have "w ! Suc i \<noteq> CHR ''=''" if neg
      unfolding w_def using i nth [of "Suc i"] that by (auto simp: nth_append nth_Cons' less_Suc_eq)
    ultimately show False using at by (cases neg) simp_all
  qed
  then have a: "go_index ?s ?op = Some (length u + 1)"
    using go_index_skip [of ?op "?op @ '' '' @ v" "u @ '' ''"] by simp
  have "\<not> sublist ?other ?s"
    using assms by (auto simp: sublist_append sublist_Cons_right prefix_def suffix_def
        Cons_eq_append_conv append_eq_Cons_conv dest: set_mono_sublist split: if_splits)
  then have b: "go_index ?s ?other = None" using go_index_sublist by blast
  show ?thesis using a b by (cases neg) (simp_all add: find_operator_def)
qed

section \<open>Properties\<close>

lemma show_comparison_parts:
  fixes l r :: when_term and neg :: bool
  assumes "printable_term l" and "printable_term r"
  defines "src \<equiv> show_comparison l neg r"
  shows "trim_space src = src" and "find_operator src = Some (neg, length (show_term l) + 1)"
    and "trim_space (take (length (show_term l) + 1) src) = show_term l"
    and "trim_space (drop (length (show_term l) + 3) src) = show_term r"
    and "src \<noteq> ''true''" and "src \<noteq> ''false''" and "src \<noteq> []"
proof -
  have split: "src = show_term l @ ('' '' @ (if neg then ''!='' else ''=='') @ '' '') @ show_term r"
    by (simp add: src_def show_comparison_def)
  have cl: "clean_ends (show_term l)" "clean_ends (show_term r)" by (rule show_term_clean)+
  then have "clean_ends src"
    unfolding split by (intro clean_ends_append) (simp_all add: clean_ends_def)
  then show "trim_space src = src" by simp
  show "find_operator src = Some (neg, length (show_term l) + 1)"
    unfolding src_def show_comparison_def
    by (rule find_operator_show) (rule show_term_no_eq, fact)+
  show "trim_space (take (length (show_term l) + 1) src) = show_term l"
    using cl(1) by (simp add: split clean_trim_after)
  show "trim_space (drop (length (show_term l) + 3) src) = show_term r"
    using cl(2) by (cases neg) (simp_all add: split clean_trim_before)
  have "hd src \<in> {CHR ''$'', CHR 0x27}" by (simp add: split show_term_def)
  then show "src \<noteq> ''true''" "src \<noteq> ''false''" by auto
  show "src \<noteq> []" using cl by (simp add: split clean_ends_def)
qed

lemma when_parse_shown:
  assumes "printable_term l" and "printable_term r"
  shows "when_parse (show_comparison l neg r) =
     Inr (Some \<lparr>we_literal = None, we_left = l, we_right = r, we_negate = neg,
                we_source = show_comparison l neg r\<rparr>)"
proof -
  note parts = show_comparison_parts [OF assms, of neg]
  have "\<not> str_contains (show_term r) ''==''" "\<not> str_contains (show_term r) ''!=''"
    using no_eq_no_operator [OF show_term_no_eq [OF assms(2)]] by simp_all
  then show ?thesis
    using parts assms by (simp add: when_parse_def parse_term_show add.commute [of 2] eval_nat_numeral)
qed

text \<open>
  C39: Printing a comparison and parsing it gives the comparison back: for any two terms that
  are a reference of the closed set or a literal without an equals sign, and either operator.
\<close>

theorem when_parse_show:
  assumes "printable_term l" and "printable_term r"
  shows "when_parse (show_comparison l neg r) =
     Inr (Some \<lparr>we_literal = None, we_left = l, we_right = r, we_negate = neg,
                we_source = show_comparison l neg r\<rparr>)"
  using assms by (rule when_parse_shown)

lemma when_parse_show_witness:
  "when_parse (show_comparison \<lparr>wt_ref = ''vars.kind'', wt_value = []\<rparr> True
                \<lparr>wt_ref = [], wt_value = ''effect''\<rparr>) =
     Inr (Some \<lparr>we_literal = None, we_left = \<lparr>wt_ref = ''vars.kind'', wt_value = []\<rparr>,
       we_right = \<lparr>wt_ref = [], wt_value = ''effect''\<rparr>, we_negate = True,
       we_source = ''${{ vars.kind }} != '' @ [CHR 0x27] @ ''effect'' @ [CHR 0x27]\<rparr>)"
proof -
  let ?l = "\<lparr>wt_ref = ''vars.kind'', wt_value = []\<rparr>"
  let ?r = "\<lparr>wt_ref = [], wt_value = ''effect''\<rparr>"
  have l: "printable_term ?l"
    by (simp add: printable_term_def closed_ref_def ident_char_def char_class_defs)
  have r: "printable_term ?r" by (simp add: printable_term_def)
  show ?thesis
    using when_parse_show [OF l r, of True] by (simp add: show_comparison_def show_term_def)
qed

text \<open>
  A validated condition reads declared keys only: when registration accepts it, two
  contexts that agree on the declared vars, the declared inputs and the preserve flag give the
  same verdict and the same trace.
\<close>

theorem when_eval_reads_declared:
  assumes "when_validate raw location dv di = None" and "when_parse raw = Inr eo"
    and "\<forall>k \<in> dom dv. wc_vars c k = wc_vars d k"
    and "\<forall>k \<in> di. wc_inputs c k = wc_inputs d k"
    and "wc_preserve c = wc_preserve d"
  shows "when_eval eo c = when_eval eo d"
proof (cases eo)
  case (Some e)
  have "when_resolve t c = when_resolve t d"
    if "validate_term location (we_source e) dv di t = None" for t
    using that assms(3-5)
    by (auto simp: validate_term_def when_resolve_def map_or_empty_def Let_def dom_def split: if_splits)
  then show ?thesis
    using assms(1,2) Some by (auto simp: when_validate_def when_eval_def Let_def split: if_splits option.splits)
qed (simp add: when_eval_def)

definition feature_vars :: "string \<rightharpoonup> string" where
  "feature_vars = [''kind'' \<mapsto> ''effect'']"

definition feature_condition :: when_expr where
  "feature_condition =
     \<lparr>we_literal = None, we_left = \<lparr>wt_ref = ''vars.kind'', wt_value = []\<rparr>,
      we_right = \<lparr>wt_ref = [], wt_value = ''effect''\<rparr>, we_negate = True,
      we_source = show_comparison \<lparr>wt_ref = ''vars.kind'', wt_value = []\<rparr> True
                    \<lparr>wt_ref = [], wt_value = ''effect''\<rparr>\<rparr>"

lemma feature_condition_parses: "when_parse (we_source feature_condition) = Inr (Some feature_condition)"
proof -
  have "printable_term \<lparr>wt_ref = ''vars.kind'', wt_value = []\<rparr>"
    by (simp add: printable_term_def closed_ref_def ident_char_def char_class_defs)
  moreover have "printable_term \<lparr>wt_ref = [], wt_value = ''effect''\<rparr>"
    by (simp add: printable_term_def)
  ultimately show ?thesis by (simp add: when_parse_shown feature_condition_def)
qed

lemma when_eval_reads_declared_witness:
  "when_eval (Some feature_condition)
       \<lparr>wc_vars = feature_vars, wc_inputs = Map.empty, wc_preserve = False\<rparr> =
   when_eval (Some feature_condition)
       \<lparr>wc_vars = feature_vars(''other'' \<mapsto> ''x''), wc_inputs = [''i'' \<mapsto> ''y''], wc_preserve = False\<rparr>"
  by (rule when_eval_reads_declared [of "we_source feature_condition" "''phases[0]''" feature_vars "{}"])
    (simp_all add: feature_condition_parses when_validate_def validate_term_def trim_prefix_def
      feature_condition_def [THEN arg_cong, of we_literal] feature_condition_def [THEN arg_cong, of we_left]
      feature_condition_def [THEN arg_cong, of we_right] feature_vars_def)

end
