(* ===== verification/PhaseRefs.thy ===== *)
theory PhaseRefs
  imports GoText "HOL-Library.Multiset"
begin

text \<open>
  Cross-phase input references (\<open>internal/domain/phaserefs/phaserefs.go\<close>):
  \<open>${{ phases.NAME.outputs.KEY }}\<close> parsed, validated when a workflow is registered and
  resolved when a phase is dispatched. A phase's inputs are a Go map; the model keeps them as
  an association list in the order the \<open>range\<close> loop visits them, so that the first error
  of a loop is the error returned and independence of the order is a theorem.
\<close>

section \<open>Data\<close>

record phase_ref =
  ref_phase :: string
  ref_key :: string

record ref_phase_spec =
  rf_name :: string
  rf_inputs :: "(string \<times> string) list"
  rf_outputs :: "string list"

datatype ref_error =
    InvalidRef string string string
  | SelfRef string string
  | PhaseNotEarlier string string string
  | OutputNotDeclared string string string string "string list"
  | MalformedRef string string string
  | NoCapturedOutputs string string string
  | OutputNotPosted string string string string "string list"

section \<open>Parsing\<close>

definition ref_char :: "char \<Rightarrow> bool" where
  "ref_char c = (is_alnum c \<or> c = CHR ''_'' \<or> c = CHR ''-'')"

definition expect :: "string \<Rightarrow> string \<Rightarrow> string option" where
  "expect p s = (if prefix p s then Some (drop (length p) s) else None)"

definition ref_name :: "string \<Rightarrow> (string \<times> string) option" where
  "ref_name s =
     (let n = takeWhile ref_char s in if n = [] then None else Some (n, dropWhile ref_char s))"

definition parse_ref :: "string \<Rightarrow> phase_ref option" where
  "parse_ref value =
     Option.bind (expect ''${{'' (dropWhile re_space value)) (\<lambda>s1.
     Option.bind (expect ''phases.'' (dropWhile re_space s1)) (\<lambda>s2.
     Option.bind (ref_name s2) (\<lambda>(name, s3).
     Option.bind (expect ''.outputs.'' s3) (\<lambda>s4.
     Option.bind (ref_name s4) (\<lambda>(key, s5).
     Option.bind (expect ''}}'' (dropWhile re_space s5)) (\<lambda>s6.
     if list_all re_space s6 then Some \<lparr>ref_phase = name, ref_key = key\<rparr> else None))))))"

section \<open>Validation\<close>

type_synonym declared = "string \<rightharpoonup> string set"

definition output_set :: "string list \<Rightarrow> string set" where
  "output_set outputs = set outputs"

definition sorted_names :: "string set \<Rightarrow> string list" where
  "sorted_names names = sorted_list_of_set names"

definition validate_input ::
  "declared \<Rightarrow> ref_phase_spec \<Rightarrow> string \<times> string \<Rightarrow> ref_error option" where
  "validate_input decl p nv =
     (case parse_ref (snd nv) of
        None \<Rightarrow> Some (InvalidRef (rf_name p) (fst nv) (snd nv))
      | Some r \<Rightarrow>
          if ref_phase r = rf_name p then Some (SelfRef (rf_name p) (fst nv))
          else (case decl (ref_phase r) of
                  None \<Rightarrow> Some (PhaseNotEarlier (rf_name p) (fst nv) (ref_phase r))
                | Some outs \<Rightarrow>
                    if ref_key r \<notin> outs
                    then Some (OutputNotDeclared (rf_name p) (fst nv) (ref_phase r) (ref_key r)
                                (sorted_names outs))
                    else None))"

definition declare_phase :: "ref_phase_spec \<Rightarrow> declared \<Rightarrow> declared" where
  "declare_phase p decl = decl(rf_name p \<mapsto> output_set (rf_outputs p))"

fun validate_from :: "declared \<Rightarrow> ref_phase_spec list \<Rightarrow> ref_error option" where
  "validate_from decl [] = None"
| "validate_from decl (p # ps) =
     (case check_all (validate_input decl p) (rf_inputs p) of
        Some e \<Rightarrow> Some e
      | None \<Rightarrow> validate_from (declare_phase p decl) ps)"

definition validate_refs :: "ref_phase_spec list \<Rightarrow> ref_error option" where
  "validate_refs phases = validate_from Map.empty phases"

section \<open>Substitution\<close>

definition resolve_input ::
  "ref_phase_spec \<Rightarrow> (string \<rightharpoonup> (string \<times> string) list) \<Rightarrow> (string \<Rightarrow> bool) \<Rightarrow> string \<times> string
     \<Rightarrow> (ref_error, string) res" where
  "resolve_input p prior skipped nv =
     (case parse_ref (snd nv) of
        None \<Rightarrow> Inl (MalformedRef (rf_name p) (fst nv) (snd nv))
      | Some r \<Rightarrow>
          (case prior (ref_phase r) of
             None \<Rightarrow>
               if skipped (ref_phase r) then Inr []
               else Inl (NoCapturedOutputs (rf_name p) (fst nv) (ref_phase r))
           | Some outs \<Rightarrow>
               (case map_of outs (ref_key r) of
                  None \<Rightarrow>
                    if skipped (ref_phase r) then Inr []
                    else Inl (OutputNotPosted (rf_name p) (fst nv) (ref_phase r) (ref_key r)
                               (sorted_names (set (map fst outs))))
                | Some v \<Rightarrow> Inr v)))"

fun substitute_loop ::
  "(string \<times> string \<Rightarrow> (ref_error, string) res) \<Rightarrow> (string \<times> string) list \<Rightarrow> (string \<rightharpoonup> string)
     \<Rightarrow> (ref_error, string \<rightharpoonup> string) res" where
  "substitute_loop f [] resolved = Inr resolved"
| "substitute_loop f (nv # nvs) resolved =
     (case f nv of
        Inl e \<Rightarrow> Inl e
      | Inr v \<Rightarrow> substitute_loop f nvs (resolved(fst nv \<mapsto> v)))"

definition substitute ::
  "ref_phase_spec \<Rightarrow> (string \<rightharpoonup> (string \<times> string) list) \<Rightarrow> (string \<Rightarrow> bool)
     \<Rightarrow> (ref_error, string \<rightharpoonup> string) res" where
  "substitute p prior skipped =
     substitute_loop (resolve_input p prior skipped) (rf_inputs p) Map.empty"

section \<open>Lemmas\<close>

text \<open>What validation has checked of one input.\<close>

lemma validate_input_None:
  "validate_input decl p nv = None \<longleftrightarrow>
     (\<exists>r outs. parse_ref (snd nv) = Some r \<and> ref_phase r \<noteq> rf_name p \<and>
        decl (ref_phase r) = Some outs \<and> ref_key r \<in> outs)"
  by (auto simp: validate_input_def split: option.splits)

definition declared_before :: "ref_phase_spec list \<Rightarrow> nat \<Rightarrow> declared" where
  "declared_before phases i = fold declare_phase (take i phases) Map.empty"

lemma validate_from_iff:
  "validate_from decl phases = None \<longleftrightarrow>
     (\<forall>i < length phases. \<forall>nv \<in> set (rf_inputs (phases ! i)).
        validate_input (fold declare_phase (take i phases) decl) (phases ! i) nv = None)"
proof (induction phases arbitrary: decl)
  case (Cons p ps)
  have "validate_from decl (p # ps) = None \<longleftrightarrow>
      (\<forall>nv \<in> set (rf_inputs p). validate_input decl p nv = None) \<and>
      validate_from (declare_phase p decl) ps = None"
    by (cases "check_all (validate_input decl p) (rf_inputs p)")
      (auto simp del: check_all_None simp: check_all_None [symmetric])
  then show ?case by (simp add: Cons.IH All_less_Suc2)
qed simp

lemma declared_before_Some:
  "fold declare_phase ps decl n = Some outs \<Longrightarrow>
     decl n = Some outs \<or> (\<exists>p \<in> set ps. rf_name p = n \<and> outs = set (rf_outputs p))"
proof (induction ps arbitrary: decl)
  case (Cons p ps)
  then have "declare_phase p decl n = Some outs \<or> (\<exists>q \<in> set ps. rf_name q = n \<and> outs = set (rf_outputs q))"
    by simp
  then show ?case by (auto simp: declare_phase_def output_set_def split: if_splits)
qed simp

lemma substitute_loop_ok:
  "(\<forall>nv \<in> set nvs. \<exists>v. f nv = Inr v) \<Longrightarrow>
     \<exists>m. substitute_loop f nvs resolved = Inr m \<and> dom m = dom resolved \<union> fst ` set nvs"
proof (induction nvs arbitrary: resolved)
  case (Cons nv nvs)
  then obtain v where "f nv = Inr v" by auto
  moreover from Cons.prems obtain m where
    "substitute_loop f nvs (resolved(fst nv \<mapsto> v)) = Inr m"
    and "dom m = dom (resolved(fst nv \<mapsto> v)) \<union> fst ` set nvs"
    using Cons.IH [of "resolved(fst nv \<mapsto> v)"] by (auto simp del: fun_upd_apply)
  ultimately show ?case by simp
qed simp

lemma substitute_loop_Inr:
  "substitute_loop f nvs resolved = Inr m \<Longrightarrow> \<forall>nv \<in> set nvs. \<exists>v. f nv = Inr v"
  by (induction nvs arbitrary: resolved) (auto split: sum.splits)

lemma substitute_loop_value:
  "substitute_loop f nvs resolved = Inr m \<Longrightarrow> distinct (map fst nvs) \<Longrightarrow>
     m k = (case map_of nvs k of Some v \<Rightarrow> (case f (k, v) of Inr w \<Rightarrow> Some w | Inl _ \<Rightarrow> None)
            | None \<Rightarrow> resolved k)"
proof (induction nvs arbitrary: resolved)
  case (Cons nv nvs)
  obtain n v where nv: "nv = (n, v)" by (cases nv)
  from Cons.prems obtain w where w: "f (n, v) = Inr w"
    and rest: "substitute_loop f nvs (resolved(n \<mapsto> w)) = Inr m"
    by (auto simp: nv split: sum.splits)
  have "map_of nvs n = None"
    using Cons.prems(2) by (simp add: nv map_of_eq_None_iff)
  with Cons.IH [OF rest] Cons.prems(2) w show ?case
    by (auto simp: nv split: option.split)
qed simp

section \<open>Properties\<close>

text \<open>The canonical text of a reference.\<close>

definition show_ref :: "phase_ref \<Rightarrow> string" where
  "show_ref r = ''${{ phases.'' @ ref_phase r @ ''.outputs.'' @ ref_key r @ '' }}''"

definition ref_named :: "string \<Rightarrow> bool" where
  "ref_named n = (n \<noteq> [] \<and> list_all ref_char n)"

lemma ref_name_append:
  "ref_named n \<Longrightarrow> \<not> ref_char c \<Longrightarrow> ref_name (n @ c # s) = Some (n, c # s)"
  by (simp add: ref_name_def ref_named_def list_all_iff takeWhile_append2 dropWhile_append2)

lemma parse_shown_ref:
  assumes "ref_named (ref_phase r)" and "ref_named (ref_key r)"
  shows "parse_ref (show_ref r) = Some r"
proof -
  have "\<not> ref_char (CHR ''.'')" "\<not> ref_char (CHR '' '')"
    by (simp_all add: ref_char_def char_class_defs)
  note names = ref_name_append [OF assms(1) this(1), of "''outputs.'' @ ref_key r @ '' }}''"]
    ref_name_append [OF assms(2) this(2), of "''}}''"]
  then show ?thesis
    by (simp add: parse_ref_def show_ref_def expect_def re_space_def)
qed

text \<open>
  A reference printed in its canonical form parses back to the same phase and key, for
  every phase and key name the grammar allows.
\<close>

theorem parse_ref_show:
  assumes "ref_named (ref_phase r)" and "ref_named (ref_key r)"
  shows "parse_ref (show_ref r) = Some r"
  using assms by (rule parse_shown_ref)

lemma parse_ref_show_witness:
  "parse_ref ''${{ phases.plan.outputs.branch_name }}'' =
     Some \<lparr>ref_phase = ''plan'', ref_key = ''branch_name''\<rparr>"
  using parse_ref_show [of "\<lparr>ref_phase = ''plan'', ref_key = ''branch_name''\<rparr>"]
  by (simp add: ref_named_def ref_char_def char_class_defs show_ref_def)

definition posted_outputs :: "(string \<rightharpoonup> (string \<times> string) list) \<Rightarrow> string \<Rightarrow> string set" where
  "posted_outputs prior n = (case prior n of None \<Rightarrow> {} | Some outs \<Rightarrow> fst ` set outs)"

lemma resolve_posted:
  assumes valid: "validate_refs phases = None" and i: "i < length phases"
    and posted: "\<forall>j < i. skipped (rf_name (phases ! j)) \<or>
      set (rf_outputs (phases ! j)) \<subseteq> posted_outputs prior (rf_name (phases ! j))"
    and nv: "nv \<in> set (rf_inputs (phases ! i))"
  shows "\<exists>v. resolve_input (phases ! i) prior skipped nv = Inr v"
proof -
  from valid i nv obtain r outs where r: "parse_ref (snd nv) = Some r"
    and decl: "fold declare_phase (take i phases) Map.empty (ref_phase r) = Some outs"
    and key: "ref_key r \<in> outs"
    unfolding validate_refs_def validate_from_iff validate_input_None by blast
  from declared_before_Some [OF decl] obtain p where "p \<in> set (take i phases)"
    and name: "rf_name p = ref_phase r" and outs: "outs = set (rf_outputs p)"
    by auto
  then obtain j where "j < i" and "phases ! j = p"
    by (auto simp: in_set_conv_nth)
  from posted [rule_format, OF \<open>j < i\<close>] have
    "skipped (ref_phase r) \<or> outs \<subseteq> posted_outputs prior (ref_phase r)"
    unfolding \<open>phases ! j = p\<close> name outs .
  then have "skipped (ref_phase r) \<or> ref_key r \<in> posted_outputs prior (ref_phase r)"
    using key by auto
  then have "skipped (ref_phase r) \<or> (\<exists>m. prior (ref_phase r) = Some m \<and> map_of m (ref_key r) \<noteq> None)"
    by (auto simp: posted_outputs_def map_of_eq_None_iff split: option.splits)
  with r show ?thesis by (auto simp: resolve_input_def split: option.split)
qed

lemma substitute_posted:
  assumes "validate_refs phases = None" and "i < length phases"
    and "\<forall>j < i. skipped (rf_name (phases ! j)) \<or>
      set (rf_outputs (phases ! j)) \<subseteq> posted_outputs prior (rf_name (phases ! j))"
  shows "\<exists>m. substitute (phases ! i) prior skipped = Inr m \<and> dom m = fst ` set (rf_inputs (phases ! i))"
  using substitute_loop_ok [of "rf_inputs (phases ! i)" "resolve_input (phases ! i) prior skipped" Map.empty]
    resolve_posted [OF assms]
  by (simp add: substitute_def)

text \<open>
  Registration is what dispatch relies on: in a workflow that validates, the inputs of a
  phase resolve without an error whenever every earlier phase either posted all the outputs it
  declares or was (partly) skipped, and every input gets a value.
\<close>

theorem substitute_after_validate:
  assumes "validate_refs phases = None" and "i < length phases"
    and "\<forall>j < i. skipped (rf_name (phases ! j)) \<or>
      set (rf_outputs (phases ! j)) \<subseteq> posted_outputs prior (rf_name (phases ! j))"
  shows "\<exists>m. substitute (phases ! i) prior skipped = Inr m \<and>
     dom m = fst ` set (rf_inputs (phases ! i))"
  using assms by (rule substitute_posted)

definition two_phase_workflow :: "ref_phase_spec list" where
  "two_phase_workflow =
     [\<lparr>rf_name = ''plan'', rf_inputs = [], rf_outputs = [''branch'']\<rparr>,
      \<lparr>rf_name = ''impl'',
       rf_inputs = [(''base'', show_ref \<lparr>ref_phase = ''plan'', ref_key = ''branch''\<rparr>)],
       rf_outputs = []\<rparr>]"

lemma two_phase_ref:
  "parse_ref (show_ref \<lparr>ref_phase = ''plan'', ref_key = ''branch''\<rparr>) =
     Some \<lparr>ref_phase = ''plan'', ref_key = ''branch''\<rparr>"
  by (rule parse_shown_ref) (simp_all add: ref_named_def ref_char_def char_class_defs)

lemma two_phase_valid: "validate_refs two_phase_workflow = None"
  by (simp add: validate_refs_def two_phase_workflow_def validate_input_def two_phase_ref
      declare_phase_def output_set_def)

lemma substitute_after_validate_witness:
  "\<exists>m. substitute (two_phase_workflow ! 1) [''plan'' \<mapsto> [(''branch'', ''main'')]] (\<lambda>_. False) = Inr m \<and>
     dom m = {''base''}"
proof -
  have "\<exists>m. substitute (two_phase_workflow ! 1) [''plan'' \<mapsto> [(''branch'', ''main'')]] (\<lambda>_. False) = Inr m \<and>
     dom m = fst ` set (rf_inputs (two_phase_workflow ! 1))"
    by (rule substitute_after_validate [OF two_phase_valid]) (simp_all add: two_phase_workflow_def posted_outputs_def)
  then show ?thesis by (simp add: two_phase_workflow_def)
qed

text \<open>
  Go visits the inputs of a phase in any order; the resolved inputs do not depend on it.
  Two visits of the same inputs both fail or both give the same map.
\<close>

theorem substitute_order_independent:
  assumes "mset (rf_inputs p) = mset (rf_inputs q)" and "rf_name p = rf_name q"
    and "distinct (map fst (rf_inputs p))"
  shows "is_ok (substitute p prior skipped) = is_ok (substitute q prior skipped) \<and>
     (\<forall>m n. substitute p prior skipped = Inr m \<longrightarrow> substitute q prior skipped = Inr n \<longrightarrow> m = n)"
proof -
  have sets: "set (rf_inputs p) = set (rf_inputs q)"
    using assms(1) by (rule mset_eq_setD)
  have "mset (map fst (rf_inputs p)) = mset (map fst (rf_inputs q))"
    using assms(1) by simp
  then have dq: "distinct (map fst (rf_inputs q))"
    using assms(3) mset_eq_imp_distinct_iff by blast
  have res: "resolve_input p prior skipped = resolve_input q prior skipped"
    unfolding resolve_input_def assms(2) by (rule refl)
  have mp: "map_of (rf_inputs p) = map_of (rf_inputs q)"
    using assms(3) dq sets by (rule map_of_inject_set [THEN iffD2])
  have ok: "is_ok (substitute s prior skipped) \<longleftrightarrow>
      (\<forall>nv \<in> set (rf_inputs s). \<exists>v. resolve_input s prior skipped nv = Inr v)" for s
    unfolding is_ok_iff substitute_def
    using substitute_loop_ok substitute_loop_Inr by meson
  have "m = n" if "substitute p prior skipped = Inr m" "substitute q prior skipped = Inr n" for m n
    using substitute_loop_value [OF that(1) [unfolded substitute_def] assms(3)]
      substitute_loop_value [OF that(2) [unfolded substitute_def] dq]
    by (intro ext) (simp only: res mp)
  then show ?thesis using ok [of p] ok [of q] sets res by auto
qed

lemma substitute_order_witness:
  "is_ok (substitute \<lparr>rf_name = ''c'', rf_inputs = [(''x'', ''1''), (''y'', ''2'')], rf_outputs = []\<rparr>
      Map.empty (\<lambda>_. True)) =
   is_ok (substitute \<lparr>rf_name = ''c'', rf_inputs = [(''y'', ''2''), (''x'', ''1'')], rf_outputs = []\<rparr>
      Map.empty (\<lambda>_. True))"
  using substitute_order_independent
    [of "\<lparr>rf_name = ''c'', rf_inputs = [(''x'', ''1''), (''y'', ''2'')], rf_outputs = []\<rparr>"
        "\<lparr>rf_name = ''c'', rf_inputs = [(''y'', ''2''), (''x'', ''1'')], rf_outputs = []\<rparr>"
        Map.empty "\<lambda>_. True"]
  by simp

end
