(* ===== verification/RunTypes.thy ===== *)
theory RunTypes
  imports Decision WhenExpr PhaseRefs
begin

text \<open>
  The workflow and the run as the server routes them: the phase and job specification
  (\<open>internal/server/read_api.go\<close>), the run and attempt data
  (\<open>internal/server/replay_api.go\<close>), the classification of phases
  (\<open>internal/server/completion_api.go\<close>, \<open>workflow_write_api.go\<close>) and the view of them
  the decision engine is given. A record holds the fields that routing, registration and
  dispatch read. A Go map is an association list in iteration order; a nil map is
  \<open>None\<close> where the code tells it from an empty one.
\<close>

section \<open>Workflow\<close>

record checkout_spec =
  ck_repo :: string
  ck_ref :: string

text \<open>Of the agent configuration of a step only the slot is kept, of a dynamic group the item limit.\<close>

record step_spec =
  ss_slug :: string
  ss_primitive :: string
  ss_type :: string
  ss_run :: string
  ss_agent :: "string option"
  ss_group :: string
  ss_dynamic :: "int option"

record job_spec =
  js_id :: string
  js_primitive :: string
  js_command :: "string list"
  js_args :: "string list"
  js_steps :: "step_spec list"
  js_timeout :: "int option"
  js_managed :: bool
  js_checkout :: "checkout_spec option"
  js_extra_checkouts :: "checkout_spec list"
  js_when :: string
  js_tools :: "string list"

record recycle_policy =
  rc_max_attempts :: int
  rc_on :: "string list"
  rc_lands_at :: string

record phase_spec =
  ps_name :: string
  ps_kind :: string
  ps_run_on :: string
  ps_purpose :: string
  ps_workflow_filename :: string
  ps_workflow_ref :: string
  ps_inputs :: "(string \<times> string) list"
  ps_outputs :: "string list"
  ps_verify :: bool
  ps_recycle :: "recycle_policy option"
  ps_always :: bool
  ps_gate :: bool
  ps_depends_on :: "string list"
  ps_jobs :: "job_spec list"
  ps_when :: string
  ps_skip_preserve :: bool

record workflow =
  wf_name :: string
  wf_schema_ref :: string
  wf_phases :: "phase_spec list"
  wf_budget :: budget_config
  wf_vars :: "string \<rightharpoonup> string"

section \<open>Run\<close>

record run_failure =
  fl_expected :: string
  fl_observed :: string
  fl_where :: string
  fl_suspected_cause :: string
  fl_cause_detail :: string

record run_verification =
  rv_status :: string
  rv_reasons :: "string list"
  rv_failure :: "run_failure option"
  rv_evidence_refs :: "string list"

record attempt_data =
  at_index :: int
  at_phase :: string
  at_conclusion :: string
  at_verification :: "run_verification option"
  at_decision :: string
  at_completed :: bool
  at_carry_forward :: bool
  at_outputs :: "(string \<times> string) list option"
  at_has_skipped_jobs :: bool

record prior_verification =
  pv_phase :: string
  pv_verification :: run_verification

record run_data =
  rd_id :: string
  rd_project :: string
  rd_workflow_name :: string
  rd_schema_ref :: string
  rd_attempts :: "attempt_data list"
  rd_cost :: gofloat
  rd_budget :: budget_config
  rd_issue_number :: int
  rd_run_cycle :: "int option"
  rd_display :: "string option"
  rd_pr_number :: "int option"
  rd_slot_lease :: "string option"
  rd_entrypoint :: "string option"
  rd_inputs :: "string \<rightharpoonup> string"
  rd_preserve :: bool
  rd_state :: string
  rd_prior :: "prior_verification option"

section \<open>Classification of phases\<close>

definition valid_phase_run_on :: "string \<Rightarrow> bool" where
  "valid_phase_run_on v = (v \<in> set [''success'', ''failure'', ''always''])"

definition valid_phase_purpose :: "string \<Rightarrow> bool" where
  "valid_phase_purpose v =
     (v \<in> set [''work'', ''verification'', ''evidence_gate'', ''teardown'', ''review'', ''review_gate''])"

definition phase_has_primitive :: "phase_spec \<Rightarrow> string \<Rightarrow> bool" where
  "phase_has_primitive p primitive = list_ex (\<lambda>j. trim_space (js_primitive j) = primitive) (ps_jobs p)"

definition phase_purpose :: "phase_spec \<Rightarrow> string" where
  "phase_purpose p =
     (let v = trim_space (ps_purpose p) in
      if valid_phase_purpose v then v
      else if ps_gate p then ''evidence_gate''
      else if phase_has_primitive p ''pr_review'' then ''review''
      else if ps_verify p then ''verification''
      else ''work'')"

definition phase_run_on :: "phase_spec \<Rightarrow> string" where
  "phase_run_on p =
     (let v = trim_space (ps_run_on p) in
      if valid_phase_run_on v then v
      else if phase_purpose p = ''teardown'' then ''always''
      else ''success'')"

definition phase_is_primary :: "phase_spec \<Rightarrow> bool" where
  "phase_is_primary p = (phase_purpose p \<notin> set [''teardown'', ''review'', ''review_gate''])"

definition phase_runs_on_success_path :: "phase_spec \<Rightarrow> bool" where
  "phase_runs_on_success_path p = (phase_run_on p = ''success'' \<or> phase_run_on p = ''always'')"

definition phase_runs_on_abort_path :: "phase_spec \<Rightarrow> bool" where
  "phase_runs_on_abort_path p =
     (phase_purpose p = ''teardown'' \<and> (phase_run_on p = ''failure'' \<or> phase_run_on p = ''always''))"

definition phase_spec_by_name :: "phase_spec list \<Rightarrow> string \<Rightarrow> phase_spec option" where
  "phase_spec_by_name phases name = find (\<lambda>p. ps_name p = name) phases"

definition workflow_entry_phase :: "phase_spec list \<Rightarrow> phase_spec option" where
  "workflow_entry_phase phases = find (\<lambda>p. ps_depends_on p = []) phases"

definition workflow_phase_kind :: "string \<Rightarrow> string" where
  "workflow_phase_kind kind = (let k = trim_space kind in if k = [] then ''k8s_job'' else k)"

definition valid_workflow_kind :: "string \<Rightarrow> bool" where
  "valid_workflow_kind kind = (workflow_phase_kind kind = ''k8s_job'')"

section \<open>The view of the decision engine\<close>

definition decision_recycle :: "recycle_policy \<Rightarrow> drecycle_policy" where
  "decision_recycle rp = \<lparr>rp_max_attempts = rc_max_attempts rp, rp_on = rc_on rp\<rparr>"

definition decision_phase :: "phase_spec \<Rightarrow> dphase_spec" where
  "decision_phase p =
     \<lparr>dp_name = ps_name p, dp_verify = ps_verify p, dp_evidence_gate = ps_gate p,
      dp_purpose = phase_purpose p, dp_recycle = map_option decision_recycle (ps_recycle p)\<rparr>"

definition decision_workflow :: "phase_spec list \<Rightarrow> dworkflow" where
  "decision_workflow phases = map decision_phase phases"

definition decision_failure :: "run_failure \<Rightarrow> verification_failure" where
  "decision_failure f =
     \<lparr>vf_expected = fl_expected f, vf_observed = fl_observed f, vf_where = fl_where f,
      vf_suspected_cause = fl_suspected_cause f, vf_cause_detail = fl_cause_detail f\<rparr>"

definition decision_verification :: "run_verification \<Rightarrow> verification" where
  "decision_verification v =
     \<lparr>v_status = rv_status v, v_reasons = rv_reasons v, v_failure = map_option decision_failure (rv_failure v)\<rparr>"

text \<open>Indexing a Go map gives the empty string for a missing key, also of a nil map.\<close>

definition output_of :: "(string \<times> string) list option \<Rightarrow> string \<Rightarrow> string" where
  "output_of outputs k =
     (case outputs of None \<Rightarrow> [] | Some m \<Rightarrow> (case map_of m k of None \<Rightarrow> [] | Some v \<Rightarrow> v))"

definition decision_attempt :: "attempt_data \<Rightarrow> dattempt" where
  "decision_attempt a =
     \<lparr>da_phase = at_phase a, da_conclusion = at_conclusion a,
      da_verification = map_option decision_verification (at_verification a),
      da_abort_reason = output_of (at_outputs a) ''abort_reason''\<rparr>"

definition display_ordinal :: "run_data \<Rightarrow> int" where
  "display_ordinal run =
     (case rd_display run of
        None \<Rightarrow> 1
      | Some d \<Rightarrow>
          (case split_on (CHR ''.'') (trim_space d) of
             [_, q] \<Rightarrow> (case atoi q of Some m \<Rightarrow> if 0 < m then m else 1 | None \<Rightarrow> 1)
           | _ \<Rightarrow> 1))"

definition run_cycle_ordinal :: "run_data \<Rightarrow> int" where
  "run_cycle_ordinal run =
     (case rd_run_cycle run of
        Some n \<Rightarrow> if 0 < n then n else display_ordinal run
      | None \<Rightarrow> display_ordinal run)"

definition prior_cycle_attempt :: "string \<Rightarrow> dattempt" where
  "prior_cycle_attempt phase =
     \<lparr>da_phase = phase, da_conclusion = ''failure'', da_verification = None, da_abort_reason = []\<rparr>"

definition decision_attempts :: "run_data \<Rightarrow> dattempt list" where
  "decision_attempts run =
     (let attempts = map decision_attempt (rd_attempts run); n = run_cycle_ordinal run in
      if n \<le> 1 \<or> attempts = [] then attempts
      else replicate (nat (n - 1)) (prior_cycle_attempt (da_phase (last attempts))) @ attempts)"

lemma run_cycle_ordinal_pos: "1 \<le> run_cycle_ordinal run"
  by (auto simp: run_cycle_ordinal_def display_ordinal_def split: option.splits list.splits)

section \<open>Verdicts of attempts\<close>

definition is_abort_decision :: "string \<Rightarrow> bool" where
  "is_abort_decision v =
     (v \<in> set (map decision_str [AbortBudgetAttempts, AbortBudgetCost, AbortMalformed, AbortRequested]))"

definition in_flight :: "attempt_data \<Rightarrow> bool" where
  "in_flight a = (\<not> at_completed a \<and> at_decision a = [])"

definition has_in_flight_attempts :: "run_data \<Rightarrow> bool" where
  "has_in_flight_attempts run = list_ex in_flight (rd_attempts run)"

definition latest_abort_decision :: "run_data \<Rightarrow> string option" where
  "latest_abort_decision run =
     map_option at_decision (find (\<lambda>a. is_abort_decision (at_decision a)) (rev (rd_attempts run)))"

definition run_has_abort_decision :: "run_data \<Rightarrow> bool" where
  "run_has_abort_decision run = (latest_abort_decision run \<noteq> None)"

definition attempted_phases :: "run_data \<Rightarrow> string set" where
  "attempted_phases run = at_phase ` set (rd_attempts run)"

text \<open>The latest attempt of a phase decides whether the phase has advanced.\<close>

definition latest_attempt :: "run_data \<Rightarrow> string \<Rightarrow> attempt_data option" where
  "latest_attempt run phase = find (\<lambda>a. at_phase a = phase) (rev (rd_attempts run))"

definition attempt_advanced :: "attempt_data \<Rightarrow> bool" where
  "attempt_advanced a =
     (if at_decision a = decision_str Advance then True
      else if is_abort_decision (at_decision a) then False
      else at_decision a = [] \<and> at_completed a \<and> is_advance_conclusion (at_conclusion a))"

definition completed_advance :: "run_data \<Rightarrow> string \<Rightarrow> bool" where
  "completed_advance run phase =
     (case latest_attempt run phase of None \<Rightarrow> False | Some a \<Rightarrow> attempt_advanced a)"

end
