(* ===== verification/GoValue.thy ===== *)
theory GoValue
  imports GoText "HOL-Library.AList"
begin

text \<open>
  Untyped values, \<open>any\<close> and \<open>map[string]any\<close>: what \<open>encoding/json\<close> decodes
  into and what the code stores before it encodes. A Go \<open>int\<close> put into a map is a
  \<open>VInt\<close>; a decoded number is a \<open>VNum\<close> (a finite \<open>float64\<close>). Encoding and
  decoding turns the first into the second (\<open>reload\<close>); integers of magnitude up to
  \<open>2^53\<close> survive it. The accessors are those of \<open>internal/server/value_helpers.go\<close>
  and of \<open>internal/store/store/postgres.go\<close>.
\<close>

datatype goval =
    VNull | VBool bool | VInt int | VNum rat | VStr string
  | VList "goval list" | VMap "(string \<times> goval) list"

type_synonym vmap = "(string \<times> goval) list"

abbreviation vget :: "vmap \<Rightarrow> string \<Rightarrow> goval option" where
  "vget m k \<equiv> map_of m k"

abbreviation vset :: "string \<Rightarrow> goval \<Rightarrow> vmap \<Rightarrow> vmap" where
  "vset k v m \<equiv> AList.update k v m"

lemma vget_vset: "vget (vset k v m) j = (if j = k then Some v else vget m j)"
  by (simp add: update_conv')

text \<open>The zero value of \<open>any\<close> for a missing key is nil.\<close>

definition vget_any :: "vmap \<Rightarrow> string \<Rightarrow> goval" where
  "vget_any m k = (case vget m k of None \<Rightarrow> VNull | Some v \<Rightarrow> v)"

lemma vget_any_vset [simp]: "vget_any (vset k v m) j = (if j = k then v else vget_any m j)"
  by (simp add: vget_any_def update_conv')

fun reload :: "goval \<Rightarrow> goval" where
  "reload (VInt n) = VNum (of_int n)"
| "reload (VList vs) = VList (map reload vs)"
| "reload (VMap m) = VMap (map (\<lambda>(k, v). (k, reload v)) m)"
| "reload v = v"

definition reload_map :: "vmap \<Rightarrow> vmap" where
  "reload_map m = map (\<lambda>(k, v). (k, reload v)) m"

lemma reload_idem: "reload (reload v) = reload v"
  by (induction v rule: reload.induct) (auto simp: case_prod_beta)

lemma vget_reload_map: "vget (reload_map m) k = map_option reload (vget m k)"
  unfolding reload_map_def by (simp add: map_of_map)

lemma vget_any_reload: "vget_any (reload_map m) k = reload (vget_any m k)"
  by (simp add: vget_any_def vget_reload_map split: option.split)

lemma reload_map_vset: "reload_map (vset k v m) = vset k (reload v) (reload_map m)"
  by (induction m) (auto simp: reload_map_def)

section \<open>Accessors\<close>

fun bool_value :: "goval \<Rightarrow> bool" where
  "bool_value (VBool b) = b"
| "bool_value _ = False"

fun string_value :: "goval \<Rightarrow> string" where
  "string_value (VStr s) = s"
| "string_value _ = []"

definition string_from_map :: "vmap \<Rightarrow> string \<Rightarrow> string option" where
  "string_from_map m k = (let s = string_value (vget_any m k) in if s = [] then None else Some s)"

definition bool_from_map :: "vmap \<Rightarrow> string \<Rightarrow> bool" where
  "bool_from_map m k = bool_value (vget_any m k)"

text \<open>
  \<open>int(f)\<close> truncates towards zero. A float beyond the range of \<open>int\<close> converts to an
  implementation-specific value; it is taken as the most negative one, as on amd64.
\<close>

definition go_trunc :: "rat \<Rightarrow> int" where
  "go_trunc q = (let n = (if 0 \<le> q then \<lfloor>q\<rfloor> else \<lceil>q\<rceil>) in
                 if int64_ok n then n else - (2 ^ 63))"

lemma go_trunc_of_int [simp]: "int64_ok n \<Longrightarrow> go_trunc (of_int n) = n"
  by (simp add: go_trunc_def)

definition at_least_one :: "int \<Rightarrow> int option" where
  "at_least_one n = (if n < 1 then None else Some n)"

text \<open>\<open>positiveIntFromMap\<close> (server): truncates a float, does not trim a text.\<close>

fun positive_int_any :: "goval \<Rightarrow> int option" where
  "positive_int_any (VInt n) = at_least_one n"
| "positive_int_any (VNum q) = at_least_one (go_trunc q)"
| "positive_int_any (VStr s) = (case atoi s of None \<Rightarrow> None | Some n \<Rightarrow> at_least_one n)"
| "positive_int_any _ = None"

definition positive_int_from_map :: "vmap \<Rightarrow> string \<Rightarrow> int option" where
  "positive_int_from_map m k = positive_int_any (vget_any m k)"

text \<open>\<open>positiveIntValue\<close> (store): refuses a fraction, trims a text.\<close>

fun positive_int_value :: "goval \<Rightarrow> int option" where
  "positive_int_value (VInt n) = at_least_one n"
| "positive_int_value (VNum q) =
     (if q = of_int (go_trunc q) then at_least_one (go_trunc q) else None)"
| "positive_int_value (VStr s) =
     (case atoi (trim_space s) of None \<Rightarrow> None | Some n \<Rightarrow> at_least_one n)"
| "positive_int_value _ = None"

text \<open>
  \<open>intFromAny\<close> (store): 0 for what is not a number, and for digits beyond the range of
  \<open>int\<close> the nearest integer, which \<open>strconv.Atoi\<close> returns with its error.
\<close>

definition nearest_int :: "string \<Rightarrow> int" where
  "nearest_int s =
     (case atoi s of
        Some n \<Rightarrow> n
      | None \<Rightarrow>
          (let neg = (s \<noteq> [] \<and> hd s = CHR ''-'');
               ds = (if s \<noteq> [] \<and> (hd s = CHR ''-'' \<or> hd s = CHR ''+'') then tl s else s) in
           if ds = [] \<or> \<not> list_all is_digit ds then 0
           else if neg then - (2 ^ 63) else 2 ^ 63 - 1))"

fun int_from_any :: "goval \<Rightarrow> int" where
  "int_from_any (VInt n) = n"
| "int_from_any (VNum q) = go_trunc q"
| "int_from_any (VStr s) = nearest_int (trim_space s)"
| "int_from_any _ = 0"

definition first_non_empty :: "string \<Rightarrow> string \<Rightarrow> string" where
  "first_non_empty a b = (if a \<noteq> [] then a else b)"

fun any_map_value :: "goval \<Rightarrow> vmap" where
  "any_map_value (VMap m) = m"
| "any_map_value _ = []"

fun any_slice_value :: "goval \<Rightarrow> goval list" where
  "any_slice_value (VList vs) = vs"
| "any_slice_value _ = []"

fun value_has_meaning :: "goval \<Rightarrow> bool" where
  "value_has_meaning VNull = False"
| "value_has_meaning (VStr s) = (trim_space s \<noteq> [])"
| "value_has_meaning _ = True"

lemma positive_int_texts:
  "1 \<le> n \<Longrightarrow> int64_ok n \<Longrightarrow> positive_int_any (VStr (itoa n)) = Some n"
  "1 \<le> n \<Longrightarrow> int64_ok n \<Longrightarrow> positive_int_value (VStr (itoa n)) = Some n"
  by (simp_all add: atoi_itoa at_least_one_def trim_space_digits itoa_nonneg_digits)

lemma string_value_reload [simp]: "string_value (reload v) = string_value v"
  by (cases v) simp_all

lemma bool_value_reload [simp]: "bool_value (reload v) = bool_value v"
  by (cases v) simp_all

text \<open>Both readings of an integer survive the store when it fits a Go \<open>int\<close>.\<close>

lemma positive_int_reload:
  assumes "\<And>n. v = VInt n \<Longrightarrow> int64_ok n"
  shows "positive_int_any (reload v) = positive_int_any v"
    and "positive_int_value (reload v) = positive_int_value v"
  using assms by (cases v; simp)+

end
