(* ===== verification/Registration.thy ===== *)
theory Registration
  imports RunTypes GoValue
begin

text \<open>
  What registration accepts (\<open>ValidateWorkflowRegister\<close> and its helpers in
  \<open>internal/server/workflow_write_api.go\<close>): the checks in the order of the source, each
  with its own error. A row of guards is \<open>first_error\<close>, a loop whose body may fail
  \<open>check_all\<close> or, where it looks back at what it has visited, \<open>check_prefix\<close>. The
  counters of the main loop are read only after it, so they are counts over the phases.
  The parameter \<open>wide\<close> decides the non-ASCII agent slot names that \<open>unicode.IsLower\<close>
  and \<open>unicode.IsDigit\<close> accept.
\<close>

record dispatch_input =
  di_name :: string
  di_required :: bool
  di_default :: string

record workflow_register =
  wr_name :: string
  wr_phases :: "phase_spec list"
  wr_shape :: string
  wr_max_cases :: int
  wr_vars :: "(string \<times> string) list"
  wr_inputs :: "dispatch_input list"
  wr_budget :: budget_config
  wr_pr :: "recycle_policy option"
  wr_metadata :: vmap

text \<open>The errors, grouped by the part of the workflow they are about.\<close>

datatype input_error =
    InputUnnamed nat
  | InputNameInvalid nat string
  | InputDuplicate nat string
  | InputNoDefault nat string
  | UndeclaredPhaseRef string string
  | UndeclaredCheckoutRef string string string
  | UndeclaredExtraRef string string nat string
  | VarEmpty
  | VarInvalid string
  | GitRefMissing
  | GitRefOptional
  | GitRefNoDefault
  | CheckoutRefWrong string string string
  | WorkflowRefWrong string string

datatype verify_error =
    BadShape string
  | BadMaxCases int
  | MaxCasesRequired
  | SingleJobCount
  | SingleJobUnnamed
  | FinalizerCount string
  | FinalizerNotLast string
  | CaseJobCount int
  | CaseJobId nat string
  | CaseNoTimeout string
  | CaseTimeoutHigh string int
  | DynamicJobCount
  | DynamicSplit string string
  | DynamicNoGroup string string
  | DynamicMaxItems string string int
  | DynamicManyGroups string string string
  | DynamicInconsistent string string
  | DynamicNone string

datatype step_error =
    StepDuplicate nat
  | StepPrimitiveUnmanaged string
  | UnknownStepPrimitive string
  | AgentUnmanaged
  | RunMissing
  | RunWithAgent
  | AgentWithRun
  | AgentMissing
  | AgentSlotBad string
  | BadStepType string

datatype job_error =
    JobDuplicate nat
  | CheckoutRepo string
  | ReviewJobPurpose
  | ReviewJobRunOn
  | MergeJobPurpose
  | UnknownJobPrimitive string
  | ManagedWithCommand
  | ToolsNotManaged
  | ToolEmpty
  | ToolDuplicate string
  | ToolUnknown string
  | TimeoutLow int
  | TimeoutHigh int
  | StepUnnamed nat
  | InStep string step_error
  | JobWhenOnGate string
  | BadJobCondition when_reg_error

datatype phase_error =
    PhaseDuplicate nat
  | BadRunOn string
  | BadPurpose string
  | RetiredField string
  | VerifyPurpose
  | NoRecyclePolicy
  | InVerification verify_error
  | PurposeNeedsVerify
  | TeardownRunOn
  | TeardownInputs
  | RunOnNeedsTeardown string string
  | NameForPurpose string
  | WhenOnGate string
  | WhenOnEntry
  | BadCondition when_reg_error
  | AllJobsConditional
  | GateVerify
  | GateRunOn
  | GateEvidence
  | GateRecycle
  | GateJobs
  | JobUnnamed nat
  | InJob string job_error
  | ReviewWithoutJob
  | EntryName
  | EntryDepends
  | DependsCount
  | DependsWrong string

datatype reg_error =
    NoPhases
  | BadKind string
  | InInputs input_error
  | InConstraints verify_error
  | PhaseUnnamed nat
  | InPhase string phase_error
  | MissingParts "string list"
  | ManyVerify nat
  | ManyReviewGates nat
  | ManyReviewJobs nat
  | BadRefs ref_error

section \<open>Inputs and variables\<close>

definition input_name_rest :: "char \<Rightarrow> bool" where
  "input_name_rest c = (is_alnum c \<or> c = CHR ''_'' \<or> c = CHR ''-'')"

definition input_name_start :: "char \<Rightarrow> bool" where
  "input_name_start c = (is_upper c \<or> is_lower c \<or> c = CHR ''_'')"

definition run_input_name :: "string \<Rightarrow> bool" where
  "run_input_name s = (case s of [] \<Rightarrow> False | c # cs \<Rightarrow> input_name_start c \<and> list_all input_name_rest cs)"

definition run_input_ref :: "string \<Rightarrow> string option" where
  "run_input_ref value =
     Option.bind (expect ''${{'' (dropWhile re_space value)) (\<lambda>s1.
     Option.bind (expect ''inputs.'' (dropWhile re_space s1)) (\<lambda>s2.
     let name = takeWhile input_name_rest s2 in
     if \<not> run_input_name name then None
     else Option.bind (expect ''}}'' (dropWhile re_space (dropWhile input_name_rest s2))) (\<lambda>s3.
       if list_all re_space s3 then Some name else None)))"

definition check_input :: "dispatch_input list \<Rightarrow> dispatch_input \<Rightarrow> input_error option" where
  "check_input before inp =
     (let name = trim_space (di_name inp); i = length before in
      first_error
        [reject (name = []) (InputUnnamed i),
         reject (\<not> run_input_name name) (InputNameInvalid i (di_name inp)),
         reject (name \<in> set (map (trim_space \<circ> di_name) before)) (InputDuplicate i name),
         reject (\<not> di_required inp \<and> trim_space (di_default inp) = []) (InputNoDefault i name)])"

definition validate_dispatch_inputs :: "dispatch_input list \<Rightarrow> input_error option" where
  "validate_dispatch_inputs inputs = check_prefix check_input [] inputs"

definition declared_inputs :: "dispatch_input list \<Rightarrow> string set" where
  "declared_inputs inputs = set (map (trim_space \<circ> di_name) inputs)"

definition check_ref :: "string set \<Rightarrow> (string \<Rightarrow> input_error) \<Rightarrow> string \<Rightarrow> input_error option" where
  "check_ref declared err value =
     (case run_input_ref value of None \<Rightarrow> None | Some key \<Rightarrow> reject (key \<notin> declared) (err key))"

definition check_job_refs :: "string set \<Rightarrow> string \<Rightarrow> job_spec \<Rightarrow> input_error option" where
  "check_job_refs declared ph j =
     first_error
       [(case js_checkout j of None \<Rightarrow> None
         | Some ck \<Rightarrow> check_ref declared (UndeclaredCheckoutRef ph (js_id j)) (ck_ref ck)),
        check_prefix (\<lambda>before ck. check_ref declared (UndeclaredExtraRef ph (js_id j) (length before)) (ck_ref ck))
          [] (js_extra_checkouts j)]"

definition validate_input_refs :: "phase_spec list \<Rightarrow> string set \<Rightarrow> input_error option" where
  "validate_input_refs phases declared =
     check_all (\<lambda>p. first_error
       [check_ref declared (UndeclaredPhaseRef (ps_name p)) (ps_workflow_ref p),
        check_all (check_job_refs declared (ps_name p)) (ps_jobs p)]) phases"

definition validate_vars :: "(string \<times> string) list \<Rightarrow> input_error option" where
  "validate_vars vars =
     check_all (\<lambda>(key, _). let name = trim_space key in
       first_error [reject (name = []) VarEmpty, reject (\<not> run_input_name name) (VarInvalid key)]) vars"

section \<open>Constraints of the verification phase\<close>

definition infer_shape :: "phase_spec list \<Rightarrow> string" where
  "infer_shape phases =
     (case find ps_verify phases of
        None \<Rightarrow> ''single_job''
      | Some p \<Rightarrow>
          (case ps_jobs p of
             [j] \<Rightarrow> if list_ex (\<lambda>s. ss_dynamic s \<noteq> None) (js_steps j) then ''dynamic_step_group'' else ''single_job''
           | _ \<Rightarrow> ''bounded_case_jobs''))"

definition canonical_shape :: "workflow_register \<Rightarrow> string" where
  "canonical_shape reg =
     (let shape = trim_space (wr_shape reg) in if shape = [] then infer_shape (wr_phases reg) else shape)"

definition canonical_max_cases :: "workflow_register \<Rightarrow> int" where
  "canonical_max_cases reg =
     (if canonical_shape reg = ''bounded_case_jobs'' \<and> wr_max_cases reg = 0 then 10 else wr_max_cases reg)"

definition validate_constraints :: "string \<Rightarrow> int \<Rightarrow> verify_error option" where
  "validate_constraints shape max_cases =
     first_error
       [reject (shape \<notin> set [''single_job'', ''bounded_case_jobs'', ''dynamic_step_group'']) (BadShape shape),
        reject (max_cases < 0 \<or> 10 < max_cases) (BadMaxCases max_cases),
        reject (shape = ''bounded_case_jobs'' \<and> max_cases = 0) MaxCasesRequired]"

definition is_finalizer :: "step_spec \<Rightarrow> bool" where
  "is_finalizer s = (trim_space (ss_primitive s) = ''verification_finalize'')"

definition validate_single_job :: "phase_spec \<Rightarrow> verify_error option" where
  "validate_single_job p =
     (case ps_jobs p of
        [j] \<Rightarrow>
          first_error
            [reject (trim_space (js_id j) = []) SingleJobUnnamed,
             reject (length (filter is_finalizer (js_steps j)) \<noteq> 1) (FinalizerCount (js_id j)),
             reject (\<not> is_finalizer (last (js_steps j))) (FinalizerNotLast (js_id j))]
      | _ \<Rightarrow> Some SingleJobCount)"

text \<open>\<open>verify-case-%02d\<close>\<close>

definition case_job_id :: "nat \<Rightarrow> string" where
  "case_job_id i = ''verify-case-'' @ (if i < 10 then ''0'' else []) @ itoa (int i)"

definition check_case_job :: "job_spec list \<Rightarrow> job_spec \<Rightarrow> verify_error option" where
  "check_case_job before j =
     first_error
       [reject (trim_space (js_id j) \<noteq> case_job_id (Suc (length before))) (CaseJobId (length before) (js_id j)),
        (case js_timeout j of
           None \<Rightarrow> Some (CaseNoTimeout (js_id j))
         | Some t \<Rightarrow> reject (600 < t) (CaseTimeoutHigh (js_id j) t))]"

definition validate_case_jobs :: "phase_spec \<Rightarrow> int \<Rightarrow> verify_error option" where
  "validate_case_jobs p max_cases =
     first_error
       [reject (int (length (ps_jobs p)) \<noteq> max_cases) (CaseJobCount max_cases),
        check_prefix (check_case_job) [] (ps_jobs p)]"

text \<open>
  The dynamic steps form one block with one group and one limit. \<open>grp\<close> is empty until the
  block has started.
\<close>

fun dynamic_block :: "string \<Rightarrow> string \<Rightarrow> int \<Rightarrow> bool \<Rightarrow> bool \<Rightarrow> step_spec list \<Rightarrow> verify_error option" where
  "dynamic_block job grp limit started shut [] = reject (\<not> started) (DynamicNone job)"
| "dynamic_block job grp limit started shut (s # ss) =
     (case ss_dynamic s of
        None \<Rightarrow> dynamic_block job grp limit started (shut \<or> started) ss
      | Some items \<Rightarrow>
          let g = trim_space (ss_group s) in
          if shut then Some (DynamicSplit job grp)
          else if g = [] then Some (DynamicNoGroup job (ss_slug s))
          else if items < 1 \<or> 10 < items then Some (DynamicMaxItems job (ss_slug s) items)
          else if grp = [] then dynamic_block job g items True shut ss
          else if g \<noteq> grp then Some (DynamicManyGroups job grp g)
          else if items \<noteq> limit then Some (DynamicInconsistent job grp)
          else dynamic_block job grp limit True shut ss)"

definition validate_dynamic_job :: "phase_spec \<Rightarrow> verify_error option" where
  "validate_dynamic_job p =
     (case ps_jobs p of
        [j] \<Rightarrow> dynamic_block (js_id j) [] 0 False False (js_steps j)
      | _ \<Rightarrow> Some DynamicJobCount)"

definition validate_verification_job :: "phase_spec \<Rightarrow> string \<Rightarrow> int \<Rightarrow> verify_error option" where
  "validate_verification_job p shape max_cases =
     (if shape = ''single_job'' then validate_single_job p
      else if shape = ''bounded_case_jobs'' then validate_case_jobs p max_cases
      else if shape = ''dynamic_step_group'' then validate_dynamic_job p
      else Some (BadShape shape))"

section \<open>Jobs\<close>

definition runner_tools :: "string list" where
  "runner_tools = [''upload_evidence'', ''capture_video'', ''capture_screenshot'']"

definition is_catalog_tool :: "string \<Rightarrow> bool" where
  "is_catalog_tool name = (name \<in> set runner_tools)"

definition check_tool :: "string list \<Rightarrow> string \<Rightarrow> job_error option" where
  "check_tool before raw =
     (let tool = trim_space raw in
      first_error
        [reject (tool = []) ToolEmpty,
         reject (tool \<in> set (map trim_space before)) (ToolDuplicate tool),
         reject (\<not> is_catalog_tool tool) (ToolUnknown tool)])"

definition ascii :: "char \<Rightarrow> bool" where
  "ascii c = (byte_of c < 128)"

definition ident_byte :: "char \<Rightarrow> bool" where
  "ident_byte c = (is_lower c \<or> is_digit c \<or> c \<in> set ''-_.'')"

definition valid_ident :: "(string \<Rightarrow> bool) \<Rightarrow> string \<Rightarrow> bool" where
  "valid_ident wide value =
     (let v = trim_space value in
      if v = [] then False else if list_all ascii v then list_all ident_byte v else wide v)"

definition validate_agent_slot :: "(string \<Rightarrow> bool) \<Rightarrow> string \<Rightarrow> step_error option" where
  "validate_agent_slot wide raw =
     (let v = trim_space raw in
      if v = [] then None else reject (\<not> valid_ident wide v) (AgentSlotBad v))"

definition check_step :: "(string \<Rightarrow> bool) \<Rightarrow> bool \<Rightarrow> step_spec \<Rightarrow> step_error option" where
  "check_step wide managed s =
     (let prim = trim_space (ss_primitive s);
          ty = (let t = trim_space (ss_type s) in if t = [] then ''run'' else t)
      in if prim \<noteq> [] then
           first_error
             [reject (\<not> managed) (StepPrimitiveUnmanaged prim),
              reject (prim \<noteq> ''verification_finalize'') (UnknownStepPrimitive prim)]
         else if \<not> managed then reject (ty = ''agent'') AgentUnmanaged
         else if ty = ''run'' then
           first_error
             [reject (trim_space (ss_run s) = []) RunMissing, reject (ss_agent s \<noteq> None) RunWithAgent]
         else if ty = ''agent'' then
           first_error
             [reject (trim_space (ss_run s) \<noteq> []) AgentWithRun,
              (case ss_agent s of None \<Rightarrow> Some AgentMissing | Some slot \<Rightarrow> validate_agent_slot wide slot)]
         else Some (BadStepType ty))"

definition check_steps :: "(string \<Rightarrow> bool) \<Rightarrow> bool \<Rightarrow> step_spec list \<Rightarrow> step_spec \<Rightarrow> job_error option" where
  "check_steps wide managed before s =
     (let slug = trim_space (ss_slug s) in
      if slug = [] then Some (StepUnnamed (length before))
      else map_option (InStep slug)
        (first_error
          [map_option StepDuplicate (index_of slug (map (trim_space \<circ> ss_slug) before)),
           check_step wide managed s]))"

definition validate_runner_job :: "(string \<Rightarrow> bool) \<Rightarrow> job_spec \<Rightarrow> job_error option" where
  "validate_runner_job wide j =
     first_error
       [reject (js_managed j \<and> (js_command j \<noteq> [] \<or> js_args j \<noteq> [])) ManagedWithCommand,
        (if js_tools j = [] then None
         else first_error
           [reject (\<not> js_managed j) ToolsNotManaged, check_prefix check_tool [] (js_tools j)]),
        (case js_timeout j of
           None \<Rightarrow> None
         | Some t \<Rightarrow> first_error [reject (t < 60) (TimeoutLow t), reject (21600 < t) (TimeoutHigh t)]),
        check_prefix (check_steps wide (js_managed j)) [] (js_steps j)]"

definition check_job_primitive :: "string \<Rightarrow> string \<Rightarrow> job_spec \<Rightarrow> job_error option" where
  "check_job_primitive purpose run_on j =
     (let prim = trim_space (js_primitive j) in
      if prim = [] then None
      else if prim = ''pr_review'' then
        first_error
          [reject (purpose \<noteq> ''review'') ReviewJobPurpose, reject (run_on \<noteq> ''success'') ReviewJobRunOn]
      else if prim = ''pr_merge'' then reject (purpose \<noteq> ''review_gate'') MergeJobPurpose
      else Some (UnknownJobPrimitive (js_primitive j)))"

definition check_job ::
  "(string \<Rightarrow> bool) \<Rightarrow> string \<Rightarrow> string \<Rightarrow> job_spec list \<Rightarrow> job_spec \<Rightarrow> phase_error option" where
  "check_job wide purpose run_on before j =
     (let job_id = trim_space (js_id j) in
      if job_id = [] then Some (JobUnnamed (length before))
      else map_option (InJob job_id)
        (first_error
          [map_option JobDuplicate (index_of job_id (map (trim_space \<circ> js_id) before)),
           check_job_primitive purpose run_on j,
           validate_runner_job wide j]))"

section \<open>Phases\<close>

definition gate_purpose :: "phase_spec \<Rightarrow> bool" where
  "gate_purpose p =
     (ps_verify p \<or> phase_purpose p = ''verification'' \<or> phase_purpose p = ''review_gate'')"

definition conditional_job :: "job_spec \<Rightarrow> bool" where
  "conditional_job j = (trim_space (js_when j) \<noteq> [])"

definition check_job_condition ::
  "(string \<rightharpoonup> string) \<Rightarrow> string set \<Rightarrow> phase_spec \<Rightarrow> job_spec \<Rightarrow> phase_error option" where
  "check_job_condition vars inputs p j =
     (if \<not> conditional_job j then None
      else map_option (InJob (js_id j))
        (first_error
          [reject (gate_purpose p) (JobWhenOnGate (phase_purpose p)),
           map_option BadJobCondition (when_validate (js_when j) (js_id j) vars inputs)]))"

definition check_verification :: "string \<Rightarrow> int \<Rightarrow> phase_spec \<Rightarrow> phase_error option" where
  "check_verification shape max_cases p =
     (if ps_verify p then
        first_error
          [reject (phase_purpose p \<noteq> ''verification'') VerifyPurpose,
           reject (ps_recycle p = None) NoRecyclePolicy,
           map_option InVerification (validate_verification_job p shape max_cases)]
      else reject (phase_purpose p = ''verification'') PurposeNeedsVerify)"

definition check_run_on :: "phase_spec \<Rightarrow> phase_error option" where
  "check_run_on p =
     (if phase_purpose p = ''teardown'' then
        first_error
          [reject (phase_run_on p = ''success'') TeardownRunOn, reject (ps_inputs p \<noteq> []) TeardownInputs]
      else reject (phase_run_on p \<noteq> ''success'') (RunOnNeedsTeardown (phase_purpose p) (phase_run_on p)))"

definition check_condition ::
  "(string \<rightharpoonup> string) \<Rightarrow> string set \<Rightarrow> phase_spec \<Rightarrow> phase_error option" where
  "check_condition vars inputs p =
     (if trim_space (ps_when p) = [] then None
      else first_error
        [reject (gate_purpose p) (WhenOnGate (phase_purpose p)),
         reject (ps_depends_on p = []) WhenOnEntry,
         map_option BadCondition (when_validate (ps_when p) (trim_space (ps_name p)) vars inputs)])"

definition check_review_gate :: "phase_spec \<Rightarrow> phase_error option" where
  "check_review_gate p =
     (if phase_purpose p \<noteq> ''review_gate'' then None
      else first_error
        [reject (ps_verify p) GateVerify,
         reject (phase_run_on p \<noteq> ''success'') GateRunOn,
         reject (ps_gate p) GateEvidence,
         reject (ps_recycle p \<noteq> None) GateRecycle,
         reject (\<not> (case ps_jobs p of [j] \<Rightarrow> trim_space (js_primitive j) = ''pr_merge'' | _ \<Rightarrow> False)) GateJobs])"

definition check_checkout_repo :: "job_spec \<Rightarrow> phase_error option" where
  "check_checkout_repo j =
     (case js_checkout j of
        None \<Rightarrow> None
      | Some ck \<Rightarrow> reject (trim_space (ck_repo ck) \<noteq> []) (InJob (js_id j) (CheckoutRepo (ck_repo ck))))"

definition check_chain :: "phase_spec list \<Rightarrow> phase_spec \<Rightarrow> phase_error option" where
  "check_chain before p =
     (if before = [] then
        first_error
          [reject (trim_space (ps_name p) \<noteq> ''prepare'') EntryName, reject (ps_depends_on p \<noteq> []) EntryDepends]
      else (case ps_depends_on p of
              [dep] \<Rightarrow> reject (dep \<noteq> ps_name (last before)) (DependsWrong (ps_name (last before)))
            | _ \<Rightarrow> Some DependsCount))"

definition check_named_phase ::
  "(string \<Rightarrow> bool) \<Rightarrow> workflow_register \<Rightarrow> phase_spec list \<Rightarrow> phase_spec \<Rightarrow> phase_error option" where
  "check_named_phase wide reg before p =
     (let name = trim_space (ps_name p); purpose = phase_purpose p; run_on = phase_run_on p;
          vars = map_of (wr_vars reg); inputs = declared_inputs (wr_inputs reg)
      in first_error
        [map_option PhaseDuplicate (index_of name (map (trim_space \<circ> ps_name) before)),
         reject (trim_space (ps_run_on p) \<noteq> [] \<and> \<not> valid_phase_run_on (trim_space (ps_run_on p)))
           (BadRunOn (trim_space (ps_run_on p))),
         reject (trim_space (ps_purpose p) \<noteq> [] \<and> \<not> valid_phase_purpose (trim_space (ps_purpose p)))
           (BadPurpose (trim_space (ps_purpose p))),
         reject (ps_always p) (RetiredField ''always''),
         reject (ps_gate p \<or> purpose = ''evidence_gate'') (RetiredField ''evidence_verification_gate''),
         check_verification (canonical_shape reg) (canonical_max_cases reg) p,
         check_run_on p,
         reject (purpose = ''review'' \<and> name \<noteq> ''review'') (NameForPurpose ''review''),
         reject (purpose = ''review_gate'' \<and> name \<noteq> ''review_gate'') (NameForPurpose ''review_gate''),
         reject (ps_skip_preserve p) (RetiredField ''skip_when_preserve_test_env''),
         check_condition vars inputs p,
         check_all (check_job_condition vars inputs p) (ps_jobs p),
         reject (ps_jobs p \<noteq> [] \<and> list_all conditional_job (ps_jobs p)) AllJobsConditional,
         check_review_gate p,
         check_all check_checkout_repo (ps_jobs p),
         check_prefix (check_job wide purpose run_on) [] (ps_jobs p),
         reject (purpose = ''review'' \<and> \<not> phase_has_primitive p ''pr_review'') ReviewWithoutJob,
         check_chain before p])"

definition check_phase ::
  "(string \<Rightarrow> bool) \<Rightarrow> workflow_register \<Rightarrow> phase_spec list \<Rightarrow> phase_spec \<Rightarrow> reg_error option" where
  "check_phase wide reg before p =
     (let name = trim_space (ps_name p) in
      if name = [] then Some (PhaseUnnamed (length before))
      else map_option (InPhase name) (check_named_phase wide reg before p))"

section \<open>The workflow\<close>

definition validate_git_ref_phase :: "phase_spec \<Rightarrow> input_error option" where
  "validate_git_ref_phase p =
     (if list_all (\<lambda>j. js_checkout j = None) (ps_jobs p) then None
      else first_error
        [check_all (\<lambda>j. case js_checkout j of None \<Rightarrow> None
           | Some ck \<Rightarrow> reject (trim_space (ck_ref ck) \<noteq> ''${{ inputs.git_ref }}'')
                         (CheckoutRefWrong (ps_name p) (js_id j) (ck_ref ck))) (ps_jobs p),
         reject (trim_space (ps_workflow_ref p) \<noteq> [] \<and>
                 trim_space (ps_workflow_ref p) \<noteq> ''${{ inputs.git_ref }}'')
           (WorkflowRefWrong (ps_name p) (ps_workflow_ref p))])"

definition validate_git_ref :: "phase_spec list \<Rightarrow> dispatch_input list \<Rightarrow> input_error option" where
  "validate_git_ref phases inputs =
     (if list_all (\<lambda>p. list_all (\<lambda>j. js_checkout j = None) (ps_jobs p)) phases then None
      else (case find (\<lambda>inp. trim_space (di_name inp) = ''git_ref'') inputs of
              None \<Rightarrow> Some GitRefMissing
            | Some inp \<Rightarrow>
                first_error
                  [reject (\<not> di_required inp) GitRefOptional,
                   reject (trim_space (di_default inp) = []) GitRefNoDefault,
                   check_all validate_git_ref_phase phases]))"

definition verify_count :: "phase_spec list \<Rightarrow> nat" where
  "verify_count phases = length (filter ps_verify phases)"

definition review_gate_count :: "phase_spec list \<Rightarrow> nat" where
  "review_gate_count phases = length (filter (\<lambda>p. phase_purpose p = ''review_gate'') phases)"

definition pr_review_jobs :: "phase_spec list \<Rightarrow> nat" where
  "pr_review_jobs phases =
     length (filter (\<lambda>j. trim_space (js_primitive j) = ''pr_review'') (concat (map ps_jobs phases)))"

definition missing_parts :: "phase_spec list \<Rightarrow> string list" where
  "missing_parts phases =
     (if verify_count phases = 0 then [''verify''] else []) @
     (if list_ex (\<lambda>p. phase_purpose p = ''teardown'') phases then [] else [''teardown cleanup'']) @
     (if review_gate_count phases = 0 then [''review_gate phase''] else []) @
     (if pr_review_jobs phases = 0 then [''pr_review primitive''] else [])"

definition check_parts :: "phase_spec list \<Rightarrow> reg_error option" where
  "check_parts phases =
     first_error
       [reject (missing_parts phases \<noteq> []) (MissingParts (missing_parts phases)),
        reject (1 < verify_count phases) (ManyVerify (verify_count phases)),
        reject (1 < review_gate_count phases) (ManyReviewGates (review_gate_count phases)),
        reject (1 < pr_review_jobs phases) (ManyReviewJobs (pr_review_jobs phases))]"

definition registered_ref_spec :: "phase_spec \<Rightarrow> ref_phase_spec" where
  "registered_ref_spec p =
     \<lparr>rf_name = trim_space (ps_name p), rf_inputs = ps_inputs p, rf_outputs = ps_outputs p\<rparr>"

definition validate_workflow_register :: "(string \<Rightarrow> bool) \<Rightarrow> workflow_register \<Rightarrow> reg_error option" where
  "validate_workflow_register wide reg =
     (let phases = wr_phases reg; inputs = wr_inputs reg in
      first_error
        [reject (phases = []) NoPhases,
         check_all (\<lambda>p. reject (\<not> valid_workflow_kind (ps_kind p)) (BadKind (workflow_phase_kind (ps_kind p)))) phases,
         map_option InInputs (validate_dispatch_inputs inputs),
         map_option InInputs (validate_input_refs phases (declared_inputs inputs)),
         map_option InInputs (validate_vars (wr_vars reg)),
         map_option InConstraints (validate_constraints (canonical_shape reg) (canonical_max_cases reg)),
         check_prefix (check_phase wide reg) [] phases,
         check_parts phases,
         map_option BadRefs (validate_refs (map registered_ref_spec phases)),
         map_option InInputs (validate_git_ref phases inputs)])"

section \<open>What an accepted workflow is\<close>

abbreviation registered :: "(string \<Rightarrow> bool) \<Rightarrow> workflow_register \<Rightarrow> bool" where
  "registered wide reg \<equiv> validate_workflow_register wide reg = None"

lemma map_option_None [simp]: "map_option f x = None \<longleftrightarrow> x = None"
  by (cases x) auto

lemma registered_phase:
  assumes "registered wide reg" "i < length (wr_phases reg)"
  shows "check_named_phase wide reg (take i (wr_phases reg)) (wr_phases reg ! i) = None"
    "trim_space (ps_name (wr_phases reg ! i)) \<noteq> []" "valid_workflow_kind (ps_kind (wr_phases reg ! i))"
  using assms
  by (auto simp: validate_workflow_register_def Let_def check_prefix_None check_phase_def
      split: if_splits)

lemmas named_phase_facts = check_named_phase_def Let_def

lemma registered_names:
  assumes "registered wide reg"
  shows "distinct (map (trim_space \<circ> ps_name) (wr_phases reg))"
proof (rule distinct_by_prefix)
  fix i assume "i < length (wr_phases reg)"
  from registered_phase(1) [OF assms this]
  show "(trim_space \<circ> ps_name) (wr_phases reg ! i) \<notin> (trim_space \<circ> ps_name) ` set (take i (wr_phases reg))"
    by (simp add: named_phase_facts)
qed

lemma registered_distinct:
  assumes "registered wide reg"
  shows "distinct (map ps_name (wr_phases reg))"
proof -
  have "distinct (map trim_space (map ps_name (wr_phases reg)))"
    using registered_names [OF assms] by (simp add: comp_def)
  then show ?thesis by (rule distinct_map [THEN iffD1, THEN conjunct1])
qed

lemma registered_member:
  assumes "registered wide reg" "p \<in> set (wr_phases reg)"
  shows "\<not> ps_gate p" "phase_purpose p \<noteq> ''evidence_gate''" "\<not> ps_always p"
    "ps_verify p \<longleftrightarrow> phase_purpose p = ''verification''" "ps_verify p \<Longrightarrow> ps_recycle p \<noteq> None"
    "phase_purpose p \<noteq> ''teardown'' \<Longrightarrow> phase_run_on p = ''success''"
    "phase_purpose p = ''teardown'' \<Longrightarrow> phase_run_on p \<noteq> ''success'' \<and> ps_inputs p = []"
    "gate_purpose p \<Longrightarrow> trim_space (ps_when p) = []"
    "when_validate (ps_when p) (trim_space (ps_name p)) (map_of (wr_vars reg)) (declared_inputs (wr_inputs reg)) = None
      \<or> trim_space (ps_when p) = []"
    "j \<in> set (ps_jobs p) \<Longrightarrow> \<not> conditional_job j \<or>
      when_validate (js_when j) (js_id j) (map_of (wr_vars reg)) (declared_inputs (wr_inputs reg)) = None"
    "valid_workflow_kind (ps_kind p)"
proof -
  from assms(2) obtain i where i: "i < length (wr_phases reg)" "p = wr_phases reg ! i"
    by (auto simp: in_set_conv_nth)
  note c = registered_phase(1) [OF assms(1) i(1), folded i(2), unfolded named_phase_facts, simplified]
  show "\<not> ps_gate p" "phase_purpose p \<noteq> ''evidence_gate''" "\<not> ps_always p" using c by auto
  show "ps_verify p \<longleftrightarrow> phase_purpose p = ''verification''" "ps_verify p \<Longrightarrow> ps_recycle p \<noteq> None"
    using c by (auto simp: check_verification_def split: if_splits)
  show "phase_purpose p \<noteq> ''teardown'' \<Longrightarrow> phase_run_on p = ''success''"
    "phase_purpose p = ''teardown'' \<Longrightarrow> phase_run_on p \<noteq> ''success'' \<and> ps_inputs p = []"
    using c by (auto simp: check_run_on_def)
  show "gate_purpose p \<Longrightarrow> trim_space (ps_when p) = []"
    "when_validate (ps_when p) (trim_space (ps_name p)) (map_of (wr_vars reg)) (declared_inputs (wr_inputs reg)) = None
      \<or> trim_space (ps_when p) = []"
    using c by (auto simp: check_condition_def split: if_splits)
  show "j \<in> set (ps_jobs p) \<Longrightarrow> \<not> conditional_job j \<or>
      when_validate (js_when j) (js_id j) (map_of (wr_vars reg)) (declared_inputs (wr_inputs reg)) = None"
    using c by (auto simp: check_job_condition_def split: if_splits)
  show "valid_workflow_kind (ps_kind p)" using registered_phase(3) [OF assms(1) i(1)] i(2) by simp
qed

end
