(* ===== verification/RunRouting.thy ===== *)
theory RunRouting
  imports RunTypes
begin

text \<open>
  Routing a run after a phase completes (\<open>internal/server/completion_api.go\<close>): which phases
  are dispatched next, the dispatch of a phase with its \<open>when\<close> conditions and its skips, the
  retry in a new cycle, and \<open>processRunCompletion\<close>, which ties them to the decision engine.
  A handler works on the run it has read (\<open>snap\<close>), and its dispatches append to the stored run
  (\<open>stored\<close>), which it reads again only after a skip. \<open>launch\<close> stands for the lease lookup and the Kubernetes launch of one phase; it
  gives the error of a launch that fails.
\<close>

section \<open>The next phases\<close>

definition succeeds_completed :: "run_data \<Rightarrow> bool \<Rightarrow> phase_spec \<Rightarrow> phase_spec \<Rightarrow> bool" where
  "succeeds_completed run include_always prev p =
     (ps_name p \<notin> attempted_phases run \<and> phase_runs_on_success_path p \<and>
      (phase_runs_on_abort_path p \<longrightarrow> include_always) \<and> completed_advance run (ps_name prev))"

fun ready_after :: "run_data \<Rightarrow> bool \<Rightarrow> phase_spec \<Rightarrow> phase_spec list \<Rightarrow> phase_spec list" where
  "ready_after run include_always prev [] = []"
| "ready_after run include_always prev (p # ps) =
     (if succeeds_completed run include_always prev p then [p]
      else ready_after run include_always p ps)"

definition list_ready_phases :: "phase_spec list \<Rightarrow> run_data \<Rightarrow> bool \<Rightarrow> phase_spec list" where
  "list_ready_phases phases run include_always =
     (case phases of [] \<Rightarrow> [] | p # ps \<Rightarrow> ready_after run include_always p ps)"

definition abort_names :: "phase_spec list \<Rightarrow> string list" where
  "abort_names phases = map ps_name (filter phase_runs_on_abort_path phases)"

definition first_unattempted_abort_phase :: "phase_spec list \<Rightarrow> run_data \<Rightarrow> phase_spec option" where
  "first_unattempted_abort_phase phases run =
     find (\<lambda>p. phase_runs_on_abort_path p \<and> ps_name p \<notin> attempted_phases run \<and>
         list_all (\<lambda>dep. dep \<in> set (abort_names phases) \<longrightarrow> completed_advance run dep) (ps_depends_on p)) phases"

definition is_abort_phase :: "phase_spec list \<Rightarrow> string \<Rightarrow> bool" where
  "is_abort_phase phases name =
     (case phase_spec_by_name phases name of None \<Rightarrow> False | Some p \<Rightarrow> phase_runs_on_abort_path p)"

definition all_ready_dispatch_targets :: "workflow \<Rightarrow> run_data \<Rightarrow> run_decision \<Rightarrow> phase_spec list" where
  "all_ready_dispatch_targets wkf run verdict =
     (if rd_attempts run = [] then []
      else if verdict \<noteq> Advance \<or> run_has_abort_decision run then
        (if has_in_flight_attempts run then []
         else (case first_unattempted_abort_phase (wf_phases wkf) run of None \<Rightarrow> [] | Some p \<Rightarrow> [p]))
      else if is_abort_phase (wf_phases wkf) (at_phase (last (rd_attempts run)))
      then list_ready_phases (wf_phases wkf) run True
      else (let ready = list_ready_phases (wf_phases wkf) run False in
            if ready \<noteq> [] then ready
            else if has_in_flight_attempts run then []
            else list_ready_phases (wf_phases wkf) run True))"

section \<open>Dispatching a phase\<close>

datatype dispatch_error =
    BadPhaseKind string
  | BadPhaseInputs ref_error
  | BadPhaseWhen string when_error
  | BadJobWhen string string when_error
  | LaunchFailed string
  | NoRetryTarget string
  | CycleNotCreated string
  | OutOfFuel

definition next_attempt_index :: "run_data \<Rightarrow> int" where
  "next_attempt_index run =
     (if rd_attempts run = [] then 0 else at_index (last (rd_attempts run)) + 1)"

definition fresh_attempt :: "run_data \<Rightarrow> string \<Rightarrow> attempt_data" where
  "fresh_attempt run phase =
     \<lparr>at_index = next_attempt_index run, at_phase = phase, at_conclusion = [], at_verification = None,
      at_decision = [], at_completed = False, at_carry_forward = False, at_outputs = None,
      at_has_skipped_jobs = False\<rparr>"

definition append_attempt :: "string \<Rightarrow> run_data \<Rightarrow> run_data" where
  "append_attempt phase run = run\<lparr>rd_attempts := rd_attempts run @ [fresh_attempt run phase]\<rparr>"

definition update_last :: "('a \<Rightarrow> 'a) \<Rightarrow> 'a list \<Rightarrow> 'a list" where
  "update_last f xs = (if xs = [] then [] else butlast xs @ [f (last xs)])"

definition stamp_latest_skipped :: "run_data \<Rightarrow> run_data" where
  "stamp_latest_skipped run = run\<lparr>rd_attempts := update_last
     (\<lambda>a. a\<lparr>at_conclusion := ''skipped'', at_decision := ''advance'', at_completed := True\<rparr>) (rd_attempts run)\<rparr>"

definition record_jobs_skipped :: "run_data \<Rightarrow> run_data" where
  "record_jobs_skipped run = run\<lparr>rd_attempts := update_last
     (\<lambda>a. a\<lparr>at_has_skipped_jobs := True\<rparr>) (rd_attempts run)\<rparr>"

definition park_at_review_gate :: "string \<Rightarrow> run_data \<Rightarrow> run_data" where
  "park_at_review_gate phase run = (append_attempt phase run)\<lparr>rd_state := ''review_required''\<rparr>"

definition prior_outputs :: "attempt_data list \<Rightarrow> string \<Rightarrow> (string \<times> string) list option" where
  "prior_outputs as phase =
     map_option (\<lambda>a. case at_outputs a of None \<Rightarrow> [] | Some m \<Rightarrow> m)
       (find (\<lambda>a. at_phase a = phase \<and> at_outputs a \<noteq> None \<and> at_outputs a \<noteq> Some []) (rev as))"

definition skipped_phases :: "attempt_data list \<Rightarrow> string \<Rightarrow> bool" where
  "skipped_phases as phase =
     list_ex (\<lambda>a. at_phase a = phase \<and> (at_conclusion a = ''skipped'' \<or> at_has_skipped_jobs a)) as"

definition ref_spec_of :: "phase_spec \<Rightarrow> ref_phase_spec" where
  "ref_spec_of p = \<lparr>rf_name = ps_name p, rf_inputs = ps_inputs p, rf_outputs = ps_outputs p\<rparr>"

definition substitute_completion_inputs ::
  "phase_spec \<Rightarrow> attempt_data list \<Rightarrow> (ref_error, string \<rightharpoonup> string) res" where
  "substitute_completion_inputs p as =
     (if ps_inputs p = [] then Inr Map.empty
      else substitute (ref_spec_of p) (prior_outputs as) (skipped_phases as))"

text \<open>The jobs whose condition is false, with their traces, and how many are launched.\<close>

fun evaluate_jobs ::
  "string \<Rightarrow> when_context \<Rightarrow> job_spec list \<Rightarrow> (dispatch_error, (string \<times> string) list \<times> nat) res" where
  "evaluate_jobs phase ctx [] = Inr ([], 0)"
| "evaluate_jobs phase ctx (j # js) =
     (case when_parse (js_when j) of
        Inl e \<Rightarrow> Inl (BadJobWhen phase (js_id j) e)
      | Inr expr \<Rightarrow>
          res_bind (evaluate_jobs phase ctx js) (\<lambda>(skipped, n).
            let (run_it, trace) = when_eval expr ctx in
            Inr (if run_it then (skipped, Suc n)
                 else ((js_id j, ''job when condition: '' @ trace) # skipped, n))))"

datatype when_outcome =
    PhaseSkipped string
  | AllJobsSkipped "(string \<times> string) list"
  | PhaseRuns "(string \<times> string) list"

definition evaluate_phase_when :: "phase_spec \<Rightarrow> when_context \<Rightarrow> (dispatch_error, when_outcome) res" where
  "evaluate_phase_when p ctx =
     (case when_parse (ps_when p) of
        Inl e \<Rightarrow> Inl (BadPhaseWhen (ps_name p) e)
      | Inr expr \<Rightarrow>
          let (run_it, trace) = when_eval expr ctx in
          if \<not> run_it then Inr (PhaseSkipped (''phase when condition: '' @ trace))
          else res_bind (evaluate_jobs (ps_name p) ctx (ps_jobs p)) (\<lambda>(skipped, launchable).
                 Inr (if ps_jobs p \<noteq> [] \<and> launchable = 0 then AllJobsSkipped skipped
                      else PhaseRuns skipped)))"

definition when_context_of :: "workflow \<Rightarrow> run_data \<Rightarrow> when_context" where
  "when_context_of wkf run = \<lparr>wc_vars = wf_vars wkf, wc_inputs = rd_inputs run, wc_preserve = rd_preserve run\<rparr>"

type_synonym launcher = "phase_spec \<Rightarrow> run_data \<Rightarrow> string option"

text \<open>One phase: it fails, it is started or parked, or it is stamped as skipped.\<close>

datatype dispatch_step =
    DispatchFailed dispatch_error run_data
  | DispatchSettled run_data
  | DispatchSkipped run_data

definition start_phase :: "launcher \<Rightarrow> phase_spec \<Rightarrow> (string \<times> string) list \<Rightarrow> run_data \<Rightarrow> dispatch_step" where
  "start_phase launch p skipped stored =
     (let run1 = append_attempt (ps_name p) stored;
          run2 = (if skipped = [] then run1 else record_jobs_skipped run1)
      in case launch p run2 of
           Some e \<Rightarrow> DispatchFailed (LaunchFailed e) run2
         | None \<Rightarrow> DispatchSettled run2)"

definition dispatch_one :: "launcher \<Rightarrow> workflow \<Rightarrow> phase_spec \<Rightarrow> run_data \<Rightarrow> run_data \<Rightarrow> dispatch_step" where
  "dispatch_one launch wkf p snap stored =
     (if \<not> valid_workflow_kind (workflow_phase_kind (ps_kind p))
      then DispatchFailed (BadPhaseKind (workflow_phase_kind (ps_kind p))) stored
      else (case substitute_completion_inputs p (rd_attempts snap) of
              Inl e \<Rightarrow> DispatchFailed (BadPhaseInputs e) stored
            | Inr _ \<Rightarrow>
                if phase_purpose p = ''review_gate''
                then DispatchSettled (park_at_review_gate (ps_name p) stored)
                else (case evaluate_phase_when p (when_context_of wkf snap) of
                        Inl e \<Rightarrow> DispatchFailed e stored
                      | Inr (PhaseRuns skipped) \<Rightarrow> start_phase launch p skipped stored
                      | Inr _ \<Rightarrow> DispatchSkipped (stamp_latest_skipped (append_attempt (ps_name p) stored)))))"

text \<open>
  The targets in order; after a skipped phase the run is read again and what is then ready is
  dispatched, recursively. The fuel bounds the number of nested skips.
\<close>

function dispatch_phases ::
  "nat \<Rightarrow> launcher \<Rightarrow> workflow \<Rightarrow> phase_spec list \<Rightarrow> run_data \<Rightarrow> run_data \<Rightarrow> dispatch_error option \<times> run_data" where
  "dispatch_phases fuel launch wkf [] snap stored = (None, stored)"
| "dispatch_phases 0 launch wkf (p # ps) snap stored = (Some OutOfFuel, stored)"
| "dispatch_phases (Suc fuel) launch wkf (p # ps) snap stored =
     (case dispatch_one launch wkf p snap stored of
        DispatchFailed e run1 \<Rightarrow> (Some e, run1)
      | DispatchSettled run1 \<Rightarrow> dispatch_phases (Suc fuel) launch wkf ps snap run1
      | DispatchSkipped run1 \<Rightarrow>
          (case dispatch_phases fuel launch wkf (all_ready_dispatch_targets wkf run1 Advance) run1 run1 of
             (Some e, run2) \<Rightarrow> (Some e, run2)
           | (None, run2) \<Rightarrow> dispatch_phases (Suc fuel) launch wkf ps snap run2))"
  by pat_completeness auto
termination
  by (relation "measures [\<lambda>(fuel, _, _, ps, _). fuel, \<lambda>(_, _, _, ps, _). length ps]") auto

definition dispatch_forward ::
  "launcher \<Rightarrow> workflow \<Rightarrow> phase_spec list \<Rightarrow> run_data \<Rightarrow> run_data \<Rightarrow> dispatch_error option \<times> run_data" where
  "dispatch_forward launch wkf targets snap stored =
     dispatch_phases (Suc (length (wf_phases wkf))) launch wkf targets snap stored"

section \<open>Retrying in a new cycle\<close>

definition retry_target_name :: "workflow \<Rightarrow> phase_spec \<Rightarrow> recycle_policy \<Rightarrow> string" where
  "retry_target_name wkf failing rp =
     (if rc_lands_at rp = ''self'' \<or> rc_lands_at rp = []
      then (case workflow_entry_phase (wf_phases wkf) of Some e \<Rightarrow> ps_name e | None \<Rightarrow> ps_name failing)
      else rc_lands_at rp)"

definition retry_target :: "workflow \<Rightarrow> string \<Rightarrow> phase_spec option" where
  "retry_target wkf failing_phase =
     (case phase_spec_by_name (wf_phases wkf) failing_phase of
        None \<Rightarrow> None
      | Some p \<Rightarrow>
          (case ps_recycle p of
             None \<Rightarrow> None
           | Some rp \<Rightarrow> phase_spec_by_name (wf_phases wkf) (retry_target_name wkf p rp)))"

definition settled_latest :: "run_data \<Rightarrow> string \<Rightarrow> attempt_data option" where
  "settled_latest run phase = find (\<lambda>a. at_phase a = phase \<and> \<not> in_flight a) (rev (rd_attempts run))"

definition carry_of :: "int \<Rightarrow> string \<Rightarrow> attempt_data \<Rightarrow> attempt_data" where
  "carry_of i phase prior =
     \<lparr>at_index = i, at_phase = phase, at_conclusion = ''success'', at_verification = None,
      at_decision = ''advance'', at_completed = True, at_carry_forward = True,
      at_outputs = Some (case at_outputs prior of None \<Rightarrow> [] | Some m \<Rightarrow> m), at_has_skipped_jobs = False\<rparr>"

fun carry_phases :: "run_data \<Rightarrow> string \<Rightarrow> phase_spec list \<Rightarrow> attempt_data list \<Rightarrow> attempt_data list" where
  "carry_phases parent target [] carry = carry"
| "carry_phases parent target (p # ps) carry =
     (if ps_name p = target then carry
      else carry_phases parent target ps
             (case settled_latest parent (ps_name p) of
                None \<Rightarrow> carry
              | Some prior \<Rightarrow> carry @ [carry_of (int (length carry)) (ps_name p) prior]))"

definition retry_carry_forward :: "run_data \<Rightarrow> workflow \<Rightarrow> string \<Rightarrow> attempt_data list" where
  "retry_carry_forward parent wkf target =
     (if trim_space target = [] then [] else carry_phases parent target (wf_phases wkf) [])"

definition prior_verification_for_retry :: "run_data \<Rightarrow> string \<Rightarrow> prior_verification option" where
  "prior_verification_for_retry parent failing_phase =
     (case latest_attempt parent failing_phase of
        None \<Rightarrow> None
      | Some a \<Rightarrow> map_option (\<lambda>v. \<lparr>pv_phase = at_phase a, pv_verification = v\<rparr>) (at_verification a))"

text \<open>
  What the store gives for a new cycle of a run: its id, its ordinal and its display number, or
  an error (\<open>CreateRecycleCycle\<close>, \<open>StartRunCycle\<close>).
\<close>

record new_cycle =
  nc_id :: string
  nc_ordinal :: int
  nc_display :: string

type_synonym cycle_store = "run_data \<Rightarrow> (string, new_cycle) res"

definition recycle_run ::
  "run_data \<Rightarrow> workflow \<Rightarrow> phase_spec \<Rightarrow> attempt_data list \<Rightarrow> prior_verification option \<Rightarrow> new_cycle \<Rightarrow> run_data" where
  "recycle_run run wkf target carry prior c =
     (let base = run\<lparr>rd_id := nc_id c, rd_schema_ref := wf_schema_ref wkf, rd_attempts := carry,
            rd_run_cycle := Some (nc_ordinal c), rd_display := Some (nc_display c), rd_pr_number := None,
            rd_slot_lease := Some (case rd_slot_lease run of None \<Rightarrow> [] | Some r \<Rightarrow> r),
            rd_entrypoint := Some (ps_name target), rd_state := [], rd_prior := prior\<rparr>
      in append_attempt (ps_name target) base)"

definition dispatch_retry ::
  "launcher \<Rightarrow> cycle_store \<Rightarrow> workflow \<Rightarrow> string \<Rightarrow> run_data \<Rightarrow> (dispatch_error, run_data) res" where
  "dispatch_retry launch cycles wkf failing_phase run =
     (case retry_target wkf failing_phase of
        None \<Rightarrow> Inl (NoRetryTarget failing_phase)
      | Some target \<Rightarrow>
          if \<not> valid_workflow_kind (workflow_phase_kind (ps_kind target))
          then Inl (BadPhaseKind (workflow_phase_kind (ps_kind target)))
          else
            (let carry = retry_carry_forward run wkf (ps_name target) in
             case substitute_completion_inputs target (rd_attempts run @ carry) of
               Inl e \<Rightarrow> Inl (BadPhaseInputs e)
             | Inr _ \<Rightarrow>
                 (case cycles run of
                    Inl e \<Rightarrow> Inl (CycleNotCreated e)
                  | Inr c \<Rightarrow>
                      let fresh = recycle_run run wkf target carry
                                    (prior_verification_for_retry run failing_phase) c in
                      res_bind (evaluate_phase_when target (when_context_of wkf fresh)) (\<lambda>outcome.
                        let skipped = (case outcome of PhaseRuns sk \<Rightarrow> sk | _ \<Rightarrow> []);
                            started = (if skipped = [] then fresh else record_jobs_skipped fresh)
                        in (case launch target started of
                              Some e \<Rightarrow> Inl (LaunchFailed e)
                            | None \<Rightarrow> Inr started)))))"

section \<open>Completion\<close>

record completion_payload =
  cp_conclusion :: string
  cp_outputs :: "(string \<times> string) list option"

definition stamp_decision :: "string \<Rightarrow> completion_payload \<Rightarrow> attempt_data \<Rightarrow> attempt_data" where
  "stamp_decision verdict payload a =
     a\<lparr>at_decision := verdict, at_completed := True, at_conclusion := cp_conclusion payload,
       at_outputs := (case cp_outputs payload of None \<Rightarrow> at_outputs a | Some m \<Rightarrow> Some m)\<rparr>"

text \<open>The first attempt with the index, else the last one.\<close>

fun stamp_at :: "int \<Rightarrow> (attempt_data \<Rightarrow> attempt_data) \<Rightarrow> attempt_data list \<Rightarrow> attempt_data list option" where
  "stamp_at i f [] = None"
| "stamp_at i f (a # as) =
     (if at_index a = i then Some (f a # as) else map_option (Cons a) (stamp_at i f as))"

definition with_stamped_decision :: "run_data \<Rightarrow> int \<Rightarrow> run_decision \<Rightarrow> completion_payload \<Rightarrow> run_data" where
  "with_stamped_decision run i verdict payload =
     (let f = stamp_decision (decision_str verdict) payload in
      run\<lparr>rd_attempts := (case stamp_at i f (rd_attempts run) of
             Some as \<Rightarrow> as | None \<Rightarrow> update_last f (rd_attempts run))\<rparr>)"

definition completion_decision_run :: "workflow \<Rightarrow> run_data \<Rightarrow> drun" where
  "completion_decision_run wkf run =
     \<lparr>dr_attempts = decision_attempts run, dr_cost = rd_cost run,
      dr_budget = \<lparr>total = total (wf_budget wkf)\<rparr>\<rparr>"

datatype abort_cause =
    WorkflowSchemaMissing
  | CompletingPhaseGone
  | RetryDispatchFailed dispatch_error
  | ForwardDispatchFailed dispatch_error
  | TeardownDispatchFailed dispatch_error
  | CleanupDispatchFailed abort_cause dispatch_error
  | NoPullRequest
  | Explained "abort_explanation option"

datatype completion_reply =
    RunHasNoAttempts
  | DecisionEngineError decide_error
  | Replied string run_data
  | Recycled run_data run_data
  | RunAborted string abort_cause run_data
  | RunPassed run_data

definition ended_as :: "string \<Rightarrow> run_data \<Rightarrow> run_data" where
  "ended_as st run = run\<lparr>rd_state := st\<rparr>"

definition mark_run_aborted :: "string \<Rightarrow> abort_cause \<Rightarrow> run_data \<Rightarrow> completion_reply" where
  "mark_run_aborted verdict cause run = RunAborted verdict cause (ended_as ''aborted'' run)"

definition abort_with_cleanup ::
  "launcher \<Rightarrow> workflow \<Rightarrow> run_decision \<Rightarrow> abort_cause \<Rightarrow> run_data \<Rightarrow> run_data \<Rightarrow> completion_reply" where
  "abort_with_cleanup launch wkf verdict cause snap stored =
     (let targets = all_ready_dispatch_targets wkf snap verdict in
      if targets \<noteq> [] then
        (case dispatch_forward launch wkf targets snap stored of
           (Some e, run1) \<Rightarrow> mark_run_aborted ''abort_malformed'' (CleanupDispatchFailed cause e) run1
         | (None, run1) \<Rightarrow> Replied ''advance_phase'' run1)
      else if has_in_flight_attempts snap then Replied (decision_str verdict) stored
      else mark_run_aborted (decision_str verdict) cause stored)"

definition decision_of_str :: "string \<Rightarrow> run_decision" where
  "decision_of_str s =
     (if s = ''abort_budget_attempts'' then AbortBudgetAttempts
      else if s = ''abort_budget_cost'' then AbortBudgetCost
      else if s = ''abort_malformed'' then AbortMalformed
      else AbortRequested)"

definition finish_advanced :: "launcher \<Rightarrow> workflow \<Rightarrow> drun \<Rightarrow> run_data \<Rightarrow> completion_reply" where
  "finish_advanced launch wkf drn run =
     (case latest_abort_decision run of
        Some d \<Rightarrow>
          RunAborted ''advance''
            (Explained (abort_explanation drn (decision_workflow (wf_phases wkf)) (decision_of_str d)))
            (ended_as ''aborted'' run)
      | None \<Rightarrow>
          if (case rd_pr_number run of None \<Rightarrow> True | Some n \<Rightarrow> n < 1)
          then mark_run_aborted ''abort_malformed'' NoPullRequest run
          else RunPassed (ended_as ''passed'' run))"

definition route_advance :: "launcher \<Rightarrow> workflow \<Rightarrow> drun \<Rightarrow> run_data \<Rightarrow> completion_reply" where
  "route_advance launch wkf drn run =
     (let targets = all_ready_dispatch_targets wkf run Advance in
      if targets \<noteq> [] then
        (case dispatch_forward launch wkf targets run run of
           (Some e, run1) \<Rightarrow> abort_with_cleanup launch wkf AbortMalformed (ForwardDispatchFailed e) run run1
         | (None, run1) \<Rightarrow> Replied ''advance_phase'' run1)
      else if has_in_flight_attempts run then Replied ''advance'' run
      else finish_advanced launch wkf drn run)"

definition route_abort :: "launcher \<Rightarrow> workflow \<Rightarrow> drun \<Rightarrow> run_decision \<Rightarrow> run_data \<Rightarrow> completion_reply" where
  "route_abort launch wkf drn verdict run =
     (let targets = all_ready_dispatch_targets wkf run verdict in
      if targets \<noteq> [] then
        (case dispatch_forward launch wkf targets run run of
           (Some e, run1) \<Rightarrow> mark_run_aborted ''abort_malformed'' (TeardownDispatchFailed e) run1
         | (None, run1) \<Rightarrow> Replied ''advance_phase'' run1)
      else if has_in_flight_attempts run then Replied (decision_str verdict) run
      else RunAborted (decision_str verdict)
             (Explained (abort_explanation drn (decision_workflow (wf_phases wkf)) verdict))
             (ended_as ''aborted'' run))"

definition process_completion ::
  "launcher \<Rightarrow> cycle_store \<Rightarrow> workflow option \<Rightarrow> completion_payload \<Rightarrow> run_data \<Rightarrow> completion_reply" where
  "process_completion launch cycles wkfo payload run =
     (case wkfo of
        None \<Rightarrow> RunAborted ''abort_malformed'' WorkflowSchemaMissing (ended_as ''aborted'' run)
      | Some wkf \<Rightarrow>
          if rd_attempts run = [] then RunHasNoAttempts
          else
            (let last_at = last (rd_attempts run); dwkf = decision_workflow (wf_phases wkf) in
             if \<not> list_ex (\<lambda>p. dp_name p = at_phase last_at) dwkf
             then RunAborted ''abort_malformed'' CompletingPhaseGone (ended_as ''aborted'' run)
             else
               (let drn = completion_decision_run wkf run in
                case decide drn dwkf None of
                  Inl e \<Rightarrow> DecisionEngineError e
                | Inr verdict \<Rightarrow>
                    let run1 = with_stamped_decision run (at_index last_at) verdict payload in
                    (case verdict of
                       Retry \<Rightarrow>
                         (case dispatch_retry launch cycles wkf (at_phase last_at) run1 of
                            Inl e \<Rightarrow> abort_with_cleanup launch wkf AbortMalformed (RetryDispatchFailed e) run1 run1
                          | Inr fresh \<Rightarrow> Recycled run1 fresh)
                     | Advance \<Rightarrow> route_advance launch wkf drn run1
                     | _ \<Rightarrow> route_abort launch wkf drn verdict run1))))"

end
