(* ===== verification/RoutingSafety.thy ===== *)
theory RoutingSafety
  imports RunRouting
begin

text \<open>
  What routing guarantees: which phases can be a target, that a workflow moves through its
  phases in order, that an aborted run only cleans up, that a dispatch ends, how many cycles a
  retry can lead to; and the cases where a run is left without an end or with the wrong one.
\<close>

section \<open>Targets\<close>

lemma ready_after_sound:
  "p \<in> set (ready_after run b prev ps) \<Longrightarrow>
     p \<in> set ps \<and> ps_name p \<notin> attempted_phases run \<and> phase_runs_on_success_path p"
  by (induction ps arbitrary: prev) (auto simp: succeeds_completed_def split: if_splits)

lemma ready_after_length: "length (ready_after run b prev ps) \<le> 1"
  by (induction ps arbitrary: prev) auto

lemma list_ready_sound:
  "p \<in> set (list_ready_phases phases run b) \<Longrightarrow>
     p \<in> set phases \<and> ps_name p \<notin> attempted_phases run \<and> phase_runs_on_success_path p"
  using ready_after_sound by (fastforce simp: list_ready_phases_def split: list.splits)

lemma list_ready_length: "length (list_ready_phases phases run b) \<le> 1"
  using ready_after_length by (simp add: list_ready_phases_def split: list.split)

lemma abort_phase_sound:
  "first_unattempted_abort_phase phases run = Some p \<Longrightarrow>
     p \<in> set phases \<and> ps_name p \<notin> attempted_phases run \<and> phase_runs_on_abort_path p"
  by (auto simp: first_unattempted_abort_phase_def dest: find_result_in)

lemma targets_sound:
  "p \<in> set (all_ready_dispatch_targets wkf run v) \<Longrightarrow>
     p \<in> set (wf_phases wkf) \<and> ps_name p \<notin> attempted_phases run"
  by (auto simp: all_ready_dispatch_targets_def Let_def
      dest: list_ready_sound abort_phase_sound abort_phase_sound [OF sym]
      split: if_splits option.splits)

lemma abort_targets:
  "v \<noteq> Advance \<or> run_has_abort_decision run \<Longrightarrow>
     all_ready_dispatch_targets wkf run v =
       (if rd_attempts run = [] \<or> has_in_flight_attempts run then []
        else (case first_unattempted_abort_phase (wf_phases wkf) run of None \<Rightarrow> [] | Some p \<Rightarrow> [p]))"
  by (auto simp: all_ready_dispatch_targets_def)

lemma targets_length: "length (all_ready_dispatch_targets wkf run v) \<le> 1"
  using list_ready_length [of "wf_phases wkf" run True] list_ready_length [of "wf_phases wkf" run False]
  by (simp add: all_ready_dispatch_targets_def Let_def split: option.split)

text \<open>
  When the verdict is not to advance, or an attempt of the run has an abort decision, only
  a teardown phase that has not been attempted is dispatched, one at a time and never while an
  attempt is in flight; so neither the review nor the review gate of an aborted run is reached.
\<close>
theorem abort_path_only_cleans_up:
  assumes "v \<noteq> Advance \<or> run_has_abort_decision run"
  shows "length (all_ready_dispatch_targets wkf run v) \<le> 1 \<and>
     (has_in_flight_attempts run \<longrightarrow> all_ready_dispatch_targets wkf run v = []) \<and>
     (\<forall>p \<in> set (all_ready_dispatch_targets wkf run v).
        p \<in> set (wf_phases wkf) \<and> phase_purpose p = ''teardown'' \<and> ps_name p \<notin> attempted_phases run)"
  using abort_phase_sound [of "wf_phases wkf" run]
  by (cases "first_unattempted_abort_phase (wf_phases wkf) run")
    (auto simp: abort_targets [OF assms] phase_runs_on_abort_path_def)

section \<open>Moving through the workflow\<close>

definition advanced_to :: "phase_spec list \<Rightarrow> run_data \<Rightarrow> nat \<Rightarrow> bool" where
  "advanced_to phases run k =
     ((\<forall>i < k. completed_advance run (ps_name (phases ! i))) \<and>
      (\<forall>i < length phases. k \<le> i \<longrightarrow> ps_name (phases ! i) \<notin> attempted_phases run))"

lemma latest_attempt_Some:
  "latest_attempt run ph = Some a \<Longrightarrow> a \<in> set (rd_attempts run) \<and> at_phase a = ph"
  by (auto simp: latest_attempt_def dest: find_result_in)

lemma completed_attempted: "completed_advance run ph \<Longrightarrow> ph \<in> attempted_phases run"
  by (auto simp: completed_advance_def attempted_phases_def dest: latest_attempt_Some split: option.splits)

lemma ready_after_none:
  "ps_name prev \<notin> attempted_phases run \<Longrightarrow> \<forall>p \<in> set ps. ps_name p \<notin> attempted_phases run \<Longrightarrow>
     ready_after run b prev ps = []"
  by (induction ps arbitrary: prev) (auto simp: succeeds_completed_def dest: completed_attempted)

lemma ready_after_at:
  assumes "\<forall>p \<in> set xs. completed_advance run (ps_name p)" "completed_advance run (ps_name prev)"
    "ps_name q \<notin> attempted_phases run" "\<forall>p \<in> set ys. ps_name p \<notin> attempted_phases run"
  shows "ready_after run b prev (xs @ q # ys) =
     (if phase_runs_on_success_path q \<and> (phase_runs_on_abort_path q \<longrightarrow> b) then [q] else [])"
  using assms
proof (induction xs arbitrary: prev)
  case Nil
  then show ?case using ready_after_none [of q run ys b] by (simp add: succeeds_completed_def)
next
  case (Cons x xs)
  then have "ps_name x \<in> attempted_phases run" using completed_attempted by simp
  with Cons show ?case by (simp add: succeeds_completed_def)
qed

lemma list_ready_at:
  assumes "advanced_to phases run k" "0 < k" "k < length phases"
  shows "list_ready_phases phases run b =
     (if phase_runs_on_success_path (phases ! k) \<and> (phase_runs_on_abort_path (phases ! k) \<longrightarrow> b)
      then [phases ! k] else [])"
proof -
  from assms obtain p rest where p: "phases = p # rest" by (cases phases) auto
  let ?xs = "take (k - 1) rest" and ?ys = "drop k rest"
  have rest: "rest = ?xs @ phases ! k # ?ys"
    using assms(2,3) id_take_nth_drop [of "k - 1" rest] by (simp add: p nth_Cons')
  have "completed_advance run (ps_name x)" if "x \<in> set ?xs" for x
  proof -
    from that obtain i where "i < k - 1" "i < length rest" "x = rest ! i" by (auto simp: in_set_conv_nth)
    with assms(1) show ?thesis by (auto simp: advanced_to_def p dest!: spec [of _ "Suc i"])
  qed
  moreover have "completed_advance run (ps_name p)" using assms(1,2) by (auto simp: advanced_to_def p)
  moreover have "ps_name (phases ! k) \<notin> attempted_phases run" using assms(1,3) by (auto simp: advanced_to_def)
  moreover have "ps_name y \<notin> attempted_phases run" if "y \<in> set ?ys" for y
  proof -
    from that obtain i where i: "i < length ?ys" "y = ?ys ! i" by (metis in_set_conv_nth)
    then have "y = phases ! (Suc (k + i))" "Suc (k + i) < length phases" by (simp_all add: p)
    with assms(1) show ?thesis by (auto simp: advanced_to_def)
  qed
  ultimately show ?thesis
    unfolding list_ready_phases_def p list.case by (subst rest) (simp add: ready_after_at p [symmetric])
qed

lemma advanced_nonempty: "advanced_to phases run k \<Longrightarrow> 0 < k \<Longrightarrow> rd_attempts run \<noteq> []"
  using completed_attempted by (fastforce simp: advanced_to_def attempted_phases_def)

lemma success_path_iff: "phase_runs_on_success_path p \<longleftrightarrow> phase_run_on p \<noteq> ''failure''"
  by (auto simp: phase_runs_on_success_path_def phase_run_on_def valid_phase_run_on_def Let_def)

lemma next_target:
  assumes "advanced_to (wf_phases wkf) run k" "0 < k" "k < length (wf_phases wkf)"
    "phase_runs_on_success_path (wf_phases wkf ! k)" "\<not> run_has_abort_decision run" "\<not> has_in_flight_attempts run"
  shows "all_ready_dispatch_targets wkf run Advance = [wf_phases wkf ! k]"
proof -
  have "list_ready_phases (wf_phases wkf) run True = [wf_phases wkf ! k]"
    "list_ready_phases (wf_phases wkf) run False \<in> {[], [wf_phases wkf ! k]}"
    using list_ready_at [OF assms(1-3)] assms(4) by auto
  with assms(5,6) advanced_nonempty [OF assms(1,2)] show ?thesis
    by (auto simp: all_ready_dispatch_targets_def Let_def)
qed

text \<open>
  While every verdict is to advance, a workflow whose phases all run on success or always is
  dispatched strictly in order: when exactly the first phases have advanced and nothing is in
  flight, the next phase, and nothing else, is dispatched.
\<close>
theorem phases_dispatched_in_order:
  assumes "advanced_to (wf_phases wkf) run k" "0 < k" "k < length (wf_phases wkf)"
    "phase_run_on (wf_phases wkf ! k) \<noteq> ''failure''"
    "\<not> run_has_abort_decision run" "\<not> has_in_flight_attempts run"
  shows "all_ready_dispatch_targets wkf run Advance = [wf_phases wkf ! k]"
  using assms by (intro next_target) (simp_all add: success_path_iff)

text \<open>
  A teardown phase that runs on failure only, anywhere before the end of the workflow, ends
  every successful run there: the phases behind it are never dispatched, and a run that has no
  pull request yet is aborted as malformed for the lack of one.
\<close>
theorem failure_only_teardown_blocks:
  assumes "advanced_to (wf_phases wkf) run k" "0 < k" "k < length (wf_phases wkf)"
    "phase_run_on (wf_phases wkf ! k) = ''failure''"
    "\<not> run_has_abort_decision run" "\<not> has_in_flight_attempts run" "rd_pr_number run = None"
  shows "route_advance launch wkf drn run = RunAborted ''abort_malformed'' NoPullRequest (ended_as ''aborted'' run)"
proof -
  have "\<not> phase_runs_on_success_path (wf_phases wkf ! k)"
    using assms(4) by (simp add: phase_runs_on_success_path_def)
  then have "list_ready_phases (wf_phases wkf) run b = []" for b
    using list_ready_at [OF assms(1-3)] by simp
  then have "all_ready_dispatch_targets wkf run Advance = []"
    using assms(5) by (simp add: all_ready_dispatch_targets_def Let_def)
  with assms(5-7) show ?thesis
    by (simp add: route_advance_def finish_advanced_def mark_run_aborted_def run_has_abort_decision_def)
qed

section \<open>Dispatching\<close>

lemma append_attempt_attempts [simp]:
  "rd_attempts (append_attempt ph run) = rd_attempts run @ [fresh_attempt run ph]"
  "rd_state (append_attempt ph run) = rd_state run"
  by (simp_all add: append_attempt_def)

lemma fresh_attempt_fields [simp]:
  "at_phase (fresh_attempt run ph) = ph" "in_flight (fresh_attempt run ph)"
  "at_index (fresh_attempt run ph) = next_attempt_index run" "at_decision (fresh_attempt run ph) = []"
  by (simp_all add: fresh_attempt_def in_flight_def)

lemma attempted_snoc: "rd_attempts run' = rd_attempts run @ [a] \<Longrightarrow>
     attempted_phases run' = insert (at_phase a) (attempted_phases run)"
  by (simp add: attempted_phases_def)

lemma update_last_snoc [simp]: "update_last f (xs @ [x]) = xs @ [f x]"
  by (simp add: update_last_def)

text \<open>What one dispatched phase adds: one attempt of that phase, settled exactly when it is skipped.\<close>

definition adds_one :: "string \<Rightarrow> bool \<Rightarrow> run_data \<Rightarrow> run_data \<Rightarrow> bool" where
  "adds_one ph flying run run' =
     (\<exists>a. rd_attempts run' = rd_attempts run @ [a] \<and> at_phase a = ph \<and> in_flight a = flying)"

lemma start_phase_adds:
  "start_phase launch p sk run = DispatchSettled run' \<Longrightarrow> adds_one (ps_name p) True run run'"
  by (auto simp: start_phase_def Let_def adds_one_def record_jobs_skipped_def in_flight_def fresh_attempt_def
      split: option.splits if_splits)

lemma skip_adds: "adds_one ph False run (stamp_latest_skipped (append_attempt ph run))"
  by (simp add: adds_one_def stamp_latest_skipped_def in_flight_def)

lemma park_adds: "adds_one ph True run (park_at_review_gate ph run)"
  by (simp add: adds_one_def park_at_review_gate_def)

lemma dispatch_settled_adds:
  "dispatch_one launch wkf p snap run = DispatchSettled run' \<Longrightarrow> adds_one (ps_name p) True run run'"
  by (auto simp: dispatch_one_def park_adds dest: start_phase_adds
      split: if_splits sum.splits when_outcome.splits)

lemma start_phase_not_skipped [simp]: "start_phase launch p sk run \<noteq> DispatchSkipped run'"
  by (simp add: start_phase_def Let_def split: option.split)

lemma dispatch_skipped_adds:
  "dispatch_one launch wkf p snap run = DispatchSkipped run' \<Longrightarrow> adds_one (ps_name p) False run run'"
  by (auto simp: dispatch_one_def skip_adds split: if_splits sum.splits when_outcome.splits)

lemma start_phase_failed:
  "start_phase launch p sk run = DispatchFailed e run' \<Longrightarrow> \<exists>m. e = LaunchFailed m"
  by (auto simp: start_phase_def Let_def split: option.splits)

lemma evaluate_jobs_error: "evaluate_jobs ph ctx js = Inl e \<Longrightarrow> \<exists>i w. e = BadJobWhen ph i w"
  by (induction js) (auto split: sum.splits prod.splits simp: Let_def res_bind_Inl_iff)

lemma phase_when_error: "evaluate_phase_when p ctx = Inl e \<Longrightarrow> e \<noteq> OutOfFuel"
  by (auto simp: evaluate_phase_when_def Let_def res_bind_Inl_iff
      split: sum.splits prod.splits if_splits dest: evaluate_jobs_error)

lemma dispatch_one_error: "dispatch_one launch wkf p snap run \<noteq> DispatchFailed OutOfFuel run'"
  by (auto simp: dispatch_one_def split: sum.split when_outcome.split if_split
      dest: start_phase_failed phase_when_error [OF sym] phase_when_error)

text \<open>The phases a run has still to attempt bound the nested skips.\<close>

definition unattempted :: "workflow \<Rightarrow> run_data \<Rightarrow> nat" where
  "unattempted wkf run = length (filter (\<lambda>p. ps_name p \<notin> attempted_phases run) (wf_phases wkf))"

lemma unattempted_after:
  assumes "p \<in> set (wf_phases wkf)" "ps_name p \<notin> attempted_phases run" "adds_one (ps_name p) b run run'"
  shows "unattempted wkf run' < unattempted wkf run"
proof -
  have att: "attempted_phases run' = insert (ps_name p) (attempted_phases run)"
    using assms(3) by (auto simp: adds_one_def attempted_snoc)
  have "length (filter (\<lambda>q. ps_name q \<notin> attempted_phases run') qs) \<le>
      length (filter (\<lambda>q. ps_name q \<notin> attempted_phases run) qs)" for qs :: "phase_spec list"
    by (induction qs) (auto simp: att)
  moreover obtain as bs where "wf_phases wkf = as @ p # bs" using assms(1) by (meson split_list)
  ultimately show ?thesis using assms(2) by (simp add: unattempted_def att add_mono le_imp_less_Suc)
qed

lemma targets_cases:
  obtains "all_ready_dispatch_targets wkf run v = []"
  | p where "all_ready_dispatch_targets wkf run v = [p]" "p \<in> set (wf_phases wkf)"
      "ps_name p \<notin> attempted_phases run"
proof (cases "all_ready_dispatch_targets wkf run v")
  case (Cons p ps)
  then have "ps = []" using targets_length [of wkf run v] by simp
  with Cons targets_sound [of p wkf run v] that(2) show ?thesis by simp
qed (use that(1) in simp)

lemma dispatch_single:
  "dispatch_phases (Suc f) launch wkf [p] snap stored =
     (case dispatch_one launch wkf p snap stored of
        DispatchFailed e run1 \<Rightarrow> (Some e, run1)
      | DispatchSettled run1 \<Rightarrow> (None, run1)
      | DispatchSkipped run1 \<Rightarrow>
          dispatch_phases f launch wkf (all_ready_dispatch_targets wkf run1 Advance) run1 run1)"
  by (auto split: dispatch_step.split option.split prod.split)

lemma dispatch_enough_fuel:
  "unattempted wkf run < f \<Longrightarrow>
     fst (dispatch_phases f launch wkf (all_ready_dispatch_targets wkf run Advance) run run) \<noteq> Some OutOfFuel"
proof (induction f arbitrary: run)
  case (Suc f)
  show ?case
  proof (cases wkf run Advance rule: targets_cases)
    case (2 p)
    have "fst (dispatch_phases f launch wkf (all_ready_dispatch_targets wkf run1 Advance) run1 run1) \<noteq> Some OutOfFuel"
      if "dispatch_one launch wkf p run run = DispatchSkipped run1" for run1
      using Suc.IH [of run1] unattempted_after [OF 2(2,3) dispatch_skipped_adds [OF that]] Suc.prems by linarith
    then show ?thesis
      unfolding 2(1) dispatch_single by (auto split: dispatch_step.split simp: dispatch_one_error)
  qed simp
qed simp

text \<open>
  C38: Dispatching always ends, whatever the \<open>when\<close> conditions skip: every skip attempts a
  phase the run had not attempted, so the recursion is never deeper than the workflow is long.
\<close>
theorem dispatch_ends:
  "fst (dispatch_forward launch wkf (all_ready_dispatch_targets wkf snap v) snap stored) \<noteq> Some OutOfFuel"
proof (cases wkf snap v rule: targets_cases)
  case (2 p)
  have "fst (dispatch_phases (length (wf_phases wkf)) launch wkf (all_ready_dispatch_targets wkf run1 Advance) run1 run1)
      \<noteq> Some OutOfFuel" if "dispatch_one launch wkf p snap stored = DispatchSkipped run1" for run1
  proof (rule dispatch_enough_fuel)
    have "ps_name p \<in> attempted_phases run1"
      using dispatch_skipped_adds [OF that] by (auto simp: adds_one_def attempted_phases_def)
    then show "unattempted wkf run1 < length (wf_phases wkf)"
      unfolding unattempted_def using 2(2) by (simp add: length_filter_less)
  qed
  then show ?thesis
    unfolding 2(1) dispatch_forward_def dispatch_single by (auto split: dispatch_step.split simp: dispatch_one_error)
qed (simp add: dispatch_forward_def)

text \<open>What a whole dispatch adds to a run.\<close>

definition dispatch_trail :: "workflow \<Rightarrow> run_data \<Rightarrow> attempt_data list \<Rightarrow> bool" where
  "dispatch_trail wkf run new =
     (distinct (map at_phase new) \<and> list_all (\<lambda>a. \<not> in_flight a) (butlast new) \<and>
      list_all (\<lambda>a. at_phase a \<in> ps_name ` set (wf_phases wkf) \<and> at_phase a \<notin> attempted_phases run) new)"

lemma start_phase_failed_adds:
  "start_phase launch p sk run = DispatchFailed e run' \<Longrightarrow> adds_one (ps_name p) True run run'"
  by (auto simp: start_phase_def Let_def adds_one_def record_jobs_skipped_def in_flight_def fresh_attempt_def
      split: option.splits if_splits)

lemma dispatch_failed_adds:
  "dispatch_one launch wkf p snap run = DispatchFailed e run' \<Longrightarrow>
     rd_attempts run' = rd_attempts run \<or> adds_one (ps_name p) True run run'"
  by (auto simp: dispatch_one_def split: if_splits sum.splits when_outcome.splits dest: start_phase_failed_adds)

lemma trail_Nil [simp]: "dispatch_trail wkf run []" by (simp add: dispatch_trail_def)

lemma trail_one:
  "adds_one (ps_name p) b run run' \<Longrightarrow> p \<in> set (wf_phases wkf) \<Longrightarrow> ps_name p \<notin> attempted_phases run \<Longrightarrow>
     \<exists>new. rd_attempts run' = rd_attempts run @ new \<and> dispatch_trail wkf run new"
  by (auto simp: adds_one_def dispatch_trail_def)

lemma trail_Cons:
  assumes "adds_one (ps_name p) False run run1" "p \<in> set (wf_phases wkf)" "ps_name p \<notin> attempted_phases run"
    "rd_attempts run' = rd_attempts run1 @ new" "dispatch_trail wkf run1 new"
  shows "\<exists>new. rd_attempts run' = rd_attempts run @ new \<and> dispatch_trail wkf run new"
proof -
  from assms(1) obtain a where a: "rd_attempts run1 = rd_attempts run @ [a]" "at_phase a = ps_name p" "\<not> in_flight a"
    by (auto simp: adds_one_def)
  have "dispatch_trail wkf run (a # new)"
    using assms(2,3,5) a(2,3) by (auto simp: dispatch_trail_def attempted_snoc [OF a(1)] list_all_iff)
  with a(1) assms(4) show ?thesis by auto
qed

lemma dispatch_trail_exists:
  "\<exists>new. rd_attempts (snd (dispatch_phases f launch wkf (all_ready_dispatch_targets wkf run v) run run)) =
        rd_attempts run @ new \<and> dispatch_trail wkf run new"
proof (induction f arbitrary: run v)
  case 0
  show ?case by (cases wkf run v rule: targets_cases) auto
next
  case (Suc f)
  show ?case
  proof (cases wkf run v rule: targets_cases)
    case (2 p)
    show ?thesis
    proof (cases "dispatch_one launch wkf p run run")
      case (DispatchFailed e run1)
      with dispatch_failed_adds [OF this] trail_one [OF _ 2(2,3)] show ?thesis
        unfolding 2(1) dispatch_single by auto
    next
      case (DispatchSettled run1)
      with trail_one [OF dispatch_settled_adds [OF this] 2(2,3)] show ?thesis
        unfolding 2(1) dispatch_single by simp
    next
      case (DispatchSkipped run1)
      with Suc.IH [of run1 Advance] trail_Cons [OF dispatch_skipped_adds [OF this] 2(2,3)] show ?thesis
        unfolding 2(1) dispatch_single by auto
    qed
  qed auto
qed

text \<open>
  A dispatch only adds attempts at the end: of phases of the workflow that were not
  attempted before, no phase twice, and all but the last of them settled by a skip, so at most
  one attempt is put in flight; this holds also when the dispatch fails.
\<close>
theorem dispatch_adds_trail:
  "\<exists>new. rd_attempts (snd (dispatch_forward launch wkf (all_ready_dispatch_targets wkf run v) run run)) =
        rd_attempts run @ new \<and> dispatch_trail wkf run new"
  unfolding dispatch_forward_def by (rule dispatch_trail_exists)

end
