(* ===== verification/RoutingOutcomes.thy ===== *)
theory RoutingOutcomes
  imports RoutingSafety
begin

text \<open>
  What a completion does to a run as a whole: how many cycles retries can lead to, when a run
  passes, which ceiling stops it, and two ways in which a run leaves the path its workflow
  describes (a phase that could not be launched is passed over, and a run whose last phase is
  skipped never ends).
\<close>

section \<open>The verdict of a completion\<close>

lemma phase_by_name_decision:
  "phase_by_name (decision_workflow ps) n = map_option decision_phase (phase_spec_by_name ps n)"
  by (induction ps) (auto simp: decision_workflow_def phase_spec_by_name_def decision_phase_def)

lemma decision_phase_known:
  "list_ex (\<lambda>p. dp_name p = n) (decision_workflow ps) \<longleftrightarrow> phase_spec_by_name ps n \<noteq> None"
  by (induction ps) (auto simp: decision_workflow_def phase_spec_by_name_def decision_phase_def)

lemma decision_phase_fields [simp]:
  "dp_recycle (decision_phase p) = map_option decision_recycle (ps_recycle p)"
  "dp_name (decision_phase p) = ps_name p" "dp_verify (decision_phase p) = ps_verify p"
  "dp_evidence_gate (decision_phase p) = ps_gate p"
  "rp_max_attempts (decision_recycle rp) = rc_max_attempts rp" "rp_on (decision_recycle rp) = rc_on rp"
  by (simp_all add: decision_phase_def decision_recycle_def)

lemma decision_attempt_fields [simp]:
  "da_phase (decision_attempt a) = at_phase a" "da_conclusion (decision_attempt a) = at_conclusion a"
  by (simp_all add: decision_attempt_def)

lemma decision_attempts_last:
  assumes "rd_attempts run \<noteq> []"
  shows "decision_attempts run \<noteq> []" "last (decision_attempts run) = decision_attempt (last (rd_attempts run))"
  using assms by (simp_all add: decision_attempts_def Let_def last_map)

lemma decide_completion:
  "rd_attempts run \<noteq> [] \<Longrightarrow>
     decide (completion_decision_run wkf run) d None =
       decide_attempt (completion_decision_run wkf run) d (decision_attempt (last (rd_attempts run)))"
  using decision_attempts_last [of run]
  by (simp add: decide_def deciding_index_def completion_decision_run_def last_conv_nth)

text \<open>Every earlier cycle counts as an attempt of the phase being decided.\<close>

lemma attempts_count_cycles:
  assumes "rd_attempts run \<noteq> []"
  shows "run_cycle_ordinal run \<le> attempts_in_phase (decision_attempts run) (at_phase (last (rd_attempts run)))"
proof -
  let ?as = "map decision_attempt (rd_attempts run)" and ?ph = "at_phase (last (rd_attempts run))"
  have one: "1 \<le> attempts_in_phase ?as ?ph"
    using assms by (intro attempts_in_phase_pos [of "decision_attempt (last (rd_attempts run))"]) auto
  have "decision_attempts run =
      (if run_cycle_ordinal run \<le> 1 then ?as
       else replicate (nat (run_cycle_ordinal run - 1)) (prior_cycle_attempt ?ph) @ ?as)"
    using assms by (simp add: decision_attempts_def Let_def last_map)
  then show ?thesis
    using one by (auto simp: attempts_in_phase_append attempts_in_phase_replicate prior_cycle_attempt_def)
qed

lemma process_completion_cases:
  assumes "rd_attempts run \<noteq> []" "phase_spec_by_name (wf_phases wkf) (at_phase (last (rd_attempts run))) \<noteq> None"
  shows "process_completion launch cycles (Some wkf) payload run =
     (let drn = completion_decision_run wkf run; last_at = last (rd_attempts run);
          dwkf = decision_workflow (wf_phases wkf) in
      case decide_attempt drn dwkf (decision_attempt last_at) of
        Inl e \<Rightarrow> DecisionEngineError e
      | Inr verdict \<Rightarrow>
          let run1 = with_stamped_decision run (at_index last_at) verdict payload in
          (case verdict of
             Retry \<Rightarrow>
               (case dispatch_retry launch cycles wkf (at_phase last_at) run1 of
                  Inl e \<Rightarrow> abort_with_cleanup launch wkf AbortMalformed (RetryDispatchFailed e) run1 run1
                | Inr fresh \<Rightarrow> Recycled run1 fresh)
           | Advance \<Rightarrow> route_advance launch wkf drn run1
           | _ \<Rightarrow> route_abort launch wkf drn verdict run1))"
  using assms by (auto simp: process_completion_def decision_phase_known decide_completion Let_def)

lemma process_completion_known:
  assumes "process_completion launch cycles (Some wkf) payload run = r"
    "\<And>st. r \<noteq> RunAborted ''abort_malformed'' CompletingPhaseGone st" "r \<noteq> RunHasNoAttempts"
  shows "rd_attempts run \<noteq> [] \<and>
     phase_spec_by_name (wf_phases wkf) (at_phase (last (rd_attempts run))) \<noteq> None"
  using assms by (auto simp: process_completion_def decision_phase_known Let_def split: if_splits)

lemma not_recycled [simp]:
  "abort_with_cleanup launch wkf v c snap st \<noteq> Recycled a b" "route_advance launch wkf drn run \<noteq> Recycled a b"
  "route_abort launch wkf drn v run \<noteq> Recycled a b" "mark_run_aborted s c st \<noteq> Recycled a b"
  "finish_advanced launch wkf drn run \<noteq> Recycled a b"
  by (auto simp: abort_with_cleanup_def route_advance_def route_abort_def mark_run_aborted_def
      finish_advanced_def Let_def split: option.splits prod.splits)

lemma not_passed [simp]:
  "abort_with_cleanup launch wkf v c snap st \<noteq> RunPassed b" "route_abort launch wkf drn v run \<noteq> RunPassed b"
  "mark_run_aborted s c st \<noteq> RunPassed b"
  by (auto simp: abort_with_cleanup_def route_abort_def mark_run_aborted_def Let_def
      split: option.splits prod.splits)

section \<open>Cycles\<close>

lemma record_jobs_skipped_fields [simp]:
  "rd_run_cycle (record_jobs_skipped run) = rd_run_cycle run"
  "map at_phase (rd_attempts (record_jobs_skipped run)) = map at_phase (rd_attempts run)"
  by (cases "rd_attempts run" rule: rev_cases; simp add: record_jobs_skipped_def update_last_def)+

lemma recycle_run_fields [simp]:
  "rd_run_cycle (recycle_run run wkf t carry prior c) = Some (nc_ordinal c)"
  "map at_phase (rd_attempts (recycle_run run wkf t carry prior c)) = map at_phase carry @ [ps_name t]"
  by (simp_all add: recycle_run_def append_attempt_def)

lemma dispatch_retry_fresh:
  assumes "dispatch_retry launch cycles wkf ph run = Inr fresh"
  shows "\<exists>t c. retry_target wkf ph = Some t \<and> cycles run = Inr c \<and>
     map at_phase (rd_attempts fresh) =
       map at_phase (retry_carry_forward run wkf (ps_name t)) @ [ps_name t] \<and>
     rd_run_cycle fresh = Some (nc_ordinal c)"
  using assms
  by (auto simp: dispatch_retry_def Let_def res_bind_Inr_iff
      split: option.splits if_splits sum.splits)

lemma recycled_verdict:
  assumes "process_completion launch cycles (Some wkf) payload run = Recycled run1 fresh"
  shows "decide_attempt (completion_decision_run wkf run) (decision_workflow (wf_phases wkf))
           (decision_attempt (last (rd_attempts run))) = Inr Retry \<and>
     dispatch_retry launch cycles wkf (at_phase (last (rd_attempts run))) run1 = Inr fresh"
proof -
  note k = process_completion_known [OF assms]
  with assms show ?thesis
    by (auto simp: process_completion_cases Let_def split: sum.splits run_decision.splits)
qed

lemma recycled_headroom:
  assumes "process_completion launch cycles (Some wkf) payload run = Recycled run1 fresh"
  obtains p rp where "phase_spec_by_name (wf_phases wkf) (at_phase (last (rd_attempts run))) = Some p"
    "ps_recycle p = Some rp" "run_cycle_ordinal run < rc_max_attempts rp"
    "\<not> float_ge (rd_cost run) (total (wf_budget wkf))" "ps_gate p \<or> ps_verify p"
proof -
  note k = process_completion_known [OF assms, simplified]
  from conjunct1 [OF recycled_verdict [OF assms]] obtain spec rp where
      s: "phase_by_name (decision_workflow (wf_phases wkf)) (at_phase (last (rd_attempts run))) = Some spec"
        "dp_recycle spec = Some rp" "dp_evidence_gate spec \<or> dp_verify spec"
      and n: "attempts_in_phase (dr_attempts (completion_decision_run wkf run)) (at_phase (last (rd_attempts run)))
        < rp_max_attempts rp"
      and b: "\<not> over_budget (completion_decision_run wkf run)"
    by (elim decide_attempt_Retry) auto
  from s obtain p r where p: "phase_spec_by_name (wf_phases wkf) (at_phase (last (rd_attempts run))) = Some p"
      "ps_recycle p = Some r" "rp = decision_recycle r" "ps_gate p \<or> ps_verify p"
    by (auto simp: phase_by_name_decision)
  have "run_cycle_ordinal run < rc_max_attempts r"
    using n p(3) attempts_count_cycles [of run] k by (simp add: completion_decision_run_def)
  moreover have "\<not> float_ge (rd_cost run) (total (wf_budget wkf))"
    using b by (simp add: over_budget_def completion_decision_run_def)
  ultimately show ?thesis using p that by blast
qed

text \<open>
  C1: Retries are bounded by the recycle policy of the phase that fails, whatever that phase
  is and whatever the earlier cycles failed in: a completion starts a new cycle only when the
  number of the current cycle is below the policy's maximum and the cost is below the workflow's
  ceiling. When the store numbers cycles one up, no cycle has a number above the maximum.
\<close>
theorem retry_cycles_bounded:
  assumes "process_completion launch cycles (Some wkf) payload run = Recycled run1 fresh"
  shows "\<exists>p rp t c. phase_spec_by_name (wf_phases wkf) (at_phase (last (rd_attempts run))) = Some p \<and>
     ps_recycle p = Some rp \<and> run_cycle_ordinal run < rc_max_attempts rp \<and>
     \<not> float_ge (rd_cost run) (total (wf_budget wkf)) \<and>
     retry_target wkf (at_phase (last (rd_attempts run))) = Some t \<and>
     map at_phase (rd_attempts fresh) =
       map at_phase (retry_carry_forward run1 wkf (ps_name t)) @ [ps_name t] \<and>
     cycles run1 = Inr c \<and> rd_run_cycle fresh = Some (nc_ordinal c) \<and>
     (nc_ordinal c \<le> run_cycle_ordinal run + 1 \<longrightarrow> nc_ordinal c \<le> rc_max_attempts rp)"
  using recycled_headroom [OF assms] dispatch_retry_fresh [OF conjunct2 [OF recycled_verdict [OF assms]]]
  by fastforce

text \<open>
  The ceiling on the cost is the workflow's, never the run's own: a run at or over its own
  budget, which the labels of its issue fix when it is created, is retried as long as the
  workflow's budget is not used up, although under its own budget the engine would stop it.
\<close>
theorem issue_budget_is_ignored:
  fixes run :: run_data and wkf :: workflow
  assumes "rd_attempts run \<noteq> []"
    and "phase_spec_by_name (wf_phases wkf) (at_phase (last (rd_attempts run))) = Some p"
    and "float_ge (rd_cost run) (total (rd_budget run))"
    and "decide (completion_decision_run wkf run) (decision_workflow (wf_phases wkf)) None = Inr Retry"
  shows "decide ((completion_decision_run wkf run)\<lparr>dr_budget := rd_budget run\<rparr>)
           (decision_workflow (wf_phases wkf)) None = Inr AbortBudgetCost \<and>
     process_completion launch cycles (Some wkf) payload run =
       (let run1 = with_stamped_decision run (at_index (last (rd_attempts run))) Retry payload in
        case dispatch_retry launch cycles wkf (at_phase (last (rd_attempts run))) run1 of
          Inl e \<Rightarrow> abort_with_cleanup launch wkf AbortMalformed (RetryDispatchFailed e) run1 run1
        | Inr fresh \<Rightarrow> Recycled run1 fresh)"
proof
  let ?d = "completion_decision_run wkf run" and ?w = "decision_workflow (wf_phases wkf)"
  let ?a = "decision_attempt (last (rd_attempts run))"
  have r: "decide_attempt ?d ?w ?a = Inr Retry" using assms(1,4) by (simp add: decide_completion)
  have over: "over_budget (?d\<lparr>dr_budget := rd_budget run\<rparr>)"
    using assms(3) by (simp add: over_budget_def completion_decision_run_def)
  have "decide_attempt (?d\<lparr>dr_budget := rd_budget run\<rparr>) ?w ?a = Inr AbortBudgetCost"
    using r over
    by (auto simp: decide_attempt_def decide_gate_def decide_verify_def Let_def
        split: option.splits if_splits)
  moreover have "decide (?d\<lparr>dr_budget := rd_budget run\<rparr>) ?w None =
      decide_attempt (?d\<lparr>dr_budget := rd_budget run\<rparr>) ?w ?a"
    using decision_attempts_last [OF assms(1)]
    by (simp add: decide_def deciding_index_def completion_decision_run_def last_conv_nth)
  ultimately show "decide (?d\<lparr>dr_budget := rd_budget run\<rparr>) ?w None = Inr AbortBudgetCost" by simp
  show "process_completion launch cycles (Some wkf) payload run =
       (let run1 = with_stamped_decision run (at_index (last (rd_attempts run))) Retry payload in
        case dispatch_retry launch cycles wkf (at_phase (last (rd_attempts run))) run1 of
          Inl e \<Rightarrow> abort_with_cleanup launch wkf AbortMalformed (RetryDispatchFailed e) run1 run1
        | Inr fresh \<Rightarrow> Recycled run1 fresh)"
    using assms(1,2) r by (simp add: process_completion_cases Let_def)
qed

section \<open>Passing\<close>

text \<open>
  C29: A run passes only when it is really finished: the completing phase was decided to advance,
  no attempt carries an abort decision (so a cleanup after an abort never turns it into a
  success), nothing is in flight, no phase is left to dispatch, and a pull request is linked.
\<close>
theorem pass_requires:
  assumes "process_completion launch cycles wkfo payload run = RunPassed run'"
  shows "\<exists>wkf run1 n. wkfo = Some wkf \<and>
     decide (completion_decision_run wkf run) (decision_workflow (wf_phases wkf)) None = Inr Advance \<and>
     run1 = with_stamped_decision run (at_index (last (rd_attempts run))) Advance payload \<and>
     \<not> run_has_abort_decision run1 \<and> \<not> has_in_flight_attempts run1 \<and>
     all_ready_dispatch_targets wkf run1 Advance = [] \<and>
     rd_pr_number run1 = Some n \<and> 1 \<le> n \<and> run' = run1\<lparr>rd_state := ''passed''\<rparr>"
proof (cases wkfo)
  case None
  with assms show ?thesis by (simp add: process_completion_def)
next
  case (Some wkf)
  let ?drn = "completion_decision_run wkf run"
  let ?run1 = "with_stamped_decision run (at_index (last (rd_attempts run))) Advance payload"
  note p = assms [unfolded Some]
  have k: "rd_attempts run \<noteq> []" "phase_spec_by_name (wf_phases wkf) (at_phase (last (rd_attempts run))) \<noteq> None"
    using process_completion_known [OF p] by simp_all
  with p have d: "decide_attempt ?drn (decision_workflow (wf_phases wkf)) (decision_attempt (last (rd_attempts run)))
      = Inr Advance" and r: "route_advance launch wkf ?drn ?run1 = RunPassed run'"
    by (auto simp: process_completion_cases Let_def split: sum.splits run_decision.splits)
  from r have t: "all_ready_dispatch_targets wkf ?run1 Advance = []" "\<not> has_in_flight_attempts ?run1"
      and f: "finish_advanced launch wkf ?drn ?run1 = RunPassed run'"
    by (auto simp: route_advance_def Let_def split: if_splits prod.splits option.splits)
  from f have "latest_abort_decision ?run1 = None" "run' = ?run1\<lparr>rd_state := ''passed''\<rparr>"
      "\<exists>n. rd_pr_number ?run1 = Some n \<and> 1 \<le> n"
    by (auto simp: finish_advanced_def ended_as_def split: option.splits if_splits)
  with t d k(1) Some show ?thesis by (auto simp: run_has_abort_decision_def decide_completion)
qed

section \<open>Leaving the path of the workflow\<close>

lemma latest_attempt_snoc:
  "rd_attempts run' = rd_attempts run @ [a] \<Longrightarrow>
     latest_attempt run' ph = (if at_phase a = ph then Some a else latest_attempt run ph)"
  by (simp add: latest_attempt_def)

lemma completed_snoc:
  "rd_attempts run' = rd_attempts run @ [a] \<Longrightarrow>
     completed_advance run' ph = (if at_phase a = ph then attempt_advanced a else completed_advance run ph)"
  by (simp add: completed_advance_def latest_attempt_snoc)

lemma all_attempted_no_targets:
  "\<forall>p \<in> set (wf_phases wkf). ps_name p \<in> attempted_phases run \<Longrightarrow> all_ready_dispatch_targets wkf run v = []"
  using targets_sound by (cases wkf run v rule: targets_cases) blast+

text \<open>
  When the last phase of a workflow is skipped by its \<open>when\<close> condition, the run is never
  ended: the reply is that the next phase was dispatched, while every phase has advanced, nothing
  is in flight, no phase is left to dispatch and the state of the run is what it was, so no
  completion arrives that could end it.
\<close>
theorem skipped_last_phase_never_ends:
  assumes "advanced_to (wf_phases wkf) run k" "0 < k" "Suc k = length (wf_phases wkf)"
    "phase_run_on (wf_phases wkf ! k) \<noteq> ''failure''"
    "\<not> run_has_abort_decision run" "\<not> has_in_flight_attempts run"
    "dispatch_one launch wkf (wf_phases wkf ! k) run run = DispatchSkipped run1"
  shows "route_advance launch wkf drn run = Replied ''advance_phase'' run1 \<and>
     (\<forall>p \<in> set (wf_phases wkf). completed_advance run1 (ps_name p)) \<and>
     \<not> has_in_flight_attempts run1 \<and> all_ready_dispatch_targets wkf run1 Advance = [] \<and>
     rd_state run1 = rd_state run"
proof -
  let ?p = "wf_phases wkf ! k"
  have t: "all_ready_dispatch_targets wkf run Advance = [?p]"
    using assms by (intro next_target) (simp_all add: success_path_iff)
  have run1: "run1 = stamp_latest_skipped (append_attempt (ps_name ?p) run)"
    using assms(7) by (auto simp: dispatch_one_def split: if_splits sum.splits when_outcome.splits)
  then obtain a where a: "rd_attempts run1 = rd_attempts run @ [a]" "at_phase a = ps_name ?p"
      "at_decision a = ''advance''" "rd_state run1 = rd_state run"
    by (auto simp: stamp_latest_skipped_def)
  have "completed_advance run1 (ps_name (wf_phases wkf ! i))" if "i < Suc k" for i
    using that assms(1) a(2,3)
    by (cases "i = k") (auto simp: completed_snoc [OF a(1)] attempt_advanced_def advanced_to_def)
  then have c: "\<forall>p \<in> set (wf_phases wkf). completed_advance run1 (ps_name p)"
    unfolding assms(3) by (auto simp: in_set_conv_nth)
  then have e: "all_ready_dispatch_targets wkf run1 Advance = []"
    by (intro all_attempted_no_targets) (auto dest: completed_attempted)
  have "\<not> has_in_flight_attempts run1"
    using assms(6) a(3) by (simp add: has_in_flight_attempts_def a(1) in_flight_def)
  with c e a(4) show ?thesis
    by (simp add: route_advance_def t dispatch_forward_def dispatch_single assms(7) Let_def)
qed

lemma phase_spec_by_name_distinct:
  "distinct (map ps_name ps) \<Longrightarrow> p \<in> set ps \<Longrightarrow> phase_spec_by_name ps (ps_name p) = Some p"
  by (induction ps) (auto simp: phase_spec_by_name_def)

lemma ready_after_attempted:
  "\<forall>p \<in> set xs. ps_name p \<in> attempted_phases run \<Longrightarrow>
     ready_after run b prev (xs @ ys) = ready_after run b (last (prev # xs)) ys"
  by (induction xs arbitrary: prev) (auto simp: succeeds_completed_def)

lemma launch_failed_adds:
  "dispatch_one launch wkf p snap run = DispatchFailed (LaunchFailed e) run' \<Longrightarrow>
     adds_one (ps_name p) True run run'"
  by (auto simp: dispatch_one_def evaluate_phase_when_def Let_def res_bind_Inl_iff
      split: if_splits sum.splits when_outcome.splits prod.splits
      dest: start_phase_failed_adds evaluate_jobs_error)

lemma cleanup_then_next:
  assumes ph: "wf_phases wkf = pre @ v # t # r # post" and pre: "pre \<noteq> []"
    and dist: "distinct (map ps_name (wf_phases wkf))"
    and adv: "advanced_to (wf_phases wkf) run (length pre)" and nab: "\<not> run_has_abort_decision run"
    and tab: "phase_runs_on_abort_path t" and rsu: "phase_runs_on_success_path r"
    and at: "rd_attempts run' = rd_attempts run @ [a, b]" "at_phase a = ps_name v" "in_flight a"
      "at_phase b = ps_name t" "at_decision b = ''advance''"
  shows "all_ready_dispatch_targets wkf run' Advance = [r]"
proof -
  obtain w ws where w: "pre = w # ws" using pre by (cases pre) auto
  have att: "attempted_phases run' = attempted_phases run \<union> {ps_name v, ps_name t}"
    using at by (auto simp: attempted_phases_def)
  have pre_att: "ps_name p \<in> attempted_phases run" if "p \<in> set pre" for p
    using that adv completed_attempted
    by (fastforce simp: advanced_to_def ph nth_append in_set_conv_nth)
  have "ps_name r \<notin> attempted_phases run"
    using adv by (auto simp: advanced_to_def ph nth_append dest!: spec [of _ "Suc (Suc (length pre))"])
  with dist have r: "ps_name r \<notin> attempted_phases run'" by (auto simp: att ph)
  have "completed_advance run' (ps_name t)"
    using at by (simp add: completed_advance_def latest_attempt_def attempt_advanced_def)
  then have ready: "succeeds_completed run' True t r"
    using r rsu by (simp add: succeeds_completed_def)
  have "list_ready_phases (wf_phases wkf) run' True = ready_after run' True w ((ws @ [v, t]) @ r # post)"
    by (simp add: list_ready_phases_def ph w)
  also have "\<dots> = ready_after run' True t (r # post)"
    using pre_att by (subst ready_after_attempted) (auto simp: att w)
  finally have l: "list_ready_phases (wf_phases wkf) run' True = [r]" using ready by simp
  have "\<not> run_has_abort_decision run'"
    using nab at by (auto simp: run_has_abort_decision_def latest_abort_decision_def in_flight_def
        is_abort_decision_def)
  moreover have "phase_spec_by_name (wf_phases wkf) (ps_name t) = Some t"
    by (rule phase_spec_by_name_distinct [OF dist]) (simp add: ph)
  ultimately show ?thesis using l tab at(1,4) by (simp add: all_ready_dispatch_targets_def is_abort_phase_def)
qed

text \<open>
  A phase that cannot be launched is passed over when a teardown phase follows it: the
  completion dispatches the teardown as a cleanup, no attempt gets an abort decision, and once the
  teardown has advanced the phase behind it is dispatched as if the run had succeeded, while the
  attempt of the phase that was never launched stays in flight.
\<close>
theorem unlaunched_phase_is_passed_over:
  assumes "wf_phases wkf = pre @ v # t # r # post" and "pre \<noteq> []"
    and "distinct (map ps_name (wf_phases wkf))"
    and "advanced_to (wf_phases wkf) run (length pre)" and "\<not> run_has_abort_decision run"
    and "\<not> has_in_flight_attempts run"
    and "phase_runs_on_success_path v" and "phase_runs_on_success_path r"
    and "first_unattempted_abort_phase (wf_phases wkf) run = Some t"
    and "dispatch_one launch wkf v run run = DispatchFailed (LaunchFailed e) run1"
    and "dispatch_one launch wkf t run run1 = DispatchSettled run2"
  shows "route_advance launch wkf drn run = Replied ''advance_phase'' run2 \<and>
     (\<exists>a b. rd_attempts run2 = rd_attempts run @ [a, b] \<and> at_phase a = ps_name v \<and> in_flight a \<and>
        at_phase b = ps_name t \<and>
        all_ready_dispatch_targets wkf
          (run2\<lparr>rd_attempts := rd_attempts run @ [a, stamp_decision ''advance'' payload b]\<rparr>) Advance = [r])"
proof
  have nth: "wf_phases wkf ! length pre = v" by (simp add: assms(1))
  have "all_ready_dispatch_targets wkf run Advance = [v]"
    using next_target [OF assms(4)] assms(1,2,5-7) nth by simp
  moreover have "all_ready_dispatch_targets wkf run AbortMalformed = [t]"
    using assms(6,9) advanced_nonempty [OF assms(4)] assms(2) by (simp add: abort_targets)
  ultimately show "route_advance launch wkf drn run = Replied ''advance_phase'' run2"
    by (simp add: route_advance_def abort_with_cleanup_def dispatch_forward_def dispatch_single assms(10,11) Let_def)
  have "adds_one (ps_name v) True run run1" using assms(10) by (rule launch_failed_adds)
  moreover have "adds_one (ps_name t) True run1 run2" using assms(11) by (rule dispatch_settled_adds)
  ultimately obtain a b where ab: "rd_attempts run2 = rd_attempts run @ [a, b]" "at_phase a = ps_name v" "in_flight a"
      "at_phase b = ps_name t"
    by (auto simp: adds_one_def)
  have "phase_runs_on_abort_path t" using assms(9) abort_phase_sound by blast
  then have "all_ready_dispatch_targets wkf
      (run2\<lparr>rd_attempts := rd_attempts run @ [a, stamp_decision ''advance'' payload b]\<rparr>) Advance = [r]"
    using cleanup_then_next [OF assms(1-5) _ assms(8), where a = a and b = "stamp_decision ''advance'' payload b"] ab
    by (simp add: stamp_decision_def)
  with ab show "\<exists>a b. rd_attempts run2 = rd_attempts run @ [a, b] \<and> at_phase a = ps_name v \<and> in_flight a \<and>
        at_phase b = ps_name t \<and>
        all_ready_dispatch_targets wkf
          (run2\<lparr>rd_attempts := rd_attempts run @ [a, stamp_decision ''advance'' payload b]\<rparr>) Advance = [r]"
    by blast
qed

end
