(* ===== verification/RegisteredRuns.thy ===== *)
theory RegisteredRuns
  imports Registration RoutingOutcomes
begin

text \<open>
  What registration gives routing: the shape of an accepted workflow, dispatches that only the
  launcher can fail, one retry limit for all cycles of a run; and a name with blanks around it,
  which registration accepts and dispatch does not resolve.
\<close>

section \<open>Shape\<close>

lemma last_take: "0 < i \<Longrightarrow> i \<le> length xs \<Longrightarrow> last (take i xs) = xs ! (i - 1)"
  by (subst last_conv_nth) auto

lemma registered_chain:
  assumes "registered wide reg"
  shows "0 < i \<Longrightarrow> i < length (wr_phases reg) \<Longrightarrow>
      ps_depends_on (wr_phases reg ! i) = [ps_name (wr_phases reg ! (i - 1))]"
    "wr_phases reg \<noteq> []" "ps_depends_on (hd (wr_phases reg)) = []"
    "trim_space (ps_name (hd (wr_phases reg))) = ''prepare''"
proof -
  show ne: "wr_phases reg \<noteq> []"
    using assms by (auto simp: validate_workflow_register_def Let_def)
  have c: "check_chain (take i (wr_phases reg)) (wr_phases reg ! i) = None" if "i < length (wr_phases reg)" for i
    using registered_phase(1) [OF assms that] by (simp add: named_phase_facts)
  show "ps_depends_on (wr_phases reg ! i) = [ps_name (wr_phases reg ! (i - 1))]"
    if "0 < i" "i < length (wr_phases reg)"
    using c [OF that(2)] that ne
    by (auto simp: check_chain_def last_take split: list.splits)
  show "ps_depends_on (hd (wr_phases reg)) = []" "trim_space (ps_name (hd (wr_phases reg))) = ''prepare''"
    using c [of 0] ne by (auto simp: check_chain_def hd_conv_nth)
qed

lemma registered_parts: "registered wide reg \<Longrightarrow> check_parts (wr_phases reg) = None"
  by (simp add: validate_workflow_register_def Let_def)

lemma registered_counts:
  assumes "registered wide reg"
  shows "verify_count (wr_phases reg) = 1" "review_gate_count (wr_phases reg) = 1" "pr_review_jobs (wr_phases reg) = 1"
    "\<exists>p \<in> set (wr_phases reg). phase_purpose p = ''teardown''"
  using registered_parts [OF assms]
  by (auto simp: check_parts_def missing_parts_def list_ex_iff split: if_splits)

text \<open>
  C35: A workflow that registration accepts is a chain of phases with distinct names that starts
  at \<open>prepare\<close>, each phase depending on the one before; exactly one phase verifies and it has a
  recycle policy, exactly one is a review gate, exactly one job links a review; at least one
  teardown phase exists, and only teardown phases run on other paths than success.
\<close>
theorem registered_workflow_shape:
  assumes "registered wide reg"
  shows "distinct (map ps_name (wr_phases reg)) \<and>
     workflow_entry_phase (wr_phases reg) = Some (hd (wr_phases reg)) \<and>
     trim_space (ps_name (hd (wr_phases reg))) = ''prepare'' \<and>
     (\<forall>i. 0 < i \<longrightarrow> i < length (wr_phases reg) \<longrightarrow>
        ps_depends_on (wr_phases reg ! i) = [ps_name (wr_phases reg ! (i - 1))]) \<and>
     verify_count (wr_phases reg) = 1 \<and> review_gate_count (wr_phases reg) = 1 \<and> pr_review_jobs (wr_phases reg) = 1 \<and>
     (\<exists>p \<in> set (wr_phases reg). phase_purpose p = ''teardown'') \<and>
     (\<forall>p \<in> set (wr_phases reg). (ps_verify p \<longrightarrow> ps_recycle p \<noteq> None) \<and>
        (phase_purpose p = ''teardown'' \<longleftrightarrow> phase_run_on p \<noteq> ''success''))"
proof -
  have "workflow_entry_phase (wr_phases reg) = Some (hd (wr_phases reg))"
    using registered_chain(2,3) [OF assms] by (cases "wr_phases reg") (auto simp: workflow_entry_phase_def)
  moreover have "phase_purpose p = ''teardown'' \<longleftrightarrow> phase_run_on p \<noteq> ''success''" if "p \<in> set (wr_phases reg)" for p
    using registered_member(6,7) [OF assms that] by blast
  ultimately show ?thesis
    using registered_distinct [OF assms] registered_chain [OF assms] registered_counts [OF assms]
      registered_member(5) [OF assms] by blast
qed

section \<open>Dispatch\<close>

lemma blank_condition: "trim_space raw = [] \<Longrightarrow> when_parse raw = Inr None"
  by (simp add: when_parse_def)

lemma validated_condition: "when_validate raw location vars inputs = None \<Longrightarrow> \<exists>eo. when_parse raw = Inr eo"
  by (auto simp: when_validate_def split: sum.splits)

lemma evaluate_jobs_ok:
  "\<forall>j \<in> set js. \<exists>eo. when_parse (js_when j) = Inr eo \<Longrightarrow> \<exists>r. evaluate_jobs ph ctx js = Inr r"
  by (induction js) (auto simp: Let_def split: prod.splits)

lemma registered_when_ok:
  assumes "registered wide reg" "p \<in> set (wr_phases reg)"
  shows "\<exists>w. evaluate_phase_when p ctx = Inr w"
proof -
  obtain eo where e: "when_parse (ps_when p) = Inr eo"
    using registered_member(9) [OF assms] validated_condition blank_condition by blast
  have "\<exists>eo. when_parse (js_when j) = Inr eo" if "j \<in> set (ps_jobs p)" for j
    using registered_member(10) [OF assms that] validated_condition blank_condition
    by (auto simp: conditional_job_def)
  then obtain r where r: "evaluate_jobs (ps_name p) ctx (ps_jobs p) = Inr r" using evaluate_jobs_ok by blast
  show ?thesis by (cases r) (auto simp: evaluate_phase_when_def e r Let_def split: prod.split)
qed

lemma k8s_kind_fixed: "workflow_phase_kind ''k8s_job'' = ''k8s_job''"
  by code_simp

lemma valid_kind_idem: "valid_workflow_kind k \<Longrightarrow> valid_workflow_kind (workflow_phase_kind k)"
  by (simp add: valid_workflow_kind_def k8s_kind_fixed)


section \<open>Retries\<close>

lemma unique_verify:
  assumes "registered wide reg" "p \<in> set (wr_phases reg)" "q \<in> set (wr_phases reg)" "ps_verify p" "ps_verify q"
  shows "p = q"
proof -
  obtain v where v: "filter ps_verify (wr_phases reg) = [v]"
    using registered_counts(1) [OF assms(1)] by (auto simp: verify_count_def length_Suc_conv)
  have "x = v" if "x \<in> set (wr_phases reg)" "ps_verify x" for x
  proof -
    from that have "x \<in> set (filter ps_verify (wr_phases reg))" by simp
    then show ?thesis by (simp add: v)
  qed
  from this [OF assms(2,4)] this [OF assms(3,5)] show ?thesis by simp
qed

lemma spec_by_name_in: "phase_spec_by_name ps n = Some p \<Longrightarrow> p \<in> set ps \<and> ps_name p = n"
  by (auto simp: phase_spec_by_name_def dest: find_result_in)

text \<open>
  All retries of a run of a registered workflow come from its one verification phase, so the
  policy of that phase bounds the number of cycles: whatever launching, the store and the
  payloads are, no completion in a cycle at or above its maximum starts another one.
\<close>
theorem registered_cycles_bounded:
  assumes "registered wide reg" and "wf_phases wkf = wr_phases reg"
  shows "\<exists>v rp. v \<in> set (wr_phases reg) \<and> ps_verify v \<and> ps_recycle v = Some rp \<and>
     (\<forall>launch cycles payload run run1 fresh.
        process_completion launch cycles (Some wkf) payload run = Recycled run1 fresh \<longrightarrow>
        at_phase (last (rd_attempts run)) = ps_name v \<and> run_cycle_ordinal run < rc_max_attempts rp)"
proof -
  obtain v where v: "v \<in> set (wr_phases reg)" "ps_verify v"
    using registered_counts(1) [OF assms(1)]
    by (metis One_nat_def filter_False length_greater_0_conv less_one list.size(3) verify_count_def)
  obtain rp where rp: "ps_recycle v = Some rp" using registered_member(5) [OF assms(1) v] by auto
  have "at_phase (last (rd_attempts run)) = ps_name v \<and> run_cycle_ordinal run < rc_max_attempts rp"
    if r: "process_completion launch cycles (Some wkf) payload run = Recycled run1 fresh"
    for launch cycles payload run run1 fresh
  proof -
    from r obtain p q where p: "phase_spec_by_name (wf_phases wkf) (at_phase (last (rd_attempts run))) = Some p"
        "ps_recycle p = Some q" "run_cycle_ordinal run < rc_max_attempts q" "ps_gate p \<or> ps_verify p"
      by (rule recycled_headroom)
    from p(1) have m: "p \<in> set (wr_phases reg)" "ps_name p = at_phase (last (rd_attempts run))"
      using spec_by_name_in assms(2) by auto
    with p(4) have "p = v" using registered_member(1) [OF assms(1)] unique_verify [OF assms(1) _ v(1) _ v(2)] by blast
    with p m(2) rp show ?thesis by simp
  qed
  with v rp show ?thesis by blast
qed

section \<open>Names with blanks around them\<close>

lemma no_outputs_without_attempt:
  assumes "ph \<notin> at_phase ` set as"
  shows "prior_outputs as ph = None" "\<not> skipped_phases as ph"
  using assms by (auto simp: prior_outputs_def skipped_phases_def list_ex_iff find_None_iff)

text \<open>
  Registration checks the names of the phases without the blanks around them, dispatch uses
  them as they are written. A phase that refers to another by its trimmed name is accepted when no
  phase carries exactly that name, and can then never be dispatched: its inputs do not resolve,
  whatever the earlier phases have posted.
\<close>
theorem padded_name_breaks_dispatch:
  assumes "registered wide reg" and "wf_phases wkf = wr_phases reg" and "i < length (wr_phases reg)"
    and "nv \<in> set (ps_inputs (wr_phases reg ! i))" and "parse_ref (snd nv) = Some r"
    and "ref_phase r \<notin> ps_name ` set (wr_phases reg)"
    and "at_phase ` set (rd_attempts snap) \<subseteq> ps_name ` set (wr_phases reg)"
  shows "\<exists>e. dispatch_one launch wkf (wr_phases reg ! i) snap stored = DispatchFailed (BadPhaseInputs e) stored"
proof -
  let ?p = "wr_phases reg ! i" and ?f = "resolve_input (ref_spec_of (wr_phases reg ! i))
    (prior_outputs (rd_attempts snap)) (skipped_phases (rd_attempts snap))"
  have "ref_phase r \<notin> at_phase ` set (rd_attempts snap)" using assms(6,7) by blast
  note no = no_outputs_without_attempt [OF this]
  have "\<exists>e. ?f nv = Inl e" using assms(5) no by (simp add: resolve_input_def)
  then have "substitute_loop ?f (ps_inputs ?p) Map.empty \<noteq> Inr m" for m
    using substitute_loop_Inr [of ?f "ps_inputs ?p" Map.empty m] assms(4) by fastforce
  then obtain e where e: "substitute_loop ?f (ps_inputs ?p) Map.empty = Inl e"
    by (metis sum.exhaust)
  have "rf_inputs (ref_spec_of ?p) = ps_inputs ?p" by (simp add: ref_spec_of_def)
  with e assms(4) have "substitute_completion_inputs ?p (rd_attempts snap) = Inl e"
    by (auto simp: substitute_completion_inputs_def substitute_def)
  moreover have "valid_workflow_kind (workflow_phase_kind (ps_kind ?p))"
    using assms(1,3) by (intro valid_kind_idem registered_member(11)) auto
  ultimately show ?thesis by (auto simp: dispatch_one_def)
qed

end
