(* ===== verification/Examples.thy ===== *)
theory Examples
  imports RegisteredRuns
begin

text \<open>
  Workflows that registration accepts, and runs of them, at which the theorems of routing and
  registration are instantiated.
\<close>

section \<open>Workflows\<close>

definition example_job :: "string \<Rightarrow> string \<Rightarrow> step_spec list \<Rightarrow> job_spec" where
  "example_job i primitive steps =
     \<lparr>js_id = i, js_primitive = primitive, js_command = [], js_args = [], js_steps = steps, js_timeout = None,
      js_managed = True, js_checkout = None, js_extra_checkouts = [], js_when = [], js_tools = []\<rparr>"

definition finalize_step :: step_spec where
  "finalize_step =
     \<lparr>ss_slug = ''verdict'', ss_primitive = ''verification_finalize'', ss_type = [], ss_run = [],
      ss_agent = None, ss_group = [], ss_dynamic = None\<rparr>"

definition example_phase :: "string \<Rightarrow> string \<Rightarrow> string \<Rightarrow> string list \<Rightarrow> job_spec list \<Rightarrow> phase_spec" where
  "example_phase name purpose run_on deps jobs =
     \<lparr>ps_name = name, ps_kind = ''k8s_job'', ps_run_on = run_on, ps_purpose = purpose,
      ps_workflow_filename = [], ps_workflow_ref = ''main'', ps_inputs = [], ps_outputs = [],
      ps_verify = (purpose = ''verification''),
      ps_recycle = (if purpose = ''verification''
        then Some \<lparr>rc_max_attempts = 2, rc_on = [''verify_fail''], rc_lands_at = ''self''\<rparr> else None),
      ps_always = False, ps_gate = False, ps_depends_on = deps, ps_jobs = jobs, ps_when = [],
      ps_skip_preserve = False\<rparr>"

definition prepare_phase :: phase_spec where
  "prepare_phase = example_phase ''prepare'' ''work'' ''success'' [] [example_job ''build'' [] []]"

definition verify_phase :: phase_spec where
  "verify_phase = example_phase ''verify'' ''verification'' ''success'' [''prepare''] [example_job ''check'' [] [finalize_step]]"

definition cleanup_phase :: phase_spec where
  "cleanup_phase = example_phase ''cleanup'' ''teardown'' ''always'' [''verify''] [example_job ''down'' [] []]"

definition salvage_phase :: phase_spec where
  "salvage_phase = example_phase ''salvage'' ''teardown'' ''failure'' [''verify''] [example_job ''down'' [] []]"

definition review_phase :: "string \<Rightarrow> phase_spec" where
  "review_phase dep = example_phase ''review'' ''review'' ''success'' [dep] [example_job ''pr'' ''pr_review'' []]"

definition gate_phase :: phase_spec where
  "gate_phase = example_phase ''review_gate'' ''review_gate'' ''success'' [''review''] [example_job ''merge'' ''pr_merge'' []]"

definition final_phase :: phase_spec where
  "final_phase = example_phase ''final'' ''teardown'' ''always'' [''review_gate''] [example_job ''down'' [] []]"

text \<open>The last phase runs only for the runs that ask for it.\<close>

definition optional_phase :: phase_spec where
  "optional_phase = final_phase\<lparr>ps_when := ''false''\<rparr>"

definition register_of :: "phase_spec list \<Rightarrow> workflow_register" where
  "register_of phases =
     \<lparr>wr_name = ''agent'', wr_phases = phases, wr_shape = [], wr_max_cases = 0, wr_vars = [], wr_inputs = [],
      wr_budget = \<lparr>total = Fin 25\<rparr>, wr_pr = None, wr_metadata = []\<rparr>"

definition workflow_of :: "phase_spec list \<Rightarrow> workflow" where
  "workflow_of phases =
     \<lparr>wf_name = ''agent'', wf_schema_ref = ''schema'', wf_phases = phases,
      wf_budget = \<lparr>total = Fin 25\<rparr>, wf_vars = Map.empty\<rparr>"

definition review_phases :: "phase_spec list" where
  "review_phases = [prepare_phase, verify_phase, cleanup_phase, review_phase ''cleanup'', gate_phase, final_phase]"

definition failure_phases :: "phase_spec list" where
  "failure_phases = [prepare_phase, verify_phase, salvage_phase, review_phase ''salvage'', gate_phase, final_phase]"

definition optional_phases :: "phase_spec list" where
  "optional_phases = [prepare_phase, verify_phase, cleanup_phase, review_phase ''cleanup'', gate_phase, optional_phase]"

lemma register_of_phases [simp]:
  "wr_phases (register_of ps) = ps" "wf_phases (workflow_of ps) = ps"
  by (simp_all add: register_of_def workflow_of_def)

lemma trim_literals [simp]:
  "trim_space ''k8s_job'' = ''k8s_job''" "trim_space ''main'' = ''main''" "trim_space ''success'' = ''success''"
  "trim_space ''failure'' = ''failure''" "trim_space ''always'' = ''always''" "trim_space ''work'' = ''work''"
  "trim_space ''verification'' = ''verification''" "trim_space ''teardown'' = ''teardown''"
  "trim_space ''review'' = ''review''" "trim_space ''review_gate'' = ''review_gate''"
  "trim_space ''prepare'' = ''prepare''" "trim_space ''verify'' = ''verify''" "trim_space ''cleanup'' = ''cleanup''"
  "trim_space ''salvage'' = ''salvage''" "trim_space ''final'' = ''final''" "trim_space ''pr_review'' = ''pr_review''"
  "trim_space ''pr_merge'' = ''pr_merge''" "trim_space ''build'' = ''build''" "trim_space ''check'' = ''check''"
  "trim_space ''down'' = ''down''" "trim_space ''pr'' = ''pr''" "trim_space ''merge'' = ''merge''"
  "trim_space ''verdict'' = ''verdict''" "trim_space ''false'' = ''false''"
  "trim_space ''verification_finalize'' = ''verification_finalize''"
  by code_simp+

lemmas classify_defs = phase_purpose_def phase_run_on_def valid_phase_purpose_def valid_phase_run_on_def Let_def

lemma example_purpose [simp]:
  "phase_purpose (example_phase n ''work'' r d js) = ''work''"
  "phase_purpose (example_phase n ''verification'' r d js) = ''verification''"
  "phase_purpose (example_phase n ''teardown'' r d js) = ''teardown''"
  "phase_purpose (example_phase n ''review'' r d js) = ''review''"
  "phase_purpose (example_phase n ''review_gate'' r d js) = ''review_gate''"
  "phase_run_on (example_phase n u ''success'' d js) = ''success''"
  "phase_run_on (example_phase n u ''failure'' d js) = ''failure''"
  "phase_run_on (example_phase n u ''always'' d js) = ''always''"
  by (simp_all add: classify_defs example_phase_def)

lemma example_fields [simp]:
  "ps_name (example_phase n u r d js) = n" "ps_purpose (example_phase n u r d js) = u"
  "ps_run_on (example_phase n u r d js) = r" "ps_depends_on (example_phase n u r d js) = d"
  "ps_jobs (example_phase n u r d js) = js" "ps_inputs (example_phase n u r d js) = []"
  "ps_outputs (example_phase n u r d js) = []" "ps_when (example_phase n u r d js) = []"
  "ps_kind (example_phase n u r d js) = ''k8s_job''" "ps_workflow_ref (example_phase n u r d js) = ''main''"
  "\<not> ps_always (example_phase n u r d js)" "\<not> ps_gate (example_phase n u r d js)"
  "\<not> ps_skip_preserve (example_phase n u r d js)"
  "ps_verify (example_phase n u r d js) = (u = ''verification'')"
  "ps_recycle (example_phase n u r d js) = (if u = ''verification''
     then Some \<lparr>rc_max_attempts = 2, rc_on = [''verify_fail''], rc_lands_at = ''self''\<rparr> else None)"
  by (simp_all add: example_phase_def)

lemma example_job_fields [simp]:
  "js_id (example_job i p ss) = i" "js_primitive (example_job i p ss) = p" "js_steps (example_job i p ss) = ss"
  "js_command (example_job i p ss) = []" "js_args (example_job i p ss) = []" "js_timeout (example_job i p ss) = None"
  "js_managed (example_job i p ss)" "js_checkout (example_job i p ss) = None"
  "js_extra_checkouts (example_job i p ss) = []" "js_when (example_job i p ss) = []" "js_tools (example_job i p ss) = []"
  by (simp_all add: example_job_def)

lemma k8s_job_valid [simp]: "valid_workflow_kind ''k8s_job''"
  by code_simp

lemma main_is_literal [simp]: "run_input_ref ''main'' = None"
  by code_simp

lemmas example_phase_defs = prepare_phase_def verify_phase_def cleanup_phase_def salvage_phase_def review_phase_def
  gate_phase_def final_phase_def
lemmas phase_check_defs = check_phase_def check_named_phase_def Let_def check_verification_def check_run_on_def
  check_condition_def check_job_condition_def check_review_gate_def check_checkout_repo_def check_job_def
  check_job_primitive_def validate_runner_job_def check_chain_def conditional_job_def gate_purpose_def
  phase_has_primitive_def valid_phase_purpose_def valid_phase_run_on_def

lemma shape_of [simp]:
  "canonical_shape (register_of (prepare_phase # verify_phase # ps)) = ''single_job''"
  "canonical_max_cases (register_of (prepare_phase # verify_phase # ps)) = 0"
  by (simp_all add: canonical_shape_def canonical_max_cases_def register_of_def infer_shape_def
      example_phase_defs finalize_step_def Let_def)

lemma verify_job_ok [simp]:
  "trim_space i \<noteq> [] \<Longrightarrow>
     validate_verification_job (example_phase n u r d [example_job i p [finalize_step]]) ''single_job'' k = None"
  by (simp add: validate_verification_job_def validate_single_job_def is_finalizer_def finalize_step_def)

lemma verify_steps_ok [simp]: "check_steps wide True [] finalize_step = None"
  by (simp add: check_steps_def check_step_def finalize_step_def Let_def)

lemma false_condition [simp]: "when_validate ''false'' l vars inputs = None"
  by (simp add: when_validate_def when_parse_def Let_def)

lemma purpose_without_when [simp]: "phase_purpose (p\<lparr>ps_when := c\<rparr>) = phase_purpose p"
  by (simp add: phase_purpose_def phase_has_primitive_def Let_def)

lemma run_on_without_when [simp]: "phase_run_on (p\<lparr>ps_when := c\<rparr>) = phase_run_on p"
  by (simp add: phase_run_on_def Let_def)

lemma example_check_phase:
  assumes "canonical_shape reg = ''single_job''"
  shows "check_phase w reg [] prepare_phase = None"
    "check_phase w reg [prepare_phase] verify_phase = None"
    "check_phase w reg [prepare_phase, verify_phase] cleanup_phase = None"
    "check_phase w reg [prepare_phase, verify_phase] salvage_phase = None"
    "check_phase w reg [prepare_phase, verify_phase, cleanup_phase] (review_phase ''cleanup'') = None"
    "check_phase w reg [prepare_phase, verify_phase, salvage_phase] (review_phase ''salvage'') = None"
    "check_phase w reg [prepare_phase, verify_phase, cleanup_phase, review_phase ''cleanup''] gate_phase = None"
    "check_phase w reg [prepare_phase, verify_phase, salvage_phase, review_phase ''salvage''] gate_phase = None"
    "check_phase w reg [prepare_phase, verify_phase, cleanup_phase, review_phase ''cleanup'', gate_phase] final_phase = None"
    "check_phase w reg [prepare_phase, verify_phase, salvage_phase, review_phase ''salvage'', gate_phase] final_phase = None"
    "check_phase w reg [prepare_phase, verify_phase, cleanup_phase, review_phase ''cleanup'', gate_phase] optional_phase = None"
  using assms by (simp_all add: phase_check_defs example_phase_defs optional_phase_def del: check_all.simps)

lemmas part_defs = check_parts_def missing_parts_def verify_count_def review_gate_count_def pr_review_jobs_def
lemmas register_defs = validate_workflow_register_def Let_def validate_dispatch_inputs_def validate_input_refs_def
  check_ref_def check_job_refs_def validate_vars_def validate_constraints_def validate_git_ref_def

lemmas example_register_defs = register_of_def part_defs example_phase_defs registered_ref_spec_def validate_refs_def

lemma review_registered: "registered w (register_of review_phases)"
  by (simp add: review_phases_def register_defs example_check_phase del: check_all.simps,
      simp add: example_register_defs optional_phase_def)

lemma failure_registered: "registered w (register_of failure_phases)"
  by (simp add: failure_phases_def register_defs example_check_phase del: check_all.simps,
      simp add: example_register_defs optional_phase_def)

lemma optional_registered: "registered w (register_of optional_phases)"
  by (simp add: optional_phases_def register_defs example_check_phase del: check_all.simps,
      simp add: example_register_defs optional_phase_def)

section \<open>Runs\<close>

definition done_attempt :: "int \<Rightarrow> string \<Rightarrow> attempt_data" where
  "done_attempt i phase =
     \<lparr>at_index = i, at_phase = phase, at_conclusion = ''success'', at_verification = None,
      at_decision = ''advance'', at_completed = True, at_carry_forward = False, at_outputs = None,
      at_has_skipped_jobs = False\<rparr>"

fun done_attempts :: "int \<Rightarrow> string list \<Rightarrow> attempt_data list" where
  "done_attempts i [] = []"
| "done_attempts i (n # ns) = done_attempt i n # done_attempts (i + 1) ns"

definition run_with :: "attempt_data list \<Rightarrow> run_data" where
  "run_with attempts =
     \<lparr>rd_id = ''r1'', rd_project = ''p'', rd_workflow_name = ''agent'', rd_schema_ref = ''schema'',
      rd_attempts = attempts, rd_cost = Fin 3, rd_budget = \<lparr>total = Fin 2\<rparr>, rd_issue_number = 7,
      rd_run_cycle = Some 1, rd_display = Some ''1.1'', rd_pr_number = None, rd_slot_lease = Some ''p-slot-1'',
      rd_entrypoint = Some ''prepare'', rd_inputs = Map.empty, rd_preserve = False, rd_state = ''in_progress'',
      rd_prior = None\<rparr>"

definition done_run :: "string list \<Rightarrow> run_data" where
  "done_run ns = run_with (done_attempts 0 ns)"

lemma run_with_fields [simp]:
  "rd_attempts (run_with as) = as" "rd_pr_number (run_with as) = None" "rd_state (run_with as) = ''in_progress''"
  by (simp_all add: run_with_def)

lemma done_run_fields [simp]:
  "rd_attempts (done_run ns) = done_attempts 0 ns" "rd_pr_number (done_run ns) = None"
  "rd_state (done_run ns) = ''in_progress''"
  by (simp_all add: done_run_def)

lemma done_attempt_fields [simp]:
  "at_phase (done_attempt i n) = n" "at_decision (done_attempt i n) = ''advance''" "\<not> in_flight (done_attempt i n)"
  by (simp_all add: done_attempt_def in_flight_def)

lemma done_attempts_all:
  "a \<in> set (done_attempts i ns) \<Longrightarrow> at_decision a = ''advance'' \<and> \<not> in_flight a"
  by (induction ns arbitrary: i) auto

lemma done_attempts_phases [simp]: "at_phase ` set (done_attempts i ns) = set ns"
  by (induction ns arbitrary: i) auto

lemma done_run_state:
  "\<not> run_has_abort_decision (done_run ns)" "\<not> has_in_flight_attempts (done_run ns)"
  "attempted_phases (done_run ns) = set ns" "completed_advance (done_run ns) ph \<longleftrightarrow> ph \<in> set ns"
proof -
  show "\<not> run_has_abort_decision (done_run ns)"
    by (auto simp: run_has_abort_decision_def latest_abort_decision_def is_abort_decision_def find_None_iff
        dest!: done_attempts_all find_result_in)
  show "\<not> has_in_flight_attempts (done_run ns)"
    by (auto simp: has_in_flight_attempts_def list_ex_iff dest: done_attempts_all)
  show att: "attempted_phases (done_run ns) = set ns" by (simp add: attempted_phases_def)
  have "attempt_advanced a" if "latest_attempt (done_run ns) ph = Some a" for a
    using latest_attempt_Some [OF that] done_attempts_all by (fastforce simp: attempt_advanced_def)
  moreover have "latest_attempt (done_run ns) ph \<noteq> None \<longleftrightarrow> ph \<in> at_phase ` set (done_attempts 0 ns)"
    by (auto simp: latest_attempt_def find_None_iff image_iff simp del: done_attempts_phases)
  ultimately show "completed_advance (done_run ns) ph \<longleftrightarrow> ph \<in> set ns"
    by (auto simp: completed_advance_def split: option.split)
qed

lemma done_run_advanced:
  "k \<le> length ps \<Longrightarrow> advanced_to ps (done_run ns) k \<longleftrightarrow>
     (\<forall>p \<in> set (take k ps). ps_name p \<in> set ns) \<and> (\<forall>p \<in> set (drop k ps). ps_name p \<notin> set ns)"
proof -
  assume k: "k \<le> length ps"
  have "(\<forall>p \<in> set (drop k ps). Q p) \<longleftrightarrow> (\<forall>i < length ps. k \<le> i \<longrightarrow> Q (ps ! i))" for Q :: "phase_spec \<Rightarrow> bool"
  proof
    assume Q: "\<forall>p \<in> set (drop k ps). Q p"
    show "\<forall>i < length ps. k \<le> i \<longrightarrow> Q (ps ! i)"
    proof (intro allI impI)
      fix i assume i: "i < length ps" "k \<le> i"
      then have "drop k ps ! (i - k) \<in> set (drop k ps)" by (intro nth_mem) simp
      with Q i show "Q (ps ! i)" by simp
    qed
  qed (auto simp: in_set_conv_nth)
  moreover have "(\<forall>p \<in> set (take k ps). Q p) \<longleftrightarrow> (\<forall>i < k. Q (ps ! i))" for Q :: "phase_spec \<Rightarrow> bool"
    using k by (auto simp: all_set_conv_all_nth)
  ultimately show ?thesis by (simp add: advanced_to_def done_run_state)
qed

lemma example_names [simp]:
  "ps_name prepare_phase = ''prepare''" "ps_name verify_phase = ''verify''" "ps_name cleanup_phase = ''cleanup''"
  "ps_name salvage_phase = ''salvage''" "ps_name (review_phase d) = ''review''" "ps_name gate_phase = ''review_gate''"
  "ps_name final_phase = ''final''" "ps_name optional_phase = ''final''"
  by (simp_all add: example_phase_defs optional_phase_def)

lemma example_advanced:
  "advanced_to review_phases (done_run [''prepare'']) (Suc 0)"
  "advanced_to failure_phases (done_run [''prepare'', ''verify'']) 2"
  "advanced_to optional_phases (done_run [''prepare'', ''verify'', ''cleanup'', ''review'', ''review_gate'']) 5"
  by (subst done_run_advanced; simp add: review_phases_def failure_phases_def optional_phases_def)+

lemma example_paths [simp]:
  "phase_run_on prepare_phase = ''success''" "phase_run_on verify_phase = ''success''"
  "phase_run_on cleanup_phase = ''always''" "phase_run_on salvage_phase = ''failure''"
  "phase_run_on (review_phase d) = ''success''" "phase_run_on gate_phase = ''success''"
  "phase_run_on final_phase = ''always''" "phase_run_on optional_phase = ''always''"
  "phase_purpose prepare_phase = ''work''" "phase_purpose verify_phase = ''verification''"
  "phase_purpose cleanup_phase = ''teardown''" "phase_purpose optional_phase = ''teardown''"
  by (simp_all add: example_phase_defs optional_phase_def)

lemma example_when: "trim_space (ps_when p) = [] \<Longrightarrow> list_all (\<lambda>j. trim_space (js_when j) = []) (ps_jobs p) \<Longrightarrow>
     evaluate_phase_when p ctx = Inr (PhaseRuns [])"
proof -
  assume p: "trim_space (ps_when p) = []" and js: "list_all (\<lambda>j. trim_space (js_when j) = []) (ps_jobs p)"
  have "evaluate_jobs ph ctx js = Inr ([], length js)"
    if "list_all (\<lambda>j. trim_space (js_when j) = []) js" for js ph
    using that by (induction js) (simp_all add: when_parse_def when_eval_def)
  from this [OF js] p show ?thesis by (simp add: evaluate_phase_when_def when_parse_def when_eval_def Let_def)
qed

section \<open>Routing\<close>

lemma cleanup_first:
  "first_unattempted_abort_phase review_phases (done_run [''prepare'']) = Some cleanup_phase"
  by (simp add: first_unattempted_abort_phase_def review_phases_def phase_runs_on_abort_path_def done_run_state
      abort_names_def example_phase_defs)

lemma abort_path_only_cleans_up_witness:
  "phase_purpose (hd (all_ready_dispatch_targets (workflow_of review_phases) (done_run [''prepare'']) AbortRequested))
     = ''teardown''"
proof -
  have "all_ready_dispatch_targets (workflow_of review_phases) (done_run [''prepare'']) AbortRequested = [cleanup_phase]"
    by (simp add: abort_targets cleanup_first done_run_state)
  with abort_path_only_cleans_up [of AbortRequested "done_run [''prepare'']" "workflow_of review_phases"]
  show ?thesis by simp
qed

lemma phases_dispatched_in_order_witness:
  "registered (\<lambda>_. False) (register_of review_phases) \<and>
   all_ready_dispatch_targets (workflow_of review_phases) (done_run [''prepare'']) Advance = [verify_phase]"
  using phases_dispatched_in_order [of "workflow_of review_phases" "done_run [''prepare'']" 1] review_registered
    example_advanced(1)
  by (simp add: done_run_state) (simp add: review_phases_def)

lemma failure_only_teardown_blocks_witness:
  "registered (\<lambda>_. False) (register_of failure_phases) \<and>
   route_advance (\<lambda>p r. None) (workflow_of failure_phases)
     (completion_decision_run (workflow_of failure_phases) (done_run [''prepare'', ''verify'']))
     (done_run [''prepare'', ''verify'']) =
     RunAborted ''abort_malformed'' NoPullRequest (ended_as ''aborted'' (done_run [''prepare'', ''verify'']))"
  using failure_only_teardown_blocks [of "workflow_of failure_phases" "done_run [''prepare'', ''verify'']" 2] failure_registered
    example_advanced(2)
  by (simp add: done_run_state) (simp add: failure_phases_def)

definition refusing :: "string \<Rightarrow> launcher" where
  "refusing name p run = (if ps_name p = name then Some ''no capacity'' else None)"

lemma k8s_job_kind [simp]: "workflow_phase_kind ''k8s_job'' = ''k8s_job''"
  by code_simp

lemma unlaunched_phase_is_passed_over_witness:
  "registered (\<lambda>_. False) (register_of review_phases) \<and>
   route_advance (refusing ''verify'') (workflow_of review_phases)
     (completion_decision_run (workflow_of review_phases) (done_run [''prepare''])) (done_run [''prepare'']) =
     Replied ''advance_phase'' (append_attempt ''cleanup'' (append_attempt ''verify'' (done_run [''prepare''])))"
proof -
  let ?run = "done_run [''prepare'']" and ?w = "workflow_of review_phases"
  let ?r1 = "append_attempt ''verify'' ?run"
  have "dispatch_one (refusing ''verify'') ?w verify_phase ?run ?run = DispatchFailed (LaunchFailed ''no capacity'') ?r1"
    "dispatch_one (refusing ''verify'') ?w cleanup_phase ?run ?r1 = DispatchSettled (append_attempt ''cleanup'' ?r1)"
    by (simp_all add: dispatch_one_def substitute_completion_inputs_def example_when start_phase_def refusing_def
        verify_phase_def cleanup_phase_def)
  then show ?thesis
    using unlaunched_phase_is_passed_over [of ?w "[prepare_phase]" verify_phase cleanup_phase "review_phase ''cleanup''"
        "[gate_phase, final_phase]" ?run "refusing ''verify''"] review_registered cleanup_first example_advanced(1)
    by (simp add: done_run_state success_path_iff) (simp add: review_phases_def)
qed

lemma skipped_last_phase_never_ends_witness:
  "registered (\<lambda>_. False) (register_of optional_phases) \<and>
   (\<exists>run1. route_advance (\<lambda>p r. None) (workflow_of optional_phases)
      (completion_decision_run (workflow_of optional_phases)
        (done_run [''prepare'', ''verify'', ''cleanup'', ''review'', ''review_gate'']))
      (done_run [''prepare'', ''verify'', ''cleanup'', ''review'', ''review_gate'']) = Replied ''advance_phase'' run1 \<and>
      \<not> has_in_flight_attempts run1 \<and> rd_state run1 = ''in_progress'')"
proof -
  let ?w = "workflow_of optional_phases"
  let ?run = "done_run [''prepare'', ''verify'', ''cleanup'', ''review'', ''review_gate'']"
  obtain expr where expr: "when_parse ''false'' = Inr expr" "\<And>ctx. \<not> fst (when_eval expr ctx)"
    by (auto simp: when_parse_def when_eval_def Let_def)
  have o: "ps_when optional_phase = ''false''" "ps_inputs optional_phase = []" "ps_kind optional_phase = ''k8s_job''"
    by (simp_all add: optional_phase_def final_phase_def)
  have "evaluate_phase_when optional_phase ctx = Inr (PhaseSkipped (''phase when condition: '' @ snd (when_eval expr ctx)))" for ctx
    using expr(2) [of ctx] by (cases "when_eval expr ctx") (simp add: evaluate_phase_when_def o expr(1) Let_def)
  then obtain run1 where "dispatch_one (\<lambda>p r. None) ?w optional_phase ?run ?run = DispatchSkipped run1"
    by (simp add: dispatch_one_def substitute_completion_inputs_def o)
  then show ?thesis
    using skipped_last_phase_never_ends [of ?w ?run 5 "\<lambda>p r. None" run1] optional_registered example_advanced(3)
    by (simp add: done_run_state) (simp add: optional_phases_def)
qed

section \<open>Completions\<close>

text \<open>A run whose verification has failed, at a cost over its own budget, and its next cycle.\<close>

definition failing_run :: run_data where
  "failing_run = run_with [done_attempt 0 ''prepare'',
     (done_attempt 1 ''verify'')\<lparr>at_conclusion := ''failure'', at_decision := [],
       at_verification := Some \<lparr>rv_status = ''fail'', rv_reasons = [''red''], rv_failure = None, rv_evidence_refs = []\<rparr>\<rparr>]"

definition failed_payload :: completion_payload where
  "failed_payload = \<lparr>cp_conclusion = ''failure'', cp_outputs = None\<rparr>"

definition second_cycle :: cycle_store where
  "second_cycle run = Inr \<lparr>nc_id = ''r2'', nc_ordinal = 2, nc_display = ''1.2''\<rparr>"

lemma failing_run_last [simp]:
  "rd_attempts failing_run \<noteq> []" "at_phase (last (rd_attempts failing_run)) = ''verify''"
  by (simp_all add: failing_run_def)

lemma failing_run_facts:
  "decide (completion_decision_run (workflow_of review_phases) failing_run) (decision_workflow review_phases) None = Inr Retry"
  "phase_spec_by_name review_phases ''verify'' = Some verify_phase"
  "float_ge (rd_cost failing_run) (total (rd_budget failing_run))"
  by code_simp+

lemma issue_budget_is_ignored_witness:
  "decide ((completion_decision_run (workflow_of review_phases) failing_run)\<lparr>dr_budget := rd_budget failing_run\<rparr>)
     (decision_workflow review_phases) None = Inr AbortBudgetCost"
  using issue_budget_is_ignored [of failing_run "workflow_of review_phases" verify_phase] failing_run_facts by simp

lemma failing_run_recycles:
  "\<exists>run1 fresh. process_completion (\<lambda>p r. None) second_cycle (Some (workflow_of review_phases)) failed_payload failing_run
      = Recycled run1 fresh \<and> map at_phase (rd_attempts fresh) = [''prepare'']"
proof -
  have "case process_completion (\<lambda>p r. None) second_cycle (Some (workflow_of review_phases)) failed_payload failing_run of
      Recycled run1 fresh \<Rightarrow> map at_phase (rd_attempts fresh) = [''prepare''] | _ \<Rightarrow> False"
    by code_simp
  then show ?thesis by (auto split: completion_reply.splits)
qed

lemma retry_cycles_bounded_witness:
  "\<exists>run1 fresh. process_completion (\<lambda>p r. None) second_cycle (Some (workflow_of review_phases)) failed_payload failing_run
      = Recycled run1 fresh \<and> run_cycle_ordinal failing_run < 2"
proof -
  have "ps_recycle verify_phase = Some rp \<Longrightarrow> rc_max_attempts rp = 2" for rp
    by (auto simp: verify_phase_def)
  then show ?thesis
    using retry_cycles_bounded [of "\<lambda>p r. None" second_cycle "workflow_of review_phases" failed_payload failing_run]
      failing_run_facts(2) failing_run_recycles
    by fastforce
qed

definition passing_run :: run_data where
  "passing_run = (run_with (done_attempts 0 [''prepare'', ''verify'', ''cleanup'', ''review'', ''review_gate''] @
     [(done_attempt 5 ''final'')\<lparr>at_decision := [], at_completed := False\<rparr>]))\<lparr>rd_pr_number := Some 12\<rparr>"

lemma pass_requires_witness:
  "\<exists>run'. process_completion (\<lambda>p r. None) second_cycle (Some (workflow_of review_phases))
      \<lparr>cp_conclusion = ''success'', cp_outputs = None\<rparr> passing_run = RunPassed run' \<and>
    rd_state run' = ''passed''"
proof -
  have "case process_completion (\<lambda>p r. None) second_cycle (Some (workflow_of review_phases))
      \<lparr>cp_conclusion = ''success'', cp_outputs = None\<rparr> passing_run of RunPassed _ \<Rightarrow> True | _ \<Rightarrow> False"
    by code_simp
  then obtain run' where "process_completion (\<lambda>p r. None) second_cycle (Some (workflow_of review_phases))
      \<lparr>cp_conclusion = ''success'', cp_outputs = None\<rparr> passing_run = RunPassed run'"
    by (auto split: completion_reply.splits)
  from this pass_requires [OF this] show ?thesis by auto
qed

section \<open>Registration\<close>

lemma registered_workflow_shape_witness:
  "verify_count review_phases = 1 \<and> workflow_entry_phase review_phases = Some prepare_phase"
  using registered_workflow_shape [OF review_registered] by (simp add: review_phases_def)


lemma registered_cycles_bounded_witness:
  "\<exists>v rp. v \<in> set review_phases \<and> ps_recycle v = Some rp \<and> ps_name v = ''verify'' \<and>
     run_cycle_ordinal failing_run < rc_max_attempts rp"
proof -
  obtain run1 fresh where r: "process_completion (\<lambda>p r. None) second_cycle (Some (workflow_of review_phases))
      failed_payload failing_run = Recycled run1 fresh"
    using failing_run_recycles by blast
  have "wf_phases (workflow_of review_phases) = wr_phases (register_of review_phases)" by simp
  from registered_cycles_bounded [OF review_registered this]
  obtain v rp where v: "v \<in> set review_phases" "ps_recycle v = Some rp"
    and b: "\<forall>launch cycles payload run run1 fresh.
        process_completion launch cycles (Some (workflow_of review_phases)) payload run = Recycled run1 fresh \<longrightarrow>
        at_phase (last (rd_attempts run)) = ps_name v \<and> run_cycle_ordinal run < rc_max_attempts rp"
    by auto
  from b r have "at_phase (last (rd_attempts failing_run)) = ps_name v \<and> run_cycle_ordinal failing_run < rc_max_attempts rp"
    by blast
  with v show ?thesis by auto
qed

lemma classify_updates [simp]:
  "phase_purpose (p\<lparr>ps_name := n\<rparr>) = phase_purpose p" "phase_purpose (p\<lparr>ps_inputs := ins\<rparr>) = phase_purpose p"
  "phase_purpose (p\<lparr>ps_outputs := outs\<rparr>) = phase_purpose p" "phase_purpose (p\<lparr>ps_depends_on := d\<rparr>) = phase_purpose p"
  by (simp_all add: phase_purpose_def phase_has_primitive_def Let_def)

lemma run_on_updates [simp]:
  "phase_run_on (p\<lparr>ps_name := n\<rparr>) = phase_run_on p" "phase_run_on (p\<lparr>ps_inputs := ins\<rparr>) = phase_run_on p"
  "phase_run_on (p\<lparr>ps_outputs := outs\<rparr>) = phase_run_on p" "phase_run_on (p\<lparr>ps_depends_on := d\<rparr>) = phase_run_on p"
  by (simp_all add: phase_run_on_def Let_def)

lemma trim_padded [simp]: "trim_space ''prepare '' = ''prepare''"
  by code_simp

lemma show_prepare [simp]:
  "parse_ref (show_ref \<lparr>ref_phase = ''prepare'', ref_key = ''sha''\<rparr>) = Some \<lparr>ref_phase = ''prepare'', ref_key = ''sha''\<rparr>"
  by (rule parse_shown_ref) (simp_all add: ref_named_def ref_char_def char_class_defs)

text \<open>The entry phase has a blank behind its name, and the verification refers to it without.\<close>

definition padded_prepare :: phase_spec where
  "padded_prepare = prepare_phase\<lparr>ps_name := ''prepare '', ps_outputs := [''sha'']\<rparr>"

definition padded_verify :: phase_spec where
  "padded_verify = verify_phase\<lparr>ps_depends_on := [''prepare ''],
     ps_inputs := [(''base'', show_ref \<lparr>ref_phase = ''prepare'', ref_key = ''sha''\<rparr>)]\<rparr>"

definition padded_phases :: "phase_spec list" where
  "padded_phases = [padded_prepare, padded_verify, cleanup_phase, review_phase ''cleanup'', gate_phase, final_phase]"

lemmas padded_defs = padded_prepare_def padded_verify_def example_phase_defs

lemma padded_check_phase:
  assumes "canonical_shape reg = ''single_job''"
  shows "check_phase w reg [] padded_prepare = None"
    "check_phase w reg [padded_prepare] padded_verify = None"
    "check_phase w reg [padded_prepare, padded_verify] cleanup_phase = None"
    "check_phase w reg [padded_prepare, padded_verify, cleanup_phase] (review_phase ''cleanup'') = None"
    "check_phase w reg [padded_prepare, padded_verify, cleanup_phase, review_phase ''cleanup''] gate_phase = None"
    "check_phase w reg [padded_prepare, padded_verify, cleanup_phase, review_phase ''cleanup'', gate_phase] final_phase = None"
  using assms
  by (simp_all add: phase_check_defs padded_defs validate_verification_job_def validate_single_job_def
      is_finalizer_def finalize_step_def check_steps_def check_step_def del: check_all.simps)

lemma padded_shape [simp]:
  "canonical_shape (register_of (padded_prepare # padded_verify # ps)) = ''single_job''"
  "canonical_max_cases (register_of (padded_prepare # padded_verify # ps)) = 0"
  by (simp_all add: canonical_shape_def canonical_max_cases_def register_of_def infer_shape_def
      padded_defs finalize_step_def Let_def)

lemma padded_registered: "registered w (register_of padded_phases)"
  by (simp add: padded_phases_def register_defs padded_check_phase del: check_all.simps,
      simp add: padded_defs example_register_defs, simp add: validate_input_def declare_phase_def output_set_def check_all.simps)

lemma padded_name_breaks_dispatch_witness:
  "\<exists>e. dispatch_one (\<lambda>p r. None) (workflow_of padded_phases) (padded_phases ! 1) (done_run [''prepare ''])
     (done_run [''prepare '']) = DispatchFailed (BadPhaseInputs e) (done_run [''prepare ''])"
proof -
  have r: "parse_ref (show_ref \<lparr>ref_phase = ''prepare'', ref_key = ''sha''\<rparr>) = Some \<lparr>ref_phase = ''prepare'', ref_key = ''sha''\<rparr>"
    by (rule parse_shown_ref) (simp_all add: ref_named_def ref_char_def char_class_defs)
  show ?thesis
    using padded_name_breaks_dispatch [OF padded_registered, where wkf = "workflow_of padded_phases" and i = 1
        and nv = "(''base'', show_ref \<lparr>ref_phase = ''prepare'', ref_key = ''sha''\<rparr>)"
        and r = "\<lparr>ref_phase = ''prepare'', ref_key = ''sha''\<rparr>" and snap = "done_run [''prepare '']"] r
    by (simp add: padded_phases_def padded_defs)
qed

end
