(* ===== verification/Canonical.thy ===== *)
theory Canonical
  imports Registration
begin

text \<open>
  The shape a workflow is brought into before it is validated and stored: the jobs and steps
  Glimmung owns replace what the caller declared for them
  (\<open>internal/server/evidence_gate.go\<close>), missing fields get their defaults
  (\<open>normalizeWorkflowRegisterWithDefaultKind\<close> and the store's own
  \<open>normalizeWorkflowRegister\<close>). The texts of the four scripts are an argument. Bringing a
  workflow into shape twice changes nothing more.
\<close>

record canonical_scripts =
  cs_gate :: string
  cs_merge :: string
  cs_review :: string
  cs_finalize :: string

definition text_or :: "string \<Rightarrow> string \<Rightarrow> string" where
  "text_or d v = (let t = trim_space v in if t = [] then d else t)"

definition positive_or :: "int \<Rightarrow> int option \<Rightarrow> int" where
  "positive_or d v = (case v of Some n \<Rightarrow> if 0 < n then n else d | None \<Rightarrow> d)"

section \<open>Jobs and steps\<close>

definition owned_step :: "string \<Rightarrow> string \<Rightarrow> string \<Rightarrow> step_spec" where
  "owned_step slug primitive script =
     \<lparr>ss_slug = slug, ss_primitive = primitive, ss_type = ''run'', ss_run = script, ss_agent = None,
      ss_group = [], ss_dynamic = None\<rparr>"

definition owned_job :: "string \<Rightarrow> string \<Rightarrow> int \<Rightarrow> step_spec \<Rightarrow> job_spec" where
  "owned_job job_id primitive timeout step =
     \<lparr>js_id = job_id, js_primitive = primitive, js_command = [], js_args = [], js_steps = [step],
      js_timeout = Some timeout, js_managed = True, js_checkout = None, js_extra_checkouts = [],
      js_when = [], js_tools = []\<rparr>"

definition canonical_gate_job :: "canonical_scripts \<Rightarrow> phase_spec \<Rightarrow> job_spec" where
  "canonical_gate_job scr p =
     (let existing = (case ps_jobs p of [] \<Rightarrow> None | j # _ \<Rightarrow> Some j) in
      owned_job
        (case existing of None \<Rightarrow> ''evidence-verification-gate''
         | Some j \<Rightarrow> text_or ''evidence-verification-gate'' (js_id j)) []
        (case existing of None \<Rightarrow> 60 | Some j \<Rightarrow> positive_or 60 (js_timeout j))
        (owned_step ''evaluate-verdict'' [] (cs_gate scr)))"

definition canonical_merge_job :: "canonical_scripts \<Rightarrow> job_spec \<Rightarrow> job_spec" where
  "canonical_merge_job scr j =
     owned_job (text_or ''pr-merge'' (js_id j)) ''pr_merge'' (positive_or 120 (js_timeout j))
       (owned_step ''merge-pull-request'' [] (cs_merge scr))"

definition canonical_review_job :: "canonical_scripts \<Rightarrow> job_spec \<Rightarrow> job_spec" where
  "canonical_review_job scr j =
     owned_job (text_or ''pr-review'' (js_id j)) ''pr_review'' (positive_or 120 (js_timeout j))
       (owned_step ''ensure-pr-review'' [] (cs_review scr))"

definition canonical_step :: "canonical_scripts \<Rightarrow> step_spec \<Rightarrow> step_spec" where
  "canonical_step scr s =
     (if trim_space (ss_primitive s) = ''verification_finalize''
      then owned_step (text_or ''finalize-verification'' (ss_slug s)) ''verification_finalize'' (cs_finalize scr)
      else s)"

definition canonical_job :: "canonical_scripts \<Rightarrow> job_spec \<Rightarrow> job_spec" where
  "canonical_job scr j =
     (let primitive = trim_space (js_primitive j) in
      if primitive = ''pr_review'' then canonical_review_job scr j
      else if primitive = ''pr_merge'' then canonical_merge_job scr j
      else j\<lparr>js_steps := map (canonical_step scr) (js_steps j)\<rparr>)"

definition canonical_phase :: "canonical_scripts \<Rightarrow> phase_spec \<Rightarrow> phase_spec" where
  "canonical_phase scr p =
     (if ps_gate p then p\<lparr>ps_jobs := [canonical_gate_job scr p]\<rparr>
      else p\<lparr>ps_jobs := map (canonical_job scr) (ps_jobs p)\<rparr>)"

definition canonical_workflow :: "canonical_scripts \<Rightarrow> workflow \<Rightarrow> workflow" where
  "canonical_workflow scr wkf = wkf\<lparr>wf_phases := map (canonical_phase scr) (wf_phases wkf)\<rparr>"

section \<open>Normalisation\<close>

definition normalize_input :: "dispatch_input \<Rightarrow> dispatch_input" where
  "normalize_input i = i\<lparr>di_name := trim_space (di_name i), di_default := trim_space (di_default i)\<rparr>"

definition default_workflow_ref :: "phase_spec \<Rightarrow> string" where
  "default_workflow_ref p =
     (if list_ex (\<lambda>j. js_checkout j \<noteq> None) (ps_jobs p) then ''${{ inputs.git_ref }}'' else ''main'')"

definition trim_job_primitive :: "job_spec \<Rightarrow> job_spec" where
  "trim_job_primitive j = j\<lparr>js_primitive := trim_space (js_primitive j)\<rparr>"

definition trim_step :: "step_spec \<Rightarrow> step_spec" where
  "trim_step s =
     (let ty = trim_space (ss_type s) in
      s\<lparr>ss_primitive := trim_space (ss_primitive s),
        ss_type := (if ty = [] \<and> trim_space (ss_run s) \<noteq> [] then ''run'' else ty)\<rparr>)"

definition trim_phase_fields :: "phase_spec \<Rightarrow> phase_spec" where
  "trim_phase_fields p =
     p\<lparr>ps_kind := (let k = trim_space (ps_kind p) in if k = [] then ''k8s_job'' else k),
       ps_run_on := trim_space (ps_run_on p), ps_purpose := trim_space (ps_purpose p),
       ps_workflow_ref := (if ps_workflow_ref p = [] then default_workflow_ref p else ps_workflow_ref p),
       ps_jobs := map trim_job_primitive (ps_jobs p)\<rparr>"

definition default_purpose :: "phase_spec \<Rightarrow> phase_spec" where
  "default_purpose p = (if ps_purpose p = [] then p\<lparr>ps_purpose := phase_purpose p\<rparr> else p)"

definition default_run_on :: "phase_spec \<Rightarrow> phase_spec" where
  "default_run_on p = (if ps_run_on p = [] then p\<lparr>ps_run_on := phase_run_on p\<rparr> else p)"

text \<open>What the store does to a phase.\<close>

definition normalize_phase :: "canonical_scripts \<Rightarrow> phase_spec \<Rightarrow> phase_spec" where
  "normalize_phase scr p = default_run_on (default_purpose (canonical_phase scr (trim_phase_fields p)))"

text \<open>The HTTP handler also trims the steps.\<close>

definition trim_phase_steps :: "phase_spec \<Rightarrow> phase_spec" where
  "trim_phase_steps p = p\<lparr>ps_jobs := map (\<lambda>j. j\<lparr>js_steps := map trim_step (js_steps j)\<rparr>) (ps_jobs p)\<rparr>"

definition default_budget_total :: "budget_config \<Rightarrow> budget_config" where
  "default_budget_total b = (if total b = Fin 0 then default_budget else b)"

definition normalize_register :: "canonical_scripts \<Rightarrow> workflow_register \<Rightarrow> workflow_register" where
  "normalize_register scr reg =
     reg\<lparr>wr_budget := default_budget_total (wr_budget reg),
         wr_inputs := map normalize_input (wr_inputs reg),
         wr_phases := map (\<lambda>p. normalize_phase scr (trim_phase_steps p)) (wr_phases reg)\<rparr>"

definition store_normalize :: "canonical_scripts \<Rightarrow> workflow_register \<Rightarrow> workflow_register" where
  "store_normalize scr reg =
     reg\<lparr>wr_inputs := map normalize_input (wr_inputs reg),
         wr_phases := map (normalize_phase scr) (wr_phases reg)\<rparr>"

section \<open>Normal forms\<close>

lemma text_or_trimmed: "trim_space d = d \<Longrightarrow> trim_space (text_or d v) = text_or d v"
  by (simp add: text_or_def Let_def)

lemma text_or_idem: "trim_space d = d \<Longrightarrow> d \<noteq> [] \<Longrightarrow> text_or d (text_or d v) = text_or d v"
  by (simp add: text_or_def Let_def)

lemma text_or_self: "trim_space d = d \<Longrightarrow> text_or d d = d"
  by (simp add: text_or_def Let_def)

lemma positive_or_self: "positive_or d (Some d) = d"
  by (simp add: positive_or_def)

lemma positive_or_idem: "0 < d \<Longrightarrow> positive_or d (Some (positive_or d v)) = positive_or d v"
  by (simp add: positive_or_def split: option.split)

lemma owned_literals [simp]:
  "trim_space ''pr_review'' = ''pr_review''" "trim_space ''pr_merge'' = ''pr_merge''"
  "trim_space ''verification_finalize'' = ''verification_finalize''" "trim_space ''k8s_job'' = ''k8s_job''"
  "trim_space ''evidence-verification-gate'' = ''evidence-verification-gate''"
  "trim_space ''pr-review'' = ''pr-review''" "trim_space ''pr-merge'' = ''pr-merge''"
  "trim_space ''finalize-verification'' = ''finalize-verification''" "trim_space ''run'' = ''run''"
  by code_simp+

lemma owned_job_fields [simp]:
  "js_id (owned_job i p t s) = i" "js_primitive (owned_job i p t s) = p" "js_timeout (owned_job i p t s) = Some t"
  "js_steps (owned_job i p t s) = [s]"
  by (simp_all add: owned_job_def)

lemma owned_step_fields [simp]:
  "ss_slug (owned_step g p r) = g" "ss_primitive (owned_step g p r) = p" "ss_type (owned_step g p r) = ''run''"
  "ss_run (owned_step g p r) = r"
  by (simp_all add: owned_step_def)

lemma canonical_step_idem: "canonical_step scr (canonical_step scr s) = canonical_step scr s"
  by (auto simp: canonical_step_def text_or_idem)

lemma canonical_job_idem: "canonical_job scr (canonical_job scr j) = canonical_job scr j"
  by (auto simp: canonical_job_def Let_def canonical_review_job_def canonical_merge_job_def text_or_idem
      positive_or_idem canonical_step_idem comp_def)

lemma canonical_phase_idem [simp]: "canonical_phase scr (canonical_phase scr p) = canonical_phase scr p"
  by (auto simp: canonical_phase_def canonical_gate_job_def text_or_idem text_or_self positive_or_idem positive_or_self
      canonical_job_idem
      comp_def split: list.splits)

lemma canonical_fields [simp]:
  "ps_name (canonical_phase scr p) = ps_name p" "ps_kind (canonical_phase scr p) = ps_kind p"
  "ps_run_on (canonical_phase scr p) = ps_run_on p" "ps_purpose (canonical_phase scr p) = ps_purpose p"
  "ps_recycle (canonical_phase scr p) = ps_recycle p" "ps_verify (canonical_phase scr p) = ps_verify p"
  "ps_gate (canonical_phase scr p) = ps_gate p" "ps_workflow_ref (canonical_phase scr p) = ps_workflow_ref p"
  "ps_inputs (canonical_phase scr p) = ps_inputs p" "ps_outputs (canonical_phase scr p) = ps_outputs p"
  "ps_depends_on (canonical_phase scr p) = ps_depends_on p" "ps_when (canonical_phase scr p) = ps_when p"
  "ps_always (canonical_phase scr p) = ps_always p" "ps_skip_preserve (canonical_phase scr p) = ps_skip_preserve p"
  by (simp_all add: canonical_phase_def)

lemma purpose_literals [simp]:
  "trim_space ''evidence_gate'' = ''evidence_gate''" "trim_space ''review'' = ''review''"
  "trim_space ''verification'' = ''verification''" "trim_space ''work'' = ''work''" "trim_space ''teardown'' = ''teardown''"
  "trim_space ''always'' = ''always''" "trim_space ''success'' = ''success''" "trim_space ''failure'' = ''failure''"
  "trim_space ''main'' = ''main''"
  by code_simp+

lemma phase_purpose_trimmed: "trim_space (phase_purpose p) = phase_purpose p" "phase_purpose p \<noteq> []"
  by (auto simp: phase_purpose_def Let_def valid_phase_purpose_def)

lemma phase_run_on_trimmed: "trim_space (phase_run_on p) = phase_run_on p" "phase_run_on p \<noteq> []"
  by (auto simp: phase_run_on_def Let_def valid_phase_run_on_def)

text \<open>A phase that normalisation leaves alone.\<close>

definition phase_normal :: "canonical_scripts \<Rightarrow> phase_spec \<Rightarrow> bool" where
  "phase_normal scr p \<longleftrightarrow>
     trim_space (ps_kind p) = ps_kind p \<and> ps_kind p \<noteq> [] \<and>
     trim_space (ps_run_on p) = ps_run_on p \<and> ps_run_on p \<noteq> [] \<and>
     trim_space (ps_purpose p) = ps_purpose p \<and> ps_purpose p \<noteq> [] \<and> ps_workflow_ref p \<noteq> [] \<and>
     (\<forall>j \<in> set (ps_jobs p). trim_space (js_primitive j) = js_primitive j) \<and> canonical_phase scr p = p"

lemma map_fixed: "(\<And>x. x \<in> set xs \<Longrightarrow> f x = x) \<Longrightarrow> map f xs = xs"
  by (induction xs) auto

lemma normalize_phase_normal: "phase_normal scr p \<Longrightarrow> normalize_phase scr p = p"
proof -
  assume n: "phase_normal scr p"
  have "map trim_job_primitive (ps_jobs p) = ps_jobs p"
    by (rule map_fixed) (use n in \<open>auto simp: phase_normal_def trim_job_primitive_def\<close>)
  then have "trim_phase_fields p = p"
    using n by (simp add: trim_phase_fields_def phase_normal_def Let_def)
  with n show ?thesis
    by (simp add: normalize_phase_def default_purpose_def default_run_on_def phase_normal_def)
qed

lemma canonical_phase_defaults [simp]:
  "canonical_phase scr (p\<lparr>ps_purpose := u\<rparr>) = (canonical_phase scr p)\<lparr>ps_purpose := u\<rparr>"
  "canonical_phase scr (p\<lparr>ps_run_on := r\<rparr>) = (canonical_phase scr p)\<lparr>ps_run_on := r\<rparr>"
  by (simp_all add: canonical_phase_def canonical_gate_job_def)

lemma canonical_primitives:
  "\<forall>j \<in> set (ps_jobs p). trim_space (js_primitive j) = js_primitive j \<Longrightarrow>
     j \<in> set (ps_jobs (canonical_phase scr p)) \<Longrightarrow> trim_space (js_primitive j) = js_primitive j"
  by (auto simp: canonical_phase_def canonical_gate_job_def canonical_job_def Let_def canonical_review_job_def
      canonical_merge_job_def split: if_splits)

lemma normalize_phase_is_normal: "phase_normal scr (normalize_phase scr p)"
proof -
  let ?t = "trim_phase_fields p" and ?c = "canonical_phase scr (trim_phase_fields p)"
  have kind: "trim_space (ps_kind ?t) = ps_kind ?t" "ps_kind ?t \<noteq> []"
    by (auto simp: trim_phase_fields_def Let_def)
  have ref: "ps_workflow_ref ?t \<noteq> []" by (auto simp: trim_phase_fields_def default_workflow_ref_def)
  have blank: "trim_space (ps_run_on ?t) = ps_run_on ?t" "trim_space (ps_purpose ?t) = ps_purpose ?t"
    by (simp_all add: trim_phase_fields_def)
  have jobs: "\<forall>j \<in> set (ps_jobs ?t). trim_space (js_primitive j) = js_primitive j"
    by (auto simp: trim_phase_fields_def trim_job_primitive_def)
  show ?thesis
    using kind ref blank canonical_primitives [OF jobs] phase_purpose_trimmed phase_run_on_trimmed
    by (auto simp: phase_normal_def normalize_phase_def default_purpose_def default_run_on_def)
qed

lemma normalize_phase_idem: "normalize_phase scr (normalize_phase scr p) = normalize_phase scr p"
  by (rule normalize_phase_normal [OF normalize_phase_is_normal])

lemma normalize_phase_keeps [simp]:
  "ps_name (normalize_phase scr p) = ps_name p" "ps_recycle (normalize_phase scr p) = ps_recycle p"
  "ps_verify (normalize_phase scr p) = ps_verify p"
  by (simp_all add: normalize_phase_def default_run_on_def default_purpose_def trim_phase_fields_def)

lemma normalize_input_idem [simp]: "normalize_input (normalize_input i) = normalize_input i"
  by (simp add: normalize_input_def)

lemma store_normalize_idem: "store_normalize scr (store_normalize scr reg) = store_normalize scr reg"
  by (simp add: store_normalize_def normalize_phase_idem comp_def)

section \<open>The whole registration\<close>

lemma trim_step_idem [simp]: "trim_step (trim_step s) = trim_step s"
  by (auto simp: trim_step_def Let_def)

lemma trim_step_owned: "trim_space p = p \<Longrightarrow> trim_step (owned_step g p r) = owned_step g p r"
  by (simp add: trim_step_def owned_step_def Let_def)

definition steps_trimmed :: "phase_spec \<Rightarrow> bool" where
  "steps_trimmed p = (\<forall>j \<in> set (ps_jobs p). \<forall>s \<in> set (js_steps j). trim_step s = s)"

lemma trim_phase_steps_fixed: "steps_trimmed p \<Longrightarrow> trim_phase_steps p = p"
proof -
  assume t: "steps_trimmed p"
  have "j\<lparr>js_steps := map trim_step (js_steps j)\<rparr> = j" if "j \<in> set (ps_jobs p)" for j
  proof -
    have "map trim_step (js_steps j) = js_steps j"
      by (rule map_fixed) (use t that in \<open>auto simp: steps_trimmed_def\<close>)
    then show ?thesis by simp
  qed
  then have "map (\<lambda>j. j\<lparr>js_steps := map trim_step (js_steps j)\<rparr>) (ps_jobs p) = ps_jobs p" by (rule map_fixed)
  then show ?thesis by (simp add: trim_phase_steps_def)
qed

lemma canonical_step_trimmed: "trim_step s = s \<Longrightarrow> trim_step (canonical_step scr s) = canonical_step scr s"
  by (simp add: canonical_step_def trim_step_owned)

lemma canonical_steps_trimmed: "steps_trimmed p \<Longrightarrow> steps_trimmed (canonical_phase scr p)"
  by (auto simp: steps_trimmed_def canonical_phase_def canonical_gate_job_def canonical_job_def Let_def
      canonical_review_job_def canonical_merge_job_def trim_step_owned canonical_step_trimmed)

lemma normalize_steps_trimmed: "steps_trimmed (normalize_phase scr (trim_phase_steps p))"
proof -
  have "steps_trimmed (trim_phase_fields (trim_phase_steps p))"
    by (auto simp: steps_trimmed_def trim_phase_fields_def trim_phase_steps_def trim_job_primitive_def)
  from canonical_steps_trimmed [OF this, of scr] show ?thesis
    by (simp add: normalize_phase_def steps_trimmed_def default_run_on_def default_purpose_def)
qed

lemma default_budget_idem [simp]: "default_budget_total (default_budget_total b) = default_budget_total b"
  by (simp add: default_budget_total_def default_budget_def)

text \<open>
  Bringing a registration into shape is idempotent, the store finds nothing to change in what
  the handler has brought into shape, and neither touches the names of the phases, their recycle
  policies or the variables.
\<close>
theorem normalize_idempotent:
  "normalize_register scr (normalize_register scr reg) = normalize_register scr reg \<and>
   store_normalize scr (normalize_register scr reg) = normalize_register scr reg \<and>
   map ps_name (wr_phases (normalize_register scr reg)) = map ps_name (wr_phases reg) \<and>
   map ps_recycle (wr_phases (normalize_register scr reg)) = map ps_recycle (wr_phases reg) \<and>
   wr_vars (normalize_register scr reg) = wr_vars reg"
proof -
  have "trim_phase_steps (normalize_phase scr (trim_phase_steps p)) = normalize_phase scr (trim_phase_steps p)" for p
    by (rule trim_phase_steps_fixed [OF normalize_steps_trimmed])
  then show ?thesis
    by (simp add: normalize_register_def store_normalize_def normalize_phase_idem comp_def trim_phase_steps_def)
qed

end
