(* ===== verification/WorkflowStore.thy ===== *)
theory WorkflowStore
  imports Canonical
begin

text \<open>
  The workflow registry (\<open>internal/store/pg/workflows.go\<close> and the registration part of
  \<open>internal/store/store/postgres.go\<close>): one row per workflow with the pins an operator has
  put on its controls, one immutable schema row per content hash, and a ledger of writes.
  Registration and patch read the row, put the pinned values back and write later; a pin reads the
  row and replaces all pins. A read and a write are separate steps here, so that the steps of
  several callers can interleave. The hash is an argument; what is hashed is written out. A list
  that is nil and one that is empty are the same (\<open>on\<close> of a recycle policy).
\<close>

section \<open>Data\<close>

datatype control_value = BudgetValue budget_config | PolicyValue "recycle_policy option"

record control_pin =
  pin_value :: control_value
  pin_by :: string
  pin_at :: string
  pin_reason :: string

type_synonym control_pins = "(string \<times> control_pin) list"

datatype change_action = ChangeAdded | ChangeRemoved | ChangeMade | PinEnforced

record control_change =
  cc_target :: string
  cc_action :: change_action
  cc_from :: control_value
  cc_to :: control_value

record workflow_row =
  row_doc :: workflow_register
  row_ref :: string
  row_pins :: control_pins

datatype event_detail =
    Registered "control_change list" "string list"
  | Pinned string string "control_value option"
  | Deleted

record control_event =
  ce_key :: "string \<times> string"
  ce_action :: string
  ce_actor :: string
  ce_ref :: string
  ce_detail :: event_detail

record workflow_db =
  db_rows :: "string \<times> string \<rightharpoonup> workflow_row"
  db_schemas :: "string \<times> string \<rightharpoonup> workflow_register"
  db_events :: "control_event list"

datatype wf_error =
    ProjectMissing string
  | WorkflowMissing
  | NotAccepted reg_error
  | TargetNoPhase string
  | NotPinnable string
  | ControlPinned string control_pin
  | PinnedPhaseGone string string
  | NoPrPolicy
  | NoPhasePolicy string
  | NoSuchPhase string
  | NotPinned string
  | PatchNoTarget
  | PatchRepeated string
  | PatchRange string int

section \<open>Control targets\<close>

definition trim_suffix :: "string \<Rightarrow> string \<Rightarrow> string" where
  "trim_suffix suf s = (if suffix suf s then take (length s - length suf) s else s)"

definition parse_control_pin_target :: "string \<Rightarrow> (wf_error, string) res" where
  "parse_control_pin_target target =
     (if target = ''budget'' \<or> target = ''pr.recycle_policy'' then Inr []
      else if prefix ''phases.'' target \<and> suffix ''.recycle_policy'' target then
        (let phase = trim_suffix ''.recycle_policy'' (trim_prefix ''phases.'' target) in
         if trim_space phase = [] then Inl (TargetNoPhase target) else Inr phase)
      else Inl (NotPinnable target))"

definition pin_target_for_patch :: "string \<Rightarrow> string" where
  "pin_target_for_patch target =
     (if target = ''pr'' then ''pr.recycle_policy'' else ''phases.'' @ target @ ''.recycle_policy'')"

definition phase_named :: "workflow_register \<Rightarrow> string \<Rightarrow> phase_spec option" where
  "phase_named reg name = find (\<lambda>p. ps_name p = name) (wr_phases reg)"

definition control_value_at :: "workflow_register \<Rightarrow> string \<Rightarrow> (wf_error, control_value) res" where
  "control_value_at reg target =
     (case parse_control_pin_target target of
        Inl e \<Rightarrow> Inl e
      | Inr phase \<Rightarrow>
          if target = ''budget'' then Inr (BudgetValue (wr_budget reg))
          else if target = ''pr.recycle_policy'' then
            (case wr_pr reg of None \<Rightarrow> Inl NoPrPolicy | Some rp \<Rightarrow> Inr (PolicyValue (Some rp)))
          else
            (case phase_named reg phase of
               None \<Rightarrow> Inl (NoSuchPhase phase)
             | Some p \<Rightarrow>
                 (case ps_recycle p of
                    None \<Rightarrow> Inl (NoPhasePolicy phase)
                  | Some rp \<Rightarrow> Inr (PolicyValue (Some rp)))))"

text \<open>Decoding a pinned value: fields that are not in the JSON stay zero.\<close>

definition budget_of_value :: "control_value \<Rightarrow> budget_config" where
  "budget_of_value v = (case v of BudgetValue b \<Rightarrow> b | PolicyValue _ \<Rightarrow> \<lparr>total = Fin 0\<rparr>)"

definition policy_of_value :: "control_value \<Rightarrow> recycle_policy" where
  "policy_of_value v =
     (case v of PolicyValue (Some rp) \<Rightarrow> rp
      | _ \<Rightarrow> \<lparr>rc_max_attempts = 0, rc_on = [], rc_lands_at = []\<rparr>)"

text \<open>The first phase with the name.\<close>

fun set_policy :: "string \<Rightarrow> recycle_policy \<Rightarrow> phase_spec list \<Rightarrow> phase_spec list" where
  "set_policy name rp [] = []"
| "set_policy name rp (p # ps) =
     (if ps_name p = name then p\<lparr>ps_recycle := Some rp\<rparr> # ps else p # set_policy name rp ps)"

section \<open>Enforcing pins\<close>

definition enforce_pin ::
  "string \<Rightarrow> control_pin \<Rightarrow> workflow_register \<Rightarrow> (wf_error, workflow_register \<times> control_value) res" where
  "enforce_pin target pin reg =
     (case parse_control_pin_target target of
        Inl e \<Rightarrow> Inl e
      | Inr phase \<Rightarrow>
          if target = ''budget'' then
            Inr (reg\<lparr>wr_budget := budget_of_value (pin_value pin)\<rparr>, BudgetValue (wr_budget reg))
          else if target = ''pr.recycle_policy'' then
            Inr (reg\<lparr>wr_pr := Some (policy_of_value (pin_value pin))\<rparr>, PolicyValue (wr_pr reg))
          else
            (case phase_named reg phase of
               None \<Rightarrow> Inl (PinnedPhaseGone target phase)
             | Some p \<Rightarrow>
                 Inr (reg\<lparr>wr_phases := set_policy phase (policy_of_value (pin_value pin)) (wr_phases reg)\<rparr>,
                      PolicyValue (ps_recycle p))))"

fun enforce_targets ::
  "control_pins \<Rightarrow> workflow_register \<Rightarrow> (wf_error, workflow_register \<times> control_change list) res" where
  "enforce_targets [] reg = Inr (reg, [])"
| "enforce_targets ((target, pin) # pins) reg =
     (case enforce_pin target pin reg of
        Inl e \<Rightarrow> Inl e
      | Inr (reg1, incoming) \<Rightarrow>
          (case enforce_targets pins reg1 of
             Inl e \<Rightarrow> Inl e
           | Inr (reg2, changes) \<Rightarrow>
               Inr (reg2,
                 (if incoming = pin_value pin then changes
                  else \<lparr>cc_target = target, cc_action = PinEnforced, cc_from = incoming,
                        cc_to = pin_value pin\<rparr> # changes))))"

text \<open>In the order of the targets.\<close>

definition enforce_control_pins ::
  "workflow_register \<Rightarrow> control_pins \<Rightarrow>
     (wf_error, workflow_register \<times> string list \<times> control_change list) res" where
  "enforce_control_pins reg pins =
     (let sorted = sort_key fst pins in
      case enforce_targets sorted reg of
        Inl e \<Rightarrow> Inl e
      | Inr (reg1, changes) \<Rightarrow> Inr (reg1, map fst sorted, changes))"

section \<open>The difference of two registrations\<close>

definition value_null :: "control_value \<Rightarrow> bool" where
  "value_null v = (v = PolicyValue None)"

definition change_of :: "string \<Rightarrow> control_value \<Rightarrow> control_value \<Rightarrow> control_change list" where
  "change_of target before after =
     (if before = after then []
      else [\<lparr>cc_target = target,
             cc_action = (if value_null before \<and> \<not> value_null after then ChangeAdded
                          else if \<not> value_null before \<and> value_null after then ChangeRemoved
                          else ChangeMade),
             cc_from = before, cc_to = after\<rparr>])"

text \<open>The last phase with a name wins, as in a Go map that is filled in order.\<close>

definition policy_at :: "workflow_register \<Rightarrow> string \<Rightarrow> recycle_policy option" where
  "policy_at reg name = Option.bind (find (\<lambda>p. ps_name p = name) (rev (wr_phases reg))) ps_recycle"

definition control_changes :: "workflow_register option \<Rightarrow> workflow_register \<Rightarrow> control_change list" where
  "control_changes prev reg =
     (case prev of
        None \<Rightarrow> []
      | Some old \<Rightarrow>
          change_of ''budget'' (BudgetValue (wr_budget old)) (BudgetValue (wr_budget reg)) @
          change_of ''pr.recycle_policy'' (PolicyValue (wr_pr old)) (PolicyValue (wr_pr reg)) @
          concat (map (\<lambda>name. change_of (''phases.'' @ name @ ''.recycle_policy'')
                         (PolicyValue (policy_at old name)) (PolicyValue (policy_at reg name)))
            (sort (remdups (map ps_name (wr_phases old) @ map ps_name (wr_phases reg))))))"

section \<open>Documents\<close>

definition doc_phase :: "canonical_scripts \<Rightarrow> phase_spec \<Rightarrow> phase_spec" where
  "doc_phase scr p =
     (let c = canonical_phase scr p in
      c\<lparr>ps_kind := (if ps_kind c = [] then ''k8s_job'' else ps_kind c),
        ps_workflow_ref := (if ps_workflow_ref c = [] then default_workflow_ref c else ps_workflow_ref c),
        ps_always := False\<rparr>)"

definition workflow_doc :: "canonical_scripts \<Rightarrow> workflow_register \<Rightarrow> workflow_register" where
  "workflow_doc scr reg =
     reg\<lparr>wr_phases := map (doc_phase scr) (wr_phases reg), wr_shape := canonical_shape reg,
         wr_max_cases := canonical_max_cases reg, wr_budget := default_budget_total (wr_budget reg)\<rparr>"

text \<open>Reading a policy back: no attempts are three, and no landing phase is the phase itself.\<close>

definition policy_of_doc :: "recycle_policy \<Rightarrow> recycle_policy" where
  "policy_of_doc rp =
     rp\<lparr>rc_max_attempts := (if rc_max_attempts rp = 0 then 3 else rc_max_attempts rp),
        rc_lands_at := first_non_empty (rc_lands_at rp) ''self''\<rparr>"

definition phase_of_doc :: "phase_spec \<Rightarrow> phase_spec" where
  "phase_of_doc p =
     p\<lparr>ps_kind := (if ps_kind p = [] then ''k8s_job'' else ps_kind p),
       ps_workflow_ref := (if ps_workflow_ref p = [] then default_workflow_ref p else ps_workflow_ref p),
       ps_recycle := map_option policy_of_doc (ps_recycle p)\<rparr>"

definition register_of_doc :: "workflow_register \<Rightarrow> workflow_register" where
  "register_of_doc doc =
     doc\<lparr>wr_phases := map phase_of_doc (wr_phases doc), wr_pr := map_option policy_of_doc (wr_pr doc),
         wr_budget := default_budget_total (wr_budget doc)\<rparr>"

text \<open>What a run reads: the workflow of a document.\<close>

definition workflow_of_doc :: "string \<Rightarrow> workflow_register \<Rightarrow> workflow" where
  "workflow_of_doc ref doc =
     \<lparr>wf_name = wr_name doc, wf_schema_ref = ref, wf_phases = map phase_of_doc (wr_phases doc),
      wf_budget = default_budget_total (wr_budget doc), wf_vars = map_of (wr_vars doc)\<rparr>"

text \<open>The schema reference hashes the document without its variables.\<close>

definition hashed_content :: "workflow_register \<Rightarrow> workflow_register" where
  "hashed_content doc = doc\<lparr>wr_vars := []\<rparr>"

definition schema_ref_of :: "(string \<times> workflow_register \<Rightarrow> string) \<Rightarrow> string \<Rightarrow> workflow_register \<Rightarrow> string" where
  "schema_ref_of hash project doc = ''wfs_'' @ hash (project, hashed_content doc)"

section \<open>Writes\<close>

record doc_write =
  dw_doc :: workflow_register
  dw_ref :: string
  dw_changes :: "control_change list"
  dw_enforced :: "string list"

text \<open>The first half of \<open>upsertWorkflow\<close>: everything up to the transaction.\<close>

definition prepare_upsert ::
  "canonical_scripts \<Rightarrow> (string \<Rightarrow> bool) \<Rightarrow> (string \<times> workflow_register \<Rightarrow> string) \<Rightarrow> bool \<Rightarrow> string \<Rightarrow>
     workflow_register \<Rightarrow> workflow_row option \<Rightarrow> (wf_error, doc_write) res" where
  "prepare_upsert scr wide hash known project req row =
     (if \<not> known then Inl (ProjectMissing project)
      else
        (let reg = store_normalize scr req;
             prev = map_option (\<lambda>r. register_of_doc (row_doc r)) row;
             pins = (case row of None \<Rightarrow> [] | Some r \<Rightarrow> row_pins r)
         in case enforce_control_pins reg pins of
              Inl e \<Rightarrow> Inl e
            | Inr (reg1, enforced, pin_changes) \<Rightarrow>
                (case validate_workflow_register wide reg1 of
                   Some e \<Rightarrow> Inl (NotAccepted e)
                 | None \<Rightarrow>
                     let doc = workflow_doc scr reg1 in
                     Inr \<lparr>dw_doc = doc, dw_ref = schema_ref_of hash project doc,
                          dw_changes = control_changes prev reg1 @ pin_changes, dw_enforced = enforced\<rparr>)))"

text \<open>The transaction: the schema unless it is there, the row without its pins, the event.\<close>

definition put_schema ::
  "string \<Rightarrow> doc_write \<Rightarrow> (string \<times> string \<rightharpoonup> workflow_register) \<Rightarrow> (string \<times> string \<rightharpoonup> workflow_register)" where
  "put_schema project w schemas =
     (if schemas (project, dw_ref w) = None then schemas((project, dw_ref w) \<mapsto> dw_doc w) else schemas)"

definition pg_upsert :: "string \<Rightarrow> string \<Rightarrow> string \<Rightarrow> doc_write \<Rightarrow> workflow_db \<Rightarrow> workflow_db" where
  "pg_upsert project action actor w db =
     (let key = (project, wr_name (dw_doc w));
          pins = (case db_rows db key of None \<Rightarrow> [] | Some r \<Rightarrow> row_pins r)
      in db\<lparr>db_schemas := put_schema project w (db_schemas db),
            db_rows := (db_rows db)(key \<mapsto> \<lparr>row_doc = dw_doc w, row_ref = dw_ref w, row_pins = pins\<rparr>),
            db_events := db_events db @
              [\<lparr>ce_key = key, ce_action = action, ce_actor = actor, ce_ref = dw_ref w,
                ce_detail = Registered (dw_changes w) (dw_enforced w)\<rparr>]\<rparr>)"

record pins_write =
  pw_pins :: control_pins
  pw_ref :: string
  pw_action :: string
  pw_target :: string
  pw_reason :: string

definition pg_update_pins ::
  "string \<times> string \<Rightarrow> string \<Rightarrow> pins_write \<Rightarrow> workflow_db \<Rightarrow> (wf_error, workflow_db) res" where
  "pg_update_pins key actor w db =
     (case db_rows db key of
        None \<Rightarrow> Inl WorkflowMissing
      | Some r \<Rightarrow>
          Inr (db\<lparr>db_rows := (db_rows db)(key \<mapsto> r\<lparr>row_pins := pw_pins w\<rparr>),
                  db_events := db_events db @
                    [\<lparr>ce_key = key, ce_action = pw_action w, ce_actor = actor, ce_ref = pw_ref w,
                      ce_detail = Pinned (pw_target w) (trim_space (pw_reason w))
                        (if pw_action w = ''pin'' then map_option pin_value (map_of (pw_pins w) (pw_target w))
                         else None)\<rparr>]\<rparr>))"

definition prepare_pin ::
  "string \<Rightarrow> string \<Rightarrow> string \<Rightarrow> string \<Rightarrow> workflow_row option \<Rightarrow> (wf_error, pins_write) res" where
  "prepare_pin target actor reason now row =
     (case row of
        None \<Rightarrow> Inl WorkflowMissing
      | Some r \<Rightarrow>
          (case control_value_at (register_of_doc (row_doc r)) target of
             Inl e \<Rightarrow> Inl e
           | Inr v \<Rightarrow>
               Inr \<lparr>pw_pins = AList.update target
                      \<lparr>pin_value = v, pin_by = actor, pin_at = now, pin_reason = trim_space reason\<rparr> (row_pins r),
                    pw_ref = row_ref r, pw_action = ''pin'', pw_target = target, pw_reason = reason\<rparr>))"

definition prepare_unpin :: "string \<Rightarrow> workflow_row option \<Rightarrow> (wf_error, pins_write) res" where
  "prepare_unpin target row =
     (case row of
        None \<Rightarrow> Inl WorkflowMissing
      | Some r \<Rightarrow>
          if map_of (row_pins r) target = None then Inl (NotPinned target)
          else Inr \<lparr>pw_pins = AList.delete target (row_pins r), pw_ref = row_ref r, pw_action = ''unpin'',
                    pw_target = target, pw_reason = []\<rparr>)"

text \<open>Deleting leaves a tombstone in the metadata.\<close>

definition tombstone :: "string \<Rightarrow> string \<Rightarrow> workflow_register \<Rightarrow> workflow_register" where
  "tombstone actor now doc =
     (let m = vset ''deleted_at'' (VStr now) (wr_metadata doc);
          m1 = (if actor = [] then m else vset ''deleted_by'' (VStr actor) m)
      in doc\<lparr>wr_metadata := vset ''visible'' (VBool False) (vset ''usable'' (VBool False) m1)\<rparr>)"

definition pg_delete_workflow :: "string \<times> string \<Rightarrow> string \<Rightarrow> string \<Rightarrow> workflow_db \<Rightarrow> (wf_error, workflow_db) res" where
  "pg_delete_workflow key actor now db =
     (case db_rows db key of
        None \<Rightarrow> Inl WorkflowMissing
      | Some r \<Rightarrow>
          Inr (db\<lparr>db_rows := (db_rows db)(key \<mapsto> r\<lparr>row_doc := tombstone actor now (row_doc r)\<rparr>),
                  db_events := db_events db @
                    [\<lparr>ce_key = key, ce_action = ''delete'', ce_actor = actor, ce_ref = [],
                      ce_detail = Deleted\<rparr>]\<rparr>))"

section \<open>Patches\<close>

record recycle_patch =
  rm_target :: string
  rm_max_attempts :: int

definition set_attempts :: "int \<Rightarrow> recycle_policy \<Rightarrow> recycle_policy" where
  "set_attempts n rp = rp\<lparr>rc_max_attempts := n\<rparr>"

definition apply_patch :: "string \<Rightarrow> int \<Rightarrow> workflow_register \<Rightarrow> (wf_error, workflow_register) res" where
  "apply_patch target n reg =
     (if target = ''pr'' then
        (case wr_pr reg of
           None \<Rightarrow> Inl NoPrPolicy
         | Some rp \<Rightarrow> Inr (reg\<lparr>wr_pr := Some (set_attempts n rp)\<rparr>))
      else
        (case phase_named reg target of
           None \<Rightarrow> Inl (NoSuchPhase target)
         | Some p \<Rightarrow>
             (case ps_recycle p of
                None \<Rightarrow> Inl (NoPhasePolicy target)
              | Some rp \<Rightarrow> Inr (reg\<lparr>wr_phases := set_policy target (set_attempts n rp) (wr_phases reg)\<rparr>))))"

fun apply_recycle_patches ::
  "string list \<Rightarrow> recycle_patch list \<Rightarrow> workflow_register \<Rightarrow> (wf_error, workflow_register) res" where
  "apply_recycle_patches seen [] reg = Inr reg"
| "apply_recycle_patches seen (patch # patches) reg =
     (let target = trim_space (rm_target patch); n = rm_max_attempts patch in
      if target = [] then Inl PatchNoTarget
      else if target \<in> set seen then Inl (PatchRepeated target)
      else if n < 1 \<or> 20 < n then Inl (PatchRange target n)
      else res_bind (apply_patch target n reg) (apply_recycle_patches (target # seen) patches))"

definition patch_pinned :: "control_pins \<Rightarrow> recycle_patch \<Rightarrow> wf_error option" where
  "patch_pinned pins patch =
     (let target = pin_target_for_patch (trim_space (rm_target patch)) in
      map_option (ControlPinned target) (map_of pins target))"

record workflow_patch =
  wp_budget :: "gofloat option"
  wp_recycle :: "recycle_patch list"

text \<open>The first half of a patch: the registration it asks \<open>upsertWorkflow\<close> for.\<close>

definition prepare_patch :: "workflow_patch \<Rightarrow> workflow_row option \<Rightarrow> (wf_error, workflow_register) res" where
  "prepare_patch patch row =
     (case row of
        None \<Rightarrow> Inl WorkflowMissing
      | Some r \<Rightarrow>
          (case first_error
             [if wp_budget patch = None then None
              else map_option (ControlPinned ''budget'') (map_of (row_pins r) ''budget''),
              check_all (patch_pinned (row_pins r)) (wp_recycle patch)] of
             Some e \<Rightarrow> Inl e
           | None \<Rightarrow>
               (let reg = register_of_doc (row_doc r);
                    reg1 = (case wp_budget patch of None \<Rightarrow> reg | Some b \<Rightarrow> reg\<lparr>wr_budget := \<lparr>total = b\<rparr>\<rparr>)
                in apply_recycle_patches [] (wp_recycle patch) reg1)))"

section \<open>Handlers\<close>

text \<open>\<open>registerWorkflow\<close>: the handler brings the request into shape and validates it.\<close>

definition accept_registration ::
  "canonical_scripts \<Rightarrow> (string \<Rightarrow> bool) \<Rightarrow> bool \<Rightarrow> string \<Rightarrow> workflow_register \<Rightarrow> (wf_error, workflow_register) res" where
  "accept_registration scr wide known project req =
     (if \<not> known then Inl (ProjectMissing project)
      else
        (let reg = normalize_register scr req in
         case validate_workflow_register wide reg of
           Some e \<Rightarrow> Inl (NotAccepted e)
         | None \<Rightarrow> Inr reg))"

text \<open>The handlers, each run without another one in between.\<close>

definition upsert_workflow ::
  "canonical_scripts \<Rightarrow> (string \<Rightarrow> bool) \<Rightarrow> (string \<times> workflow_register \<Rightarrow> string) \<Rightarrow> bool \<Rightarrow> string \<Rightarrow>
     string \<Rightarrow> string \<Rightarrow> workflow_register \<Rightarrow> workflow_db \<Rightarrow> (wf_error, workflow_db) res" where
  "upsert_workflow scr wide hash known project action actor reg db =
     res_bind (prepare_upsert scr wide hash known project reg (db_rows db (project, wr_name reg)))
       (\<lambda>w. Inr (pg_upsert project action actor w db))"

definition register_workflow ::
  "canonical_scripts \<Rightarrow> (string \<Rightarrow> bool) \<Rightarrow> (string \<times> workflow_register \<Rightarrow> string) \<Rightarrow> bool \<Rightarrow> string \<Rightarrow> string \<Rightarrow>
     workflow_register \<Rightarrow> workflow_db \<Rightarrow> (wf_error, workflow_db) res" where
  "register_workflow scr wide hash known project actor req db =
     res_bind (accept_registration scr wide known project req)
       (\<lambda>reg. upsert_workflow scr wide hash known project ''register'' actor reg db)"

definition patch_workflow ::
  "canonical_scripts \<Rightarrow> (string \<Rightarrow> bool) \<Rightarrow> (string \<times> workflow_register \<Rightarrow> string) \<Rightarrow> bool \<Rightarrow> string \<Rightarrow> string \<Rightarrow> string \<Rightarrow>
     workflow_patch \<Rightarrow> workflow_db \<Rightarrow> (wf_error, workflow_db) res" where
  "patch_workflow scr wide hash known project name actor patch db =
     res_bind (prepare_patch patch (db_rows db (project, name)))
       (\<lambda>reg. upsert_workflow scr wide hash known project ''patch'' actor reg db)"

definition pin_workflow_control ::
  "string \<times> string \<Rightarrow> string \<Rightarrow> string \<Rightarrow> string \<Rightarrow> string \<Rightarrow> workflow_db \<Rightarrow> (wf_error, workflow_db) res" where
  "pin_workflow_control key target actor reason now db =
     res_bind (parse_control_pin_target target) (\<lambda>_.
     res_bind (prepare_pin target actor reason now (db_rows db key)) (\<lambda>w. pg_update_pins key actor w db))"

definition unpin_workflow_control ::
  "string \<times> string \<Rightarrow> string \<Rightarrow> string \<Rightarrow> workflow_db \<Rightarrow> (wf_error, workflow_db) res" where
  "unpin_workflow_control key target actor db =
     res_bind (parse_control_pin_target target) (\<lambda>_.
     res_bind (prepare_unpin target (db_rows db key)) (\<lambda>w. pg_update_pins key actor w db))"

datatype admin_op =
    AdminRegister string workflow_register
  | AdminPatch string string workflow_patch
  | AdminPin "string \<times> string" string string string
  | AdminUnpin "string \<times> string" string
  | AdminDelete "string \<times> string" string

fun run_admin ::
  "canonical_scripts \<Rightarrow> (string \<Rightarrow> bool) \<Rightarrow> (string \<times> workflow_register \<Rightarrow> string) \<Rightarrow> bool \<Rightarrow> string \<Rightarrow> admin_op \<Rightarrow>
     workflow_db \<Rightarrow> (wf_error, workflow_db) res" where
  "run_admin scr wide hash known actor (AdminRegister project req) db =
     register_workflow scr wide hash known project actor req db"
| "run_admin scr wide hash known actor (AdminPatch project name patch) db =
     patch_workflow scr wide hash known project name actor patch db"
| "run_admin scr wide hash known actor (AdminPin key target reason now) db =
     pin_workflow_control key target actor reason now db"
| "run_admin scr wide hash known actor (AdminUnpin key target) db = unpin_workflow_control key target actor db"
| "run_admin scr wide hash known actor (AdminDelete key now) db = pg_delete_workflow key actor now db"

section \<open>Several callers\<close>

text \<open>
  A caller that has passed its checks and read what it needs. \<open>AskUpsert\<close> is a registration
  that the handler has accepted or a patch that has been applied to what was read; it still has to
  read the row. The others only have their write to do.
\<close>

datatype pending =
    AskUpsert string workflow_register string string
  | DoUpsert string doc_write string string
  | DoPins "string \<times> string" pins_write string

record registry =
  rg_db :: workflow_db
  rg_pending :: "pending list"

definition empty_registry :: registry where
  "empty_registry =
     \<lparr>rg_db = \<lparr>db_rows = Map.empty, db_schemas = Map.empty, db_events = []\<rparr>, rg_pending = []\<rparr>"

definition take_pending :: "nat \<Rightarrow> registry \<Rightarrow> registry" where
  "take_pending i s = s\<lparr>rg_pending := take i (rg_pending s) @ drop (Suc i) (rg_pending s)\<rparr>"

definition add_pending :: "pending \<Rightarrow> registry \<Rightarrow> registry" where
  "add_pending p s = s\<lparr>rg_pending := rg_pending s @ [p]\<rparr>"

inductive registry_step ::
  "canonical_scripts \<Rightarrow> (string \<Rightarrow> bool) \<Rightarrow> (string \<times> workflow_register \<Rightarrow> string) \<Rightarrow> registry \<Rightarrow> registry \<Rightarrow> bool"
  for scr wide hash where
  ask_register:
    "accept_registration scr wide True project req = Inr reg \<Longrightarrow>
     registry_step scr wide hash s (add_pending (AskUpsert project reg ''register'' actor) s)"
| ask_patch:
    "prepare_patch patch (db_rows (rg_db s) (project, name)) = Inr reg \<Longrightarrow>
     registry_step scr wide hash s (add_pending (AskUpsert project reg ''patch'' actor) s)"
| read_row:
    "i < length (rg_pending s) \<Longrightarrow> rg_pending s ! i = AskUpsert project reg action actor \<Longrightarrow>
     prepare_upsert scr wide hash True project reg (db_rows (rg_db s) (project, wr_name reg)) = Inr w \<Longrightarrow>
     registry_step scr wide hash s (add_pending (DoUpsert project w action actor) (take_pending i s))"
| write_row:
    "i < length (rg_pending s) \<Longrightarrow> rg_pending s ! i = DoUpsert project w action actor \<Longrightarrow>
     registry_step scr wide hash s ((take_pending i s)\<lparr>rg_db := pg_upsert project action actor w (rg_db s)\<rparr>)"
| read_pin:
    "prepare_pin target actor reason now (db_rows (rg_db s) key) = Inr w \<Longrightarrow>
     registry_step scr wide hash s (add_pending (DoPins key w actor) s)"
| read_unpin:
    "prepare_unpin target (db_rows (rg_db s) key) = Inr w \<Longrightarrow>
     registry_step scr wide hash s (add_pending (DoPins key w actor) s)"
| write_pins:
    "i < length (rg_pending s) \<Longrightarrow> rg_pending s ! i = DoPins key w actor \<Longrightarrow>
     pg_update_pins key actor w (rg_db s) = Inr db \<Longrightarrow>
     registry_step scr wide hash s ((take_pending i s)\<lparr>rg_db := db\<rparr>)"
| delete_row:
    "pg_delete_workflow key actor now (rg_db s) = Inr db \<Longrightarrow>
     registry_step scr wide hash s (s\<lparr>rg_db := db\<rparr>)"
| give_up:
    "i < length (rg_pending s) \<Longrightarrow> registry_step scr wide hash s (take_pending i s)"

end
