(* ===== verification/Registry.thy ===== *)
theory Registry
  imports WorkflowStore RegisteredRuns
begin

text \<open>
  What the registry guarantees. Whatever the interleaving of callers, stored schemas never change
  and every stored workflow is one that registration accepts, so the theorems about runs of
  registered workflows hold of every run. For one caller at a time, a pinned control keeps its
  value. Two callers can lose a pin or move a pinned control, and a new value of a variable does
  not reach the runs.
\<close>

section \<open>Documents of accepted registrations\<close>

lemma doc_phase_normal: "phase_normal scr p \<Longrightarrow> \<not> ps_always p \<Longrightarrow> doc_phase scr p = p"
  by (simp add: phase_normal_def doc_phase_def Let_def)

lemma phase_of_doc_normal:
  "phase_normal scr p \<Longrightarrow> phase_of_doc p = p\<lparr>ps_recycle := map_option policy_of_doc (ps_recycle p)\<rparr>"
  by (simp add: phase_normal_def phase_of_doc_def)

text \<open>Reading a policy twice is reading it once, and it never loses its attempts or its landing.\<close>

lemma policy_of_doc_facts [simp]:
  "policy_of_doc (policy_of_doc rp) = policy_of_doc rp" "rc_on (policy_of_doc rp) = rc_on rp"
  "rc_max_attempts (policy_of_doc rp) \<noteq> 0" "rc_lands_at (policy_of_doc rp) \<noteq> []"
  by (simp_all add: policy_of_doc_def first_non_empty_def)

lemma policy_of_doc_same: "rc_max_attempts rp \<noteq> 0 \<Longrightarrow> rc_lands_at rp \<noteq> [] \<Longrightarrow> policy_of_doc rp = rp"
  by (simp add: policy_of_doc_def first_non_empty_def)

lemma canonical_phase_recycle [simp]:
  "canonical_phase scr (p\<lparr>ps_recycle := r\<rparr>) = (canonical_phase scr p)\<lparr>ps_recycle := r\<rparr>"
  by (simp add: canonical_phase_def canonical_gate_job_def)

lemma phase_normal_recycle [simp]: "phase_normal scr p \<Longrightarrow> phase_normal scr (p\<lparr>ps_recycle := r\<rparr>)"
  by (simp add: phase_normal_def)

lemma set_policy_all: "(\<And>p. p \<in> set ps \<Longrightarrow> P p) \<Longrightarrow> (\<And>p r. P p \<Longrightarrow> P (p\<lparr>ps_recycle := r\<rparr>)) \<Longrightarrow>
    p \<in> set (set_policy n rp ps) \<Longrightarrow> P p"
  by (induction ps) (auto split: if_splits)

definition phases_normal :: "canonical_scripts \<Rightarrow> workflow_register \<Rightarrow> bool" where
  "phases_normal scr reg = (\<forall>p \<in> set (wr_phases reg). phase_normal scr p)"

lemma store_normalize_phases: "phases_normal scr (store_normalize scr reg)"
  by (auto simp: phases_normal_def store_normalize_def normalize_phase_is_normal)

lemma enforce_pin_phases: "enforce_pin t pin reg = Inr (reg1, v) \<Longrightarrow> phases_normal scr reg \<Longrightarrow> phases_normal scr reg1"
  using set_policy_all [where P = "phase_normal scr"]
  by (fastforce simp: enforce_pin_def phases_normal_def split: sum.splits if_splits option.splits)

lemma enforce_targets_phases:
  "enforce_targets pins reg = Inr (reg1, cs) \<Longrightarrow> phases_normal scr reg \<Longrightarrow> phases_normal scr reg1"
proof (induction pins reg arbitrary: reg1 cs rule: enforce_targets.induct)
  case (2 t pin pins reg)
  then show ?case by (auto split: sum.splits prod.splits dest: enforce_pin_phases)
qed simp

lemma enforce_pin_name: "enforce_pin t pin reg = Inr (reg1, v) \<Longrightarrow> wr_name reg1 = wr_name reg"
  by (auto simp: enforce_pin_def split: sum.splits if_splits option.splits)

lemma enforce_targets_name: "enforce_targets pins reg = Inr (reg1, cs) \<Longrightarrow> wr_name reg1 = wr_name reg"
proof (induction pins arbitrary: reg reg1 cs)
  case (Cons tp pins)
  obtain t pin where tp: "tp = (t, pin)" by (cases tp)
  from Cons.prems tp obtain regm v cs' where e: "enforce_pin t pin reg = Inr (regm, v)" and
    r: "enforce_targets pins regm = Inr (reg1, cs')" by (auto split: sum.splits prod.splits)
  from Cons.IH [OF r] enforce_pin_name [OF e] show ?case by simp
qed simp

lemma enforced_phases: "enforce_control_pins reg pins = Inr (reg1, x) \<Longrightarrow> phases_normal scr reg \<Longrightarrow> phases_normal scr reg1"
  by (auto simp: enforce_control_pins_def Let_def split: sum.splits prod.splits dest: enforce_targets_phases)

text \<open>The document of an accepted registration is itself accepted.\<close>

lemma canonical_shape_trimmed: "trim_space (canonical_shape reg) = canonical_shape reg"
proof -
  have "trim_space ''single_job'' = ''single_job''" "trim_space ''dynamic_step_group'' = ''dynamic_step_group''"
    "trim_space ''bounded_case_jobs'' = ''bounded_case_jobs''" by code_simp+
  then show ?thesis by (simp add: canonical_shape_def infer_shape_def Let_def split: option.split list.split)
qed

lemma canonical_shape_ne: "canonical_shape reg \<noteq> []"
  by (simp add: canonical_shape_def infer_shape_def Let_def split: option.split list.split)

lemma workflow_doc_accepted:
  assumes "phases_normal scr reg" "registered wide reg"
  shows "workflow_doc scr reg = reg\<lparr>wr_shape := canonical_shape reg, wr_max_cases := canonical_max_cases reg,
       wr_budget := default_budget_total (wr_budget reg)\<rparr>"
proof -
  have "doc_phase scr p = p" if "p \<in> set (wr_phases reg)" for p
    using assms that registered_member(3) by (auto simp: phases_normal_def intro: doc_phase_normal)
  then have "map (doc_phase scr) (wr_phases reg) = wr_phases reg" by (rule map_fixed)
  then show ?thesis by (simp add: workflow_doc_def)
qed

lemma check_phase_cong:
  assumes "canonical_shape r = canonical_shape q" "canonical_max_cases r = canonical_max_cases q"
    "wr_vars r = wr_vars q" "wr_inputs r = wr_inputs q"
  shows "check_phase wide r = check_phase wide q"
  by (intro ext) (simp add: check_phase_def check_named_phase_def assms Let_def)

lemma validate_cong:
  assumes "canonical_shape r = canonical_shape q" "canonical_max_cases r = canonical_max_cases q"
    "wr_vars r = wr_vars q" "wr_inputs r = wr_inputs q" "wr_phases r = wr_phases q"
  shows "validate_workflow_register wide r = validate_workflow_register wide q"
  unfolding validate_workflow_register_def Let_def check_phase_cong [OF assms(1-4)] assms ..

lemma doc_registered:
  assumes "phases_normal scr reg" "registered wide reg"
  shows "registered wide (workflow_doc scr reg)"
proof -
  let ?d = "workflow_doc scr reg"
  have s: "canonical_shape ?d = canonical_shape reg"
    unfolding workflow_doc_accepted [OF assms]
    by (subst canonical_shape_def) (simp add: canonical_shape_trimmed canonical_shape_ne Let_def)
  have m: "canonical_max_cases ?d = canonical_max_cases reg"
    unfolding canonical_max_cases_def [of ?d] s
    by (simp add: workflow_doc_accepted [OF assms] canonical_max_cases_def)
  have "validate_workflow_register wide ?d = validate_workflow_register wide reg"
    by (rule validate_cong [OF s m]) (simp_all add: workflow_doc_accepted [OF assms])
  with assms(2) show ?thesis by simp
qed

text \<open>A stored document: accepted, and left alone by reading it back.\<close>

definition doc_ok :: "canonical_scripts \<Rightarrow> (string \<Rightarrow> bool) \<Rightarrow> workflow_register \<Rightarrow> bool" where
  "doc_ok scr wide doc \<longleftrightarrow> registered wide doc \<and> phases_normal scr doc"

lemma prepared_doc_ok:
  assumes "prepare_upsert scr wide hash known project req row = Inr w"
  shows "doc_ok scr wide (dw_doc w)"
proof -
  obtain reg1 enforced cs where e: "enforce_control_pins (store_normalize scr req)
      (case row of None \<Rightarrow> [] | Some r \<Rightarrow> row_pins r) = Inr (reg1, enforced, cs)"
    and v: "registered wide reg1" and d: "dw_doc w = workflow_doc scr reg1"
    using assms by (auto simp: prepare_upsert_def Let_def split: if_splits sum.splits prod.splits option.splits)
  have n: "phases_normal scr reg1" by (rule enforced_phases [OF e store_normalize_phases])
  with v d show ?thesis
    using doc_registered [OF n v] by (simp add: doc_ok_def workflow_doc_accepted [OF n v] phases_normal_def)
qed

lemma tombstone_doc_ok [simp]: "doc_ok scr wide (tombstone actor now doc) = doc_ok scr wide doc"
proof -
  have "canonical_shape (tombstone actor now doc) = canonical_shape doc"
    "canonical_max_cases (tombstone actor now doc) = canonical_max_cases doc"
    by (simp_all add: canonical_max_cases_def canonical_shape_def tombstone_def Let_def)
  then have "validate_workflow_register wide (tombstone actor now doc) = validate_workflow_register wide doc"
    by (rule validate_cong) (simp_all add: tombstone_def Let_def)
  then show ?thesis by (simp add: doc_ok_def phases_normal_def tombstone_def Let_def)
qed

section \<open>All interleavings\<close>

fun pending_ok :: "canonical_scripts \<Rightarrow> (string \<Rightarrow> bool) \<Rightarrow> pending \<Rightarrow> bool" where
  "pending_ok scr wide (DoUpsert project w action actor) = doc_ok scr wide (dw_doc w)"
| "pending_ok scr wide _ = True"

definition db_ok :: "canonical_scripts \<Rightarrow> (string \<Rightarrow> bool) \<Rightarrow> workflow_db \<Rightarrow> bool" where
  "db_ok scr wide db \<longleftrightarrow>
     (\<forall>k r. db_rows db k = Some r \<longrightarrow> doc_ok scr wide (row_doc r)) \<and>
     (\<forall>k d. db_schemas db k = Some d \<longrightarrow> doc_ok scr wide d)"

definition registry_ok :: "canonical_scripts \<Rightarrow> (string \<Rightarrow> bool) \<Rightarrow> registry \<Rightarrow> bool" where
  "registry_ok scr wide s \<longleftrightarrow> db_ok scr wide (rg_db s) \<and> (\<forall>p \<in> set (rg_pending s). pending_ok scr wide p)"

lemma take_pending_fields [simp]:
  "rg_db (take_pending i s) = rg_db s" "rg_db (add_pending p s) = rg_db s"
  "rg_pending (add_pending p s) = rg_pending s @ [p]"
  by (simp_all add: take_pending_def add_pending_def)

lemma take_pending_in: "p \<in> set (rg_pending (take_pending i s)) \<Longrightarrow> p \<in> set (rg_pending s)"
  by (auto simp: take_pending_def dest: in_set_takeD in_set_dropD)

lemma registry_ok_take: "registry_ok scr wide s \<Longrightarrow> registry_ok scr wide (take_pending i s)"
  unfolding registry_ok_def using take_pending_in by auto

lemma db_ok_upsert:
  "db_ok scr wide db \<Longrightarrow> doc_ok scr wide (dw_doc w) \<Longrightarrow> db_ok scr wide (pg_upsert project action actor w db)"
  by (auto simp: db_ok_def pg_upsert_def put_schema_def Let_def)

lemma db_ok_pins: "db_ok scr wide db \<Longrightarrow> pg_update_pins key actor w db = Inr db' \<Longrightarrow> db_ok scr wide db'"
  by (cases key) (auto simp: db_ok_def pg_update_pins_def split: option.splits if_splits)

lemma db_ok_delete: "db_ok scr wide db \<Longrightarrow> pg_delete_workflow key actor now db = Inr db' \<Longrightarrow> db_ok scr wide db'"
  by (cases key) (auto simp: db_ok_def pg_delete_workflow_def split: option.splits if_splits)

lemma registry_step_ok: "registry_step scr wide hash s s' \<Longrightarrow> registry_ok scr wide s \<Longrightarrow> registry_ok scr wide s'"
proof (induction rule: registry_step.induct)
  case (read_row i s project reg action actor w)
  then have "doc_ok scr wide (dw_doc w)" by (blast intro: prepared_doc_ok)
  with registry_ok_take [OF read_row(4)] show ?case by (simp add: registry_ok_def)
next
  case (write_row i s project w action actor)
  then have "DoUpsert project w action actor \<in> set (rg_pending s)" by (metis nth_mem)
  with write_row(3) have "doc_ok scr wide (dw_doc w)" by (auto simp: registry_ok_def)
  with registry_ok_take [OF write_row(3)] show ?case by (simp add: registry_ok_def db_ok_upsert)
next
  case (write_pins i s key w actor db)
  with registry_ok_take [OF write_pins(4)] show ?case by (auto simp: registry_ok_def intro: db_ok_pins)
next
  case (give_up i s)
  then show ?case by (simp add: registry_ok_take)
qed (auto simp: registry_ok_def intro: db_ok_delete)

lemma registry_reachable_ok: "(registry_step scr wide hash)\<^sup>*\<^sup>* empty_registry s \<Longrightarrow> registry_ok scr wide s"
proof (induction rule: rtranclp_induct)
  case base
  show ?case by (simp add: registry_ok_def db_ok_def empty_registry_def)
next
  case (step y z)
  then show ?case by (blast intro: registry_step_ok)
qed

lemma step_keeps_schema:
  "registry_step scr wide hash s s' \<Longrightarrow> db_schemas (rg_db s) k = Some d \<Longrightarrow> db_schemas (rg_db s') k = Some d"
  by (induction rule: registry_step.induct)
    (auto simp: pg_upsert_def put_schema_def Let_def pg_update_pins_def pg_delete_workflow_def split: option.splits)

lemma steps_keep_schema:
  "(registry_step scr wide hash)\<^sup>*\<^sup>* s s' \<Longrightarrow> db_schemas (rg_db s) k = Some d \<Longrightarrow> db_schemas (rg_db s') k = Some d"
  by (induction rule: rtranclp_induct) (auto dest: step_keeps_schema)

text \<open>Validation only asks whether a phase has a policy, not what is in it.\<close>

abbreviation policy_read :: "phase_spec \<Rightarrow> phase_spec" where
  "policy_read p \<equiv> p\<lparr>ps_recycle := map_option policy_of_doc (ps_recycle p)\<rparr>"

lemma policy_read_primitive [simp]: "phase_has_primitive (policy_read p) x = phase_has_primitive p x"
  by (simp add: phase_has_primitive_def)

lemma policy_read_purpose [simp]: "phase_purpose (policy_read p) = phase_purpose p"
  by (simp add: phase_purpose_def Let_def)

lemma policy_read_classes [simp]:
  "phase_run_on (policy_read p) = phase_run_on p" "gate_purpose (policy_read p) = gate_purpose p"
  "registered_ref_spec (policy_read p) = registered_ref_spec p"
  by (simp_all add: phase_run_on_def gate_purpose_def registered_ref_spec_def Let_def)

lemma policy_read_validations [simp]:
  "validate_git_ref_phase (policy_read p) = validate_git_ref_phase p"
  "validate_verification_job (policy_read p) shape n = validate_verification_job p shape n"
  by (simp_all add: validate_git_ref_phase_def validate_verification_job_def validate_single_job_def validate_case_jobs_def
      validate_dynamic_job_def Let_def cong: option.case_cong list.case_cong if_cong)

lemma policy_read_checks [simp]:
  "check_job_condition vars inputs (policy_read p) j = check_job_condition vars inputs p j"
  "check_verification shape n (policy_read p) = check_verification shape n p"
  "check_run_on (policy_read p) = check_run_on p" "check_condition vars inputs (policy_read p) = check_condition vars inputs p"
  "check_review_gate (policy_read p) = check_review_gate p"
  by (simp_all add: check_job_condition_def check_verification_def check_run_on_def check_condition_def
      check_review_gate_def)

lemma policy_read_chain: "check_chain (map policy_read before) (policy_read p) = check_chain before p"
  by (cases "before = []") (simp_all add: check_chain_def last_map cong: list.case_cong)

lemma policy_read_check_phase: "check_phase wide reg (map policy_read before) (policy_read p) = check_phase wide reg before p"
proof -
  have jobs: "check_job_condition v i (policy_read p) = check_job_condition v i p" for v i by (rule ext) simp
  show ?thesis
    by (simp add: check_phase_def check_named_phase_def policy_read_chain jobs comp_def Let_def del: first_error.simps)
qed

lemma policy_read_prefix:
  "check_prefix (check_phase wide reg) (map policy_read before) (map policy_read ps) = check_prefix (check_phase wide reg) before ps"
proof (induction ps arbitrary: before)
  case (Cons p ps)
  from Cons.IH [of "before @ [p]"]
  have "check_prefix (check_phase wide reg) (map policy_read before @ [policy_read p]) (map policy_read ps) =
      check_prefix (check_phase wide reg) (before @ [p]) ps" by simp
  then show ?case by (simp add: policy_read_check_phase check_prefix.simps cong: option.case_cong)
qed (simp add: check_prefix.simps)

lemma find_policy_read: "find ps_verify (map policy_read ps) = map_option policy_read (find ps_verify ps)"
  by (induction ps) auto

lemma policy_read_all: "check_all f (map policy_read ps) = check_all (\<lambda>p. f (policy_read p)) ps"
  by (induction ps) (auto split: option.split)

lemma policy_read_registered:
  "validate_workflow_register wide (reg\<lparr>wr_phases := map policy_read (wr_phases reg)\<rparr>) = validate_workflow_register wide reg"
proof -
  let ?r = "reg\<lparr>wr_phases := map policy_read (wr_phases reg)\<rparr>" and ?ps = "wr_phases reg"
  have shape: "canonical_shape ?r = canonical_shape reg"
    by (simp add: canonical_shape_def infer_shape_def find_policy_read Let_def split: option.split)
  then have cases: "canonical_max_cases ?r = canonical_max_cases reg" by (simp add: canonical_max_cases_def)
  have phase: "check_phase wide ?r = check_phase wide reg" by (rule check_phase_cong [OF shape cases]) simp_all
  have parts: "check_parts (map policy_read ?ps) = check_parts ?ps"
    by (simp add: check_parts_def missing_parts_def verify_count_def review_gate_count_def pr_review_jobs_def
        filter_map list_ex_iff comp_def)
  have refs: "validate_input_refs (map policy_read ?ps) d = validate_input_refs ?ps d" for d
    by (simp add: validate_input_refs_def policy_read_all)
  have git: "validate_git_ref (map policy_read ?ps) d = validate_git_ref ?ps d" for d
    by (simp add: validate_git_ref_def list_all_iff policy_read_all split: option.split)
  show ?thesis
    unfolding validate_workflow_register_def Let_def shape cases phase
    using policy_read_prefix [of wide reg "[]" ?ps]
    by (simp add: parts refs git policy_read_all comp_def)
qed

text \<open>
  C24: However registrations, patches, pins, unpins and deletions of any number of callers
  interleave, a stored schema is a workflow that registration accepts and no later step changes
  it. The run that reads it gets the phases that were accepted, with one difference: a recycle
  policy without attempts is read as three attempts and one without a landing phase as landing on
  the phase itself. The workflow that is read is again one that registration accepts, and every
  recycle policy in it has a landing phase and a number of attempts.
\<close>
theorem stored_schemas_registered:
  assumes "(registry_step scr wide hash)\<^sup>*\<^sup>* empty_registry s"
    and "db_schemas (rg_db s) (project, ref) = Some doc"
  shows "registered wide doc \<and> registered wide (register_of_doc doc) \<and>
     wf_phases (workflow_of_doc ref doc) = wr_phases (register_of_doc doc) \<and>
     wr_phases (register_of_doc doc) = map (\<lambda>p. p\<lparr>ps_recycle := map_option policy_of_doc (ps_recycle p)\<rparr>) (wr_phases doc) \<and>
     (\<forall>p \<in> set (wr_phases (register_of_doc doc)). \<forall>rp. ps_recycle p = Some rp \<longrightarrow> rc_max_attempts rp \<noteq> 0 \<and> rc_lands_at rp \<noteq> []) \<and>
     (\<forall>s'. (registry_step scr wide hash)\<^sup>*\<^sup>* s s' \<longrightarrow> db_schemas (rg_db s') (project, ref) = Some doc)"
proof -
  have d: "doc_ok scr wide doc"
    using registry_reachable_ok [OF assms(1)] assms(2) by (auto simp: registry_ok_def db_ok_def)
  then have read: "map phase_of_doc (wr_phases doc) = map policy_read (wr_phases doc)"
    by (auto simp: doc_ok_def phases_normal_def dest: phase_of_doc_normal)
  have "validate_workflow_register wide (register_of_doc doc) =
      validate_workflow_register wide (doc\<lparr>wr_phases := map policy_read (wr_phases doc)\<rparr>)"
    by (rule validate_cong)
      (simp_all add: register_of_doc_def read canonical_max_cases_def canonical_shape_def Let_def)
  with d have "registered wide (register_of_doc doc)" by (simp add: policy_read_registered doc_ok_def)
  with d steps_keep_schema [OF _ assms(2)] show ?thesis
    by (auto simp: doc_ok_def workflow_of_doc_def register_of_doc_def read)
qed

section \<open>Where a control is\<close>

datatype control_place = BudgetPlace | PrPlace | PhasePlace string

definition place_of :: "string \<Rightarrow> control_place option" where
  "place_of target =
     (case parse_control_pin_target target of
        Inl _ \<Rightarrow> None
      | Inr phase \<Rightarrow> Some (if target = ''budget'' then BudgetPlace
          else if target = ''pr.recycle_policy'' then PrPlace else PhasePlace phase))"

fun value_at :: "workflow_register \<Rightarrow> control_place \<Rightarrow> control_value option" where
  "value_at reg BudgetPlace = Some (BudgetValue (wr_budget reg))"
| "value_at reg PrPlace = map_option (PolicyValue \<circ> Some) (wr_pr reg)"
| "value_at reg (PhasePlace name) = map_option (PolicyValue \<circ> Some) (Option.bind (phase_named reg name) ps_recycle)"

fun put_at :: "control_place \<Rightarrow> control_value \<Rightarrow> workflow_register \<Rightarrow> workflow_register" where
  "put_at BudgetPlace v reg = reg\<lparr>wr_budget := budget_of_value v\<rparr>"
| "put_at PrPlace v reg = reg\<lparr>wr_pr := Some (policy_of_value v)\<rparr>"
| "put_at (PhasePlace name) v reg = reg\<lparr>wr_phases := set_policy name (policy_of_value v) (wr_phases reg)\<rparr>"

lemma control_value_at_iff:
  "control_value_at reg t = Inr v \<longleftrightarrow> (\<exists>l. place_of t = Some l \<and> value_at reg l = Some v)"
  by (auto simp: control_value_at_def place_of_def split: sum.splits option.splits bind_splits)

lemma find_set_policy:
  "find (\<lambda>p. ps_name p = m) (set_policy n rp ps) =
     (if m = n then map_option (\<lambda>p. p\<lparr>ps_recycle := Some rp\<rparr>) (find (\<lambda>p. ps_name p = n) ps)
      else find (\<lambda>p. ps_name p = m) ps)"
  by (induction ps) auto

lemma value_at_put:
  assumes "\<And>n. l = PhasePlace n \<Longrightarrow> phase_named reg n \<noteq> None" "value_at reg0 l = Some v"
  shows "value_at (put_at l v reg) m = (if m = l then Some v else value_at reg m)"
  using assms by (cases l; cases m)
    (auto simp: phase_named_def find_set_policy budget_of_value_def policy_of_value_def bind_eq_Some_conv)

lemma enforce_pin_place:
  "enforce_pin t pin reg = Inr (reg1, v) \<Longrightarrow> \<exists>l. place_of t = Some l \<and> reg1 = put_at l (pin_value pin) reg \<and>
     (\<forall>n. l = PhasePlace n \<longrightarrow> phase_named reg n \<noteq> None)"
  by (auto simp: enforce_pin_def place_of_def split: sum.splits if_splits option.splits)

text \<open>
  Pins that were taken of one registration agree wherever they name the same control; enforcing
  them gives each control its pinned value, also when a later pin names the same control again.
\<close>

definition places :: "control_pins \<Rightarrow> control_place set" where
  "places pins = {l. \<exists>t \<in> fst ` set pins. place_of t = Some l}"

definition pins_of :: "workflow_register \<Rightarrow> control_pins \<Rightarrow> bool" where
  "pins_of reg pins = (\<forall>(t, pin) \<in> set pins. control_value_at reg t = Inr (pin_value pin))"

lemma enforce_targets_value:
  "enforce_targets pins reg = Inr (reg1, cs) \<Longrightarrow> pins_of reg0 pins \<Longrightarrow>
     value_at reg1 m = (if m \<in> places pins then value_at reg0 m else value_at reg m)"
proof (induction pins arbitrary: reg reg1 cs)
  case (Cons tp pins)
  obtain t pin where tp: "tp = (t, pin)" by (cases tp)
  from Cons.prems(1) tp obtain regm v cs' where e: "enforce_pin t pin reg = Inr (regm, v)" and
    r: "enforce_targets pins regm = Inr (reg1, cs')" by (auto split: sum.splits prod.splits)
  from enforce_pin_place [OF e] obtain l where l: "place_of t = Some l" "regm = put_at l (pin_value pin) reg"
    "\<forall>n. l = PhasePlace n \<longrightarrow> phase_named reg n \<noteq> None" by blast
  have v: "value_at reg0 l = Some (pin_value pin)"
    using Cons.prems(2) l(1) tp by (auto simp: pins_of_def control_value_at_iff)
  have p: "value_at regm m = (if m = l then Some (pin_value pin) else value_at reg m)"
    unfolding l(2) by (rule value_at_put [OF _ v]) (use l(3) in auto)
  have "places (tp # pins) = insert l (places pins)"
    using l(1) tp by (auto simp: places_def)
  moreover have "value_at reg1 m = (if m \<in> places pins then value_at reg0 m else value_at regm m)"
    by (rule Cons.IH [OF r]) (use Cons.prems(2) in \<open>auto simp: pins_of_def\<close>)
  ultimately show ?case using p v by auto
qed (simp add: places_def)

lemma enforced_pins:
  assumes "enforce_control_pins reg pins = Inr (reg1, x)" "pins_of reg0 pins"
  shows "pins_of reg1 pins"
proof -
  obtain cs where e: "enforce_targets (sort_key fst pins) reg = Inr (reg1, cs)"
    using assms(1) by (auto simp: enforce_control_pins_def Let_def split: sum.splits prod.splits)
  have c: "pins_of reg0 (sort_key fst pins)" using assms(2) by (simp add: pins_of_def)
  have "control_value_at reg1 t = Inr (pin_value pin)" if "(t, pin) \<in> set pins" for t pin
  proof -
    from assms(2) that obtain l where l: "place_of t = Some l" "value_at reg0 l = Some (pin_value pin)"
      by (auto simp: pins_of_def control_value_at_iff)
    then have "l \<in> places (sort_key fst pins)" using that by (force simp: places_def)
    with enforce_targets_value [OF e c, of l] l show ?thesis by (auto simp: control_value_at_iff)
  qed
  then show ?thesis by (auto simp: pins_of_def)
qed

section \<open>One caller at a time\<close>

definition pins_hold :: "workflow_db \<Rightarrow> bool" where
  "pins_hold db = (\<forall>k r. db_rows db k = Some r \<longrightarrow> pins_of (register_of_doc (row_doc r)) (row_pins r))"

lemma find_map_same:
  "(\<And>p. ps_name (f p) = ps_name p) \<Longrightarrow> find (\<lambda>p. ps_name p = n) (map f ps) = map_option f (find (\<lambda>p. ps_name p = n) ps)"
  by (induction ps) auto

lemma phase_named_map:
  "(\<And>p. ps_name (f p) = ps_name p) \<Longrightarrow> phase_named (reg\<lparr>wr_phases := map f (wr_phases reg)\<rparr>) n = map_option f (phase_named reg n)"
  by (simp add: phase_named_def find_map_same)

lemma phase_named_fields [simp]:
  "phase_named (reg\<lparr>wr_budget := b\<rparr>) n = phase_named reg n" "phase_named (reg\<lparr>wr_shape := sh\<rparr>) n = phase_named reg n"
  "phase_named (reg\<lparr>wr_max_cases := mc\<rparr>) n = phase_named reg n" "phase_named (reg\<lparr>wr_metadata := md\<rparr>) n = phase_named reg n"
  by (simp_all add: phase_named_def)

text \<open>What a control reads as after a write and a read, and the values that this leaves alone.\<close>

fun value_of_doc :: "control_value \<Rightarrow> control_value" where
  "value_of_doc (BudgetValue b) = BudgetValue (default_budget_total b)"
| "value_of_doc (PolicyValue rp) = PolicyValue (map_option policy_of_doc rp)"

lemma phase_doc_policy [simp]: "ps_name (phase_of_doc (doc_phase scr p)) = ps_name p"
  "ps_recycle (phase_of_doc (doc_phase scr p)) = map_option policy_of_doc (ps_recycle p)"
  by (simp_all add: phase_of_doc_def doc_phase_def Let_def)

lemma value_at_doc: "value_at (register_of_doc (workflow_doc scr reg)) l = map_option value_of_doc (value_at reg l)"
proof (cases l)
  case (PhasePlace n)
  have "phase_named (register_of_doc (workflow_doc scr reg)) n =
      map_option (\<lambda>p. phase_of_doc (doc_phase scr p)) (phase_named reg n)"
    by (simp add: register_of_doc_def workflow_doc_def phase_named_def find_map_same comp_def)
  then show ?thesis using PhasePlace
    by (cases "phase_named reg n") (simp_all add: option.map_comp comp_def)
qed (simp_all add: register_of_doc_def workflow_doc_def option.map_comp comp_def)

lemma phase_named_read: "phase_named (register_of_doc d) n = map_option phase_of_doc (phase_named d n)"
  by (simp add: register_of_doc_def phase_named_def find_map_same phase_of_doc_def)

lemma value_read: "value_at (register_of_doc d) l = map_option value_of_doc (value_at d l)"
proof (cases l)
  case (PhasePlace n)
  then show ?thesis
    by (cases "phase_named d n") (simp_all add: phase_named_read phase_of_doc_def option.map_comp comp_def)
qed (simp_all add: register_of_doc_def option.map_comp comp_def)

lemma value_of_doc_twice [simp]: "value_of_doc (value_of_doc v) = value_of_doc v"
  by (cases v) (simp_all add: option.map_comp comp_def)

lemma read_value_fixed: "value_at (register_of_doc d) l = Some v \<Longrightarrow> value_of_doc v = v"
  by (auto simp: value_read)

lemma pins_of_doc:
  assumes "pins_of reg pins" "pins_of (register_of_doc d) pins"
  shows "pins_of (register_of_doc (workflow_doc scr reg)) pins"
proof -
  have "control_value_at (register_of_doc (workflow_doc scr reg)) t = Inr (pin_value pin)" if "(t, pin) \<in> set pins" for t pin
  proof -
    from assms that obtain l where l: "place_of t = Some l" "value_at reg l = Some (pin_value pin)"
      "value_at (register_of_doc d) l = Some (pin_value pin)" by (fastforce simp: pins_of_def control_value_at_iff)
    from l(1,2) read_value_fixed [OF l(3)] show ?thesis by (auto simp: control_value_at_iff value_at_doc)
  qed
  then show ?thesis by (auto simp: pins_of_def)
qed

lemma pins_hold_upsert:
  assumes "pins_hold db" "upsert_workflow scr wide hash known project action actor reg db = Inr db'"
  shows "pins_hold db'"
proof -
  let ?key = "(project, wr_name reg)"
  obtain w where w: "prepare_upsert scr wide hash known project reg (db_rows db ?key) = Inr w"
    and db': "db' = pg_upsert project action actor w db"
    using assms(2) by (auto simp: upsert_workflow_def res_bind_Inr_iff)
  let ?pins = "case db_rows db ?key of None \<Rightarrow> [] | Some r \<Rightarrow> row_pins r"
  obtain reg1 enforced cs where e: "enforce_control_pins (store_normalize scr reg) ?pins = Inr (reg1, enforced, cs)"
    and d: "dw_doc w = workflow_doc scr reg1"
    using w by (auto simp: prepare_upsert_def Let_def split: if_splits sum.splits prod.splits option.splits)
  have names: "wr_name reg1 = wr_name reg"
    using e enforce_targets_name [of _ "store_normalize scr reg"]
    by (auto simp: enforce_control_pins_def Let_def store_normalize_def split: sum.splits prod.splits)
  have pins: "pins_of (register_of_doc (workflow_doc scr reg1)) ?pins"
  proof (cases "db_rows db ?key")
    case (Some r)
    with assms(1) have p: "pins_of (register_of_doc (row_doc r)) (row_pins r)" by (auto simp: pins_hold_def)
    from enforced_pins [OF e [unfolded Some option.case] this] have "pins_of reg1 (row_pins r)" .
    with pins_of_doc [OF this p] Some show ?thesis by simp
  qed (simp add: pins_of_def)
  show ?thesis
    using assms(1) pins names d by (auto simp: pins_hold_def db' pg_upsert_def Let_def workflow_doc_def)
qed

lemma in_update: "(x, y) \<in> set (AList.update k v al) \<Longrightarrow> (x, y) = (k, v) \<or> (x, y) \<in> set al"
  by (induction al) (auto split: if_splits)

lemma in_delete: "(x, y) \<in> set (AList.delete k al) \<Longrightarrow> (x, y) \<in> set al"
  by (induction al) (auto split: if_splits)

lemma pins_hold_row: "pins_hold db \<Longrightarrow> db_rows db key = Some r \<Longrightarrow> pins_of (register_of_doc (row_doc r)) (row_pins r)"
  unfolding pins_hold_def by blast

lemma pins_hold_put:
  "pins_hold db \<Longrightarrow> db_rows db' = (db_rows db)(key \<mapsto> r) \<Longrightarrow> pins_of (register_of_doc (row_doc r)) (row_pins r) \<Longrightarrow>
     pins_hold db'"
  by (cases key) (auto simp: pins_hold_def split: if_splits)

lemma update_pins_row:
  "pg_update_pins key actor w db = Inr db' \<Longrightarrow> db_rows db key = Some r \<Longrightarrow>
     db_rows db' = (db_rows db)(key \<mapsto> r\<lparr>row_pins := pw_pins w\<rparr>)"
  by (auto simp: pg_update_pins_def)

lemma pins_hold_pin:
  assumes "pins_hold db" "prepare_pin target actor reason now (db_rows db key) = Inr w"
    "pg_update_pins key actor w db = Inr db'"
  shows "pins_hold db'"
proof -
  obtain r v where r: "db_rows db key = Some r" and v: "control_value_at (register_of_doc (row_doc r)) target = Inr v"
    and w: "pw_pins w = AList.update target
        \<lparr>pin_value = v, pin_by = actor, pin_at = now, pin_reason = trim_space reason\<rparr> (row_pins r)"
    using assms(2) by (auto simp: prepare_pin_def split: option.splits sum.splits)
  have "pins_of (register_of_doc (row_doc r)) (row_pins r)" by (rule pins_hold_row [OF assms(1) r])
  with v have "pins_of (register_of_doc (row_doc r)) (pw_pins w)"
    using in_update by (fastforce simp: pins_of_def w)
  then show ?thesis by (intro pins_hold_put [OF assms(1) update_pins_row [OF assms(3) r]]) simp
qed

lemma pins_hold_unpin:
  assumes "pins_hold db" "prepare_unpin target (db_rows db key) = Inr w" "pg_update_pins key actor w db = Inr db'"
  shows "pins_hold db'"
proof -
  obtain r where r: "db_rows db key = Some r" and w: "pw_pins w = AList.delete target (row_pins r)"
    using assms(2) by (auto simp: prepare_unpin_def split: option.splits if_splits)
  have "pins_of (register_of_doc (row_doc r)) (row_pins r)" by (rule pins_hold_row [OF assms(1) r])
  then have "pins_of (register_of_doc (row_doc r)) (pw_pins w)"
    by (auto simp: pins_of_def w dest: in_delete)
  then show ?thesis by (intro pins_hold_put [OF assms(1) update_pins_row [OF assms(3) r]]) simp
qed

lemma control_value_at_cong:
  assumes "wr_budget a = wr_budget b" "wr_pr a = wr_pr b" "wr_phases a = wr_phases b"
  shows "control_value_at a t = control_value_at b t"
  unfolding control_value_at_def phase_named_def assms ..

lemma control_value_at_tombstone [simp]:
  "control_value_at (register_of_doc (tombstone actor now doc)) t = control_value_at (register_of_doc doc) t"
  by (rule control_value_at_cong) (simp_all add: register_of_doc_def tombstone_def Let_def)

lemma pins_hold_delete:
  assumes "pins_hold db" "pg_delete_workflow key actor now db = Inr db'"
  shows "pins_hold db'"
proof -
  obtain r where r: "db_rows db key = Some r"
    and db': "db_rows db' = (db_rows db)(key \<mapsto> r\<lparr>row_doc := tombstone actor now (row_doc r)\<rparr>)"
    using assms(2) by (auto simp: pg_delete_workflow_def split: option.splits)
  have "pins_of (register_of_doc (tombstone actor now (row_doc r))) (row_pins r)"
    using pins_hold_row [OF assms(1) r] by (simp add: pins_of_def)
  then show ?thesis by (intro pins_hold_put [OF assms(1) db']) simp
qed

lemma pins_hold_admin:
  assumes "pins_hold db" "run_admin scr wide hash known actor op db = Inr db'"
  shows "pins_hold db'"
proof (cases op)
  case (AdminRegister project req)
  then show ?thesis using assms
    by (auto simp: register_workflow_def res_bind_Inr_iff intro: pins_hold_upsert)
next
  case (AdminPatch project name patch)
  then show ?thesis using assms
    by (auto simp: patch_workflow_def res_bind_Inr_iff intro: pins_hold_upsert)
next
  case (AdminPin key target reason now)
  then show ?thesis using assms
    by (auto simp: pin_workflow_control_def res_bind_Inr_iff intro: pins_hold_pin)
next
  case (AdminUnpin key target)
  then show ?thesis using assms
    by (auto simp: unpin_workflow_control_def res_bind_Inr_iff intro: pins_hold_unpin)
next
  case (AdminDelete key now)
  then show ?thesis using assms by (auto intro: pins_hold_delete)
qed

definition empty_db :: workflow_db where
  "empty_db = \<lparr>db_rows = Map.empty, db_schemas = Map.empty, db_events = []\<rparr>"

fun run_admins ::
  "canonical_scripts \<Rightarrow> (string \<Rightarrow> bool) \<Rightarrow> (string \<times> workflow_register \<Rightarrow> string) \<Rightarrow> bool \<Rightarrow>
     (string \<times> admin_op) list \<Rightarrow> workflow_db \<Rightarrow> (wf_error, workflow_db) res" where
  "run_admins scr wide hash known [] db = Inr db"
| "run_admins scr wide hash known ((actor, op) # ops) db =
     res_bind (run_admin scr wide hash known actor op db) (run_admins scr wide hash known ops)"

lemma pins_hold_admins: "run_admins scr wide hash known ops db = Inr db' \<Longrightarrow> pins_hold db \<Longrightarrow> pins_hold db'"
proof (induction ops arbitrary: db)
  case (Cons aop ops)
  obtain actor op where aop: "aop = (actor, op)" by (cases aop)
  with Cons.prems(1) obtain db1 where "run_admin scr wide hash known actor op db = Inr db1"
    "run_admins scr wide hash known ops db1 = Inr db'" by (auto simp: res_bind_Inr_iff)
  with Cons.IH Cons.prems(2) pins_hold_admin show ?case by blast
qed simp

text \<open>
  C25: A pinned control never moves while callers take turns: after any sequence of registrations,
  patches, pins, unpins and deletions, the stored workflow has at every pinned control the value
  that was live when it was pinned, whatever the registrations in between asked for.
\<close>
theorem pinned_controls_hold:
  assumes "run_admins scr wide hash known ops empty_db = Inr db"
    and "db_rows db key = Some r" and "(target, pin) \<in> set (row_pins r)"
  shows "control_value_at (register_of_doc (row_doc r)) target = Inr (pin_value pin)"
proof -
  have "pins_hold empty_db" by (simp add: pins_hold_def empty_db_def)
  from pins_hold_row [OF pins_hold_admins [OF assms(1) this] assms(2)] assms(3) show ?thesis
    by (auto simp: pins_of_def)
qed

section \<open>Two callers at a time\<close>

text \<open>
  Two operators who pin two controls of a workflow at the same time both succeed and both
  leave a pin event, but the pin of the one who writes first is gone.
\<close>
theorem concurrent_pins_lost:
  assumes "db_rows db key = Some r" and "map_of (row_pins r) t1 = None" and "t1 \<noteq> t2"
    and "prepare_pin t1 actor1 reason1 now1 (db_rows db key) = Inr w1"
    and "prepare_pin t2 actor2 reason2 now2 (db_rows db key) = Inr w2"
  shows "\<exists>db1 db2 r2. pg_update_pins key actor1 w1 db = Inr db1 \<and> pg_update_pins key actor2 w2 db1 = Inr db2 \<and>
     db_rows db2 key = Some r2 \<and> map_of (row_pins r2) t1 = None \<and> map_of (row_pins r2) t2 \<noteq> None \<and>
     (\<exists>e1 e2. db_events db2 = db_events db @ [e1, e2] \<and> ce_action e1 = ''pin'' \<and> ce_action e2 = ''pin'' \<and>
        ce_detail e1 \<noteq> ce_detail e2)"
proof -
  from assms(4,5) have w: "pw_action w1 = ''pin''" "pw_action w2 = ''pin''" "pw_target w1 = t1" "pw_target w2 = t2"
    "map_of (pw_pins w2) t1 = map_of (row_pins r) t1" "map_of (pw_pins w2) t2 \<noteq> None"
    using assms(1,3) by (auto simp: prepare_pin_def update_conv' split: sum.splits)
  show ?thesis using assms(1-3) w by (simp add: pg_update_pins_def)
qed

text \<open>
  A registration that has read the row before a control is pinned and writes it afterwards
  moves the pinned control: the pin stays in the row with the value it froze, and the workflow
  has the value the registration asked for.
\<close>
theorem registration_moves_pinned_control:
  assumes "db_rows db (project, wr_name (dw_doc w)) = Some r"
    and "prepare_pin target actor reason now (Some r) = Inr pw"
    and "pg_update_pins (project, wr_name (dw_doc w)) actor pw db = Inr db1"
    and "prepare_upsert scr wide hash True project reg (Some r) = Inr w"
  shows "\<exists>r2 pin. db_rows (pg_upsert project action writer w db1) (project, wr_name (dw_doc w)) = Some r2 \<and>
     map_of (row_pins r2) target = Some pin \<and>
     Inr (pin_value pin) = control_value_at (register_of_doc (row_doc r)) target \<and>
     control_value_at (register_of_doc (row_doc r2)) target = control_value_at (register_of_doc (dw_doc w)) target"
proof -
  from assms(2) obtain v where v: "control_value_at (register_of_doc (row_doc r)) target = Inr v"
    and pw: "pw_pins pw = AList.update target
        \<lparr>pin_value = v, pin_by = actor, pin_at = now, pin_reason = trim_space reason\<rparr> (row_pins r)"
    by (auto simp: prepare_pin_def split: sum.splits)
  with assms(1,3) show ?thesis
    by (auto simp: pg_update_pins_def pg_upsert_def Let_def update_conv')
qed

section \<open>Variables\<close>

lemma normalize_vars: "normalize_register scr (reg\<lparr>wr_vars := vs\<rparr>) = (normalize_register scr reg)\<lparr>wr_vars := vs\<rparr>"
  "store_normalize scr (reg\<lparr>wr_vars := vs\<rparr>) = (store_normalize scr reg)\<lparr>wr_vars := vs\<rparr>"
  by (simp_all add: normalize_register_def store_normalize_def)

lemma workflow_doc_vars: "workflow_doc scr (reg\<lparr>wr_vars := vs\<rparr>) = (workflow_doc scr reg)\<lparr>wr_vars := vs\<rparr>"
  by (simp add: workflow_doc_def canonical_max_cases_def canonical_shape_def Let_def)

lemma hashed_content_vars [simp]: "hashed_content (doc\<lparr>wr_vars := vs\<rparr>) = hashed_content doc"
  by (simp add: hashed_content_def)

lemma no_pins [simp]: "enforce_control_pins reg [] = Inr (reg, [], [])"
  by (simp add: enforce_control_pins_def Let_def)

lemma normalize_stored [simp]: "store_normalize scr (normalize_register scr reg) = normalize_register scr reg"
  using normalize_idempotent by blast

lemma register_unpinned:
  assumes "register_workflow scr wide hash known project actor req db = Inr db'"
    and "\<And>r. db_rows db (project, wr_name req) = Some r \<Longrightarrow> row_pins r = []"
  obtains changes where "db' = pg_upsert project ''register'' actor
     \<lparr>dw_doc = workflow_doc scr (normalize_register scr req),
      dw_ref = schema_ref_of hash project (workflow_doc scr (normalize_register scr req)),
      dw_changes = changes, dw_enforced = []\<rparr> db"
proof -
  have "wr_name (normalize_register scr req) = wr_name req" by (simp add: normalize_register_def)
  with assms that show thesis
    by (auto simp: register_workflow_def accept_registration_def upsert_workflow_def prepare_upsert_def Let_def
        res_bind_Inr_iff split: if_splits option.splits)
qed

text \<open>
  A new value of a workflow variable never reaches a run: the schema reference does not
  depend on the variables, so registering a workflow again with other variables keeps the
  reference and the schema row of the first registration, and a run that reads the workflow by
  that reference gets the old variables while the registry shows the new ones.
\<close>
theorem vars_update_never_reaches_runs:
  assumes "register_workflow scr wide hash known project actor1 req db = Inr db1"
    and "register_workflow scr wide hash known project actor2 (req\<lparr>wr_vars := vs\<rparr>) db1 = Inr db2"
    and "db_rows db (project, wr_name req) = None" and "\<forall>ref. db_schemas db (project, ref) = None"
  shows "\<exists>r doc. db_rows db2 (project, wr_name req) = Some r \<and> wr_vars (row_doc r) = vs \<and>
     db_schemas db2 (project, row_ref r) = Some doc \<and>
     wf_vars (workflow_of_doc (row_ref r) doc) = map_of (wr_vars req)"
proof -
  let ?doc = "workflow_doc scr (normalize_register scr req)"
  have name: "wr_name (normalize_register scr req) = wr_name req" by (simp add: normalize_register_def)
  obtain cs1 where db1: "db1 = pg_upsert project ''register'' actor1
     \<lparr>dw_doc = ?doc, dw_ref = schema_ref_of hash project ?doc, dw_changes = cs1, dw_enforced = []\<rparr> db"
    by (rule register_unpinned [OF assms(1)]) (simp_all add: assms(3))
  have row1: "row_pins r = []" if "db_rows db1 (project, wr_name (req\<lparr>wr_vars := vs\<rparr>)) = Some r" for r
    using that assms(3) name by (auto simp: db1 pg_upsert_def Let_def workflow_doc_def)
  obtain cs2 where db2: "db2 = pg_upsert project ''register'' actor2
     \<lparr>dw_doc = ?doc\<lparr>wr_vars := vs\<rparr>, dw_ref = schema_ref_of hash project ?doc, dw_changes = cs2, dw_enforced = []\<rparr> db1"
    by (rule register_unpinned [OF assms(2) row1])
      (auto simp: normalize_vars workflow_doc_vars schema_ref_of_def)
  have old: "wr_vars ?doc = wr_vars req" by (simp add: workflow_doc_def normalize_register_def)
  show ?thesis
    using assms(4) name old
    by (auto simp: db2 db1 pg_upsert_def put_schema_def Let_def workflow_doc_def workflow_of_doc_def)
qed

section \<open>Patches\<close>

definition patch_place :: "string \<Rightarrow> control_place" where
  "patch_place t = (if t = ''pr'' then PrPlace else PhasePlace t)"

lemma apply_patch_place:
  assumes "apply_patch t n reg = Inr reg'"
  obtains rp where "value_at reg (patch_place t) = Some (PolicyValue (Some rp))"
    "\<And>m. value_at reg' m = (if m = patch_place t then Some (PolicyValue (Some (set_attempts n rp))) else value_at reg m)"
    "wr_name reg' = wr_name reg"
proof -
  from assms obtain rp where rp: "value_at reg (patch_place t) = Some (PolicyValue (Some rp))"
    "reg' = put_at (patch_place t) (PolicyValue (Some (set_attempts n rp))) reg"
    by (auto simp: apply_patch_def patch_place_def policy_of_value_def split: if_splits option.splits)
  let ?v = "PolicyValue (Some (set_attempts n rp))"
  obtain reg0 where reg0: "value_at reg0 (patch_place t) = Some ?v"
  proof (cases "patch_place t = PrPlace")
    case True
    then have "value_at (reg\<lparr>wr_pr := Some (set_attempts n rp)\<rparr>) (patch_place t) = Some ?v" by simp
    with that show thesis by blast
  next
    case False
    then obtain m where m: "patch_place t = PhasePlace m" by (auto simp: patch_place_def split: if_splits)
    with rp(1) obtain p where p: "phase_named reg m = Some p" by (auto simp: bind_eq_Some_conv)
    then have "value_at (reg\<lparr>wr_phases := [p\<lparr>ps_name := m, ps_recycle := Some (set_attempts n rp)\<rparr>]\<rparr>) (patch_place t) = Some ?v"
      by (simp add: m phase_named_def)
    with that show thesis by blast
  qed
  have "value_at reg' m = (if m = patch_place t then Some ?v else value_at reg m)" for m
    unfolding rp(2) by (rule value_at_put [OF _ reg0]) (use rp(1) in \<open>auto simp: bind_eq_Some_conv\<close>)
  moreover have "wr_name reg' = wr_name reg" unfolding rp(2) by (cases "patch_place t") simp_all
  ultimately show thesis using that rp(1) by blast
qed

lemma patched_once:
  "apply_recycle_patches seen ps reg = Inr reg' \<Longrightarrow> e \<in> set ps \<Longrightarrow> t \<in> set seen \<Longrightarrow> trim_space (rm_target e) \<noteq> t"
proof (induction ps arbitrary: seen reg)
  case (Cons q ps)
  let ?t = "trim_space (rm_target q)"
  from Cons.prems obtain reg1 where a: "apply_recycle_patches (?t # seen) ps reg1 = Inr reg'" "?t \<notin> set seen"
    by (auto simp: Let_def res_bind_Inr_iff split: if_splits)
  with Cons.IH [OF a(1)] Cons.prems(2,3) show ?case by (cases "e = q") auto
qed simp

lemma patched_keeps:
  "apply_recycle_patches seen ps reg = Inr reg' \<Longrightarrow> t \<in> set seen \<Longrightarrow>
     value_at reg' (patch_place t) = value_at reg (patch_place t)"
proof (induction ps arbitrary: seen reg)
  case (Cons q ps)
  let ?t = "trim_space (rm_target q)"
  from Cons.prems obtain reg1 where a: "apply_patch ?t (rm_max_attempts q) reg = Inr reg1"
    "apply_recycle_patches (?t # seen) ps reg1 = Inr reg'" "?t \<notin> set seen"
    by (auto simp: Let_def res_bind_Inr_iff split: if_splits)
  from Cons.prems(2) a(3) have "patch_place t \<noteq> patch_place ?t"
    by (auto simp: patch_place_def split: if_splits)
  then have "value_at reg1 (patch_place t) = value_at reg (patch_place t)"
    by (auto intro: apply_patch_place [OF a(1)])
  with Cons.IH [OF a(2)] Cons.prems(2) show ?case by simp
qed simp

lemma patched_name: "apply_recycle_patches seen ps reg = Inr reg' \<Longrightarrow> wr_name reg' = wr_name reg"
proof (induction ps arbitrary: seen reg)
  case (Cons q ps)
  let ?t = "trim_space (rm_target q)"
  from Cons.prems obtain reg1 where a: "apply_patch ?t (rm_max_attempts q) reg = Inr reg1"
    "apply_recycle_patches (?t # seen) ps reg1 = Inr reg'"
    by (auto simp: Let_def res_bind_Inr_iff split: if_splits)
  from Cons.IH [OF a(2)] show ?case by (auto intro: apply_patch_place [OF a(1)])
qed simp

lemma apply_patches:
  assumes "apply_recycle_patches seen ps reg = Inr reg'" "e \<in> set ps"
  obtains rp where "1 \<le> rm_max_attempts e" "rm_max_attempts e \<le> 20"
    "value_at reg (patch_place (trim_space (rm_target e))) = Some (PolicyValue (Some rp))"
    "value_at reg' (patch_place (trim_space (rm_target e))) = Some (PolicyValue (Some (set_attempts (rm_max_attempts e) rp)))"
proof -
  have "\<exists>rp. 1 \<le> rm_max_attempts e \<and> rm_max_attempts e \<le> 20 \<and>
     value_at reg (patch_place (trim_space (rm_target e))) = Some (PolicyValue (Some rp)) \<and>
     value_at reg' (patch_place (trim_space (rm_target e))) = Some (PolicyValue (Some (set_attempts (rm_max_attempts e) rp)))"
    using assms
  proof (induction ps arbitrary: seen reg)
    case (Cons q ps)
    let ?t = "trim_space (rm_target q)"
    from Cons.prems(1) obtain reg1 where a: "apply_patch ?t (rm_max_attempts q) reg = Inr reg1"
      "apply_recycle_patches (?t # seen) ps reg1 = Inr reg'" "1 \<le> rm_max_attempts q" "rm_max_attempts q \<le> 20"
      by (auto simp: Let_def res_bind_Inr_iff split: if_splits)
    obtain rp where p: "value_at reg (patch_place ?t) = Some (PolicyValue (Some rp))"
      "\<And>m. value_at reg1 m = (if m = patch_place ?t
         then Some (PolicyValue (Some (set_attempts (rm_max_attempts q) rp))) else value_at reg m)"
      using apply_patch_place [OF a(1)] by blast
    show ?case
    proof (cases "e = q")
      case True
      with a p patched_keeps [OF a(2), of ?t] show ?thesis by auto
    next
      case False
      with Cons.prems(2) have e: "e \<in> set ps" by simp
      from Cons.IH [OF a(2) this] obtain rp' where r:
        "1 \<le> rm_max_attempts e" "rm_max_attempts e \<le> 20"
        "value_at reg1 (patch_place (trim_space (rm_target e))) = Some (PolicyValue (Some rp'))"
        "value_at reg' (patch_place (trim_space (rm_target e))) = Some (PolicyValue (Some (set_attempts (rm_max_attempts e) rp')))"
        by blast
      have "trim_space (rm_target e) \<noteq> ?t"
        by (rule patched_once [OF a(2) e]) simp
      then have "patch_place (trim_space (rm_target e)) \<noteq> patch_place ?t"
        by (auto simp: patch_place_def split: if_splits)
      with r p(2) show ?thesis by auto
    qed
  qed simp
  with that show thesis by blast
qed

text \<open>
  A control other than the policy of a phase named \<open>recycle_policy\<close> has one target. For that
  phase the shorter \<open>phases.recycle_policy\<close> is a second one: prefix and suffix overlap.
\<close>

lemma overlap:
  assumes "prefix ''phases.'' t" "suffix ''.recycle_policy'' t"
  shows "t = ''phases.recycle_policy'' \<or> (\<exists>u. t = ''phases.'' @ u @ ''.recycle_policy'')"
proof -
  obtain u where u: "t = ''phases.'' @ u" using assms(1) unfolding prefix_def by blast
  obtain zs where "t = zs @ ''.recycle_policy''" using assms(2) unfolding suffix_def by blast
  with u have "''phases.'' @ u = zs @ ''.recycle_policy''" by simp
  then show ?thesis
    by (auto simp: u append_eq_append_conv2 Cons_eq_append_conv)
qed

lemma trim_suffix_append [simp]: "trim_suffix s (u @ s) = u"
  by (simp add: trim_suffix_def suffix_def)

lemma parse_phase_target: "trim_space u \<noteq> [] \<Longrightarrow>
    parse_control_pin_target (''phases.'' @ u @ ''.recycle_policy'') = Inr u"
proof -
  assume "trim_space u \<noteq> []"
  moreover have "trim_prefix ''phases.'' (''phases.'' @ u @ ''.recycle_policy'') = u @ ''.recycle_policy''"
    by (rule trim_prefix_append)
  moreover have "suffix ''.recycle_policy'' (''phases.'' @ u @ ''.recycle_policy'')"
    unfolding append_assoc [symmetric] by (rule suffixI) simp
  ultimately show ?thesis
    by (simp add: parse_control_pin_target_def Let_def)
qed

lemma alias_target: "parse_control_pin_target ''phases.recycle_policy'' = Inr ''recycle_policy''"
  by code_simp

lemma place_of_patch:
  assumes "place_of t' = Some (patch_place t)" "t \<noteq> ''recycle_policy''"
  shows "t' = pin_target_for_patch t"
proof (cases "t = ''pr''")
  case True
  with assms show ?thesis
    by (auto simp: place_of_def patch_place_def pin_target_for_patch_def split: sum.splits if_splits)
next
  case False
  with assms(1) have p: "parse_control_pin_target t' = Inr t" "t' \<noteq> ''budget''" "t' \<noteq> ''pr.recycle_policy''"
    by (auto simp: place_of_def patch_place_def split: sum.splits if_splits)
  then have "prefix ''phases.'' t'" "suffix ''.recycle_policy'' t'"
    by (auto simp: parse_control_pin_target_def Let_def split: if_splits)
  from overlap [OF this] show ?thesis
  proof
    assume "t' = ''phases.recycle_policy''"
    with p(1) alias_target assms(2) show ?thesis by simp
  next
    assume "\<exists>u. t' = ''phases.'' @ u @ ''.recycle_policy''"
    then obtain u where u: "t' = ''phases.'' @ u @ ''.recycle_policy''" by blast
    have "trim_prefix ''phases.'' t' = u @ ''.recycle_policy''" unfolding u by (rule trim_prefix_append)
    with p have "t = u"
      by (auto simp: parse_control_pin_target_def Let_def split: if_splits)
    with u False show ?thesis by (simp add: pin_target_for_patch_def)
  qed
qed

lemma enforced_value:
  assumes "enforce_control_pins reg pins = Inr (reg1, x)" "pins_of reg0 pins"
  shows "value_at reg1 l = (if l \<in> places pins then value_at reg0 l else value_at reg l)"
proof -
  obtain cs where e: "enforce_targets (sort_key fst pins) reg = Inr (reg1, cs)"
    using assms(1) by (auto simp: enforce_control_pins_def Let_def split: sum.splits prod.splits)
  have "pins_of reg0 (sort_key fst pins)" "places (sort_key fst pins) = places pins"
    using assms(2) by (simp_all add: pins_of_def places_def)
  with enforce_targets_value [OF e, of reg0 l] show ?thesis by simp
qed

lemma normalized_value: "l \<noteq> BudgetPlace \<Longrightarrow> value_at (store_normalize scr reg) l = value_at reg l"
proof (cases l)
  case (PhasePlace n)
  then show ?thesis
    by (cases "phase_named reg n")
      (simp_all add: store_normalize_def phase_named_def find_map_same)
qed (simp_all add: store_normalize_def)

definition patch_base :: "workflow_patch \<Rightarrow> workflow_row \<Rightarrow> workflow_register" where
  "patch_base patch r = (case wp_budget patch of None \<Rightarrow> register_of_doc (row_doc r)
     | Some b \<Rightarrow> (register_of_doc (row_doc r))\<lparr>wr_budget := \<lparr>total = b\<rparr>\<rparr>)"

lemma patch_written:
  assumes "db_rows db (project, name) = Some r" "wr_name (row_doc r) = name"
    "patch_workflow scr wide hash known project name actor patch db = Inr db'"
  obtains reg reg1 ref x where "check_all (patch_pinned (row_pins r)) (wp_recycle patch) = None"
    "apply_recycle_patches [] (wp_recycle patch) (patch_base patch r) = Inr reg"
    "upsert_workflow scr wide hash known project ''patch'' actor reg db = Inr db'"
    "enforce_control_pins (store_normalize scr reg) (row_pins r) = Inr (reg1, x)"
    "db_rows db' (project, name) = Some \<lparr>row_doc = workflow_doc scr reg1, row_ref = ref, row_pins = row_pins r\<rparr>"
proof -
  obtain reg where reg: "prepare_patch patch (Some r) = Inr reg"
    and u: "upsert_workflow scr wide hash known project ''patch'' actor reg db = Inr db'"
    using assms(1,3) by (auto simp: patch_workflow_def res_bind_Inr_iff)
  then have ap: "apply_recycle_patches [] (wp_recycle patch) (patch_base patch r) = Inr reg"
    and unpinned: "check_all (patch_pinned (row_pins r)) (wp_recycle patch) = None"
    by (auto simp: prepare_patch_def patch_base_def split: option.splits)
  have name: "wr_name reg = name"
    using patched_name [OF ap] assms(2) by (auto simp: patch_base_def register_of_doc_def split: option.splits)
  with u assms(1) obtain w reg1 enforced cs where w: "db' = pg_upsert project ''patch'' actor w db" "dw_doc w = workflow_doc scr reg1"
    and en: "enforce_control_pins (store_normalize scr reg) (row_pins r) = Inr (reg1, enforced, cs)"
    by (auto simp: upsert_workflow_def res_bind_Inr_iff prepare_upsert_def Let_def
        split: if_splits sum.splits prod.splits option.splits)
  have "wr_name reg1 = name"
    using en enforce_targets_name [of _ "store_normalize scr reg"] name
    by (auto simp: enforce_control_pins_def Let_def store_normalize_def split: sum.splits prod.splits)
  then have "db_rows db' (project, name) = Some \<lparr>row_doc = workflow_doc scr reg1, row_ref = dw_ref w, row_pins = row_pins r\<rparr>"
    using assms(1) w by (simp add: pg_upsert_def Let_def workflow_doc_def)
  with that unpinned ap u en show thesis by blast
qed

text \<open>
  An accepted patch of a recycle lane does what it says: the lane exists and is not pinned,
  the new number of attempts is between 1 and 20, the stored workflow has the lane as it was but
  for that number, and the pins of the workflow stay. The one exception is a phase named
  \<open>recycle_policy\<close>, whose lane has two pin targets.
\<close>
theorem patch_scales_lane:
  assumes "pins_hold db" and "db_rows db (project, name) = Some r" and "wr_name (row_doc r) = name"
    and "patch_workflow scr wide hash known project name actor patch db = Inr db'"
    and "e \<in> set (wp_recycle patch)" and "trim_space (rm_target e) \<noteq> ''recycle_policy''"
  shows "\<exists>r' rp. db_rows db' (project, name) = Some r' \<and> row_pins r' = row_pins r \<and>
     1 \<le> rm_max_attempts e \<and> rm_max_attempts e \<le> 20 \<and>
     map_of (row_pins r) (pin_target_for_patch (trim_space (rm_target e))) = None \<and>
     value_at (register_of_doc (row_doc r)) (patch_place (trim_space (rm_target e))) = Some (PolicyValue (Some rp)) \<and>
     value_at (register_of_doc (row_doc r')) (patch_place (trim_space (rm_target e))) =
       Some (PolicyValue (Some (set_attempts (rm_max_attempts e) rp)))"
proof -
  let ?t = "trim_space (rm_target e)"
  obtain reg reg1 ref x where w: "check_all (patch_pinned (row_pins r)) (wp_recycle patch) = None"
    "apply_recycle_patches [] (wp_recycle patch) (patch_base patch r) = Inr reg"
    "enforce_control_pins (store_normalize scr reg) (row_pins r) = Inr (reg1, x)"
    "db_rows db' (project, name) = Some \<lparr>row_doc = workflow_doc scr reg1, row_ref = ref, row_pins = row_pins r\<rparr>"
    by (rule patch_written [OF assms(2-4)])
  have free: "map_of (row_pins r) (pin_target_for_patch ?t) = None"
    using w(1) assms(5) by (auto simp: patch_pinned_def Let_def)
  obtain rp where rp: "1 \<le> rm_max_attempts e" "rm_max_attempts e \<le> 20"
    "value_at (patch_base patch r) (patch_place ?t) = Some (PolicyValue (Some rp))"
    "value_at reg (patch_place ?t) = Some (PolicyValue (Some (set_attempts (rm_max_attempts e) rp)))"
    using apply_patches [OF w(2) assms(5)] by blast
  have nb: "patch_place ?t \<noteq> BudgetPlace" by (simp add: patch_place_def)
  have old: "value_at (register_of_doc (row_doc r)) (patch_place ?t) = Some (PolicyValue (Some rp))"
    using rp(3) nb by (cases "patch_place ?t") (auto simp: patch_base_def split: option.splits)
  have "policy_of_doc rp = rp" using read_value_fixed [OF old] by simp
  with rp(1) have fixed: "policy_of_doc (set_attempts (rm_max_attempts e) rp) = set_attempts (rm_max_attempts e) rp"
    by (intro policy_of_doc_same) (auto simp: set_attempts_def, metis policy_of_doc_facts(4))
  have "patch_place ?t \<notin> places (row_pins r)"
    using free place_of_patch [OF _ assms(6)] by (force simp: places_def map_of_eq_None_iff)
  then have "value_at (register_of_doc (workflow_doc scr reg1)) (patch_place ?t) =
      Some (PolicyValue (Some (set_attempts (rm_max_attempts e) rp)))"
    using enforced_value [OF w(3) pins_hold_row [OF assms(1,2)], of "patch_place ?t"] rp(4) nb
      normalized_value [OF nb, of scr reg] fixed by (simp add: value_at_doc)
  with w(4) free old rp show ?thesis by auto
qed

text \<open>
  A pin at the shorter target of a phase named \<open>recycle_policy\<close> is not seen by the check of a
  patch: the patch is accepted, and the pin takes it back.
\<close>

lemma aliased_pin_swallows_patch:
  assumes "pins_hold db" and "db_rows db (project, name) = Some r" and "wr_name (row_doc r) = name"
    and "patch_workflow scr wide hash known project name actor patch db = Inr db'"
    and "map_of (row_pins r) ''phases.recycle_policy'' = Some pin"
  shows "\<exists>r'. db_rows db' (project, name) = Some r' \<and>
     control_value_at (register_of_doc (row_doc r')) (pin_target_for_patch ''recycle_policy'') = Inr (pin_value pin)"
proof -
  obtain reg reg1 ref x where u: "upsert_workflow scr wide hash known project ''patch'' actor reg db = Inr db'"
    and row: "db_rows db' (project, name) = Some \<lparr>row_doc = workflow_doc scr reg1, row_ref = ref, row_pins = row_pins r\<rparr>"
    by (rule patch_written [OF assms(2-4)])
  have "pins_hold db'" by (rule pins_hold_upsert [OF assms(1) u])
  from pins_hold_row [OF this row] map_of_SomeD [OF assms(5)]
  have "control_value_at (register_of_doc (workflow_doc scr reg1)) ''phases.recycle_policy'' = Inr (pin_value pin)"
    by (auto simp: pins_of_def)
  moreover have "place_of (pin_target_for_patch ''recycle_policy'') = place_of ''phases.recycle_policy''"
    by code_simp
  ultimately show ?thesis using row by (simp add: control_value_at_iff)
qed

end
