(* ===== verification/RegistryExamples.thy ===== *)
theory RegistryExamples
  imports Examples Registry
begin

text \<open>
  A registry that holds a workflow in its normal form, at which the theorems about registrations,
  pins and patches are instantiated.
\<close>

definition scripts :: canonical_scripts where
  "scripts = \<lparr>cs_gate = ''exit'', cs_merge = ''exit'', cs_review = ''exit'', cs_finalize = ''exit''\<rparr>"

definition stored_verify :: phase_spec where
  "stored_verify = example_phase ''verify'' ''verification'' ''success'' [''prepare'']
     [example_job ''check'' [] [owned_step ''verdict'' ''verification_finalize'' ''exit'']]"

definition stored_review :: phase_spec where
  "stored_review = example_phase ''review'' ''review'' ''success'' [''cleanup'']
     [owned_job ''pr'' ''pr_review'' 120 (owned_step ''ensure-pr-review'' [] ''exit'')]"

definition stored_gate :: phase_spec where
  "stored_gate = example_phase ''review_gate'' ''review_gate'' ''success'' [''review'']
     [owned_job ''merge'' ''pr_merge'' 120 (owned_step ''merge-pull-request'' [] ''exit'')]"

definition stored_phases :: "phase_spec list" where
  "stored_phases = [prepare_phase, stored_verify, cleanup_phase, stored_review, stored_gate, final_phase]"

definition stored_reg :: "(string \<times> string) list \<Rightarrow> rat \<Rightarrow> workflow_register" where
  "stored_reg vars b = (register_of stored_phases)\<lparr>wr_vars := vars, wr_budget := \<lparr>total = Fin b\<rparr>\<rparr>"

definition stored_doc :: "(string \<times> string) list \<Rightarrow> rat \<Rightarrow> workflow_register" where
  "stored_doc vars b = (stored_reg vars b)\<lparr>wr_shape := ''single_job''\<rparr>"

lemmas stored_phase_defs = prepare_phase_def stored_verify_def cleanup_phase_def stored_review_def stored_gate_def
  final_phase_def

lemma more_trims [simp]:
  "trim_space ''ensure-pr-review'' = ''ensure-pr-review''" "trim_space ''merge-pull-request'' = ''merge-pull-request''"
  "trim_space ''exit'' = ''exit''"
  by code_simp+

lemma canonical_example_job [simp]:
  "canonical_job scripts (example_job i [] []) = example_job i [] []"
  "canonical_job scripts (example_job i [] [owned_step g ''verification_finalize'' ''exit'']) =
     example_job i [] [owned_step (text_or ''finalize-verification'' g) ''verification_finalize'' ''exit'']"
  by (simp_all add: canonical_job_def Let_def canonical_step_def scripts_def example_job_def)

lemma canonical_owned_job [simp]:
  "canonical_job scripts (owned_job i ''pr_review'' 120 s) =
     owned_job (text_or ''pr-review'' i) ''pr_review'' 120 (owned_step ''ensure-pr-review'' [] ''exit'')"
  "canonical_job scripts (owned_job i ''pr_merge'' 120 s) =
     owned_job (text_or ''pr-merge'' i) ''pr_merge'' 120 (owned_step ''merge-pull-request'' [] ''exit'')"
  by (simp_all add: canonical_job_def Let_def canonical_review_job_def canonical_merge_job_def scripts_def positive_or_def)

lemma text_or_plain [simp]: "trim_space t = t \<Longrightarrow> t \<noteq> [] \<Longrightarrow> text_or d t = t"
  by (simp add: text_or_def Let_def)

lemma canonical_example_phase:
  "map (canonical_job scripts) js = js \<Longrightarrow> canonical_phase scripts (example_phase n u r d js) = example_phase n u r d js"
  by (simp add: canonical_phase_def example_phase_def)

lemma example_phase_normal:
  "map (canonical_job scripts) js = js \<Longrightarrow> trim_space r = r \<Longrightarrow> r \<noteq> [] \<Longrightarrow> trim_space u = u \<Longrightarrow> u \<noteq> [] \<Longrightarrow>
     \<forall>j \<in> set js. trim_space (js_primitive j) = js_primitive j \<Longrightarrow> phase_normal scripts (example_phase n u r d js)"
  by (simp add: phase_normal_def canonical_example_phase)

lemma example_steps_trimmed:
  "\<forall>j \<in> set js. \<forall>s \<in> set (js_steps j). trim_step s = s \<Longrightarrow> steps_trimmed (example_phase n u r d js)"
  by (simp add: steps_trimmed_def)

lemma stored_phases_normal: "phases_normal scripts (stored_reg vars b)"
  by (simp add: phases_normal_def stored_reg_def stored_phases_def stored_phase_defs example_phase_normal)

lemma stored_steps_trimmed: "p \<in> set stored_phases \<Longrightarrow> steps_trimmed p"
  by (auto simp: stored_phases_def stored_phase_defs example_steps_trimmed trim_step_owned)

lemma stored_normal: "b \<noteq> 0 \<Longrightarrow> normalize_register scripts (stored_reg vars b) = stored_reg vars b"
proof -
  assume b: "b \<noteq> 0"
  have "normalize_phase scripts (trim_phase_steps p) = p" if "p \<in> set stored_phases" for p
    using that stored_phases_normal [of vars b] trim_phase_steps_fixed [OF stored_steps_trimmed [OF that]]
    by (auto simp: phases_normal_def stored_reg_def intro: normalize_phase_normal)
  then have "map (\<lambda>p. normalize_phase scripts (trim_phase_steps p)) stored_phases = stored_phases" by (rule map_fixed)
  then show ?thesis
    using b by (simp add: normalize_register_def stored_reg_def register_of_def default_budget_total_def)
qed

lemma owned_step_agent [simp]: "ss_agent (owned_step g p r) = None"
  by (simp add: owned_step_def)

lemma stored_check_phase:
  assumes "canonical_shape reg = ''single_job''"
  shows "check_phase w reg [] prepare_phase = None"
    "check_phase w reg [prepare_phase] stored_verify = None"
    "check_phase w reg [prepare_phase, stored_verify] cleanup_phase = None"
    "check_phase w reg [prepare_phase, stored_verify, cleanup_phase] stored_review = None"
    "check_phase w reg [prepare_phase, stored_verify, cleanup_phase, stored_review] stored_gate = None"
    "check_phase w reg [prepare_phase, stored_verify, cleanup_phase, stored_review, stored_gate] final_phase = None"
  using assms
  by (simp_all add: phase_check_defs stored_phase_defs validate_verification_job_def validate_single_job_def
      is_finalizer_def check_steps_def check_step_def owned_job_def del: check_all.simps)

lemma stored_shape:
  "canonical_shape (stored_reg vars b) = ''single_job''" "canonical_max_cases (stored_reg vars b) = 0"
  by (simp_all add: canonical_shape_def canonical_max_cases_def stored_reg_def register_of_def infer_shape_def
      stored_phases_def stored_phase_defs owned_step_def Let_def)

lemma stored_registered: "validate_vars vars = None \<Longrightarrow> registered w (stored_reg vars b)"
proof -
  assume v: "validate_vars vars = None"
  have p: "wr_phases (stored_reg vars b) =
      [prepare_phase, stored_verify, cleanup_phase, stored_review, stored_gate, final_phase]"
    "wr_inputs (stored_reg vars b) = []" "wr_vars (stored_reg vars b) = vars"
    by (simp_all add: stored_reg_def register_of_def stored_phases_def)
  have c: "check_prefix (check_phase w (stored_reg vars b)) [] (wr_phases (stored_reg vars b)) = None"
    using stored_check_phase [OF stored_shape(1)] by (simp add: p)
  have f: "validate_refs (map registered_ref_spec (wr_phases (stored_reg vars b))) = None"
    by (simp add: p stored_phase_defs registered_ref_spec_def validate_refs_def)
  have r: "check_parts (wr_phases (stored_reg vars b)) = None"
    "validate_input_refs (wr_phases (stored_reg vars b)) (declared_inputs []) = None"
    "validate_git_ref (wr_phases (stored_reg vars b)) [] = None"
    by (simp_all add: p part_defs stored_phase_defs validate_input_refs_def
        check_ref_def check_job_refs_def validate_git_ref_def owned_job_def del: check_all.simps)
  have k: "check_all (\<lambda>p. reject (\<not> valid_workflow_kind (ps_kind p)) (BadKind (workflow_phase_kind (ps_kind p))))
      (wr_phases (stored_reg vars b)) = None"
    by (simp add: p stored_phase_defs del: check_all.simps)
  show ?thesis
    using c r f k v
    by (simp add: validate_workflow_register_def Let_def validate_dispatch_inputs_def validate_constraints_def
        stored_shape p del: check_all.simps)
qed

lemma stored_workflow_doc: "validate_vars vars = None \<Longrightarrow> b \<noteq> 0 \<Longrightarrow> workflow_doc scripts (stored_reg vars b) = stored_doc vars b"
  using workflow_doc_accepted [where wide = "\<lambda>_. False", OF stored_phases_normal stored_registered]
  by (simp add: stored_shape) (simp add: stored_doc_def stored_reg_def register_of_def default_budget_total_def)

abbreviation no_hash :: "string \<times> workflow_register \<Rightarrow> string" where
  "no_hash \<equiv> \<lambda>_. ''0''"

definition stored_write :: "(string \<times> string) list \<Rightarrow> rat \<Rightarrow> control_change list \<Rightarrow> doc_write" where
  "stored_write vars b changes =
     \<lparr>dw_doc = stored_doc vars b, dw_ref = ''wfs_0'', dw_changes = changes, dw_enforced = []\<rparr>"

lemma stored_prepare:
  assumes "validate_vars vars = None" "b \<noteq> 0" "\<And>r. row = Some r \<Longrightarrow> row_pins r = []"
  shows "\<exists>cs. prepare_upsert scripts w no_hash True p (stored_reg vars b) row = Inr (stored_write vars b cs)"
proof -
  have "store_normalize scripts (stored_reg vars b) = stored_reg vars b"
    using normalize_stored [of scripts "stored_reg vars b"] using assms(2) by (simp add: stored_normal)
  with assms stored_registered [OF assms(1), of w b] show ?thesis
    by (cases row) (simp_all add: prepare_upsert_def Let_def stored_workflow_doc stored_write_def schema_ref_of_def)
qed

lemma stored_name [simp]: "wr_name (stored_reg vars b) = ''agent''" "wr_name (stored_doc vars b) = ''agent''"
  by (simp_all add: stored_reg_def register_of_def stored_doc_def)

lemma stored_register:
  assumes "validate_vars vars = None" "b \<noteq> 0" "\<And>r. db_rows db (p, ''agent'') = Some r \<Longrightarrow> row_pins r = []"
  shows "\<exists>cs. register_workflow scripts w no_hash True p actor (stored_reg vars b) db =
     Inr (pg_upsert p ''register'' actor (stored_write vars b cs) db)"
  using stored_prepare [OF assms(1,2), of "db_rows db (p, ''agent'')" w p] assms(2,3) stored_registered [OF assms(1), of w b]
  by (auto simp: register_workflow_def accept_registration_def upsert_workflow_def Let_def stored_normal)

lemma no_vars [simp]: "validate_vars [] = None"
  by (simp add: validate_vars_def)

lemma one_var [simp]: "validate_vars [(''kind'', v)] = None"
proof -
  have "trim_space ''kind'' = ''kind''" "run_input_name ''kind''" by code_simp+
  then show ?thesis by (simp add: validate_vars_def Let_def del: check_all.simps)
qed

text \<open>Two registrations that differ in a variable.\<close>

lemma vars_update_never_reaches_runs_witness:
  "\<exists>db1 db2 r doc.
     register_workflow scripts (\<lambda>_. False) no_hash True ''p'' ''me'' (stored_reg [(''kind'', ''a'')] 25) empty_db = Inr db1 \<and>
     register_workflow scripts (\<lambda>_. False) no_hash True ''p'' ''you'' (stored_reg [(''kind'', ''b'')] 25) db1 = Inr db2 \<and>
     db_rows db2 (''p'', ''agent'') = Some r \<and> wr_vars (row_doc r) = [(''kind'', ''b'')] \<and>
     db_schemas db2 (''p'', row_ref r) = Some doc \<and>
     wf_vars (workflow_of_doc (row_ref r) doc) = map_of [(''kind'', ''a'')]"
proof -
  let ?a = "stored_reg [(''kind'', ''a'')] 25" and ?w = "\<lambda>_::string. False"
  have b: "?a\<lparr>wr_vars := [(''kind'', ''b'')]\<rparr> = stored_reg [(''kind'', ''b'')] 25" by (simp add: stored_reg_def)
  have av: "wr_vars ?a = [(''kind'', ''a'')]" by (simp add: stored_reg_def)
  obtain cs where 1: "register_workflow scripts ?w no_hash True ''p'' ''me'' ?a empty_db =
      Inr (pg_upsert ''p'' ''register'' ''me'' (stored_write [(''kind'', ''a'')] 25 cs) empty_db)" (is "_ = Inr ?db1")
    using stored_register [of "[(''kind'', ''a'')]" 25 empty_db "''p''" ?w "''me''"] by (auto simp: empty_db_def)
  have "row_pins r = []" if "db_rows ?db1 (''p'', ''agent'') = Some r" for r
    using that by (auto simp: pg_upsert_def Let_def stored_write_def empty_db_def)
  then obtain db2 where 2: "register_workflow scripts ?w no_hash True ''p'' ''you'' (stored_reg [(''kind'', ''b'')] 25) ?db1 = Inr db2"
    using stored_register [of "[(''kind'', ''b'')]" 25 ?db1 "''p''" ?w "''you''"] by auto
  from vars_update_never_reaches_runs [OF 1 2 [folded b]] 1 2 av show ?thesis by (auto simp: empty_db_def)
qed

text \<open>Pins.\<close>

definition stored_row :: workflow_row where
  "stored_row = \<lparr>row_doc = stored_doc [] 25, row_ref = ''wfs_0'', row_pins = []\<rparr>"

definition stored_db :: workflow_db where
  "stored_db = \<lparr>db_rows = [(''p'', ''agent'') \<mapsto> stored_row], db_schemas = Map.empty, db_events = []\<rparr>"

lemma budget_target [simp]: "control_value_at reg ''budget'' = Inr (BudgetValue (wr_budget reg))"
  by (simp add: control_value_at_def parse_control_pin_target_def)

lemma stored_budget [simp]: "wr_budget (register_of_doc (stored_doc vars b)) = default_budget_total \<lparr>total = Fin b\<rparr>"
  by (simp add: stored_doc_def stored_reg_def register_of_doc_def)

lemma phase_of_doc_fields [simp]: "ps_name (phase_of_doc p) = ps_name p"
  "ps_recycle (phase_of_doc p) = map_option policy_of_doc (ps_recycle p)"
  by (simp_all add: phase_of_doc_def)

lemma stored_policies: "p \<in> set stored_phases \<Longrightarrow> map_option policy_of_doc (ps_recycle p) = ps_recycle p"
  by (auto simp: stored_phases_def stored_phase_defs example_phase_def policy_of_doc_same)

lemma stored_phases_read: "map phase_of_doc stored_phases = stored_phases"
proof (rule map_fixed)
  fix p assume p: "p \<in> set stored_phases"
  then have "phase_normal scripts p" using stored_phases_normal [of "[]" 1] by (simp add: phases_normal_def stored_reg_def)
  with stored_policies [OF p] show "phase_of_doc p = p" by (simp add: phase_of_doc_normal)
qed

lemma stored_verify_lane: "\<exists>rp. control_value_at (register_of_doc (stored_doc vars b)) ''phases.verify.recycle_policy'' =
    Inr (PolicyValue (Some rp))"
proof -
  have p: "parse_control_pin_target ''phases.verify.recycle_policy'' = Inr ''verify''"
    using parse_phase_target [of "''verify''"] by simp
  have "phase_named (register_of_doc (stored_doc vars b)) ''verify'' = Some (phase_of_doc stored_verify)"
    by (simp add: register_of_doc_def stored_doc_def stored_reg_def register_of_def phase_named_def find_map_same
        stored_phases_def stored_phase_defs)
  then show ?thesis
    by (auto simp: control_value_at_def p stored_verify_def)
qed

lemma concurrent_pins_lost_witness:
  "\<exists>w1 w2 db1 db2 r2. prepare_pin ''budget'' ''a'' [] ''now'' (Some stored_row) = Inr w1 \<and>
     prepare_pin ''phases.verify.recycle_policy'' ''b'' [] ''now'' (Some stored_row) = Inr w2 \<and>
     pg_update_pins (''p'', ''agent'') ''a'' w1 stored_db = Inr db1 \<and>
     pg_update_pins (''p'', ''agent'') ''b'' w2 db1 = Inr db2 \<and>
     db_rows db2 (''p'', ''agent'') = Some r2 \<and> map_of (row_pins r2) ''budget'' = None"
proof -
  have row: "db_rows stored_db (''p'', ''agent'') = Some stored_row" by (simp add: stored_db_def)
  obtain w1 where 1: "prepare_pin ''budget'' ''a'' [] ''now'' (Some stored_row) = Inr w1"
    by (simp add: prepare_pin_def stored_row_def)
  obtain w2 where 2: "prepare_pin ''phases.verify.recycle_policy'' ''b'' [] ''now'' (Some stored_row) = Inr w2"
    using stored_verify_lane [of "[]" 25] by (auto simp: prepare_pin_def stored_row_def)
  have "map_of (row_pins stored_row) ''budget'' = None" by (simp add: stored_row_def)
  from concurrent_pins_lost [OF row this, of "''phases.verify.recycle_policy''" "''a''" "[]" "''now''" w1 "''b''" "[]" "''now''" w2]
    1 2 row show ?thesis by auto
qed

lemma registration_moves_pinned_control_witness:
  "\<exists>w pw db1 r2 pin. prepare_upsert scripts (\<lambda>_. False) no_hash True ''p'' (stored_reg [] 40) (Some stored_row) = Inr w \<and>
     prepare_pin ''budget'' ''a'' [] ''now'' (Some stored_row) = Inr pw \<and>
     pg_update_pins (''p'', ''agent'') ''a'' pw stored_db = Inr db1 \<and>
     db_rows (pg_upsert ''p'' ''register'' ''b'' w db1) (''p'', ''agent'') = Some r2 \<and>
     map_of (row_pins r2) ''budget'' = Some pin \<and> pin_value pin = BudgetValue \<lparr>total = Fin 25\<rparr> \<and>
     control_value_at (register_of_doc (row_doc r2)) ''budget'' = Inr (BudgetValue \<lparr>total = Fin 40\<rparr>)"
proof -
  obtain cs where w: "prepare_upsert scripts (\<lambda>_. False) no_hash True ''p'' (stored_reg [] 40) (Some stored_row) =
      Inr (stored_write [] 40 cs)" (is "_ = Inr ?w")
    using stored_prepare [of "[]" 40 "Some stored_row" "\<lambda>_. False" "''p''"] by (auto simp: stored_row_def)
  have name: "wr_name (dw_doc ?w) = ''agent''" by (simp add: stored_write_def)
  obtain pw where pw: "prepare_pin ''budget'' ''a'' [] ''now'' (Some stored_row) = Inr pw"
    by (simp add: prepare_pin_def stored_row_def)
  have row: "db_rows stored_db (''p'', wr_name (dw_doc ?w)) = Some stored_row" by (simp add: stored_db_def name)
  obtain db1 where db1: "pg_update_pins (''p'', wr_name (dw_doc ?w)) ''a'' pw stored_db = Inr db1"
    by (simp add: pg_update_pins_def stored_db_def name)
  from registration_moves_pinned_control [OF row pw db1 w, where action = "''register''" and writer = "''b''"] db1 w name pw
  show ?thesis by (auto simp: stored_row_def stored_write_def default_budget_total_def)
qed

lemma stored_schemas_registered_witness:
  "\<exists>s doc. (registry_step scripts (\<lambda>_. False) no_hash)\<^sup>*\<^sup>* empty_registry s \<and>
     db_schemas (rg_db s) (''p'', ''wfs_0'') = Some doc \<and> registered (\<lambda>_. False) doc \<and>
     registered (\<lambda>_. False) (register_of_doc doc) \<and> wf_phases (workflow_of_doc ''wfs_0'' doc) = stored_phases"
proof -
  let ?step = "registry_step scripts (\<lambda>_. False) no_hash" and ?reg = "stored_reg [] 25"
  let ?s1 = "add_pending (AskUpsert ''p'' ?reg ''register'' ''me'') empty_registry"
  have "accept_registration scripts (\<lambda>_. False) True ''p'' ?reg = Inr ?reg"
    using stored_registered [of "[]" "\<lambda>_. False" 25] by (simp add: accept_registration_def Let_def stored_normal)
  from ask_register [OF this] have 1: "?step empty_registry ?s1" .
  obtain cs where w: "prepare_upsert scripts (\<lambda>_. False) no_hash True ''p'' ?reg
      (db_rows (rg_db ?s1) (''p'', wr_name ?reg)) = Inr (stored_write [] 25 cs)"
    using stored_prepare [of "[]" 25 None "\<lambda>_. False" "''p''"] by (auto simp: add_pending_def empty_registry_def)
  let ?s2 = "add_pending (DoUpsert ''p'' (stored_write [] 25 cs) ''register'' ''me'') (take_pending 0 ?s1)"
  have 2: "?step ?s1 ?s2"
    by (rule read_row [OF _ _ w]) (simp_all add: add_pending_def empty_registry_def)
  let ?s3 = "(take_pending 0 ?s2)\<lparr>rg_db := pg_upsert ''p'' ''register'' ''me'' (stored_write [] 25 cs) (rg_db ?s2)\<rparr>"
  have 3: "?step ?s2 ?s3"
    by (rule write_row) (simp_all add: take_pending_def add_pending_def empty_registry_def)
  from 1 2 3 have reach: "?step\<^sup>*\<^sup>* empty_registry ?s3" by (meson converse_rtranclp_into_rtranclp rtranclp.rtrancl_refl)
  have doc: "db_schemas (rg_db ?s3) (''p'', ''wfs_0'') = Some (stored_doc [] 25)"
    by (simp add: pg_upsert_def put_schema_def Let_def stored_write_def empty_registry_def)
  have "wr_phases (register_of_doc (stored_doc [] 25)) = stored_phases"
    by (simp add: register_of_doc_def stored_doc_def stored_reg_def stored_phases_read)
  with stored_schemas_registered [OF reach doc] reach doc show ?thesis by auto
qed

lemma pins_hold_stored: "pins_hold stored_db"
  by (simp add: pins_hold_def stored_db_def stored_row_def pins_of_def)

text \<open>A registration that asks for another budget than the pinned one.\<close>

definition pinned_ops :: "(string \<times> admin_op) list" where
  "pinned_ops =
     [(''a'', AdminRegister ''p'' (stored_reg [] 25)),
      (''a'', AdminPin (''p'', ''agent'') ''budget'' [] ''now''),
      (''b'', AdminRegister ''p'' (stored_reg [] 40))]"

lemma stored_reg_budget: "(stored_reg vars b)\<lparr>wr_budget := \<lparr>total = Fin c\<rparr>\<rparr> = stored_reg vars c"
  by (simp add: stored_reg_def)

lemma pinned_controls_hold_witness:
  "\<exists>db r pin. run_admins scripts (\<lambda>_. False) no_hash True pinned_ops empty_db = Inr db \<and>
     db_rows db (''p'', ''agent'') = Some r \<and> (''budget'', pin) \<in> set (row_pins r) \<and>
     control_value_at (register_of_doc (row_doc r)) ''budget'' = Inr (BudgetValue \<lparr>total = Fin 25\<rparr>)"
proof -
  let ?w = "\<lambda>_::string. False" and ?key = "(''p'', ''agent'')"
  obtain cs where 1: "register_workflow scripts ?w no_hash True ''p'' ''a'' (stored_reg [] 25) empty_db =
      Inr (pg_upsert ''p'' ''register'' ''a'' (stored_write [] 25 cs) empty_db)" (is "_ = Inr ?db1")
    using stored_register [of "[]" 25 empty_db "''p''" ?w "''a''"] by (auto simp: empty_db_def)
  have row1: "db_rows ?db1 ?key = Some stored_row"
    by (simp add: pg_upsert_def Let_def stored_write_def empty_db_def stored_row_def)
  let ?pin = "\<lparr>pin_value = BudgetValue \<lparr>total = Fin 25\<rparr>, pin_by = ''a'', pin_at = ''now'', pin_reason = []\<rparr>"
  let ?row2 = "stored_row\<lparr>row_pins := [(''budget'', ?pin)]\<rparr>"
  have b: "parse_control_pin_target ''budget'' = Inr []" by (simp add: parse_control_pin_target_def)
  obtain db2 where 2: "pin_workflow_control ?key ''budget'' ''a'' [] ''now'' ?db1 = Inr db2"
    and row2: "db_rows db2 ?key = Some ?row2"
    using row1 by (simp add: pin_workflow_control_def b prepare_pin_def pg_update_pins_def stored_row_def
        default_budget_total_def)
  have n: "store_normalize scripts (stored_reg [] 40) = stored_reg [] 40"
    using normalize_stored [of scripts "stored_reg [] 40"] by (simp add: stored_normal)
  have e: "\<exists>x. enforce_control_pins (stored_reg [] 40) [(''budget'', ?pin)] = Inr (stored_reg [] 25, x)"
    by (simp add: enforce_control_pins_def Let_def enforce_pin_def b budget_of_value_def stored_reg_budget)
  obtain db3 where 3: "register_workflow scripts ?w no_hash True ''p'' ''b'' (stored_reg [] 40) db2 = Inr db3"
    and row3: "\<exists>r. db_rows db3 ?key = Some r \<and> row_pins r = [(''budget'', ?pin)]"
    using e row2 stored_registered [of "[]" ?w 40] stored_registered [of "[]" ?w 25]
    by (auto simp: register_workflow_def accept_registration_def upsert_workflow_def prepare_upsert_def Let_def
        stored_normal n stored_workflow_doc pg_upsert_def)
  have run: "run_admins scripts ?w no_hash True pinned_ops empty_db = Inr db3"
    using 1 2 3 by (simp add: pinned_ops_def)
  from row3 obtain r where r: "db_rows db3 ?key = Some r" "(''budget'', ?pin) \<in> set (row_pins r)" by auto
  from pinned_controls_hold [OF run r] run r show ?thesis by auto
qed

text \<open>A patch of the lane of rejected pull requests.\<close>

definition pr_lane :: "int \<Rightarrow> recycle_policy" where
  "pr_lane n = \<lparr>rc_max_attempts = n, rc_on = [''reject''], rc_lands_at = ''self''\<rparr>"

definition lane_reg :: "int \<Rightarrow> workflow_register" where
  "lane_reg n = (stored_doc [] 25)\<lparr>wr_pr := Some (pr_lane n)\<rparr>"

definition lane_db :: workflow_db where
  "lane_db = stored_db\<lparr>db_rows := [(''p'', ''agent'') \<mapsto> stored_row\<lparr>row_doc := lane_reg 3\<rparr>]\<rparr>"

definition lane_patch :: workflow_patch where
  "lane_patch = \<lparr>wp_budget = None, wp_recycle = [\<lparr>rm_target = ''pr'', rm_max_attempts = 5\<rparr>]\<rparr>"

lemma stored_phases_all: "\<forall>p \<in> set stored_phases. phase_normal scripts p"
  using stored_phases_normal [of "[]" 1] by (simp add: phases_normal_def stored_reg_def)

lemma lane_fields [simp]:
  "wr_phases (lane_reg n) = stored_phases" "wr_pr (lane_reg n) = Some (pr_lane n)" "wr_name (lane_reg n) = ''agent''"
  "wr_budget (lane_reg n) = \<lparr>total = Fin 25\<rparr>" "wr_inputs (lane_reg n) = []"
  by (simp_all add: lane_reg_def stored_doc_def stored_reg_def register_of_def)

lemma lane_read: "n \<noteq> 0 \<Longrightarrow> register_of_doc (lane_reg n) = lane_reg n"
  by (simp add: register_of_doc_def default_budget_total_def stored_phases_read policy_of_doc_same pr_lane_def lane_reg_def
      stored_doc_def stored_reg_def register_of_def)

lemma lane_normal: "store_normalize scripts (lane_reg n) = lane_reg n"
proof -
  have "map (normalize_phase scripts) stored_phases = stored_phases"
    by (rule map_fixed) (use stored_phases_all in \<open>auto intro: normalize_phase_normal\<close>)
  then show ?thesis
    by (simp add: store_normalize_def lane_reg_def stored_doc_def stored_reg_def register_of_def)
qed

lemma single_job_literal [simp]: "trim_space ''single_job'' = ''single_job''"
  by code_simp

lemma lane_registered: "registered w (lane_reg n)"
proof -
  have "canonical_shape (lane_reg n) = ''single_job''"
    by (simp add: canonical_shape_def lane_reg_def stored_doc_def Let_def)
  moreover have "canonical_max_cases (lane_reg n) = 0"
    by (simp add: canonical_max_cases_def \<open>canonical_shape (lane_reg n) = ''single_job''\<close>)
      (simp add: lane_reg_def stored_doc_def stored_reg_def register_of_def)
  ultimately have "validate_workflow_register w (lane_reg n) = validate_workflow_register w (stored_reg [] 25)"
    by (intro validate_cong) (simp_all add: stored_shape lane_reg_def stored_doc_def)
  with stored_registered [of "[]" w 25] show ?thesis by simp
qed

lemma pr_literal [simp]: "trim_space ''pr'' = ''pr''"
  by code_simp

lemma patch_scales_lane_witness:
  "\<exists>db' r' rp. patch_workflow scripts (\<lambda>_. False) no_hash True ''p'' ''agent'' ''me'' lane_patch lane_db = Inr db' \<and>
     db_rows db' (''p'', ''agent'') = Some r' \<and>
     value_at (register_of_doc (row_doc r')) PrPlace = Some (PolicyValue (Some (set_attempts 5 rp))) \<and>
     value_at (register_of_doc (lane_reg 3)) PrPlace = Some (PolicyValue (Some rp))"
proof -
  let ?e = "\<lparr>rm_target = ''pr'', rm_max_attempts = 5\<rparr>"
  have hold: "pins_hold lane_db" by (simp add: pins_hold_def lane_db_def stored_row_def pins_of_def)
  have row: "db_rows lane_db (''p'', ''agent'') = Some (stored_row\<lparr>row_doc := lane_reg 3\<rparr>)" by (simp add: lane_db_def)
  have lane: "(lane_reg 3)\<lparr>wr_pr := Some (set_attempts 5 (pr_lane 3))\<rparr> = lane_reg 5"
    by (simp add: lane_reg_def set_attempts_def pr_lane_def)
  have c: "first_error [None, check_all (patch_pinned []) [?e]] = None"
    by (simp add: patch_pinned_def Let_def del: check_all.simps)
  have "prepare_patch lane_patch (Some (stored_row\<lparr>row_doc := lane_reg 3\<rparr>)) = Inr (lane_reg 5)"
    by (simp add: c lane prepare_patch_def lane_patch_def lane_read stored_row_def Let_def
        apply_patch_def del: check_all.simps)
  then have "\<exists>db'. patch_workflow scripts (\<lambda>_. False) no_hash True ''p'' ''agent'' ''me'' lane_patch lane_db = Inr db'"
    using lane_registered [of "\<lambda>_. False" 5]
    by (auto simp: patch_workflow_def row upsert_workflow_def prepare_upsert_def Let_def lane_normal stored_row_def)
  then obtain db' where p: "patch_workflow scripts (\<lambda>_. False) no_hash True ''p'' ''agent'' ''me'' lane_patch lane_db = Inr db'"
    by blast
  have "?e \<in> set (wp_recycle lane_patch)" by (simp add: lane_patch_def)
  from patch_scales_lane [OF hold row _ p this] p show ?thesis
    by (auto simp: patch_place_def)
qed

end
