(* ===== verification/Slots.thy ===== *)
theory Slots
  imports GoText
begin

text \<open>
  The test slot and its state machine (\<open>internal/server/slot.go\<close>): the durable slot record,
  the transition table and the nine \<open>Mark\<close> operations. An instant is the \<^typ>\<open>int\<close>
  of its nanoseconds; a nil pointer is \<open>None\<close>. A state text that is none of the seven names
  is an \<open>UnknownState\<close>. The etag is the \<open>updated_at\<close> instant of the row that was
  read, \<open>None\<close> for a slot that was not read with one.
\<close>

type_synonym instant = int

datatype slot_state =
    Unseeded | Provisioning | Provisioned | Activating | Running | Cleaning | Errored
  | UnknownState string

definition slot_states :: "slot_state list" where
  "slot_states = [Unseeded, Provisioning, Provisioned, Activating, Running, Cleaning, Errored]"

record slot =
  sl_project :: string
  sl_index :: int
  sl_name :: string
  sl_state :: slot_state
  sl_detail :: "string option"
  sl_updated :: instant
  sl_provisioned_at :: "instant option"
  sl_lease :: "string option"
  sl_attempt :: "int option"
  sl_act_started :: "instant option"
  sl_act_completed :: "instant option"
  sl_job :: "string option"
  sl_act_error :: "string option"
  sl_cl_started :: "instant option"
  sl_cl_completed :: "instant option"
  sl_cl_error :: "string option"
  sl_etag :: "instant option"

datatype slot_error =
    FromUnknownState string slot_state
  | BadTransition slot_state slot_state
  | NotReservable slot_state
  | AlreadyReserved
  | NotReleasable slot_state
  | ReservedByAnother

section \<open>The transition table\<close>

fun slot_successors :: "slot_state \<Rightarrow> slot_state list option" where
  "slot_successors Unseeded = Some [Provisioning]"
| "slot_successors Provisioning = Some [Provisioned, Errored]"
| "slot_successors Provisioned = Some [Activating, Provisioning]"
| "slot_successors Activating = Some [Running, Cleaning, Errored]"
| "slot_successors Running = Some [Cleaning, Errored]"
| "slot_successors Cleaning = Some [Provisioned, Errored]"
| "slot_successors Errored = Some [Cleaning, Provisioning]"
| "slot_successors (UnknownState s) = None"

definition can_transition_to :: "slot \<Rightarrow> slot_state \<Rightarrow> (slot_error, unit) res" where
  "can_transition_to s next =
     (if sl_state s = next then Inr ()
      else (case slot_successors (sl_state s) of
              None \<Rightarrow> Inl (case sl_state s of UnknownState t \<Rightarrow> FromUnknownState t next
                                          | st \<Rightarrow> BadTransition st next)
            | Some ok \<Rightarrow> if next \<in> set ok then Inr () else Inl (BadTransition (sl_state s) next)))"

definition new_unseeded_slot :: "string \<Rightarrow> int \<Rightarrow> string \<Rightarrow> instant \<Rightarrow> slot" where
  "new_unseeded_slot project idx name now =
     \<lparr>sl_project = project, sl_index = idx, sl_name = name, sl_state = Unseeded,
      sl_detail = None, sl_updated = now, sl_provisioned_at = None, sl_lease = None,
      sl_attempt = None, sl_act_started = None, sl_act_completed = None, sl_job = None,
      sl_act_error = None, sl_cl_started = None, sl_cl_completed = None, sl_cl_error = None,
      sl_etag = None\<rparr>"

definition clear_activation :: "slot \<Rightarrow> slot" where
  "clear_activation s =
     s\<lparr>sl_lease := None, sl_attempt := None, sl_act_started := None, sl_act_completed := None,
       sl_job := None, sl_act_error := None\<rparr>"

definition mark_provisioning :: "instant \<Rightarrow> slot \<Rightarrow> (slot_error, slot) res" where
  "mark_provisioning now s =
     res_bind (can_transition_to s Provisioning) (\<lambda>_.
       Inr (s\<lparr>sl_state := Provisioning, sl_updated := now, sl_detail := None,
              sl_provisioned_at := None\<rparr>))"

definition mark_provisioned :: "instant \<Rightarrow> slot \<Rightarrow> (slot_error, slot) res" where
  "mark_provisioned now s =
     res_bind (can_transition_to s Provisioned) (\<lambda>_.
       Inr (clear_activation
              (s\<lparr>sl_state := Provisioned, sl_updated := now, sl_provisioned_at := Some now,
                 sl_detail := None\<rparr>)))"

text \<open>The guard shared by the two reservation operations: held by no other lease.\<close>

definition held_by_other :: "slot \<Rightarrow> string \<Rightarrow> bool" where
  "held_by_other s ref =
     (case sl_lease s of None \<Rightarrow> False | Some r \<Rightarrow> r \<noteq> [] \<and> r \<noteq> ref)"

definition mark_reserved :: "instant \<Rightarrow> string \<Rightarrow> slot \<Rightarrow> (slot_error, slot) res" where
  "mark_reserved now ref s =
     res_bind (can_transition_to s Provisioned) (\<lambda>_.
       if sl_state s \<noteq> Provisioned then Inl (NotReservable (sl_state s))
       else if held_by_other s ref then Inl AlreadyReserved
       else Inr (s\<lparr>sl_lease := Some ref, sl_updated := now, sl_detail := None\<rparr>))"

definition mark_reservation_released :: "instant \<Rightarrow> string \<Rightarrow> slot \<Rightarrow> (slot_error, slot) res" where
  "mark_reservation_released now ref s =
     res_bind (can_transition_to s Provisioned) (\<lambda>_.
       if sl_state s \<noteq> Provisioned then Inl (NotReleasable (sl_state s))
       else if held_by_other s ref then Inl ReservedByAnother
       else Inr (s\<lparr>sl_lease := None, sl_updated := now\<rparr>))"

definition mark_activating ::
  "instant \<Rightarrow> string \<Rightarrow> int \<Rightarrow> string \<Rightarrow> slot \<Rightarrow> (slot_error, slot) res" where
  "mark_activating now ref attempt job s =
     res_bind (can_transition_to s Activating) (\<lambda>_.
       Inr (s\<lparr>sl_state := Activating, sl_updated := now, sl_lease := Some ref,
              sl_attempt := Some attempt, sl_act_started := Some now,
              sl_act_completed := None, sl_job := Some job, sl_act_error := None\<rparr>))"

definition mark_running :: "instant \<Rightarrow> slot \<Rightarrow> (slot_error, slot) res" where
  "mark_running now s =
     res_bind (can_transition_to s Running) (\<lambda>_.
       Inr (s\<lparr>sl_state := Running, sl_updated := now, sl_act_completed := Some now,
              sl_act_error := None\<rparr>))"

definition mark_cleaning :: "instant \<Rightarrow> slot \<Rightarrow> (slot_error, slot) res" where
  "mark_cleaning now s =
     res_bind (can_transition_to s Cleaning) (\<lambda>_.
       Inr (s\<lparr>sl_state := Cleaning, sl_updated := now, sl_cl_started := Some now,
              sl_cl_completed := None, sl_cl_error := None\<rparr>))"

definition mark_cleaned :: "instant \<Rightarrow> slot \<Rightarrow> (slot_error, slot) res" where
  "mark_cleaned now s =
     res_bind (can_transition_to s Provisioned) (\<lambda>_.
       Inr (clear_activation
              (s\<lparr>sl_state := Provisioned, sl_updated := now, sl_cl_completed := Some now,
                 sl_cl_error := None\<rparr>)))"

definition mark_error :: "instant \<Rightarrow> string \<Rightarrow> slot \<Rightarrow> (slot_error, slot) res" where
  "mark_error now detail s =
     res_bind (can_transition_to s Errored) (\<lambda>_.
       let s' = s\<lparr>sl_state := Errored, sl_updated := now, sl_detail := Some detail\<rparr> in
       Inr (case sl_state s of
              Activating \<Rightarrow> s'\<lparr>sl_act_error := Some detail\<rparr>
            | Running \<Rightarrow> s'\<lparr>sl_act_error := Some detail\<rparr>
            | Cleaning \<Rightarrow> s'\<lparr>sl_cl_error := Some detail\<rparr>
            | _ \<Rightarrow> s'))"

lemmas slot_op_defs =
  mark_provisioning_def mark_provisioned_def mark_reserved_def mark_reservation_released_def
  mark_activating_def mark_running_def mark_cleaning_def mark_cleaned_def mark_error_def

section \<open>Which slots an operation accepts\<close>

lemma can_transition_iff:
  "can_transition_to s next = Inr () \<longleftrightarrow>
     sl_state s = next \<or> (\<exists>ok. slot_successors (sl_state s) = Some ok \<and> next \<in> set ok)"
  by (simp add: can_transition_to_def split: option.split)

lemma can_transition_Inr:
  "can_transition_to s next = Inr u \<longleftrightarrow>
     sl_state s = next \<or> (\<exists>ok. slot_successors (sl_state s) = Some ok \<and> next \<in> set ok)"
  using can_transition_iff by (cases u) simp

section \<open>The slot contract\<close>

text \<open>What the fields say in each state: the activation fields belong to the current activation.\<close>

definition idle_fields :: "slot \<Rightarrow> bool" where
  "idle_fields s = (sl_attempt s = None \<and> sl_act_started s = None \<and> sl_act_completed s = None \<and>
     sl_job s = None \<and> sl_act_error s = None)"

definition active_fields :: "slot \<Rightarrow> bool" where
  "active_fields s = (sl_lease s \<noteq> None \<and> sl_attempt s \<noteq> None \<and> sl_act_started s \<noteq> None \<and>
     sl_job s \<noteq> None \<and> sl_act_error s = None)"

definition cleanup_open :: "slot \<Rightarrow> bool" where
  "cleanup_open s = (sl_cl_started s \<noteq> None \<and> sl_cl_completed s = None \<and> sl_cl_error s = None)"

definition slot_ok :: "slot \<Rightarrow> bool" where
  "slot_ok s =
     (case sl_state s of
        Unseeded \<Rightarrow> idle_fields s \<and> sl_lease s = None \<and> sl_provisioned_at s = None \<and> sl_detail s = None
      | Provisioning \<Rightarrow> sl_provisioned_at s = None \<and> sl_detail s = None
      | Provisioned \<Rightarrow> idle_fields s
      | Activating \<Rightarrow> active_fields s \<and> sl_act_completed s = None
      | Running \<Rightarrow> active_fields s \<and> sl_act_completed s \<noteq> None
      | Cleaning \<Rightarrow> cleanup_open s
      | Errored \<Rightarrow> sl_detail s \<noteq> None
      | UnknownState _ \<Rightarrow> False)"

lemmas slot_field_defs = idle_fields_def active_fields_def cleanup_open_def clear_activation_def

lemma new_slot_ok [inv_intros]: "slot_ok (new_unseeded_slot p i n now)"
  by (simp add: new_unseeded_slot_def slot_ok_def slot_field_defs)

lemma mark_provisioning_ok [inv_intros]: "mark_provisioning now s = Inr s' \<Longrightarrow> slot_ok s'"
  by (auto simp: mark_provisioning_def slot_ok_def res_bind_Inr_iff)

lemma mark_provisioned_ok [inv_intros]: "mark_provisioned now s = Inr s' \<Longrightarrow> slot_ok s'"
  by (auto simp: mark_provisioned_def slot_ok_def slot_field_defs res_bind_Inr_iff)

lemma mark_reserved_ok [inv_intros]: "mark_reserved now ref s = Inr s' \<Longrightarrow> slot_ok s \<Longrightarrow> slot_ok s'"
  by (auto simp: mark_reserved_def slot_ok_def slot_field_defs res_bind_Inr_iff split: if_splits)

lemma mark_reservation_released_ok [inv_intros]:
  "mark_reservation_released now ref s = Inr s' \<Longrightarrow> slot_ok s \<Longrightarrow> slot_ok s'"
  by (auto simp: mark_reservation_released_def slot_ok_def slot_field_defs res_bind_Inr_iff split: if_splits)

lemma mark_activating_ok [inv_intros]: "mark_activating now ref n job s = Inr s' \<Longrightarrow> slot_ok s'"
  by (auto simp: mark_activating_def slot_ok_def slot_field_defs res_bind_Inr_iff)

lemma to_running: "can_transition_to s Running = Inr u \<Longrightarrow> sl_state s = Running \<or> sl_state s = Activating"
  by (cases "sl_state s") (auto simp: can_transition_Inr)

lemma mark_running_ok [inv_intros]: "mark_running now s = Inr s' \<Longrightarrow> slot_ok s \<Longrightarrow> slot_ok s'"
  by (auto simp: mark_running_def slot_ok_def slot_field_defs res_bind_Inr_iff dest: to_running)

lemma mark_cleaning_ok [inv_intros]: "mark_cleaning now s = Inr s' \<Longrightarrow> slot_ok s'"
  by (auto simp: mark_cleaning_def slot_ok_def slot_field_defs res_bind_Inr_iff)

lemma mark_cleaned_ok [inv_intros]: "mark_cleaned now s = Inr s' \<Longrightarrow> slot_ok s'"
  by (auto simp: mark_cleaned_def slot_ok_def slot_field_defs res_bind_Inr_iff)

lemma mark_error_ok [inv_intros]: "mark_error now detail s = Inr s' \<Longrightarrow> slot_ok s'"
  by (auto simp: mark_error_def slot_ok_def res_bind_Inr_iff Let_def split: slot_state.splits)

end
