(* ===== verification/PublicIds.thy ===== *)
theory PublicIds
  imports GoText
begin

text \<open>
  Public identities: the run-cycle address and the operator-facing references
  (\<open>internal/domain/publicids/publicids.go\<close>), the durable path identities
  (\<open>internal/domain/paths/paths.go\<close>) and the dashboard deep links, parsed and rendered
  (\<open>internal/domain/publicids/dashboard.go\<close>). A Go \<open>int\<close> is an \<^typ>\<open>int\<close>;
  \<open>int64_ok\<close> says that it fits. \<open>url.Parse\<close>, used on full URLs only, is the
  parameter \<open>url_path\<close> that returns the decoded path or an error.
\<close>

section \<open>Run-cycle addresses\<close>

record run_cycle =
  rc_run :: int
  rc_cycle :: int

datatype id_error =
    BadRunCycle string
  | DottedRunSegment string
  | BadRunCycleSegments string string

definition positive_int :: "string \<Rightarrow> int option" where
  "positive_int s =
     (case atoi (trim_space s) of
        None \<Rightarrow> None
      | Some n \<Rightarrow> if n < 1 then None else Some n)"

definition run_cycle_string :: "run_cycle \<Rightarrow> string" where
  "run_cycle_string a = itoa (rc_run a) @ ''.'' @ itoa (rc_cycle a)"

definition parse_run_cycle :: "string \<Rightarrow> (id_error, run_cycle) res" where
  "parse_run_cycle s =
     (case split_on (CHR ''.'') (trim_space s) of
        [p, q] \<Rightarrow>
          (case (positive_int p, positive_int q) of
             (Some r, Some c) \<Rightarrow> Inr \<lparr>rc_run = r, rc_cycle = c\<rparr>
           | _ \<Rightarrow> Inl (BadRunCycle s))
      | _ \<Rightarrow> Inl (BadRunCycle s))"

definition parse_run_cycle_segments :: "string \<Rightarrow> string \<Rightarrow> (id_error, run_cycle) res" where
  "parse_run_cycle_segments run_seg cycle_seg =
     (let r = trim_space run_seg; c = trim_space cycle_seg in
      if CHR ''.'' \<in> set r then Inl (DottedRunSegment r)
      else (case (positive_int r, positive_int c) of
              (Some rn, Some cn) \<Rightarrow> Inr \<lparr>rc_run = rn, rc_cycle = cn\<rparr>
            | _ \<Rightarrow> Inl (BadRunCycleSegments r c)))"

section \<open>References\<close>

definition issue_ref :: "string \<Rightarrow> int option \<Rightarrow> string" where
  "issue_ref project number =
     (case number of None \<Rightarrow> project | Some n \<Rightarrow> project @ ''#'' @ itoa n)"

text \<open>\<open>RunRef\<close> panics on a non-positive issue number: \<open>None\<close>.\<close>

definition run_ref :: "string \<Rightarrow> int \<Rightarrow> string \<Rightarrow> string option" where
  "run_ref project issue_number run_display =
     (if issue_number \<le> 0 then None
      else (let d = trim_space run_display;
                run_part = (if d = [] then ''unknown'' else d)
            in Some (project @ ''#'' @ itoa issue_number @ ''/runs/'' @ run_part)))"

definition review_ref :: "string \<Rightarrow> int option \<Rightarrow> string" where
  "review_ref repo number = (case number of None \<Rightarrow> repo | Some n \<Rightarrow> repo @ ''#'' @ itoa n)"

definition lease_ref :: "string \<Rightarrow> string \<Rightarrow> int option \<Rightarrow> string" where
  "lease_ref project slot_name lease_number =
     (if slot_name \<noteq> [] then slot_name
      else (case lease_number of
              Some n \<Rightarrow> project @ ''/leases/'' @ itoa n
            | None \<Rightarrow> project @ ''/lease''))"

section \<open>Path identities\<close>

definition project_path :: "string \<Rightarrow> string" where
  "project_path p = ''projects/'' @ p"

definition workflow_path :: "string \<Rightarrow> string \<Rightarrow> string" where
  "workflow_path p w = project_path p @ ''/workflows/'' @ w"

definition phase_path :: "string \<Rightarrow> string \<Rightarrow> string \<Rightarrow> string" where
  "phase_path p w ph = workflow_path p w @ ''/phases/'' @ ph"

definition run_path :: "string \<Rightarrow> string \<Rightarrow> string" where
  "run_path p r = project_path p @ ''/runs/'' @ r"

definition attempt_path :: "string \<Rightarrow> string \<Rightarrow> int \<Rightarrow> string" where
  "attempt_path p r i = run_path p r @ ''/attempts/'' @ itoa i"

definition job_path :: "string \<Rightarrow> string \<Rightarrow> int \<Rightarrow> string \<Rightarrow> string" where
  "job_path p r i j = attempt_path p r i @ ''/jobs/'' @ j"

definition step_path :: "string \<Rightarrow> string \<Rightarrow> int \<Rightarrow> string \<Rightarrow> string \<Rightarrow> string" where
  "step_path p r i j s = job_path p r i j @ ''/steps/'' @ s"

section \<open>Dashboard addresses\<close>

datatype entity_kind =
    EntityProject | EntityIssue | EntityRuns | EntityRun | EntityPhase | EntityJob | EntityStep

text \<open>The kinds ordered by the depth of the address they name.\<close>

fun kind_depth :: "entity_kind \<Rightarrow> nat" where
  "kind_depth EntityProject = 0"
| "kind_depth EntityIssue = 1"
| "kind_depth EntityRuns = 2"
| "kind_depth EntityRun = 3"
| "kind_depth EntityPhase = 4"
| "kind_depth EntityJob = 5"
| "kind_depth EntityStep = 6"

lemma kind_depth_inj: "kind_depth a = kind_depth b \<Longrightarrow> a = b"
  by (cases a; cases b) simp_all

instantiation entity_kind :: linorder
begin

definition less_eq_entity_kind :: "entity_kind \<Rightarrow> entity_kind \<Rightarrow> bool" where
  "a \<le> b \<longleftrightarrow> kind_depth a \<le> kind_depth b"

definition less_entity_kind :: "entity_kind \<Rightarrow> entity_kind \<Rightarrow> bool" where
  "a < b \<longleftrightarrow> kind_depth a < kind_depth b"

instance
  by standard (auto simp: less_eq_entity_kind_def less_entity_kind_def intro: kind_depth_inj)

end

lemmas kind_order = less_eq_entity_kind_def less_entity_kind_def

record address =
  ad_kind :: entity_kind
  ad_project :: string
  ad_issue :: int
  ad_run_cycle :: run_cycle
  ad_phase :: string
  ad_job :: string
  ad_step :: string

datatype path_error =
    EmptyInput
  | BadUrl
  | NotAbsolute string
  | UndecodableSegment string
  | NoSegments
  | NotProjects string
  | EmptyProject
  | NotIssues string
  | MissingIssueNumber
  | BadIssueNumber string
  | UnknownIssueView string
  | RunCycleError id_error
  | ExpectedPhases string
  | EmptyPhase
  | ExpectedJobs string
  | EmptyJob
  | ExpectedSteps string
  | EmptyStep
  | TrailingSegments string
  | NoProject
  | NeedsIssueNumber entity_kind
  | NeedsRunCycle entity_kind
  | NeedsPhase entity_kind
  | NeedsJob entity_kind
  | NeedsStep

definition issue_child_views :: "string list" where
  "issue_child_views = [''summary'', ''settings'', ''review'']"

definition zero_cycle :: run_cycle where
  "zero_cycle = \<lparr>rc_run = 0, rc_cycle = 0\<rparr>"

text \<open>\<open>dashboardPathSegments\<close>: the decoded non-empty segments.\<close>

fun decode_parts :: "string list \<Rightarrow> (path_error, string list) res" where
  "decode_parts [] = Inr []"
| "decode_parts (p # ps) =
     (if p = [] then decode_parts ps
      else (case path_unescape p of
              None \<Rightarrow> Inl (UndecodableSegment p)
            | Some d \<Rightarrow> res_bind (decode_parts ps) (\<lambda>ds. Inr (d # ds))))"

definition dashboard_segments ::
  "(string \<Rightarrow> string option) \<Rightarrow> string \<Rightarrow> (path_error, string list) res" where
  "dashboard_segments url_path raw0 =
     (let raw = trim_space raw0 in
      if raw = [] then Inl EmptyInput
      else res_bind
             (if str_contains raw ''://''
              then (case url_path raw of None \<Rightarrow> Inl BadUrl | Some p \<Rightarrow> Inr p)
              else if prefix ''/'' raw
              then Inr (takeWhile (\<lambda>c. c \<notin> set ''?#'') raw)
              else Inl (NotAbsolute raw))
             (\<lambda>p. res_bind (decode_parts (split_on (CHR ''/'') p))
             (\<lambda>out. if out = [] then Inl NoSegments else Inr out)))"

definition run_cycle_tail :: "string list \<Rightarrow> (path_error, run_cycle \<times> nat) res" where
  "run_cycle_tail segs =
     (if 3 \<le> length segs \<and> segs ! 1 = ''cycles''
      then (case parse_run_cycle_segments (segs ! 0) (segs ! 2) of
              Inl e \<Rightarrow> Inl (RunCycleError e)
            | Inr a \<Rightarrow> Inr (a, 3))
      else (case parse_run_cycle (segs ! 0) of
              Inl e \<Rightarrow> Inl (RunCycleError e)
            | Inr a \<Rightarrow> Inr (a, 1)))"

text \<open>
  \<open>ParseDashboardPath\<close>, one definition per level of the address, from the deepest up. Each
  takes the address built so far and the segments left.
\<close>

definition parse_steps :: "address \<Rightarrow> string list \<Rightarrow> (path_error, address) res" where
  "parse_steps addr rest =
     (if rest = [] then Inr addr
      else if hd rest \<noteq> ''steps'' \<or> length rest < 2 then Inl (ExpectedSteps (join_with ''/'' rest))
      else if rest ! 1 = [] then Inl EmptyStep
      else (let addr' = addr\<lparr>ad_kind := EntityStep, ad_step := rest ! 1\<rparr>; tail = drop 2 rest in
            if tail \<noteq> [] then Inl (TrailingSegments (join_with ''/'' tail)) else Inr addr'))"

definition parse_jobs :: "address \<Rightarrow> string list \<Rightarrow> (path_error, address) res" where
  "parse_jobs addr rest =
     (if rest = [] then Inr addr
      else if hd rest \<noteq> ''jobs'' \<or> length rest < 2 then Inl (ExpectedJobs (join_with ''/'' rest))
      else if rest ! 1 = [] then Inl EmptyJob
      else parse_steps (addr\<lparr>ad_kind := EntityJob, ad_job := rest ! 1\<rparr>) (drop 2 rest))"

definition parse_phases :: "address \<Rightarrow> string list \<Rightarrow> (path_error, address) res" where
  "parse_phases addr rest =
     (if rest = [] then Inr addr
      else if hd rest \<noteq> ''phases'' \<or> length rest < 2 then Inl (ExpectedPhases (join_with ''/'' rest))
      else if rest ! 1 = [] then Inl EmptyPhase
      else parse_jobs (addr\<lparr>ad_kind := EntityPhase, ad_phase := rest ! 1\<rparr>) (drop 2 rest))"

definition parse_runs :: "address \<Rightarrow> string list \<Rightarrow> (path_error, address) res" where
  "parse_runs addr rest =
     (if rest = [] then Inr (addr\<lparr>ad_kind := EntityRuns\<rparr>)
      else res_bind (run_cycle_tail rest) (\<lambda>(rc, consumed).
             parse_phases (addr\<lparr>ad_kind := EntityRun, ad_run_cycle := rc\<rparr>) (drop consumed rest)))"

definition parse_issue :: "address \<Rightarrow> string list \<Rightarrow> (path_error, address) res" where
  "parse_issue addr rest =
     (if rest = [] then Inr addr
      else if hd rest \<noteq> ''issues'' then Inl (NotIssues (hd rest))
      else if length rest < 2 then Inl MissingIssueNumber
      else (case positive_int (rest ! 1) of
              None \<Rightarrow> Inl (BadIssueNumber (rest ! 1))
            | Some n \<Rightarrow>
                let addr' = addr\<lparr>ad_kind := EntityIssue, ad_issue := n\<rparr>; rest' = drop 2 rest in
                if rest' = [] then Inr addr'
                else if hd rest' \<noteq> ''runs'' then
                  (if length rest' = 1 \<and> hd rest' \<in> set issue_child_views then Inr addr'
                   else Inl (UnknownIssueView (join_with ''/'' rest')))
                else parse_runs addr' (tl rest')))"

definition parse_dashboard_path ::
  "(string \<Rightarrow> string option) \<Rightarrow> string \<Rightarrow> (path_error, address) res" where
  "parse_dashboard_path url_path raw =
     res_bind (dashboard_segments url_path raw) (\<lambda>segs.
       if length segs < 2 \<or> hd segs \<noteq> ''projects'' then Inl (NotProjects raw)
       else if segs ! 1 = [] then Inl EmptyProject
       else parse_issue
              \<lparr>ad_kind = EntityProject, ad_project = segs ! 1, ad_issue = 0,
               ad_run_cycle = zero_cycle, ad_phase = [], ad_job = [], ad_step = []\<rparr>
              (drop 2 segs))"

text \<open>\<open>DashboardPath\<close>: the buffer grows one level at a time.\<close>

definition dashboard_path :: "address \<Rightarrow> (path_error, string) res" where
  "dashboard_path a =
     (if ad_project a = [] then Inl NoProject
      else let b0 = ''/projects/'' @ path_escape (ad_project a) in
      if ad_kind a = EntityProject then Inr b0
      else if ad_issue a < 1 then Inl (NeedsIssueNumber (ad_kind a))
      else let b1 = b0 @ ''/issues/'' @ itoa (ad_issue a) in
      if ad_kind a = EntityIssue then Inr b1
      else if ad_kind a = EntityRuns then Inr (b1 @ ''/runs'')
      else if rc_run (ad_run_cycle a) < 1 \<or> rc_cycle (ad_run_cycle a) < 1
      then Inl (NeedsRunCycle (ad_kind a))
      else let b2 = b1 @ ''/runs/'' @ itoa (rc_run (ad_run_cycle a)) @
                    ''/cycles/'' @ itoa (rc_cycle (ad_run_cycle a)) in
      if ad_kind a = EntityRun then Inr b2
      else if ad_phase a = [] then Inl (NeedsPhase (ad_kind a))
      else let b3 = b2 @ ''/phases/'' @ path_escape (ad_phase a) in
      if ad_kind a = EntityPhase then Inr b3
      else if ad_job a = [] then Inl (NeedsJob (ad_kind a))
      else let b4 = b3 @ ''/jobs/'' @ path_escape (ad_job a) in
      if ad_kind a = EntityJob then Inr b4
      else if ad_step a = [] then Inl NeedsStep
      else Inr (b4 @ ''/steps/'' @ path_escape (ad_step a)))"

section \<open>Lemmas\<close>

lemma positive_int_itoa: "1 \<le> n \<Longrightarrow> int64_ok n \<Longrightarrow> positive_int (itoa n) = Some n"
  by (simp add: positive_int_def trim_space_digits itoa_nonneg_digits atoi_itoa)

lemma positive_int_Some: "positive_int s = Some n \<Longrightarrow> 1 \<le> n \<and> int64_ok n"
  by (auto simp: positive_int_def atoi_def Let_def split: option.splits if_splits)

lemma itoa_no_char: "0 \<le> n \<Longrightarrow> \<not> is_digit c \<Longrightarrow> c \<notin> set (itoa n)"
  using itoa_nonneg_digits [of n] by (auto simp: list_all_iff)

lemma not_digit_chars [simp]:
  "\<not> is_digit (CHR ''.'')" "\<not> is_digit (CHR ''/'')" "\<not> is_digit (CHR ''%'')"
  by (simp_all add: is_digit_def between_def byte_of_def)

text \<open>A slash after a slash would be an empty segment.\<close>

lemma no_double_slash: "[] \<notin> set (tl (split_on c s)) \<Longrightarrow> \<not> sublist [c, c] s"
proof (induction s)
  case (Cons x s)
  have tl_set: "[] \<notin> set (split_on c s) \<Longrightarrow> [] \<notin> set (tl (split_on c s))"
    by (meson list.set_sel(2) split_on_ne)
  show ?case
  proof (cases "x = c")
    case True
    with Cons.prems have all: "[] \<notin> set (split_on c s)" by simp
    then have "\<not> prefix [c] s" by (cases s) auto
    with all tl_set Cons.IH True show ?thesis by (simp add: sublist_Cons_right)
  next
    case False
    with Cons.prems have "[] \<notin> set (tl (split_on c s))"
      by (auto split: list.splits)
    with Cons.IH False show ?thesis by (simp add: sublist_Cons_right)
  qed
qed simp


lemma itoa_ends:
  "1 \<le> n \<Longrightarrow> hd (itoa n) \<notin> set white_heads \<and> last (itoa n) \<notin> set white_lasts"
proof -
  assume n: "1 \<le> n"
  then have "\<forall>c \<in> set (itoa n). is_digit c"
    using itoa_nonneg_digits [of n] by (simp add: list_all_iff)
  then show ?thesis by (simp add: digit_not_white)
qed

section \<open>The run-cycle address\<close>

text \<open>
  Rendering a run-cycle address with positive parts and parsing the text gives the
  address back; a bare run number, which does not say which cycle it means, is refused.
\<close>
theorem run_cycle_round_trip:
  assumes "1 \<le> rc_run a" "int64_ok (rc_run a)" "1 \<le> rc_cycle a" "int64_ok (rc_cycle a)"
  shows "parse_run_cycle (run_cycle_string a) = Inr a \<and>
         parse_run_cycle (itoa (rc_run a)) = Inl (BadRunCycle (itoa (rc_run a))) \<and>
         parse_run_cycle_segments (itoa (rc_run a)) (itoa (rc_cycle a)) = Inr a \<and>
         parse_run_cycle_segments (run_cycle_string a) (itoa (rc_cycle a)) =
           Inl (DottedRunSegment (run_cycle_string a))"
proof -
  have dots: "CHR ''.'' \<notin> set (itoa (rc_run a))" "CHR ''.'' \<notin> set (itoa (rc_cycle a))"
    using assms by (simp_all add: itoa_no_char)
  have trim: "trim_space (itoa (rc_run a)) = itoa (rc_run a)"
             "trim_space (itoa (rc_cycle a)) = itoa (rc_cycle a)"
    using assms by (simp_all add: trim_space_digits itoa_nonneg_digits)
  have clean: "trim_space (run_cycle_string a) = run_cycle_string a"
    unfolding run_cycle_string_def using assms itoa_ends
    by (intro clean_trim clean_ends_append) simp_all
  show ?thesis
    using assms dots trim clean
    by (simp add: parse_run_cycle_def parse_run_cycle_segments_def run_cycle_string_def
          positive_int_itoa split_on_append split_on_none)
qed

theorem run_cycle_round_trip_witness:
  "parse_run_cycle (run_cycle_string \<lparr>rc_run = 12, rc_cycle = 3\<rparr>) = Inr \<lparr>rc_run = 12, rc_cycle = 3\<rparr>"
  using run_cycle_round_trip [of "\<lparr>rc_run = 12, rc_cycle = 3\<rparr>"] by (simp add: int64_ok_def)

section \<open>The segments of a rendered address\<close>

text \<open>The path that lists the segments, and the segments of an address.\<close>

definition slashed :: "string list \<Rightarrow> string" where
  "slashed segs = concat (map (\<lambda>s. CHR ''/'' # path_escape s) segs)"

definition address_segs :: "address \<Rightarrow> string list" where
  "address_segs a =
     [''projects'', ad_project a] @
     (if EntityIssue \<le> ad_kind a then [''issues'', itoa (ad_issue a)] else []) @
     (if EntityRuns \<le> ad_kind a then [''runs''] else []) @
     (if EntityRun \<le> ad_kind a
      then [itoa (rc_run (ad_run_cycle a)), ''cycles'', itoa (rc_cycle (ad_run_cycle a))] else []) @
     (if EntityPhase \<le> ad_kind a then [''phases'', ad_phase a] else []) @
     (if EntityJob \<le> ad_kind a then [''jobs'', ad_job a] else []) @
     (if EntityStep \<le> ad_kind a then [''steps'', ad_step a] else [])"

text \<open>An address that says exactly what its kind needs, with numbers a Go \<open>int\<close> holds.\<close>

definition proper_number :: "int \<Rightarrow> bool" where
  "proper_number n = (1 \<le> n \<and> int64_ok n)"

definition address_ok :: "address \<Rightarrow> bool" where
  "address_ok a =
     (ad_project a \<noteq> [] \<and>
      (if EntityIssue \<le> ad_kind a then proper_number (ad_issue a) else ad_issue a = 0) \<and>
      (if EntityRun \<le> ad_kind a
       then proper_number (rc_run (ad_run_cycle a)) \<and> proper_number (rc_cycle (ad_run_cycle a))
       else ad_run_cycle a = zero_cycle) \<and>
      (ad_phase a \<noteq> [] \<longleftrightarrow> EntityPhase \<le> ad_kind a) \<and>
      (ad_job a \<noteq> [] \<longleftrightarrow> EntityJob \<le> ad_kind a) \<and>
      (ad_step a \<noteq> [] \<longleftrightarrow> EntityStep \<le> ad_kind a))"


lemma split_slashed: "split_on (CHR ''/'') (slashed segs) = [] # map path_escape segs"
proof (induction segs)
  case (Cons x segs)
  have "CHR ''/'' \<notin> set (path_escape x)"
    using path_escape_chars seg_char_not_special by blast
  with Cons show ?case
    by (cases segs) (auto simp: slashed_def split_on_none split_on_append)
qed (simp add: slashed_def)

lemma decode_parts_escaped:
  "[] \<notin> set segs \<Longrightarrow> decode_parts (map path_escape segs) = Inr segs"
  by (induction segs) auto

lemma slashed_chars: "c \<in> set (slashed segs) \<Longrightarrow> seg_char c \<or> c = CHR ''/''"
  by (auto simp: slashed_def dest: path_escape_chars split: if_splits)

lemma slashed_not_white: "c \<in> set (slashed segs) \<Longrightarrow> c \<notin> set ''?#'' \<union> set white_heads \<union> set white_lasts"
  using slashed_chars seg_char_not_special
  by (fastforce simp: white_heads_def white_lasts_def white_seqs_def)

text \<open>A rendered path decodes to its segments, and is never taken for a full URL.\<close>

lemma segments_slashed:
  assumes "segs \<noteq> []" "[] \<notin> set segs"
  shows "dashboard_segments up (slashed segs) = Inr segs"
proof -
  have ne: "slashed segs \<noteq> []" and slash: "prefix ''/'' (slashed segs)"
    using assms(1) by (cases segs; simp add: slashed_def)+
  have trim: "trim_space (slashed segs) = slashed segs"
    using ne slashed_not_white [of "hd (slashed segs)" segs] slashed_not_white [of "last (slashed segs)" segs]
    by (intro clean_trim) (simp add: clean_ends_def)
  have "path_escape x \<noteq> []" if "x \<in> set segs" for x
    using assms(2) that by auto
  then have "[] \<notin> set (tl (split_on (CHR ''/'') (slashed segs)))"
    by (auto simp: split_slashed) (metis path_escape_ne)
  then have "\<not> sublist ''//'' (slashed segs)" by (rule no_double_slash)
  moreover have "sublist ''//'' ''://''" by (simp add: sublist_Cons_right)
  ultimately have url: "\<not> str_contains (slashed segs) ''://''"
    using sublist_order.order_trans by (auto simp: str_contains_iff)
  have cut: "takeWhile (\<lambda>c. c \<notin> set ''?#'') (slashed segs) = slashed segs"
    using slashed_not_white by (subst takeWhile_eq_all_conv) blast
  show ?thesis
    using assms
    by (simp only: dashboard_segments_def Let_def trim ne slash url cut if_True if_False)
       (simp add: split_slashed decode_parts_escaped)
qed


lemma path_escape_safe: "\<forall>c \<in> set s. seg_safe c \<Longrightarrow> path_escape s = s"
  by (induction s) simp_all

lemma path_escape_itoa: "proper_number n \<Longrightarrow> path_escape (itoa n) = itoa n"
proof (rule path_escape_safe)
  assume "proper_number n"
  then have "list_all is_digit (itoa n)" by (simp add: proper_number_def itoa_nonneg_digits)
  then show "\<forall>c \<in> set (itoa n). seg_safe c"
    by (simp add: list_all_iff seg_safe_def is_alnum_def)
qed

lemma path_escape_words [simp]:
  "path_escape ''projects'' = ''projects''" "path_escape ''issues'' = ''issues''"
  "path_escape ''runs'' = ''runs''" "path_escape ''cycles'' = ''cycles''"
  "path_escape ''phases'' = ''phases''" "path_escape ''jobs'' = ''jobs''"
  "path_escape ''steps'' = ''steps''"
  by (simp_all add: seg_safe_def char_class_defs)

lemma slashed_Cons: "slashed (s # segs) = CHR ''/'' # path_escape s @ slashed segs"
  by (simp add: slashed_def)

lemma slashed_Nil: "slashed [] = []"
  by (simp add: slashed_def)

text \<open>What is rendered is the segment list; what is parsed is the same list read back.\<close>

lemma dashboard_path_slashed: "address_ok a \<Longrightarrow> dashboard_path a = Inr (slashed (address_segs a))"
  by (cases "ad_kind a")
     (simp_all add: dashboard_path_def address_ok_def address_segs_def kind_order Let_def
        slashed_Cons slashed_Nil path_escape_itoa proper_number_def del: path_escape.simps)

lemma address_segs_ne: "address_ok a \<Longrightarrow> [] \<notin> set (address_segs a)"
  by (cases "ad_kind a") (auto simp: address_ok_def address_segs_def kind_order dest: sym)

lemma cycle_tail_proper:
  "proper_number r \<Longrightarrow> proper_number c \<Longrightarrow>
     run_cycle_tail (itoa r # ''cycles'' # itoa c # segs) = Inr (\<lparr>rc_run = r, rc_cycle = c\<rparr>, 3)"
  by (simp add: run_cycle_tail_def proper_number_def parse_run_cycle_segments_def
        positive_int_itoa trim_space_digits itoa_nonneg_digits itoa_no_char)

lemmas parse_levels = parse_issue_def parse_runs_def parse_phases_def parse_jobs_def parse_steps_def

lemma parse_address_segs:
  assumes "address_ok a"
  shows "parse_dashboard_path up (slashed (address_segs a)) = Inr a"
proof -
  have "dashboard_segments up (slashed (address_segs a)) = Inr (address_segs a)"
    using assms address_segs_ne by (intro segments_slashed) (simp_all add: address_segs_def)
  with assms show ?thesis
    by (cases "ad_kind a"; cases a)
       (auto simp: parse_dashboard_path_def address_ok_def address_segs_def kind_order parse_levels
          positive_int_itoa proper_number_def zero_cycle_def cycle_tail_proper)
qed

text \<open>
  Every well-formed dashboard address renders to a path, and that path parses back to the
  same address, whatever \<open>url.Parse\<close> does: the two are inverse at every level.
\<close>
theorem dashboard_round_trip:
  assumes "address_ok a"
  shows "\<exists>p. dashboard_path a = Inr p \<and> parse_dashboard_path up p = Inr a"
  using assms dashboard_path_slashed parse_address_segs by blast

definition sample_address :: address where
  "sample_address = \<lparr>ad_kind = EntityJob, ad_project = ''a/b 1'', ad_issue = 7,
     ad_run_cycle = \<lparr>rc_run = 2, rc_cycle = 1\<rparr>, ad_phase = ''build'', ad_job = ''x?y'', ad_step = []\<rparr>"

theorem dashboard_round_trip_witness:
  "\<exists>p. dashboard_path sample_address = Inr p \<and>
       parse_dashboard_path (\<lambda>_. None) p = Inr sample_address"
  by (rule dashboard_round_trip)
     (simp add: sample_address_def address_ok_def kind_order proper_number_def int64_ok_def)


lemma percent_char: "char_of (37::nat) = CHR ''%''"
  by code_simp

text \<open>
  A project whose name holds a percent sign has a path that addresses it, but the full URL
  made of that very path is refused: \<open>url.Parse\<close> already decodes the path, and the
  segments are decoded a second time.
\<close>
theorem full_url_decoded_twice:
  assumes "url_path ''https://h/projects/100%25'' = Some ''/projects/100%''"
  shows "parse_dashboard_path url_path ''/projects/100%25'' =
           Inr \<lparr>ad_kind = EntityProject, ad_project = ''100%'', ad_issue = 0,
                ad_run_cycle = zero_cycle, ad_phase = [], ad_job = [], ad_step = []\<rparr> \<and>
         parse_dashboard_path url_path ''https://h/projects/100%25'' = Inl (UndecodableSegment ''100%'')"
  using assms by (simp add: percent_char parse_dashboard_path_def dashboard_segments_def str_contains_def
    clean_ends_def white_heads_def white_lasts_def white_seqs_def char_class_defs
    is_hex_def unhex_def parse_issue_def)

theorem full_url_decoded_twice_witness:
  "parse_dashboard_path (\<lambda>s. if s = ''https://h/projects/100%25'' then Some ''/projects/100%'' else None)
     ''https://h/projects/100%25'' = Inl (UndecodableSegment ''100%'')"
  using full_url_decoded_twice
    [of "\<lambda>s. if s = ''https://h/projects/100%25'' then Some ''/projects/100%'' else None"] by simp

end
