(* ===== verification/LeaseDocs.thy ===== *)
theory LeaseDocs
  imports GoValue Slots PublicIds
begin

text \<open>
  The lease as it is stored and as it is read: the payload of a \<open>leases\<close> row
  (\<open>leaseDoc\<close> and \<open>leaseFromDoc\<close>, \<open>internal/store/store/postgres.go\<close>), the
  patch of a payload inside its transaction (\<open>PatchPayload\<close>,
  \<open>internal/store/pg/runs.go\<close>) and the identity a lease gives its slot
  (\<open>leasePublicRef\<close>, \<open>internal/server/state_api.go\<close>; \<open>slotIdentityFromLease\<close>,
  \<open>internal/server/slot_transitions.go\<close>). \<open>time.Parse\<close> at \<open>RFC3339Nano\<close>
  is the parameter \<open>parse_time\<close>, and \<open>Format\<close> the parameter \<open>format_time\<close>.
\<close>

section \<open>The stored lease\<close>

record lease_doc =
  ld_id :: string
  ld_kind :: string
  ld_number :: "int option"
  ld_project :: string
  ld_workflow :: "string option"
  ld_host :: "string option"
  ld_state :: string
  ld_requirements :: vmap
  ld_metadata :: vmap
  ld_requested_at :: string
  ld_assigned_at :: string
  ld_released_at :: string
  ld_ttl :: int
  ld_requested_slot :: "int option"
  ld_fulfilled_at :: string
  ld_fulfilled_ref :: "string option"

definition enc_int_opt :: "int option \<Rightarrow> goval" where
  "enc_int_opt n = (case n of None \<Rightarrow> VNull | Some i \<Rightarrow> VNum (of_int i))"

definition enc_str_opt :: "string option \<Rightarrow> goval" where
  "enc_str_opt s = (case s of None \<Rightarrow> VNull | Some t \<Rightarrow> VStr t)"

text \<open>\<open>json.Marshal\<close> of the document, with the keys of its struct tags.\<close>

definition encode_lease :: "lease_doc \<Rightarrow> vmap" where
  "encode_lease d =
     [(''id'', VStr (ld_id d)), (''kind'', VStr (ld_kind d)),
      (''leaseNumber'', enc_int_opt (ld_number d)), (''project'', VStr (ld_project d)),
      (''workflow'', enc_str_opt (ld_workflow d)), (''host'', enc_str_opt (ld_host d)),
      (''state'', VStr (ld_state d)),
      (''requirements'', VMap (reload_map (ld_requirements d))),
      (''metadata'', VMap (reload_map (ld_metadata d))),
      (''requestedAt'', VStr (ld_requested_at d)), (''assignedAt'', VStr (ld_assigned_at d)),
      (''releasedAt'', VStr (ld_released_at d)), (''ttlSeconds'', VNum (of_int (ld_ttl d))),
      (''requestedSlotIndex'', enc_int_opt (ld_requested_slot d)),
      (''fulfilledAt'', VStr (ld_fulfilled_at d)),
      (''fulfilledLeaseRef'', enc_str_opt (ld_fulfilled_ref d))]"

text \<open>\<open>json.Unmarshal\<close> into a field: null or no key leaves the zero value.\<close>

fun dec_str :: "goval \<Rightarrow> string option" where
  "dec_str (VStr s) = Some s"
| "dec_str VNull = Some []"
| "dec_str _ = None"

fun dec_str_opt :: "goval \<Rightarrow> string option option" where
  "dec_str_opt (VStr s) = Some (Some s)"
| "dec_str_opt VNull = Some None"
| "dec_str_opt _ = None"

fun dec_int_opt :: "goval \<Rightarrow> int option option" where
  "dec_int_opt (VNum q) =
     (if q = of_int \<lfloor>q\<rfloor> \<and> int64_ok \<lfloor>q\<rfloor> then Some (Some \<lfloor>q\<rfloor>) else None)"
| "dec_int_opt VNull = Some None"
| "dec_int_opt _ = None"

definition dec_int :: "goval \<Rightarrow> int option" where
  "dec_int v = map_option (\<lambda>n. case n of None \<Rightarrow> 0 | Some i \<Rightarrow> i) (dec_int_opt v)"

fun dec_map :: "goval \<Rightarrow> vmap option" where
  "dec_map (VMap m) = Some m"
| "dec_map VNull = Some []"
| "dec_map _ = None"

definition lease_strings_ok :: "vmap \<Rightarrow> bool" where
  "lease_strings_ok p =
     list_all (\<lambda>k. dec_str (vget_any p k) \<noteq> None)
       [''id'', ''kind'', ''project'', ''state'', ''requestedAt'', ''assignedAt'', ''releasedAt'',
        ''fulfilledAt'']"

definition lease_values_ok :: "vmap \<Rightarrow> bool" where
  "lease_values_ok p =
     (lease_strings_ok p \<and>
      list_all (\<lambda>k. dec_str_opt (vget_any p k) \<noteq> None) [''workflow'', ''host'', ''fulfilledLeaseRef''] \<and>
      list_all (\<lambda>k. dec_int_opt (vget_any p k) \<noteq> None)
        [''leaseNumber'', ''requestedSlotIndex'', ''ttlSeconds''] \<and>
      list_all (\<lambda>k. dec_map (vget_any p k) \<noteq> None) [''requirements'', ''metadata''])"

definition decode_lease :: "vmap \<Rightarrow> lease_doc option" where
  "decode_lease p =
     (if \<not> lease_values_ok p then None
      else Some
        \<lparr>ld_id = the (dec_str (vget_any p ''id'')), ld_kind = the (dec_str (vget_any p ''kind'')),
         ld_number = the (dec_int_opt (vget_any p ''leaseNumber'')),
         ld_project = the (dec_str (vget_any p ''project'')),
         ld_workflow = the (dec_str_opt (vget_any p ''workflow'')),
         ld_host = the (dec_str_opt (vget_any p ''host'')),
         ld_state = the (dec_str (vget_any p ''state'')),
         ld_requirements = the (dec_map (vget_any p ''requirements'')),
         ld_metadata = the (dec_map (vget_any p ''metadata'')),
         ld_requested_at = the (dec_str (vget_any p ''requestedAt'')),
         ld_assigned_at = the (dec_str (vget_any p ''assignedAt'')),
         ld_released_at = the (dec_str (vget_any p ''releasedAt'')),
         ld_ttl = the (dec_int (vget_any p ''ttlSeconds'')),
         ld_requested_slot = the (dec_int_opt (vget_any p ''requestedSlotIndex'')),
         ld_fulfilled_at = the (dec_str (vget_any p ''fulfilledAt'')),
         ld_fulfilled_ref = the (dec_str_opt (vget_any p ''fulfilledLeaseRef''))\<rparr>)"

section \<open>The lease the server sees\<close>

record lease =
  ls_id :: string
  ls_kind :: string
  ls_number :: "int option"
  ls_project :: string
  ls_workflow :: "string option"
  ls_host :: "string option"
  ls_state :: string
  ls_requirements :: vmap
  ls_metadata :: vmap
  ls_requested_at :: instant
  ls_assigned_at :: "instant option"
  ls_released_at :: "instant option"
  ls_ttl :: int
  ls_requested_slot :: "int option"
  ls_fulfilled_at :: "instant option"
  ls_fulfilled_ref :: "string option"

definition parse_optional_time :: "(string \<Rightarrow> instant option) \<Rightarrow> string \<Rightarrow> instant option" where
  "parse_optional_time parse_time s = (if s = [] then None else parse_time s)"

definition parse_time_or_now :: "(string \<Rightarrow> instant option) \<Rightarrow> instant \<Rightarrow> string \<Rightarrow> instant" where
  "parse_time_or_now parse_time now s =
     (if s = [] then now else (case parse_time s of None \<Rightarrow> now | Some t \<Rightarrow> t))"

definition default_ttl_seconds :: "int \<Rightarrow> int" where
  "default_ttl_seconds ttl = (if ttl = 0 then 900 else ttl)"

definition lease_from_doc :: "(string \<Rightarrow> instant option) \<Rightarrow> instant \<Rightarrow> lease_doc \<Rightarrow> lease" where
  "lease_from_doc parse_time now d =
     \<lparr>ls_id = ld_id d, ls_kind = ld_kind d, ls_number = ld_number d, ls_project = ld_project d,
      ls_workflow = ld_workflow d, ls_host = ld_host d,
      ls_state = first_non_empty (ld_state d) ''claimed'',
      ls_requirements = ld_requirements d, ls_metadata = ld_metadata d,
      ls_requested_at = parse_time_or_now parse_time now (ld_requested_at d),
      ls_assigned_at = parse_optional_time parse_time (ld_assigned_at d),
      ls_released_at = parse_optional_time parse_time (ld_released_at d),
      ls_ttl = default_ttl_seconds (ld_ttl d), ls_requested_slot = ld_requested_slot d,
      ls_fulfilled_at = parse_optional_time parse_time (ld_fulfilled_at d),
      ls_fulfilled_ref = ld_fulfilled_ref d\<rparr>"

definition lease_public_ref :: "lease \<Rightarrow> string" where
  "lease_public_ref l =
     (let slot_name = (case string_from_map (ls_metadata l) ''runner_slot_name'' of
                         None \<Rightarrow> [] | Some s \<Rightarrow> trim_space s)
      in lease_ref (ls_project l) slot_name (ls_number l))"

definition slot_name_from_metadata :: "vmap \<Rightarrow> string option" where
  "slot_name_from_metadata m =
     (case string_from_map m ''runner_slot_name'' of
        None \<Rightarrow> None
      | Some s \<Rightarrow> if trim_space s = [] then None else Some (trim_space s))"

datatype identity_error = NoSlotIndexMetadata | NoLeaseProject

definition slot_identity :: "lease \<Rightarrow> (identity_error, int \<times> string) res" where
  "slot_identity l =
     (case positive_int_from_map (ls_metadata l) ''runner_slot_index'' of
        None \<Rightarrow> Inl NoSlotIndexMetadata
      | Some i \<Rightarrow> if ls_project l = [] then Inl NoLeaseProject else Inr (i, ls_project l))"

section \<open>The row and its patch\<close>

record lease_row =
  lr_id :: string
  lr_project :: string
  lr_token :: string
  lr_payload :: vmap
  lr_expires :: "instant option"

definition second :: int where "second = 10 ^ 9"

text \<open>A \<open>time.Duration\<close> is an \<open>int64\<close> of nanoseconds and its product wraps.\<close>

definition wrap64 :: "int \<Rightarrow> int" where
  "wrap64 n = (n + 2 ^ 63) mod 2 ^ 64 - 2 ^ 63"

definition seconds_after :: "instant \<Rightarrow> int \<Rightarrow> instant" where
  "seconds_after t n = t + wrap64 (n * second)"

definition payload_token :: "vmap \<Rightarrow> string" where
  "payload_token p =
     (case vget_any p ''metadata'' of
        VMap m \<Rightarrow> (case vget m ''lease_callback_token'' of Some (VStr s) \<Rightarrow> s | _ \<Rightarrow> [])
      | _ \<Rightarrow> [])"

definition payload_expires :: "(string \<Rightarrow> instant option) \<Rightarrow> vmap \<Rightarrow> instant option" where
  "payload_expires parse_time p =
     (if string_value (vget_any p ''state'') \<noteq> ''claimed'' then None
      else (case vget_any p ''assigned_at'' of
              VStr assigned \<Rightarrow>
                if assigned = [] then None
                else (case parse_time assigned of
                        None \<Rightarrow> None
                      | Some t \<Rightarrow>
                          (case vget_any p ''ttl_seconds'' of
                             VNum q \<Rightarrow> if 0 < q then Some (seconds_after t (go_trunc q)) else None
                           | _ \<Rightarrow> None))
            | _ \<Rightarrow> None))"

definition patch_row ::
  "(string \<Rightarrow> instant option) \<Rightarrow> (vmap \<Rightarrow> ('e, vmap) res) \<Rightarrow> lease_row \<Rightarrow> ('e, lease_row) res" where
  "patch_row parse_time mutate r =
     res_bind (mutate (lr_payload r)) (\<lambda>p.
       Inr (r\<lparr>lr_payload := reload_map p, lr_token := payload_token p,
              lr_expires := payload_expires parse_time p\<rparr>))"


section \<open>Round trip of the stored lease\<close>

definition lease_ints_ok :: "lease_doc \<Rightarrow> bool" where
  "lease_ints_ok d = (pred_option int64_ok (ld_number d) \<and> int64_ok (ld_ttl d) \<and>
     pred_option int64_ok (ld_requested_slot d))"

text \<open>Reading a payload at one of the struct's keys.\<close>

lemma encode_lease_keys [simp]:
  "vget_any (encode_lease d) ''id'' = VStr (ld_id d)"
  "vget_any (encode_lease d) ''kind'' = VStr (ld_kind d)"
  "vget_any (encode_lease d) ''leaseNumber'' = enc_int_opt (ld_number d)"
  "vget_any (encode_lease d) ''project'' = VStr (ld_project d)"
  "vget_any (encode_lease d) ''workflow'' = enc_str_opt (ld_workflow d)"
  "vget_any (encode_lease d) ''host'' = enc_str_opt (ld_host d)"
  "vget_any (encode_lease d) ''state'' = VStr (ld_state d)"
  "vget_any (encode_lease d) ''requirements'' = VMap (reload_map (ld_requirements d))"
  "vget_any (encode_lease d) ''metadata'' = VMap (reload_map (ld_metadata d))"
  "vget_any (encode_lease d) ''requestedAt'' = VStr (ld_requested_at d)"
  "vget_any (encode_lease d) ''assignedAt'' = VStr (ld_assigned_at d)"
  "vget_any (encode_lease d) ''releasedAt'' = VStr (ld_released_at d)"
  "vget_any (encode_lease d) ''ttlSeconds'' = VNum (of_int (ld_ttl d))"
  "vget_any (encode_lease d) ''requestedSlotIndex'' = enc_int_opt (ld_requested_slot d)"
  "vget_any (encode_lease d) ''fulfilledAt'' = VStr (ld_fulfilled_at d)"
  "vget_any (encode_lease d) ''fulfilledLeaseRef'' = enc_str_opt (ld_fulfilled_ref d)"
  by (simp_all add: encode_lease_def vget_any_def)

lemma encode_lease_absent [simp]:
  "vget_any (encode_lease d) ''assigned_at'' = VNull"
  "vget_any (encode_lease d) ''ttl_seconds'' = VNull"
  by (simp_all add: encode_lease_def vget_any_def)

lemma dec_enc_int_opt [simp]: "pred_option int64_ok n \<Longrightarrow> dec_int_opt (enc_int_opt n) = Some n"
  by (cases n) (simp_all add: enc_int_opt_def)

lemma dec_enc_str_opt [simp]: "dec_str_opt (enc_str_opt s) = Some s"
  by (cases s) (simp_all add: enc_str_opt_def)

lemma dec_enc_int [simp]: "int64_ok n \<Longrightarrow> dec_int (VNum (of_int n)) = Some n"
  by (simp add: dec_int_def)

text \<open>A change of the payload that leaves the struct's keys alone is a change of nothing.\<close>

definition lease_keys :: "string list" where
  "lease_keys = [''id'', ''kind'', ''leaseNumber'', ''project'', ''workflow'', ''host'', ''state'',
     ''requirements'', ''metadata'', ''requestedAt'', ''assignedAt'', ''releasedAt'', ''ttlSeconds'',
     ''requestedSlotIndex'', ''fulfilledAt'', ''fulfilledLeaseRef'']"

lemma decode_lease_cong:
  "(\<And>k. k \<in> set lease_keys \<Longrightarrow> vget_any p k = vget_any q k) \<Longrightarrow> decode_lease p = decode_lease q"
  by (simp add: decode_lease_def lease_values_ok_def lease_strings_ok_def lease_keys_def)

lemma reload_enc [simp]:
  "reload (enc_int_opt n) = enc_int_opt n" "reload (enc_str_opt t) = enc_str_opt t"
  by (simp_all add: enc_int_opt_def enc_str_opt_def split: option.split)

lemma reload_map_idem [simp]: "reload_map (reload_map m) = reload_map m"
  by (simp add: reload_map_def reload_idem case_prod_beta)

lemma reload_VMap [simp]: "reload (VMap m) = VMap (reload_map m)"
  by (simp add: reload_map_def)

lemma reload_encode_lease [simp]: "reload_map (encode_lease d) = encode_lease d"
  unfolding encode_lease_def
  by (simp add: reload_map_def [of "_ # _"] reload_map_def [of "[]"] del: reload.simps(3))

lemma decode_encode_lease:
  "lease_ints_ok d \<Longrightarrow> decode_lease (encode_lease d) =
     Some (d\<lparr>ld_requirements := reload_map (ld_requirements d), ld_metadata := reload_map (ld_metadata d)\<rparr>)"
  by (simp add: decode_lease_def lease_values_ok_def lease_strings_ok_def lease_ints_ok_def)

text \<open>
  C40: Storing a lease document and reading its payload back gives the document, with the
  numbers of its two untyped maps as \<open>float64\<close>; reading is total on what the code writes.
\<close>
theorem lease_doc_round_trip:
  assumes "lease_ints_ok d"
  shows "\<exists>d'. decode_lease (encode_lease d) = Some d' \<and>
      d' = d\<lparr>ld_requirements := reload_map (ld_requirements d), ld_metadata := reload_map (ld_metadata d)\<rparr> \<and>
      decode_lease (encode_lease d') = Some d'"
  using assms by (simp add: decode_encode_lease lease_ints_ok_def)

definition sample_lease_doc :: lease_doc where
  "sample_lease_doc =
     \<lparr>ld_id = ''L1'', ld_kind = [], ld_number = Some 4, ld_project = ''p'', ld_workflow = None,
      ld_host = Some ''runner-k8s'', ld_state = ''claimed'', ld_requirements = [],
      ld_metadata = [(''runner_slot_index'', VStr ''1''), (''runner_slot_name'', VStr ''p-1''),
                     (''runner_k8s'', VBool True)],
      ld_requested_at = ''t0'', ld_assigned_at = ''t0'', ld_released_at = [], ld_ttl = 3600,
      ld_requested_slot = None, ld_fulfilled_at = [], ld_fulfilled_ref = None\<rparr>"

theorem lease_doc_round_trip_witness:
  "\<exists>d'. decode_lease (encode_lease sample_lease_doc) = Some d'"
  using lease_doc_round_trip [of sample_lease_doc]
  by (auto simp: sample_lease_doc_def lease_ints_ok_def int64_ok_def)

end
