(* ===== verification/SlotStore.thy ===== *)
theory SlotStore
  imports LeaseDocs
begin

text \<open>
  The slot table and the transitions the server makes on it: the rows
  (\<open>internal/store/pg/slots.go\<close>), the idempotent create and the compare-and-swap update
  (\<open>internal/store/store/slot.go\<close>) and the transition helpers
  (\<open>internal/server/slot_transitions.go\<close>, \<open>test_slot_repair_api.go\<close>). Postgres'
  \<open>now()\<close>, the new \<open>updated_at\<close> of a written row, is an argument of each write.
\<close>

section \<open>A table with compare-and-swap rows\<close>

text \<open>
  The interface the update loop relies on. A row carries a version; an insert refuses a taken
  key, and a swap succeeds exactly when the row still has the version that was read.
\<close>

locale cas_rows =
  fixes look :: "'db \<Rightarrow> 'k \<Rightarrow> ('v \<times> 'ver) option"
    and ins :: "'ver \<Rightarrow> 'k \<Rightarrow> 'v \<Rightarrow> 'db \<Rightarrow> 'db option"
    and swap :: "'ver \<Rightarrow> 'k \<Rightarrow> 'v \<Rightarrow> 'ver \<Rightarrow> 'db \<Rightarrow> 'db option"
    and del :: "'k \<Rightarrow> 'db \<Rightarrow> 'db"
  assumes ins_look: "ins t k v db = Some db' \<Longrightarrow>
      look db k = None \<and> look db' = (look db)(k \<mapsto> (v, t))"
    and swap_look: "swap t k v e db = Some db' \<Longrightarrow>
      (\<exists>v0. look db k = Some (v0, e)) \<and> look db' = (look db)(k \<mapsto> (v, t))"
    and swap_fresh: "look db k = Some (v0, e) \<Longrightarrow> swap t k v e db \<noteq> None"
    and del_look: "look (del k db) = (look db)(k := None)"
begin

text \<open>A second swap from the same read is refused: no update is lost.\<close>

lemma second_swap_refused:
  assumes "swap t1 k v1 e db = Some db1" "t1 \<noteq> e"
  shows "swap t2 k v2 e db1 = None"
proof (rule ccontr)
  assume "swap t2 k v2 e db1 \<noteq> None"
  then obtain db2 where "swap t2 k v2 e db1 = Some db2" by auto
  then have "\<exists>v0. look db1 k = Some (v0, e)" using swap_look by blast
  with assms swap_look show False by fastforce
qed

text \<open>A predicate of keys and values that each write establishes holds of every row.\<close>

lemma rows_ins:
  assumes "ins t k v db = Some db'" "P k v" "\<And>j w u. look db j = Some (w, u) \<Longrightarrow> P j w"
    "look db' j = Some (w, u)"
  shows "P j w"
proof (cases "j = k")
  case True
  with assms(2,4) ins_look [OF assms(1)] show ?thesis by simp
next
  case False
  with assms(4) ins_look [OF assms(1)] have "look db j = Some (w, u)" by simp
  then show ?thesis by (rule assms(3))
qed

lemma rows_swap:
  assumes "swap t k v e db = Some db'" "P k v" "\<And>j w u. look db j = Some (w, u) \<Longrightarrow> P j w"
    "look db' j = Some (w, u)"
  shows "P j w"
proof (cases "j = k")
  case True
  with assms(2,4) swap_look [OF assms(1)] show ?thesis by simp
next
  case False
  with assms(4) swap_look [OF assms(1)] have "look db j = Some (w, u)" by simp
  then show ?thesis by (rule assms(3))
qed

end

section \<open>The slots table\<close>

type_synonym slot_key = "string \<times> int"

record slot_row =
  row_payload :: slot
  row_updated :: instant

type_synonym slot_table = "slot_key \<rightharpoonup> slot_row"

datatype slot_store_error =
    SlotNotFound
  | SlotPreconditionFailed
  | SlotAlreadyExists
  | SlotIdentityChanged slot_key slot_key
  | SlotEtagMissing
  | SlotRefused slot_error
  | SlotConflict slot_state
  | SlotCleanupPending
  | NoSlotIdentity identity_error

text \<open>The etag is not part of the payload.\<close>

definition without_etag :: "slot \<Rightarrow> slot" where
  "without_etag s = s\<lparr>sl_etag := None\<rparr>"

definition slot_from_row :: "slot_row \<Rightarrow> slot" where
  "slot_from_row r = (row_payload r)\<lparr>sl_etag := Some (row_updated r)\<rparr>"

definition pg_get :: "slot_table \<Rightarrow> slot_key \<Rightarrow> (slot_store_error, slot_row) res" where
  "pg_get tbl k = (case tbl k of None \<Rightarrow> Inl SlotNotFound | Some r \<Rightarrow> Inr r)"

definition pg_create ::
  "instant \<Rightarrow> slot_key \<Rightarrow> slot \<Rightarrow> slot_table \<Rightarrow> (slot_store_error, slot_row \<times> slot_table) res" where
  "pg_create t k payload tbl =
     (case tbl k of
        Some _ \<Rightarrow> Inl SlotAlreadyExists
      | None \<Rightarrow> let r = \<lparr>row_payload = payload, row_updated = t\<rparr> in Inr (r, tbl(k \<mapsto> r)))"

text \<open>
  The conditional \<open>UPDATE\<close> and the query that tells a missing row from a stale version. The
  two statements are taken together: a delete between them only changes which error is given.
\<close>

definition pg_update_with_cas ::
  "instant \<Rightarrow> slot_key \<Rightarrow> slot \<Rightarrow> instant \<Rightarrow> slot_table \<Rightarrow>
     (slot_store_error, slot_row \<times> slot_table) res" where
  "pg_update_with_cas t k payload expected tbl =
     (case tbl k of
        None \<Rightarrow> Inl SlotNotFound
      | Some r0 \<Rightarrow>
          if row_updated r0 \<noteq> expected then Inl SlotPreconditionFailed
          else (let r = \<lparr>row_payload = payload, row_updated = t\<rparr> in Inr (r, tbl(k \<mapsto> r))))"

definition pg_delete :: "slot_key \<Rightarrow> slot_table \<Rightarrow> slot_table" where
  "pg_delete k tbl = tbl(k := None)"

section \<open>The store\<close>

definition get_slot :: "slot_table \<Rightarrow> slot_key \<Rightarrow> (slot_store_error, slot) res" where
  "get_slot tbl k = res_bind (pg_get tbl k) (\<lambda>r. Inr (slot_from_row r))"

definition slot_key :: "slot \<Rightarrow> slot_key" where
  "slot_key s = (sl_project s, sl_index s)"

definition create_slot ::
  "instant \<Rightarrow> slot \<Rightarrow> slot_table \<Rightarrow> (slot_store_error, slot \<times> slot_table) res" where
  "create_slot t s tbl =
     (case pg_create t (slot_key s) (without_etag s) tbl of
        Inr (r, tbl') \<Rightarrow> Inr (slot_from_row r, tbl')
      | Inl SlotAlreadyExists \<Rightarrow> res_bind (get_slot tbl (slot_key s)) (\<lambda>s'. Inr (s', tbl))
      | Inl e \<Rightarrow> Inl e)"

text \<open>The write half of \<open>UpdateIfMatch\<close>, from the slot that was read.\<close>

definition update_write ::
  "instant \<Rightarrow> slot_key \<Rightarrow> (slot \<Rightarrow> (slot_store_error, slot) res) \<Rightarrow> slot \<Rightarrow> slot_table \<Rightarrow>
     (slot_store_error, slot \<times> slot_table) res" where
  "update_write t k mutate current tbl =
     res_bind (mutate current) (\<lambda>next.
       if slot_key next \<noteq> slot_key current
       then Inl (SlotIdentityChanged (slot_key current) (slot_key next))
       else (case sl_etag current of
               None \<Rightarrow> Inl SlotEtagMissing
             | Some expected \<Rightarrow>
                 res_bind (pg_update_with_cas t k (without_etag next) expected tbl)
                   (\<lambda>(r, tbl'). Inr (slot_from_row r, tbl'))))"

definition update_if_match ::
  "instant \<Rightarrow> slot_key \<Rightarrow> (slot \<Rightarrow> (slot_store_error, slot) res) \<Rightarrow> slot_table \<Rightarrow>
     (slot_store_error, slot \<times> slot_table) res" where
  "update_if_match t k mutate tbl =
     res_bind (get_slot tbl k) (\<lambda>current. update_write t k mutate current tbl)"

definition delete_slot :: "slot_key \<Rightarrow> slot_table \<Rightarrow> slot_table" where
  "delete_slot k tbl = pg_delete k tbl"

section \<open>The table provides compare-and-swap rows\<close>

definition row_look :: "slot_table \<Rightarrow> slot_key \<Rightarrow> (slot \<times> instant) option" where
  "row_look tbl k = map_option (\<lambda>r. (row_payload r, row_updated r)) (tbl k)"

definition row_ins :: "instant \<Rightarrow> slot_key \<Rightarrow> slot \<Rightarrow> slot_table \<Rightarrow> slot_table option" where
  "row_ins t k s tbl = (case pg_create t k s tbl of Inl _ \<Rightarrow> None | Inr (_, tbl') \<Rightarrow> Some tbl')"

definition row_swap ::
  "instant \<Rightarrow> slot_key \<Rightarrow> slot \<Rightarrow> instant \<Rightarrow> slot_table \<Rightarrow> slot_table option" where
  "row_swap t k s e tbl =
     (case pg_update_with_cas t k s e tbl of Inl _ \<Rightarrow> None | Inr (_, tbl') \<Rightarrow> Some tbl')"

lemmas row_defs = row_look_def row_ins_def row_swap_def pg_create_def pg_update_with_cas_def pg_delete_def

lemma row_look_update [simp]:
  "row_look (tbl(k \<mapsto> r)) = (row_look tbl)(k \<mapsto> (row_payload r, row_updated r))"
  "row_look (tbl(k := None)) = (row_look tbl)(k := None)"
  by (auto simp: row_look_def)

interpretation slot_rows: cas_rows row_look row_ins row_swap pg_delete
proof unfold_locales
  show "row_ins t k v db = Some db' \<Longrightarrow> row_look db k = None \<and> row_look db' = (row_look db)(k \<mapsto> (v, t))"
    for t k v db db'
    by (auto simp: row_ins_def pg_create_def row_look_def [of _ k] Let_def split: option.splits)
  show "row_swap t k v e db = Some db' \<Longrightarrow>
      (\<exists>v0. row_look db k = Some (v0, e)) \<and> row_look db' = (row_look db)(k \<mapsto> (v, t))"
    for t k v e db db'
    by (auto simp: row_swap_def pg_update_with_cas_def row_look_def [of _ k] Let_def
        split: option.splits if_splits)
  show "row_look db k = Some (v0, e) \<Longrightarrow> row_swap t k v e db \<noteq> None" for db k v0 e t v
    by (auto simp: row_swap_def pg_update_with_cas_def row_look_def Let_def)
  show "row_look (pg_delete k db) = (row_look db)(k := None)" for k db
    by (simp add: pg_delete_def)
qed

text \<open>The store's operations are the interface's, on slots without their etag.\<close>

lemma pg_update_Inr:
  "pg_update_with_cas t k v e tbl = Inr (r, tbl') \<longleftrightarrow>
     (\<exists>r0. tbl k = Some r0 \<and> row_updated r0 = e) \<and> r = \<lparr>row_payload = v, row_updated = t\<rparr> \<and>
     tbl' = tbl(k \<mapsto> r)"
  by (auto simp: pg_update_with_cas_def Let_def split: option.split)

lemma row_swap_Some:
  "row_swap t k v e tbl = Some tbl' \<longleftrightarrow>
     (\<exists>r0. tbl k = Some r0 \<and> row_updated r0 = e) \<and> tbl' = tbl(k \<mapsto> \<lparr>row_payload = v, row_updated = t\<rparr>)"
  by (auto simp: row_swap_def pg_update_with_cas_def Let_def split: option.splits)

lemma update_write_Inr:
  "update_write t k mutate cur tbl = Inr (s', tbl') \<longleftrightarrow>
     (\<exists>s e. mutate cur = Inr s \<and> slot_key s = slot_key cur \<and> sl_etag cur = Some e \<and>
       row_swap t k (without_etag s) e tbl = Some tbl' \<and> s' = (without_etag s)\<lparr>sl_etag := Some t\<rparr>)"
proof (cases "mutate cur")
  case (Inr s)
  then show ?thesis
    by (cases "sl_etag cur")
       (auto simp: update_write_def res_bind_Inr_iff pg_update_Inr row_swap_Some slot_from_row_def)
qed (simp add: update_write_def)

lemma create_slot_ins:
  "create_slot t s tbl = Inr (s', tbl') \<Longrightarrow>
     row_ins t (slot_key s) (without_etag s) tbl = Some tbl' \<or> tbl' = tbl"
  by (auto simp: create_slot_def row_ins_def res_bind_Inr_iff split: sum.splits slot_store_error.splits)

lemma get_slot_row:
  "get_slot tbl k = Inr s \<longleftrightarrow> (\<exists>v e. row_look tbl k = Some (v, e) \<and> s = v\<lparr>sl_etag := Some e\<rparr>)"
  by (auto simp: get_slot_def pg_get_def row_look_def slot_from_row_def res_bind_Inr_iff
      split: option.splits)

end
