(* ===== verification/SlotTransitions.thy ===== *)
theory SlotTransitions
  imports SlotStore
begin

text \<open>
  The slot transitions the server makes (\<open>internal/server/slot_transitions.go\<close>,
  \<open>internal/server/test_slot_repair_api.go\<close>) and their interleavings: every caller reads a
  slot, changes it and writes it back on the condition that no one wrote in between. A command
  is the closure a caller hands to \<open>UpdateIfMatch\<close>.
\<close>

section \<open>The closures\<close>

definition refused :: "(slot_error, slot) res \<Rightarrow> (slot_store_error, slot) res" where
  "refused r = (case r of Inl e \<Rightarrow> Inl (SlotRefused e) | Inr s \<Rightarrow> Inr s)"

text \<open>\<open>if next, err := op(); err == nil \{ s = next \}\<close>\<close>

definition attempt :: "(slot \<Rightarrow> (slot_error, slot) res) \<Rightarrow> slot \<Rightarrow> slot" where
  "attempt f s = (case f s of Inl _ \<Rightarrow> s | Inr s' \<Rightarrow> s')"

definition activating_mutator ::
  "instant \<Rightarrow> string \<Rightarrow> int \<Rightarrow> string \<Rightarrow> slot \<Rightarrow> (slot_store_error, slot) res" where
  "activating_mutator now ref number job s =
     (let s1 = (if sl_state s = Unseeded \<or> sl_state s = Provisioning
                then attempt (mark_provisioning now) s else s);
          s2 = (if sl_state s1 = Provisioning then attempt (mark_provisioned now) s1 else s1)
      in refused (mark_activating now ref number job s2))"

definition walk_to_activating :: "instant \<Rightarrow> string \<Rightarrow> slot \<Rightarrow> slot" where
  "walk_to_activating now ref s =
     (let s0 = s\<lparr>sl_lease := Some ref\<rparr>;
          s1 = (if sl_state s0 = Unseeded then attempt (mark_provisioning now) s0 else s0);
          s2 = (if sl_state s1 = Provisioning then attempt (mark_provisioned now) s1 else s1)
      in attempt (mark_activating now ref 0 []) s2)"

definition cleaning_mutator ::
  "instant \<Rightarrow> string \<Rightarrow> bool \<Rightarrow> slot \<Rightarrow> (slot_store_error, slot) res" where
  "cleaning_mutator now ref reject_cleaning s =
     (if reject_cleaning \<and> sl_state s = Cleaning then Inl SlotPreconditionFailed
      else refused (mark_cleaning now
             (if sl_state s \<in> {Unseeded, Provisioning, Provisioned}
              then walk_to_activating now ref s else s)))"

definition cleaned_mutator :: "instant \<Rightarrow> slot \<Rightarrow> (slot_store_error, slot) res" where
  "cleaned_mutator now s =
     res_bind (if sl_state s \<in> {Running, Activating, Errored} then refused (mark_cleaning now s) else Inr s)
       (\<lambda>s1. refused (mark_cleaned now s1))"

definition error_mutator :: "instant \<Rightarrow> string \<Rightarrow> slot \<Rightarrow> (slot_store_error, slot) res" where
  "error_mutator now detail s =
     (let s1 = (if sl_state s = Unseeded then attempt (mark_provisioning now) s else s)
      in refused (mark_error now detail s1))"

definition repair_provisioning :: "instant \<Rightarrow> slot \<Rightarrow> (slot_store_error, slot) res" where
  "repair_provisioning now s =
     res_bind (refused (mark_provisioning now s)) (\<lambda>s'. Inr (s'\<lparr>sl_lease := None\<rparr>))"

definition cleanup_pending :: "slot \<Rightarrow> bool" where
  "cleanup_pending s = (case sl_cl_error s of None \<Rightarrow> False | Some e \<Rightarrow> trim_space e \<noteq> [])"

definition repair_mutator :: "instant \<Rightarrow> slot \<Rightarrow> (slot_store_error, slot) res" where
  "repair_mutator now s =
     (case sl_state s of
        Errored \<Rightarrow> if cleanup_pending s then Inl SlotCleanupPending else repair_provisioning now s
      | Unseeded \<Rightarrow> repair_provisioning now s
      | Provisioning \<Rightarrow> repair_provisioning now s
      | Provisioned \<Rightarrow> repair_provisioning now s
      | st \<Rightarrow> Inl (SlotConflict st))"

text \<open>The closures of all callers of \<open>UpdateIfMatch\<close>.\<close>

datatype slot_command =
    CmdProvisioning | CmdProvisioned | CmdError string
  | CmdReserve string | CmdRelease string
  | CmdLeaseActivating string int string | CmdLeaseRunning
  | CmdLeaseCleaning string bool | CmdLeaseCleaned | CmdLeaseError string
  | CmdRepair

fun apply_command :: "instant \<Rightarrow> slot_command \<Rightarrow> slot \<Rightarrow> (slot_store_error, slot) res" where
  "apply_command now CmdProvisioning s = refused (mark_provisioning now s)"
| "apply_command now CmdProvisioned s = refused (mark_provisioned now s)"
| "apply_command now (CmdError d) s = refused (mark_error now d s)"
| "apply_command now (CmdReserve ref) s = refused (mark_reserved now ref s)"
| "apply_command now (CmdRelease ref) s = refused (mark_reservation_released now ref s)"
| "apply_command now (CmdLeaseActivating ref n job) s = activating_mutator now ref n job s"
| "apply_command now CmdLeaseRunning s = refused (mark_running now s)"
| "apply_command now (CmdLeaseCleaning ref rej) s = cleaning_mutator now ref rej s"
| "apply_command now CmdLeaseCleaned s = cleaned_mutator now s"
| "apply_command now (CmdLeaseError d) s = error_mutator now d s"
| "apply_command now CmdRepair s = repair_mutator now s"

section \<open>The operations on the table\<close>

definition mark_slot ::
  "instant \<Rightarrow> instant \<Rightarrow> slot_key \<Rightarrow> slot_command \<Rightarrow> slot_table \<Rightarrow>
     (slot_store_error, slot \<times> slot_table) res" where
  "mark_slot t now k cmd tbl = update_if_match t k (apply_command now cmd) tbl"

definition ensure_slot_exists ::
  "instant \<Rightarrow> instant \<Rightarrow> slot_key \<Rightarrow> string \<Rightarrow> slot_table \<Rightarrow>
     (slot_store_error, slot \<times> slot_table) res" where
  "ensure_slot_exists t now k name tbl =
     (case get_slot tbl k of
        Inr s \<Rightarrow> Inr (s, tbl)
      | Inl SlotNotFound \<Rightarrow> create_slot t (new_unseeded_slot (fst k) (snd k) name now) tbl
      | Inl e \<Rightarrow> Inl e)"

definition lease_slot_name :: "lease \<Rightarrow> slot_key \<Rightarrow> string" where
  "lease_slot_name l k =
     (case slot_name_from_metadata (ls_metadata l) of
        Some n \<Rightarrow> n
      | None \<Rightarrow> fst k @ ''-slot-'' @ itoa (snd k))"

text \<open>
  The helpers that take a lease: the slot of the lease is created when it is missing, and it
  stays created when the transition is then refused.
\<close>

definition mark_lease_slot ::
  "instant \<Rightarrow> instant \<Rightarrow> instant \<Rightarrow> lease \<Rightarrow> slot_command \<Rightarrow> slot_table \<Rightarrow>
     (slot_store_error, slot) res \<times> slot_table" where
  "mark_lease_slot t1 t2 now l cmd tbl =
     (case slot_identity l of
        Inl e \<Rightarrow> (Inl (NoSlotIdentity e), tbl)
      | Inr (i, p) \<Rightarrow>
          (case ensure_slot_exists t1 now (p, i) (lease_slot_name l (p, i)) tbl of
             Inl e \<Rightarrow> (Inl e, tbl)
           | Inr (_, tbl1) \<Rightarrow>
               (case mark_slot t2 now (p, i) cmd tbl1 of
                  Inl e \<Rightarrow> (Inl e, tbl1)
                | Inr (s, tbl2) \<Rightarrow> (Inr s, tbl2))))"

definition lease_activating :: "lease \<Rightarrow> string \<Rightarrow> slot_command" where
  "lease_activating l job =
     CmdLeaseActivating (lease_public_ref l) (case ls_number l of None \<Rightarrow> 0 | Some n \<Rightarrow> n) job"

definition lease_cleaning :: "lease \<Rightarrow> bool \<Rightarrow> slot_command" where
  "lease_cleaning l claim = CmdLeaseCleaning (lease_public_ref l) claim"

definition claim_slot_repair ::
  "instant \<Rightarrow> instant \<Rightarrow> instant \<Rightarrow> slot_key \<Rightarrow> string \<Rightarrow> slot_table \<Rightarrow>
     (slot_store_error, slot) res \<times> slot_table" where
  "claim_slot_repair t1 t2 now k name tbl =
     (case ensure_slot_exists t1 now k name tbl of
        Inl e \<Rightarrow> (Inl e, tbl)
      | Inr (_, tbl1) \<Rightarrow>
          (case mark_slot t2 now k CmdRepair tbl1 of
             Inl e \<Rightarrow> (Inl e, tbl1)
           | Inr (s, tbl2) \<Rightarrow> (Inr s, tbl2)))"

section \<open>Commands keep the slot contract\<close>

lemma slot_ok_etag [simp]: "slot_ok (s\<lparr>sl_etag := e\<rparr>) = slot_ok s"
  by (simp add: slot_ok_def slot_field_defs split: slot_state.split)

lemma refused_Inr [simp]: "refused r = Inr s \<longleftrightarrow> r = Inr s"
  by (cases r) (simp_all add: refused_def)

lemma repair_provisioning_ok: "repair_provisioning now s = Inr s' \<Longrightarrow> slot_ok s'"
  by (auto simp: repair_provisioning_def mark_provisioning_def slot_ok_def res_bind_Inr_iff)

lemma repair_mutator_ok: "repair_mutator now s = Inr s' \<Longrightarrow> slot_ok s'"
  by (auto simp: repair_mutator_def repair_provisioning_ok split: slot_state.splits if_splits)

lemma command_ok: "apply_command now cmd s = Inr s' \<Longrightarrow> slot_ok s \<Longrightarrow> slot_ok s'"
  by (cases cmd)
     (auto simp: activating_mutator_def cleaning_mutator_def cleaned_mutator_def error_mutator_def
        Let_def res_bind_Inr_iff repair_mutator_ok split: if_splits intro: inv_intros)

text \<open>No operation changes which slot it is.\<close>

lemma mark_key:
  "mark_provisioning now s = Inr s' \<Longrightarrow> slot_key s' = slot_key s"
  "mark_provisioned now s = Inr s' \<Longrightarrow> slot_key s' = slot_key s"
  "mark_reserved now ref s = Inr s' \<Longrightarrow> slot_key s' = slot_key s"
  "mark_reservation_released now ref s = Inr s' \<Longrightarrow> slot_key s' = slot_key s"
  "mark_activating now ref n job s = Inr s' \<Longrightarrow> slot_key s' = slot_key s"
  "mark_running now s = Inr s' \<Longrightarrow> slot_key s' = slot_key s"
  "mark_cleaning now s = Inr s' \<Longrightarrow> slot_key s' = slot_key s"
  "mark_cleaned now s = Inr s' \<Longrightarrow> slot_key s' = slot_key s"
  "mark_error now d s = Inr s' \<Longrightarrow> slot_key s' = slot_key s"
  by (auto simp: slot_op_defs slot_key_def clear_activation_def res_bind_Inr_iff Let_def
      split: if_splits slot_state.splits)

lemma attempt_key [simp]:
  "slot_key (attempt (mark_provisioning now) s) = slot_key s"
  "slot_key (attempt (mark_provisioned now) s) = slot_key s"
  "slot_key (attempt (mark_activating now ref n job) s) = slot_key s"
  by (auto simp: attempt_def mark_key split: sum.split)

lemma slot_key_lease [simp]: "slot_key (s\<lparr>sl_lease := x\<rparr>) = slot_key s"
  by (simp add: slot_key_def)

lemma walk_key: "slot_key (walk_to_activating now ref s) = slot_key s"
  by (simp add: walk_to_activating_def Let_def)

lemma command_key: "apply_command now cmd s = Inr s' \<Longrightarrow> slot_key s' = slot_key s"
  by (cases cmd)
     (auto simp: activating_mutator_def cleaning_mutator_def cleaned_mutator_def error_mutator_def
        repair_mutator_def repair_provisioning_def Let_def res_bind_Inr_iff walk_key
        split: if_splits slot_state.splits dest!: mark_key)


section \<open>Concurrent callers\<close>

text \<open>
  The callers of the slot table: each reads a slot, and later writes what a command makes of the
  slot it read. The clock is the greatest \<open>updated_at\<close> handed out so far, and each write
  gets a later one.
\<close>

record slot_system =
  sy_table :: slot_table
  sy_clock :: instant
  sy_reads :: "nat \<rightharpoonup> slot_key \<times> slot"

inductive slot_step :: "slot_system \<Rightarrow> slot_system \<Rightarrow> bool" where
  step_create: "sy_clock st < t \<Longrightarrow>
     create_slot t (new_unseeded_slot p i name now) (sy_table st) = Inr (s, tbl') \<Longrightarrow>
     slot_step st (st\<lparr>sy_table := tbl', sy_clock := t\<rparr>)"
| step_read: "get_slot (sy_table st) k = Inr s \<Longrightarrow>
     slot_step st (st\<lparr>sy_reads := (sy_reads st)(c \<mapsto> (k, s))\<rparr>)"
| step_write: "sy_reads st c = Some (k, s) \<Longrightarrow> sy_clock st < t \<Longrightarrow>
     update_write t k (apply_command now cmd) s (sy_table st) = Inr (s', tbl') \<Longrightarrow>
     slot_step st (st\<lparr>sy_table := tbl', sy_clock := t, sy_reads := (sy_reads st)(c := None)\<rparr>)"
| step_give_up: "slot_step st (st\<lparr>sy_reads := (sy_reads st)(c := None)\<rparr>)"
| step_delete: "slot_step st (st\<lparr>sy_table := delete_slot k (sy_table st)\<rparr>)"

inductive_cases slot_stepE: "slot_step st st'"

inductive slot_reachable :: "slot_system \<Rightarrow> bool" where
  reach_start: "slot_reachable \<lparr>sy_table = Map.empty, sy_clock = t, sy_reads = Map.empty\<rparr>"
| reach_step: "slot_reachable st \<Longrightarrow> slot_step st st' \<Longrightarrow> slot_reachable st'"

definition rows_ok :: "slot_system \<Rightarrow> bool" where
  "rows_ok st = (\<forall>k v e. row_look (sy_table st) k = Some (v, e) \<longrightarrow>
     slot_ok v \<and> slot_key v = k \<and> e \<le> sy_clock st)"

text \<open>A read is of a past state: while the row keeps the version that was read, it is what was read.\<close>

definition reads_ok :: "slot_system \<Rightarrow> bool" where
  "reads_ok st = (\<forall>c k s. sy_reads st c = Some (k, s) \<longrightarrow>
     slot_ok s \<and> slot_key s = k \<and>
     (\<exists>e. sl_etag s = Some e \<and> e \<le> sy_clock st \<and>
        (\<forall>v. row_look (sy_table st) k = Some (v, e) \<longrightarrow> s = v\<lparr>sl_etag := Some e\<rparr>)))"

lemma slot_key_etag [simp]: "slot_key (s\<lparr>sl_etag := e\<rparr>) = slot_key s"
  by (simp add: slot_key_def)

lemma without_etag_simps [simp]:
  "slot_ok (without_etag s) = slot_ok s" "slot_key (without_etag s) = slot_key s"
  by (simp_all add: without_etag_def)

lemma key_new_slot [simp]: "slot_key (new_unseeded_slot p i n now) = (p, i)"
  by (simp add: slot_key_def new_unseeded_slot_def)

text \<open>What a write of a new version does to the two invariants.\<close>

lemma rows_ok_write:
  assumes "rows_ok st" "row_look tbl' = (row_look (sy_table st))(k \<mapsto> (v, t))"
    "slot_ok v" "slot_key v = k" "sy_clock st < t"
  shows "rows_ok (st\<lparr>sy_table := tbl', sy_clock := t, sy_reads := r\<rparr>)"
  using assms by (fastforce simp: rows_ok_def)

lemma reads_ok_write:
  assumes "reads_ok st" "row_look tbl' = (row_look (sy_table st))(k \<mapsto> (v, t))"
    "sy_clock st < t" "\<And>c x. r c = Some x \<Longrightarrow> sy_reads st c = Some x"
  shows "reads_ok (st\<lparr>sy_table := tbl', sy_clock := t, sy_reads := r\<rparr>)"
  unfolding reads_ok_def
proof (intro allI impI)
  fix c j s assume "sy_reads (st\<lparr>sy_table := tbl', sy_clock := t, sy_reads := r\<rparr>) c = Some (j, s)"
  then have "sy_reads st c = Some (j, s)" using assms(4) by simp
  with assms(1) obtain e where e: "slot_ok s" "slot_key s = j" "sl_etag s = Some e" "e \<le> sy_clock st"
      "\<forall>v. row_look (sy_table st) j = Some (v, e) \<longrightarrow> s = v\<lparr>sl_etag := Some e\<rparr>"
    unfolding reads_ok_def by blast
  then show "slot_ok s \<and> slot_key s = j \<and>
     (\<exists>e. sl_etag s = Some e \<and> e \<le> sy_clock (st\<lparr>sy_table := tbl', sy_clock := t, sy_reads := r\<rparr>) \<and>
        (\<forall>v. row_look (sy_table (st\<lparr>sy_table := tbl', sy_clock := t, sy_reads := r\<rparr>)) j = Some (v, e) \<longrightarrow>
             s = v\<lparr>sl_etag := Some e\<rparr>))"
    using assms(2,3) by auto
qed


lemma rows_okD:
  "rows_ok st \<Longrightarrow> row_look (sy_table st) k = Some (v, e) \<Longrightarrow>
     slot_ok v \<and> slot_key v = k \<and> e \<le> sy_clock st"
  by (simp only: rows_ok_def)

lemma write_values:
  assumes "update_write t k (apply_command now cmd) s tbl = Inr (s', tbl')" "slot_ok s"
  shows "\<exists>v e. row_look tbl' = (row_look tbl)(k \<mapsto> (v, t)) \<and> slot_ok v \<and> slot_key v = slot_key s \<and>
     sl_etag s = Some e \<and> (\<exists>v0. row_look tbl k = Some (v0, e))"
proof -
  from assms(1) obtain v e where v: "apply_command now cmd s = Inr v" "sl_etag s = Some e"
      "row_swap t k (without_etag v) e tbl = Some tbl'"
    unfolding update_write_Inr by blast
  from slot_rows.swap_look [OF v(3)] v(2) command_ok [OF v(1) assms(2)] command_key [OF v(1)]
  show ?thesis by (intro exI [of _ "without_etag v"] exI [of _ e]) simp
qed

lemma rows_ok_clock: "rows_ok st \<Longrightarrow> sy_clock st < t \<Longrightarrow> rows_ok (st\<lparr>sy_clock := t\<rparr>)"
  by (fastforce simp: rows_ok_def)

lemma reads_ok_clock: "reads_ok st \<Longrightarrow> sy_clock st < t \<Longrightarrow> reads_ok (st\<lparr>sy_clock := t\<rparr>)"
  unfolding reads_ok_def by simp (meson less_imp_le order_trans)

lemma create_keeps:
  assumes "rows_ok st" "reads_ok st" "sy_clock st < t"
    "create_slot t (new_unseeded_slot p i name now) (sy_table st) = Inr (s, tbl')"
  shows "rows_ok (st\<lparr>sy_table := tbl', sy_clock := t\<rparr>) \<and> reads_ok (st\<lparr>sy_table := tbl', sy_clock := t\<rparr>)"
proof -
  from create_slot_ins [OF assms(4)] show ?thesis
  proof
    assume "tbl' = sy_table st"
    with assms show ?thesis by (simp add: rows_ok_clock reads_ok_clock)
  next
    let ?n = "new_unseeded_slot p i name now"
    assume "row_ins t (slot_key ?n) (without_etag ?n) (sy_table st) = Some tbl'"
    then have "row_look tbl' = (row_look (sy_table st))((p, i) \<mapsto> (without_etag ?n, t))"
      using slot_rows.ins_look by fastforce
    with assms show ?thesis
      using rows_ok_write [of st tbl' "(p, i)" "without_etag ?n" t "sy_reads st"]
        reads_ok_write [of st tbl' "(p, i)" "without_etag ?n" t "sy_reads st"]
      by (simp add: new_slot_ok)
  qed
qed

lemma reads_ok_delete:
  assumes "reads_ok st" "row_look tbl' = (row_look (sy_table st))(k := None)"
  shows "reads_ok (st\<lparr>sy_table := tbl'\<rparr>)"
  unfolding reads_ok_def
proof (intro allI impI)
  fix c j s assume "sy_reads (st\<lparr>sy_table := tbl'\<rparr>) c = Some (j, s)"
  with assms(1) obtain e where "slot_ok s" "slot_key s = j" "sl_etag s = Some e" "e \<le> sy_clock st"
      "\<forall>v. row_look (sy_table st) j = Some (v, e) \<longrightarrow> s = v\<lparr>sl_etag := Some e\<rparr>"
    unfolding reads_ok_def by fastforce
  with assms(2) show "slot_ok s \<and> slot_key s = j \<and>
     (\<exists>e. sl_etag s = Some e \<and> e \<le> sy_clock (st\<lparr>sy_table := tbl'\<rparr>) \<and>
        (\<forall>v. row_look (sy_table (st\<lparr>sy_table := tbl'\<rparr>)) j = Some (v, e) \<longrightarrow> s = v\<lparr>sl_etag := Some e\<rparr>))"
    by auto
qed

lemma step_keeps:
  assumes "slot_step st st'" "rows_ok st" "reads_ok st"
  shows "rows_ok st' \<and> reads_ok st'"
  using assms(1)
proof cases
  case (step_create t p i name now s tbl')
  with assms show ?thesis using create_keeps by simp
next
  case (step_read k s c)
  from step_read(2) obtain v e where v: "row_look (sy_table st) k = Some (v, e)"
      "s = v\<lparr>sl_etag := Some e\<rparr>" unfolding get_slot_row by blast
  from rows_okD [OF assms(2) v(1)] v have "slot_ok s \<and> slot_key s = k \<and>
      (\<exists>e. sl_etag s = Some e \<and> e \<le> sy_clock st \<and>
      (\<forall>v. row_look (sy_table st) k = Some (v, e) \<longrightarrow> s = v\<lparr>sl_etag := Some e\<rparr>))" by simp
  with assms(2,3) show ?thesis unfolding step_read(1) rows_ok_def reads_ok_def by auto
next
  case (step_write c k s t now cmd s' tbl')
  then have s: "slot_ok s" "slot_key s = k" using assms(3) unfolding reads_ok_def by blast+
  with write_values [OF step_write(4)] obtain v where
    "row_look tbl' = (row_look (sy_table st))(k \<mapsto> (v, t))" "slot_ok v" "slot_key v = k" by auto
  moreover have "((sy_reads st)(c := None)) d = Some x \<Longrightarrow> sy_reads st d = Some x" for d x
    by (simp split: if_splits)
  ultimately show ?thesis
    unfolding step_write(1) using assms(2,3) step_write(3)
    by (intro conjI rows_ok_write reads_ok_write) auto
next
  case (step_give_up c)
  with assms(2,3) show ?thesis by (auto simp: rows_ok_def reads_ok_def)
next
  case (step_delete k)
  have "row_look (delete_slot k (sy_table st)) = (row_look (sy_table st))(k := None)"
    by (simp add: delete_slot_def slot_rows.del_look)
  moreover from this assms(2) have "rows_ok (st\<lparr>sy_table := delete_slot k (sy_table st)\<rparr>)"
    by (simp add: rows_ok_def)
  ultimately show ?thesis unfolding step_delete using reads_ok_delete [OF assms(3)] by simp
qed

lemma reachable_ok: "slot_reachable st \<Longrightarrow> rows_ok st \<and> reads_ok st"
proof (induction rule: slot_reachable.induct)
  case (reach_start t)
  then show ?case by (simp add: rows_ok_def reads_ok_def row_look_def)
qed (simp add: step_keeps)

text \<open>
  C3: Whatever the callers do and however they interleave, every stored slot keeps the slot
  contract (what its fields say in its state) and stays under its own project and index.
\<close>
theorem slots_keep_contract:
  assumes "slot_reachable st" "sy_table st k = Some r"
  shows "slot_ok (row_payload r) \<and> slot_key (row_payload r) = k"
  using rows_okD [of st k "row_payload r" "row_updated r"] reachable_ok [OF assms(1)] assms(2)
  by (simp add: row_look_def)

text \<open>
  C33: No update is lost: a write that succeeds is the whole read-change-write done at once on the
  table it meets, although other callers may have written between its read and its write.
\<close>
theorem slot_write_is_atomic:
  assumes "slot_reachable st" "sy_reads st c = Some (k, s)"
    "update_write t k (apply_command now cmd) s (sy_table st) = Inr (s', tbl')"
  shows "get_slot (sy_table st) k = Inr s \<and>
         mark_slot t now k cmd (sy_table st) = Inr (s', tbl')"
proof -
  from reachable_ok [OF assms(1)] assms(2) obtain e where e: "slot_ok s" "sl_etag s = Some e"
      "\<forall>v. row_look (sy_table st) k = Some (v, e) \<longrightarrow> s = v\<lparr>sl_etag := Some e\<rparr>"
    unfolding reads_ok_def by blast
  with write_values [OF assms(3)] have "get_slot (sy_table st) k = Inr s"
    by (auto simp: get_slot_row)
  with assms(3) show ?thesis by (simp add: mark_slot_def update_if_match_def)
qed


text \<open>A slot that is created, read and written by two callers.\<close>

definition demo_key :: slot_key where "demo_key = (''p'', 1)"

definition demo_slot :: slot where
  "demo_slot = (new_unseeded_slot ''p'' 1 ''p-1'' 1)\<lparr>sl_etag := Some 1\<rparr>"

definition demo_table :: slot_table where
  "demo_table = [demo_key \<mapsto> \<lparr>row_payload = new_unseeded_slot ''p'' 1 ''p-1'' 1, row_updated = 1\<rparr>]"

definition demo_system :: slot_system where
  "demo_system = \<lparr>sy_table = demo_table, sy_clock = 1, sy_reads = [7 \<mapsto> (demo_key, demo_slot)]\<rparr>"

lemma without_etag_new [simp]: "without_etag (new_unseeded_slot p i n now) = new_unseeded_slot p i n now"
  by (simp add: without_etag_def new_unseeded_slot_def)

lemma demo_created:
  "create_slot 1 (new_unseeded_slot ''p'' 1 ''p-1'' 1) Map.empty = Inr (demo_slot, demo_table)"
  by (simp add: create_slot_def pg_create_def Let_def slot_from_row_def demo_slot_def demo_table_def
      demo_key_def)

lemma demo_read: "get_slot demo_table demo_key = Inr demo_slot"
  by (simp add: get_slot_def pg_get_def demo_table_def slot_from_row_def demo_slot_def)

lemma demo_reachable: "slot_reachable demo_system"
proof -
  let ?s0 = "\<lparr>sy_table = Map.empty, sy_clock = 0, sy_reads = Map.empty\<rparr>"
  let ?s1 = "\<lparr>sy_table = demo_table, sy_clock = 1, sy_reads = Map.empty\<rparr>"
  have "slot_step ?s0 ?s1"
    using step_create [of ?s0 1 "''p''" 1 "''p-1''" 1 demo_slot demo_table] demo_created by simp
  moreover have "slot_step ?s1 demo_system"
    using step_read [of ?s1 demo_key demo_slot 7] demo_read by (simp add: demo_system_def)
  ultimately show ?thesis by (blast intro: reach_step [OF reach_step [OF reach_start]])
qed

theorem slots_keep_contract_witness:
  "slot_ok (new_unseeded_slot ''p'' 1 ''p-1'' 1) \<and>
   slot_key (new_unseeded_slot ''p'' 1 ''p-1'' 1) = demo_key"
  using slots_keep_contract [OF demo_reachable, of demo_key]
  by (simp add: demo_system_def demo_table_def)

definition demo_written :: slot where
  "demo_written = demo_slot\<lparr>sl_state := Provisioning, sl_updated := 2, sl_etag := None\<rparr>"

lemma demo_write:
  "update_write 2 demo_key (apply_command 2 CmdProvisioning) demo_slot demo_table =
     Inr (demo_written\<lparr>sl_etag := Some 2\<rparr>,
          demo_table(demo_key \<mapsto> \<lparr>row_payload = demo_written, row_updated = 2\<rparr>))"
proof -
  have "mark_provisioning 2 demo_slot = Inr (demo_slot\<lparr>sl_state := Provisioning, sl_updated := 2\<rparr>)"
    by (simp add: mark_provisioning_def can_transition_to_def demo_slot_def new_unseeded_slot_def)
  then show ?thesis
    by (simp add: update_write_Inr row_swap_Some demo_written_def without_etag_def slot_key_def
        demo_slot_def demo_table_def)
qed

theorem slot_write_is_atomic_witness:
  "\<exists>s' tbl'. mark_slot 2 2 demo_key CmdProvisioning demo_table = Inr (s', tbl')"
  using slot_write_is_atomic [OF demo_reachable, of 7 demo_key demo_slot 2 2 CmdProvisioning] demo_write
  by (simp add: demo_system_def)

text \<open>
  Two callers that read the same version of a slot cannot both write: once the first has
  written, the second is told that its precondition failed and the table is not changed.
\<close>
theorem stale_write_refused:
  assumes "update_write t1 k (apply_command n1 c1) s1 tbl = Inr (s', tbl1)" "Some t1 \<noteq> sl_etag s1"
    "sl_etag s2 = sl_etag s1" "apply_command n2 c2 s2 = Inr s2'"
  shows "update_write t2 k (apply_command n2 c2) s2 tbl1 = Inl SlotPreconditionFailed"
proof -
  from assms(1) obtain v e where v: "sl_etag s1 = Some e" "row_swap t1 k (without_etag v) e tbl = Some tbl1"
    unfolding update_write_Inr by blast
  with assms(2) have "row_swap t2 k (without_etag s2') e tbl1 = None"
    by (intro slot_rows.second_swap_refused) auto
  moreover have "tbl1 k \<noteq> None" using v(2) by (auto simp: row_swap_Some)
  ultimately have "pg_update_with_cas t2 k (without_etag s2') e tbl1 = Inl SlotPreconditionFailed"
    by (auto simp: row_swap_def pg_update_with_cas_def Let_def split: if_splits)
  with assms(3,4) v(1) command_key [OF assms(4)] show ?thesis by (simp add: update_write_def)
qed

theorem stale_write_refused_witness:
  "update_write 3 demo_key (apply_command 3 CmdProvisioning) demo_slot
     (demo_table(demo_key \<mapsto> \<lparr>row_payload = demo_written, row_updated = 2\<rparr>)) = Inl SlotPreconditionFailed"
  by (rule stale_write_refused [OF demo_write])
     (simp_all add: demo_slot_def new_unseeded_slot_def mark_provisioning_def can_transition_to_def)


section \<open>Leaving use\<close>

definition in_use :: "slot_state \<Rightarrow> bool" where
  "in_use st = (st \<in> {Activating, Running, Cleaning, Errored})"

lemma mark_state:
  "mark_provisioning now s = Inr s' \<Longrightarrow> sl_state s' = Provisioning"
  "mark_provisioned now s = Inr s' \<Longrightarrow> sl_state s' = Provisioned"
  "mark_activating now ref n job s = Inr s' \<Longrightarrow> sl_state s' = Activating"
  "mark_running now s = Inr s' \<Longrightarrow> sl_state s' = Running"
  "mark_cleaning now s = Inr s' \<Longrightarrow> sl_state s' = Cleaning"
  "mark_cleaned now s = Inr s' \<Longrightarrow> sl_state s' = Provisioned"
  "mark_error now d s = Inr s' \<Longrightarrow> sl_state s' = Errored"
  by (auto simp: slot_op_defs clear_activation_def res_bind_Inr_iff Let_def split: slot_state.splits)

lemma reserve_state:
  "mark_reserved now ref s = Inr s' \<Longrightarrow> sl_state s = Provisioned"
  "mark_reservation_released now ref s = Inr s' \<Longrightarrow> sl_state s = Provisioned"
  by (auto simp: mark_reserved_def mark_reservation_released_def res_bind_Inr_iff split: if_splits)

lemma repair_state: "repair_mutator now s = Inr s' \<Longrightarrow> sl_state s' = Provisioning"
  by (auto simp: repair_mutator_def repair_provisioning_def res_bind_Inr_iff
      dest: mark_state split: slot_state.splits if_splits)

lemma provisioned_from:
  "mark_provisioned now s = Inr s' \<Longrightarrow> sl_state s \<in> {Provisioning, Provisioned, Cleaning}"
  by (cases "sl_state s") (auto simp: mark_provisioned_def res_bind_Inr_iff can_transition_Inr)

lemma cleaned_from:
  "cleaned_mutator now s = Inr s' \<Longrightarrow> sl_cl_completed s' = Some now \<and> sl_lease s' = None \<and> idle_fields s'"
  by (auto simp: cleaned_mutator_def mark_cleaned_def res_bind_Inr_iff slot_field_defs)

text \<open>
  A slot that is activating, running, being cleaned or in error comes back to the pool in
  one way only, a cleanup that is stamped complete; the one exception is a provisioned mark that
  meets a slot in cleaning.
\<close>
theorem return_to_pool:
  assumes "apply_command now cmd s = Inr s'" "in_use (sl_state s)" "sl_state s' = Provisioned"
  shows "(cmd = CmdLeaseCleaned \<and> sl_cl_completed s' = Some now \<and> sl_lease s' = None \<and> idle_fields s') \<or>
         (cmd = CmdProvisioned \<and> sl_state s = Cleaning)"
proof (cases cmd)
  case CmdLeaseCleaned
  with assms(1) cleaned_from show ?thesis by simp
next
  case CmdProvisioned
  with assms provisioned_from show ?thesis by (fastforce simp: in_use_def)
next
  case CmdRepair
  with assms repair_state show ?thesis by fastforce
qed (use assms in \<open>auto simp: in_use_def activating_mutator_def cleaning_mutator_def error_mutator_def
       Let_def dest: mark_state reserve_state split: if_splits\<close>)

definition running_slot :: slot where
  "running_slot =
     (new_unseeded_slot ''p'' 1 ''p-1'' 1)\<lparr>sl_state := Running, sl_lease := Some ''p-1'',
       sl_attempt := Some 3, sl_act_started := Some 1, sl_act_completed := Some 2, sl_job := Some ''j''\<rparr>"

lemma running_slot_cleaned:
  "\<exists>s'. apply_command 9 CmdLeaseCleaned running_slot = Inr s' \<and> sl_state s' = Provisioned"
  by (simp add: cleaned_mutator_def mark_cleaning_def mark_cleaned_def can_transition_to_def
      running_slot_def new_unseeded_slot_def refused_def clear_activation_def)

theorem return_to_pool_witness:
  "\<exists>s'. apply_command 9 CmdLeaseCleaned running_slot = Inr s' \<and> sl_cl_completed s' = Some 9"
proof -
  obtain s' where s': "apply_command 9 CmdLeaseCleaned running_slot = Inr s'" "sl_state s' = Provisioned"
    using running_slot_cleaned by blast
  with return_to_pool [OF s'(1) _ s'(2)] show ?thesis
    by (simp add: in_use_def running_slot_def)
qed

text \<open>
  The provisioned mark of a warm-up or a repair is accepted by a slot whose cleanup is still
  going on: the slot is then provisioned and held by no lease, so it can be leased, although its
  cleanup has not completed and no longer holds it.
\<close>
theorem provisioned_during_cleanup:
  assumes "slot_ok s" "sl_state s = Cleaning"
  shows "\<exists>s'. apply_command now CmdProvisioned s = Inr s' \<and> sl_state s' = Provisioned \<and>
           sl_lease s' = None \<and> sl_cl_started s' \<noteq> None \<and> sl_cl_completed s' = None"
  using assms by (auto simp: mark_provisioned_def can_transition_to_def refused_def slot_ok_def
    cleanup_open_def clear_activation_def)

theorem provisioned_during_cleanup_witness:
  "\<exists>s'. apply_command 5 CmdProvisioned (running_slot\<lparr>sl_state := Cleaning, sl_cl_started := Some 4\<rparr>) = Inr s' \<and>
     sl_state s' = Provisioned \<and> sl_cl_completed s' = None"
proof -
  have "slot_ok (running_slot\<lparr>sl_state := Cleaning, sl_cl_started := Some 4\<rparr>)"
    by (simp add: slot_ok_def cleanup_open_def running_slot_def new_unseeded_slot_def)
  from provisioned_during_cleanup [OF this] show ?thesis by force
qed

text \<open>
  Cleaning a slot in error always works and ends in the pool, released and with the cleanup
  complete and without error; but the failure text stays in its detail, which is said to describe
  the current state.
\<close>
theorem cleaned_error_keeps_detail:
  assumes "sl_state s = Errored"
  shows "\<exists>s'. apply_command now CmdLeaseCleaned s = Inr s' \<and> sl_state s' = Provisioned \<and>
           sl_lease s' = None \<and> idle_fields s' \<and> sl_cl_completed s' = Some now \<and>
           sl_cl_error s' = None \<and> sl_detail s' = sl_detail s"
  using assms by (simp add: cleaned_mutator_def mark_cleaning_def mark_cleaned_def
    can_transition_to_def refused_def slot_field_defs)

theorem cleaned_error_keeps_detail_witness:
  "\<exists>s'. apply_command 5 CmdLeaseCleaned (running_slot\<lparr>sl_state := Errored, sl_detail := Some ''boom''\<rparr>) = Inr s' \<and>
     sl_state s' = Provisioned \<and> sl_detail s' = Some ''boom''"
  using cleaned_error_keeps_detail [of "running_slot\<lparr>sl_state := Errored, sl_detail := Some ''boom''\<rparr>" 5]
  by auto

end
