(* ===== verification/Leases.thy ===== *)
theory Leases
  imports SlotTransitions
begin

text \<open>
  Runner leases over the slot table (\<open>internal/store/store/postgres.go\<close>,
  \<open>internal/store/pg/runs.go\<close>): choosing a slot, storing the lease, reserving the slot,
  and the four ways a lease ends or changes (cancel by reference, release by callback token, the
  start-up expiry sweep of \<open>internal/server/lease_recovery.go\<close>, a new TTL). The database is
  the list of lease rows, newest first, the lease counters, the projects' metadata and the slot
  table. Instants, generated ids and \<open>now()\<close> are arguments.
\<close>

record lease_db =
  db_leases :: "lease_row list"
  db_counters :: "string \<rightharpoonup> int"
  db_projects :: "string \<rightharpoonup> vmap"
  db_slots :: slot_table

datatype lease_error =
    LeaseInvalid string string
  | RunnerLeaseRequired
  | CheckoutWithInputs
  | LeaseUnavailable
  | LeaseNotFound
  | LeaseIdTaken
  | LeaseTokenTaken
  | LeaseConflict
  | LeaseTtlNotPositive
  | LeaseUnsupported
  | LeaseUndecodable
  | LeaseWithoutSlot
  | LeaseWithoutRef
  | LeaseSlotError slot_store_error

section \<open>The request\<close>

record lease_requester =
  rq_consumer :: string
  rq_kind :: string
  rq_ref :: string
  rq_label :: "string option"
  rq_url :: "string option"
  rq_metadata :: "(string \<times> string) list"

record lease_request =
  aq_project :: string
  aq_workflow :: "string option"
  aq_requirements :: vmap
  aq_metadata :: vmap
  aq_requester :: lease_requester
  aq_ttl :: "int option"

definition is_runner_lease_request :: "lease_request \<Rightarrow> bool" where
  "is_runner_lease_request q =
     (bool_value (vget_any (aq_metadata q) ''runner_k8s'') \<or>
      bool_value (vget_any (aq_metadata q) ''test_slot_checkout'') \<or>
      bool_value (vget_any (aq_requirements q) ''runner_k8s''))"

definition slot_identity_keys :: "string list" where
  "slot_identity_keys = [''runner_slot_index'', ''runner_slot_name'', ''runner_slot_prefix'',
     ''runner_sessions_namespace'']"

definition phase_input_keys :: "string list" where
  "phase_input_keys = [''validation_slot_index'', ''slot_index'', ''runner_slot_index'', ''runner_slot_name'']"

definition validate_slot_identity :: "vmap \<Rightarrow> lease_error option" where
  "validate_slot_identity m =
     (let inputs = any_map_value (vget_any m ''phase_inputs'') in
      case find (\<lambda>k. value_has_meaning (vget_any m k)) slot_identity_keys of
        Some k \<Rightarrow> Some (LeaseInvalid [] k)
      | None \<Rightarrow>
          (case find (\<lambda>k. value_has_meaning (vget_any inputs k)) phase_input_keys of
             Some k \<Rightarrow> Some (LeaseInvalid ''phase_inputs.'' k)
           | None \<Rightarrow> if bool_value (vget_any m ''test_slot_checkout'') \<and> inputs \<noteq> []
                     then Some CheckoutWithInputs else None))"

definition build_lease_metadata :: "lease_request \<Rightarrow> vmap" where
  "build_lease_metadata q =
     (let r = aq_requester q;
          doc = [(''consumer'', VStr (rq_consumer r)), (''kind'', VStr (rq_kind r)), (''ref'', VStr (rq_ref r))] @
                (case rq_label r of None \<Rightarrow> [] | Some l \<Rightarrow> [(''label'', VStr l)]) @
                (case rq_url r of None \<Rightarrow> [] | Some u \<Rightarrow> [(''url'', VStr u)]) @
                (if rq_metadata r = [] then []
                 else [(''metadata'', VMap (map (\<lambda>(k, v). (k, VStr v)) (rq_metadata r)))])
      in vset ''requester_ref'' (VStr (rq_ref r))
           (vset ''requester_kind'' (VStr (rq_kind r))
             (vset ''requester_consumer'' (VStr (rq_consumer r))
               (vset ''requester'' (VMap doc) (aq_metadata q)))))"

section \<open>Choosing a slot\<close>

definition slot_ready :: "slot \<Rightarrow> bool" where
  "slot_ready s = (sl_state s = Provisioned \<and> sl_lease s = None)"

definition select_ready_slot_indices :: "slot list \<Rightarrow> int \<Rightarrow> int list" where
  "select_ready_slot_indices slots count =
     sort (map sl_index (filter (\<lambda>s. 1 \<le> sl_index s \<and> sl_index s \<le> count \<and> slot_ready s) slots))"

definition runner_slot_index :: "vmap \<Rightarrow> int option" where
  "runner_slot_index m = positive_int_value (vget_any m ''runner_slot_index'')"

definition used_slots :: "string \<Rightarrow> lease_doc list \<Rightarrow> int list" where
  "used_slots project claimed =
     List.map_filter (\<lambda>d. if ld_project d = project then runner_slot_index (ld_metadata d) else None) claimed"

definition select_available_runner_slot :: "string \<Rightarrow> int list \<Rightarrow> lease_doc list \<Rightarrow> int option" where
  "select_available_runner_slot project ready claimed =
     find (\<lambda>i. i \<notin> set (used_slots project claimed)) ready"

text \<open>
  The project's rows, in index order. The rows outside \<open>1..count\<close> are left out here; the
  selection drops them in any case.
\<close>

definition list_slots :: "slot_table \<Rightarrow> string \<Rightarrow> int \<Rightarrow> slot list" where
  "list_slots tbl p count =
     List.map_filter (\<lambda>i. map_option row_payload (tbl (p, i))) [1..count]"

definition standby_of :: "lease_db \<Rightarrow> string \<Rightarrow> vmap option" where
  "standby_of db p =
     (case db_projects db p of
        None \<Rightarrow> None
      | Some m \<Rightarrow> (case vget_any m ''runner_standby_dns'' of VMap s \<Rightarrow> Some s | _ \<Rightarrow> None))"

definition runner_ready_slots :: "lease_db \<Rightarrow> string \<Rightarrow> int list" where
  "runner_ready_slots db p =
     (case standby_of db p of
        None \<Rightarrow> []
      | Some s \<Rightarrow>
          (case positive_int_value (vget_any s ''count'') of
             None \<Rightarrow> []
           | Some n \<Rightarrow> select_ready_slot_indices (list_slots (db_slots db) p n) n))"

text \<open>\<open>ListClaimedRunner\<close>: the SQL conditions on the payload.\<close>

definition claimed_runner_row :: "string \<Rightarrow> lease_row \<Rightarrow> bool" where
  "claimed_runner_row p r =
     (lr_project r = p \<and> vget_any (lr_payload r) ''state'' = VStr ''claimed'' \<and>
      vget_any (any_map_value (vget_any (lr_payload r) ''metadata'')) ''runner_k8s'' = VBool True)"

fun decode_rows :: "lease_row list \<Rightarrow> (lease_error, lease_doc list) res" where
  "decode_rows [] = Inr []"
| "decode_rows (r # rs) =
     (case decode_lease (lr_payload r) of
        None \<Rightarrow> Inl LeaseUndecodable
      | Some d \<Rightarrow> res_bind (decode_rows rs) (\<lambda>ds. Inr (d # ds)))"

definition available_runner_slot :: "lease_db \<Rightarrow> string \<Rightarrow> (lease_error, int option) res" where
  "available_runner_slot db p =
     res_bind (decode_rows (filter (claimed_runner_row p) (db_leases db))) (\<lambda>docs.
       Inr (select_available_runner_slot p (runner_ready_slots db p) docs))"

definition trim_dots :: "string \<Rightarrow> string" where
  "trim_dots s = rev (dropWhile (\<lambda>c. c = CHR ''.'') (rev (dropWhile (\<lambda>c. c = CHR ''.'') s)))"

definition prefix_setting :: "vmap \<Rightarrow> string \<Rightarrow> string option" where
  "prefix_setting s k =
     (case vget_any s k of
        VStr p \<Rightarrow> if trim_space p \<noteq> [] then Some (trim_dots (trim_space p)) else None
      | _ \<Rightarrow> None)"

definition runner_slot_prefix :: "lease_db \<Rightarrow> string \<Rightarrow> string" where
  "runner_slot_prefix db p =
     (case standby_of db p of
        None \<Rightarrow> p
      | Some s \<Rightarrow>
          (case prefix_setting s ''slot_prefix'' of
             Some x \<Rightarrow> x
           | None \<Rightarrow> (case prefix_setting s ''slotPrefix'' of Some x \<Rightarrow> x | None \<Rightarrow> p)))"

definition slot_label :: "string \<Rightarrow> string \<Rightarrow> int \<Rightarrow> string" where
  "slot_label project slot_prefix i =
     (let p = trim_dots (trim_space slot_prefix) in (if p = [] then project else p) @ ''-'' @ itoa i)"

definition set_runner_slot_metadata :: "string \<Rightarrow> int \<Rightarrow> string \<Rightarrow> vmap \<Rightarrow> vmap" where
  "set_runner_slot_metadata project i slot_prefix m =
     vset ''runner_slot_name'' (VStr (slot_label project slot_prefix i))
       (vset ''runner_slot_index'' (VStr (itoa i)) m)"

section \<open>Storing the lease\<close>

text \<open>What one request draws from outside: the clock, the generated ids and \<open>now()\<close> of the write.\<close>

record acquire_env =
  ae_now :: instant
  ae_now_text :: string
  ae_lease_id :: string
  ae_token :: string
  ae_write :: instant

definition default_runner_ttl :: int where
  "default_runner_ttl = 4 * 60 * 60"

definition lease_ttl :: "lease_request \<Rightarrow> int" where
  "lease_ttl q = (case aq_ttl q of Some t \<Rightarrow> if 0 < t then t else default_runner_ttl | None \<Rightarrow> default_runner_ttl)"

text \<open>\<open>AllocateNextNumber\<close>: seeded from the greatest stored number, then counted up.\<close>

definition seeded_counter :: "lease_db \<Rightarrow> string \<Rightarrow> int" where
  "seeded_counter db p =
     (case db_counters db p of
        Some n \<Rightarrow> n
      | None \<Rightarrow>
          Max (set (0 # List.map_filter
            (\<lambda>r. if lr_project r = p
                 then (case dec_int_opt (vget_any (lr_payload r) ''leaseNumber'') of
                         Some (Some n) \<Rightarrow> Some n | _ \<Rightarrow> None)
                 else None) (db_leases db))) + 1)"

definition allocate_number :: "string \<Rightarrow> lease_db \<Rightarrow> int \<times> lease_db" where
  "allocate_number p db =
     (let n = seeded_counter db p in (n, db\<lparr>db_counters := (db_counters db)(p \<mapsto> n + 1)\<rparr>))"

definition new_lease_doc ::
  "acquire_env \<Rightarrow> lease_request \<Rightarrow> int \<Rightarrow> int \<Rightarrow> string \<Rightarrow> lease_doc" where
  "new_lease_doc env q number i slot_prefix =
     \<lparr>ld_id = ae_lease_id env, ld_kind = [], ld_number = Some number, ld_project = aq_project q,
      ld_workflow = aq_workflow q, ld_host = Some ''runner-k8s'', ld_state = ''claimed'',
      ld_requirements = aq_requirements q,
      ld_metadata = set_runner_slot_metadata (aq_project q) i slot_prefix
        (vset ''lease_callback_token'' (VStr (ae_token env))
          (vset ''runner_k8s'' (VBool True) (build_lease_metadata q))),
      ld_requested_at = ae_now_text env, ld_assigned_at = ae_now_text env, ld_released_at = [],
      ld_ttl = lease_ttl q, ld_requested_slot = None, ld_fulfilled_at = [], ld_fulfilled_ref = None\<rparr>"

definition new_lease_row :: "acquire_env \<Rightarrow> lease_doc \<Rightarrow> lease_row" where
  "new_lease_row env d =
     \<lparr>lr_id = ld_id d, lr_project = ld_project d, lr_token = ae_token env, lr_payload = encode_lease d,
      lr_expires = (if 0 < ld_ttl d then Some (seconds_after (ae_now env) (ld_ttl d)) else None)\<rparr>"

text \<open>The id is the primary key, and a callback token that is not empty is unique.\<close>

definition insert_lease :: "lease_row \<Rightarrow> lease_db \<Rightarrow> (lease_error, lease_db) res" where
  "insert_lease r db =
     (if lr_id r \<in> lr_id ` set (db_leases db) then Inl LeaseIdTaken
      else if lr_token r \<noteq> [] \<and> lr_token r \<in> lr_token ` set (db_leases db) then Inl LeaseTokenTaken
      else Inr (db\<lparr>db_leases := r # db_leases db\<rparr>))"


section \<open>Patching a stored lease\<close>

definition lease_at :: "string \<Rightarrow> string \<Rightarrow> lease_row \<Rightarrow> bool" where
  "lease_at p i r = (lr_project r = p \<and> lr_id r = i)"

text \<open>\<open>PatchPayload\<close>: the row is locked, so the read, the change and the write are one step.\<close>

definition patch_payload ::
  "(string \<Rightarrow> instant option) \<Rightarrow> string \<Rightarrow> string \<Rightarrow> (vmap \<Rightarrow> (lease_error, vmap) res) \<Rightarrow> lease_db \<Rightarrow>
     (lease_error, lease_row \<times> lease_db) res" where
  "patch_payload parse_time p i mutate db =
     (case find (lease_at p i) (db_leases db) of
        None \<Rightarrow> Inl LeaseNotFound
      | Some r \<Rightarrow> res_bind (patch_row parse_time mutate r) (\<lambda>r'.
          Inr (r', db\<lparr>db_leases := map (\<lambda>x. if lease_at p i x then r' else x) (db_leases db)\<rparr>)))"

definition is_bookkeeping :: "lease_doc \<Rightarrow> bool" where
  "is_bookkeeping d =
     (ld_kind d = ''lease_number_counter'' \<or> prefix ''__counter:lease-number:'' (ld_id d))"

definition doc_public_ref :: "lease_doc \<Rightarrow> string" where
  "doc_public_ref d = lease_public_ref (lease_from_doc (\<lambda>_. None) 0 d)"

definition candidate_rank :: "lease_doc \<Rightarrow> nat" where
  "candidate_rank d = (if ld_state d = ''claimed'' then 0 else if ld_state d = ''waiting'' then 1 else 2)"

fun select_by_ref :: "string \<Rightarrow> lease_doc option \<Rightarrow> lease_doc list \<Rightarrow> lease_doc option" where
  "select_by_ref ref found [] = found"
| "select_by_ref ref found (d # ds) =
     select_by_ref ref
       (if is_bookkeeping d \<or> doc_public_ref d \<noteq> ref then found
        else (case found of
                None \<Rightarrow> Some d
              | Some f \<Rightarrow> if candidate_rank d < candidate_rank f then Some d else Some f)) ds"

definition list_lease_docs :: "lease_db \<Rightarrow> string \<Rightarrow> (lease_error, lease_doc list) res" where
  "list_lease_docs db p = decode_rows (filter (\<lambda>r. lr_project r = p) (db_leases db))"

text \<open>Is the slot of the lease released with it: a runner lease that is not a checkout.\<close>

definition releases_reservation :: "lease_doc \<Rightarrow> bool" where
  "releases_reservation d =
     (bool_value (vget_any (ld_metadata d) ''runner_k8s'') \<and>
      \<not> bool_value (vget_any (ld_metadata d) ''test_slot_checkout''))"

text \<open>
  A command on the slot of a lease, retried at most five times while another writer wins. The
  read and the write of one attempt are one step here; the interleavings are in
  SlotTransitions, where an attempt that succeeds is shown to be that step.
\<close>

definition on_lease_slot ::
  "instant \<Rightarrow> instant \<Rightarrow> lease_doc \<Rightarrow> int \<Rightarrow> slot_command \<Rightarrow> lease_db \<Rightarrow> (lease_error, lease_db) res" where
  "on_lease_slot t now d i cmd db =
     (case mark_slot t now (ld_project d, i) cmd (db_slots db) of
        Inl e \<Rightarrow> Inl (LeaseSlotError e)
      | Inr (_, tbl) \<Rightarrow> Inr (db\<lparr>db_slots := tbl\<rparr>))"

definition reserve_slot :: "instant \<Rightarrow> instant \<Rightarrow> lease_doc \<Rightarrow> lease_db \<Rightarrow> (lease_error, lease_db) res" where
  "reserve_slot t now d db =
     (case runner_slot_index (ld_metadata d) of
        None \<Rightarrow> Inl LeaseWithoutSlot
      | Some i \<Rightarrow>
          if trim_space (doc_public_ref d) = [] then Inl LeaseWithoutRef
          else on_lease_slot t now d i (CmdReserve (doc_public_ref d)) db)"

definition release_reservation :: "instant \<Rightarrow> instant \<Rightarrow> lease_doc \<Rightarrow> lease_db \<Rightarrow> (lease_error, lease_db) res" where
  "release_reservation t now d db =
     (case runner_slot_index (ld_metadata d) of
        None \<Rightarrow> Inr db
      | Some i \<Rightarrow> on_lease_slot t now d i (CmdRelease (doc_public_ref d)) db)"

text \<open>Its error is dropped by the callers: the database is then unchanged.\<close>

definition try_release :: "instant \<Rightarrow> instant \<Rightarrow> lease_doc \<Rightarrow> lease_db \<Rightarrow> lease_db" where
  "try_release t now d db =
     (if releases_reservation d
      then (case release_reservation t now d db of Inl _ \<Rightarrow> db | Inr db' \<Rightarrow> db')
      else db)"

section \<open>The ends of a lease\<close>

definition ended :: "string \<Rightarrow> bool" where
  "ended st = (st = ''released'' \<or> st = ''expired'')"

definition release_payload :: "string \<Rightarrow> vmap \<Rightarrow> (lease_error, vmap) res" where
  "release_payload now_text p =
     Inr (vset ''released_at'' (VStr now_text) (vset ''state'' (VStr ''released'') p))"

datatype cancel_outcome = AlreadyTerminal string | NoActiveRun string

definition cancel_lease_by_ref ::
  "(string \<Rightarrow> instant option) \<Rightarrow> acquire_env \<Rightarrow> string \<Rightarrow> string \<Rightarrow> lease_db \<Rightarrow>
     (lease_error, cancel_outcome \<times> lease_db) res" where
  "cancel_lease_by_ref parse_time env p ref db =
     res_bind (list_lease_docs db p) (\<lambda>docs.
       case select_by_ref ref None docs of
         None \<Rightarrow> Inl LeaseNotFound
       | Some d \<Rightarrow>
           if ended (ld_state d) then Inr (AlreadyTerminal (doc_public_ref d), db)
           else res_bind (patch_payload parse_time p (ld_id d) (release_payload (ae_now_text env)) db)
             (\<lambda>(r, db1). case decode_lease (lr_payload r) of
                None \<Rightarrow> Inl LeaseUndecodable
              | Some d' \<Rightarrow>
                  Inr (NoActiveRun (doc_public_ref d), try_release (ae_write env) (ae_now env) d' db1)))"

definition release_by_token ::
  "(string \<Rightarrow> instant option) \<Rightarrow> acquire_env \<Rightarrow> string \<Rightarrow> lease_db \<Rightarrow>
     (lease_error, lease_doc \<times> lease_db) res" where
  "release_by_token parse_time env token db =
     (case find (\<lambda>r. lr_token r = token) (db_leases db) of
        None \<Rightarrow> Inl LeaseNotFound
      | Some r \<Rightarrow>
          (case decode_lease (lr_payload r) of
             None \<Rightarrow> Inl LeaseUndecodable
           | Some d \<Rightarrow>
               if ended (ld_state d) then Inr (d, try_release (ae_write env) (ae_now env) d db)
               else if bool_value (vget_any (ld_metadata d) ''test_slot_checkout'') then Inl LeaseUnsupported
               else res_bind (patch_payload parse_time (ld_project d) (ld_id d)
                                (release_payload (ae_now_text env)) db)
                 (\<lambda>(r', db1). case decode_lease (lr_payload r') of
                    None \<Rightarrow> Inl LeaseUndecodable
                  | Some d' \<Rightarrow> Inr (d', try_release (ae_write env) (ae_now env) d' db1))))"

definition set_ttl_payload :: "int \<Rightarrow> vmap \<Rightarrow> (lease_error, vmap) res" where
  "set_ttl_payload ttl p =
     (if string_value (vget_any p ''state'') \<noteq> ''claimed'' then Inl LeaseConflict
      else Inr (vset ''ttl_seconds'' (VInt ttl) p))"

definition update_lease_ttl ::
  "(string \<Rightarrow> instant option) \<Rightarrow> string \<Rightarrow> string \<Rightarrow> int \<Rightarrow> lease_db \<Rightarrow>
     (lease_error, lease_doc \<times> lease_db) res" where
  "update_lease_ttl parse_time p ref ttl db =
     (if ttl \<le> 0 then Inl LeaseTtlNotPositive
      else res_bind (list_lease_docs db p) (\<lambda>docs.
        case select_by_ref ref None docs of
          None \<Rightarrow> Inl LeaseNotFound
        | Some d \<Rightarrow>
            res_bind (patch_payload parse_time p (ld_id d)
                (set_ttl_payload ttl) db)
              (\<lambda>(r, db1). case decode_lease (lr_payload r) of
                 None \<Rightarrow> Inl LeaseUndecodable
               | Some d' \<Rightarrow> Inr (d', db1))))"

section \<open>Acquiring a lease\<close>

definition acquire_runner_lease ::
  "(string \<Rightarrow> instant option) \<Rightarrow> acquire_env \<Rightarrow> lease_request \<Rightarrow> lease_db \<Rightarrow>
     (lease_error, lease_doc) res \<times> lease_db" where
  "acquire_runner_lease parse_time env q db =
     (case validate_slot_identity (aq_metadata q) of
        Some e \<Rightarrow> (Inl e, db)
      | None \<Rightarrow>
          let (number, db1) = allocate_number (aq_project q) db in
          (case available_runner_slot db1 (aq_project q) of
             Inl e \<Rightarrow> (Inl e, db1)
           | Inr None \<Rightarrow> (Inl LeaseUnavailable, db1)
           | Inr (Some i) \<Rightarrow>
               let d = new_lease_doc env q number i (runner_slot_prefix db1 (aq_project q)) in
               (case insert_lease (new_lease_row env d) db1 of
                  Inl e \<Rightarrow> (Inl e, db1)
                | Inr db2 \<Rightarrow>
                    (case reserve_slot (ae_write env) (ae_now env) d db2 of
                       Inr db3 \<Rightarrow> (Inr d, db3)
                     | Inl e \<Rightarrow>
                         ((case e of
                             LeaseSlotError (SlotRefused _) \<Rightarrow> Inl LeaseUnavailable
                           | LeaseSlotError SlotPreconditionFailed \<Rightarrow> Inl LeaseUnavailable
                           | _ \<Rightarrow> Inl e),
                          (case cancel_lease_by_ref parse_time env (aq_project q) (doc_public_ref d) db2 of
                             Inl _ \<Rightarrow> db2 | Inr (_, db3) \<Rightarrow> db3))))))"

definition acquire_lease ::
  "(string \<Rightarrow> instant option) \<Rightarrow> acquire_env \<Rightarrow> lease_request \<Rightarrow> lease_db \<Rightarrow>
     (lease_error, lease_doc) res \<times> lease_db" where
  "acquire_lease parse_time env q db =
     (if \<not> is_runner_lease_request q then (Inl RunnerLeaseRequired, db)
      else acquire_runner_lease parse_time env q db)"

section \<open>The expiry sweep\<close>

record expiry_row =
  ex_id :: string
  ex_project :: string
  ex_state :: string
  ex_expires :: "instant option"

definition live_state :: "string \<Rightarrow> bool" where
  "live_state st = (st = ''active'' \<or> st = ''claimed'')"

definition list_expiry_rows :: "lease_db \<Rightarrow> expiry_row list" where
  "list_expiry_rows db = List.map_filter (\<lambda>r.
     map_option (\<lambda>d. \<lparr>ex_id = lr_id r, ex_project = lr_project r, ex_state = ld_state d, ex_expires = lr_expires r\<rparr>)
       (decode_lease (lr_payload r))) (db_leases db)"

definition expire_payload :: "string \<Rightarrow> vmap \<Rightarrow> (lease_error, vmap) res" where
  "expire_payload at_text p =
     (if \<not> live_state (string_value (vget_any p ''state'')) then Inr p
      else Inr (vset ''expiry_reason'' (VStr ''stale_at_startup'')
             (vset ''expired_at'' (VStr at_text) (vset ''state'' (VStr ''expired'') p))))"

definition row_is_live :: "string \<Rightarrow> string \<Rightarrow> lease_db \<Rightarrow> bool" where
  "row_is_live p i db = (case find (lease_at p i) (db_leases db) of
      None \<Rightarrow> False | Some r \<Rightarrow> live_state (string_value (vget_any (lr_payload r) ''state'')))"

definition release_expired_reservation :: "instant \<Rightarrow> instant \<Rightarrow> string \<Rightarrow> string \<Rightarrow> lease_db \<Rightarrow> lease_db" where
  "release_expired_reservation t now p i db =
     (case list_lease_docs db p of
        Inl _ \<Rightarrow> db
      | Inr docs \<Rightarrow> (case find (\<lambda>d. ld_id d = i) docs of None \<Rightarrow> db | Some d \<Rightarrow> try_release t now d db))"

definition stale_row :: "instant \<Rightarrow> expiry_row \<Rightarrow> bool" where
  "stale_row now r = (live_state (ex_state r) \<and> (case ex_expires r of None \<Rightarrow> False | Some t \<Rightarrow> t < now))"

fun expire_rows ::
  "(string \<Rightarrow> instant option) \<Rightarrow> acquire_env \<Rightarrow> expiry_row list \<Rightarrow> nat \<Rightarrow> lease_db \<Rightarrow> nat \<times> lease_db" where
  "expire_rows parse_time env [] n db = (n, db)"
| "expire_rows parse_time env (r # rs) n db =
     (if \<not> stale_row (ae_now env) r then expire_rows parse_time env rs n db
      else (case patch_payload parse_time (ex_project r) (ex_id r) (expire_payload (ae_now_text env)) db of
              Inl _ \<Rightarrow> expire_rows parse_time env rs n db
            | Inr (_, db1) \<Rightarrow>
                if row_is_live (ex_project r) (ex_id r) db
                then expire_rows parse_time env rs (Suc n)
                       (release_expired_reservation (ae_write env) (ae_now env) (ex_project r) (ex_id r) db1)
                else expire_rows parse_time env rs n db1))"

definition expire_stale_leases ::
  "(string \<Rightarrow> instant option) \<Rightarrow> acquire_env \<Rightarrow> lease_db \<Rightarrow> nat \<times> lease_db" where
  "expire_stale_leases parse_time env db = expire_rows parse_time env (list_expiry_rows db) 0 db"

end
