(* ===== verification/LeaseSafety.thy ===== *)
theory LeaseSafety
  imports Leases
begin

text \<open>
  What holds of leases, and what does not: a single caller never books a slot that is taken;
  two concurrent callers can book the same slot, because the reference that marks a
  reservation is the slot's name and not the lease's; a late release frees the slot of
  another lease; a TTL update changes no TTL and removes the expiry deadline.
\<close>

section \<open>The reference of a lease is the name of its slot\<close>

lemma trim_dots_Nil [simp]: "trim_dots [] = []"
  by (simp add: trim_dots_def)

lemma doc_ref_new_lease:
  "doc_public_ref (new_lease_doc env q n i pre) =
     lease_ref (aq_project q) (trim_space (slot_label (aq_project q) pre i)) (Some n)"
  by (simp add: doc_public_ref_def lease_public_ref_def lease_from_doc_def new_lease_doc_def
      set_runner_slot_metadata_def string_from_map_def slot_label_def Let_def)

text \<open>A text that ends in a digit keeps that digit when it is trimmed.\<close>

lemma trim_left_snoc: "c \<notin> set (concat white_seqs) \<Longrightarrow> \<exists>t. trim_left (s @ [c]) = t @ [c]"
proof -
  assume c: "c \<notin> set (concat white_seqs)"
  have step: "\<exists>t. strip_heads ws v = t @ [c]" if "\<forall>w \<in> set ws. c \<notin> set w" "v = s @ [c]" for ws v s
    using that
  proof (induction ws v arbitrary: s rule: strip_heads.induct)
    case (1 ws v)
    show ?case
    proof (cases "find (\<lambda>w. w \<noteq> [] \<and> prefix w v) ws")
      case None
      with "1.prems" show ?thesis by (simp add: strip_heads_stop)
    next
      case (Some w)
      then have w: "w \<in> set ws" "prefix w (s @ [c])"
        using "1.prems"(2) find_result_in [OF Some] by simp_all
      have "c \<notin> set w" using w(1) "1.prems"(1) by blast
      with w(2) have "prefix w s" by (auto simp: prefix_snoc)
      then obtain u where "s = w @ u" by (auto simp: prefix_def)
      then have "drop (length w) v = u @ [c]" using "1.prems"(2) by simp
      with "1.IH" [OF Some "1.prems"(1)] Some show ?thesis by (simp only: strip_heads_step)
    qed
  qed
  show ?thesis unfolding trim_left_def using c by (intro step) auto
qed

lemma slot_label_last: "1 \<le> i \<Longrightarrow> \<exists>t. slot_label p pre i = t @ [last (itoa i)]"
  by (metis append_assoc append_butlast_last_id itoa_ne slot_label_def)

lemma digit_not_in_white: "is_digit c \<Longrightarrow> c \<notin> set (concat white_seqs)"
  by (auto simp: char_class_defs white_seqs_def)

lemma trimmed_label_ne: "1 \<le> i \<Longrightarrow> trim_space (slot_label p pre i) \<noteq> []"
proof -
  assume i: "1 \<le> i"
  then obtain t where t: "slot_label p pre i = t @ [last (itoa i)]" using slot_label_last by blast
  have "is_digit (last (itoa i))" using i itoa_nonneg_digits [of i] by (simp add: list_all_iff)
  then obtain u where "trim_left (slot_label p pre i) = u @ [last (itoa i)]"
    using trim_left_snoc digit_not_in_white t by metis
  moreover have "trim_right (u @ [last (itoa i)]) = u @ [last (itoa i)]" for u
    using i itoa_ends by (intro trim_right_plain) blast
  ultimately show ?thesis by (simp add: trim_space_def)
qed

lemma same_slot_same_ref:
  "1 \<le> i \<Longrightarrow> aq_project q = aq_project q' \<Longrightarrow>
     doc_public_ref (new_lease_doc env q n i pre) = doc_public_ref (new_lease_doc env' q' n' i pre)"
  using trimmed_label_ne [of i "aq_project q" pre] by (simp add: doc_ref_new_lease lease_ref_def)


section \<open>Commands on the slot of a lease\<close>

lemma mark_slot_hit:
  assumes "tbl k = Some r" "apply_command now cmd (slot_from_row r) = Inr s"
  shows "mark_slot t now k cmd tbl =
     Inr ((without_etag s)\<lparr>sl_etag := Some t\<rparr>, tbl(k \<mapsto> \<lparr>row_payload = without_etag s, row_updated = t\<rparr>))"
proof -
  have "get_slot tbl k = Inr (slot_from_row r)" using assms(1) by (simp add: get_slot_def pg_get_def)
  moreover have "sl_etag (slot_from_row r) = Some (row_updated r)" by (simp add: slot_from_row_def)
  ultimately show ?thesis
    using assms command_key [OF assms(2)]
    by (simp add: mark_slot_def update_if_match_def update_write_Inr row_swap_Some)
qed

lemma mark_slot_Inr:
  "mark_slot t now k cmd tbl = Inr (s', tbl') \<Longrightarrow>
     \<exists>r s. tbl k = Some r \<and> apply_command now cmd (slot_from_row r) = Inr s \<and>
       tbl' = tbl(k \<mapsto> \<lparr>row_payload = without_etag s, row_updated = t\<rparr>)"
  by (auto simp: mark_slot_def update_if_match_def get_slot_def pg_get_def update_write_Inr
      row_swap_Some res_bind_Inr_iff split: option.splits)

lemma slot_from_row_fields [simp]:
  "sl_state (slot_from_row r) = sl_state (row_payload r)"
  "sl_lease (slot_from_row r) = sl_lease (row_payload r)"
  by (simp_all add: slot_from_row_def)

lemma without_etag_fields [simp]:
  "sl_state (without_etag s) = sl_state s" "sl_lease (without_etag s) = sl_lease s"
  by (simp_all add: without_etag_def)

lemma reserve_Inr:
  "mark_reserved now ref s = Inr s' \<Longrightarrow>
     sl_state s = Provisioned \<and> \<not> held_by_other s ref \<and> sl_state s' = Provisioned \<and> sl_lease s' = Some ref"
  by (auto simp: mark_reserved_def res_bind_Inr_iff split: if_splits)

lemma release_held:
  "sl_state s = Provisioned \<Longrightarrow> sl_lease s = Some ref \<Longrightarrow>
     mark_reservation_released now ref s = Inr (s\<lparr>sl_lease := None, sl_updated := now\<rparr>)"
  by (simp add: mark_reservation_released_def can_transition_to_def held_by_other_def)

section \<open>One caller at a time\<close>

lemma atoi_itoa_Some: "1 \<le> i \<Longrightarrow> atoi (itoa i) = Some j \<Longrightarrow> j = i"
proof -
  assume i: "1 \<le> i" and j: "atoi (itoa i) = Some j"
  have hd: "hd (itoa i) \<noteq> CHR ''-'' \<and> hd (itoa i) \<noteq> CHR ''+''"
    using i nat_dec_hd is_digit_not_sign by (simp add: itoa_def)
  have "int (dec_val (itoa i)) = i" using i by (simp add: itoa_def)
  with j hd show "j = i" by (auto simp: atoi_def Let_def split: if_splits)
qed

lemma new_lease_slot:
  assumes "runner_slot_index (ld_metadata (new_lease_doc env q n i pre)) = Some j" "1 \<le> i"
  shows "j = i"
  using assms by (auto simp: runner_slot_index_def new_lease_doc_def set_runner_slot_metadata_def
    trim_space_digits itoa_nonneg_digits at_least_one_def dest: atoi_itoa_Some
    split: option.splits if_splits)

lemma ready_slot_in:
  assumes "i \<in> set (runner_ready_slots db p)" "\<And>i r. db_slots db (p, i) = Some r \<Longrightarrow> sl_index (row_payload r) = i"
  shows "1 \<le> i \<and> (\<exists>r. db_slots db (p, i) = Some r \<and> slot_ready (row_payload r))"
  using assms
  by (fastforce simp: runner_ready_slots_def select_ready_slot_indices_def list_slots_def
      List.map_filter_def split: option.splits)

lemma available_slot_Some:
  assumes "available_runner_slot db p = Inr (Some i)"
  shows "i \<in> set (runner_ready_slots db p) \<and>
     (\<exists>docs. decode_rows (filter (claimed_runner_row p) (db_leases db)) = Inr docs \<and>
        i \<notin> set (used_slots p docs))"
  using assms
  by (auto simp: available_runner_slot_def res_bind_Inr_iff select_available_runner_slot_def
      dest: find_result_in)

lemma allocate_fields:
  "allocate_number p db = (n, db') \<Longrightarrow>
     db_leases db' = db_leases db \<and> db_slots db' = db_slots db \<and> db_projects db' = db_projects db"
  by (auto simp: allocate_number_def Let_def)

lemma available_cong:
  "db_leases db' = db_leases db \<Longrightarrow> db_slots db' = db_slots db \<Longrightarrow> db_projects db' = db_projects db \<Longrightarrow>
     available_runner_slot db' p = available_runner_slot db p"
  by (simp add: available_runner_slot_def runner_ready_slots_def standby_of_def cong: option.case_cong)

text \<open>What a successful acquisition went through.\<close>

lemma acquire_success:
  assumes "acquire_runner_lease parse_time env q db = (Inr d, db')"
  shows "\<exists>n i pre db2. d = new_lease_doc env q n i pre \<and>
     available_runner_slot db (aq_project q) = Inr (Some i) \<and>
     db_slots db2 = db_slots db \<and> db_leases db2 = new_lease_row env d # db_leases db \<and>
     reserve_slot (ae_write env) (ae_now env) d db2 = Inr db' \<and>
     n = seeded_counter db (aq_project q) \<and> ae_lease_id env \<notin> lr_id ` set (db_leases db)"
proof -
  obtain n db1 where a: "allocate_number (aq_project q) db = (n, db1)" by (cases "allocate_number (aq_project q) db")
  note f = allocate_fields [OF a]
  have av: "available_runner_slot db1 (aq_project q) = available_runner_slot db (aq_project q)"
    using f by (intro available_cong) simp_all
  from assms a obtain i where i: "available_runner_slot db1 (aq_project q) = Inr (Some i)"
    by (auto simp: acquire_runner_lease_def Let_def split: option.splits sum.splits)
  let ?d = "new_lease_doc env q n i (runner_slot_prefix db1 (aq_project q))"
  from assms a i obtain db2 where ins: "insert_lease (new_lease_row env ?d) db1 = Inr db2"
      and res: "reserve_slot (ae_write env) (ae_now env) ?d db2 = Inr db'" "d = ?d"
    by (auto simp: acquire_runner_lease_def Let_def
        split: option.splits sum.splits lease_error.splits slot_store_error.splits)
  from ins have "db2 = db1\<lparr>db_leases := new_lease_row env ?d # db_leases db1\<rparr>" "ae_lease_id env \<notin> lr_id ` set (db_leases db1)"
    by (simp_all add: insert_lease_def new_lease_row_def new_lease_doc_def split: if_splits)
  moreover from a have "n = seeded_counter db (aq_project q)" by (simp add: allocate_number_def Let_def)
  ultimately show ?thesis using f i av res
    by (intro exI [of _ n] exI [of _ i] exI [of _ "runner_slot_prefix db1 (aq_project q)"] exI [of _ db2]) simp
qed


text \<open>The slot rows are stored under their own index (an invariant of SlotTransitions).\<close>

definition slots_keyed :: "slot_table \<Rightarrow> bool" where
  "slots_keyed tbl = (\<forall>k r. tbl k = Some r \<longrightarrow> slot_key (row_payload r) = k)"

text \<open>
  C2: A lease that is acquired without interference gets a slot within the declared count that
  was provisioned, held by no lease and used by no claimed runner lease of the project; the
  lease is stored as claimed and the slot is reserved under its reference, so that it is no longer
  free for anyone.
\<close>
theorem acquire_books_free_slot:
  assumes "acquire_runner_lease parse_time env q db = (Inr d, db')" "slots_keyed (db_slots db)"
  shows "\<exists>i r0 r docs. runner_slot_index (ld_metadata d) = Some i \<and> 1 \<le> i \<and>
     db_slots db (aq_project q, i) = Some r0 \<and> slot_ready (row_payload r0) \<and>
     decode_rows (filter (claimed_runner_row (aq_project q)) (db_leases db)) = Inr docs \<and>
     i \<notin> set (used_slots (aq_project q) docs) \<and>
     db_slots db' (aq_project q, i) = Some r \<and> sl_state (row_payload r) = Provisioned \<and>
     sl_lease (row_payload r) = Some (doc_public_ref d) \<and>
     new_lease_row env d \<in> set (db_leases db') \<and> ld_state d = ''claimed''"
proof -
  obtain n i pre db2 where d: "d = new_lease_doc env q n i pre"
      and av: "available_runner_slot db (aq_project q) = Inr (Some i)"
      and db2: "db_slots db2 = db_slots db" "db_leases db2 = new_lease_row env d # db_leases db"
      and res: "reserve_slot (ae_write env) (ae_now env) d db2 = Inr db'"
    using acquire_success [OF assms(1)] by blast
  from available_slot_Some [OF av] obtain docs where ready: "i \<in> set (runner_ready_slots db (aq_project q))"
      and docs: "decode_rows (filter (claimed_runner_row (aq_project q)) (db_leases db)) = Inr docs"
        "i \<notin> set (used_slots (aq_project q) docs)" by blast
  have "db_slots db (aq_project q, j) = Some r \<Longrightarrow> sl_index (row_payload r) = j" for j r
    using assms(2) by (fastforce simp: slots_keyed_def slot_key_def)
  from ready_slot_in [OF ready this] obtain r0 where i: "1 \<le> i"
      and r0: "db_slots db (aq_project q, i) = Some r0" "slot_ready (row_payload r0)" by blast
  have proj: "ld_project d = aq_project q" by (simp add: d new_lease_doc_def)
  from res obtain j where j: "runner_slot_index (ld_metadata d) = Some j"
    by (auto simp: reserve_slot_def split: option.splits)
  then have ij: "j = i" using i d new_lease_slot by blast
  with res j obtain tbl s' where m: "mark_slot (ae_write env) (ae_now env) (aq_project q, i)
      (CmdReserve (doc_public_ref d)) (db_slots db2) = Inr (s', tbl)" "db' = db2\<lparr>db_slots := tbl\<rparr>"
    by (auto simp: reserve_slot_def on_lease_slot_def proj split: if_splits sum.splits)
  from mark_slot_Inr [OF m(1)] obtain r s where
    "mark_reserved (ae_now env) (doc_public_ref d) (slot_from_row r) = Inr s"
    "tbl = (db_slots db2)((aq_project q, i) \<mapsto> \<lparr>row_payload = without_etag s, row_updated = ae_write env\<rparr>)"
    by auto
  with reserve_Inr m(2) db2(2) i r0 docs j ij show ?thesis
    by (fastforce simp: d new_lease_doc_def)
qed

text \<open>A project with one provisioned slot and a request for it.\<close>

definition free_slot :: slot where
  "free_slot = (new_unseeded_slot ''p'' 1 ''p-1'' 1)\<lparr>sl_state := Provisioned, sl_provisioned_at := Some 1\<rparr>"

definition one_slot_db :: lease_db where
  "one_slot_db = \<lparr>db_leases = [], db_counters = Map.empty,
     db_projects = [''p'' \<mapsto> [(''runner_standby_dns'', VMap [(''count'', VNum 1)])]],
     db_slots = [(''p'', 1) \<mapsto> \<lparr>row_payload = free_slot, row_updated = 1\<rparr>]\<rparr>"

definition plain_request :: lease_request where
  "plain_request = \<lparr>aq_project = ''p'', aq_workflow = None, aq_requirements = [],
     aq_metadata = [(''runner_k8s'', VBool True)],
     aq_requester = \<lparr>rq_consumer = [], rq_kind = [], rq_ref = [], rq_label = None, rq_url = None, rq_metadata = []\<rparr>,
     aq_ttl = None\<rparr>"

definition env_of :: "string \<Rightarrow> instant \<Rightarrow> acquire_env" where
  "env_of i t = \<lparr>ae_now = t, ae_now_text = ''t'', ae_lease_id = i, ae_token = i @ ''-token'', ae_write = t\<rparr>"

lemma one_slot_available: "available_runner_slot one_slot_db ''p'' = Inr (Some 1)"
  by (simp add: available_runner_slot_def one_slot_db_def runner_ready_slots_def standby_of_def
      vget_any_def go_trunc_def at_least_one_def int64_ok_def select_ready_slot_indices_def list_slots_def
      free_slot_def new_unseeded_slot_def slot_ready_def select_available_runner_slot_def used_slots_def
      List.map_filter_def upto_rec1)


lemma new_lease_slot_ok:
  "1 \<le> i \<Longrightarrow> int64_ok i \<Longrightarrow> runner_slot_index (ld_metadata (new_lease_doc env q n i pre)) = Some i"
  by (simp add: runner_slot_index_def new_lease_doc_def set_runner_slot_metadata_def positive_int_texts
      del: positive_int_value.simps)

lemma new_lease_ref_ne: "1 \<le> i \<Longrightarrow> trim_space (doc_public_ref (new_lease_doc env q n i pre)) \<noteq> []"
  using trimmed_label_ne [of i "aq_project q" pre] by (simp add: doc_ref_new_lease lease_ref_def)

text \<open>A provisioned slot is reserved when it is free or already carries the same reference.\<close>

definition reserved_row :: "instant \<Rightarrow> instant \<Rightarrow> string \<Rightarrow> slot \<Rightarrow> slot_row" where
  "reserved_row t now ref s =
     \<lparr>row_payload = (s\<lparr>sl_lease := Some ref, sl_updated := now, sl_detail := None\<rparr>)\<lparr>sl_etag := None\<rparr>,
      row_updated = t\<rparr>"

lemma reserve_free:
  assumes "runner_slot_index (ld_metadata d) = Some i" "trim_space (doc_public_ref d) \<noteq> []"
    "db_slots db (ld_project d, i) = Some r" "sl_state (row_payload r) = Provisioned"
    "sl_lease (row_payload r) \<in> {None, Some (doc_public_ref d)}"
  shows "reserve_slot t now d db = Inr (db\<lparr>db_slots :=
     (db_slots db)((ld_project d, i) \<mapsto> reserved_row t now (doc_public_ref d) (row_payload r))\<rparr>)"
proof -
  have "mark_reserved now (doc_public_ref d) (slot_from_row r) =
      Inr ((slot_from_row r)\<lparr>sl_lease := Some (doc_public_ref d), sl_updated := now, sl_detail := None\<rparr>)"
    using assms(4,5) by (auto simp: mark_reserved_def can_transition_to_def held_by_other_def)
  then have "apply_command now (CmdReserve (doc_public_ref d)) (slot_from_row r) =
      Inr ((slot_from_row r)\<lparr>sl_lease := Some (doc_public_ref d), sl_updated := now, sl_detail := None\<rparr>)"
    by simp
  from mark_slot_hit [where tbl = "db_slots db" and k = "(ld_project d, i)", OF assms(3) this] assms(1,2)
  show ?thesis
    by (simp add: reserve_slot_def on_lease_slot_def reserved_row_def without_etag_def slot_from_row_def)
qed

section \<open>Two callers at a time\<close>

text \<open>
  The stages of an acquisition between its calls of the database: a slot chosen, the lease
  stored, the slot reserved. Other callers run between any two of them.
\<close>

datatype acquirer =
    Chosen acquire_env lease_doc | Stored acquire_env lease_doc | Holding lease_doc | Gone

record lease_system =
  lq_db :: lease_db
  lq_callers :: "nat \<rightharpoonup> acquirer"

inductive acquire_step :: "lease_system \<Rightarrow> lease_system \<Rightarrow> bool" where
  acq_choose: "validate_slot_identity (aq_metadata q) = None \<Longrightarrow>
     allocate_number (aq_project q) (lq_db st) = (n, db1) \<Longrightarrow>
     available_runner_slot db1 (aq_project q) = Inr (Some i) \<Longrightarrow>
     acquire_step st (st\<lparr>lq_db := db1, lq_callers := (lq_callers st)
       (c \<mapsto> Chosen env (new_lease_doc env q n i (runner_slot_prefix db1 (aq_project q))))\<rparr>)"
| acq_store: "lq_callers st c = Some (Chosen env d) \<Longrightarrow>
     insert_lease (new_lease_row env d) (lq_db st) = Inr db' \<Longrightarrow>
     acquire_step st (st\<lparr>lq_db := db', lq_callers := (lq_callers st)(c \<mapsto> Stored env d)\<rparr>)"
| acq_reserve: "lq_callers st c = Some (Stored env d) \<Longrightarrow>
     reserve_slot (ae_write env) (ae_now env) d (lq_db st) = Inr db' \<Longrightarrow>
     acquire_step st (st\<lparr>lq_db := db', lq_callers := (lq_callers st)(c \<mapsto> Holding d)\<rparr>)"
| acq_refused: "lq_callers st c = Some (Stored env d) \<Longrightarrow>
     reserve_slot (ae_write env) (ae_now env) d (lq_db st) = Inl e \<Longrightarrow>
     cancel_lease_by_ref parse_time env (ld_project d) (doc_public_ref d) (lq_db st) = Inr (out, db') \<Longrightarrow>
     acquire_step st (st\<lparr>lq_db := db', lq_callers := (lq_callers st)(c \<mapsto> Gone)\<rparr>)"

inductive_cases acquire_stepE: "acquire_step st st'"

definition holds_slot :: "lease_system \<Rightarrow> nat \<Rightarrow> lease_doc \<Rightarrow> int \<Rightarrow> bool" where
  "holds_slot st c d i =
     (lq_callers st c = Some (Holding d) \<and> runner_slot_index (ld_metadata d) = Some i \<and>
      ld_state d = ''claimed'' \<and> (\<exists>env. new_lease_row env d \<in> set (db_leases (lq_db st))))"

definition booking_start :: "lease_db \<Rightarrow> lease_system" where
  "booking_start db = \<lparr>lq_db = db, lq_callers = Map.empty\<rparr>"

lemma six_steps:
  "R a b \<Longrightarrow> R b c \<Longrightarrow> R c d \<Longrightarrow> R d e \<Longrightarrow> R e f \<Longrightarrow> R f g \<Longrightarrow> R\<^sup>*\<^sup>* a g"
  by (blast intro: converse_rtranclp_into_rtranclp)

lemma allocate_prefix: "allocate_number p db = (n, db1) \<Longrightarrow> runner_slot_prefix db1 x = runner_slot_prefix db x"
  by (auto simp: allocate_number_def Let_def runner_slot_prefix_def standby_of_def)

text \<open>
  C37: Whenever a slot of the declared count is free, two concurrent requests for the project, whose
  generated ids and callback tokens are new, can both be granted it: both leases end up claimed and stored for the same slot. The reservation
  does not tell them apart, because its reference is the name of the slot.
\<close>
theorem concurrent_double_booking:
  fixes e1 e2 :: acquire_env and q1 q2 :: lease_request and db :: lease_db
  assumes "available_runner_slot db p = Inr (Some i)" "slots_keyed (db_slots db)" "int64_ok i"
    "aq_project q1 = p" "aq_project q2 = p"
    "validate_slot_identity (aq_metadata q1) = None" "validate_slot_identity (aq_metadata q2) = None"
    "ae_lease_id e1 \<noteq> ae_lease_id e2"
    "ae_lease_id e1 \<notin> lr_id ` set (db_leases db)" "ae_lease_id e2 \<notin> lr_id ` set (db_leases db)"
    "ae_token e1 \<noteq> ae_token e2"
    "ae_token e1 \<notin> lr_token ` set (db_leases db)" "ae_token e2 \<notin> lr_token ` set (db_leases db)"
  shows "\<exists>st d1 d2. acquire_step\<^sup>*\<^sup>* (booking_start db) st \<and> holds_slot st 1 d1 i \<and> holds_slot st 2 d2 i \<and>
           ld_id d1 \<noteq> ld_id d2"
proof -
  obtain n1 db1 where a1: "allocate_number p db = (n1, db1)" by (cases "allocate_number p db")
  obtain n2 db2 where a2: "allocate_number p db1 = (n2, db2)" by (cases "allocate_number p db1")
  note f = allocate_fields [OF a1] allocate_fields [OF a2]
  have av1: "available_runner_slot db1 p = Inr (Some i)" and av2: "available_runner_slot db2 p = Inr (Some i)"
    using f assms(1) available_cong by metis+
  have keyed: "db_slots db (p, j) = Some r \<Longrightarrow> sl_index (row_payload r) = j" for j r
    using assms(2) by (fastforce simp: slots_keyed_def slot_key_def)
  from available_slot_Some [OF assms(1)] ready_slot_in keyed obtain r where i: "1 \<le> i"
      and r: "db_slots db (p, i) = Some r" "slot_ready (row_payload r)" by blast
  define d1 where "d1 = new_lease_doc e1 q1 n1 i (runner_slot_prefix db p)"
  define d2 where "d2 = new_lease_doc e2 q2 n2 i (runner_slot_prefix db p)"
  have ref: "doc_public_ref d2 = doc_public_ref d1"
    unfolding d1_def d2_def using i assms(4,5) by (intro same_slot_same_ref) simp_all
  have idx: "runner_slot_index (ld_metadata d1) = Some i" "runner_slot_index (ld_metadata d2) = Some i"
    unfolding d1_def d2_def using i assms(3) by (rule new_lease_slot_ok)+
  have ne: "trim_space (doc_public_ref d1) \<noteq> []" "trim_space (doc_public_ref d2) \<noteq> []"
    unfolding d1_def d2_def using i new_lease_ref_ne by blast+
  have proj: "ld_project d1 = p" "ld_project d2 = p" "ld_id d1 = ae_lease_id e1" "ld_id d2 = ae_lease_id e2"
      "ld_state d1 = ''claimed''" "ld_state d2 = ''claimed''"
    using assms(4,5) by (simp_all add: d1_def d2_def new_lease_doc_def)
  let ?r1 = "new_lease_row e1 d1" and ?r2 = "new_lease_row e2 d2"
  let ?db3 = "db2\<lparr>db_leases := ?r1 # db_leases db\<rparr>"
  let ?db4 = "db2\<lparr>db_leases := ?r2 # ?r1 # db_leases db\<rparr>"
  have ins: "insert_lease ?r1 db2 = Inr ?db3" "insert_lease ?r2 ?db3 = Inr ?db4"
    using assms(8-13) f proj by (auto simp: insert_lease_def new_lease_row_def)
  let ?x1 = "reserved_row (ae_write e1) (ae_now e1) (doc_public_ref d1) (row_payload r)"
  let ?db5 = "?db4\<lparr>db_slots := (db_slots db2)((p, i) \<mapsto> ?x1)\<rparr>"
  have res1: "reserve_slot (ae_write e1) (ae_now e1) d1 ?db4 = Inr ?db5"
    using reserve_free [of d1 i ?db4 r] idx ne proj r f by (simp add: slot_ready_def)
  obtain db6 where res2: "reserve_slot (ae_write e2) (ae_now e2) d2 ?db5 = Inr db6"
      and leases: "db_leases db6 = ?r2 # ?r1 # db_leases db"
    using reserve_free [of d2 i ?db5 ?x1] idx ne proj r ref by (simp add: slot_ready_def reserved_row_def)
  let ?s0 = "booking_start db"
  let ?s1 = "\<lparr>lq_db = db1, lq_callers = [1 \<mapsto> Chosen e1 d1]\<rparr>"
  let ?s2 = "\<lparr>lq_db = db2, lq_callers = [1 \<mapsto> Chosen e1 d1, 2 \<mapsto> Chosen e2 d2]\<rparr>"
  let ?s3 = "\<lparr>lq_db = ?db3, lq_callers = [1 \<mapsto> Stored e1 d1, 2 \<mapsto> Chosen e2 d2]\<rparr>"
  let ?s4 = "\<lparr>lq_db = ?db4, lq_callers = [1 \<mapsto> Stored e1 d1, 2 \<mapsto> Stored e2 d2]\<rparr>"
  let ?s5 = "\<lparr>lq_db = ?db5, lq_callers = [1 \<mapsto> Holding d1, 2 \<mapsto> Stored e2 d2]\<rparr>"
  let ?s6 = "\<lparr>lq_db = db6, lq_callers = [1 \<mapsto> Holding d1, 2 \<mapsto> Holding d2]\<rparr>"
  have "acquire_step ?s0 ?s1" "acquire_step ?s1 ?s2"
    using acq_choose [of q1 ?s0 n1 db1 i 1 e1] acq_choose [of q2 ?s1 n2 db2 i 2 e2] a1 a2 av1 av2 assms(4-7)
      allocate_prefix [OF a1] allocate_prefix [OF a2]
    by (simp_all add: booking_start_def d1_def d2_def)
  moreover have "acquire_step ?s2 ?s3" "acquire_step ?s3 ?s4"
    using acq_store [of ?s2 1 e1 d1 ?db3] acq_store [of ?s3 2 e2 d2 ?db4] ins
    by (simp_all add: fun_upd_twist)
  moreover have "acquire_step ?s4 ?s5" "acquire_step ?s5 ?s6"
    using acq_reserve [of ?s4 1 e1 d1 ?db5] acq_reserve [of ?s5 2 e2 d2 db6] res1 res2
    by (simp_all add: fun_upd_twist)
  ultimately have "acquire_step\<^sup>*\<^sup>* ?s0 ?s6"
    by (rule six_steps)
  moreover have "holds_slot ?s6 1 d1 i" "holds_slot ?s6 2 d2 i"
    using idx proj leases by (auto simp: holds_slot_def)
  ultimately show ?thesis using assms(8) proj(3,4) by metis
qed


lemma one_slot_keyed: "slots_keyed (db_slots one_slot_db)"
  by (simp add: slots_keyed_def one_slot_db_def slot_key_def free_slot_def new_unseeded_slot_def)

lemma plain_request_valid: "validate_slot_identity (aq_metadata plain_request) = None"
  by (simp add: validate_slot_identity_def plain_request_def slot_identity_keys_def phase_input_keys_def
      vget_any_def Let_def)

theorem concurrent_double_booking_witness:
  "\<exists>st d1 d2. acquire_step\<^sup>*\<^sup>* (booking_start one_slot_db) st \<and>
     holds_slot st 1 d1 1 \<and> holds_slot st 2 d2 1 \<and> ld_id d1 \<noteq> ld_id d2"
  by (rule concurrent_double_booking [OF one_slot_available one_slot_keyed, where
        ?q1.0 = plain_request and ?q2.0 = plain_request and ?e1.0 = "env_of ''a'' 2" and ?e2.0 = "env_of ''b'' 2"])
     (simp_all add: plain_request_valid, simp_all add: plain_request_def env_of_def one_slot_db_def int64_ok_def)

lemma plain_acquire:
  "\<exists>d db'. acquire_runner_lease parse_time (env_of ''a'' 2) plain_request one_slot_db = (Inr d, db')"
proof -
  obtain n db1 where a: "allocate_number ''p'' one_slot_db = (n, db1)" by (cases "allocate_number ''p'' one_slot_db")
  note f = allocate_fields [OF a]
  have av: "available_runner_slot db1 ''p'' = Inr (Some 1)"
    using f one_slot_available available_cong by metis
  let ?d = "new_lease_doc (env_of ''a'' 2) plain_request n 1 (runner_slot_prefix db1 ''p'')"
  let ?db2 = "db1\<lparr>db_leases := [new_lease_row (env_of ''a'' 2) ?d]\<rparr>"
  have ins: "insert_lease (new_lease_row (env_of ''a'' 2) ?d) db1 = Inr ?db2"
    using f by (simp add: insert_lease_def one_slot_db_def)
  have p: "aq_project plain_request = ''p''" "ld_project ?d = ''p''"
    by (simp_all add: plain_request_def new_lease_doc_def)
  have "db_slots ?db2 (''p'', 1) = Some \<lparr>row_payload = free_slot, row_updated = 1\<rparr>"
    using f by (simp add: one_slot_db_def)
  then obtain db3 where "reserve_slot 2 2 ?d ?db2 = Inr db3"
    using reserve_free [of ?d 1 ?db2 "\<lparr>row_payload = free_slot, row_updated = 1\<rparr>" 2 2]
      new_lease_slot_ok [of 1] new_lease_ref_ne [of 1] p
    by (auto simp: free_slot_def new_unseeded_slot_def int64_ok_def)
  with a av ins p plain_request_valid show ?thesis
    by (simp add: acquire_runner_lease_def env_of_def Let_def)
qed

theorem acquire_books_free_slot_witness:
  "\<exists>d db' i. acquire_runner_lease (\<lambda>_. None) (env_of ''a'' 2) plain_request one_slot_db = (Inr d, db') \<and>
     runner_slot_index (ld_metadata d) = Some i \<and> 1 \<le> i"
  using plain_acquire [of "\<lambda>_. None"] acquire_books_free_slot [OF _ one_slot_keyed] by blast


section \<open>A late release\<close>

lemma try_release_held:
  assumes "releases_reservation d" "runner_slot_index (ld_metadata d) = Some i"
    "db_slots db (ld_project d, i) = Some r" "sl_state (row_payload r) = Provisioned"
    "sl_lease (row_payload r) = Some (doc_public_ref d)"
  shows "\<exists>r'. try_release t now d db = db\<lparr>db_slots := (db_slots db)((ld_project d, i) \<mapsto> r')\<rparr> \<and>
     sl_state (row_payload r') = Provisioned \<and> sl_lease (row_payload r') = None"
proof -
  let ?s = "(slot_from_row r)\<lparr>sl_lease := None, sl_updated := now\<rparr>"
  have "apply_command now (CmdRelease (doc_public_ref d)) (slot_from_row r) = Inr ?s"
    using assms(4,5) release_held by simp
  from mark_slot_hit [where tbl = "db_slots db" and k = "(ld_project d, i)", OF assms(3) this] assms
  show ?thesis
    by (intro exI [of _ "\<lparr>row_payload = without_etag ?s, row_updated = t\<rparr>"])
       (simp add: try_release_def release_reservation_def on_lease_slot_def)
qed

lemma releases_new_lease:
  "\<not> bool_value (vget_any (aq_metadata q) ''test_slot_checkout'') \<Longrightarrow>
     releases_reservation (new_lease_doc env q n i pre)"
  by (simp add: releases_reservation_def new_lease_doc_def set_runner_slot_metadata_def
      build_lease_metadata_def Let_def)

text \<open>
  A release callback that comes again for a lease that has ended frees the slot of whichever
  lease holds it now: the old lease and the new one have the same reference, so the slot is
  taken from the new lease although that lease is untouched and still claimed.
\<close>
theorem late_release_frees_new_lease:
  assumes "1 \<le> i" "int64_ok i" "aq_project q_old = aq_project q_new"
    "\<not> bool_value (vget_any (aq_metadata q_old) ''test_slot_checkout'')"
    "find (\<lambda>r. lr_token r = token) (db_leases db) = Some row"
    "decode_lease (lr_payload row) = Some (old\<lparr>ld_state := st\<rparr>)" "ended st"
    "old = new_lease_doc e_old q_old n_old i pre" "new = new_lease_doc e_new q_new n_new i pre"
    "db_slots db (aq_project q_new, i) = Some r" "sl_state (row_payload r) = Provisioned"
    "sl_lease (row_payload r) = Some (doc_public_ref new)"
  shows "\<exists>db' r'. release_by_token parse_time env token db = Inr (old\<lparr>ld_state := st\<rparr>, db') \<and>
     db_leases db' = db_leases db \<and> db_slots db' (aq_project q_new, i) = Some r' \<and> slot_ready (row_payload r')"
proof -
  let ?d = "old\<lparr>ld_state := st\<rparr>"
  have ref: "doc_public_ref ?d = doc_public_ref new"
    using same_slot_same_ref [OF assms(1,3)]
    by (simp add: assms(8,9) doc_public_ref_def lease_public_ref_def lease_from_doc_def)
  have d: "releases_reservation ?d" "runner_slot_index (ld_metadata ?d) = Some i" "ld_project ?d = aq_project q_new"
    using releases_new_lease [OF assms(4)] new_lease_slot_ok [OF assms(1,2)] assms(3)
    by (simp_all add: assms(8) releases_reservation_def, simp add: new_lease_doc_def)
  with try_release_held [of ?d i db r "ae_write env" "ae_now env"] assms(10-12) ref obtain r' where
    "try_release (ae_write env) (ae_now env) ?d db = db\<lparr>db_slots := (db_slots db)((aq_project q_new, i) \<mapsto> r')\<rparr>"
    "sl_state (row_payload r') = Provisioned" "sl_lease (row_payload r') = None" by auto
  with assms(5-7) show ?thesis by (simp add: release_by_token_def slot_ready_def)
qed

text \<open>A lease that was released, and the next one on its slot.\<close>

definition old_lease :: lease_doc where
  "old_lease = new_lease_doc (env_of ''a'' 2) plain_request 1 1 ''p''"

definition new_lease :: lease_doc where
  "new_lease = new_lease_doc (env_of ''b'' 9) plain_request 2 1 ''p''"

definition handover_db :: lease_db where
  "handover_db = one_slot_db\<lparr>
     db_leases := [new_lease_row (env_of ''b'' 9) new_lease,
       (new_lease_row (env_of ''a'' 2) old_lease)\<lparr>lr_payload := encode_lease (old_lease\<lparr>ld_state := ''released''\<rparr>)\<rparr>],
     db_slots := [(''p'', 1) \<mapsto>
       \<lparr>row_payload = free_slot\<lparr>sl_lease := Some (doc_public_ref new_lease)\<rparr>, row_updated = 9\<rparr>]\<rparr>"

lemma decode_stable:
  "lease_ints_ok d \<Longrightarrow> reload_map (ld_requirements d) = ld_requirements d \<Longrightarrow>
     reload_map (ld_metadata d) = ld_metadata d \<Longrightarrow> decode_lease (encode_lease d) = Some d"
  by (cases d) (simp add: decode_encode_lease)

lemma old_lease_stable:
  "reload_map (ld_requirements old_lease) = ld_requirements old_lease"
  "reload_map (ld_metadata old_lease) = ld_metadata old_lease"
  by (simp_all add: old_lease_def new_lease_doc_def plain_request_def build_lease_metadata_def
      set_runner_slot_metadata_def reload_map_def Let_def)

theorem late_release_frees_new_lease_witness:
  "\<exists>db' r'. release_by_token (\<lambda>_. None) (env_of ''x'' 20) ''a-token'' handover_db =
       Inr (old_lease\<lparr>ld_state := ''released''\<rparr>, db') \<and>
     db_leases db' = db_leases handover_db \<and> db_slots db' (''p'', 1) = Some r' \<and> slot_ready (row_payload r')"
proof -
  have ints: "lease_ints_ok (old_lease\<lparr>ld_state := ''released''\<rparr>)"
    by (simp add: lease_ints_ok_def old_lease_def new_lease_doc_def lease_ttl_def plain_request_def
        default_runner_ttl_def int64_ok_def)
  have dec: "decode_lease (encode_lease (old_lease\<lparr>ld_state := ''released''\<rparr>)) =
      Some (old_lease\<lparr>ld_state := ''released''\<rparr>)"
    using decode_stable [OF ints] old_lease_stable by simp
  have p: "aq_project plain_request = ''p''" by (simp add: plain_request_def)
  show ?thesis
    unfolding p [symmetric]
    by (rule late_release_frees_new_lease [where q_old = plain_request and q_new = plain_request and
          row = "(new_lease_row (env_of ''a'' 2) old_lease)
            \<lparr>lr_payload := encode_lease (old_lease\<lparr>ld_state := ''released''\<rparr>)\<rparr>" and
          r = "\<lparr>row_payload = free_slot\<lparr>sl_lease := Some (doc_public_ref new_lease)\<rparr>, row_updated = 9\<rparr>",
          OF _ _ _ _ _ _ _ old_lease_def new_lease_def])
       (simp_all add: dec handover_db_def new_lease_row_def env_of_def one_slot_db_def free_slot_def
         new_unseeded_slot_def ended_def int64_ok_def, simp_all add: plain_request_def vget_any_def)
qed


section \<open>A new TTL\<close>

definition rows_written :: "lease_db \<Rightarrow> bool" where
  "rows_written db = (\<forall>r \<in> set (db_leases db). \<exists>d. lr_payload r = encode_lease d)"

lemma ttl_payload:
  assumes "p = reload_map (vset ''ttl_seconds'' (VInt ttl) (encode_lease d))"
  shows "decode_lease p = decode_lease (encode_lease d)"
  unfolding assms reload_map_vset reload_encode_lease
  by (rule decode_lease_cong) (auto simp: lease_keys_def)

lemma ttl_expires: "payload_expires parse_time (vset ''ttl_seconds'' (VInt ttl) (encode_lease d)) = None"
  by (simp add: payload_expires_def)

lemma patch_payload_Inr:
  "patch_payload parse_time p i mutate db = Inr (r', db') \<Longrightarrow>
     \<exists>r. r \<in> set (db_leases db) \<and> lease_at p i r \<and> patch_row parse_time mutate r = Inr r' \<and>
       r' \<in> set (db_leases db')"
  by (auto simp: patch_payload_def res_bind_Inr_iff dest!: find_result_in split: option.splits)

text \<open>
  Setting the TTL of a lease that was stored by an acquisition changes no TTL: the
  lease it returns is the lease as it was, because the new TTL goes under a key that is never read. The
  row's deadline is erased instead, and a row without a deadline is skipped by every expiry sweep.
\<close>
theorem ttl_update_is_lost:
  assumes "update_lease_ttl parse_time p ref ttl db = Inr (d', db')" "rows_written db"
  shows "\<exists>r \<in> set (db_leases db). \<exists>r' \<in> set (db_leases db'). lr_id r' = lr_id r \<and>
     decode_lease (lr_payload r) = Some d' \<and> decode_lease (lr_payload r') = Some d' \<and>
     lr_expires r' = None \<and> (\<forall>now e. ex_expires e = lr_expires r' \<longrightarrow> \<not> stale_row now e)"
proof -
  from assms(1) obtain d :: lease_doc and r' where patch: "patch_payload parse_time p (ld_id d)
      (set_ttl_payload ttl) db = Inr (r', db')"
      and dec: "decode_lease (lr_payload r') = Some d'"
    by (auto simp: update_lease_ttl_def res_bind_Inr_iff split: if_splits option.splits)
  from patch_payload_Inr [OF patch] obtain r where r: "r \<in> set (db_leases db)" "r' \<in> set (db_leases db')"
      and row: "patch_row parse_time (set_ttl_payload ttl) r = Inr r'" by blast
  from r(1) assms(2) obtain x where x: "lr_payload r = encode_lease x" by (auto simp: rows_written_def)
  with row have "lr_id r' = lr_id r" "lr_expires r' = None"
      "lr_payload r' = reload_map (vset ''ttl_seconds'' (VInt ttl) (encode_lease x))"
    by (auto simp: patch_row_def set_ttl_payload_def res_bind_Inr_iff ttl_expires split: if_splits)
  moreover from this dec ttl_payload [OF refl, of ttl x] x
  have "decode_lease (lr_payload r) = Some d'" by simp
  ultimately show ?thesis
    using r dec by (intro bexI [of _ r] bexI [of _ r']) (simp_all add: stale_row_def)
qed

definition held_db :: lease_db where
  "held_db = one_slot_db\<lparr>db_leases := [new_lease_row (env_of ''a'' 2) old_lease]\<rparr>"

lemma old_lease_decodes: "decode_lease (encode_lease old_lease) = Some old_lease"
  using decode_stable [of old_lease] old_lease_stable
  by (simp add: lease_ints_ok_def old_lease_def new_lease_doc_def lease_ttl_def plain_request_def
        default_runner_ttl_def int64_ok_def)

lemma old_lease_fields:
  "ld_id old_lease = ''a''" "ld_project old_lease = ''p''" "ld_state old_lease = ''claimed''" "ld_kind old_lease = []"
  by (simp_all add: old_lease_def new_lease_doc_def plain_request_def env_of_def)

lemma held_ttl_update:
  "\<exists>db'. update_lease_ttl (\<lambda>_. None) ''p'' (doc_public_ref old_lease) 60 held_db = Inr (old_lease, db')"
proof -
  have "decode_lease (vset ''ttl_seconds'' (VNum 60) (encode_lease old_lease)) = Some old_lease"
    using ttl_payload [OF refl, of 60 old_lease] old_lease_decodes by (simp add: reload_map_vset)
  then show ?thesis
    by (simp add: update_lease_ttl_def list_lease_docs_def held_db_def new_lease_row_def old_lease_fields
      old_lease_decodes is_bookkeeping_def patch_payload_def lease_at_def patch_row_def
      set_ttl_payload_def reload_map_vset)
qed

theorem ttl_update_is_lost_witness:
  "\<exists>db' r'. update_lease_ttl (\<lambda>_. None) ''p'' (doc_public_ref old_lease) 60 held_db = Inr (old_lease, db') \<and>
     r' \<in> set (db_leases db') \<and> decode_lease (lr_payload r') = Some old_lease \<and> lr_expires r' = None"
proof -
  obtain db' where db': "update_lease_ttl (\<lambda>_. None) ''p'' (doc_public_ref old_lease) 60 held_db = Inr (old_lease, db')"
    using held_ttl_update by blast
  have "rows_written held_db" by (auto simp: rows_written_def held_db_def new_lease_row_def)
  from ttl_update_is_lost [OF db' this] db' show ?thesis by blast
qed


section \<open>The expiry sweep\<close>

definition row_key :: "lease_row \<Rightarrow> string \<times> string" where
  "row_key r = (lr_project r, lr_id r)"

definition expiry_key :: "expiry_row \<Rightarrow> string \<times> string" where
  "expiry_key e = (ex_project e, ex_id e)"

definition row_state :: "lease_row \<Rightarrow> string" where
  "row_state r = string_value (vget_any (lr_payload r) ''state'')"

text \<open>A row after the sweep's patch.\<close>

definition swept_row :: "(string \<Rightarrow> instant option) \<Rightarrow> string \<Rightarrow> lease_row \<Rightarrow> lease_row" where
  "swept_row parse_time at_text r =
     (case patch_row parse_time (expire_payload at_text) r of Inl _ \<Rightarrow> r | Inr r' \<Rightarrow> r')"

lemma patch_expire: "patch_row parse_time (expire_payload t) r = Inr (swept_row parse_time t r)"
  by (simp add: swept_row_def patch_row_def expire_payload_def)

lemma swept_row_key [simp]: "row_key (swept_row parse_time t r) = row_key r"
  by (simp add: swept_row_def patch_row_def expire_payload_def row_key_def)

lemma lease_at_key: "lease_at p i r \<longleftrightarrow> row_key r = (p, i)"
  by (auto simp: lease_at_def row_key_def)

lemma map_at_key:
  "distinct (map row_key rs) \<Longrightarrow> find (lease_at p i) rs = Some r \<Longrightarrow>
     map (\<lambda>x. if lease_at p i x then f r else x) rs = map (\<lambda>x. if row_key x = (p, i) then f x else x) rs"
  by (auto simp: lease_at_key distinct_map dest!: find_result_in) (metis inj_on_def)

lemma patch_sweep:
  assumes "distinct (map row_key (db_leases db))"
  shows "case patch_payload parse_time p i (expire_payload t) db of
     Inl _ \<Rightarrow> \<forall>x \<in> set (db_leases db). row_key x \<noteq> (p, i)
   | Inr (_, db1) \<Rightarrow> db_leases db1 =
       map (\<lambda>x. if row_key x = (p, i) then swept_row parse_time t x else x) (db_leases db)"
proof (cases "find (lease_at p i) (db_leases db)")
  case None
  then have "\<forall>x \<in> set (db_leases db). row_key x \<noteq> (p, i)" by (auto simp: find_None_iff lease_at_key)
  with None show ?thesis by (simp add: patch_payload_def)
next
  case (Some r)
  then show ?thesis
    using map_at_key [OF assms Some, of "swept_row parse_time t"]
    by (simp add: patch_payload_def patch_expire)
qed

lemma on_lease_slot_leases: "on_lease_slot t now d i cmd db = Inr db' \<Longrightarrow> db_leases db' = db_leases db"
  by (auto simp: on_lease_slot_def split: sum.splits)

lemma try_release_leases [simp]: "db_leases (try_release t now d db) = db_leases db"
  by (auto simp: try_release_def release_reservation_def on_lease_slot_leases split: sum.splits option.splits)

lemma release_expired_leases [simp]: "db_leases (release_expired_reservation t now p i db) = db_leases db"
  by (simp add: release_expired_reservation_def split: sum.splits option.splits)

lemma map_key_swept:
  "map row_key (map (\<lambda>x. if P x then swept_row parse_time t x else x) rs) = map row_key rs"
  by simp

definition swept_by :: "instant \<Rightarrow> expiry_row list \<Rightarrow> lease_row \<Rightarrow> bool" where
  "swept_by now es x = (\<exists>e \<in> set es. stale_row now e \<and> expiry_key e = row_key x)"

lemma swept_by_swept [simp]: "swept_by now es (swept_row parse_time t x) = swept_by now es x"
  by (simp add: swept_by_def)

lemma swept_by_Cons:
  "swept_by now (e # es) x \<longleftrightarrow> (stale_row now e \<and> expiry_key e = row_key x) \<or> swept_by now es x"
  by (auto simp: swept_by_def)

lemma expire_rows_leases:
  "distinct (map row_key (db_leases db)) \<Longrightarrow> distinct (map expiry_key es) \<Longrightarrow>
     db_leases (snd (expire_rows parse_time env es n db)) =
       map (\<lambda>x. if swept_by (ae_now env) es x then swept_row parse_time (ae_now_text env) x else x) (db_leases db)"
proof (induction parse_time env es n db rule: expire_rows.induct)
  case (1 parse_time env n db)
  then show ?case by (simp add: swept_by_def)
next
  case (2 parse_time env e es n db)
  have dist: "distinct (map expiry_key es)" "expiry_key e \<notin> expiry_key ` set es"
    using "2.prems"(2) by simp_all
  have once: "expiry_key e = row_key x \<Longrightarrow> \<not> swept_by (ae_now env) es x" for x
    using dist(2) by (auto simp: swept_by_def) (metis imageI)
  show ?case
  proof (cases "stale_row (ae_now env) e")
    case False
    with "2.IH"(1) "2.prems" dist show ?thesis by (simp add: swept_by_Cons)
  next
    case True
    note st = this
    show ?thesis
    proof (cases "patch_payload parse_time (ex_project e) (ex_id e) (expire_payload (ae_now_text env)) db")
      case (Inl err)
      with patch_sweep [OF "2.prems"(1), where p = "ex_project e" and i = "ex_id e" and t = "ae_now_text env"
          and parse_time = parse_time]
      have "\<forall>x \<in> set (db_leases db). expiry_key e \<noteq> row_key x" by (auto simp: expiry_key_def)
      with "2.IH"(2) [of err] "2.prems"(1) dist st Inl show ?thesis
        by (auto simp: swept_by_Cons intro: map_cong)
    next
      case (Inr res)
      obtain r' db1 where res: "res = (r', db1)" by (cases res)
      let ?f = "\<lambda>x. if row_key x = expiry_key e then swept_row parse_time (ae_now_text env) x else x"
      have db1: "db_leases db1 = map ?f (db_leases db)"
        using patch_sweep [OF "2.prems"(1), where p = "ex_project e" and i = "ex_id e" and t = "ae_now_text env"
          and parse_time = parse_time]
        by (simp add: Inr res expiry_key_def)
      have keys: "distinct (map row_key (db_leases db1))"
        using "2.prems"(1) unfolding db1 map_key_swept .
      have "db_leases (snd (expire_rows parse_time env (e # es) n db)) =
          map (\<lambda>x. if swept_by (ae_now env) es x then swept_row parse_time (ae_now_text env) x else x)
            (db_leases db1)"
        using "2.IH"(3,4) [OF _ Inr res [symmetric]] st Inr res keys dist by simp
      also have "\<dots> = map (\<lambda>x. if swept_by (ae_now env) (e # es) x
          then swept_row parse_time (ae_now_text env) x else x) (db_leases db)"
        unfolding db1 using once st by (auto simp: swept_by_Cons dest: once [OF sym])
      finally show ?thesis .
    qed
  qed
qed


lemma swept_row_fields:
  "live_state (row_state r) \<Longrightarrow> row_state (swept_row parse_time t r) = ''expired'' \<and>
     lr_expires (swept_row parse_time t r) = None"
  "\<not> live_state (row_state r) \<Longrightarrow> lr_payload (swept_row parse_time t r) = reload_map (lr_payload r)"
  by (simp_all add: swept_row_def patch_row_def expire_payload_def row_state_def vget_any_reload
      payload_expires_def)

text \<open>
  The sweep patches exactly the rows whose listed deadline has passed while they were listed
  as live. Such a row becomes expired and loses its deadline when it is still live; one
  that ended after it was listed keeps its payload, so a concurrent release is not overwritten.
  All other rows stay as they are.
\<close>
theorem sweep_expires_exactly_stale:
  assumes "distinct (map row_key (db_leases db))" "distinct (map expiry_key es)"
    "x \<in> set (db_leases db)"
  shows "\<exists>y \<in> set (db_leases (snd (expire_rows parse_time env es n db))). row_key y = row_key x \<and>
     (if \<not> swept_by (ae_now env) es x then y = x
      else if live_state (row_state x) then row_state y = ''expired'' \<and> lr_expires y = None
      else lr_payload y = reload_map (lr_payload x))"
proof -
  let ?f = "\<lambda>x. if swept_by (ae_now env) es x then swept_row parse_time (ae_now_text env) x else x"
  have "?f x \<in> set (db_leases (snd (expire_rows parse_time env es n db)))"
    using assms(3) by (simp add: expire_rows_leases [OF assms(1,2)])
  then show ?thesis
    by (rule bexI [rotated]) (simp add: swept_row_fields)
qed

theorem sweep_expires_exactly_stale_witness:
  "\<exists>y \<in> set (db_leases (snd (expire_stale_leases (\<lambda>_. None) (env_of ''s'' (10 ^ 15)) held_db))).
     row_state y = ''expired'' \<and> lr_expires y = None"
proof -
  let ?r = "new_lease_row (env_of ''a'' 2) old_lease" and ?env = "env_of ''s'' (10 ^ 15)"
  have rows: "db_leases held_db = [?r]" by (simp add: held_db_def)
  have es: "list_expiry_rows held_db =
      [\<lparr>ex_id = ''a'', ex_project = ''p'', ex_state = ''claimed'', ex_expires = lr_expires ?r\<rparr>]"
    by (simp add: list_expiry_rows_def rows List.map_filter_def new_lease_row_def old_lease_decodes old_lease_fields)
  have "lr_expires ?r = Some (2 + 14400 * 10 ^ 9)"
    by (simp add: new_lease_row_def old_lease_def new_lease_doc_def lease_ttl_def plain_request_def
        default_runner_ttl_def env_of_def seconds_after_def second_def wrap64_def)
  then have "swept_by (ae_now ?env) (list_expiry_rows held_db) ?r" "live_state (row_state ?r)"
    by (simp_all add: es swept_by_def stale_row_def live_state_def env_of_def expiry_key_def row_key_def
        row_state_def new_lease_row_def old_lease_fields)
  with sweep_expires_exactly_stale [of held_db "list_expiry_rows held_db" ?r "\<lambda>_. None" ?env 0] rows es
  show ?thesis by (auto simp: expire_stale_leases_def)
qed

end
