(* ===== verification/Executions.thy ===== *)
theory Executions
  imports GoValue
begin

text \<open>
  The execution projection of a run: what the dashboard shows of its phases, jobs and steps
  (\<open>phase_executions\<close> of a run document, \<open>internal/store/store/postgres.go\<close>), and
  the functions that keep it while a run is dispatched, reports events, completes and ends. The
  code edits decoded JSON objects; here an object is a record of the fields these functions
  touch. A missing text reads as the empty one (\<open>stringValue\<close>), so deleting a text field is
  setting it to the empty text. All elements of the lists are taken to be objects: only this code
  writes them.
\<close>

section \<open>The projection\<close>

record step_exec =
  se_slug :: string
  se_title :: string
  se_state :: string
  se_reason :: string
  se_exit :: "int option"
  se_group :: string
  se_group_title :: string
  se_dynamic :: "goval option"
  se_created :: string
  se_started :: string
  se_completed :: string

record job_exec =
  je_id :: string
  je_name :: string
  je_state :: string
  je_reason :: string
  je_k8s_name :: string
  je_created :: string
  je_dispatched :: string
  je_started :: string
  je_completed :: string
  je_steps :: "step_exec list"

record inner_job =
  ij_parent_job :: string
  ij_parent_step :: string
  ij_namespace :: string
  ij_name :: string
  ij_intent :: string
  ij_label :: string
  ij_selector :: string
  ij_registered :: string
  ij_state :: string
  ij_reason :: string
  ij_completed :: string
  ij_log :: string

record phase_exec =
  pe_name :: string
  pe_kind :: string
  pe_state :: string
  pe_reason :: string
  pe_created :: string
  pe_dispatched :: string
  pe_started :: string
  pe_completed :: string
  pe_jobs :: "job_exec list"
  pe_inner :: "inner_job list"

record run_event =
  ev_attempt :: int
  ev_job :: string
  ev_event :: string
  ev_slug :: string
  ev_exit :: "int option"
  ev_meta :: vmap
  ev_created :: string

definition meta_text :: "run_event \<Rightarrow> string \<Rightarrow> string" where
  "meta_text ev k = string_value (vget_any (ev_meta ev) k)"

section \<open>Dispatch\<close>

definition planned_workflow_step :: "string \<Rightarrow> step_exec" where
  "planned_workflow_step now =
     \<lparr>se_slug = ''workflow-run'', se_title = ''Workflow run'', se_state = ''not_started'', se_reason = [],
      se_exit = None, se_group = [], se_group_title = [], se_dynamic = None,
      se_created = now, se_started = [], se_completed = []\<rparr>"

text \<open>\<open>markPhaseDispatchingRaw\<close>.\<close>

definition dispatch_job :: "string \<Rightarrow> job_exec \<Rightarrow> job_exec" where
  "dispatch_job now j =
     (if je_state j = [] \<or> je_state j = ''not_started''
      then j\<lparr>je_state := ''dispatching'', je_dispatched := now, je_reason := []\<rparr> else j)"

definition dispatch_phase_exec :: "string \<Rightarrow> string \<Rightarrow> phase_exec \<Rightarrow> phase_exec" where
  "dispatch_phase_exec kind now p =
     p\<lparr>pe_kind := first_non_empty kind ''k8s_job'', pe_state := ''dispatching'', pe_dispatched := now,
       pe_reason := [], pe_jobs := map (dispatch_job now) (pe_jobs p)\<rparr>"

definition unplanned_dispatch :: "string \<Rightarrow> string \<Rightarrow> string \<Rightarrow> phase_exec" where
  "unplanned_dispatch name kind now =
     \<lparr>pe_name = name, pe_kind = first_non_empty kind ''k8s_job'', pe_state = ''dispatching'', pe_reason = [],
      pe_created = now, pe_dispatched = now, pe_started = [], pe_completed = [],
      pe_jobs = [\<lparr>je_id = name, je_name = name, je_state = ''dispatching'', je_reason = [],
                  je_k8s_name = [], je_created = now, je_dispatched = now, je_started = [],
                  je_completed = [], je_steps = [planned_workflow_step now]\<rparr>],
      pe_inner = []\<rparr>"

definition mark_phase_dispatching :: "string \<Rightarrow> string \<Rightarrow> string \<Rightarrow> phase_exec list \<Rightarrow> phase_exec list" where
  "mark_phase_dispatching name kind now ps =
     (if list_ex (\<lambda>p. pe_name p = name) ps
      then update_first (\<lambda>p. pe_name p = name) (dispatch_phase_exec kind now) ps
      else ps @ [unplanned_dispatch name kind now])"

text \<open>\<open>markPhaseReviewRequiredRaw\<close>.\<close>

definition unstarted_state :: "string \<Rightarrow> string" where
  "unstarted_state st = (if st \<in> set [[], ''dispatching'', ''active''] then ''not_started'' else st)"

definition review_step :: "step_exec \<Rightarrow> step_exec" where
  "review_step s =
     s\<lparr>se_state := unstarted_state (se_state s), se_started := [], se_completed := [], se_reason := []\<rparr>"

definition review_job :: "job_exec \<Rightarrow> job_exec" where
  "review_job j =
     j\<lparr>je_state := unstarted_state (je_state j), je_dispatched := [], je_started := [],
       je_completed := [], je_reason := [], je_steps := map review_step (je_steps j)\<rparr>"

definition review_phase :: "string \<Rightarrow> string \<Rightarrow> phase_exec \<Rightarrow> phase_exec" where
  "review_phase kind now p =
     p\<lparr>pe_kind := first_non_empty kind ''k8s_job'', pe_state := ''active'', pe_dispatched := now,
       pe_started := now, pe_completed := [], pe_reason := [], pe_jobs := map review_job (pe_jobs p)\<rparr>"

definition unplanned_review :: "string \<Rightarrow> string \<Rightarrow> string \<Rightarrow> phase_exec" where
  "unplanned_review name kind now =
     \<lparr>pe_name = name, pe_kind = first_non_empty kind ''k8s_job'', pe_state = ''active'', pe_reason = [],
      pe_created = now, pe_dispatched = now, pe_started = now, pe_completed = [],
      pe_jobs = [\<lparr>je_id = name, je_name = name, je_state = ''not_started'', je_reason = [],
                  je_k8s_name = [], je_created = now, je_dispatched = [], je_started = [],
                  je_completed = [], je_steps = [planned_workflow_step now]\<rparr>],
      pe_inner = []\<rparr>"

definition mark_phase_review_required ::
  "string \<Rightarrow> string \<Rightarrow> string \<Rightarrow> phase_exec list \<Rightarrow> phase_exec list" where
  "mark_phase_review_required name kind now ps =
     (if list_ex (\<lambda>p. pe_name p = name) ps
      then update_first (\<lambda>p. pe_name p = name) (review_phase kind now) ps
      else ps @ [unplanned_review name kind now])"

text \<open>\<open>markPhaseCanceledRaw\<close>.\<close>

definition cancelled_state :: "string \<Rightarrow> string" where
  "cancelled_state st =
     (if st \<in> set [[], ''dispatching'', ''active'', ''not_started''] then ''aborted'' else st)"

definition cancel_step :: "step_exec \<Rightarrow> step_exec" where
  "cancel_step s = s\<lparr>se_state := cancelled_state (se_state s)\<rparr>"

definition cancel_job :: "string \<Rightarrow> job_exec \<Rightarrow> job_exec" where
  "cancel_job now j =
     j\<lparr>je_state := cancelled_state (je_state j), je_completed := now,
       je_steps := map cancel_step (je_steps j)\<rparr>"

definition cancel_phase :: "string \<Rightarrow> string \<Rightarrow> string \<Rightarrow> phase_exec \<Rightarrow> phase_exec" where
  "cancel_phase kind reason now p =
     p\<lparr>pe_kind := first_non_empty kind ''k8s_job'', pe_state := ''aborted'', pe_completed := now,
       pe_reason := (if trim_space reason \<noteq> [] then reason else pe_reason p),
       pe_jobs := map (cancel_job now) (pe_jobs p)\<rparr>"

definition mark_phase_cancelled ::
  "string \<Rightarrow> string \<Rightarrow> string \<Rightarrow> string \<Rightarrow> phase_exec list \<Rightarrow> phase_exec list" where
  "mark_phase_cancelled name kind reason now =
     update_first (\<lambda>p. pe_name p = name) (cancel_phase kind reason now)"

text \<open>\<open>markPhaseJobsDispatchedRaw\<close>: the names of the Kubernetes jobs, by job id.\<close>

definition name_job :: "(string \<rightharpoonup> string) \<Rightarrow> job_exec \<Rightarrow> job_exec" where
  "name_job names j =
     (case names (je_id j) of
        Some n \<Rightarrow> if n \<noteq> [] then j\<lparr>je_k8s_name := n\<rparr> else j
      | None \<Rightarrow> j)"

definition mark_jobs_dispatched ::
  "string \<Rightarrow> (string \<rightharpoonup> string) \<Rightarrow> phase_exec list \<Rightarrow> phase_exec list" where
  "mark_jobs_dispatched name names =
     update_first (\<lambda>p. pe_name p = name) (\<lambda>p. p\<lparr>pe_jobs := map (name_job names) (pe_jobs p)\<rparr>)"

text \<open>The loop of \<open>RecordRunnerStepsSkipped\<close>: the steps a caller supplies itself.\<close>

definition skip_named_step :: "string list \<Rightarrow> string \<Rightarrow> string \<Rightarrow> step_exec \<Rightarrow> step_exec" where
  "skip_named_step slugs reason now s =
     (if se_slug s \<in> set slugs
      then s\<lparr>se_state := ''skipped'', se_reason := first_non_empty reason ''synthetic_step_skip'',
             se_completed := now\<rparr>
      else s)"

definition skip_steps ::
  "string \<Rightarrow> string list \<Rightarrow> string \<Rightarrow> string \<Rightarrow> phase_exec list \<Rightarrow> phase_exec list" where
  "skip_steps name slugs reason now ps =
     (let wanted = filter (\<lambda>s. s \<noteq> []) (map trim_space slugs) in
      map (\<lambda>p. if pe_name p = name
               then p\<lparr>pe_jobs := map (\<lambda>j. j\<lparr>je_steps := map (skip_named_step wanted reason now) (je_steps j)\<rparr>)
                                   (pe_jobs p)\<rparr>
               else p) ps)"

section \<open>Events of the runner\<close>

text \<open>
  \<open>safeStepSlug\<close>. The loop runs over characters, so one that is not a lower-case letter or
  a digit becomes a dash, and adjacent dashes are one: it makes no difference that a character
  outside ASCII is several bytes here.
\<close>

definition slug_char :: "char \<Rightarrow> bool" where
  "slug_char c = (is_lower c \<or> is_digit c)"

fun slug_bytes :: "bool \<Rightarrow> string \<Rightarrow> string" where
  "slug_bytes dash [] = []"
| "slug_bytes dash (c # cs) =
     (if slug_char c then c # slug_bytes False cs
      else if dash then slug_bytes True cs
      else CHR ''-'' # slug_bytes True cs)"

definition trim_bytes :: "char \<Rightarrow> string \<Rightarrow> string" where
  "trim_bytes c s = rev (dropWhile (\<lambda>x. x = c) (rev (dropWhile (\<lambda>x. x = c) s)))"

definition safe_step_slug :: "string \<Rightarrow> string" where
  "safe_step_slug v =
     (let slug = trim_bytes (CHR ''-'') (slug_bytes False (lower_key (trim_space v))) in
      if slug = [] then ''dynamic-group'' else slug)"

text \<open>\<open>ensureRunnerEventStep\<close>.\<close>

definition event_step :: "run_event \<Rightarrow> step_exec" where
  "event_step ev =
     \<lparr>se_slug = ev_slug ev, se_title = first_non_empty (meta_text ev ''title'') (ev_slug ev),
      se_state = ''not_started'', se_reason = [], se_exit = None,
      se_group = trim_space (meta_text ev ''group''),
      se_group_title = trim_space (meta_text ev ''group_title''),
      se_dynamic = (case vget_any (ev_meta ev) ''dynamic_group'' of VNull \<Rightarrow> None | v \<Rightarrow> Some v),
      se_created = ev_created ev, se_started = [], se_completed = []\<rparr>"

definition ensure_event_step :: "run_event \<Rightarrow> step_exec list \<Rightarrow> step_exec list" where
  "ensure_event_step ev steps =
     (if list_ex (\<lambda>s. se_slug s = ev_slug ev) steps then steps else steps @ [event_step ev])"

definition abort_event_reason :: "run_event \<Rightarrow> string" where
  "abort_event_reason ev = first_non_empty (trim_space (meta_text ev ''abort_reason'')) ''aborted''"

definition exit_of :: "run_event \<Rightarrow> step_exec \<Rightarrow> int option" where
  "exit_of ev s = (case ev_exit ev of Some n \<Rightarrow> Some n | None \<Rightarrow> se_exit s)"

definition apply_step_event :: "run_event \<Rightarrow> step_exec \<Rightarrow> step_exec" where
  "apply_step_event ev s =
     (if ev_event ev = ''step_started'' \<or> ev_event ev = ''log'' then
        (if se_state s \<in> set [''not_started'', ''dispatching'', []]
         then s\<lparr>se_state := ''active'', se_started := ev_created ev, se_reason := []\<rparr> else s)
      else if ev_event ev = ''step_completed'' then
        s\<lparr>se_state := ''succeeded'', se_completed := ev_created ev, se_reason := [], se_exit := exit_of ev s\<rparr>
      else if ev_event ev = ''step_skipped'' then
        s\<lparr>se_state := ''skipped'', se_completed := ev_created ev\<rparr>
      else if ev_event ev = ''step_failed'' then
        s\<lparr>se_state := ''failed'', se_reason := ''exit_nonzero'', se_completed := ev_created ev,
          se_exit := exit_of ev s\<rparr>
      else if ev_event ev = ''step_aborted'' then
        s\<lparr>se_state := ''aborted'', se_reason := abort_event_reason ev, se_completed := ev_created ev\<rparr>
      else s)"

text \<open>A step that fails or aborts takes its job and its phase with it.\<close>

definition event_fails :: "run_event \<Rightarrow> bool" where
  "event_fails ev = (ev_slug ev \<noteq> [] \<and> ev_event ev \<in> set [''step_failed'', ''step_aborted''])"

definition failed_job_reason :: "run_event \<Rightarrow> string" where
  "failed_job_reason ev = (if ev_event ev = ''step_aborted'' then ''aborted'' else ''step_failed'')"

text \<open>\<open>dynamicExpansionRawSteps\<close> and \<open>applyDynamicGroupExpandedToSteps\<close>.\<close>

definition planned_step :: "run_event \<Rightarrow> vmap \<Rightarrow> step_exec option" where
  "planned_step ev item =
     (let text = (\<lambda>k. string_value (vget_any item k)); slug = trim_space (text ''slug'');
          st = trim_space (text ''state'') in
      if slug = [] then None
      else Some \<lparr>se_slug = slug, se_title = first_non_empty (text ''title'') slug,
                 se_state = (if st = [] then ''not_started'' else st), se_reason = [], se_exit = None,
                 se_group = trim_space (text ''group''), se_group_title = trim_space (text ''group_title''),
                 se_dynamic = None, se_created = ev_created ev, se_started = [], se_completed = []\<rparr>)"

fun object_of :: "goval \<Rightarrow> vmap option" where
  "object_of (VMap m) = Some m"
| "object_of _ = None"

fun planned_steps :: "run_event \<Rightarrow> goval list \<Rightarrow> step_exec list" where
  "planned_steps ev [] = []"
| "planned_steps ev (v # vs) =
     (case object_of v of
        None \<Rightarrow> planned_steps ev vs
      | Some item \<Rightarrow>
          (case planned_step ev item of None \<Rightarrow> planned_steps ev vs | Some s \<Rightarrow> s # planned_steps ev vs))"

definition expansion_steps :: "run_event \<Rightarrow> step_exec list" where
  "expansion_steps ev = (case vget_any (ev_meta ev) ''steps'' of VList vs \<Rightarrow> planned_steps ev vs | _ \<Rightarrow> [])"

fun add_planned :: "string list \<Rightarrow> step_exec list \<Rightarrow> step_exec list" where
  "add_planned seen [] = []"
| "add_planned seen (s # ss) =
     (if se_slug s \<in> set seen then add_planned seen ss else s # add_planned (se_slug s # seen) ss)"

definition no_cases_step :: "run_event \<Rightarrow> string \<Rightarrow> step_exec" where
  "no_cases_step ev grp =
     \<lparr>se_slug = safe_step_slug grp @ ''-no-cases'', se_title = ''no test cases generated'',
      se_state = ''skipped'', se_reason = [], se_exit = None, se_group = grp,
      se_group_title = first_non_empty (meta_text ev ''group_title'') grp, se_dynamic = None,
      se_created = ev_created ev, se_started = [], se_completed = ev_created ev\<rparr>"

definition expand_group :: "run_event \<Rightarrow> step_exec list \<Rightarrow> step_exec list" where
  "expand_group ev steps =
     (let grp = trim_space (meta_text ev ''group'') in
      if grp = [] then steps
      else
        (let kept = filter (\<lambda>s. \<not> (trim_space (se_group s) = grp \<and> se_dynamic s \<noteq> None)) steps;
             planned = expansion_steps ev in
         if planned \<noteq> [] then kept @ add_planned (map (\<lambda>s. trim_space (se_slug s)) kept) planned
         else if int_from_any (vget_any (ev_meta ev) ''item_count'') = 0 then kept @ [no_cases_step ev grp]
         else kept))"

definition start_job :: "run_event \<Rightarrow> job_exec \<Rightarrow> job_exec" where
  "start_job ev j =
     (if je_state j = ''dispatching'' \<or> je_state j = ''not_started''
      then j\<lparr>je_state := ''active'', je_started := ev_created ev, je_reason := []\<rparr> else j)"

definition apply_job_event :: "run_event \<Rightarrow> job_exec \<Rightarrow> job_exec" where
  "apply_job_event ev j =
     (let j1 = start_job ev j in
      if ev_event ev = ''dynamic_group_expanded'' then j1\<lparr>je_steps := expand_group ev (je_steps j1)\<rparr>
      else
        (let steps = (if ev_slug ev \<noteq> [] \<and> ev_event ev \<noteq> ''log''
                      then ensure_event_step ev (je_steps j1) else je_steps j1);
             done_steps = (if ev_slug ev = [] then steps
                           else update_first (\<lambda>s. se_slug s = ev_slug ev) (apply_step_event ev) steps);
             j2 = j1\<lparr>je_steps := done_steps\<rparr> in
         if event_fails ev
         then j2\<lparr>je_state := ''failed'', je_reason := failed_job_reason ev, je_completed := ev_created ev\<rparr>
         else j2))"

section \<open>Inner jobs\<close>

definition is_inner :: "run_event \<Rightarrow> inner_job \<Rightarrow> bool" where
  "is_inner ev r =
     (ij_namespace r = meta_text ev ''namespace'' \<and> ij_name r = meta_text ev ''job_name'')"

definition refresh_parent :: "run_event \<Rightarrow> inner_job \<Rightarrow> inner_job" where
  "refresh_parent ev r =
     r\<lparr>ij_parent_job := ev_job ev,
       ij_parent_step := (if ev_slug ev \<noteq> [] then ev_slug ev else ij_parent_step r)\<rparr>"

definition new_inner_job :: "run_event \<Rightarrow> inner_job" where
  "new_inner_job ev =
     \<lparr>ij_parent_job = ev_job ev, ij_parent_step = ev_slug ev,
      ij_namespace = meta_text ev ''namespace'', ij_name = meta_text ev ''job_name'',
      ij_intent = first_non_empty (meta_text ev ''intent'') ''unknown'',
      ij_label = meta_text ev ''label'', ij_selector = meta_text ev ''selector'',
      ij_registered = ev_created ev, ij_state = ''active'', ij_reason = [],
      ij_completed = [], ij_log = []\<rparr>"

definition register_inner_job :: "run_event \<Rightarrow> inner_job list \<Rightarrow> inner_job list" where
  "register_inner_job ev rs =
     (if meta_text ev ''namespace'' = [] \<or> meta_text ev ''job_name'' = [] then rs
      else if list_ex (is_inner ev) rs then update_first (is_inner ev) (refresh_parent ev) rs
      else rs @ [new_inner_job ev])"

definition inner_end_state :: "run_event \<Rightarrow> string" where
  "inner_end_state ev = first_non_empty (meta_text ev ''state'') ''unknown''"

definition inner_end_time :: "run_event \<Rightarrow> string" where
  "inner_end_time ev = first_non_empty (meta_text ev ''completed_at'') (ev_created ev)"

definition end_inner_job :: "run_event \<Rightarrow> inner_job \<Rightarrow> inner_job" where
  "end_inner_job ev r =
     r\<lparr>ij_state := inner_end_state ev,
       ij_reason := first_non_empty (meta_text ev ''reason'') (ij_reason r),
       ij_completed := inner_end_time ev,
       ij_log := first_non_empty (meta_text ev ''log_archive_url'') (ij_log r)\<rparr>"

definition stub_inner_job :: "run_event \<Rightarrow> inner_job" where
  "stub_inner_job ev =
     \<lparr>ij_parent_job = ev_job ev, ij_parent_step = ev_slug ev,
      ij_namespace = meta_text ev ''namespace'', ij_name = meta_text ev ''job_name'',
      ij_intent = ''unknown'', ij_label = [], ij_selector = [], ij_registered = ev_created ev,
      ij_state = inner_end_state ev, ij_reason = meta_text ev ''reason'',
      ij_completed = inner_end_time ev, ij_log = meta_text ev ''log_archive_url''\<rparr>"

definition terminate_inner_job :: "run_event \<Rightarrow> inner_job list \<Rightarrow> inner_job list" where
  "terminate_inner_job ev rs =
     (if meta_text ev ''namespace'' = [] \<or> meta_text ev ''job_name'' = [] then rs
      else if list_ex (is_inner ev) rs then update_first (is_inner ev) (end_inner_job ev) rs
      else rs @ [stub_inner_job ev])"

text \<open>\<open>applyRunnerEventToExecutionsRaw\<close>; the phase is that of the attempt of the event.\<close>

definition start_phase_exec :: "run_event \<Rightarrow> phase_exec \<Rightarrow> phase_exec" where
  "start_phase_exec ev p =
     (if pe_state p = ''dispatching'' \<or> pe_state p = ''not_started''
      then p\<lparr>pe_state := ''active'', pe_started := ev_created ev, pe_reason := []\<rparr> else p)"

definition fail_phase_exec :: "string \<Rightarrow> string \<Rightarrow> phase_exec \<Rightarrow> phase_exec" where
  "fail_phase_exec reason now p = p\<lparr>pe_state := ''failed'', pe_reason := reason, pe_completed := now\<rparr>"

definition apply_phase_event :: "run_event \<Rightarrow> phase_exec \<Rightarrow> phase_exec" where
  "apply_phase_event ev p =
     (if ev_event ev = ''inner_job_registered'' then p\<lparr>pe_inner := register_inner_job ev (pe_inner p)\<rparr>
      else if ev_event ev = ''inner_job_terminated'' then p\<lparr>pe_inner := terminate_inner_job ev (pe_inner p)\<rparr>
      else
        (let p1 = start_phase_exec ev p; mine = (\<lambda>j. je_id j = ev_job ev);
             p2 = p1\<lparr>pe_jobs := update_first mine (apply_job_event ev) (pe_jobs p1)\<rparr> in
         if event_fails ev \<and> list_ex mine (pe_jobs p1)
         then fail_phase_exec ''job_failed'' (ev_created ev) p2 else p2))"

definition apply_event :: "string \<Rightarrow> run_event \<Rightarrow> phase_exec list \<Rightarrow> phase_exec list" where
  "apply_event phase ev = update_first (\<lambda>p. pe_name p = phase) (apply_phase_event ev)"

section \<open>Completed jobs\<close>

text \<open>\<open>markJobCompletionInExecutionsRaw\<close>.\<close>

definition complete_step :: "string \<Rightarrow> string \<Rightarrow> string \<Rightarrow> step_exec \<Rightarrow> step_exec" where
  "complete_step st reason now s =
     (if st = ''succeeded'' \<and> se_state s \<in> set [''active'', ''not_started'', []]
      then s\<lparr>se_state := ''succeeded'', se_completed := now\<rparr>
      else if st = ''failed'' \<and> se_state s \<in> set [''active'', ''dispatching'']
      then s\<lparr>se_state := ''failed'', se_reason := first_non_empty reason ''job_failed'', se_completed := now\<rparr>
      else if st = ''skipped'' \<and> se_state s \<in> set [''not_started'', []]
      then s\<lparr>se_state := ''skipped'', se_reason := first_non_empty reason ''job_skipped'', se_completed := now\<rparr>
      else s)"

definition complete_job :: "string \<Rightarrow> string \<Rightarrow> string \<Rightarrow> job_exec \<Rightarrow> job_exec" where
  "complete_job st reason now j =
     j\<lparr>je_state := st, je_completed := now, je_reason := reason,
       je_steps := map (complete_step st reason now) (je_steps j)\<rparr>"

definition job_terminal :: "job_exec \<Rightarrow> bool" where
  "job_terminal j = (je_state j \<in> set [''succeeded'', ''failed'', ''skipped''])"

definition complete_phase :: "string \<Rightarrow> string \<Rightarrow> string \<Rightarrow> string \<Rightarrow> phase_exec \<Rightarrow> phase_exec" where
  "complete_phase job st reason now p =
     (let jobs = map (\<lambda>j. if je_id j = job then complete_job st reason now j else j) (pe_jobs p);
          p1 = p\<lparr>pe_jobs := jobs\<rparr> in
      if jobs \<noteq> [] \<and> list_all job_terminal jobs then
        (if list_ex (\<lambda>j. je_state j = ''failed'') jobs then fail_phase_exec ''job_failed'' now p1
         else p1\<lparr>pe_state := ''succeeded'', pe_reason := [], pe_completed := now\<rparr>)
      else p1)"

definition mark_job_completion ::
  "string \<Rightarrow> string \<Rightarrow> string \<Rightarrow> string \<Rightarrow> string \<Rightarrow> phase_exec list \<Rightarrow> phase_exec list" where
  "mark_job_completion phase job st reason now =
     update_first (\<lambda>p. pe_name p = phase) (complete_phase job st reason now)"

section \<open>The end of a failed run\<close>

text \<open>\<open>canonicalExecutionFailureReason\<close>: the first of these texts that the reason contains.\<close>

definition is_dispatch_failure :: "string \<Rightarrow> bool" where
  "is_dispatch_failure reason = (reason = ''dispatch_failed'' \<or> reason = ''dispatch_timeout'')"

definition failure_texts :: "(string \<times> string) list" where
  "failure_texts =
     [(''dispatch_failed'', ''dispatch_failed''), (''dispatch_timeout'', ''dispatch_timeout''),
      (''forward_dispatch_failed'', ''dispatch_failed''), (''retry_dispatch_failed'', ''dispatch_failed''),
      (''teardown_dispatch_failed'', ''dispatch_failed''), (''cleanup_dispatch_failed'', ''dispatch_failed''),
      (''timeout'', ''timeout''), (''timed_out'', ''timeout''), (''cancel'', ''cancelled''),
      (''runner_dispatch_failed'', ''dispatch_failed''), (''admission_failed'', ''admission_failed''),
      (''verification'', ''verification_failed'')]"

definition canonical_failure_reason :: "string \<Rightarrow> string" where
  "canonical_failure_reason reason =
     (let r = lower_key (trim_space reason) in
      if is_dispatch_failure r then r
      else (case find (\<lambda>(t, _). str_contains r t) failure_texts of
              Some (_, v) \<Rightarrow> v | None \<Rightarrow> ''job_failed''))"

text \<open>\<open>dispatchFailureStepsRaw\<close> and \<open>ownDispatchFailureJobsRaw\<close>.\<close>

definition dispatch_step :: "string \<Rightarrow> string \<Rightarrow> step_exec" where
  "dispatch_step reason now =
     \<lparr>se_slug = ''dispatch'', se_title = ''Dispatch job'', se_state = ''failed'', se_reason = reason,
      se_exit = None, se_group = [], se_group_title = [], se_dynamic = None,
      se_created = [], se_started = [], se_completed = now\<rparr>"

definition unrun_step :: "step_exec \<Rightarrow> step_exec" where
  "unrun_step s =
     (if se_state s \<in> set [''failed'', ''aborted'', ''skipped'']
      then s\<lparr>se_state := ''not_started'', se_reason := [], se_exit := None, se_completed := []\<rparr> else s)"

definition dispatch_failure_steps :: "string \<Rightarrow> string \<Rightarrow> step_exec list \<Rightarrow> step_exec list" where
  "dispatch_failure_steps reason now steps =
     dispatch_step reason now # map unrun_step (filter (\<lambda>s. se_slug s \<noteq> ''dispatch'') steps)"

definition own_failure_job :: "string \<Rightarrow> string \<Rightarrow> job_exec \<Rightarrow> job_exec" where
  "own_failure_job reason now j =
     (if je_state j \<in> set [''succeeded'', ''active'', ''dispatching''] then j
      else j\<lparr>je_state := ''failed'', je_reason := reason, je_completed := now,
             je_steps := dispatch_failure_steps reason now (je_steps j)\<rparr>)"

definition own_failure_jobs :: "string \<Rightarrow> string \<Rightarrow> phase_exec \<Rightarrow> phase_exec" where
  "own_failure_jobs reason now p =
     (if is_dispatch_failure reason then p\<lparr>pe_jobs := map (own_failure_job reason now) (pe_jobs p)\<rparr> else p)"

text \<open>The three passes of \<open>finalizeExecutionFailureRaw\<close>.\<close>

definition fail_job_in :: "string list \<Rightarrow> string \<Rightarrow> string \<Rightarrow> job_exec \<Rightarrow> job_exec" where
  "fail_job_in states reason now j =
     (if je_state j \<in> set states
      then j\<lparr>je_state := ''failed'', je_reason := reason, je_completed := now\<rparr> else j)"

definition skip_unstarted_step :: "string \<Rightarrow> step_exec \<Rightarrow> step_exec" where
  "skip_unstarted_step now s =
     (if se_state s = ''not_started'' then s\<lparr>se_state := ''skipped'', se_completed := now\<rparr> else s)"

definition skip_unstarted_job :: "string \<Rightarrow> job_exec \<Rightarrow> job_exec" where
  "skip_unstarted_job now j =
     (if je_state j = ''not_started''
      then j\<lparr>je_state := ''skipped'', je_completed := now,
             je_steps := map (skip_unstarted_step now) (je_steps j)\<rparr>
      else j)"

definition skip_phase_exec :: "string \<Rightarrow> phase_exec \<Rightarrow> phase_exec" where
  "skip_phase_exec now p =
     p\<lparr>pe_state := ''skipped'', pe_completed := now, pe_jobs := map (skip_unstarted_job now) (pe_jobs p)\<rparr>"

definition fail_running_phase :: "string \<Rightarrow> string \<Rightarrow> phase_exec \<Rightarrow> phase_exec" where
  "fail_running_phase reason now p =
     own_failure_jobs reason now
       ((fail_phase_exec reason now p)\<lparr>pe_jobs :=
          map (fail_job_in [''dispatching'', ''active''] reason now) (pe_jobs p)\<rparr>)"

definition keep_failed_phase :: "string \<Rightarrow> string \<Rightarrow> phase_exec \<Rightarrow> phase_exec" where
  "keep_failed_phase reason now p =
     (if is_dispatch_failure reason
      then own_failure_jobs reason now (p\<lparr>pe_reason := first_non_empty (pe_reason p) reason\<rparr>) else p)"

fun fail_running :: "string \<Rightarrow> string \<Rightarrow> bool \<Rightarrow> phase_exec list \<Rightarrow> phase_exec list" where
  "fail_running reason now seen [] = []"
| "fail_running reason now seen (p # ps) =
     (if pe_state p = ''failed'' then keep_failed_phase reason now p # fail_running reason now True ps
      else if pe_state p = ''dispatching'' \<or> pe_state p = ''active''
      then fail_running_phase reason now p # fail_running reason now True ps
      else if seen \<and> pe_state p = ''not_started''
      then skip_phase_exec now p # fail_running reason now seen ps
      else p # fail_running reason now seen ps)"

definition fail_unstarted_phase :: "string \<Rightarrow> string \<Rightarrow> phase_exec \<Rightarrow> phase_exec" where
  "fail_unstarted_phase reason now p =
     own_failure_jobs reason now
       ((fail_phase_exec reason now p)\<lparr>pe_jobs :=
          map (fail_job_in [''not_started'', []] reason now) (pe_jobs p)\<rparr>)"

definition unsettled :: "phase_exec \<Rightarrow> bool" where
  "unsettled p = (pe_state p \<noteq> ''skipped'' \<and> pe_state p \<noteq> ''succeeded'')"

definition running_or_failed :: "phase_exec \<Rightarrow> bool" where
  "running_or_failed p = (pe_state p \<in> set [''failed'', ''dispatching'', ''active''])"

fun skip_after_failed :: "string \<Rightarrow> bool \<Rightarrow> phase_exec list \<Rightarrow> phase_exec list" where
  "skip_after_failed now seen [] = []"
| "skip_after_failed now seen (p # ps) =
     (let p1 = (if seen \<and> pe_state p = ''not_started'' then skip_phase_exec now p else p) in
      p1 # skip_after_failed now (seen \<or> pe_state p1 = ''failed'') ps)"

definition finalize_failure :: "string \<Rightarrow> string \<Rightarrow> phase_exec list \<Rightarrow> phase_exec list" where
  "finalize_failure reason now ps =
     (let ps1 = fail_running reason now False ps;
          ps2 = (if list_ex running_or_failed ps then ps1
                 else update_first unsettled (fail_unstarted_phase reason now) ps1) in
      if list_ex running_or_failed ps \<or> list_ex unsettled ps1
      then skip_after_failed now False ps2 else ps2)"

section \<open>Lemmas\<close>

lemmas phase_edit_defs =
  dispatch_phase_exec_def review_phase_def cancel_phase_def fail_phase_exec_def complete_phase_def
  apply_phase_event_def start_phase_exec_def keep_failed_phase_def fail_running_phase_def
  skip_phase_exec_def own_failure_jobs_def fail_unstarted_phase_def

text \<open>No operation renames a phase, and a phase that was not planned is added once.\<close>

lemma edited_phase_name [simp]:
  "pe_name (dispatch_phase_exec kind now p) = pe_name p"
  "pe_name (review_phase kind now p) = pe_name p"
  "pe_name (cancel_phase kind reason now p) = pe_name p"
  "pe_name (complete_phase job st reason now p) = pe_name p"
  "pe_name (apply_phase_event ev p) = pe_name p"
  "pe_name (keep_failed_phase reason now p) = pe_name p"
  "pe_name (fail_running_phase reason now p) = pe_name p"
  "pe_name (fail_unstarted_phase reason now p) = pe_name p"
  "pe_name (skip_phase_exec now p) = pe_name p"
  by (simp_all add: phase_edit_defs Let_def)

definition phase_names :: "phase_exec list \<Rightarrow> string list" where
  "phase_names ps = map pe_name ps"

lemma phase_names_edits [simp]:
  "phase_names (mark_phase_cancelled n kind reason now ps) = phase_names ps"
  "phase_names (mark_jobs_dispatched n names ps) = phase_names ps"
  "phase_names (skip_steps n slugs reason now ps) = phase_names ps"
  "phase_names (apply_event n ev ps) = phase_names ps"
  "phase_names (mark_job_completion n job st reason now ps) = phase_names ps"
  unfolding phase_names_def mark_phase_cancelled_def mark_jobs_dispatched_def skip_steps_def
    apply_event_def mark_job_completion_def
  by (simp_all add: update_first_map Let_def)

lemma phase_names_fail_running [simp]: "map pe_name (fail_running reason now seen ps) = map pe_name ps"
  by (induction ps arbitrary: seen) simp_all

lemma phase_names_skip_after [simp]: "map pe_name (skip_after_failed now seen ps) = map pe_name ps"
  by (induction ps arbitrary: seen) (simp_all add: Let_def)

lemma phase_names_finalize [simp]: "phase_names (finalize_failure reason now ps) = phase_names ps"
  by (simp add: finalize_failure_def phase_names_def Let_def update_first_map)

lemma dispatched_names:
  "phase_names (mark_phase_dispatching n kind now ps) =
     (if n \<in> set (phase_names ps) then phase_names ps else phase_names ps @ [n])"
  "phase_names (mark_phase_review_required n kind now ps) =
     (if n \<in> set (phase_names ps) then phase_names ps else phase_names ps @ [n])"
  by (auto simp: phase_names_def mark_phase_dispatching_def mark_phase_review_required_def
        update_first_map list_ex_iff unplanned_dispatch_def unplanned_review_def)

end
