(* ===== verification/Evidence.thy ===== *)
theory Evidence
  imports Executions
begin

text \<open>
  Evidence: the artifacts a phase reports and the requirements an issue or a workflow places on
  them (\<open>internal/server/evidence_contract.go\<close>, with its helpers in
  \<open>review_evidence.go\<close> and \<open>graph_api.go\<close>, and the merging functions of
  \<open>internal/store/store/postgres.go\<close>). A payload is decoded JSON, so a list is always a list
  of untyped values.
\<close>

section \<open>Kinds\<close>

record evidence_requirement =
  er_id :: string
  er_kind :: string
  er_label :: string
  er_route :: string
  er_url_path :: string
  er_must_show :: string
  er_duration :: int
  er_optional :: bool

record evidence_artifact =
  ea_kind :: string
  ea_ref :: string
  ea_label :: string
  ea_url :: string
  ea_path :: string
  ea_content_type :: string
  ea_size :: int
  ea_duration :: int
  ea_source_phase :: string
  ea_source_attempt :: "int option"

definition screenshot_words :: "string list" where
  "screenshot_words = [''screenshot'', ''image'', ''still'']"

definition video_words :: "string list" where
  "video_words = [''video'', ''animation'', ''webm'', ''movie'', ''recording'']"

definition normalize_evidence_kind :: "string \<Rightarrow> string" where
  "normalize_evidence_kind kind =
     (let k = lower_key (trim_space kind) in
      if k \<in> set screenshot_words then ''screenshot''
      else if k \<in> set video_words then ''video''
      else if k = [] then [] else ''artifact'')"

definition normalize_requirement_kind :: "string \<Rightarrow> string" where
  "normalize_requirement_kind kind =
     (let t = trim_space kind; k = lower_key t in
      if k \<in> set screenshot_words then ''screenshot''
      else if k \<in> set video_words then ''video''
      else if k \<in> set [''artifact'', ''file'', ''attachment''] then ''artifact''
      else if k = [] then [] else t)"

text \<open>\<open>path.Ext\<close>: from the last dot of the last segment.\<close>

fun ext_rev :: "string \<Rightarrow> string \<Rightarrow> string" where
  "ext_rev acc [] = []"
| "ext_rev acc (c # cs) =
     (if c = CHR ''/'' then [] else if c = CHR ''.'' then c # acc else ext_rev (c # acc) cs)"

definition path_ext :: "string \<Rightarrow> string" where
  "path_ext s = ext_rev [] (rev s)"

definition trim_evidence_suffix :: "string \<Rightarrow> string" where
  "trim_evidence_suffix v =
     trim_bytes (CHR ''/'') (takeWhile (\<lambda>c. c \<noteq> CHR ''?'' \<and> c \<noteq> CHR ''#'') (trim_space v))"

definition evidence_kind_for_ref :: "string \<Rightarrow> string" where
  "evidence_kind_for_ref ref =
     (let e = lower_key (path_ext (trim_evidence_suffix ref)) in
      if e \<in> set [''.png'', ''.jpg'', ''.jpeg'', ''.webp'', ''.gif''] then ''screenshot''
      else if e \<in> set [''.webm'', ''.mp4'', ''.mov'', ''.m4v''] then ''video''
      else ''artifact'')"

section \<open>Requirements\<close>

abbreviation nul :: string where
  "nul \<equiv> [CHR 0x00]"

definition requirement_key :: "evidence_requirement \<Rightarrow> string" where
  "requirement_key r =
     (let name = trim_space (first_non_empty (er_id r)
                   (first_non_empty (er_label r) (first_non_empty (er_route r) (er_url_path r)))) in
      if name = [] then er_kind r else er_kind r @ nul @ name)"

text \<open>The loop both functions share, each with its normalisation of the kind.\<close>

fun collect_requirements ::
  "(string \<Rightarrow> string) \<Rightarrow> string list \<Rightarrow> evidence_requirement list \<Rightarrow> evidence_requirement list" where
  "collect_requirements kindf seen [] = []"
| "collect_requirements kindf seen (r # rs) =
     (let r1 = r\<lparr>er_kind := kindf (er_kind r)\<rparr> in
      if er_kind r1 = [] \<or> requirement_key r1 \<in> set seen then collect_requirements kindf seen rs
      else r1 # collect_requirements kindf (requirement_key r1 # seen) rs)"

definition merge_evidence_requirements :: "evidence_requirement list list \<Rightarrow> evidence_requirement list" where
  "merge_evidence_requirements groups = collect_requirements normalize_requirement_kind [] (concat groups)"

definition label_requirement :: "string \<Rightarrow> evidence_requirement option" where
  "label_requirement label =
     (let l = lower_key (trim_space label) in
      if l \<in> set [''evidence:video'', ''evidence:animation'', ''video-evidence'', ''animation-evidence'',
                  ''requires-video-evidence'']
      then Some \<lparr>er_id = ''issue-label-video'', er_kind = ''video'', er_label = ''primary browser flow'',
                 er_route = [], er_url_path = [], er_must_show = ''browser behavior changed by this run'',
                 er_duration = 0, er_optional = False\<rparr>
      else if l \<in> set [''evidence:screenshot'', ''screenshot-evidence'', ''requires-screenshot-evidence'']
      then Some \<lparr>er_id = ''issue-label-screenshot'', er_kind = ''screenshot'', er_label = ''final browser state'',
                 er_route = [], er_url_path = [], er_must_show = ''final visible state changed by this run'',
                 er_duration = 0, er_optional = False\<rparr>
      else None)"

definition requirements_from_labels :: "string list \<Rightarrow> evidence_requirement list" where
  "requirements_from_labels labels =
     collect_requirements normalize_evidence_kind [] (List.map_filter label_requirement labels)"

definition nonneg_int :: "goval \<Rightarrow> int" where
  "nonneg_int v = (case positive_int_value v of Some n \<Rightarrow> n | None \<Rightarrow> 0)"

definition requirement_of_item :: "vmap \<Rightarrow> evidence_requirement" where
  "requirement_of_item item =
     (let text = (\<lambda>k. trim_space (string_value (vget_any item k)));
          kind = normalize_requirement_kind (string_value (vget_any item ''kind'')) in
      \<lparr>er_id = text ''id'', er_kind = (if kind = [] then ''video'' else kind), er_label = text ''label'',
       er_route = text ''route'', er_url_path = text ''url_path'', er_must_show = text ''must_show'',
       er_duration = nonneg_int (vget_any item ''duration_seconds''),
       er_optional = bool_value (vget_any item ''optional'')\<rparr>)"

definition objects_of :: "goval list \<Rightarrow> vmap list" where
  "objects_of vs = List.map_filter object_of vs"

definition requirements_from_raw :: "goval \<Rightarrow> evidence_requirement list" where
  "requirements_from_raw raw = map requirement_of_item (objects_of (any_slice_value raw))"

section \<open>Artifacts\<close>

definition artifact_ref :: "evidence_artifact \<Rightarrow> string" where
  "artifact_ref a = trim_space (first_non_empty (ea_ref a) (first_non_empty (ea_path a) (ea_url a)))"

definition artifact_key :: "evidence_artifact \<Rightarrow> string" where
  "artifact_key a = ea_kind a @ nul @ artifact_ref a"

text \<open>\<open>EvidenceRefsFromArtifacts\<close>.\<close>

fun fresh_texts :: "string list \<Rightarrow> string list \<Rightarrow> string list" where
  "fresh_texts seen [] = []"
| "fresh_texts seen (s # ss) =
     (if s = [] \<or> s \<in> set seen then fresh_texts seen ss else s # fresh_texts (s # seen) ss)"

definition refs_of_artifacts :: "evidence_artifact list \<Rightarrow> string list" where
  "refs_of_artifacts as = fresh_texts [] (map artifact_ref as)"

text \<open>\<open>appendMissingStrings\<close>, the same function in both packages.\<close>

definition append_missing :: "string list \<Rightarrow> string list \<Rightarrow> string list" where
  "append_missing vs additions = vs @ fresh_texts vs (map trim_space additions)"

text \<open>\<open>evidenceLabel\<close>: the last segment of the path.\<close>

definition evidence_label :: "string \<Rightarrow> string" where
  "evidence_label ref =
     (let clean = rev (dropWhile (\<lambda>c. c = CHR ''/'')
                        (rev (hd (split_on (CHR ''#'') (hd (split_on (CHR ''?'') ref)))))) in
      if clean = [] then ref else first_non_empty (last (split_on (CHR ''/'') clean)) ref)"

definition normalize_artifact :: "evidence_artifact \<Rightarrow> evidence_artifact" where
  "normalize_artifact a =
     (let ref = artifact_ref a;
          kind = normalize_evidence_kind (if ea_kind a = [] then evidence_kind_for_ref ref else ea_kind a) in
      a\<lparr>ea_ref := trim_space (ea_ref a), ea_path := trim_space (ea_path a), ea_url := trim_space (ea_url a),
        ea_kind := (if kind = [] then ''artifact'' else kind),
        ea_label := (if trim_space (ea_label a) = [] then evidence_label ref else ea_label a)\<rparr>)"

text \<open>The key compares the reference as it was before the fields were trimmed.\<close>

definition append_normalized :: "evidence_artifact list \<Rightarrow> evidence_artifact \<Rightarrow> evidence_artifact list" where
  "append_normalized out a =
     (if artifact_ref a = [] then out
      else
        (let n = normalize_artifact a in
         if list_ex (\<lambda>x. artifact_key x = ea_kind n @ nul @ artifact_ref a) out then out else out @ [n]))"

definition artifact_of_item :: "vmap \<Rightarrow> evidence_artifact" where
  "artifact_of_item item =
     (let text = (\<lambda>k. trim_space (string_value (vget_any item k))) in
      \<lparr>ea_kind = normalize_evidence_kind (string_value (vget_any item ''kind'')), ea_ref = text ''ref'',
       ea_label = text ''label'', ea_url = text ''url'', ea_path = text ''artifact_path'',
       ea_content_type = text ''content_type'', ea_size = nonneg_int (vget_any item ''size_bytes''),
       ea_duration = nonneg_int (vget_any item ''duration_ms''), ea_source_phase = [],
       ea_source_attempt = None\<rparr>)"

definition named_artifact :: "string \<Rightarrow> string \<Rightarrow> string \<Rightarrow> evidence_artifact" where
  "named_artifact kind ref label =
     \<lparr>ea_kind = kind, ea_ref = ref, ea_label = label, ea_url = [], ea_path = [], ea_content_type = [],
      ea_size = 0, ea_duration = 0, ea_source_phase = [], ea_source_attempt = None\<rparr>"

definition texts_of :: "goval \<Rightarrow> string list" where
  "texts_of raw = filter (\<lambda>s. s \<noteq> []) (map (\<lambda>v. trim_space (string_value v)) (any_slice_value raw))"

definition result_artifacts :: "vmap \<Rightarrow> evidence_artifact list" where
  "result_artifacts item =
     (let text = (\<lambda>k. trim_space (string_value (vget_any item k))); label = text ''label'';
          kind = normalize_requirement_kind (string_value (vget_any item ''kind'')) in
      (if text ''video'' = [] then [] else [named_artifact ''video'' (text ''video'') label]) @
      (if text ''screenshot'' = [] then [] else [named_artifact ''screenshot'' (text ''screenshot'') label]) @
      map (\<lambda>ref. named_artifact kind ref label) (texts_of (vget_any item ''artifact_paths'')))"

definition reported_artifacts :: "vmap \<Rightarrow> evidence_artifact list" where
  "reported_artifacts payload =
     map artifact_of_item (objects_of (any_slice_value (vget_any payload ''evidence''))) @
     map artifact_of_item (objects_of (any_slice_value (vget_any payload ''evidence_artifacts''))) @
     map (\<lambda>ref. named_artifact [] ref []) (texts_of (vget_any payload ''evidence_refs'')) @
     concat (map result_artifacts (objects_of (any_slice_value (vget_any payload ''evidence_results''))))"

definition artifacts_from_payload :: "vmap \<Rightarrow> evidence_artifact list" where
  "artifacts_from_payload payload = foldl append_normalized [] (reported_artifacts payload)"

section \<open>Merging in the store\<close>

definition append_artifact :: "evidence_artifact list \<Rightarrow> evidence_artifact \<Rightarrow> evidence_artifact list" where
  "append_artifact out a =
     (if artifact_ref a = [] \<or> list_ex (\<lambda>x. artifact_key x = artifact_key a) out then out else out @ [a])"

definition artifact_with_source :: "string \<Rightarrow> int \<Rightarrow> evidence_artifact \<Rightarrow> evidence_artifact" where
  "artifact_with_source phase i a =
     a\<lparr>ea_source_phase := (if trim_space (ea_source_phase a) = [] then phase else ea_source_phase a),
       ea_source_attempt := (case ea_source_attempt a of None \<Rightarrow> Some i | Some n \<Rightarrow> Some n)\<rparr>"

definition clean_refs :: "string list \<Rightarrow> string list" where
  "clean_refs vs = filter (\<lambda>s. s \<noteq> []) (map trim_space vs)"

section \<open>What is collected\<close>

lemma fresh_texts_set: "set (fresh_texts seen ss) = set ss - set seen - {[]}"
  by (induction ss arbitrary: seen) auto

lemma fresh_texts_distinct: "distinct (fresh_texts seen ss)"
  by (induction ss arbitrary: seen) (auto simp: fresh_texts_set)

lemma fresh_texts_seen: "set ss \<subseteq> set seen \<union> {[]} \<Longrightarrow> fresh_texts seen ss = []"
  by (induction ss) auto

lemma fresh_texts_fixed: "distinct ss \<Longrightarrow> set ss \<inter> (set seen \<union> {[]}) = {} \<Longrightarrow> fresh_texts seen ss = ss"
  by (induction ss arbitrary: seen) auto

lemma append_missing_set: "set (append_missing vs as) = set vs \<union> (trim_space ` set as - {[]})"
  by (auto simp: append_missing_def fresh_texts_set)

lemma append_missing_distinct: "distinct vs \<Longrightarrow> distinct (append_missing vs as)"
  by (auto simp: append_missing_def fresh_texts_distinct fresh_texts_set)

lemma append_missing_idem: "append_missing (append_missing vs as) as = append_missing vs as"
proof -
  have "fresh_texts (append_missing vs as) (map trim_space as) = []"
    by (rule fresh_texts_seen) (auto simp: append_missing_set)
  then show ?thesis by (simp add: append_missing_def [of "append_missing vs as"])
qed

definition evidence_kinds :: "string set" where
  "evidence_kinds = {''artifact'', ''screenshot'', ''video''}"

lemma kind_words:
  "lower_key (trim_space ''screenshot'') = ''screenshot''"
  "lower_key (trim_space ''video'') = ''video''"
  "lower_key (trim_space ''artifact'') = ''artifact''"
  by code_simp+

lemma normalize_kind_cases: "normalize_evidence_kind k \<in> insert [] evidence_kinds"
  by (simp add: normalize_evidence_kind_def evidence_kinds_def Let_def)

lemma normalize_kind_fixed: "k \<in> evidence_kinds \<Longrightarrow> normalize_evidence_kind k = k"
  by (auto simp: normalize_evidence_kind_def evidence_kinds_def kind_words screenshot_words_def video_words_def Let_def)

lemma normalize_kind_Nil [simp]: "normalize_evidence_kind [] = []"
  by code_simp

lemma normalize_artifact_kind: "ea_kind (normalize_artifact a) \<in> evidence_kinds"
  using normalize_kind_cases [of "if ea_kind a = [] then evidence_kind_for_ref (artifact_ref a) else ea_kind a"]
  by (auto simp: normalize_artifact_def evidence_kinds_def Let_def)

lemma trim_first_blank: "trim_space (first_non_empty a b) = trim_space (if a \<noteq> [] then a else b)"
  by (simp add: first_non_empty_def)

text \<open>An artifact whose reference is not blank keeps it when its fields are trimmed.\<close>

lemma normalize_artifact_ref:
  assumes "artifact_ref a \<noteq> []"
  shows "artifact_ref (normalize_artifact a) = artifact_ref a"
proof -
  consider "ea_ref a \<noteq> []" | "ea_ref a = []" "ea_path a \<noteq> []" | "ea_ref a = []" "ea_path a = []" by blast
  then show ?thesis
    using assms
    by cases (auto simp: artifact_ref_def normalize_artifact_def first_non_empty_def Let_def trim_space_idem)
qed

definition artifacts_ok :: "evidence_artifact list \<Rightarrow> bool" where
  "artifacts_ok as \<longleftrightarrow>
     distinct (map artifact_key as) \<and> (\<forall>a \<in> set as. ea_kind a \<in> evidence_kinds \<and> artifact_ref a \<noteq> [])"

lemma append_normalized_ok: "artifacts_ok out \<Longrightarrow> artifacts_ok (append_normalized out a)"
proof (cases "artifact_ref a = []")
  case False
  assume "artifacts_ok out"
  moreover have "artifact_key (normalize_artifact a) = ea_kind (normalize_artifact a) @ nul @ artifact_ref a"
    using False by (simp add: artifact_key_def normalize_artifact_ref)
  ultimately show ?thesis
    using False normalize_artifact_kind [of a]
    by (auto simp: append_normalized_def artifacts_ok_def list_ex_iff normalize_artifact_ref Let_def)
qed (simp add: append_normalized_def)

lemma append_normalized_set:
  "set (append_normalized out a) \<subseteq> insert (normalize_artifact a) (set out)"
  "set out \<subseteq> set (append_normalized out a)"
  by (auto simp: append_normalized_def Let_def)

lemma artifacts_ok_foldl: "artifacts_ok out \<Longrightarrow> artifacts_ok (foldl append_normalized out as)"
  by (induction as arbitrary: out) (simp_all add: append_normalized_ok)

lemma foldl_append_mono: "set out \<subseteq> set (foldl append_normalized out as)"
  using append_normalized_set(2) by (induction as arbitrary: out) fastforce+

lemma foldl_append_keys:
  "a \<in> set as \<Longrightarrow> artifact_ref a \<noteq> [] \<Longrightarrow>
     \<exists>x \<in> set (foldl append_normalized out as).
       artifact_key x = ea_kind (normalize_artifact a) @ nul @ artifact_ref a"
proof (induction as arbitrary: out)
  case (Cons b as)
  show ?case
  proof (cases "a = b")
    case True
    have "\<exists>x \<in> set (append_normalized out a). artifact_key x = ea_kind (normalize_artifact a) @ nul @ artifact_ref a"
      using Cons.prems(2)
      by (auto simp: append_normalized_def list_ex_iff artifact_key_def normalize_artifact_ref Let_def)
    then show ?thesis using True foldl_append_mono [of "append_normalized out b" as] by auto
  next
    case False
    with Cons show ?thesis by simp
  qed
qed simp

lemma append_normalized_from:
  "x \<in> set (append_normalized out a) \<Longrightarrow> x \<in> set out \<or> artifact_ref a \<noteq> [] \<and> x = normalize_artifact a"
  by (auto simp: append_normalized_def Let_def split: if_splits)

lemma foldl_append_from:
  "x \<in> set (foldl append_normalized out as) \<Longrightarrow>
     x \<in> set out \<or> (\<exists>a \<in> set as. artifact_ref a \<noteq> [] \<and> x = normalize_artifact a)"
proof (induction as arbitrary: out)
  case (Cons b as)
  then show ?case
    using Cons.IH [of "append_normalized out b"] append_normalized_from [of x out b] by auto
qed simp

lemma artifact_key_ref:
  "ea_kind x \<in> evidence_kinds \<Longrightarrow> artifact_key x = ea_kind (normalize_artifact a) @ nul @ ref \<Longrightarrow>
     artifact_ref x = ref"
  using normalize_artifact_kind [of a] by (auto simp: artifact_key_def evidence_kinds_def)

text \<open>
  Of the artifacts a verification reports, in whichever of its four fields, every one with a
  reference is kept exactly once per kind and reference, with a kind the dashboard knows; blank
  ones are dropped. The references derived from the result are distinct, and none is lost.
\<close>
theorem evidence_payload_collected:
  "distinct (map artifact_key (artifacts_from_payload payload)) \<and>
   (\<forall>a \<in> set (artifacts_from_payload payload).
      ea_kind a \<in> {''artifact'', ''screenshot'', ''video''} \<and> artifact_ref a \<noteq> []) \<and>
   (\<forall>a \<in> set (reported_artifacts payload). artifact_ref a \<noteq> [] \<longrightarrow>
      (\<exists>x \<in> set (artifacts_from_payload payload). artifact_ref x = artifact_ref a)) \<and>
   distinct (refs_of_artifacts (artifacts_from_payload payload)) \<and>
   set (refs_of_artifacts (artifacts_from_payload payload))
     = artifact_ref ` {a \<in> set (reported_artifacts payload). artifact_ref a \<noteq> []}"
proof -
  let ?out = "artifacts_from_payload payload" and ?in = "reported_artifacts payload"
  have "artifacts_ok ?out"
    unfolding artifacts_from_payload_def by (rule artifacts_ok_foldl) (simp add: artifacts_ok_def)
  then have ok: "distinct (map artifact_key ?out)"
      "\<forall>a \<in> set ?out. ea_kind a \<in> evidence_kinds \<and> artifact_ref a \<noteq> []"
    by (simp_all add: artifacts_ok_def)
  have kept: "\<exists>x \<in> set ?out. artifact_ref x = artifact_ref a" if "a \<in> set ?in" "artifact_ref a \<noteq> []" for a
    using foldl_append_keys [OF that, of "[]"] ok(2) artifact_key_ref
    unfolding artifacts_from_payload_def by metis
  have from_in: "\<exists>a \<in> set ?in. artifact_ref a \<noteq> [] \<and> artifact_ref x = artifact_ref a" if "x \<in> set ?out" for x
  proof -
    from that obtain a where "a \<in> set ?in" "artifact_ref a \<noteq> []" "x = normalize_artifact a"
      using foldl_append_from [of x "[]" ?in] unfolding artifacts_from_payload_def by auto
    then show ?thesis using normalize_artifact_ref [of a] by blast
  qed
  have refs: "set (refs_of_artifacts ?out) = artifact_ref ` {a \<in> set ?in. artifact_ref a \<noteq> []}"
  proof
    show "set (refs_of_artifacts ?out) \<subseteq> artifact_ref ` {a \<in> set ?in. artifact_ref a \<noteq> []}"
      using from_in unfolding refs_of_artifacts_def fresh_texts_set by fastforce
    show "artifact_ref ` {a \<in> set ?in. artifact_ref a \<noteq> []} \<subseteq> set (refs_of_artifacts ?out)"
    proof
      fix r assume "r \<in> artifact_ref ` {a \<in> set ?in. artifact_ref a \<noteq> []}"
      then obtain a where "a \<in> set ?in" "artifact_ref a \<noteq> []" "r = artifact_ref a" by blast
      with kept obtain x where "x \<in> set ?out" "artifact_ref x = r" "r \<noteq> []" by metis
      then show "r \<in> set (refs_of_artifacts ?out)"
        by (auto simp: refs_of_artifacts_def fresh_texts_set)
    qed
  qed
  show ?thesis
    using ok kept refs by (simp add: evidence_kinds_def refs_of_artifacts_def fresh_texts_distinct)
qed

section \<open>Requirements are merged once\<close>

lemma requirement_kind_idem: "normalize_requirement_kind (normalize_requirement_kind k) = normalize_requirement_kind k"
proof -
  have words: "normalize_requirement_kind ''screenshot'' = ''screenshot''"
      "normalize_requirement_kind ''video'' = ''video''"
      "normalize_requirement_kind ''artifact'' = ''artifact''" "normalize_requirement_kind [] = []"
    by code_simp+
  show ?thesis
  proof (cases "normalize_requirement_kind k \<in> {''screenshot'', ''video'', ''artifact'', []}")
    case True
    with words show ?thesis by auto
  next
    case False
    then have plain: "normalize_requirement_kind k = trim_space k"
      unfolding normalize_requirement_kind_def Let_def by (simp split: if_splits)
    have "normalize_requirement_kind (trim_space k) = normalize_requirement_kind k"
      unfolding normalize_requirement_kind_def trim_space_idem ..
    with plain show ?thesis by simp
  qed
qed

definition requirements_ok :: "evidence_requirement list \<Rightarrow> bool" where
  "requirements_ok rs \<longleftrightarrow>
     distinct (map requirement_key rs) \<and>
     (\<forall>r \<in> set rs. er_kind r \<noteq> [] \<and> normalize_requirement_kind (er_kind r) = er_kind r)"

lemma collect_keys:
  "r \<in> set (collect_requirements kf seen rs) \<Longrightarrow> requirement_key r \<notin> set seen"
  by (induction rs arbitrary: seen) (fastforce simp: Let_def split: if_splits)+

lemma collect_ok: "requirements_ok (collect_requirements normalize_requirement_kind seen rs)"
proof (induction rs arbitrary: seen)
  case (Cons r rs)
  let ?r = "r\<lparr>er_kind := normalize_requirement_kind (er_kind r)\<rparr>"
  show ?case
    using Cons [of seen] Cons [of "requirement_key ?r # seen"]
      collect_keys [of _ normalize_requirement_kind "requirement_key ?r # seen" rs]
    by (fastforce simp: requirements_ok_def requirement_kind_idem Let_def)
qed (simp add: requirements_ok_def)

lemma collect_fixed:
  "requirements_ok rs \<Longrightarrow> requirement_key ` set rs \<inter> set seen = {} \<Longrightarrow>
     collect_requirements normalize_requirement_kind seen rs = rs"
proof (induction rs arbitrary: seen)
  case (Cons r rs)
  then have "r\<lparr>er_kind := normalize_requirement_kind (er_kind r)\<rparr> = r" by (simp add: requirements_ok_def)
  with Cons show ?case by (auto simp: requirements_ok_def Let_def)
qed simp

text \<open>
  Merging requirements is idempotent, and merging the result of a merge with groups it was
  made from adds nothing new at the front: the first occurrence of a requirement wins.
\<close>
theorem merge_requirements_idempotent:
  "merge_evidence_requirements [merge_evidence_requirements groups] = merge_evidence_requirements groups"
  by (simp add: merge_evidence_requirements_def collect_fixed collect_ok)

end
