(* ===== verification/JobCompletions.thy ===== *)
theory JobCompletions
  imports Evidence RunTypes Canonical
begin

text \<open>
  What a finished job reports: the request of the runner and the payload made from it
  (\<open>internal/server/completion_api.go\<close>), typed step errors (\<open>internal/domain/steperr\<close>),
  and the completion of a job as an attempt keeps it, with its aggregation over a phase
  (\<open>internal/store/store/postgres.go\<close>). The completions of an attempt and the outputs of a
  job are Go maps: association lists with distinct keys in the order a \<open>range\<close> loop visits
  them. Where DeepEqual tells a nil slice or map from an empty one, nil is \<open>None\<close>. Strings come
  from JSON and are valid UTF-8; costs are finite.
\<close>

section \<open>Step errors\<close>

record step_fault =
  sx_layer :: string
  sx_code :: string
  sx_message :: string

definition valid_layer :: "string \<Rightarrow> bool" where
  "valid_layer l = (trim_space l \<in> set [''harness'', ''host'', ''model''])"

definition step_error_valid :: "step_fault option \<Rightarrow> bool" where
  "step_error_valid b = (case b of None \<Rightarrow> False | Some e \<Rightarrow> trim_space (sx_message e) \<noteq> [])"

definition normalize_step_error :: "step_fault \<Rightarrow> step_fault" where
  "normalize_step_error e =
     (let l = trim_space (sx_layer e) in
      \<lparr>sx_layer = (if valid_layer l then l else ''harness''), sx_code = trim_space (sx_code e),
       sx_message = trim_space (sx_message e)\<rparr>)"

definition suspected_cause :: "string \<Rightarrow> string" where
  "suspected_cause layer =
     (let l = trim_space layer in
      if l = ''host'' then ''environment_config''
      else if l = ''model'' then ''code_bug''
      else ''harness_flake'')"

section \<open>The payload\<close>

record agent_usage =
  au_provider :: string
  au_model :: string
  au_profile :: string
  au_step :: string
  au_catalog :: string
  au_input :: int
  au_cached :: int
  au_output :: int
  au_reasoning :: int
  au_uncached :: int
  au_cache_write :: int
  au_cost :: gofloat

record job_payload =
  jp_job :: "string option"
  jp_conclusion :: string
  jp_status :: string
  jp_reasons :: "string list"
  jp_failure :: "run_failure option"
  jp_refs :: "string list"
  jp_evidence :: "evidence_artifact list"
  jp_cost :: gofloat
  jp_usage :: "agent_usage list"
  jp_summary :: "string option"
  jp_screenshots :: "string option"
  jp_outputs :: "(string \<times> string) list option"
  jp_attempt :: "int option"
  jp_error :: "step_fault option"
  jp_reason :: string
  jp_log :: string

record runner_request =
  rq_job :: "string option"
  rq_conclusion :: string
  rq_attempt :: "int option"
  rq_cost :: gofloat
  rq_usage :: "agent_usage list"
  rq_verification :: "vmap option"
  rq_evidence :: "evidence_artifact list"
  rq_screenshots :: "string option"
  rq_summary :: "string option"
  rq_outputs :: "(string \<times> string) list option"
  rq_error :: "step_fault option"

text \<open>\<open>verificationFailureFromAny\<close>, \<open>stringSliceFromVerification\<close>, \<open>extractVerification\<close>.\<close>

definition failure_of_block :: "vmap \<Rightarrow> run_failure" where
  "failure_of_block b =
     (let text = (\<lambda>k. trim_space (string_value (vget_any b k))) in
      \<lparr>fl_expected = text ''expected'', fl_observed = text ''observed'', fl_where = text ''where'',
       fl_suspected_cause = text ''suspected_cause'', fl_cause_detail = text ''cause_detail''\<rparr>)"

definition failure_blank :: "run_failure \<Rightarrow> bool" where
  "failure_blank f =
     (fl_expected f = [] \<and> fl_observed f = [] \<and> fl_where f = [] \<and> fl_suspected_cause f = [] \<and>
      fl_cause_detail f = [])"

definition verification_failure_from_any :: "goval \<Rightarrow> run_failure option" where
  "verification_failure_from_any v =
     (let f = failure_of_block (any_map_value v) in if failure_blank f then None else Some f)"

fun strings_in :: "goval list \<Rightarrow> string list" where
  "strings_in [] = []"
| "strings_in (VStr s # vs) = s # strings_in vs"
| "strings_in (_ # vs) = strings_in vs"

definition extract_verification :: "vmap option \<Rightarrow> job_payload \<Rightarrow> job_payload" where
  "extract_verification raw p =
     (case raw of
        None \<Rightarrow> p
      | Some m \<Rightarrow>
          (let evidence = artifacts_from_payload m in
           p\<lparr>jp_status := (case vget_any m ''status'' of VStr s \<Rightarrow> s | _ \<Rightarrow> jp_status p),
             jp_cost := (case vget_any m ''cost_usd'' of VNum q \<Rightarrow> if 0 < q then Fin q else jp_cost p | _ \<Rightarrow> jp_cost p),
             jp_reasons := jp_reasons p @ strings_in (any_slice_value (vget_any m ''reasons'')),
             jp_failure := verification_failure_from_any (vget_any m ''failure''),
             jp_refs := append_missing
                          (clean_refs (strings_in (any_slice_value (vget_any m ''evidence_refs''))))
                          (refs_of_artifacts evidence),
             jp_evidence := evidence\<rparr>))"

definition payload_from_request :: "runner_request \<Rightarrow> job_payload" where
  "payload_from_request r =
     (let p = extract_verification (rq_verification r)
                \<lparr>jp_job = rq_job r, jp_conclusion = rq_conclusion r, jp_status = [], jp_reasons = [],
                 jp_failure = None, jp_refs = [], jp_evidence = [], jp_cost = rq_cost r,
                 jp_usage = rq_usage r, jp_summary = rq_summary r, jp_screenshots = rq_screenshots r,
                 jp_outputs = rq_outputs r, jp_attempt = rq_attempt r, jp_error = None, jp_reason = [],
                 jp_log = []\<rparr> in
      p\<lparr>jp_evidence := jp_evidence p @ rq_evidence r,
        jp_refs := append_missing (jp_refs p) (refs_of_artifacts (rq_evidence r)),
        jp_error := (if step_error_valid (rq_error r) then map_option normalize_step_error (rq_error r) else None)\<rparr>)"

section \<open>Reasons\<close>

definition known_terminal_reasons :: "string list" where
  "known_terminal_reasons =
     [[], ''deadline_exceeded'', ''backoff_exceeded'', ''oom_killed'', ''evicted'', ''pod_gone'',
      ''callback_lost'', ''job_failed'', ''timeout'', ''cancelled'', ''verification_failed'',
      ''verification_error'', ''aborted'', ''unknown'']"

definition normalize_terminal_reason :: "string \<Rightarrow> string" where
  "normalize_terminal_reason r = (if r \<in> set known_terminal_reasons then r else ''unknown'')"

definition refine_terminal_reason :: "string \<Rightarrow> string \<Rightarrow> string" where
  "refine_terminal_reason reason pod =
     (let p = lower_key (trim_space pod) in
      if p = ''oomkilled'' then ''oom_killed'' else if p = ''evicted'' then ''evicted'' else reason)"

definition callback_reason :: "job_payload \<Rightarrow> string" where
  "callback_reason p =
     (if jp_reason p \<noteq> [] then jp_reason p
      else if jp_status p = ''fail'' then ''verification_failed''
      else if jp_status p = ''error'' then ''verification_error''
      else if jp_conclusion p = ''success'' then []
      else if jp_conclusion p = ''timed_out'' then ''timeout''
      else if jp_conclusion p = ''cancelled'' then ''cancelled''
      else if jp_conclusion p = ''aborted'' then ''aborted''
      else ''job_failed'')"

section \<open>The completion of a job\<close>

record verification_doc =
  vd_status :: string
  vd_reasons :: "string list"
  vd_failure :: "run_failure option"
  vd_refs :: "string list"
  vd_evidence :: "evidence_artifact list option"
  vd_cost :: gofloat

record job_completion =
  jc_job :: string
  jc_completed_at :: string
  jc_conclusion :: string
  jc_verification :: "verification_doc option"
  jc_summary :: "string option"
  jc_screenshots :: "string option"
  jc_cost :: gofloat
  jc_usage :: "agent_usage list option"
  jc_outputs :: "(string \<times> string) list option"
  jc_reason :: string
  jc_error :: "step_fault option"

type_synonym completions = "(string \<times> job_completion) list"

definition slice :: "'a list option \<Rightarrow> 'a list" where
  "slice xs = (case xs of None \<Rightarrow> [] | Some vs \<Rightarrow> vs)"

lemma slice_simps [simp]: "slice None = []" "slice (Some vs) = vs"
  by (simp_all add: slice_def)

definition payload_verification :: "job_payload \<Rightarrow> verification_doc option" where
  "payload_verification p =
     (if jp_status p \<noteq> [] \<or> jp_refs p \<noteq> [] \<or> jp_evidence p \<noteq> []
      then Some \<lparr>vd_status = jp_status p, vd_reasons = jp_reasons p, vd_failure = jp_failure p,
                 vd_refs = jp_refs p, vd_evidence = Some (jp_evidence p), vd_cost = jp_cost p\<rparr>
      else None)"

definition normalized_step_error :: "step_fault option \<Rightarrow> step_fault option" where
  "normalized_step_error b = (if step_error_valid b then map_option normalize_step_error b else None)"

definition completion_of_payload :: "string \<Rightarrow> job_payload \<Rightarrow> string \<Rightarrow> job_completion" where
  "completion_of_payload job p now =
     \<lparr>jc_job = job, jc_completed_at = now, jc_conclusion = jp_conclusion p,
      jc_verification = payload_verification p, jc_summary = jp_summary p,
      jc_screenshots = jp_screenshots p, jc_cost = jp_cost p, jc_usage = Some (jp_usage p),
      jc_outputs = Some (slice (jp_outputs p)), jc_reason = normalize_terminal_reason (jp_reason p),
      jc_error = normalized_step_error (jp_error p)\<rparr>"

text \<open>
  What reading the stored document gives back: an empty slice or map with \<open>omitempty\<close> is left
  out of the JSON, so it is nil afterwards.
\<close>

definition omit_empty :: "'a list option \<Rightarrow> 'a list option" where
  "omit_empty xs = (case xs of Some [] \<Rightarrow> None | _ \<Rightarrow> xs)"

definition stored_completion :: "job_completion \<Rightarrow> job_completion" where
  "stored_completion c =
     c\<lparr>jc_verification := map_option (\<lambda>v. v\<lparr>vd_evidence := omit_empty (vd_evidence v)\<rparr>) (jc_verification c),
       jc_usage := omit_empty (jc_usage c), jc_outputs := omit_empty (jc_outputs c)\<rparr>"

definition store_all :: "completions \<Rightarrow> completions" where
  "store_all cs = map (\<lambda>(i, c). (i, stored_completion c)) cs"

text \<open>\<open>reflect.DeepEqual\<close>: a nil map or slice differs from an empty one, and the order of a map
  does not count.\<close>

definition same_map :: "(string \<times> string) list option \<Rightarrow> (string \<times> string) list option \<Rightarrow> bool" where
  "same_map m n =
     (case (m, n) of
        (None, None) \<Rightarrow> True
      | (Some a, Some b) \<Rightarrow> list_all (\<lambda>k. map_of a k = map_of b k) (map fst a @ map fst b)
      | _ \<Rightarrow> False)"

definition same_completion :: "job_completion \<Rightarrow> job_completion \<Rightarrow> bool" where
  "same_completion a b =
     (a\<lparr>jc_completed_at := [], jc_outputs := None\<rparr> = b\<lparr>jc_completed_at := [], jc_outputs := None\<rparr> \<and>
      same_map (jc_outputs a) (jc_outputs b))"

definition generic_state_and_reason :: "job_completion \<Rightarrow> bool \<Rightarrow> string \<times> string" where
  "generic_state_and_reason c controls =
     (let st = (case jc_verification c of Some v \<Rightarrow> if controls then vd_status v else [] | None \<Rightarrow> []) in
      if st = ''pass'' then (''succeeded'', [])
      else if st = ''fail'' then (''failed'', ''verification_failed'')
      else if st = ''error'' then (''failed'', ''verification_error'')
      else if jc_conclusion c = ''success'' then (''succeeded'', [])
      else if jc_conclusion c = ''skipped'' then (''skipped'', [])
      else if jc_conclusion c = ''timed_out'' then (''failed'', ''timeout'')
      else if jc_conclusion c = ''cancelled'' then (''failed'', ''cancelled'')
      else if jc_conclusion c = ''aborted'' then (''failed'', ''aborted'')
      else (''failed'', ''job_failed''))"

definition execution_state_and_reason :: "job_completion \<Rightarrow> bool \<Rightarrow> string \<times> string" where
  "execution_state_and_reason c controls =
     (let (st, fallback) = generic_state_and_reason c controls in
      if jc_reason c \<noteq> [] then (st, jc_reason c) else (st, fallback))"

definition any_skipped_completion :: "completions \<Rightarrow> bool" where
  "any_skipped_completion cs = list_ex (\<lambda>(_, c). jc_conclusion c = ''skipped'') cs"

section \<open>JSON text\<close>

text \<open>
  \<open>json.Marshal\<close> of the values used here (no fractions): strings escaped as the encoder
  does it by default, with the characters special in HTML and the two line separators as code
  points; members in the given order.
\<close>

definition hex4 :: "nat \<Rightarrow> string" where
  "hex4 n = (let h = (\<lambda>d. if d < 10 then char_of (48 + d) else char_of (87 + d)) in
             [h (n div 4096 mod 16), h (n div 256 mod 16), h (n div 16 mod 16), h (n mod 16)])"

fun json_escape :: "string \<Rightarrow> string" where
  "json_escape [] = []"
| "json_escape (c # cs) =
     (if c = CHR 0x22 then CHR 0x5C # CHR 0x22 # json_escape cs
      else if c = CHR 0x5C then CHR 0x5C # CHR 0x5C # json_escape cs
      else if c = CHR 0x08 then CHR 0x5C # CHR ''b'' # json_escape cs
      else if c = CHR 0x0C then CHR 0x5C # CHR ''f'' # json_escape cs
      else if c = CHR 0x0A then CHR 0x5C # CHR ''n'' # json_escape cs
      else if c = CHR 0x0D then CHR 0x5C # CHR ''r'' # json_escape cs
      else if c = CHR 0x09 then CHR 0x5C # CHR ''t'' # json_escape cs
      else if byte_of c < 32 \<or> c \<in> {CHR ''<'', CHR ''>'', CHR ''&''}
      then CHR 0x5C # CHR ''u'' # hex4 (byte_of c) @ json_escape cs
      else if c = CHR 0xE2 \<and> take 2 cs = [CHR 0x80, CHR 0xA8]
      then CHR 0x5C # ''u2028'' @ json_escape (drop 2 cs)
      else if c = CHR 0xE2 \<and> take 2 cs = [CHR 0x80, CHR 0xA9]
      then CHR 0x5C # ''u2029'' @ json_escape (drop 2 cs)
      else c # json_escape cs)"

definition json_string :: "string \<Rightarrow> string" where
  "json_string s = CHR 0x22 # json_escape s @ [CHR 0x22]"

definition json_list :: "string list \<Rightarrow> string" where
  "json_list xs = ''['' @ join_with '','' xs @ '']''"

definition json_object :: "(string \<times> string) list \<Rightarrow> string" where
  "json_object ms = ''{'' @ join_with '','' (map (\<lambda>(k, v). json_string k @ '':'' @ v) ms) @ ''}''"

definition json_text_member :: "string \<Rightarrow> string \<Rightarrow> (string \<times> string) list" where
  "json_text_member k v = (if v = [] then [] else [(k, json_string v)])"

definition json_int_member :: "string \<Rightarrow> int \<Rightarrow> (string \<times> string) list" where
  "json_int_member k n = (if n = 0 then [] else [(k, itoa n)])"

definition json_failure :: "run_failure \<Rightarrow> string" where
  "json_failure f =
     json_object (json_text_member ''expected'' (fl_expected f) @ json_text_member ''observed'' (fl_observed f) @
       json_text_member ''where'' (fl_where f) @ json_text_member ''suspected_cause'' (fl_suspected_cause f) @
       json_text_member ''cause_detail'' (fl_cause_detail f))"

definition json_artifact :: "evidence_artifact \<Rightarrow> string" where
  "json_artifact a =
     json_object ([(''kind'', json_string (ea_kind a)), (''ref'', json_string (ea_ref a)),
                   (''label'', json_string (ea_label a))] @
       json_text_member ''url'' (ea_url a) @ json_text_member ''artifact_path'' (ea_path a) @
       json_text_member ''content_type'' (ea_content_type a) @ json_int_member ''size_bytes'' (ea_size a) @
       json_int_member ''duration_ms'' (ea_duration a) @ json_text_member ''source_phase'' (ea_source_phase a) @
       (case ea_source_attempt a of None \<Rightarrow> [] | Some n \<Rightarrow> [(''source_attempt_index'', itoa n)]))"

text \<open>The members of a map come out sorted by key.\<close>

definition synthesized_verification ::
  "string \<Rightarrow> string list \<Rightarrow> run_failure option \<Rightarrow> string list \<Rightarrow> evidence_artifact list \<Rightarrow> string" where
  "synthesized_verification status reasons failure refs evidence =
     json_object
       ([(''evidence'', json_list (map json_artifact evidence)),
         (''evidence_refs'', json_list (map json_string refs))] @
        (case failure of None \<Rightarrow> [] | Some f \<Rightarrow> [(''failure'', json_failure f)]) @
        [(''reasons'', json_list (map json_string reasons)), (''status'', json_string status)])"

section \<open>A phase\<close>

definition completion_failed :: "job_completion \<Rightarrow> bool" where
  "completion_failed c =
     ((jc_conclusion c \<noteq> [] \<and> \<not> is_advance_conclusion (jc_conclusion c)) \<or>
      (case jc_verification c of None \<Rightarrow> False | Some v \<Rightarrow> vd_status v \<in> set [''fail'', ''error'']))"

definition sorted_ids :: "completions \<Rightarrow> string list" where
  "sorted_ids cs = sort (map fst cs)"

definition reported_ids :: "string list \<Rightarrow> completions \<Rightarrow> string list" where
  "reported_ids expected cs = (if expected = [] then sorted_ids cs else expected)"

record completion_lists =
  cl_completed :: "string list"
  cl_pending :: "string list"
  cl_failed :: "string list"

definition failed_id :: "completions \<Rightarrow> string \<Rightarrow> bool" where
  "failed_id cs i = (case map_of cs i of None \<Rightarrow> False | Some c \<Rightarrow> completion_failed c)"

definition completion_lists_of :: "string list \<Rightarrow> completions \<Rightarrow> bool \<Rightarrow> completion_lists" where
  "completion_lists_of expected0 cs phase_complete =
     (let expected = reported_ids expected0 cs;
          present = filter (\<lambda>i. map_of cs i \<noteq> None) expected;
          extras = sort (filter (\<lambda>i. i \<notin> set expected) (map fst cs)) in
      \<lparr>cl_completed = present @ extras,
       cl_pending = (if phase_complete then [] else filter (\<lambda>i. map_of cs i = None) expected),
       cl_failed = filter (failed_id cs) (present @ extras)\<rparr>)"

definition all_expected_completed :: "string list \<Rightarrow> completions \<Rightarrow> bool" where
  "all_expected_completed expected cs =
     (if expected = [] then cs \<noteq> [] else list_all (\<lambda>i. map_of cs i \<noteq> None) expected)"

definition combine_status :: "string \<Rightarrow> string \<Rightarrow> string" where
  "combine_status current next =
     (if next = ''error'' then ''error''
      else if next = ''fail'' then (if current \<noteq> ''error'' then ''fail'' else current)
      else if next = ''pass'' then (if current = [] then ''pass'' else current)
      else current)"

definition markdown_section :: "string \<Rightarrow> string \<Rightarrow> string" where
  "markdown_section job md = ''### '' @ job @ [CHR 0x0A, CHR 0x0A] @ trim_space md"

text \<open>\<open>aggregateRunnerPhaseCompletion\<close>, one accumulated value at a time over the completed jobs.\<close>

definition completed_jobs :: "string list \<Rightarrow> completions \<Rightarrow> (string \<times> job_completion) list" where
  "completed_jobs ids cs = List.map_filter (\<lambda>i. map_option (Pair i) (map_of cs i)) ids"

definition verdict_bearing :: "job_completion \<Rightarrow> bool" where
  "verdict_bearing c = (jc_conclusion c \<notin> set [[], ''success'', ''skipped''])"

definition first_bad_conclusion :: "job_completion list \<Rightarrow> string" where
  "first_bad_conclusion cs =
     (case find verdict_bearing cs of None \<Rightarrow> ''success'' | Some c \<Rightarrow> jc_conclusion c)"

definition verifications :: "(string \<times> job_completion) list \<Rightarrow> (string \<times> verification_doc) list" where
  "verifications js = List.map_filter (\<lambda>(i, c). map_option (Pair i) (jc_verification c)) js"

definition aggregate_status :: "verification_doc list \<Rightarrow> string" where
  "aggregate_status vs = foldl combine_status [] (map vd_status vs)"

definition aggregate_failure :: "verification_doc list \<Rightarrow> run_failure option" where
  "aggregate_failure vs =
     (case List.map_filter vd_failure (filter (\<lambda>v. vd_status v \<noteq> ''pass'' \<and> vd_status v \<noteq> []) vs) of
        [] \<Rightarrow> None | f # _ \<Rightarrow> Some f)"

definition aggregate_reasons :: "(string \<times> verification_doc) list \<Rightarrow> string list" where
  "aggregate_reasons vs =
     concat (map (\<lambda>(i, v). map (\<lambda>r. i @ '': '' @ r) (filter (\<lambda>r. trim_space r \<noteq> []) (vd_reasons v))) vs)"

definition aggregate_refs :: "verification_doc list \<Rightarrow> string list" where
  "aggregate_refs vs =
     foldl (\<lambda>acc v. append_missing (append_missing acc (vd_refs v)) (refs_of_artifacts (slice (vd_evidence v)))) [] vs"

definition aggregate_evidence :: "verification_doc list \<Rightarrow> evidence_artifact list" where
  "aggregate_evidence vs = foldl append_artifact [] (concat (map (\<lambda>v. slice (vd_evidence v)) vs))"

definition merged_outputs :: "job_completion list \<Rightarrow> (string \<times> string) list" where
  "merged_outputs cs = foldl (\<lambda>m (k, v). AList.update k v m) [] (concat (map (\<lambda>c. slice (jc_outputs c)) cs))"

definition markdown_sections :: "(string \<times> string option) list \<Rightarrow> string option" where
  "markdown_sections ms =
     (let sections = List.map_filter (\<lambda>(i, md). case md of
              None \<Rightarrow> None
            | Some t \<Rightarrow> if trim_space t = [] then None else Some (markdown_section i t)) ms in
      if sections = [] then None else Some (join_with [CHR 0x0A, CHR 0x0A] sections))"

definition sum_costs :: "(gofloat \<Rightarrow> gofloat \<Rightarrow> gofloat) \<Rightarrow> completions \<Rightarrow> gofloat" where
  "sum_costs add cs = foldl (\<lambda>total (_, c). add total (jc_cost c)) (Fin 0) cs"

definition aggregate_completion ::
  "(gofloat \<Rightarrow> gofloat \<Rightarrow> gofloat) \<Rightarrow> string list \<Rightarrow> completions \<Rightarrow> job_payload" where
  "aggregate_completion add expected cs =
     (let js = completed_jobs (reported_ids expected cs) cs; jobs = map snd js;
          vs = verifications js; docs = map snd vs;
          status = aggregate_status docs; reasons = aggregate_reasons vs;
          failure = aggregate_failure docs; refs = aggregate_refs docs;
          evidence = aggregate_evidence docs; outputs = merged_outputs jobs;
          conclusion = first_bad_conclusion jobs in
      \<lparr>jp_job = None,
       jp_conclusion =
         (if status \<in> set [''fail'', ''error''] \<and> conclusion = ''success'' then ''failure'' else conclusion),
       jp_status = status, jp_reasons = reasons, jp_failure = failure, jp_refs = refs,
       jp_evidence = evidence, jp_cost = sum_costs add cs,
       jp_usage = concat (map (\<lambda>c. slice (jc_usage c)) jobs),
       jp_summary = markdown_sections (map (\<lambda>(i, c). (i, jc_summary c)) js),
       jp_screenshots = markdown_sections (map (\<lambda>(i, c). (i, jc_screenshots c)) js),
       jp_outputs = Some (if status \<noteq> [] \<and> map_of outputs ''verification'' = None
                          then AList.update ''verification''
                                 (synthesized_verification status reasons failure refs evidence) outputs
                          else outputs),
       jp_attempt = None, jp_error = None, jp_reason = [], jp_log = []\<rparr>)"

section \<open>Recording one\<close>

datatype record_error =
    JobIdRequired
  | JobNotOnPhase string string
  | PhaseWithoutJobs string
  | PhaseWithoutJobIds string
  | PhaseNotOnWorkflow string string
  | WorkflowUnknown string
  | EmptyOutputKey string
  | OutputAlreadySet string string
  | RecordConflict
  | RunUnknown

fun distinct_ids :: "string list \<Rightarrow> string list \<Rightarrow> string list" where
  "distinct_ids seen [] = []"
| "distinct_ids seen (i # is) =
     (if i = [] \<or> i \<in> set seen then distinct_ids seen is else i # distinct_ids (i # seen) is)"

definition expected_job_ids ::
  "canonical_scripts \<Rightarrow> workflow \<Rightarrow> string \<Rightarrow> (record_error, string list) res" where
  "expected_job_ids scr wkf phase =
     (case find (\<lambda>p. ps_name p = phase) (wf_phases wkf) of
        None \<Rightarrow> Inl (PhaseNotOnWorkflow phase (wf_name wkf))
      | Some p \<Rightarrow>
          (let jobs = ps_jobs (canonical_phase scr p);
               ids = distinct_ids [] (map (\<lambda>j. trim_space (js_id j)) jobs) in
           if jobs = [] then Inl (PhaseWithoutJobs phase)
           else if ids = [] then Inl (PhaseWithoutJobIds phase)
           else Inr ids))"

definition has_output :: "string \<Rightarrow> string \<times> job_completion \<Rightarrow> bool" where
  "has_output k jc = (map_of (slice (jc_outputs (snd jc))) k \<noteq> None)"

definition check_output_key :: "string \<Rightarrow> completions \<Rightarrow> string \<Rightarrow> record_error option" where
  "check_output_key job cs key =
     (let t = trim_space key in
      if t = [] then Some (EmptyOutputKey job)
      else (case find (has_output t) cs of
              Some (other, _) \<Rightarrow> Some (OutputAlreadySet t other)
            | None \<Rightarrow> None))"

definition validate_output_keys :: "string \<Rightarrow> (string \<times> string) list \<Rightarrow> completions \<Rightarrow> record_error option" where
  "validate_output_keys job outputs cs = check_all (check_output_key job cs) (map fst outputs)"

text \<open>The part of \<open>RecordRunnerJobCompletion\<close> that looks at one attempt.\<close>

datatype record_outcome =
    AlreadyCompleted
  | DuplicateCompletion
  | Recorded completions

definition record_on_attempt ::
  "string list \<Rightarrow> string \<Rightarrow> string \<Rightarrow> job_payload \<Rightarrow> string \<Rightarrow> bool \<Rightarrow> completions \<Rightarrow>
     (record_error, record_outcome) res" where
  "record_on_attempt expected phase job p now completed cs =
     (if job \<notin> set expected then Inl (JobNotOnPhase job phase)
      else if completed then Inr AlreadyCompleted
      else
        (let c = completion_of_payload job p now in
         case map_of cs job of
           Some existing \<Rightarrow> if same_completion existing c then Inr DuplicateCompletion else Inl RecordConflict
         | None \<Rightarrow>
             (case validate_output_keys job (slice (jc_outputs c)) cs of
                Some e \<Rightarrow> Inl e
              | None \<Rightarrow> Inr (Recorded (AList.update job c cs)))))"

end
