(* ===== verification/RunStore.thy ===== *)
theory RunStore
  imports JobCompletions RunRouting
begin

text \<open>
  The run document and the operations of the store that change it
  (\<open>internal/store/store/postgres.go\<close>). Each operation is one transaction on the row
  (\<open>PatchPayload\<close> in \<open>internal/store/pg/runs.go\<close> locks it, applies a function to the
  document and writes it back, or leaves it alone when the function fails), so an operation is a
  function from the document to a new document or an error. A missing text and the empty text are
  not told apart where the code does not. The clock is an argument.
\<close>

section \<open>The document\<close>

record attempt_doc =
  ad_index :: int
  ad_phase :: string
  ad_kind :: string
  ad_workflow :: string
  ad_dispatched :: string
  ad_completed :: string
  ad_conclusion :: string
  ad_verification :: "verification_doc option"
  ad_summary :: "string option"
  ad_cost :: "gofloat option"
  ad_usage :: "agent_usage list"
  ad_decision :: string
  ad_log :: string
  ad_outputs :: "(string \<times> string) list option"
  ad_completions :: completions
  ad_carry :: bool
  ad_cancel_at :: string
  ad_cancel_reason :: string

record run_doc =
  rn_id :: string
  rn_project :: string
  rn_workflow :: string
  rn_schema_ref :: string
  rn_issue :: int
  rn_run_cycle :: "int option"
  rn_display :: "string option"
  rn_pr :: "int option"
  rn_state :: string
  rn_queue :: string
  rn_admission_error :: string
  rn_slot_lease :: "string option"
  rn_attempts :: "attempt_doc list"
  rn_execs :: "phase_exec list"
  rn_cost :: gofloat
  rn_budget :: "budget_config option"
  rn_validation :: string
  rn_screenshots :: string
  rn_abort :: "string option"
  rn_entrypoint :: "string option"
  rn_inputs :: "string \<rightharpoonup> string"
  rn_preserve :: bool
  rn_prior :: "prior_verification option"
  rn_updated :: string

datatype run_error =
    RunConflict
  | NoAttempts string
  | WrongPhase string string
  | BadEvent string
  | OutputTaken string int
  | Recording record_error

section \<open>Attempts\<close>

definition next_index :: "attempt_doc list \<Rightarrow> int" where
  "next_index as = (if as = [] then 0 else ad_index (last as) + 1)"

definition new_attempt :: "int \<Rightarrow> string \<Rightarrow> string \<Rightarrow> string \<Rightarrow> string \<Rightarrow> attempt_doc" where
  "new_attempt i phase kind wff now =
     \<lparr>ad_index = i, ad_phase = phase, ad_kind = kind, ad_workflow = wff, ad_dispatched = now,
      ad_completed = [], ad_conclusion = [], ad_verification = None, ad_summary = None, ad_cost = None,
      ad_usage = [], ad_decision = [], ad_log = [], ad_outputs = None, ad_completions = [],
      ad_carry = False, ad_cancel_at = [], ad_cancel_reason = []\<rparr>"

definition add_attempt :: "string \<Rightarrow> string \<Rightarrow> string \<Rightarrow> string \<Rightarrow> run_doc \<Rightarrow> run_doc" where
  "add_attempt phase kind wff now d =
     d\<lparr>rn_attempts := rn_attempts d @ [new_attempt (next_index (rn_attempts d)) phase kind wff now],
       rn_updated := now\<rparr>"

definition append_run_attempt :: "string \<Rightarrow> string \<Rightarrow> string \<Rightarrow> string \<Rightarrow> run_doc \<Rightarrow> run_doc" where
  "append_run_attempt phase kind wff now d =
     (add_attempt phase kind wff now d)\<lparr>rn_execs := mark_phase_dispatching phase kind now (rn_execs d)\<rparr>"

definition carried :: "attempt_doc \<Rightarrow> bool" where
  "carried a = (ad_carry a \<and> ad_completed a \<noteq> [])"

definition start_run_cycle ::
  "string \<Rightarrow> string \<Rightarrow> string \<Rightarrow> string \<Rightarrow> string \<Rightarrow> run_doc \<Rightarrow> (run_error, run_doc) res" where
  "start_run_cycle phase kind wff lease now d =
     (if rn_state d \<noteq> ''queued'' \<or> \<not> list_all carried (rn_attempts d) then Inl RunConflict
      else Inr ((append_run_attempt phase kind wff now d)
                  \<lparr>rn_state := ''in_progress'', rn_queue := ''admitted'', rn_slot_lease := Some lease,
                   rn_admission_error := []\<rparr>))"

definition edit_last :: "(attempt_doc \<Rightarrow> attempt_doc) \<Rightarrow> run_doc \<Rightarrow> run_doc" where
  "edit_last f d = d\<lparr>rn_attempts := update_last f (rn_attempts d)\<rparr>"

definition edit_at :: "nat \<Rightarrow> (attempt_doc \<Rightarrow> attempt_doc) \<Rightarrow> run_doc \<Rightarrow> run_doc" where
  "edit_at i f d = d\<lparr>rn_attempts := (rn_attempts d)[i := f (rn_attempts d ! i)]\<rparr>"

definition stamp_attempt_skipped :: "string \<Rightarrow> string \<Rightarrow> run_doc \<Rightarrow> (run_error, run_doc) res" where
  "stamp_attempt_skipped reason now d =
     (if rn_attempts d = [] then Inl (NoAttempts ''stamp'')
      else Inr ((edit_last (\<lambda>a. a\<lparr>ad_conclusion := ''skipped'', ad_decision := ''advance'', ad_completed := now,
                    ad_summary := (if trim_space reason \<noteq> [] then Some reason else ad_summary a)\<rparr>) d)
                  \<lparr>rn_updated := now\<rparr>))"

text \<open>The index of a request is a position when it is in range; otherwise the last attempt is meant.\<close>

definition position_of :: "int option \<Rightarrow> run_doc \<Rightarrow> nat" where
  "position_of i d =
     (case i of
        Some n \<Rightarrow> if 0 \<le> n \<and> n < int (length (rn_attempts d)) then nat n else length (rn_attempts d) - 1
      | None \<Rightarrow> length (rn_attempts d) - 1)"

definition promote_output :: "run_doc \<Rightarrow> string \<times> string \<Rightarrow> run_doc" where
  "promote_output d kv =
     (let v = trim_space (snd kv) in
      if trim_space (fst kv) = ''validation_url'' \<and> v \<noteq> [] \<and> trim_space (rn_validation d) \<noteq> v
      then d\<lparr>rn_validation := v\<rparr> else d)"

definition completed_attempt :: "job_payload \<Rightarrow> string \<Rightarrow> attempt_doc \<Rightarrow> attempt_doc" where
  "completed_attempt p now a =
     a\<lparr>ad_completed := now, ad_conclusion := jp_conclusion p,
       ad_summary := (case jp_summary p of Some s \<Rightarrow> Some s | None \<Rightarrow> ad_summary a),
       ad_log := (if trim_space (jp_log p) \<noteq> [] then trim_space (jp_log p) else ad_log a),
       ad_outputs := (case jp_outputs p of Some m \<Rightarrow> Some m | None \<Rightarrow> ad_outputs a),
       ad_verification := (case payload_verification p of Some v \<Rightarrow> Some v | None \<Rightarrow> ad_verification a),
       ad_cost := Some (jp_cost p),
       ad_usage := (if jp_usage p \<noteq> [] then jp_usage p else ad_usage a)\<rparr>"

definition stamp_run_completion ::
  "(gofloat \<Rightarrow> gofloat \<Rightarrow> gofloat) \<Rightarrow> job_payload \<Rightarrow> string \<Rightarrow> run_doc \<Rightarrow> (run_error, run_doc) res" where
  "stamp_run_completion add p now d =
     (if rn_attempts d = [] then Inl (NoAttempts ''completion'')
      else
        (let d1 = edit_at (position_of (jp_attempt p) d) (completed_attempt p now) d;
             d2 = (case jp_outputs p of Some m \<Rightarrow> foldl promote_output d1 m | None \<Rightarrow> d1) in
         Inr (d2\<lparr>rn_cost := add (rn_cost d) (jp_cost p), rn_updated := now,
                 rn_screenshots := (case jp_screenshots p of
                      Some s \<Rightarrow> if rn_screenshots d = [] then s else rn_screenshots d
                    | None \<Rightarrow> rn_screenshots d)\<rparr>)))"

definition stamp_run_decision :: "string \<Rightarrow> string \<Rightarrow> run_doc \<Rightarrow> run_doc" where
  "stamp_run_decision verdict now d =
     (if rn_attempts d = [] then d
      else (edit_last (\<lambda>a. a\<lparr>ad_decision := verdict\<rparr>) d)\<lparr>rn_updated := now\<rparr>)"

section \<open>The review gate\<close>

definition park_run :: "string \<Rightarrow> string \<Rightarrow> string \<Rightarrow> string \<Rightarrow> run_doc \<Rightarrow> run_doc" where
  "park_run phase kind wff now d =
     (add_attempt phase kind wff now d)
       \<lparr>rn_state := ''review_required'', rn_queue := [],
        rn_execs := mark_phase_review_required phase kind now (rn_execs d)\<rparr>"

definition gate_open :: "string \<Rightarrow> int \<Rightarrow> run_doc \<Rightarrow> bool" where
  "gate_open phase i d =
     (rn_state d = ''review_required'' \<and> 0 \<le> i \<and> i < int (length (rn_attempts d)) \<and>
      ad_phase (rn_attempts d ! nat i) = phase \<and> ad_completed (rn_attempts d ! nat i) = [])"

definition release_gate :: "string \<Rightarrow> int \<Rightarrow> string \<Rightarrow> run_doc \<Rightarrow> (run_error, run_doc) res" where
  "release_gate phase i now d =
     (if \<not> gate_open phase i d then Inl RunConflict
      else Inr ((edit_at (nat i) (\<lambda>a. a\<lparr>ad_kind := ''k8s_job'', ad_dispatched := now\<rparr>) d)
                  \<lparr>rn_state := ''in_progress'',
                   rn_execs := mark_phase_dispatching phase ''k8s_job'' now (rn_execs d), rn_updated := now\<rparr>))"

definition cancelled_attempt :: "string \<Rightarrow> string \<Rightarrow> attempt_doc \<Rightarrow> attempt_doc" where
  "cancelled_attempt reason now a =
     a\<lparr>ad_kind := ''k8s_job'', ad_decision := decision_str AbortRequested, ad_conclusion := ''cancelled'',
       ad_completed := now, ad_cancel_at := now,
       ad_cancel_reason := (if trim_space reason \<noteq> [] then reason else ad_cancel_reason a)\<rparr>"

definition cancel_gate :: "string \<Rightarrow> int \<Rightarrow> string \<Rightarrow> string \<Rightarrow> run_doc \<Rightarrow> (run_error, run_doc) res" where
  "cancel_gate phase i reason now d =
     (if \<not> gate_open phase i d then Inl RunConflict
      else Inr ((edit_at (nat i) (cancelled_attempt reason now) d)
                  \<lparr>rn_state := ''in_progress'', rn_queue := [],
                   rn_execs := mark_phase_cancelled phase ''k8s_job'' reason now (rn_execs d), rn_updated := now\<rparr>))"

section \<open>The end of a run\<close>

definition is_terminal_run_state :: "string \<Rightarrow> bool" where
  "is_terminal_run_state st = (st \<in> set [''passed'', ''aborted'', ''recycled''])"

definition terminal_state_releases_lease :: "string \<Rightarrow> bool \<Rightarrow> bool" where
  "terminal_state_releases_lease st preserve =
     (st = ''aborted'' \<or> (st = ''passed'' \<and> \<not> preserve))"

text \<open>
  The patch of \<open>SetRunTerminalState\<close>; the reason is the given one or the message of the terminal
  observation.
\<close>

definition set_terminal :: "string \<Rightarrow> string option \<Rightarrow> string \<Rightarrow> run_doc \<Rightarrow> run_doc" where
  "set_terminal st reason now d =
     d\<lparr>rn_state := st, rn_queue := [], rn_updated := now,
       rn_abort := (case reason of Some r \<Rightarrow> Some r | None \<Rightarrow> rn_abort d),
       rn_execs := (if st = ''aborted''
                    then finalize_failure
                           (canonical_failure_reason (case reason of Some r \<Rightarrow> r | None \<Rightarrow> [])) now (rn_execs d)
                    else rn_execs d)\<rparr>"

text \<open>
  \<open>AbortRunByID\<close> reads the run first and decides on what it read (\<open>seen\<close>); the patch that
  follows does not look again.
\<close>

definition abort_patch :: "string \<Rightarrow> string \<Rightarrow> run_doc \<Rightarrow> run_doc" where
  "abort_patch reason now d =
     d\<lparr>rn_state := ''aborted'', rn_abort := Some reason, rn_queue := [], rn_updated := now,
       rn_execs := finalize_failure (canonical_failure_reason reason) now (rn_execs d)\<rparr>"

definition abort_run :: "run_doc \<Rightarrow> string \<Rightarrow> string \<Rightarrow> run_doc \<Rightarrow> run_doc" where
  "abort_run seen reason now d =
     (if is_terminal_run_state (rn_state seen) then d else abort_patch reason now d)"

section \<open>Jobs\<close>

record recorded_reply =
  rr_expected :: "string list"
  rr_completions :: completions
  rr_phase_complete :: bool
  rr_ready :: bool

text \<open>\<open>runnerJobCompletionResult\<close>, less the run itself.\<close>

record completion_result =
  cr_lists :: completion_lists
  cr_phase_complete :: bool
  cr_ready :: bool
  cr_payload :: job_payload

definition completion_result_of :: "(gofloat \<Rightarrow> gofloat \<Rightarrow> gofloat) \<Rightarrow> recorded_reply \<Rightarrow> completion_result" where
  "completion_result_of add r =
     \<lparr>cr_lists = completion_lists_of (rr_expected r) (rr_completions r) (rr_phase_complete r),
      cr_phase_complete = rr_phase_complete r, cr_ready = rr_ready r,
      cr_payload = aggregate_completion add (rr_expected r) (rr_completions r)\<rparr>"

definition with_completions :: "nat \<Rightarrow> completions \<Rightarrow> run_doc \<Rightarrow> run_doc" where
  "with_completions i cs d = edit_at i (\<lambda>a. a\<lparr>ad_completions := store_all cs\<rparr>) d"

definition mark_recorded :: "string \<Rightarrow> string \<Rightarrow> job_completion \<Rightarrow> phase_exec list \<Rightarrow> phase_exec list" where
  "mark_recorded phase job c ps =
     (let (st, reason) = execution_state_and_reason c True in
      mark_job_completion phase job st reason (jc_completed_at c) ps)"

definition record_job_completion ::
  "canonical_scripts \<Rightarrow> workflow option \<Rightarrow> job_payload \<Rightarrow> string \<Rightarrow> run_doc \<Rightarrow>
     (run_error, recorded_reply \<times> run_doc) res" where
  "record_job_completion scr wkfo p now d =
     (let job = trim_space (case jp_job p of None \<Rightarrow> [] | Some j \<Rightarrow> j) in
      if job = [] then Inl (Recording JobIdRequired)
      else if rn_attempts d = [] then Inl RunConflict
      else
        (let i = position_of (jp_attempt p) d; a = rn_attempts d ! i in
         if ad_kind a \<noteq> ''k8s_job'' then Inl RunConflict
         else
           (case wkfo of
              None \<Rightarrow> Inl (Recording (WorkflowUnknown (rn_workflow d)))
            | Some wkf \<Rightarrow>
                (case expected_job_ids scr wkf (ad_phase a) of
                   Inl e \<Rightarrow> Inl (Recording e)
                 | Inr expected \<Rightarrow>
                     (case record_on_attempt expected (ad_phase a) job p now (ad_completed a \<noteq> []) (ad_completions a) of
                        Inl e \<Rightarrow> Inl (Recording e)
                      | Inr AlreadyCompleted \<Rightarrow>
                          Inr (\<lparr>rr_expected = expected, rr_completions = ad_completions a,
                                rr_phase_complete = True, rr_ready = False\<rparr>, d)
                      | Inr DuplicateCompletion \<Rightarrow>
                          Inr (\<lparr>rr_expected = expected, rr_completions = ad_completions a,
                                rr_phase_complete = all_expected_completed expected (ad_completions a),
                                rr_ready = False\<rparr>, d)
                      | Inr (Recorded cs) \<Rightarrow>
                          let all_in = all_expected_completed expected cs in
                          Inr (\<lparr>rr_expected = expected, rr_completions = cs, rr_phase_complete = all_in,
                                rr_ready = all_in\<rparr>,
                               (with_completions i cs d)
                                 \<lparr>rn_updated := now,
                                  rn_execs := mark_recorded (ad_phase a) job (completion_of_payload job p now)
                                    (rn_execs d)\<rparr>))))))"

text \<open>A job whose condition was false at dispatch: the completion written for it.\<close>

definition skipped_completion :: "string \<Rightarrow> string \<Rightarrow> string \<Rightarrow> job_completion" where
  "skipped_completion job reason now =
     \<lparr>jc_job = job, jc_completed_at = now, jc_conclusion = ''skipped'', jc_verification = None,
      jc_summary = Some reason, jc_screenshots = None, jc_cost = Fin 0, jc_usage = None,
      jc_outputs = None, jc_reason = [], jc_error = None\<rparr>"

definition put_skipped :: "string \<Rightarrow> (string \<times> string) list \<Rightarrow> completions \<Rightarrow> completions" where
  "put_skipped now skipped cs =
     foldl (\<lambda>cs (job, reason). AList.update job (skipped_completion job reason now) cs) cs skipped"

definition record_runner_jobs_skipped ::
  "string \<Rightarrow> (string \<times> string) list \<Rightarrow> string \<Rightarrow> run_doc \<Rightarrow> (run_error, run_doc) res" where
  "record_runner_jobs_skipped phase skipped now d =
     (if skipped = [] then Inr d
      else if rn_attempts d = [] then Inl (NoAttempts ''skipped jobs'')
      else if ad_phase (last (rn_attempts d)) \<noteq> phase then Inl (WrongPhase (ad_phase (last (rn_attempts d))) phase)
      else Inr ((edit_last (\<lambda>a. a\<lparr>ad_completions := put_skipped now skipped (ad_completions a)\<rparr>) d)
                  \<lparr>rn_execs := foldl (\<lambda>ps (job, reason). mark_job_completion phase job ''skipped'' reason now ps)
                                (rn_execs d) skipped,
                   rn_updated := now\<rparr>))"

definition steps_hit :: "string \<Rightarrow> string list \<Rightarrow> phase_exec list \<Rightarrow> bool" where
  "steps_hit phase slugs ps =
     list_ex (\<lambda>p. pe_name p = phase \<and>
       list_ex (\<lambda>j. list_ex (\<lambda>s. se_slug s \<noteq> [] \<and> se_slug s \<in> set (map trim_space slugs)) (je_steps j)) (pe_jobs p)) ps"

definition record_runner_steps_skipped ::
  "string \<Rightarrow> string list \<Rightarrow> string \<Rightarrow> string \<Rightarrow> run_doc \<Rightarrow> run_doc" where
  "record_runner_steps_skipped phase slugs reason now d =
     (if steps_hit phase slugs (rn_execs d)
      then d\<lparr>rn_execs := skip_steps phase slugs reason now (rn_execs d), rn_updated := now\<rparr> else d)"

definition record_runner_jobs_dispatched ::
  "string \<Rightarrow> (string \<times> string) list \<Rightarrow> string \<Rightarrow> run_doc \<Rightarrow> run_doc" where
  "record_runner_jobs_dispatched phase jobs now d =
     (if jobs = [] then d
      else d\<lparr>rn_execs := mark_jobs_dispatched phase (map_of jobs) (rn_execs d), rn_updated := now\<rparr>)"

section \<open>Events\<close>

text \<open>\<open>applyRunnerPhaseOutputSetRaw\<close> and \<open>applyRunnerEventExecutionState\<close>.\<close>

definition set_phase_output :: "run_event \<Rightarrow> nat \<Rightarrow> run_doc \<Rightarrow> (run_error, run_doc) res" where
  "set_phase_output ev i d =
     (let key = trim_space (meta_text ev ''key''); v = meta_text ev ''value'';
          outputs = slice (ad_outputs (rn_attempts d ! i)) in
      if key = [] then Inl (BadEvent ''phase_output_set event requires metadata.key'')
      else if map_of outputs key \<noteq> None then Inl (OutputTaken key (ev_attempt ev))
      else Inr (promote_output
                  (edit_at i (\<lambda>a. a\<lparr>ad_outputs := Some (AList.update key v outputs)\<rparr>) d) (key, v)))"

definition attempt_position :: "int \<Rightarrow> attempt_doc list \<Rightarrow> nat option" where
  "attempt_position n as = index_of n (map ad_index as)"

definition apply_run_event :: "run_event \<Rightarrow> run_doc \<Rightarrow> (run_error, run_doc) res" where
  "apply_run_event ev d =
     (case attempt_position (ev_attempt ev) (rn_attempts d) of
        None \<Rightarrow> Inr d
      | Some i \<Rightarrow>
          (let d1 = d\<lparr>rn_execs := apply_event (ad_phase (rn_attempts d ! i)) ev (rn_execs d)\<rparr> in
           res_bind (if ev_event ev = ''phase_output_set'' then set_phase_output ev i d1 else Inr d1)
             (\<lambda>d2. Inr (d2\<lparr>rn_updated := ev_created ev\<rparr>))))"

text \<open>The table of events, keyed by attempt, job and sequence number.\<close>

record event_request =
  eq_attempt :: "int option"
  eq_job :: string
  eq_seq :: int
  eq_event :: string
  eq_slug :: string
  eq_message :: string
  eq_exit :: "int option"
  eq_meta :: vmap

record event_row =
  ew_event :: string
  ew_phase :: string
  ew_slug :: string
  ew_message :: string
  ew_exit :: "int option"
  ew_meta :: vmap

type_synonym event_table = "(int \<times> string \<times> int) \<rightharpoonup> event_row"

definition requested_attempt :: "event_request \<Rightarrow> int option" where
  "requested_attempt q =
     (case eq_attempt q of
        Some n \<Rightarrow> Some n
      | None \<Rightarrow>
          (case vget_any (eq_meta q) ''attempt_index'' of
             VInt n \<Rightarrow> Some n
           | VNum x \<Rightarrow> Some (go_trunc x)
           | VStr s \<Rightarrow> atoi (trim_space s)
           | _ \<Rightarrow> None))"

text \<open>The metadata are compared as the JSON encoder writes them, with the members of every object sorted.\<close>

fun canonical_value :: "goval \<Rightarrow> goval" where
  "canonical_value (VList vs) = VList (map canonical_value vs)"
| "canonical_value (VMap m) = VMap (sort_key fst (map (\<lambda>(k, v). (k, canonical_value v)) m))"
| "canonical_value v = v"

definition same_event :: "event_row \<Rightarrow> event_row \<Rightarrow> bool" where
  "same_event a b =
     (a\<lparr>ew_meta := []\<rparr> = b\<lparr>ew_meta := []\<rparr> \<and> canonical_value (VMap (ew_meta a)) = canonical_value (VMap (ew_meta b)))"

datatype insert_outcome = InsertedEvent event_table | KnownEvent | ConflictingEvent

definition insert_event :: "int \<times> string \<times> int \<Rightarrow> event_row \<Rightarrow> event_table \<Rightarrow> insert_outcome" where
  "insert_event key row tbl =
     (case tbl key of
        None \<Rightarrow> InsertedEvent (tbl(key \<mapsto> row))
      | Some old \<Rightarrow> if same_event old row then KnownEvent else ConflictingEvent)"

datatype event_reply = EventAccepted | EventRefused run_error | AttemptUnknown int

text \<open>The attempt an event is for, from what the handler read.\<close>

definition event_attempt :: "event_request \<Rightarrow> run_doc \<Rightarrow> (int, int \<times> string) res" where
  "event_attempt q seen =
     (case requested_attempt q of
        Some n \<Rightarrow>
          (case find (\<lambda>a. ad_index a = n) (rn_attempts seen) of
             Some a \<Rightarrow> Inr (n, ad_phase a)
           | None \<Rightarrow> Inl n)
      | None \<Rightarrow>
          Inr (if rn_attempts seen = [] then (0, [])
               else (ad_index (last (rn_attempts seen)), ad_phase (last (rn_attempts seen)))))"

definition event_of_request :: "event_request \<Rightarrow> int \<Rightarrow> string \<Rightarrow> run_event" where
  "event_of_request q n now =
     \<lparr>ev_attempt = n, ev_job = eq_job q, ev_event = eq_event q, ev_slug = eq_slug q, ev_exit = eq_exit q,
      ev_meta = eq_meta q, ev_created = now\<rparr>"

text \<open>
  \<open>RecordRunnerEventByID\<close>: the event is inserted in a statement of its own, and only a new
  event is applied to the document.
\<close>

definition record_runner_event ::
  "run_doc \<Rightarrow> event_request \<Rightarrow> string \<Rightarrow> event_table \<times> run_doc \<Rightarrow> event_reply \<times> event_table \<times> run_doc" where
  "record_runner_event seen q now st =
     (case event_attempt q seen of
        Inl n \<Rightarrow> (AttemptUnknown n, st)
      | Inr (n, phase) \<Rightarrow>
          (let row = \<lparr>ew_event = eq_event q, ew_phase = phase, ew_slug = eq_slug q,
                      ew_message = eq_message q, ew_exit = eq_exit q, ew_meta = eq_meta q\<rparr> in
           case insert_event (n, eq_job q, eq_seq q) row (fst st) of
             KnownEvent \<Rightarrow> (EventAccepted, st)
           | ConflictingEvent \<Rightarrow> (EventRefused RunConflict, st)
           | InsertedEvent tbl \<Rightarrow>
               (case apply_run_event (event_of_request q n now) (snd st) of
                  Inl e \<Rightarrow> (EventRefused e, tbl, snd st)
                | Inr d \<Rightarrow> (EventAccepted, tbl, d))))"

section \<open>What readers are given\<close>

text \<open>\<open>runReplayDataFromDoc\<close>, on the fields routing reads.\<close>

definition replay_verification :: "verification_doc \<Rightarrow> run_verification" where
  "replay_verification v =
     \<lparr>rv_status = vd_status v, rv_reasons = vd_reasons v, rv_failure = vd_failure v, rv_evidence_refs = vd_refs v\<rparr>"

definition replay_attempt :: "attempt_doc \<Rightarrow> attempt_data" where
  "replay_attempt a =
     \<lparr>at_index = ad_index a, at_phase = ad_phase a, at_conclusion = ad_conclusion a,
      at_verification = map_option replay_verification (ad_verification a), at_decision = ad_decision a,
      at_completed = (ad_completed a \<noteq> []), at_carry_forward = ad_carry a,
      at_outputs = Some (slice (ad_outputs a)),
      at_has_skipped_jobs = any_skipped_completion (ad_completions a)\<rparr>"

definition replay_data :: "run_doc \<Rightarrow> run_data" where
  "replay_data d =
     \<lparr>rd_id = rn_id d, rd_project = rn_project d, rd_workflow_name = rn_workflow d,
      rd_schema_ref = rn_schema_ref d, rd_attempts = map replay_attempt (rn_attempts d),
      rd_cost = rn_cost d, rd_budget = (case rn_budget d of Some b \<Rightarrow> b | None \<Rightarrow> \<lparr>total = Fin 0\<rparr>),
      rd_issue_number = rn_issue d, rd_run_cycle = rn_run_cycle d, rd_display = rn_display d,
      rd_pr_number = rn_pr d, rd_slot_lease = rn_slot_lease d, rd_entrypoint = rn_entrypoint d,
      rd_inputs = rn_inputs d, rd_preserve = rn_preserve d, rd_state = rn_state d, rd_prior = rn_prior d\<rparr>"

end
