(* ===== verification/CompletionOutcomes.thy ===== *)
theory CompletionOutcomes
  imports JobCompletions
begin

text \<open>
  What the record of job completions guarantees: a phase succeeds exactly when none of its jobs
  failed, outputs of different jobs do not overwrite each other as long as their keys have no
  blanks around them; and when a completion that is delivered again is taken for another one.
\<close>

section \<open>Conclusion of a phase\<close>

definition bad_status :: "string \<Rightarrow> bool" where
  "bad_status s = (s \<in> {''fail'', ''error''})"

lemma combine_status_bad: "bad_status (combine_status a b) \<longleftrightarrow> bad_status a \<or> bad_status b"
  by (auto simp: combine_status_def bad_status_def)

lemma fold_status_bad: "bad_status (foldl combine_status a ss) \<longleftrightarrow> bad_status a \<or> (\<exists>s \<in> set ss. bad_status s)"
  by (induction ss arbitrary: a) (simp_all add: combine_status_bad)

lemma aggregate_status_bad: "bad_status (aggregate_status vs) \<longleftrightarrow> (\<exists>v \<in> set vs. bad_status (vd_status v))"
  unfolding aggregate_status_def fold_status_bad by (simp add: bad_status_def [of "[]"])

lemma first_bad_success: "first_bad_conclusion cs = ''success'' \<longleftrightarrow> (\<forall>c \<in> set cs. \<not> verdict_bearing c)"
proof (cases "find verdict_bearing cs")
  case None
  then have "\<forall>c \<in> set cs. \<not> verdict_bearing c" by (auto simp: find_None_iff)
  with None show ?thesis by (simp add: first_bad_conclusion_def)
next
  case (Some c)
  then have "verdict_bearing c" "c \<in> set cs" by (auto simp: find_Some_iff)
  with Some show ?thesis by (auto simp: first_bad_conclusion_def verdict_bearing_def)
qed

lemma set_map_filter: "set (List.map_filter f xs) = {y. \<exists>x \<in> set xs. f x = Some y}"
  by (force simp: List.map_filter_def image_iff)

lemma completed_jobs_set:
  "set (completed_jobs ids cs) = {(i, c). i \<in> set ids \<and> map_of cs i = Some c}"
  by (auto simp: completed_jobs_def set_map_filter)

lemma verifications_set:
  "set (verifications js) = {(i, v). \<exists>c. (i, c) \<in> set js \<and> jc_verification c = Some v}"
  by (force simp: verifications_def set_map_filter)

lemma completion_failed_iff:
  "completion_failed c \<longleftrightarrow>
     verdict_bearing c \<or> (\<exists>v. jc_verification c = Some v \<and> bad_status (vd_status v))"
  by (cases "jc_verification c")
    (auto simp: completion_failed_def verdict_bearing_def is_advance_conclusion_def bad_status_def)

lemma aggregate_conclusion:
  "jp_conclusion (aggregate_completion add expected cs) = ''success'' \<longleftrightarrow>
     (\<forall>(i, c) \<in> set (completed_jobs (reported_ids expected cs) cs). \<not> completion_failed c)"
proof -
  let ?js = "completed_jobs (reported_ids expected cs) cs"
  have "jp_conclusion (aggregate_completion add expected cs) = ''success'' \<longleftrightarrow>
      first_bad_conclusion (map snd ?js) = ''success'' \<and>
      \<not> bad_status (aggregate_status (map snd (verifications ?js)))"
    by (simp add: aggregate_completion_def bad_status_def Let_def)
  also have "\<dots> \<longleftrightarrow> (\<forall>(i, c) \<in> set ?js. \<not> completion_failed c)"
    unfolding first_bad_success aggregate_status_bad
    by (force simp: verifications_set completion_failed_iff)
  finally show ?thesis .
qed

text \<open>
  C36: When all expected jobs of a phase have reported, the phase is handed on as a success
  exactly when the list of failed jobs in the answer is empty: no job that failed, ended
  otherwise than with success or skipped, or failed its verification is masked by another, and
  a skipped job neither fails nor rescues the phase.
\<close>
theorem phase_succeeds_iff_no_job_failed:
  assumes "expected \<noteq> []" and "all_expected_completed expected cs" and "fst ` set cs \<subseteq> set expected"
  shows "jp_conclusion (aggregate_completion add expected cs) = ''success'' \<longleftrightarrow>
           cl_failed (completion_lists_of expected cs True) = []"
proof -
  have ids: "reported_ids expected cs = expected" using assms(1) by (simp add: reported_ids_def)
  have extras: "filter (\<lambda>i. i \<notin> set expected) (map fst cs) = []"
    using assms(3) by (auto simp: filter_empty_conv)
  have "cl_failed (completion_lists_of expected cs True) = [] \<longleftrightarrow>
      (\<forall>i \<in> set expected. map_of cs i \<noteq> None \<longrightarrow> \<not> failed_id cs i)"
    by (auto simp: completion_lists_of_def ids extras filter_empty_conv Let_def)
  also have "\<dots> \<longleftrightarrow> (\<forall>(i, c) \<in> set (completed_jobs expected cs). \<not> completion_failed c)"
    by (fastforce simp: completed_jobs_set failed_id_def)
  finally show ?thesis by (simp add: aggregate_conclusion ids)
qed

section \<open>Redelivery\<close>

lemma same_map_refl: "same_map (Some m) (Some m)"
  by (simp add: same_map_def list_all_iff)

lemma omit_empty_Some: "omit_empty (Some xs) = Some ys \<longleftrightarrow> xs = ys \<and> xs \<noteq> []"
  by (auto simp: omit_empty_def split: list.split)

lemma same_stored_outputs: "same_map (omit_empty (Some m)) (Some m) \<longleftrightarrow> m \<noteq> []"
  by (cases m) (simp_all add: omit_empty_def same_map_def list_all_iff)

lemma stored_verification_same:
  "map_option (\<lambda>v. v\<lparr>vd_evidence := omit_empty (vd_evidence v)\<rparr>) (payload_verification p) = payload_verification p
     \<longleftrightarrow> payload_verification p = None \<or> jp_evidence p \<noteq> []"
  by (simp add: payload_verification_def omit_empty_Some)

lemma same_redelivered:
  "same_completion (stored_completion (completion_of_payload job p t)) (completion_of_payload job p t') \<longleftrightarrow>
     jp_usage p \<noteq> [] \<and> slice (jp_outputs p) \<noteq> [] \<and> (payload_verification p = None \<or> jp_evidence p \<noteq> [])"
  using same_stored_outputs [of "slice (jp_outputs p)"]
  by (auto simp: same_completion_def stored_completion_def completion_of_payload_def omit_empty_Some
      stored_verification_same)

text \<open>
  A completion that is delivered a second time, byte for byte the same, is recognised as a
  duplicate only if it carries agent usage, outputs and, when it has a verification, evidence.
  Otherwise it is refused as a conflict: the empty lists of the new document are compared with
  the nil ones that reading the stored document gives, and these differ.
\<close>
theorem redelivered_completion:
  assumes "job \<in> set expected"
    and "map_of cs job = Some (stored_completion (completion_of_payload job p t))"
  shows "record_on_attempt expected phase job p t' False cs =
           (if jp_usage p \<noteq> [] \<and> slice (jp_outputs p) \<noteq> [] \<and>
               (payload_verification p = None \<or> jp_evidence p \<noteq> [])
            then Inr DuplicateCompletion else Inl RecordConflict)"
  using assms by (simp add: record_on_attempt_def same_redelivered Let_def)

section \<open>Outputs\<close>

definition out_keys :: "job_completion \<Rightarrow> string set" where
  "out_keys c = fst ` set (slice (jc_outputs c))"

text \<open>No key is set by two jobs.\<close>

definition outputs_apart :: "completions \<Rightarrow> bool" where
  "outputs_apart cs \<longleftrightarrow>
     distinct (map fst cs) \<and>
     (\<forall>x \<in> set cs. \<forall>y \<in> set cs. fst x \<noteq> fst y \<longrightarrow> out_keys (snd x) \<inter> out_keys (snd y) = {})"

lemma update_fresh: "i \<notin> fst ` set cs \<Longrightarrow> AList.update i c cs = cs @ [(i, c)]"
  by (induction cs) auto

lemma has_output_iff: "has_output k jc \<longleftrightarrow> k \<in> out_keys (snd jc)"
  by (simp add: has_output_def out_keys_def map_of_eq_None_iff)

lemma apart_update:
  assumes "outputs_apart cs" "job \<notin> fst ` set cs"
    and apart: "\<And>k jc. k \<in> out_keys c \<Longrightarrow> jc \<in> set cs \<Longrightarrow> k \<notin> out_keys (snd jc)"
  shows "outputs_apart (AList.update job c cs)"
proof -
  have "out_keys c \<inter> out_keys (snd jc) = {}" "out_keys (snd jc) \<inter> out_keys c = {}" if "jc \<in> set cs" for jc
    using apart that by blast+
  with assms(1,2) show ?thesis
    unfolding outputs_apart_def update_fresh [OF assms(2)] by auto
qed

lemma find_none: "find P xs = None \<longleftrightarrow> (\<forall>x \<in> set xs. \<not> P x)"
  by (auto simp: find_None_iff)

lemma checked_key:
  "check_output_key job cs k = None \<longleftrightarrow> trim_space k \<noteq> [] \<and> (\<forall>jc \<in> set cs. \<not> has_output (trim_space k) jc)"
proof (cases "find (has_output (trim_space k)) cs")
  case None
  then show ?thesis using find_none [of "has_output (trim_space k)" cs] by (simp add: check_output_key_def Let_def)
next
  case (Some jc)
  then have "has_output (trim_space k) jc" "jc \<in> set cs" by (auto simp: find_Some_iff)
  with Some show ?thesis by (cases jc) (auto simp: check_output_key_def Let_def)
qed

lemma recorded_parts:
  assumes "record_on_attempt expected phase job p now False cs = Inr (Recorded cs')"
  shows "job \<in> set expected" "map_of cs job = None"
    "\<And>k. k \<in> fst ` set (slice (jp_outputs p)) \<Longrightarrow> check_output_key job cs k = None"
    "cs' = AList.update job (completion_of_payload job p now) cs"
  using assms
  by (auto simp: record_on_attempt_def validate_output_keys_def completion_of_payload_def Let_def
      split: if_splits option.splits)

lemma outputs_of_payload [simp]:
  "slice (jc_outputs (completion_of_payload job p now)) = slice (jp_outputs p)"
  "out_keys (completion_of_payload job p now) = fst ` set (slice (jp_outputs p))"
  by (simp_all add: completion_of_payload_def out_keys_def)

lemma stored_outputs [simp]: "slice (jc_outputs (stored_completion c)) = slice (jc_outputs c)"
  by (simp add: stored_completion_def omit_empty_def split: option.split list.split)

lemma stored_keys [simp]: "out_keys (stored_completion c) = out_keys c"
  by (simp add: out_keys_def)

text \<open>
  One delivery as the attempt keeps it: what is recorded is stored and read back; everything else
  leaves the record as it was.
\<close>

definition deliver :: "string list \<Rightarrow> string \<Rightarrow> completions \<Rightarrow> string \<times> job_payload \<times> string \<Rightarrow> completions" where
  "deliver expected phase cs d =
     (case record_on_attempt expected phase (fst d) (fst (snd d)) (snd (snd d)) False cs of
        Inr (Recorded cs') \<Rightarrow> store_all cs'
      | _ \<Rightarrow> cs)"

definition plain_outputs :: "job_payload \<Rightarrow> bool" where
  "plain_outputs p \<longleftrightarrow>
     distinct (map fst (slice (jp_outputs p))) \<and>
     (\<forall>k \<in> fst ` set (slice (jp_outputs p)). trim_space k = k)"

definition completions_ok :: "string list \<Rightarrow> completions \<Rightarrow> bool" where
  "completions_ok expected cs \<longleftrightarrow>
     outputs_apart cs \<and> fst ` set cs \<subseteq> set expected \<and>
     (\<forall>x \<in> set cs. distinct (map fst (slice (jc_outputs (snd x)))))"

lemma store_all_facts:
  "map fst (store_all cs) = map fst cs"
  "fst ` set (store_all cs) = fst ` set cs"
  "set (store_all cs) = (\<lambda>x. (fst x, stored_completion (snd x))) ` set cs"
  by (force simp: store_all_def case_prod_beta)+

lemma stored_ok: "completions_ok expected cs \<Longrightarrow> completions_ok expected (store_all cs)"
  unfolding completions_ok_def outputs_apart_def store_all_facts by (simp add: image_image)

lemma deliver_ok:
  assumes "completions_ok expected cs" "plain_outputs (fst (snd d))"
  shows "completions_ok expected (deliver expected phase cs d)"
proof (cases "\<exists>cs'. record_on_attempt expected phase (fst d) (fst (snd d)) (snd (snd d)) False cs = Inr (Recorded cs')")
  case True
  then obtain cs' where rec: "record_on_attempt expected phase (fst d) (fst (snd d)) (snd (snd d)) False cs = Inr (Recorded cs')"
    by blast
  note parts = recorded_parts [OF rec]
  let ?c = "completion_of_payload (fst d) (fst (snd d)) (snd (snd d))"
  have fresh: "fst d \<notin> fst ` set cs" using parts(2) by (simp add: map_of_eq_None_iff)
  have "outputs_apart (AList.update (fst d) ?c cs)"
  proof (rule apart_update [OF _ fresh])
    show "outputs_apart cs" using assms(1) by (simp add: completions_ok_def)
    show "k \<notin> out_keys (snd jc)" if "k \<in> out_keys ?c" "jc \<in> set cs" for k jc
    proof -
      from that(1) have k: "k \<in> fst ` set (slice (jp_outputs (fst (snd d))))" by simp
      with assms(2) have "trim_space k = k" unfolding plain_outputs_def by blast
      with parts(3) [OF k] that(2) show ?thesis by (simp add: checked_key has_output_iff)
    qed
  qed
  then have "completions_ok expected cs'"
    using assms parts(1)
    unfolding parts(4) completions_ok_def update_fresh [OF fresh] plain_outputs_def by simp
  then show ?thesis using rec by (simp add: deliver_def stored_ok)
next
  case False
  then have "deliver expected phase cs d = cs"
    by (auto simp: deliver_def split: sum.splits record_outcome.splits)
  with assms(1) show ?thesis by simp
qed

lemma deliveries_ok:
  "completions_ok expected cs \<Longrightarrow> \<forall>d \<in> set ds. plain_outputs (fst (snd d)) \<Longrightarrow>
     completions_ok expected (foldl (deliver expected phase) cs ds)"
  by (induction ds arbitrary: cs) (simp_all add: deliver_ok)

lemma map_of_foldl_update:
  "map_of (foldl (\<lambda>m (k, v). AList.update k v m) m kvs) = map_of m ++ map_of (rev kvs)"
  by (induction kvs arbitrary: m) (auto simp: update_conv' fun_eq_iff map_add_def split: option.split)

lemma map_of_unique:
  assumes "(k, v) \<in> set kvs" "\<And>w. (k, w) \<in> set kvs \<Longrightarrow> w = v"
  shows "map_of kvs k = Some v"
proof (cases "map_of kvs k")
  case None
  then show ?thesis using assms(1) by (force simp: map_of_eq_None_iff)
next
  case (Some w)
  then show ?thesis using assms(2) map_of_SomeD by fastforce
qed

lemma same_entry: "distinct (map fst xs) \<Longrightarrow> (k, v) \<in> set xs \<Longrightarrow> (k, w) \<in> set xs \<Longrightarrow> w = v"
  by (auto simp: eq_key_imp_eq_value)

lemma merged_keeps:
  assumes ok: "completions_ok expected cs" and mem: "(i, c) \<in> set cs" and out: "(k, v) \<in> set (slice (jc_outputs c))"
  shows "map_of (merged_outputs (map snd (completed_jobs expected cs))) k = Some v"
proof -
  let ?js = "completed_jobs expected cs"
  let ?kvs = "concat (map (\<lambda>c. slice (jc_outputs c)) (map snd ?js))"
  have dist: "distinct (map fst cs)"
    and apart: "\<And>x y. x \<in> set cs \<Longrightarrow> y \<in> set cs \<Longrightarrow> fst x \<noteq> fst y \<Longrightarrow> out_keys (snd x) \<inter> out_keys (snd y) = {}"
    and own: "distinct (map fst (slice (jc_outputs c)))" and "i \<in> set expected"
    using ok mem by (auto simp: completions_ok_def outputs_apart_def)
  then have "(i, c) \<in> set ?js" using mem by (simp add: completed_jobs_set)
  then have here: "(k, v) \<in> set ?kvs" using out by force
  have only: "w = v" if kw: "(k, w) \<in> set ?kvs" for w
  proof -
    obtain j d where js: "(j, d) \<in> set ?js" and w: "(k, w) \<in> set (slice (jc_outputs d))"
      using kw by (auto simp: set_concat)
    have jd: "(j, d) \<in> set cs" using js map_of_SomeD by (fastforce simp: completed_jobs_set)
    have "k \<in> out_keys c" "k \<in> out_keys d" using out w by (force simp: out_keys_def)+
    with apart [OF mem jd] have "i = j" by auto
    with dist mem jd have "d = c" by (auto dest: same_entry)
    with w out own show ?thesis by (auto dest: same_entry)
  qed
  have "map_of (rev ?kvs) k = Some v" 
  proof (rule map_of_unique)
    show "(k, v) \<in> set (rev ?kvs)" unfolding set_rev by (rule here)
    show "w = v" if "(k, w) \<in> set (rev ?kvs)" for w using that unfolding set_rev by (rule only)
  qed
  then show ?thesis by (simp add: merged_outputs_def map_of_foldl_update map_add_def)
qed

text \<open>
  Whatever completions are delivered for a phase, in any order and with any repetitions and
  refusals, every output a recorded job has set is in the outputs of the phase with the value
  this job gave it, provided output keys have no blanks around them.
\<close>
theorem recorded_outputs_survive:
  assumes "\<forall>d \<in> set ds. plain_outputs (fst (snd d))" and "expected \<noteq> []"
    and "cs = foldl (deliver expected phase) [] ds"
    and "(i, c) \<in> set cs" and "(k, v) \<in> set (slice (jc_outputs c))"
  shows "map_of (slice (jp_outputs (aggregate_completion add expected cs))) k = Some v"
proof -
  have "completions_ok expected cs"
    unfolding assms(3)
    by (rule deliveries_ok [OF _ assms(1)]) (simp add: completions_ok_def outputs_apart_def)
  from merged_keeps [OF this assms(4,5)]
  have "map_of (merged_outputs (map snd (completed_jobs (reported_ids expected cs) cs))) k = Some v"
    using assms(2) by (simp add: reported_ids_def)
  then show ?thesis by (auto simp: aggregate_completion_def update_conv' Let_def)
qed

text \<open>
  With blanks around a key the guard against setting an output twice depends on the order:
  the padded key first and the plain one second are both accepted, the other way round the
  padded one is refused.
\<close>
theorem padded_key_depends_on_order:
  assumes "a \<in> set expected" "b \<in> set expected" "a \<noteq> b"
    and "trim_space k \<noteq> []" "trim_space k \<noteq> k"
    and "jp_outputs p = Some [(k, v)]" "jp_outputs q = Some [(trim_space k, w)]"
  shows "(\<exists>cs. record_on_attempt expected phase a p t False [] = Inr (Recorded cs) \<and>
            (\<exists>ds. record_on_attempt expected phase b q t False cs = Inr (Recorded ds))) \<and>
         (\<exists>cs. record_on_attempt expected phase b q t False [] = Inr (Recorded cs) \<and>
            record_on_attempt expected phase a p t False cs = Inl (OutputAlreadySet (trim_space k) b))"
  using assms
  by (simp add: record_on_attempt_def validate_output_keys_def completion_of_payload_def has_output_def
      check_output_key_def trim_space_idem Let_def)

end
