(* ===== verification/ExecutionOutcomes.thy ===== *)
theory ExecutionOutcomes
  imports Executions
begin

text \<open>
  What the projection shows: that a finished run has no phase that looks running, what a replayed
  event changes, when a phase completes; and where the projection is left behind: a sibling of a
  failed job, a cancelled review gate.
\<close>

section \<open>The end of a failed run\<close>

abbreviation running :: "phase_exec \<Rightarrow> bool" where
  "running p \<equiv> pe_state p = ''dispatching'' \<or> pe_state p = ''active''"

lemma failed_states [simp]:
  "pe_state (fail_running_phase reason now p) = ''failed''"
  "pe_state (fail_unstarted_phase reason now p) = ''failed''"
  "pe_state (skip_phase_exec now p) = ''skipped''"
  "pe_state (fail_phase_exec reason now p) = ''failed''"
  "pe_state (keep_failed_phase reason now p) = pe_state p"
  "pe_state (own_failure_jobs reason now p) = pe_state p"
  by (simp_all add: phase_edit_defs)

lemma fail_running_states:
  "\<forall>q \<in> set (fail_running reason now seen ps). \<not> running q"
  by (induction ps arbitrary: seen) auto

lemma fail_running_failed:
  "(\<exists>q \<in> set (fail_running reason now seen ps). pe_state q = ''failed'') \<longleftrightarrow> list_ex running_or_failed ps"
  by (induction ps arbitrary: seen) (auto simp: running_or_failed_def)

lemma fail_running_quiet:
  "\<not> list_ex running_or_failed ps \<Longrightarrow> fail_running reason now False ps = ps"
  by (induction ps) (auto simp: running_or_failed_def)

lemma fail_running_at:
  "i < length ps \<Longrightarrow> \<not> running_or_failed (ps ! i) \<Longrightarrow> pe_state (ps ! i) \<noteq> ''not_started'' \<Longrightarrow>
     fail_running reason now seen ps ! i = ps ! i"
  by (induction ps arbitrary: i seen) (auto simp: nth_Cons running_or_failed_def split: nat.splits)

lemma length_fail_running [simp]: "length (fail_running reason now seen ps) = length ps"
  by (induction ps arbitrary: seen) simp_all

lemma length_skip_after [simp]: "length (skip_after_failed now seen ps) = length ps"
  by (induction ps arbitrary: seen) (simp_all add: Let_def)

lemma length_finalize [simp]: "length (finalize_failure reason now ps) = length ps"
  by (simp add: finalize_failure_def Let_def)

lemma skip_after_states:
  "(\<forall>p \<in> set ps. \<not> running p) \<Longrightarrow> \<forall>q \<in> set (skip_after_failed now seen ps). \<not> running q"
  by (induction ps arbitrary: seen) (auto simp: Let_def)

lemma skip_after_seen: "\<forall>q \<in> set (skip_after_failed now True ps). pe_state q \<noteq> ''not_started''"
  by (induction ps) (auto simp: Let_def)

lemma skip_after_order:
  "skip_after_failed now seen ps = us @ p # vs \<Longrightarrow> pe_state p = ''failed'' \<Longrightarrow>
     \<forall>v \<in> set vs. pe_state v \<noteq> ''not_started''"
proof (induction ps arbitrary: seen us)
  case (Cons x xs)
  show ?case
  proof (cases us)
    case Nil
    with Cons.prems show ?thesis
      using skip_after_seen [of now xs] by (auto simp: Let_def split: if_splits)
  next
    case (Cons u us')
    with Cons.prems Cons.IH show ?thesis by (auto simp: Let_def)
  qed
qed simp

lemma skip_after_failed_kept:
  "(\<exists>q \<in> set (skip_after_failed now seen ps). pe_state q = ''failed'') \<longleftrightarrow>
     (\<exists>p \<in> set ps. pe_state p = ''failed'')"
  by (induction ps arbitrary: seen) (auto simp: Let_def)

lemma skip_after_at:
  "i < length ps \<Longrightarrow> pe_state (ps ! i) \<noteq> ''not_started'' \<Longrightarrow> skip_after_failed now seen ps ! i = ps ! i"
  by (induction ps arbitrary: i seen) (auto simp: nth_Cons Let_def split: nat.splits)

lemma update_first_at: "i < length ps \<Longrightarrow> \<not> P (ps ! i) \<Longrightarrow> update_first P f ps ! i = ps ! i"
  by (induction ps arbitrary: i) (auto simp: nth_Cons split: nat.splits)

lemma update_first_mem: "q \<in> set (update_first P f ps) \<Longrightarrow> q \<in> set ps \<or> (\<exists>p \<in> set ps. P p \<and> q = f p)"
  by (induction ps) (auto split: if_splits)

lemma update_first_hit: "list_ex P ps \<Longrightarrow> \<exists>p \<in> set ps. P p \<and> f p \<in> set (update_first P f ps)"
  by (induction ps) auto

definition finalized_pass :: "string \<Rightarrow> string \<Rightarrow> phase_exec list \<Rightarrow> phase_exec list" where
  "finalized_pass reason now ps =
     (if list_ex running_or_failed ps then fail_running reason now False ps
      else update_first unsettled (fail_unstarted_phase reason now) ps)"

lemma finalize_passes:
  "finalize_failure reason now ps =
     (if list_ex running_or_failed ps \<or> list_ex unsettled ps
      then skip_after_failed now False (finalized_pass reason now ps) else ps)"
proof (cases "list_ex running_or_failed ps")
  case False
  then show ?thesis
    by (simp add: finalize_failure_def finalized_pass_def Let_def fail_running_quiet update_first_none)
qed (simp add: finalize_failure_def finalized_pass_def Let_def)

lemma finalized_pass_quiet: "\<forall>q \<in> set (finalized_pass reason now ps). \<not> running q"
proof (cases "list_ex running_or_failed ps")
  case True
  then show ?thesis by (simp add: finalized_pass_def fail_running_states)
next
  case False
  then have "\<not> running p" if "p \<in> set ps" for p
    using that by (auto simp: list_ex_iff running_or_failed_def)
  with False show ?thesis by (auto simp: finalized_pass_def dest!: update_first_mem)
qed

lemma finalized_pass_failed:
  assumes "list_ex running_or_failed ps \<or> list_ex unsettled ps"
  shows "\<exists>q \<in> set (finalized_pass reason now ps). pe_state q = ''failed''"
proof (cases "list_ex running_or_failed ps")
  case True
  then show ?thesis by (simp add: finalized_pass_def fail_running_failed)
next
  case False
  with assms have "list_ex unsettled ps" by simp
  from update_first_hit [OF this, of "fail_unstarted_phase reason now"] obtain p
    where "fail_unstarted_phase reason now p \<in> set (finalized_pass reason now ps)"
    using False by (auto simp: finalized_pass_def)
  then show ?thesis using failed_states(2) by metis
qed

lemma finalized_pass_at:
  assumes "i < length ps" "pe_state (ps ! i) \<in> {''succeeded'', ''skipped''}"
  shows "finalized_pass reason now ps ! i = ps ! i"
  using assms
  by (auto simp: finalized_pass_def unsettled_def running_or_failed_def
      intro!: fail_running_at update_first_at)

text \<open>
  When a run ends as aborted, its projection is settled: no phase is left dispatching or
  active, no phase after a failed one is left waiting to start, a failed phase explains the end
  whenever some phase had not succeeded or been skipped, and the phases that had succeeded or
  been skipped are shown as they were.
\<close>
theorem finalize_settles:
  assumes "finalize_failure reason now ps = qs"
  shows "(\<forall>q \<in> set qs. pe_state q \<noteq> ''dispatching'' \<and> pe_state q \<noteq> ''active'') \<and>
         (\<forall>us p vs. qs = us @ p # vs \<longrightarrow> pe_state p = ''failed'' \<longrightarrow>
            (\<forall>v \<in> set vs. pe_state v \<noteq> ''not_started'')) \<and>
         ((\<exists>p \<in> set ps. pe_state p \<notin> {''succeeded'', ''skipped''}) \<longrightarrow>
            (\<exists>q \<in> set qs. pe_state q = ''failed'')) \<and>
         (\<forall>i < length ps. pe_state (ps ! i) \<in> {''succeeded'', ''skipped''} \<longrightarrow> qs ! i = ps ! i)"
proof (cases "list_ex running_or_failed ps \<or> list_ex unsettled ps")
  case True
  then have qs: "qs = skip_after_failed now False (finalized_pass reason now ps)"
    using assms by (simp add: finalize_passes)
  have kept: "qs ! i = ps ! i" if "i < length ps" "pe_state (ps ! i) \<in> {''succeeded'', ''skipped''}" for i
  proof -
    from that have "finalized_pass reason now ps ! i = ps ! i" by (rule finalized_pass_at)
    moreover have "i < length (finalized_pass reason now ps)"
      using that by (simp add: finalized_pass_def)
    ultimately show ?thesis using that by (auto simp: qs skip_after_at)
  qed
  have "\<forall>q \<in> set qs. \<not> running q" unfolding qs by (rule skip_after_states [OF finalized_pass_quiet])
  moreover have "\<exists>q \<in> set qs. pe_state q = ''failed''"
    unfolding qs skip_after_failed_kept by (rule finalized_pass_failed [OF True])
  moreover have "\<forall>v \<in> set vs. pe_state v \<noteq> ''not_started''"
    if "qs = us @ p # vs" "pe_state p = ''failed''" for us p vs
    using that skip_after_order unfolding qs by blast
  ultimately show ?thesis using kept by blast
next
  case False
  then have "qs = ps" using assms by (simp add: finalize_passes)
  with False show ?thesis by (force simp: list_ex_iff unsettled_def running_or_failed_def)
qed

section \<open>Replayed events\<close>

lemma apply_step_twice: "apply_step_event ev (apply_step_event ev s) = apply_step_event ev s"
  by (simp add: apply_step_event_def exit_of_def split: option.split)

lemma apply_step_slug [simp]: "se_slug (apply_step_event ev s) = se_slug s"
  by (simp add: apply_step_event_def)

lemma ensure_event_step_has: "list_ex (\<lambda>s. se_slug s = ev_slug ev) (ensure_event_step ev steps)"
  by (simp add: ensure_event_step_def event_step_def)

lemma start_job_steps [simp]: "je_steps (start_job ev j) = je_steps j"
  by (simp add: start_job_def)

lemma start_job_twice: "start_job ev (start_job ev j) = start_job ev j"
  by (simp add: start_job_def)

lemma apply_job_id [simp]: "je_id (apply_job_event ev j) = je_id j"
  by (simp add: apply_job_event_def start_job_def Let_def)

definition event_steps :: "run_event \<Rightarrow> step_exec list \<Rightarrow> step_exec list" where
  "event_steps ev steps =
     (let ensured = (if ev_slug ev \<noteq> [] \<and> ev_event ev \<noteq> ''log'' then ensure_event_step ev steps else steps) in
      if ev_slug ev = [] then ensured
      else update_first (\<lambda>s. se_slug s = ev_slug ev) (apply_step_event ev) ensured)"

lemma event_steps_twice: "event_steps ev (event_steps ev steps) = event_steps ev steps"
proof -
  let ?mine = "\<lambda>s. se_slug s = ev_slug ev"
  have twice: "update_first ?mine (apply_step_event ev) (update_first ?mine (apply_step_event ev) ss)
      = update_first ?mine (apply_step_event ev) ss" for ss
    by (rule update_first_twice) (simp add: apply_step_twice)
  have "list_ex ?mine (update_first ?mine (apply_step_event ev) (ensure_event_step ev steps))"
    by (simp add: update_first_ex ensure_event_step_has)
  then have "ensure_event_step ev (update_first ?mine (apply_step_event ev) (ensure_event_step ev steps))
      = update_first ?mine (apply_step_event ev) (ensure_event_step ev steps)"
    by (simp add: ensure_event_step_def [of ev "update_first _ _ _"])
  with twice show ?thesis by (simp add: event_steps_def)
qed

definition job_after :: "run_event \<Rightarrow> job_exec \<Rightarrow> job_exec" where
  "job_after ev j =
     (let j1 = (start_job ev j)\<lparr>je_steps := event_steps ev (je_steps j)\<rparr> in
      if event_fails ev
      then j1\<lparr>je_state := ''failed'', je_reason := failed_job_reason ev, je_completed := ev_created ev\<rparr> else j1)"

lemma apply_job_event_after:
  "ev_event ev \<noteq> ''dynamic_group_expanded'' \<Longrightarrow> apply_job_event ev j = job_after ev j"
  by (simp add: apply_job_event_def job_after_def event_steps_def Let_def)

lemma job_after_id [simp]: "je_id (job_after ev j) = je_id j"
  by (simp add: job_after_def start_job_def Let_def)

lemma job_after_twice: "job_after ev (job_after ev j) = job_after ev j"
  by (simp add: job_after_def start_job_def event_steps_twice Let_def)

lemma register_twice: "register_inner_job ev (register_inner_job ev rs) = register_inner_job ev rs"
proof -
  have "list_ex (is_inner ev) (update_first (is_inner ev) (refresh_parent ev) rs)"
    if "list_ex (is_inner ev) rs"
    using that by (subst update_first_ex) (auto simp: is_inner_def refresh_parent_def)
  moreover have "update_first (is_inner ev) (refresh_parent ev) (update_first (is_inner ev) (refresh_parent ev) rs)
      = update_first (is_inner ev) (refresh_parent ev) rs"
    by (rule update_first_twice) (auto simp: is_inner_def refresh_parent_def)
  moreover have "update_first (is_inner ev) (refresh_parent ev) (rs @ [new_inner_job ev]) = rs @ [new_inner_job ev]"
    if "\<not> list_ex (is_inner ev) rs"
    using that by (induction rs) (auto simp: is_inner_def refresh_parent_def new_inner_job_def)
  ultimately show ?thesis
    by (auto simp: register_inner_job_def is_inner_def new_inner_job_def list_ex_iff)
qed

lemma end_inner_twice: "end_inner_job ev (end_inner_job ev r) = end_inner_job ev r"
  by (simp add: end_inner_job_def first_non_empty_def)

lemma end_inner_mine [simp]: "is_inner ev (end_inner_job ev r) = is_inner ev r"
  by (simp add: is_inner_def end_inner_job_def)

lemma terminate_twice: "terminate_inner_job ev (terminate_inner_job ev rs) = terminate_inner_job ev rs"
proof -
  have "list_ex (is_inner ev) (update_first (is_inner ev) (end_inner_job ev) rs)"
    if "list_ex (is_inner ev) rs"
    using that by (subst update_first_ex) simp_all
  moreover have "update_first (is_inner ev) (end_inner_job ev) (update_first (is_inner ev) (end_inner_job ev) rs)
      = update_first (is_inner ev) (end_inner_job ev) rs"
    by (rule update_first_twice) (simp add: end_inner_twice)
  moreover have "update_first (is_inner ev) (end_inner_job ev) (rs @ [stub_inner_job ev]) = rs @ [stub_inner_job ev]"
    if "\<not> list_ex (is_inner ev) rs"
    using that
    by (induction rs) (auto simp: is_inner_def end_inner_job_def stub_inner_job_def first_non_empty_def)
  ultimately show ?thesis
    by (auto simp: terminate_inner_job_def is_inner_def stub_inner_job_def list_ex_iff)
qed

lemma apply_phase_twice:
  assumes "ev_event ev \<noteq> ''dynamic_group_expanded''"
  shows "apply_phase_event ev (apply_phase_event ev p) = apply_phase_event ev p"
proof -
  let ?mine = "\<lambda>j. je_id j = ev_job ev"
  have jobs: "update_first ?mine (apply_job_event ev) (update_first ?mine (apply_job_event ev) js)
      = update_first ?mine (apply_job_event ev) js" for js
    by (rule update_first_twice) (simp add: apply_job_event_after [OF assms] job_after_twice)
  have hit: "list_ex ?mine (update_first ?mine (apply_job_event ev) js) = list_ex ?mine js" for js
    by (rule update_first_ex) simp
  show ?thesis
  proof (cases "ev_event ev = ''inner_job_registered'' \<or> ev_event ev = ''inner_job_terminated''")
    case True
    then show ?thesis by (auto simp: apply_phase_event_def register_twice terminate_twice)
  next
    case False
    then have after: "apply_phase_event ev q =
        (let p2 = (start_phase_exec ev q)\<lparr>pe_jobs := update_first ?mine (apply_job_event ev) (pe_jobs q)\<rparr> in
         if event_fails ev \<and> list_ex ?mine (pe_jobs q)
         then fail_phase_exec ''job_failed'' (ev_created ev) p2 else p2)" for q
      by (simp add: apply_phase_event_def start_phase_exec_def Let_def)
    show ?thesis
      unfolding after by (simp add: start_phase_exec_def fail_phase_exec_def jobs hit Let_def)
  qed
qed

text \<open>
  Applying an event a second time changes nothing, whatever the state of the projection: a
  replay neither restarts nor duplicates a step, an inner job or a failure. The exception is the
  expansion of a dynamic group.
\<close>
theorem event_replay_changes_nothing:
  assumes "ev_event ev \<noteq> ''dynamic_group_expanded''"
  shows "apply_event phase ev (apply_event phase ev ps) = apply_event phase ev ps"
  unfolding apply_event_def
  by (rule update_first_twice) (simp add: apply_phase_twice [OF assms])

section \<open>Completed phases\<close>

lemma complete_phase_states:
  assumes "q = complete_phase job st reason now p"
  shows "\<forall>j \<in> set (pe_jobs q). je_id j = job \<longrightarrow> je_state j = st"
    and "pe_jobs q \<noteq> [] \<Longrightarrow> \<forall>j \<in> set (pe_jobs q). job_terminal j \<Longrightarrow>
           pe_completed q = now \<and>
           pe_state q = (if \<exists>j \<in> set (pe_jobs q). je_state j = ''failed'' then ''failed'' else ''succeeded'')"
    and "pe_jobs q = [] \<or> (\<exists>j \<in> set (pe_jobs q). \<not> job_terminal j) \<Longrightarrow> pe_state q = pe_state p"
proof -
  let ?jobs = "map (\<lambda>j. if je_id j = job then complete_job st reason now j else j) (pe_jobs p)"
  have jobs: "pe_jobs q = ?jobs"
    using assms by (simp add: complete_phase_def fail_phase_exec_def Let_def)
  show "\<forall>j \<in> set (pe_jobs q). je_id j = job \<longrightarrow> je_state j = st"
    unfolding jobs set_map ball_simps by (simp add: complete_job_def)
  show "pe_completed q = now \<and>
      pe_state q = (if \<exists>j \<in> set (pe_jobs q). je_state j = ''failed'' then ''failed'' else ''succeeded'')"
    if "pe_jobs q \<noteq> []" "\<forall>j \<in> set (pe_jobs q). job_terminal j"
    using that assms unfolding jobs
    by (simp add: complete_phase_def fail_phase_exec_def list_all_iff list_ex_iff Let_def)
  show "pe_state q = pe_state p" if "pe_jobs q = [] \<or> (\<exists>j \<in> set (pe_jobs q). \<not> job_terminal j)"
  proof -
    from that have "?jobs = [] \<or> \<not> list_all job_terminal ?jobs"
      unfolding jobs list_all_iff by blast
    then show ?thesis using assms by (auto simp: complete_phase_def Let_def)
  qed
qed

text \<open>
  The completion of a job completes its phase exactly when every job of the phase has
  succeeded, failed or been skipped. The phase then shows failed if one of its jobs failed, and
  succeeded otherwise, whatever it showed before; as long as a job is missing, the state of the
  phase stays as it was.
\<close>
theorem phase_completes_with_its_jobs:
  assumes "mark_job_completion phase job st reason now ps = qs"
    and "ps = us @ p # vs" "pe_name p = phase" "phase \<notin> pe_name ` set us"
  shows "\<exists>q. qs = us @ q # vs \<and> pe_name q = phase \<and>
           (\<forall>j \<in> set (pe_jobs q). je_id j = job \<longrightarrow> je_state j = st) \<and>
           (if pe_jobs q \<noteq> [] \<and>
               (\<forall>j \<in> set (pe_jobs q). je_state j \<in> {''succeeded'', ''failed'', ''skipped''})
            then pe_completed q = now \<and>
                 pe_state q = (if \<exists>j \<in> set (pe_jobs q). je_state j = ''failed'' then ''failed'' else ''succeeded'')
            else pe_state q = pe_state p)"
proof -
  have "update_first (\<lambda>p. pe_name p = phase) f (us @ p # vs) = us @ f p # vs" for f
    using assms(3,4) by (induction us) auto
  then have "qs = us @ complete_phase job st reason now p # vs"
    using assms by (simp add: mark_job_completion_def)
  moreover define q where "q = complete_phase job st reason now p"
  moreover have "pe_name q = phase" using assms(3) by (simp add: q_def)
  moreover have terminal: "job_terminal = (\<lambda>j. je_state j \<in> {''succeeded'', ''failed'', ''skipped''})"
    by (simp add: job_terminal_def fun_eq_iff)
  moreover have "if pe_jobs q \<noteq> [] \<and> (\<forall>j \<in> set (pe_jobs q). job_terminal j)
      then pe_completed q = now \<and>
        pe_state q = (if \<exists>j \<in> set (pe_jobs q). je_state j = ''failed'' then ''failed'' else ''succeeded'')
      else pe_state q = pe_state p"
    (is "if ?all then _ else _")
  proof (cases ?all)
    case True
    then show ?thesis unfolding if_P [OF True] by (intro complete_phase_states(2) [OF q_def]) blast+
  next
    case False
    then show ?thesis unfolding if_not_P [OF False] by (intro complete_phase_states(3) [OF q_def]) blast
  qed
  moreover note complete_phase_states(1) [OF q_def]
  ultimately show ?thesis unfolding terminal by blast
qed

section \<open>Where the projection is left behind\<close>

lemma fail_running_at_failed:
  "i < length ps \<Longrightarrow> pe_state (ps ! i) = ''failed'' \<Longrightarrow>
     fail_running reason now seen ps ! i = keep_failed_phase reason now (ps ! i)"
  by (induction ps arbitrary: i seen) (auto simp: nth_Cons split: nat.splits)

lemma finalize_at_failed:
  assumes "i < length ps" "pe_state (ps ! i) = ''failed''"
  shows "finalize_failure reason now ps ! i = keep_failed_phase reason now (ps ! i)"
proof -
  have some: "list_ex running_or_failed ps"
    using assms by (auto simp: list_ex_length running_or_failed_def)
  have "pe_state (fail_running reason now False ps ! i) = ''failed''"
    using assms by (simp add: fail_running_at_failed)
  then have "skip_after_failed now False (fail_running reason now False ps) ! i
      = fail_running reason now False ps ! i"
    using assms by (simp add: skip_after_at)
  with some assms show ?thesis
    by (simp add: finalize_passes finalized_pass_def fail_running_at_failed)
qed

lemma own_failure_keeps_active: "je_state b = ''active'' \<Longrightarrow> own_failure_job reason now b = b"
  by (simp add: own_failure_job_def)

lemma keep_failed_active:
  "b \<in> set (pe_jobs p) \<Longrightarrow> je_state b = ''active'' \<Longrightarrow> b \<in> set (pe_jobs (keep_failed_phase reason now p))"
  by (force simp: keep_failed_phase_def own_failure_jobs_def own_failure_keeps_active image_iff)

lemma update_first_other: "b \<in> set xs \<Longrightarrow> \<not> P b \<Longrightarrow> b \<in> set (update_first P f xs)"
  by (induction xs) auto

lemma failing_event_phase:
  assumes "event_fails ev" "list_ex (\<lambda>j. je_id j = ev_job ev) (pe_jobs p)"
  shows "pe_state (apply_phase_event ev p) = ''failed''"
    and "b \<in> set (pe_jobs p) \<Longrightarrow> je_id b \<noteq> ev_job ev \<Longrightarrow> b \<in> set (pe_jobs (apply_phase_event ev p))"
  using assms
  by (auto simp: apply_phase_event_def start_phase_exec_def fail_phase_exec_def event_fails_def Let_def
      intro!: update_first_other)

text \<open>
  A step that fails marks its job and its phase failed although another job of the phase is
  still running. When the run then ends, that other job is left shown as active for good: a phase
  that is already failed is passed over, whatever the reason of the end.
\<close>
theorem sibling_of_failed_job_stays_active:
  assumes "ps = us @ p # vs" "pe_name p = phase" "phase \<notin> pe_name ` set us"
    and "event_fails ev" "\<exists>j \<in> set (pe_jobs p). je_id j = ev_job ev"
    and "b \<in> set (pe_jobs p)" "je_id b \<noteq> ev_job ev" "je_state b = ''active''"
  shows "\<exists>q \<in> set (finalize_failure reason now (apply_event phase ev ps)).
           pe_name q = phase \<and> pe_state q = ''failed'' \<and> b \<in> set (pe_jobs q)"
proof -
  let ?p = "apply_phase_event ev p" and ?qs = "apply_event phase ev ps"
  have mine: "list_ex (\<lambda>j. je_id j = ev_job ev) (pe_jobs p)" using assms(5) by (simp add: list_ex_iff)
  have qs: "?qs = us @ ?p # vs"
    unfolding apply_event_def assms(1) using assms(2,3) by (induction us) auto
  then have at: "?qs ! length us = ?p" "length us < length ?qs" by simp_all
  have "pe_state ?p = ''failed''" using assms(4) mine by (rule failing_event_phase)
  with at have "finalize_failure reason now ?qs ! length us = keep_failed_phase reason now ?p"
    by (simp add: finalize_at_failed)
  moreover have "length us < length (finalize_failure reason now ?qs)" using at(2) by simp
  moreover have "b \<in> set (pe_jobs (keep_failed_phase reason now ?p))"
    using assms(4,6-8) mine by (intro keep_failed_active failing_event_phase(2))
  ultimately show ?thesis
    using \<open>pe_state ?p = _\<close> assms(2) by (metis edited_phase_name(5,6) failed_states(5) nth_mem)
qed

lemma cancelled_phase_state [simp]: "pe_state (cancel_phase kind reason now p) = ''aborted''"
  by (simp add: cancel_phase_def)

lemma skip_after_id:
  "\<forall>p \<in> set ps. pe_state p \<noteq> ''not_started'' \<Longrightarrow> skip_after_failed now seen ps = ps"
  by (induction ps arbitrary: seen) (simp_all add: Let_def)

lemma fail_unstarted_fields [simp]:
  "pe_reason (fail_unstarted_phase reason now p) = reason"
  by (simp add: phase_edit_defs)

text \<open>
  A cancelled review gate is marked aborted, so that the dashboard shows the cancellation.
  Once the phases around it have succeeded or been skipped and the run ends, the gate is marked
  failed for the reason of the end instead: the pass that looks for a phase to blame takes an
  aborted one.
\<close>
theorem cancelled_gate_shown_failed:
  assumes "ps = us @ g # vs" "pe_name g = gate" "gate \<notin> pe_name ` set us"
    and "\<forall>p \<in> set us \<union> set vs. pe_state p \<in> {''succeeded'', ''skipped''}"
  shows "\<exists>a q. mark_phase_cancelled gate kind reason t ps = us @ a # vs \<and> pe_state a = ''aborted'' \<and>
           finalize_failure cause now (us @ a # vs) = us @ q # vs \<and>
           pe_name q = gate \<and> pe_state q = ''failed'' \<and> pe_reason q = cause"
proof -
  define a where "a = cancel_phase kind reason t g"
  define q where "q = fail_unstarted_phase cause now a"
  have marked: "mark_phase_cancelled gate kind reason t ps = us @ a # vs"
    unfolding mark_phase_cancelled_def assms(1) a_def using assms(2,3) by (induction us) auto
  have a: "pe_name a = gate" "pe_state a = ''aborted''" using assms(2) by (simp_all add: a_def)
  have around: "\<forall>p \<in> set us. pe_state p \<in> {''succeeded'', ''skipped''}"
      "\<forall>p \<in> set vs. pe_state p \<in> {''succeeded'', ''skipped''}"
    using assms(4) by blast+
  have quiet: "\<not> list_ex running_or_failed (us @ a # vs)"
    using around a by (fastforce simp: list_ex_iff running_or_failed_def)
  have "update_first unsettled f (us @ a # vs) = us @ f a # vs" for f
    using around a by (induction us) (auto simp: unsettled_def)
  then have "finalized_pass cause now (us @ a # vs) = us @ q # vs"
    using quiet by (simp add: finalized_pass_def q_def)
  moreover have "skip_after_failed now False (us @ q # vs) = us @ q # vs"
    using around by (intro skip_after_id) (fastforce simp: q_def)
  moreover have "list_ex unsettled (us @ a # vs)" using a by (simp add: unsettled_def)
  ultimately have "finalize_failure cause now (us @ a # vs) = us @ q # vs"
    by (simp add: finalize_passes)
  moreover have "pe_name q = gate" "pe_state q = ''failed''" "pe_reason q = cause"
    using a by (simp_all add: q_def)
  ultimately show ?thesis using marked a by blast
qed

section \<open>Examples\<close>

definition shown_job :: "string \<Rightarrow> string \<Rightarrow> job_exec" where
  "shown_job name st =
     \<lparr>je_id = name, je_name = name, je_state = st, je_reason = [], je_k8s_name = [], je_created = [],
      je_dispatched = [], je_started = [], je_completed = [], je_steps = []\<rparr>"

definition shown_phase :: "string \<Rightarrow> string \<Rightarrow> job_exec list \<Rightarrow> phase_exec" where
  "shown_phase name st jobs =
     \<lparr>pe_name = name, pe_kind = ''k8s_job'', pe_state = st, pe_reason = [], pe_created = [],
      pe_dispatched = [], pe_started = [], pe_completed = [], pe_jobs = jobs, pe_inner = []\<rparr>"

definition step_event :: "string \<Rightarrow> string \<Rightarrow> string \<Rightarrow> run_event" where
  "step_event kind job slug =
     \<lparr>ev_attempt = 0, ev_job = job, ev_event = kind, ev_slug = slug, ev_exit = Some 1, ev_meta = [],
      ev_created = ''2024-05-01T10:00:00Z''\<rparr>"

lemma shown_fields [simp]:
  "je_id (shown_job n st) = n" "je_state (shown_job n st) = st"
  "pe_name (shown_phase m st js) = m" "pe_state (shown_phase m st js) = st" "pe_jobs (shown_phase m st js) = js"
  "ev_job (step_event k n sl) = n" "ev_event (step_event k n sl) = k" "ev_slug (step_event k n sl) = sl"
  by (simp_all add: shown_job_def shown_phase_def step_event_def)

theorem finalize_settles_witness:
  "\<exists>qs. finalize_failure ''timeout'' ''t'' [shown_phase ''a'' ''active'' []] = qs \<and>
     (\<exists>q \<in> set qs. pe_state q = ''failed'')"
  using finalize_settles [of "''timeout''" "''t''" "[shown_phase ''a'' ''active'' []]", OF refl] by simp

theorem event_replay_witness:
  "ev_event (step_event ''step_failed'' ''j'' ''s'') \<noteq> ''dynamic_group_expanded'' \<and>
   apply_event ''a'' (step_event ''step_failed'' ''j'' ''s'')
     (apply_event ''a'' (step_event ''step_failed'' ''j'' ''s'') [shown_phase ''a'' ''active'' [shown_job ''j'' ''active'']])
   = apply_event ''a'' (step_event ''step_failed'' ''j'' ''s'') [shown_phase ''a'' ''active'' [shown_job ''j'' ''active'']]"
  by (simp add: event_replay_changes_nothing)

theorem phase_completes_witness:
  "\<exists>q. mark_job_completion ''a'' ''j'' ''succeeded'' [] ''t'' [shown_phase ''a'' ''active'' [shown_job ''j'' ''active'']]
       = [q] \<and> pe_name q = ''a''"
  using phase_completes_with_its_jobs
    [of "''a''" "''j''" "''succeeded''" "[]" "''t''" _ _ "[]" "shown_phase ''a'' ''active'' [shown_job ''j'' ''active'']" "[]",
     OF refl refl]
  by auto

theorem sibling_stays_active_witness:
  "\<exists>q \<in> set (finalize_failure ''job_failed'' ''t'' (apply_event ''a'' (step_event ''step_failed'' ''i'' ''s'')
       [shown_phase ''a'' ''active'' [shown_job ''i'' ''active'', shown_job ''j'' ''active'']])).
     pe_name q = ''a'' \<and> pe_state q = ''failed'' \<and> shown_job ''j'' ''active'' \<in> set (pe_jobs q)"
  by (rule sibling_of_failed_job_stays_active
        [of _ "[]" "shown_phase ''a'' ''active'' [shown_job ''i'' ''active'', shown_job ''j'' ''active'']" "[]"])
    (simp_all add: event_fails_def)

theorem cancelled_gate_witness:
  "\<exists>a q. mark_phase_cancelled ''gate'' ''k8s_job'' [] ''t''
       [shown_phase ''work'' ''succeeded'' [], shown_phase ''gate'' ''active'' []]
     = [shown_phase ''work'' ''succeeded'' [], a] \<and> pe_state a = ''aborted'' \<and>
     finalize_failure ''cancelled'' ''u'' [shown_phase ''work'' ''succeeded'' [], a]
     = [shown_phase ''work'' ''succeeded'' [], q] \<and>
     pe_name q = ''gate'' \<and> pe_state q = ''failed'' \<and> pe_reason q = ''cancelled''"
  using cancelled_gate_shown_failed
    [of _ "[shown_phase ''work'' ''succeeded'' []]" "shown_phase ''gate'' ''active'' []" "[]" "''gate''",
     OF refl, of "''k8s_job''" "[]" "''t''" "''cancelled''" "''u''"]
  by simp

end
