(* ===== verification/RunStoreSafety.thy ===== *)
theory RunStoreSafety
  imports RunStore CompletionOutcomes ExecutionOutcomes
begin

text \<open>
  Any sequence of operations on a run document: what they keep, that the routing works on a true
  copy of what is stored, that a phase is handed on once, when the review gate opens; and what
  the operations do not check: the end of a run, the attempt a completion belongs to, an event
  that was stored and not applied.
\<close>

section \<open>Operations\<close>

datatype run_op =
    OpAppend string string string string
  | OpStart string string string string string
  | OpSkipAttempt string string
  | OpStamp job_payload string
  | OpDecide string string
  | OpPark string string string string
  | OpRelease string int string
  | OpCancel string int string string
  | OpEnd string "string option" string
  | OpAbort run_doc string string
  | OpRecord job_payload string
  | OpJobsSkipped string "(string \<times> string) list" string
  | OpStepsSkipped string "string list" string string
  | OpJobsDispatched string "(string \<times> string) list" string
  | OpEvent run_event

definition kept :: "run_doc \<Rightarrow> (run_error, run_doc) res \<Rightarrow> run_doc" where
  "kept d r = (case r of Inl _ \<Rightarrow> d | Inr d' \<Rightarrow> d')"

text \<open>An operation that fails leaves the document as it was.\<close>

fun apply_op ::
  "(gofloat \<Rightarrow> gofloat \<Rightarrow> gofloat) \<Rightarrow> canonical_scripts \<Rightarrow> workflow option \<Rightarrow> run_doc \<Rightarrow> run_op \<Rightarrow> run_doc" where
  "apply_op add scr wkf d (OpAppend phase kind wff now) = append_run_attempt phase kind wff now d"
| "apply_op add scr wkf d (OpStart phase kind wff lease now) = kept d (start_run_cycle phase kind wff lease now d)"
| "apply_op add scr wkf d (OpSkipAttempt reason now) = kept d (stamp_attempt_skipped reason now d)"
| "apply_op add scr wkf d (OpStamp p now) = kept d (stamp_run_completion add p now d)"
| "apply_op add scr wkf d (OpDecide v now) = stamp_run_decision v now d"
| "apply_op add scr wkf d (OpPark phase kind wff now) = park_run phase kind wff now d"
| "apply_op add scr wkf d (OpRelease phase i now) = kept d (release_gate phase i now d)"
| "apply_op add scr wkf d (OpCancel phase i reason now) = kept d (cancel_gate phase i reason now d)"
| "apply_op add scr wkf d (OpEnd st reason now) = set_terminal st reason now d"
| "apply_op add scr wkf d (OpAbort seen reason now) = abort_run seen reason now d"
| "apply_op add scr wkf d (OpRecord p now) = kept d (map_sum id snd (record_job_completion scr wkf p now d))"
| "apply_op add scr wkf d (OpJobsSkipped phase sk now) = kept d (record_runner_jobs_skipped phase sk now d)"
| "apply_op add scr wkf d (OpStepsSkipped phase sl reason now) = record_runner_steps_skipped phase sl reason now d"
| "apply_op add scr wkf d (OpJobsDispatched phase js now) = record_runner_jobs_dispatched phase js now d"
| "apply_op add scr wkf d (OpEvent ev) = kept d (apply_run_event ev d)"

section \<open>What an operation does to the attempts\<close>

text \<open>
  An operation keeps the attempts in their places: each keeps its index, its phase and the jobs
  that have reported, and at most one new attempt follows.
\<close>

definition attempt_keeps :: "attempt_doc \<Rightarrow> attempt_doc \<Rightarrow> bool" where
  "attempt_keeps a b \<longleftrightarrow>
     ad_index b = ad_index a \<and> ad_phase b = ad_phase a \<and>
     fst ` set (ad_completions a) \<subseteq> fst ` set (ad_completions b) \<and>
     (distinct (map fst (ad_completions a)) \<longrightarrow> distinct (map fst (ad_completions b)))"

lemma attempt_keeps_refl [simp]: "attempt_keeps a a"
  by (simp add: attempt_keeps_def)

lemma attempt_keeps_trans: "attempt_keeps a b \<Longrightarrow> attempt_keeps b c \<Longrightarrow> attempt_keeps a c"
  by (auto simp: attempt_keeps_def)

definition attempts_extend :: "attempt_doc list \<Rightarrow> attempt_doc list \<Rightarrow> bool" where
  "attempts_extend as bs \<longleftrightarrow>
     (\<exists>cs. list_all2 attempt_keeps as cs \<and>
       (bs = cs \<or> (\<exists>n. bs = cs @ [n] \<and> ad_index n = next_index cs \<and> ad_completions n = [])))"

lemma all_keep_refl [simp]: "list_all2 attempt_keeps as as"
  by (simp add: list_all2_conv_all_nth)

lemma extend_refl [simp]: "attempts_extend as as"
  unfolding attempts_extend_def by (intro exI [of _ as]) simp

lemma keep_edit_at:
  "attempt_keeps (as ! i) (f (as ! i)) \<Longrightarrow> attempts_extend as (as[i := f (as ! i)])"
  unfolding attempts_extend_def
  by (intro exI [of _ "as[i := f (as ! i)]"], cases "i < length as")
    (auto simp: list_all2_conv_all_nth nth_list_update)

lemma keep_edit_last:
  "(as \<noteq> [] \<Longrightarrow> attempt_keeps (last as) (f (last as))) \<Longrightarrow> attempts_extend as (update_last f as)"
proof (cases as rule: rev_cases)
  case (snoc bs b)
  assume "as \<noteq> [] \<Longrightarrow> attempt_keeps (last as) (f (last as))"
  with snoc show ?thesis
    unfolding attempts_extend_def update_last_def 
    by (intro exI [of _ "bs @ [f b]"]) (simp add: list_all2_appendI)
qed (simp add: update_last_def)

lemma extend_new:
  "attempts_extend as (as @ [new_attempt (next_index as) phase kind wff now])"
  unfolding attempts_extend_def by (intro exI [of _ as]) (simp add: new_attempt_def)

lemma add_attempt_list:
  "rn_attempts (add_attempt phase kind wff now d)
     = rn_attempts d @ [new_attempt (next_index (rn_attempts d)) phase kind wff now]"
  by (simp add: add_attempt_def)

lemma promote_fields [simp]:
  "rn_attempts (foldl promote_output d m) = rn_attempts d"
  "rn_execs (foldl promote_output d m) = rn_execs d"
  "rn_attempts (promote_output d kv) = rn_attempts d"
  "rn_execs (promote_output d kv) = rn_execs d"
proof -
  show one: "rn_attempts (promote_output d kv) = rn_attempts d" "rn_execs (promote_output d kv) = rn_execs d" for d kv
    by (simp_all add: promote_output_def Let_def)
  show "rn_attempts (foldl promote_output d m) = rn_attempts d" "rn_execs (foldl promote_output d m) = rn_execs d"
    by (induction m arbitrary: d) (simp_all add: one)
qed

lemma store_all_fst [simp]: "map fst (store_all cs) = map fst cs" "fst ` set (store_all cs) = fst ` set cs"
  using store_all_facts(1,2) by metis+

lemma keys_update: "fst ` set (AList.update k v al) = insert k (fst ` set al)"
  using arg_cong [OF update_keys, of set k v al] by auto

lemma put_skipped_fst:
  "fst ` set (put_skipped now sk cs) = fst ` set cs \<union> fst ` set sk"
  "distinct (map fst cs) \<Longrightarrow> distinct (map fst (put_skipped now sk cs))"
proof -
  show "fst ` set (put_skipped now sk cs) = fst ` set cs \<union> fst ` set sk"
    unfolding put_skipped_def
    by (induction sk arbitrary: cs) (force simp: keys_update case_prod_beta)+
  show "distinct (map fst cs) \<Longrightarrow> distinct (map fst (put_skipped now sk cs))"
    unfolding put_skipped_def
    by (induction sk arbitrary: cs) (simp_all add: distinct_update case_prod_beta)
qed

definition payload_job :: "job_payload \<Rightarrow> string" where
  "payload_job p = trim_space (case jp_job p of None \<Rightarrow> [] | Some j \<Rightarrow> j)"

text \<open>A recorded completion either changes nothing or adds a job to one attempt that is not completed.\<close>

lemma record_cases:
  assumes "record_job_completion scr wkfo p now d = Inr (r, d')"
  obtains (same) "d' = d" "\<not> rr_ready r"
  | (new) i wkf expected cs where
      "i = position_of (jp_attempt p) d" "rn_attempts d \<noteq> []" "wkfo = Some wkf"
      "expected_job_ids scr wkf (ad_phase (rn_attempts d ! i)) = Inr expected"
      "record_on_attempt expected (ad_phase (rn_attempts d ! i)) (payload_job p) p now False
         (ad_completions (rn_attempts d ! i)) = Inr (Recorded cs)"
      "ad_completed (rn_attempts d ! i) = []"
      "rr_expected r = expected" "rr_completions r = cs" "rr_ready r = all_expected_completed expected cs"
      "d' = (with_completions i cs d)\<lparr>rn_updated := now,
               rn_execs := mark_recorded (ad_phase (rn_attempts d ! i)) (payload_job p)
                 (completion_of_payload (payload_job p) p now) (rn_execs d)\<rparr>"
proof -
  let ?i = "position_of (jp_attempt p) d"
  let ?a = "rn_attempts d ! ?i"
  obtain wkf expected where parts: "rn_attempts d \<noteq> []" "wkfo = Some wkf"
      "expected_job_ids scr wkf (ad_phase ?a) = Inr expected"
    using assms
    by (auto simp: record_job_completion_def Let_def split: if_splits option.splits sum.splits)
  show thesis
  proof (cases "record_on_attempt expected (ad_phase ?a) (payload_job p) p now (ad_completed ?a \<noteq> []) (ad_completions ?a)")
    case (Inl e)
    with assms parts show thesis
      by (simp add: record_job_completion_def payload_job_def Let_def split: if_splits)
  next
    case (Inr out)
    show thesis
    proof (cases out)
      case (Recorded cs)
      have open_attempt: "ad_completed ?a = []"
        using Inr Recorded by (auto simp: record_on_attempt_def split: if_splits)
      show thesis
      proof (rule new [of ?i wkf expected cs])
        show "record_on_attempt expected (ad_phase ?a) (payload_job p) p now False (ad_completions ?a)
            = Inr (Recorded cs)"
          using Inr Recorded open_attempt by simp
      qed (use assms parts Inr Recorded open_attempt in
            \<open>auto simp: record_job_completion_def payload_job_def Let_def split: if_splits\<close>)
    next
      case AlreadyCompleted
      with assms parts Inr show thesis
        by (intro same) (auto simp: record_job_completion_def payload_job_def Let_def split: if_splits)
    next
      case DuplicateCompletion
      with assms parts Inr show thesis
        by (intro same) (auto simp: record_job_completion_def payload_job_def Let_def split: if_splits)
    qed
  qed
qed

lemma extend_by_edit_at:
  "rn_attempts d' = rn_attempts (edit_at i f d) \<Longrightarrow> (\<And>a. attempt_keeps a (f a)) \<Longrightarrow>
     attempts_extend (rn_attempts d) (rn_attempts d')"
  by (simp add: edit_at_def keep_edit_at)

lemma extend_by_edit_last:
  "rn_attempts d' = rn_attempts (edit_last f d) \<Longrightarrow> (\<And>a. attempt_keeps a (f a)) \<Longrightarrow>
     attempts_extend (rn_attempts d) (rn_attempts d')"
  by (simp add: edit_last_def keep_edit_last)

lemma record_extends:
  assumes "record_job_completion scr wkfo p now d = Inr (r, d')"
  shows "attempts_extend (rn_attempts d) (rn_attempts d')"
  using assms
proof (cases rule: record_cases)
  case (new i wkf expected cs)
  let ?a = "rn_attempts d ! i"
  note recorded = recorded_parts [OF new(5)]
  have "payload_job p \<notin> fst ` set (ad_completions ?a)"
    using recorded(2) by (simp add: map_of_eq_None_iff)
  then have "attempt_keeps ?a (?a\<lparr>ad_completions := store_all cs\<rparr>)"
    unfolding attempt_keeps_def recorded(4)
    by (auto simp: keys_update distinct_update simp del: map_map)
  then show ?thesis
    unfolding new(10) by (simp add: with_completions_def edit_at_def keep_edit_at)
qed simp

lemma step_extends: "attempts_extend (rn_attempts d) (rn_attempts (apply_op add scr wkf d op))"
proof (cases op)
  case (OpAppend phase kind wff now)
  then show ?thesis by (simp add: append_run_attempt_def add_attempt_list extend_new)
next
  case (OpStart phase kind wff lease now)
  then show ?thesis
    by (simp add: start_run_cycle_def append_run_attempt_def add_attempt_list extend_new kept_def)
next
  case (OpSkipAttempt reason now)
  then show ?thesis
    by (auto simp: stamp_attempt_skipped_def kept_def attempt_keeps_def
        intro!: extend_by_edit_last)
next
  case (OpStamp p now)
  then show ?thesis
    by (auto simp: stamp_run_completion_def kept_def attempt_keeps_def completed_attempt_def Let_def
        split: option.split intro!: extend_by_edit_at)
next
  case (OpDecide v now)
  then show ?thesis
    by (auto simp: stamp_run_decision_def attempt_keeps_def intro!: extend_by_edit_last)
next
  case (OpPark phase kind wff now)
  then show ?thesis by (simp add: park_run_def add_attempt_list extend_new)
next
  case (OpRelease phase i now)
  then show ?thesis
    by (auto simp: release_gate_def kept_def attempt_keeps_def intro!: extend_by_edit_at)
next
  case (OpCancel phase i reason now)
  then show ?thesis
    by (auto simp: cancel_gate_def kept_def attempt_keeps_def cancelled_attempt_def intro!: extend_by_edit_at)
next
  case (OpEnd st reason now)
  then show ?thesis by (simp add: set_terminal_def)
next
  case (OpAbort seen reason now)
  then show ?thesis by (simp add: abort_run_def abort_patch_def)
next
  case (OpRecord p now)
  then show ?thesis
    by (cases "record_job_completion scr wkf p now d") (auto simp: kept_def dest: record_extends)
next
  case (OpJobsSkipped phase sk now)
  then show ?thesis
    by (auto simp: record_runner_jobs_skipped_def kept_def attempt_keeps_def put_skipped_fst
        intro!: extend_by_edit_last)
next
  case (OpStepsSkipped phase sl reason now)
  then show ?thesis by (simp add: record_runner_steps_skipped_def)
next
  case (OpJobsDispatched phase js now)
  then show ?thesis by (simp add: record_runner_jobs_dispatched_def)
next
  case (OpEvent ev)
  then show ?thesis
    by (auto simp: apply_run_event_def set_phase_output_def kept_def edit_at_def attempt_keeps_def Let_def
        split: option.split if_splits intro!: keep_edit_at)
qed

abbreviation run_ops ::
  "(gofloat \<Rightarrow> gofloat \<Rightarrow> gofloat) \<Rightarrow> canonical_scripts \<Rightarrow> workflow option \<Rightarrow> run_doc \<Rightarrow> run_op list \<Rightarrow> run_doc" where
  "run_ops add scr wkf \<equiv> foldl (apply_op add scr wkf)"

lemma extend_nth:
  assumes "attempts_extend as bs" "i < length as"
  shows "i < length bs \<and> attempt_keeps (as ! i) (bs ! i)"
  using assms by (auto simp: attempts_extend_def list_all2_conv_all_nth nth_append)

section \<open>A phase is handed on once\<close>

definition ready_at :: "canonical_scripts \<Rightarrow> workflow option \<Rightarrow> run_doc \<Rightarrow> run_op \<Rightarrow> nat \<Rightarrow> bool" where
  "ready_at scr wkf d op i =
     (case op of
        OpRecord p now \<Rightarrow>
          (case record_job_completion scr wkf p now d of
             Inr (r, _) \<Rightarrow> rr_ready r \<and> position_of (jp_attempt p) d = i
           | Inl _ \<Rightarrow> False)
      | _ \<Rightarrow> False)"

definition all_reported :: "canonical_scripts \<Rightarrow> workflow option \<Rightarrow> run_doc \<Rightarrow> nat \<Rightarrow> bool" where
  "all_reported scr wkfo d i \<longleftrightarrow>
     i < length (rn_attempts d) \<and>
     (\<forall>wkf expected. wkfo = Some wkf \<longrightarrow> expected_job_ids scr wkf (ad_phase (rn_attempts d ! i)) = Inr expected \<longrightarrow>
        set expected \<subseteq> fst ` set (ad_completions (rn_attempts d ! i)))"

lemma position_in: "rn_attempts d \<noteq> [] \<Longrightarrow> position_of i d < length (rn_attempts d)"
  by (auto simp: position_of_def split: option.split)

lemma ready_step:
  assumes "ready_at scr wkf d op i"
  obtains p now r d' where "op = OpRecord p now" "record_job_completion scr wkf p now d = Inr (r, d')"
    "rr_ready r" "position_of (jp_attempt p) d = i"
  using assms by (auto simp: ready_at_def split: run_op.splits sum.splits)

lemma ready_all_reported:
  assumes "ready_at scr wkfo d op i"
  shows "all_reported scr wkfo (apply_op add scr wkfo d op) i"
proof -
  obtain p now r d' where op: "op = OpRecord p now" and rec: "record_job_completion scr wkfo p now d = Inr (r, d')"
    and ready: "rr_ready r" and pos: "position_of (jp_attempt p) d = i"
    using assms by (rule ready_step)
  have stepped: "apply_op add scr wkfo d op = d'" by (simp add: op rec kept_def)
  from rec show ?thesis
  proof (cases rule: record_cases)
    case same
    with ready show ?thesis by simp
  next
    case (new i' wkf expected cs)
    have i: "i' = i" "i < length (rn_attempts d)" using new(1,2) pos position_in by auto
    have job: "payload_job p \<in> set expected" using recorded_parts(1) [OF new(5)] .
    have "all_expected_completed expected cs" using ready new(9) by simp
    with job have "set expected \<subseteq> fst ` set cs"
      by (auto simp: all_expected_completed_def list_all_iff map_of_eq_None_iff split: if_splits)
    then show ?thesis
      unfolding stepped using i new(3,4,10) by (simp add: all_reported_def with_completions_def edit_at_def)
  qed
qed

lemma all_reported_step:
  assumes "all_reported scr wkfo d i"
  shows "all_reported scr wkfo (apply_op add scr wkfo d op) i"
proof -
  let ?a = "rn_attempts d ! i" and ?d = "apply_op add scr wkfo d op"
  from assms have "i < length (rn_attempts d)" by (simp add: all_reported_def)
  from extend_nth [OF step_extends this] have i: "i < length (rn_attempts ?d)"
    and keeps: "attempt_keeps ?a (rn_attempts ?d ! i)" by blast+
  have "ad_phase (rn_attempts ?d ! i) = ad_phase ?a"
      "fst ` set (ad_completions ?a) \<subseteq> fst ` set (ad_completions (rn_attempts ?d ! i))"
    using keeps by (simp_all add: attempt_keeps_def)
  with assms i show ?thesis unfolding all_reported_def by (metis subset_trans)
qed

lemma all_reported_ops: "all_reported scr wkfo d i \<Longrightarrow> all_reported scr wkfo (run_ops add scr wkfo d ops) i"
  by (induction ops arbitrary: d) (simp_all add: all_reported_step)

lemma all_reported_not_ready:
  assumes "all_reported scr wkfo d i"
  shows "\<not> ready_at scr wkfo d op i"
proof
  assume "ready_at scr wkfo d op i"
  then obtain p now r d' where rec: "record_job_completion scr wkfo p now d = Inr (r, d')"
    and ready: "rr_ready r" and pos: "position_of (jp_attempt p) d = i"
    by (rule ready_step)
  from rec show False
  proof (cases rule: record_cases)
    case same
    with ready show False by simp
  next
    case (new i' wkf expected cs)
    have "payload_job p \<in> set expected" "map_of (ad_completions (rn_attempts d ! i)) (payload_job p) = None"
      using recorded_parts(1,2) [OF new(5)] new(1) pos by simp_all
    moreover have "set expected \<subseteq> fst ` set (ad_completions (rn_attempts d ! i))"
      using assms new(1,3,4) pos by (simp add: all_reported_def)
    ultimately show False by (auto simp: map_of_eq_None_iff)
  qed
qed

text \<open>
  C4: In any sequence of operations on a run, with completions delivered in any order and any
  number of times, the completion of an attempt is handed on at most once: two deliveries that
  are answered with "ready" belong to different attempts.
\<close>
theorem phase_handed_on_once:
  assumes "ready_at scr wkf (run_ops add scr wkf d us) x i"
    and "ready_at scr wkf (run_ops add scr wkf d (us @ x # vs)) y j"
  shows "i \<noteq> j"
proof
  assume "i = j"
  have "all_reported scr wkf (apply_op add scr wkf (run_ops add scr wkf d us) x) i"
    using assms(1) by (rule ready_all_reported)
  then have "all_reported scr wkf (run_ops add scr wkf d (us @ x # vs)) i"
    by (simp add: all_reported_ops)
  with assms(2) \<open>i = j\<close> show False using all_reported_not_ready by blast
qed

section \<open>Well-formed documents\<close>

definition inner_keys :: "phase_exec \<Rightarrow> (string \<times> string) list" where
  "inner_keys p = map (\<lambda>r. (ij_namespace r, ij_name r)) (pe_inner p)"

definition good_keys :: "(string \<times> string) list \<Rightarrow> bool" where
  "good_keys ks \<longleftrightarrow> distinct ks \<and> (\<forall>(ns, n) \<in> set ks. ns \<noteq> [] \<and> n \<noteq> [])"

definition inner_ok :: "phase_exec \<Rightarrow> bool" where
  "inner_ok p = good_keys (inner_keys p)"

definition projection_ok :: "phase_exec list \<Rightarrow> bool" where
  "projection_ok ps \<longleftrightarrow> distinct (phase_names ps) \<and> (\<forall>p \<in> set ps. inner_ok p)"

definition run_doc_ok :: "run_doc \<Rightarrow> bool" where
  "run_doc_ok d \<longleftrightarrow>
     map ad_index (rn_attempts d) = map int [0..<length (rn_attempts d)] \<and>
     (\<forall>a \<in> set (rn_attempts d). distinct (map fst (ad_completions a))) \<and>
     projection_ok (rn_execs d)"

lemma next_index_length:
  "map ad_index as = map int [0..<length as] \<Longrightarrow> next_index as = int (length as)"
proof (cases as rule: rev_cases)
  case (snoc bs b)
  assume "map ad_index as = map int [0..<length as]"
  with snoc show ?thesis by (simp add: next_index_def)
qed (simp add: next_index_def)

lemma extend_ok:
  assumes ext: "attempts_extend as bs"
    and ok: "map ad_index as = map int [0..<length as]" "\<forall>a \<in> set as. distinct (map fst (ad_completions a))"
  shows "map ad_index bs = map int [0..<length bs] \<and> (\<forall>b \<in> set bs. distinct (map fst (ad_completions b)))"
proof -
  obtain cs where keep: "list_all2 attempt_keeps as cs"
    and bs: "bs = cs \<or> (\<exists>n. bs = cs @ [n] \<and> ad_index n = next_index cs \<and> ad_completions n = [])"
    using ext unfolding attempts_extend_def by blast
  from keep have len: "length cs = length as" by (simp add: list_all2_lengthD)
  from keep have "map ad_index cs = map ad_index as"
    by (intro nth_equalityI) (auto simp: list_all2_conv_all_nth attempt_keeps_def)
  with ok(1) len have idx: "map ad_index cs = map int [0..<length cs]" by simp
  from keep ok(2) have "\<forall>c \<in> set cs. distinct (map fst (ad_completions c))"
    by (auto simp: list_all2_conv_all_nth attempt_keeps_def all_set_conv_all_nth)
  with idx bs next_index_length [OF idx] show ?thesis by auto
qed

lemma inner_kept: "pe_inner q = pe_inner p \<Longrightarrow> inner_ok p \<Longrightarrow> inner_ok q"
  by (simp add: inner_ok_def inner_keys_def)

lemma edited_inner [simp]:
  "pe_inner (dispatch_phase_exec kind now p) = pe_inner p"
  "pe_inner (review_phase kind now p) = pe_inner p"
  "pe_inner (cancel_phase kind reason now p) = pe_inner p"
  "pe_inner (complete_phase job st reason now p) = pe_inner p"
  "pe_inner (keep_failed_phase reason now p) = pe_inner p"
  "pe_inner (fail_running_phase reason now p) = pe_inner p"
  "pe_inner (fail_unstarted_phase reason now p) = pe_inner p"
  "pe_inner (skip_phase_exec now p) = pe_inner p"
  by (simp_all add: phase_edit_defs Let_def)

lemma new_phase_inner [simp]:
  "inner_ok (unplanned_dispatch name kind now)" "inner_ok (unplanned_review name kind now)"
  by (simp_all add: inner_ok_def inner_keys_def good_keys_def unplanned_dispatch_def unplanned_review_def)

lemma new_phase_name [simp]:
  "pe_name (unplanned_dispatch name kind now) = name" "pe_name (unplanned_review name kind now) = name"
  by (simp_all add: unplanned_dispatch_def unplanned_review_def)

lemma update_first_all: "\<forall>p \<in> set ps. Q p \<and> Q (f p) \<Longrightarrow> \<forall>q \<in> set (update_first P f ps). Q q"
  by (induction ps) auto

lemma fail_running_inner: "\<forall>p \<in> set ps. inner_ok p \<Longrightarrow> \<forall>q \<in> set (fail_running reason now seen ps). inner_ok q"
  by (induction ps arbitrary: seen) (auto intro: inner_kept [rotated])

lemma skip_after_inner: "\<forall>p \<in> set ps. inner_ok p \<Longrightarrow> \<forall>q \<in> set (skip_after_failed now seen ps). inner_ok q"
  by (induction ps arbitrary: seen) (auto simp: Let_def intro: inner_kept [rotated])

lemma finalize_inner:
  assumes "\<forall>p \<in> set ps. inner_ok p"
  shows "\<forall>q \<in> set (finalize_failure reason now ps). inner_ok q"
proof -
  have "\<forall>q \<in> set (finalized_pass reason now ps). inner_ok q"
  proof (cases "list_ex running_or_failed ps")
    case True
    then show ?thesis using fail_running_inner [OF assms] by (simp add: finalized_pass_def)
  next
    case False
    have "\<forall>p \<in> set ps. inner_ok p \<and> inner_ok (fail_unstarted_phase reason now p)"
      using assms by (auto intro: inner_kept [rotated])
    from update_first_all [OF this] False show ?thesis by (simp add: finalized_pass_def)
  qed
  with assms show ?thesis unfolding finalize_passes by (simp add: skip_after_inner)
qed

lemma keys_update_first:
  "(\<And>r. key (f r) = key r) \<Longrightarrow> map key (update_first P f rs) = map key rs"
  by (rule update_first_map) simp

lemma event_inner: "inner_ok p \<Longrightarrow> inner_ok (apply_phase_event ev p)"
proof -
  assume ok: "inner_ok p"
  let ?key = "\<lambda>r. (ij_namespace r, ij_name r)"
  have refreshed: "map ?key (update_first (is_inner ev) (refresh_parent ev) rs) = map ?key rs" for rs
    by (rule keys_update_first) (simp add: refresh_parent_def)
  have ended: "map ?key (update_first (is_inner ev) (end_inner_job ev) rs) = map ?key rs" for rs
    by (rule keys_update_first) (simp add: end_inner_job_def)
  have absent: "(meta_text ev ''namespace'', meta_text ev ''job_name'') \<notin> set (map ?key rs)"
    if "\<not> list_ex (is_inner ev) rs" for rs
    using that by (auto simp: list_ex_iff is_inner_def)
  have grown: "good_keys (map ?key rs @ [(meta_text ev ''namespace'', meta_text ev ''job_name'')])"
    if "good_keys (map ?key rs)" "\<not> list_ex (is_inner ev) rs" "meta_text ev ''namespace'' \<noteq> []"
      "meta_text ev ''job_name'' \<noteq> []" for rs
    using that absent [OF that(2)] by (simp add: good_keys_def)
  have keys: "inner_ok (p\<lparr>pe_inner := rs\<rparr>) = good_keys (map ?key rs)" for rs
    by (simp add: inner_ok_def inner_keys_def)
  have old: "good_keys (map ?key (pe_inner p))" using ok by (simp add: inner_ok_def inner_keys_def)
  have registered: "inner_ok (p\<lparr>pe_inner := register_inner_job ev (pe_inner p)\<rparr>)"
    unfolding keys register_inner_job_def
    using old grown [OF old] by (simp add: refreshed new_inner_job_def)
  have terminated: "inner_ok (p\<lparr>pe_inner := terminate_inner_job ev (pe_inner p)\<rparr>)"
    unfolding keys terminate_inner_job_def
    using old grown [OF old] by (simp add: ended stub_inner_job_def)
  show ?thesis
  proof (cases "ev_event ev = ''inner_job_registered'' \<or> ev_event ev = ''inner_job_terminated''")
    case True
    with registered terminated show ?thesis by (auto simp: apply_phase_event_def)
  next
    case False
    then have "pe_inner (apply_phase_event ev p) = pe_inner p"
      by (simp add: apply_phase_event_def start_phase_exec_def fail_phase_exec_def Let_def)
    with ok show ?thesis by (rule inner_kept [rotated])
  qed
qed

lemma update_first_ok:
  assumes "projection_ok ps" "\<And>p. pe_name (f p) = pe_name p" "\<And>p. inner_ok p \<Longrightarrow> inner_ok (f p)"
  shows "projection_ok (update_first P f ps)"
proof -
  have "phase_names (update_first P f ps) = phase_names ps"
    unfolding phase_names_def by (rule update_first_map) (simp add: assms(2))
  moreover have "\<forall>q \<in> set (update_first P f ps). inner_ok q"
    using assms(1,3) by (intro update_first_all) (simp add: projection_ok_def)
  ultimately show ?thesis using assms(1) by (simp add: projection_ok_def)
qed

lemma appended_ok:
  "projection_ok ps \<Longrightarrow> \<not> list_ex (\<lambda>p. pe_name p = n) ps \<Longrightarrow> pe_name q = n \<Longrightarrow> inner_ok q \<Longrightarrow> projection_ok (ps @ [q])"
  by (auto simp: projection_ok_def phase_names_def list_ex_iff)

lemma projection_edits:
  assumes "projection_ok ps"
  shows "projection_ok (mark_phase_dispatching n kind now ps)"
    and "projection_ok (mark_phase_review_required n kind now ps)"
    and "projection_ok (mark_phase_cancelled n kind reason now ps)"
    and "projection_ok (mark_jobs_dispatched n names ps)"
    and "projection_ok (mark_job_completion n job st reason now ps)"
    and "projection_ok (apply_event n ev ps)"
proof -
  have kept: "inner_ok p \<Longrightarrow> pe_inner q = pe_inner p \<Longrightarrow> inner_ok q" for p q by (rule inner_kept)
  show "projection_ok (mark_phase_dispatching n kind now ps)"
    unfolding mark_phase_dispatching_def
    by (auto intro!: update_first_ok [OF assms] appended_ok [OF assms] elim: kept)
  show "projection_ok (mark_phase_review_required n kind now ps)"
    unfolding mark_phase_review_required_def
    by (auto intro!: update_first_ok [OF assms] appended_ok [OF assms] elim: kept)
  show "projection_ok (mark_phase_cancelled n kind reason now ps)"
    unfolding mark_phase_cancelled_def by (rule update_first_ok [OF assms]) (auto elim: kept)
  show "projection_ok (mark_jobs_dispatched n names ps)"
    unfolding mark_jobs_dispatched_def by (rule update_first_ok [OF assms]) (auto elim: kept)
  show "projection_ok (mark_job_completion n job st reason now ps)"
    unfolding mark_job_completion_def by (rule update_first_ok [OF assms]) (auto elim: kept)
  show "projection_ok (apply_event n ev ps)"
    unfolding apply_event_def by (rule update_first_ok [OF assms]) (auto intro: event_inner)
qed

lemma projection_finalize: "projection_ok ps \<Longrightarrow> projection_ok (finalize_failure reason now ps)"
  unfolding projection_ok_def phase_names_finalize using finalize_inner by blast

lemma projection_skip_steps:
  assumes "projection_ok ps"
  shows "projection_ok (skip_steps n slugs reason now ps)"
proof -
  have "inner_ok q" if q: "q \<in> set (skip_steps n slugs reason now ps)" for q
  proof -
    from q obtain p where "p \<in> set ps" "pe_inner q = pe_inner p"
      by (auto simp: skip_steps_def Let_def split: if_splits)
    with assms show ?thesis by (auto simp: projection_ok_def intro: inner_kept)
  qed
  with assms show ?thesis by (simp add: projection_ok_def)
qed

lemma mark_recorded_ok: "projection_ok ps \<Longrightarrow> projection_ok (mark_recorded phase job c ps)"
  by (simp add: mark_recorded_def projection_edits case_prod_beta)

lemma marked_skipped_ok:
  "projection_ok ps \<Longrightarrow>
     projection_ok (foldl (\<lambda>ps (job, reason). mark_job_completion phase job ''skipped'' reason now ps) ps sk)"
  by (induction sk arbitrary: ps) (simp_all add: projection_edits case_prod_beta)

lemma projection_step:
  assumes "projection_ok (rn_execs d)"
  shows "projection_ok (rn_execs (apply_op add scr wkf d op))"
proof (cases op)
  case (OpStamp p now)
  with assms show ?thesis
    by (auto simp: stamp_run_completion_def kept_def edit_at_def Let_def split: option.split)
next
  case (OpRecord p now)
  show ?thesis
  proof (cases "record_job_completion scr wkf p now d")
    case (Inr rd)
    obtain r d' where rd: "rd = (r, d')" by (cases rd)
    from Inr rd have "record_job_completion scr wkf p now d = Inr (r, d')" by simp
    then have "projection_ok (rn_execs d')"
      by (cases rule: record_cases) (use assms in \<open>simp_all add: mark_recorded_ok\<close>)
    with Inr rd OpRecord show ?thesis by (simp add: kept_def)
  qed (use assms OpRecord in \<open>simp add: kept_def\<close>)
next
  case (OpEvent ev)
  with assms show ?thesis
    by (auto simp: apply_run_event_def set_phase_output_def kept_def edit_at_def Let_def projection_edits
        split: option.split if_splits)
qed (use assms in \<open>simp_all add: append_run_attempt_def add_attempt_def start_run_cycle_def stamp_attempt_skipped_def
      stamp_run_decision_def park_run_def release_gate_def cancel_gate_def set_terminal_def abort_run_def abort_patch_def
      record_runner_jobs_skipped_def record_runner_steps_skipped_def record_runner_jobs_dispatched_def kept_def
      edit_last_def edit_at_def projection_edits projection_finalize projection_skip_steps marked_skipped_ok\<close>)

text \<open>
  C5: Whatever operations are applied to a run document and in whichever order, the index of each
  attempt is its place in the list, an attempt has at most one completion per job, no phase is
  shown twice, and a phase lists each inner job once, under a namespace and a name that are not
  empty.
\<close>
theorem run_documents_well_formed:
  assumes "run_doc_ok d"
  shows "run_doc_ok (run_ops add scr wkf d ops)"
  using assms
proof (induction ops arbitrary: d)
  case (Cons op ops)
  have "run_doc_ok (apply_op add scr wkf d op)"
    using Cons.prems extend_ok [OF step_extends [of d add scr wkf op]] projection_step [of d add scr wkf op]
    by (simp add: run_doc_ok_def)
  with Cons.IH show ?case by simp
qed simp

end
