(* ===== verification/RunStoreOutcomes.thy ===== *)
theory RunStoreOutcomes
  imports RunStoreSafety
begin

text \<open>
  The routing's copy of a run is what is stored (a refinement), the review gate opens once, and
  three consequences of checks the operations lack: a run that was aborted can end as passed, a
  completion is stamped on the latest attempt whichever attempt it belongs to, and an event whose
  application failed is accepted when it is sent again without being applied.
\<close>

section \<open>Routing works on what is stored\<close>

text \<open>Reading makes the outputs of an attempt a map, empty when there are none.\<close>

definition as_read_attempt :: "attempt_data \<Rightarrow> attempt_data" where
  "as_read_attempt a = a\<lparr>at_outputs := Some (slice (at_outputs a))\<rparr>"

definition as_read :: "run_data \<Rightarrow> run_data" where
  "as_read r = r\<lparr>rd_attempts := map as_read_attempt (rd_attempts r)\<rparr>"

lemma as_read_replay_attempt [simp]:
  "as_read_attempt (replay_attempt a) = replay_attempt a"
  "as_read_attempt \<circ> replay_attempt = replay_attempt"
  by (simp_all add: fun_eq_iff as_read_attempt_def replay_attempt_def)

lemma as_read_replay [simp]:
  "as_read (replay_data d) = replay_data d"
  "as_read (ended_as st (replay_data d)) = ended_as st (replay_data d)"
  by (simp_all add: as_read_def replay_data_def ended_as_def)

lemma update_last_map: "map g (update_last f xs) = update_last h (map g xs)"
  if "\<And>x. g (f x) = h (g x)"
  by (cases xs rule: rev_cases) (simp_all add: update_last_def that)

lemma last_index_replay [simp]:
  "next_attempt_index (replay_data d) = next_index (rn_attempts d)"
  by (simp add: next_attempt_index_def next_index_def replay_data_def last_map replay_attempt_def)

lemma replay_append: "replay_data (append_run_attempt phase kind wff now d) = as_read (append_attempt phase (replay_data d))"
  by (simp add: append_attempt_def fresh_attempt_def append_run_attempt_def add_attempt_def new_attempt_def
      any_skipped_completion_def)
    (simp add: replay_data_def replay_attempt_def any_skipped_completion_def as_read_def as_read_attempt_def)

lemma replay_park: "replay_data (park_run phase kind wff now d) = as_read (park_at_review_gate phase (replay_data d))"
  by (simp add: park_at_review_gate_def append_attempt_def fresh_attempt_def park_run_def add_attempt_def
      new_attempt_def)
    (simp add: replay_data_def replay_attempt_def any_skipped_completion_def as_read_def as_read_attempt_def)

lemma replay_skip:
  assumes "stamp_attempt_skipped reason now d = Inr d'" "now \<noteq> []"
  shows "replay_data d' = stamp_latest_skipped (replay_data d)"
proof -
  have d': "d' = (edit_last (\<lambda>a. a\<lparr>ad_conclusion := ''skipped'', ad_decision := ''advance'', ad_completed := now,
                    ad_summary := (if trim_space reason \<noteq> [] then Some reason else ad_summary a)\<rparr>) d)
                  \<lparr>rn_updated := now\<rparr>"
    using assms(1) by (simp add: stamp_attempt_skipped_def split: if_splits)
  show ?thesis
    unfolding d'
    by (simp add: replay_data_def edit_last_def stamp_latest_skipped_def)
      (rule update_last_map, simp add: replay_attempt_def assms(2))
qed

lemma put_skipped_any: "sk \<noteq> [] \<Longrightarrow> any_skipped_completion (put_skipped now sk cs)"
proof (induction sk rule: rev_induct)
  case (snoc x sk)
  obtain job reason where x: "x = (job, reason)" by (cases x)
  have "(job, skipped_completion job reason now) \<in> set (AList.update job (skipped_completion job reason now) m)"
    for m :: completions
    by (induction m) auto
  then show ?case
    by (force simp: any_skipped_completion_def put_skipped_def list_ex_iff x skipped_completion_def)
qed simp

lemma replay_jobs_skipped:
  assumes "record_runner_jobs_skipped phase sk now d = Inr d'" "sk \<noteq> []"
  shows "replay_data d' = record_jobs_skipped (replay_data d)"
proof -
  have attempts: "rn_attempts d' = update_last (\<lambda>a. a\<lparr>ad_completions := put_skipped now sk (ad_completions a)\<rparr>) (rn_attempts d)"
    and rest: "\<exists>as es up. d' = d\<lparr>rn_attempts := as, rn_execs := es, rn_updated := up\<rparr>"
    using assms by (auto simp: record_runner_jobs_skipped_def edit_last_def split: if_splits)
  have "map replay_attempt (rn_attempts d')
      = update_last (\<lambda>a. a\<lparr>at_has_skipped_jobs := True\<rparr>) (map replay_attempt (rn_attempts d))"
    unfolding attempts by (rule update_last_map) (simp add: replay_attempt_def put_skipped_any [OF assms(2)])
  with rest show ?thesis by (auto simp: replay_data_def record_jobs_skipped_def)
qed

lemma replay_end: "replay_data (set_terminal st reason now d) = ended_as st (replay_data d)"
  by (simp add: replay_data_def set_terminal_def ended_as_def)

lemma stamp_at_position:
  assumes "map at_index as = map int [0..<length as]" "as \<noteq> []"
  shows "stamp_at (at_index (last as)) f as = Some (update_last f as)"
proof -
  obtain bs b where as: "as = bs @ [b]" using assms(2) by (cases as rule: rev_cases) auto
  have b: "at_index b = int (length bs)" and lower: "\<forall>a \<in> set bs. at_index a < int (length bs)"
  proof -
    have idx: "at_index (as ! i) = int i" if "i < length as" for i
      using arg_cong [OF assms(1), of "\<lambda>l. l ! i"] that by simp
    show "at_index b = int (length bs)" using idx [of "length bs"] by (simp add: as)
    show "\<forall>a \<in> set bs. at_index a < int (length bs)"
    proof
      fix a assume "a \<in> set bs"
      then obtain i where "i < length bs" "a = bs ! i" by (metis in_set_conv_nth)
      with idx [of i] show "at_index a < int (length bs)" by (simp add: as nth_append)
    qed
  qed
  have "stamp_at n f (xs @ [b]) = Some (xs @ [f b])" if "at_index b = n" "\<forall>a \<in> set xs. at_index a < n" for n xs
    using that by (induction xs) auto
  from this [OF refl, of bs] lower b show ?thesis by (simp add: as update_last_def)
qed

lemma stamped_attempts:
  assumes "stamp_run_completion add p now d = Inr d'" "jp_attempt p = None" "rn_attempts d = bs @ [a]"
  shows "rn_attempts d' = bs @ [completed_attempt p now a]"
  using assms
  by (auto simp: stamp_run_completion_def position_of_def edit_at_def Let_def split: option.split)

lemma replay_decision:
  assumes "run_doc_ok d" "now \<noteq> []" "rn_attempts d \<noteq> []" "jp_attempt p = None"
    and "stamp_run_completion add p now d = Inr d'"
  shows "replay_data (stamp_run_decision (decision_str verdict) now d') =
           with_stamped_decision (replay_data d') (at_index (last (rd_attempts (replay_data d')))) verdict
             \<lparr>cp_conclusion = jp_conclusion p, cp_outputs = jp_outputs p\<rparr>"
proof -
  let ?payload = "\<lparr>cp_conclusion = jp_conclusion p, cp_outputs = jp_outputs p\<rparr>"
  obtain bs a where as: "rn_attempts d = bs @ [a]" using assms(3) by (cases "rn_attempts d" rule: rev_cases) auto
  let ?b = "completed_attempt p now a" and ?as = "rd_attempts (replay_data d')"
  have as': "rn_attempts d' = bs @ [?b]" by (rule stamped_attempts [OF assms(5,4) as])
  then have rd: "?as = map replay_attempt bs @ [replay_attempt ?b]" by (simp add: replay_data_def)
  have "map ad_index (bs @ [a]) = map int [0..<length (bs @ [a])]"
    using assms(1) as by (simp add: run_doc_ok_def)
  then have "map at_index ?as = map int [0..<length ?as]"
    by (simp add: rd replay_attempt_def completed_attempt_def comp_def)
  moreover have "?as \<noteq> []" by (simp add: rd)
  ultimately have stamp: "stamp_at (at_index (last ?as)) f ?as = Some (update_last f ?as)" for f
    by (rule stamp_at_position)
  have "replay_attempt (?b\<lparr>ad_decision := v\<rparr>) = stamp_decision v ?payload (replay_attempt ?b)" for v
    using assms(2)
    by (simp add: replay_attempt_def completed_attempt_def stamp_decision_def split: option.split)
  then have "update_last (stamp_decision (decision_str verdict) ?payload) ?as
      = map replay_attempt (update_last (\<lambda>a. a\<lparr>ad_decision := decision_str verdict\<rparr>) (rn_attempts d'))"
    unfolding rd as' by (simp add: update_last_def)
  then show ?thesis
    unfolding with_stamped_decision_def stamp Let_def option.case
    by (simp add: stamp_run_decision_def edit_last_def as' replay_data_def)
qed

text \<open>
  The copy of the run that routing keeps while it decides, dispatches and ends agrees with
  the document it has stored: reading the document after each operation gives what routing
  computed from what it had read before, a missing map of outputs read as an empty one. This covers a new attempt, a skipped phase, jobs skipped
  at dispatch, the review gate, the stamped decision, and the end of the run.
\<close>
theorem routing_copy_is_stored:
  assumes "run_doc_ok d" and "now \<noteq> []"
  shows "replay_data (append_run_attempt phase kind wff now d) = as_read (append_attempt phase (replay_data d)) \<and>
         replay_data (park_run phase kind wff now d) = as_read (park_at_review_gate phase (replay_data d)) \<and>
         (\<forall>d'. stamp_attempt_skipped reason now d = Inr d' \<longrightarrow>
            replay_data d' = stamp_latest_skipped (replay_data d)) \<and>
         (\<forall>d'. sk \<noteq> [] \<longrightarrow> record_runner_jobs_skipped phase sk now d = Inr d' \<longrightarrow>
            replay_data d' = record_jobs_skipped (replay_data d)) \<and>
         (\<forall>d' p. rn_attempts d \<noteq> [] \<longrightarrow> jp_attempt p = None \<longrightarrow> stamp_run_completion add p now d = Inr d' \<longrightarrow>
            replay_data (stamp_run_decision (decision_str verdict) now d') =
              with_stamped_decision (replay_data d') (at_index (last (rd_attempts (replay_data d')))) verdict
                \<lparr>cp_conclusion = jp_conclusion p, cp_outputs = jp_outputs p\<rparr>) \<and>
         replay_data (set_terminal st cause now d) = ended_as st (replay_data d)"
  by (intro conjI allI impI)
    (simp_all add: replay_append replay_park replay_skip [OF _ assms(2)] replay_jobs_skipped
      replay_decision [OF assms] replay_end)

section \<open>The review gate opens once\<close>

definition opens_gate :: "run_op \<Rightarrow> run_doc \<Rightarrow> bool" where
  "opens_gate op d =
     (case op of
        OpRelease phase i now \<Rightarrow> gate_open phase i d
      | OpCancel phase i reason now \<Rightarrow> gate_open phase i d
      | _ \<Rightarrow> False)"

definition parks :: "run_op \<Rightarrow> bool" where
  "parks op = (case op of OpPark _ _ _ _ \<Rightarrow> True | OpEnd st _ _ \<Rightarrow> st = ''review_required'' | _ \<Rightarrow> False)"

lemma promote_state [simp]:
  "rn_state (promote_output d kv) = rn_state d" "rn_state (foldl promote_output d m) = rn_state d"
proof -
  show one: "rn_state (promote_output d kv) = rn_state d" for d kv by (simp add: promote_output_def Let_def)
  show "rn_state (foldl promote_output d m) = rn_state d" by (induction m arbitrary: d) (simp_all add: one)
qed

lemma record_state:
  "record_job_completion scr wkf p now d = Inr (r, d') \<Longrightarrow> rn_state d' = rn_state d"
  by (erule record_cases) (simp_all add: with_completions_def edit_at_def)

lemma state_after:
  assumes "\<not> parks op" "rn_state d \<noteq> ''review_required''"
  shows "rn_state (apply_op add scr wkf d op) \<noteq> ''review_required''"
proof (cases op)
  case (OpRecord p now)
  show ?thesis
  proof (cases "record_job_completion scr wkf p now d")
    case (Inr rd)
    then have "record_job_completion scr wkf p now d = Inr (fst rd, snd rd)" by simp
    from record_state [OF this] Inr OpRecord assms(2) show ?thesis by (simp add: kept_def)
  qed (use OpRecord assms(2) in \<open>simp add: kept_def\<close>)
next
  case (OpEvent ev)
  with assms(2) show ?thesis
    by (auto simp: apply_run_event_def set_phase_output_def kept_def edit_at_def Let_def
        split: option.split if_splits)
next
  case (OpStamp p now)
  with assms(2) show ?thesis
    by (auto simp: stamp_run_completion_def kept_def edit_at_def Let_def split: option.split)
qed (use assms in \<open>simp_all add: parks_def append_run_attempt_def add_attempt_def start_run_cycle_def
      stamp_attempt_skipped_def stamp_run_decision_def park_run_def release_gate_def cancel_gate_def set_terminal_def
      abort_run_def abort_patch_def record_runner_jobs_skipped_def record_runner_steps_skipped_def
      record_runner_jobs_dispatched_def kept_def edit_last_def edit_at_def\<close>)

lemma state_after_ops:
  "list_all (\<lambda>op. \<not> parks op) ops \<Longrightarrow> rn_state d \<noteq> ''review_required'' \<Longrightarrow>
     rn_state (run_ops add scr wkf d ops) \<noteq> ''review_required''"
  by (induction ops arbitrary: d) (simp_all add: state_after)

text \<open>
  A review decision takes effect once: after a gate has been released or cancelled, every
  further release or cancellation is refused, whatever else happens to the run, until the run is
  parked at a gate again.
\<close>
theorem gate_opens_once:
  assumes "opens_gate x (run_ops add scr wkf d us)"
    and "opens_gate y (run_ops add scr wkf d (us @ x # vs))"
  shows "\<exists>op \<in> set vs. parks op"
proof (rule ccontr)
  assume "\<not> (\<exists>op \<in> set vs. parks op)"
  then have quiet: "list_all (\<lambda>op. \<not> parks op) vs" by (simp add: list_all_iff)
  have "rn_state (apply_op add scr wkf (run_ops add scr wkf d us) x) \<noteq> ''review_required''"
    using assms(1)
    by (auto simp: opens_gate_def release_gate_def cancel_gate_def kept_def split: run_op.splits)
  from state_after_ops [OF quiet this]
  have "rn_state (run_ops add scr wkf d (us @ x # vs)) \<noteq> ''review_required''" by simp
  with assms(2) show False by (auto simp: opens_gate_def gate_open_def split: run_op.splits)
qed

section \<open>Checks that are missing\<close>

lemma record_same_attempts:
  assumes "rn_attempts d2 = rn_attempts d" "rn_workflow d2 = rn_workflow d"
    and "record_job_completion scr wkf p now d = Inr (r, e)"
  shows "\<exists>e'. record_job_completion scr wkf p now d2 = Inr (r, e') \<and> rn_attempts e' = rn_attempts e \<and>
           rn_state e' = rn_state d2 \<and> rn_abort e' = rn_abort d2"
proof -
  have pos: "position_of i d2 = position_of i d" for i
    unfolding position_of_def assms(1) by (rule refl)
  show ?thesis
    using assms(3)
    by (auto simp: record_job_completion_def assms(1,2) pos Let_def with_completions_def edit_at_def
        split: if_splits option.splits sum.splits record_outcome.splits)
qed

lemma record_after_abort:
  assumes "record_job_completion scr wkf p now d = Inr (r, e)"
  shows "\<exists>e'. record_job_completion scr wkf p now (abort_patch reason t d) = Inr (r, e') \<and>
              rn_attempts e' = rn_attempts e \<and> rn_state e' = ''aborted'' \<and> rn_abort e' = Some reason"
proof -
  have "rn_attempts (abort_patch reason t d) = rn_attempts d" "rn_workflow (abort_patch reason t d) = rn_workflow d"
    "rn_state (abort_patch reason t d) = ''aborted''" "rn_abort (abort_patch reason t d) = Some reason"
    by (simp_all add: abort_patch_def)
  with record_same_attempts [OF this(1,2) assms] show ?thesis by simp
qed

lemma promote_abort [simp]:
  "rn_abort (promote_output d kv) = rn_abort d" "rn_abort (foldl promote_output d m) = rn_abort d"
proof -
  show one: "rn_abort (promote_output d kv) = rn_abort d" for d kv by (simp add: promote_output_def Let_def)
  show "rn_abort (foldl promote_output d m) = rn_abort d" by (induction m arbitrary: d) (simp_all add: one)
qed

lemma stamp_keeps:
  assumes "rn_attempts d \<noteq> []"
  shows "\<exists>d'. stamp_run_completion add p now d = Inr d' \<and> rn_state d' = rn_state d \<and>
           rn_abort d' = rn_abort d \<and> length (rn_attempts d') = length (rn_attempts d)"
  using assms
  by (auto simp: stamp_run_completion_def edit_at_def Let_def split: option.split)

lemma decision_keeps:
  "rn_state (stamp_run_decision v now d) = rn_state d" "rn_abort (stamp_run_decision v now d) = rn_abort d"
  "length (rn_attempts (stamp_run_decision v now d)) = length (rn_attempts d)"
  by (simp_all add: stamp_run_decision_def edit_last_def update_last_def)

lemma recorded_attempts:
  assumes "record_job_completion scr wkf p now d = Inr (r, e)"
  shows "rn_attempts e \<noteq> []" "length (rn_attempts e) = length (rn_attempts d)"
proof -
  have "rn_attempts d \<noteq> []"
    using assms by (auto simp: record_job_completion_def Let_def split: if_splits)
  moreover have "length (rn_attempts e) = length (rn_attempts d)"
    using assms by (cases rule: record_cases) (simp_all add: with_completions_def edit_at_def)
  ultimately show "rn_attempts e \<noteq> []" "length (rn_attempts e) = length (rn_attempts d)" by auto
qed


text \<open>
  The completion of a phase is stamped on the latest attempt, not on the one whose jobs have
  completed: when the last job of an earlier attempt reports, that attempt stays open and the
  latest one is marked completed with the conclusion of the other phase. What is handed on has
  no attempt index.
\<close>
theorem completion_stamps_latest_attempt:
  assumes "record_job_completion scr wkf p t1 d = Inr (r, e)" and "rr_ready r"
    and "jp_attempt p = Some n" and "0 \<le> n" and "n < int (length (rn_attempts d)) - 1" and "t2 \<noteq> []"
  shows "\<exists>f. stamp_run_completion add (cr_payload (completion_result_of add r)) t2 e = Inr f \<and>
           ad_completed (rn_attempts f ! nat n) = [] \<and>
           ad_completed (last (rn_attempts f)) = t2 \<and>
           ad_conclusion (last (rn_attempts f))
             = jp_conclusion (aggregate_completion add (rr_expected r) (rr_completions r))"
  using assms(1)
proof (cases rule: record_cases)
  case same
  with assms(2) show ?thesis by simp
next
  case (new i wkf' expected cs)
  let ?p = "cr_payload (completion_result_of add r)"
  have i: "i = nat n" using new(1) assms(3-5) by (simp add: position_of_def)
  have len: "length (rn_attempts e) = length (rn_attempts d)"
    using recorded_attempts(2) [OF assms(1)] .
  then have some: "rn_attempts e \<noteq> []" using recorded_attempts(1) [OF assms(1)] by simp
  have p: "jp_attempt ?p = None" "jp_conclusion ?p
      = jp_conclusion (aggregate_completion add (rr_expected r) (rr_completions r))"
    by (simp_all add: completion_result_of_def aggregate_completion_def Let_def)
  obtain bs b where as: "rn_attempts e = bs @ [b]" using some by (cases "rn_attempts e" rule: rev_cases) auto
  obtain f where f: "stamp_run_completion add ?p t2 e = Inr f"
    using stamp_keeps [OF some] by blast
  have fas: "rn_attempts f = bs @ [completed_attempt ?p t2 b]" by (rule stamped_attempts [OF f p(1) as])
  have n: "nat n < length bs" using assms(4,5) len as by simp
  have in_range: "i < length (rn_attempts d)" using n i len as by simp
  have "rn_attempts e = (rn_attempts d)[i := (rn_attempts d ! i)\<lparr>ad_completions := store_all cs\<rparr>]"
    using new(10) by (simp add: with_completions_def edit_at_def)
  then have "ad_completed (rn_attempts e ! i) = []" using new(6) in_range by simp
  then have "ad_completed (bs ! nat n) = []" using i as n by (simp add: nth_append)
  then have "ad_completed (rn_attempts f ! nat n) = []" using n by (simp add: fas as nth_append)
  then show ?thesis using f p(2) by (simp add: fas completed_attempt_def)
qed

lemma refused_after_insert:
  assumes "record_runner_event seen q now (tbl, d) = (EventRefused e, tbl', d')" and "e \<noteq> RunConflict"
  obtains n phase where "event_attempt q seen = Inr (n, phase)" "tbl (n, eq_job q, eq_seq q) = None" "d' = d"
    "tbl' = tbl((n, eq_job q, eq_seq q) \<mapsto>
       \<lparr>ew_event = eq_event q, ew_phase = phase, ew_slug = eq_slug q,
        ew_message = eq_message q, ew_exit = eq_exit q, ew_meta = eq_meta q\<rparr>)"
proof (cases "event_attempt q seen")
  case (Inl n)
  with assms show thesis by (simp add: record_runner_event_def)
next
  case (Inr np)
  obtain n phase where np: "np = (n, phase)" by (cases np)
  note ev = Inr [unfolded np]
  show thesis
  proof (cases "tbl (n, eq_job q, eq_seq q)")
    case None
    with assms ev that show thesis
      by (cases "apply_run_event (event_of_request q n now) d")
        (simp_all add: record_runner_event_def insert_event_def Let_def)
  next
    case (Some old)
    with assms ev show thesis
      by (simp add: record_runner_event_def insert_event_def Let_def split: if_splits)
  qed
qed

text \<open>
  An event whose application fails is stored all the same. When the runner sends it again,
  the store answers that it is accepted and changes nothing: the event is never applied.
\<close>
theorem failed_event_is_never_applied:
  assumes "record_runner_event seen q now (tbl, d) = (EventRefused e, tbl', d')" and "e \<noteq> RunConflict"
  shows "record_runner_event seen q later (tbl', d'') = (EventAccepted, tbl', d'')"
  by (rule refused_after_insert [OF assms])
    (simp add: record_runner_event_def insert_event_def same_event_def Let_def)

text \<open>
  An output set by an event while the phase runs is gone when the phase completes, unless a
  job reports it again: the outputs of the attempt are replaced by those of the completions.
\<close>
theorem event_outputs_are_replaced:
  assumes "attempt_position (ev_attempt ev) (rn_attempts d) = Some (length (rn_attempts d) - 1)"
    and "rn_attempts d \<noteq> []" and "apply_run_event ev d = Inr d1" and "ev_event ev = ''phase_output_set''"
    and "stamp_run_completion add (aggregate_completion add expected cs) now d1 = Inr d2"
  shows "map_of (slice (ad_outputs (last (rn_attempts d1)))) (trim_space (meta_text ev ''key''))
           = Some (meta_text ev ''value'') \<and>
         ad_outputs (last (rn_attempts d2)) = jp_outputs (aggregate_completion add expected cs)"
proof -
  let ?p = "aggregate_completion add expected cs"
  obtain bs a where as: "rn_attempts d = bs @ [a]" using assms(2) by (cases "rn_attempts d" rule: rev_cases) auto
  have set_output: "rn_attempts d1 = bs @ [a\<lparr>ad_outputs := Some (AList.update (trim_space (meta_text ev ''key''))
      (meta_text ev ''value'') (slice (ad_outputs a)))\<rparr>]"
    using assms(1,3,4)
    by (auto simp: apply_run_event_def set_phase_output_def as Let_def edit_at_def nth_append
        split: if_splits option.splits)
  have p: "jp_attempt ?p = None" "\<exists>m. jp_outputs ?p = Some m"
    by (simp_all add: aggregate_completion_def Let_def)
  from stamped_attempts [OF assms(5) p(1) set_output] p(2)
  have "ad_outputs (last (rn_attempts d2)) = jp_outputs ?p"
    by (auto simp: completed_attempt_def)
  then show ?thesis by (simp add: set_output update_Some_unfold)
qed

end
