(* ===== verification/RunExamples.thy ===== *)
theory RunExamples
  imports RunStoreOutcomes
begin

text \<open>A workflow with two jobs in a phase and runs of it, at which the theorems on run documents,
  job completions and evidence are instantiated.\<close>

section \<open>A run\<close>

definition plain_payload :: "string \<Rightarrow> string \<Rightarrow> (string \<times> string) list \<Rightarrow> int option \<Rightarrow> job_payload" where
  "plain_payload job conclusion outputs i =
     \<lparr>jp_job = Some job, jp_conclusion = conclusion, jp_status = [], jp_reasons = [], jp_failure = None,
      jp_refs = [], jp_evidence = [], jp_cost = Fin 0, jp_usage = [], jp_summary = None,
      jp_screenshots = None, jp_outputs = Some outputs, jp_attempt = i, jp_error = None, jp_reason = [],
      jp_log = []\<rparr>"

definition demo_job :: "string \<Rightarrow> job_spec" where
  "demo_job i =
     \<lparr>js_id = i, js_primitive = [], js_command = [], js_args = [], js_steps = [], js_timeout = None,
      js_managed = True, js_checkout = None, js_extra_checkouts = [], js_when = [], js_tools = []\<rparr>"

definition demo_phase :: "string \<Rightarrow> string list \<Rightarrow> phase_spec" where
  "demo_phase name jobs =
     \<lparr>ps_name = name, ps_kind = ''k8s_job'', ps_run_on = ''success'', ps_purpose = ''work'',
      ps_workflow_filename = [], ps_workflow_ref = ''main'', ps_inputs = [], ps_outputs = [],
      ps_verify = False, ps_recycle = None, ps_always = False, ps_gate = False, ps_depends_on = [],
      ps_jobs = map demo_job jobs, ps_when = [], ps_skip_preserve = False\<rparr>"

definition demo_workflow :: workflow where
  "demo_workflow =
     \<lparr>wf_name = ''agent'', wf_schema_ref = ''schema'',
      wf_phases = [demo_phase ''work'' [''build'', ''lint''], demo_phase ''check'' [''test'']],
      wf_budget = \<lparr>total = Fin 25\<rparr>, wf_vars = Map.empty\<rparr>"

definition demo_scripts :: canonical_scripts where
  "demo_scripts = \<lparr>cs_gate = ''gate'', cs_merge = ''merge'', cs_review = ''review'', cs_finalize = ''verdict''\<rparr>"

definition demo_run :: "attempt_doc list \<Rightarrow> run_doc" where
  "demo_run as =
     \<lparr>rn_id = ''r1'', rn_project = ''p'', rn_workflow = ''agent'', rn_schema_ref = ''schema'', rn_issue = 1,
      rn_run_cycle = Some 1, rn_display = None, rn_pr = None, rn_state = ''in_progress'', rn_queue = [],
      rn_admission_error = [], rn_slot_lease = None, rn_attempts = as, rn_execs = [], rn_cost = Fin 0,
      rn_budget = None, rn_validation = [], rn_screenshots = [], rn_abort = None, rn_entrypoint = None,
      rn_inputs = Map.empty, rn_preserve = False, rn_prior = None, rn_updated = ''t0''\<rparr>"

definition work_attempt :: attempt_doc where
  "work_attempt = new_attempt 0 ''work'' ''k8s_job'' [] ''t0''"

definition check_attempt :: attempt_doc where
  "check_attempt = new_attempt 1 ''check'' ''k8s_job'' [] ''t0''"

definition demo_two :: run_doc where
  "demo_two = demo_run [work_attempt, check_attempt]"

definition demo_records :: "run_op list" where
  "demo_records =
     [OpRecord (plain_payload ''build'' ''success'' [(''image'', ''a'')] (Some 0)) ''t1'']"

definition lint_done :: job_payload where
  "lint_done = plain_payload ''lint'' ''success'' [] (Some 0)"

definition test_done :: job_payload where
  "test_done = plain_payload ''test'' ''success'' [] (Some 1)"

abbreviation demo_add :: "gofloat \<Rightarrow> gofloat \<Rightarrow> gofloat" where
  "demo_add a b \<equiv> a"

lemma demo_ids [simp]:
  "expected_job_ids demo_scripts demo_workflow ''work'' = Inr [''build'', ''lint'']"
  "expected_job_ids demo_scripts demo_workflow ''check'' = Inr [''test'']"
  by code_simp+

section \<open>Completions of jobs\<close>

theorem phase_succeeds_witness:
  "let cs = [(''build'', completion_of_payload ''build'' (plain_payload ''build'' ''success'' [] None) ''t1''),
             (''lint'', completion_of_payload ''lint'' (plain_payload ''lint'' ''failure'' [] None) ''t1'')] in
   jp_conclusion (aggregate_completion demo_add [''build'', ''lint''] cs) = ''success'' \<longleftrightarrow>
     cl_failed (completion_lists_of [''build'', ''lint''] cs True) = []"
  unfolding Let_def
  by (rule phase_succeeds_iff_no_job_failed) (simp_all add: all_expected_completed_def)

theorem redelivered_completion_witness:
  "record_on_attempt [''build''] ''work'' ''build'' (plain_payload ''build'' ''success'' [] None) ''t2'' False
     [(''build'', stored_completion (completion_of_payload ''build'' (plain_payload ''build'' ''success'' [] None) ''t1''))]
   = Inl RecordConflict"
  by (subst redelivered_completion) (simp_all add: plain_payload_def)

definition demo_deliveries :: "(string \<times> job_payload \<times> string) list" where
  "demo_deliveries =
     [(''build'', plain_payload ''build'' ''success'' [(''image'', ''a'')] None, ''t1''),
      (''lint'', plain_payload ''lint'' ''success'' [(''image'', ''b'')] None, ''t2''),
      (''build'', plain_payload ''build'' ''success'' [(''image'', ''c'')] None, ''t3'')]"

theorem recorded_outputs_witness:
  "map_of (slice (jp_outputs (aggregate_completion demo_add [''build'', ''lint'']
     (foldl (deliver [''build'', ''lint''] ''work'') [] demo_deliveries)))) ''image'' = Some ''a''"
proof -
  have plain: "\<forall>d \<in> set demo_deliveries. plain_outputs (fst (snd d))"
    unfolding demo_deliveries_def by (simp add: plain_outputs_def plain_payload_def) code_simp
  have "foldl (deliver [''build'', ''lint''] ''work'') [] demo_deliveries
      = [(''build'', stored_completion (completion_of_payload ''build''
            (plain_payload ''build'' ''success'' [(''image'', ''a'')] None) ''t1''))]"
    by code_simp
  then show ?thesis
    by (intro recorded_outputs_survive [OF plain _ refl, where i = "''build''"])
      (simp_all, simp add: plain_payload_def)
qed

theorem padded_key_witness:
  "\<exists>cs. record_on_attempt [''build'', ''lint''] ''work'' ''build''
     (plain_payload ''build'' ''success'' [('' image'', ''a'')] None) ''t1'' False [] = Inr (Recorded cs)"
proof -
  have key: "trim_space '' image'' = ''image''" by code_simp
  show ?thesis
    by (rule exE [OF padded_key_depends_on_order [of "''build''" "[''build'', ''lint'']" "''lint''" "'' image''"
          "plain_payload ''build'' ''success'' [('' image'', ''a'')] None" "''a''"
          "plain_payload ''lint'' ''success'' [(''image'', ''b'')] None" "''b''" "''work''" "''t1''", THEN conjunct1]])
      (auto simp: key plain_payload_def)
qed

definition demo_evidence :: vmap where
  "demo_evidence = [(''evidence'', VList [VMap [(''kind'', VStr ''image''), (''ref'', VStr ''a.png'')]])]"

theorem evidence_payload_witness:
  "set (refs_of_artifacts (artifacts_from_payload demo_evidence)) = {''a.png''}"
proof -
  have "set (refs_of_artifacts (artifacts_from_payload demo_evidence))
      = artifact_ref ` {a \<in> set (reported_artifacts demo_evidence). artifact_ref a \<noteq> []}"
    using evidence_payload_collected [of demo_evidence] by blast
  moreover have "filter (\<lambda>a. artifact_ref a \<noteq> []) (reported_artifacts demo_evidence)
      = reported_artifacts demo_evidence" "map artifact_ref (reported_artifacts demo_evidence) = [''a.png'']"
    by code_simp+
  then have "artifact_ref ` {a \<in> set (reported_artifacts demo_evidence). artifact_ref a \<noteq> []} = {''a.png''}"
    by (metis list.set_map set_filter list.simps(15) empty_set)
  ultimately show ?thesis by simp
qed

section \<open>Operations on the run\<close>

lemma demo_two_ok: "run_doc_ok demo_two"
  by (simp add: run_doc_ok_def demo_two_def demo_run_def work_attempt_def check_attempt_def new_attempt_def
      projection_ok_def phase_names_def)

theorem run_documents_witness:
  "run_doc_ok (run_ops demo_add demo_scripts (Some demo_workflow) demo_two demo_records)"
  by (rule run_documents_well_formed [OF demo_two_ok])

theorem handed_on_once_witness:
  "ready_at demo_scripts (Some demo_workflow)
     (run_ops demo_add demo_scripts (Some demo_workflow) demo_two demo_records) (OpRecord lint_done ''t2'') 0 \<and>
   ready_at demo_scripts (Some demo_workflow)
     (run_ops demo_add demo_scripts (Some demo_workflow) demo_two (demo_records @ OpRecord lint_done ''t2'' # []))
     (OpRecord test_done ''t3'') 1 \<and> (0::nat) \<noteq> 1"
proof (intro conjI)
  show first: "ready_at demo_scripts (Some demo_workflow)
      (run_ops demo_add demo_scripts (Some demo_workflow) demo_two demo_records) (OpRecord lint_done ''t2'') 0"
    by code_simp
  show second: "ready_at demo_scripts (Some demo_workflow)
      (run_ops demo_add demo_scripts (Some demo_workflow) demo_two (demo_records @ OpRecord lint_done ''t2'' # []))
      (OpRecord test_done ''t3'') 1"
    by code_simp
  show "(0::nat) \<noteq> 1" by (rule phase_handed_on_once [OF first second])
qed

theorem routing_copy_witness:
  "replay_data (append_run_attempt ''next'' ''k8s_job'' [] ''t9'' demo_two) = as_read (append_attempt ''next'' (replay_data demo_two))"
  using routing_copy_is_stored [OF demo_two_ok, of "''t9''" "''next''" "''k8s_job''" "[]"] by simp

theorem gate_opens_once_witness:
  "\<exists>op \<in> set [OpPark ''review_gate'' ''review_gate'' [] ''t3'']. parks op"
proof (rule gate_opens_once)
  show "opens_gate (OpRelease ''review_gate'' 2 ''t2'')
      (run_ops demo_add demo_scripts None demo_two [OpPark ''review_gate'' ''review_gate'' [] ''t1''])"
    by code_simp
  show "opens_gate (OpCancel ''review_gate'' 3 [] ''t4'')
      (run_ops demo_add demo_scripts None demo_two ([OpPark ''review_gate'' ''review_gate'' [] ''t1''] @
         OpRelease ''review_gate'' 2 ''t2'' # [OpPark ''review_gate'' ''review_gate'' [] ''t3'']))"
    by code_simp
qed

definition demo_ready :: "recorded_reply \<times> run_doc" where
  "demo_ready =
     (case record_job_completion demo_scripts (Some demo_workflow) lint_done ''t2''
             (run_ops demo_add demo_scripts (Some demo_workflow) demo_two demo_records) of
        Inr x \<Rightarrow> x | Inl _ \<Rightarrow> (\<lparr>rr_expected = [], rr_completions = [], rr_phase_complete = False, rr_ready = False\<rparr>, demo_two))"

abbreviation demo_half :: run_doc where
  "demo_half \<equiv> run_ops demo_add demo_scripts (Some demo_workflow) demo_two demo_records"

lemma demo_ready_eq:
  "record_job_completion demo_scripts (Some demo_workflow) lint_done ''t2'' demo_half
     = Inr (fst demo_ready, snd demo_ready)"
proof -
  have "\<not> isl (record_job_completion demo_scripts (Some demo_workflow) lint_done ''t2'' demo_half)" by code_simp
  then show ?thesis
    by (cases "record_job_completion demo_scripts (Some demo_workflow) lint_done ''t2'' demo_half")
      (simp_all add: demo_ready_def)
qed


theorem stamps_latest_witness:
  "\<exists>f. stamp_run_completion demo_add (cr_payload (completion_result_of demo_add (fst demo_ready))) ''t3''
          (snd demo_ready) = Inr f \<and>
       ad_completed (rn_attempts f ! nat 0) = [] \<and> ad_completed (last (rn_attempts f)) = ''t3'' \<and>
       ad_conclusion (last (rn_attempts f))
         = jp_conclusion (aggregate_completion demo_add (rr_expected (fst demo_ready)) (rr_completions (fst demo_ready)))"
proof (rule completion_stamps_latest_attempt [OF demo_ready_eq])
  show "rr_ready (fst demo_ready)" "jp_attempt lint_done = Some 0" by code_simp+
  show "(0::int) < int (length (rn_attempts demo_half)) - 1" by code_simp
qed simp_all

definition output_request :: "vmap \<Rightarrow> event_request" where
  "output_request m =
     \<lparr>eq_attempt = Some 1, eq_job = ''test'', eq_seq = 1, eq_event = ''phase_output_set'', eq_slug = [],
      eq_message = [], eq_exit = None, eq_meta = m\<rparr>"

definition lost_event :: "event_reply \<times> event_table \<times> run_doc" where
  "lost_event = record_runner_event demo_two (output_request [(''value'', VStr ''v'')]) ''t1'' (Map.empty, demo_two)"

theorem failed_event_witness:
  "record_runner_event demo_two (output_request [(''value'', VStr ''v'')]) ''t2'' (fst (snd lost_event), demo_two)
     = (EventAccepted, fst (snd lost_event), demo_two)"
proof (rule failed_event_is_never_applied)
  have "fst lost_event = EventRefused (BadEvent ''phase_output_set event requires metadata.key'')" by code_simp
  then show "record_runner_event demo_two (output_request [(''value'', VStr ''v'')]) ''t1'' (Map.empty, demo_two)
      = (EventRefused (BadEvent ''phase_output_set event requires metadata.key''), fst (snd lost_event), snd (snd lost_event))"
    by (metis lost_event_def prod.collapse)
qed simp

definition output_event :: run_event where
  "output_event =
     event_of_request (output_request [(''key'', VStr ''image''), (''value'', VStr ''v'')]) 1 ''t1''"

definition output_set :: run_doc where
  "output_set = kept demo_two (apply_run_event output_event demo_two)"

definition stamped_doc :: run_doc where
  "stamped_doc = kept output_set (stamp_run_completion demo_add
     (aggregate_completion demo_add [''test''] [(''test'', completion_of_payload ''test'' test_done ''t2'')]) ''t3'' output_set)"

lemma kept_eq: "\<not> isl r \<Longrightarrow> r = Inr (kept d r)"
  by (cases r) (simp_all add: kept_def)

theorem event_outputs_witness:
  "map_of (slice (ad_outputs (last (rn_attempts output_set)))) (trim_space (meta_text output_event ''key''))
     = Some (meta_text output_event ''value'') \<and>
   ad_outputs (last (rn_attempts stamped_doc))
     = jp_outputs (aggregate_completion demo_add [''test''] [(''test'', completion_of_payload ''test'' test_done ''t2'')])"
proof (rule event_outputs_are_replaced)
  show "attempt_position (ev_attempt output_event) (rn_attempts demo_two) = Some (length (rn_attempts demo_two) - 1)"
    "rn_attempts demo_two \<noteq> []" "ev_event output_event = ''phase_output_set''"
    by code_simp+
  show "apply_run_event output_event demo_two = Inr output_set"
    unfolding output_set_def by (rule kept_eq) code_simp
  show "stamp_run_completion demo_add
      (aggregate_completion demo_add [''test''] [(''test'', completion_of_payload ''test'' test_done ''t2'')]) ''t3'' output_set
      = Inr stamped_doc"
    unfolding stamped_doc_def by (rule kept_eq) code_simp
qed

end
