(* ===== verification/RunCreation.thy ===== *)
theory RunCreation
  imports RunStore PublicIds Registration
begin

text \<open>
  How runs come into being (\<open>CreateRun\<close>, \<open>CreateRecycleCycle\<close> and what they call in
  \<open>internal/store/store/postgres.go\<close>, \<open>internal/server/run_inputs.go\<close>): the inputs a
  run is given, the attempts it is supplied with, the projection of its workflow, its numbers, and
  how a run is found again by its address.
\<close>

section \<open>Inputs\<close>

datatype run_input_error =
    TooManyInputs nat
  | EmptyInputKey
  | BadInputKey string
  | InputTooLong string nat
  | UndeclaredInput string
  | RequiredInput string
  | MalformedInput string
  | MissingInput string

definition max_run_inputs :: nat where
  "max_run_inputs = 32"

definition max_run_input_length :: nat where
  "max_run_input_length = 512"

text \<open>\<open>runInputNamePattern\<close>\<close>

definition input_name_ok :: "string \<Rightarrow> bool" where
  "input_name_ok k =
     (case k of
        [] \<Rightarrow> False
      | c # cs \<Rightarrow>
          ((is_upper c \<or> is_lower c) \<or> c = CHR ''_'') \<and>
          list_all (\<lambda>c. (is_upper c \<or> is_lower c) \<or> is_digit c \<or> c = CHR ''_'' \<or> c = CHR ''-'') cs)"

fun normalize_inputs :: "(string \<times> string) list \<Rightarrow> (string \<times> string) list \<Rightarrow>
    (run_input_error, (string \<times> string) list) res" where
  "normalize_inputs out [] = Inr out"
| "normalize_inputs out ((raw, v) # rest) =
     (let k = trim_space raw; t = trim_space v in
      if k = [] then Inl EmptyInputKey
      else if \<not> input_name_ok k then Inl (BadInputKey raw)
      else if length t > max_run_input_length then Inl (InputTooLong k (length t))
      else normalize_inputs (AList.update k t out) rest)"

definition normalize_run_inputs :: "(string \<times> string) list \<Rightarrow> (run_input_error, (string \<times> string) list) res" where
  "normalize_run_inputs inputs =
     (if length inputs > max_run_inputs then Inl (TooManyInputs (length inputs))
      else normalize_inputs [] inputs)"

definition sorted_input_keys :: "(string \<times> string) list \<Rightarrow> string list" where
  "sorted_input_keys inputs = sort (map fst inputs)"

definition declared_input :: "dispatch_input list \<Rightarrow> string \<Rightarrow> bool" where
  "declared_input declared k = list_ex (\<lambda>i. di_name i = k) declared"

definition check_declared :: "dispatch_input list \<Rightarrow> (string \<times> string) list \<Rightarrow> run_input_error option" where
  "check_declared declared inputs =
     check_all (\<lambda>k. if declared_input declared k then None else Some (UndeclaredInput k)) (sorted_input_keys inputs)"

fun resolve_inputs ::
  "(string \<times> string) list \<Rightarrow> (string \<times> string) list \<Rightarrow> dispatch_input list \<Rightarrow>
     (run_input_error, (string \<times> string) list) res" where
  "resolve_inputs supplied out [] = Inr out"
| "resolve_inputs supplied out (i # is) =
     (let v = (case map_of supplied (di_name i) of Some v \<Rightarrow> v | None \<Rightarrow> []) in
      if v \<noteq> [] then resolve_inputs supplied (AList.update (di_name i) v out) is
      else if di_default i \<noteq> [] then resolve_inputs supplied (AList.update (di_name i) (di_default i) out) is
      else if di_required i then Inl (RequiredInput (di_name i))
      else Inl (MalformedInput (di_name i)))"

definition resolve_dispatch_inputs ::
  "dispatch_input list \<Rightarrow> (string \<times> string) list \<Rightarrow> (run_input_error, (string \<times> string) list) res" where
  "resolve_dispatch_inputs declared supplied =
     (case check_declared declared supplied of
        Some e \<Rightarrow> Inl e
      | None \<Rightarrow> resolve_inputs supplied [] declared)"

definition validate_run_inputs :: "dispatch_input list \<Rightarrow> (string \<times> string) list \<Rightarrow> run_input_error option" where
  "validate_run_inputs declared inputs =
     first_error
       [check_declared declared inputs,
        check_all (\<lambda>i. if map_of inputs (di_name i) = None then Some (MissingInput (di_name i)) else None) declared]"

section \<open>The projection of a workflow\<close>

text \<open>
  What documents show and routing does not read: titles, the group of a step, the evidence of a
  verification.
\<close>

record doc_details =
  dd_step_title :: "step_spec \<Rightarrow> string"
  dd_group_title :: "step_spec \<Rightarrow> string"
  dd_dynamic :: "step_spec \<Rightarrow> goval option"
  dd_job_name :: "job_spec \<Rightarrow> string"
  dd_evidence :: "run_verification \<Rightarrow> evidence_artifact list"

definition optional_text :: "string \<Rightarrow> string" where
  "optional_text s = (if trim_space s = [] then [] else s)"

definition optional_string :: "string \<Rightarrow> string option" where
  "optional_string s = (if trim_space s = [] then None else Some s)"

definition projected_step :: "string \<Rightarrow> string \<Rightarrow> string \<Rightarrow> string \<Rightarrow> step_exec" where
  "projected_step slug title st now =
     \<lparr>se_slug = slug, se_title = title, se_state = st, se_reason = [], se_exit = None, se_group = [],
      se_group_title = [], se_dynamic = None, se_created = now, se_started = [], se_completed = []\<rparr>"

definition projected_steps :: "doc_details \<Rightarrow> string \<Rightarrow> string \<Rightarrow> job_spec \<Rightarrow> step_exec list" where
  "projected_steps dd st now j =
     (let steps = map (\<lambda>s. (projected_step (trim_space (ss_slug s)) (optional_text (dd_step_title dd s)) st now)
                        \<lparr>se_group := ss_group s, se_group_title := optional_text (dd_group_title dd s),
                         se_dynamic := dd_dynamic dd s\<rparr>)
                    (filter (\<lambda>s. trim_space (ss_slug s) \<noteq> []) (js_steps j)) in
      if steps = [] then [projected_step ''job'' (optional_text (dd_job_name dd j)) st now] else steps)"

definition planned_job :: "string \<Rightarrow> string \<Rightarrow> string \<Rightarrow> string \<Rightarrow> step_exec list \<Rightarrow> job_exec" where
  "planned_job i name st now steps =
     \<lparr>je_id = i, je_name = name, je_state = st, je_reason = [], je_k8s_name = [], je_created = now,
      je_dispatched = [], je_started = [], je_completed = [], je_steps = steps\<rparr>"

definition planned_jobs :: "doc_details \<Rightarrow> string \<Rightarrow> string \<Rightarrow> phase_spec \<Rightarrow> job_exec list" where
  "planned_jobs dd st now p =
     (let jobs = map (\<lambda>j. planned_job (trim_space (js_id j)) (optional_text (dd_job_name dd j)) st now
                        (projected_steps dd st now j))
                   (filter (\<lambda>j. trim_space (js_id j) \<noteq> []) (ps_jobs p));
          fallback = first_non_empty (ps_workflow_filename p) (first_non_empty (ps_name p) ''phase'') in
      if jobs = []
      then [planned_job fallback (optional_text fallback) st now [projected_step ''workflow-run'' ''Workflow run'' st now]]
      else jobs)"

definition planned_phase :: "doc_details \<Rightarrow> string \<Rightarrow> string \<Rightarrow> phase_spec \<Rightarrow> phase_exec" where
  "planned_phase dd st now p =
     \<lparr>pe_name = ps_name p, pe_kind = first_non_empty (ps_kind p) ''k8s_job'', pe_state = st, pe_reason = [],
      pe_created = now, pe_dispatched = [], pe_started = [], pe_completed = [],
      pe_jobs = planned_jobs dd st now p, pe_inner = []\<rparr>"

text \<open>The phases before the entry point are shown as skipped, supplied ones as supplied.\<close>

fun plan_phases :: "doc_details \<Rightarrow> string \<Rightarrow> string list \<Rightarrow> string \<Rightarrow> bool \<Rightarrow> phase_spec list \<Rightarrow> phase_exec list" where
  "plan_phases dd now supplied entry before [] = []"
| "plan_phases dd now supplied entry before (p # ps) =
     (if ps_name p \<in> set supplied
      then planned_phase dd ''supplied'' now p # plan_phases dd now supplied entry before ps
      else if before \<and> ps_name p \<noteq> entry
      then planned_phase dd ''skipped'' now p # plan_phases dd now supplied entry before ps
      else planned_phase dd ''not_started'' now p # plan_phases dd now supplied entry False ps)"

definition execution_docs ::
  "doc_details \<Rightarrow> canonical_scripts \<Rightarrow> workflow \<Rightarrow> string \<Rightarrow> string option \<Rightarrow> string list \<Rightarrow> phase_exec list" where
  "execution_docs dd scr wkf now entry supplied =
     (let e = trim_space (case entry of None \<Rightarrow> [] | Some s \<Rightarrow> s) in
      plan_phases dd now supplied e (e \<noteq> []) (wf_phases (canonical_workflow scr wkf)))"

section \<open>Supplied attempts\<close>

definition spec_named :: "phase_spec list \<Rightarrow> string \<Rightarrow> phase_spec option" where
  "spec_named ps n = find (\<lambda>p. ps_name p = n) (rev ps)"

definition carried_verification :: "doc_details \<Rightarrow> run_verification \<Rightarrow> verification_doc" where
  "carried_verification dd v =
     \<lparr>vd_status = rv_status v, vd_reasons = rv_reasons v, vd_failure = rv_failure v,
      vd_refs = rv_evidence_refs v, vd_evidence = Some (dd_evidence dd v), vd_cost = Fin 0\<rparr>"

definition carried_attempt :: "doc_details \<Rightarrow> string \<Rightarrow> int \<Rightarrow> phase_spec \<Rightarrow> attempt_data \<Rightarrow> attempt_doc" where
  "carried_attempt dd now i p a =
     (let kind = first_non_empty (ps_kind p) ''k8s_job'' in
      (new_attempt i (ps_name p) kind (first_non_empty (ps_workflow_filename p) (kind @ '':'' @ ps_name p)) now)
        \<lparr>ad_completed := now, ad_conclusion := first_non_empty (at_conclusion a) ''success'',
         ad_decision := first_non_empty (at_decision a) ''advance'',
         ad_verification := map_option (carried_verification dd) (at_verification a),
         ad_outputs := Some (slice (at_outputs a)), ad_carry := True\<rparr>)"

fun carry_attempts ::
  "doc_details \<Rightarrow> phase_spec list \<Rightarrow> string \<Rightarrow> attempt_doc list \<Rightarrow> attempt_data list \<Rightarrow> attempt_doc list" where
  "carry_attempts dd ps now out [] = out"
| "carry_attempts dd ps now out (a # as) =
     (case spec_named ps (at_phase a) of
        None \<Rightarrow> carry_attempts dd ps now out as
      | Some p \<Rightarrow> carry_attempts dd ps now (out @ [carried_attempt dd now (int (length out)) p a]) as)"

definition supplied_phases :: "attempt_data list \<Rightarrow> string list" where
  "supplied_phases as = filter (\<lambda>n. n \<noteq> []) (map (\<lambda>a. trim_space (at_phase a)) as)"

section \<open>Numbers\<close>

text \<open>A run document with its place in the ledger of its issue and the holder of its issue lock.\<close>

record ledger_run =
  lr_doc :: run_doc
  lr_number :: "int option"
  lr_cycle :: "int option"
  lr_is_cycle :: bool
  lr_holder :: string
  lr_created :: string

definition positive :: "int option \<Rightarrow> int option" where
  "positive n = (case n of Some k \<Rightarrow> if 0 < k then Some k else None | None \<Rightarrow> None)"

definition ledger_number :: "ledger_run \<Rightarrow> int" where
  "ledger_number r =
     (case positive (lr_cycle r) of
        Some k \<Rightarrow> k
      | None \<Rightarrow> (case positive (lr_number r) of Some k \<Rightarrow> k | None \<Rightarrow> 0))"

fun own_numbers :: "(string \<times> int) list \<Rightarrow> ledger_run list \<Rightarrow> (string \<times> int) list" where
  "own_numbers out [] = out"
| "own_numbers out (r # rs) =
     (let n = ledger_number r in
      if n \<le> 0 \<or> n \<in> snd ` set out then own_numbers out rs
      else own_numbers (out @ [(rn_id (lr_doc r), n)]) rs)"

text \<open>The next number that is not taken: the candidates are one more than there are numbers.\<close>

definition next_free :: "int list \<Rightarrow> int \<Rightarrow> int" where
  "next_free used n =
     (case find (\<lambda>k. k \<notin> set used) (map (\<lambda>i. n + int i) [0..<Suc (length used)]) of
        Some k \<Rightarrow> k | None \<Rightarrow> n)"

fun fill_numbers :: "(string \<times> int) list \<Rightarrow> int \<Rightarrow> ledger_run list \<Rightarrow> (string \<times> int) list" where
  "fill_numbers out n [] = out"
| "fill_numbers out n (r # rs) =
     (if rn_id (lr_doc r) \<in> fst ` set out then fill_numbers out n rs
      else (let k = next_free (map snd out) n in fill_numbers (out @ [(rn_id (lr_doc r), k)]) k rs))"

definition run_number_map :: "ledger_run list \<Rightarrow> (string \<times> int) list" where
  "run_number_map rs = fill_numbers (own_numbers [] rs) 1 rs"

definition next_cycle_number :: "ledger_run list \<Rightarrow> int" where
  "next_cycle_number rs = foldl (\<lambda>c n. if n \<ge> c then n + 1 else c) 1 (map snd (run_number_map rs))"

definition next_run_number :: "ledger_run list \<Rightarrow> int" where
  "next_run_number rs =
     foldl (\<lambda>c n. case n of Some k \<Rightarrow> if k \<ge> c then k + 1 else c | None \<Rightarrow> c) 1 (map lr_number rs)"

definition issue_runs :: "string \<Rightarrow> int \<Rightarrow> ledger_run list \<Rightarrow> ledger_run list" where
  "issue_runs project issue store =
     sort_key lr_created (filter (\<lambda>r. rn_project (lr_doc r) = project \<and> rn_issue (lr_doc r) = issue) store)"


section \<open>A new run\<close>

record create_request =
  cq_project :: string
  cq_workflow :: string
  cq_schema_ref :: string
  cq_issue :: int
  cq_budget :: budget_config
  cq_holder :: string
  cq_slot_lease :: string
  cq_entrypoint :: string
  cq_supplied :: "attempt_data list"
  cq_validation :: string
  cq_inputs :: "(string \<times> string) list"
  cq_preserve :: bool

datatype create_error =
    UnknownWorkflow string
  | BadRunInputs run_input_error
  | NoSuchRun
  | NoSlotLease

text \<open>
  \<open>workflowForRunExecution\<close>: the version the run is pinned to, or else the workflow of this
  name; both tables are arguments, with the declared inputs.
\<close>

record workflow_tables =
  wt_versions :: "string \<Rightarrow> string \<Rightarrow> (workflow \<times> dispatch_input list) option"
  wt_names :: "string \<Rightarrow> string \<Rightarrow> (workflow \<times> dispatch_input list) option"

definition workflow_for_execution ::
  "workflow_tables \<Rightarrow> string \<Rightarrow> string \<Rightarrow> string \<Rightarrow> (create_error, workflow \<times> dispatch_input list) res" where
  "workflow_for_execution wt project name ref =
     (case (if trim_space ref \<noteq> [] then wt_versions wt project ref else None) of
        Some w \<Rightarrow> Inr w
      | None \<Rightarrow> (case wt_names wt project name of Some w \<Rightarrow> Inr w | None \<Rightarrow> Inl (UnknownWorkflow name)))"

definition display_number :: "int \<Rightarrow> int \<Rightarrow> string" where
  "display_number n c = itoa n @ ''.'' @ itoa c"

definition new_run_doc ::
  "doc_details \<Rightarrow> canonical_scripts \<Rightarrow> workflow \<Rightarrow> create_request \<Rightarrow> string \<Rightarrow> string \<Rightarrow> int \<Rightarrow> run_doc" where
  "new_run_doc dd scr wkf q i now n =
     \<lparr>rn_id = i, rn_project = cq_project q, rn_workflow = cq_workflow q, rn_schema_ref = cq_schema_ref q,
      rn_issue = cq_issue q, rn_run_cycle = Some 1, rn_display = Some (display_number n 1), rn_pr = None,
      rn_state = ''queued'', rn_queue = ''queued'', rn_admission_error = [],
      rn_slot_lease = optional_string (cq_slot_lease q),
      rn_attempts = carry_attempts dd (wf_phases (canonical_workflow scr wkf)) now [] (cq_supplied q),
      rn_execs = execution_docs dd scr wkf now (optional_string (cq_entrypoint q)) (supplied_phases (cq_supplied q)),
      rn_cost = Fin 0, rn_budget = Some (cq_budget q), rn_validation = optional_text (cq_validation q),
      rn_screenshots = [], rn_abort = None, rn_entrypoint = optional_string (cq_entrypoint q),
      rn_inputs = map_of (cq_inputs q), rn_preserve = cq_preserve q, rn_prior = None, rn_updated = now\<rparr>"

definition create_run ::
  "doc_details \<Rightarrow> canonical_scripts \<Rightarrow> workflow_tables \<Rightarrow> create_request \<Rightarrow> string \<Rightarrow> string \<Rightarrow> ledger_run list \<Rightarrow>
     (create_error, ledger_run \<times> ledger_run list) res" where
  "create_run dd scr wt q i now store =
     (let docs = issue_runs (cq_project q) (cq_issue q) store; n = next_run_number docs in
      res_bind (workflow_for_execution wt (cq_project q) (cq_workflow q) (cq_schema_ref q)) (\<lambda>(wkf, declared).
        case validate_run_inputs declared (cq_inputs q) of
          Some e \<Rightarrow> Inl (BadRunInputs e)
        | None \<Rightarrow>
            (let r = \<lparr>lr_doc = new_run_doc dd scr wkf q i now n, lr_number = Some n,
                      lr_cycle = Some (next_cycle_number docs), lr_is_cycle = True, lr_holder = cq_holder q,
                      lr_created = now\<rparr> in
             Inr (r, store @ [r]))))"

section \<open>The next cycle of a run\<close>

definition second_number :: "string \<Rightarrow> int option" where
  "second_number s = (case split_on (CHR ''.'') s of [_, c] \<Rightarrow> positive (atoi c) | _ \<Rightarrow> None)"

definition recycle_number :: "ledger_run list \<Rightarrow> ledger_run \<Rightarrow> int" where
  "recycle_number docs parent =
     (let n = (case positive (lr_number parent) of Some k \<Rightarrow> k | None \<Rightarrow> ledger_number parent) in
      if n \<le> 0 then next_cycle_number docs else n)"

definition recycle_ordinal :: "ledger_run \<Rightarrow> int" where
  "recycle_ordinal parent =
     (case positive (rn_run_cycle (lr_doc parent)) of
        Some c \<Rightarrow> c + 1
      | None \<Rightarrow>
          (case (if lr_is_cycle parent then positive (lr_cycle parent) else None) of
             Some c \<Rightarrow> c + 1
           | None \<Rightarrow>
               (case rn_display (lr_doc parent) of
                  None \<Rightarrow> 1
                | Some s \<Rightarrow> (case second_number s of Some c \<Rightarrow> c + 1 | None \<Rightarrow> 1))))"

definition mark_recycled :: "string \<Rightarrow> string \<Rightarrow> ledger_run list \<Rightarrow> ledger_run list" where
  "mark_recycled i now store =
     map (\<lambda>r. if rn_id (lr_doc r) = i
              then r\<lparr>lr_doc := (lr_doc r)\<lparr>rn_state := ''recycled'', rn_queue := [], rn_updated := now\<rparr>\<rparr> else r) store"

definition recycled_doc ::
  "doc_details \<Rightarrow> canonical_scripts \<Rightarrow> workflow \<Rightarrow> string \<Rightarrow> string \<Rightarrow> attempt_data list \<Rightarrow> prior_verification option \<Rightarrow>
     string \<Rightarrow> string \<Rightarrow> int \<Rightarrow> int \<Rightarrow> run_doc \<Rightarrow> run_doc" where
  "recycled_doc dd scr wkf ref target carry prior i now n c parent =
     \<lparr>rn_id = i, rn_project = rn_project parent, rn_workflow = rn_workflow parent, rn_schema_ref = ref,
      rn_issue = rn_issue parent, rn_run_cycle = Some c, rn_display = Some (display_number n c),
      rn_pr = rn_pr parent, rn_state = ''queued'', rn_queue = ''queued'', rn_admission_error = [],
      rn_slot_lease = rn_slot_lease parent,
      rn_attempts = carry_attempts dd (wf_phases (canonical_workflow scr wkf)) now [] carry,
      rn_execs = execution_docs dd scr wkf now (optional_string target) [],
      rn_cost = rn_cost parent, rn_budget = rn_budget parent, rn_validation = [], rn_screenshots = [],
      rn_abort = None, rn_entrypoint = optional_string target, rn_inputs = rn_inputs parent,
      rn_preserve = rn_preserve parent, rn_prior = prior, rn_updated = now\<rparr>"

text \<open>
  The parent is marked recycled in a transaction of its own, before the workflow is looked up:
  when the lookup fails the parent stays recycled.
\<close>

definition create_recycle_cycle ::
  "doc_details \<Rightarrow> canonical_scripts \<Rightarrow> workflow_tables \<Rightarrow> string \<Rightarrow> string \<Rightarrow> string \<Rightarrow> attempt_data list \<Rightarrow>
     prior_verification option \<Rightarrow> string \<Rightarrow> string \<Rightarrow> ledger_run list \<Rightarrow>
     (create_error, ledger_run) res \<times> ledger_run list" where
  "create_recycle_cycle dd scr wt parent_id ref target carry prior i now store =
     (case find (\<lambda>r. rn_id (lr_doc r) = parent_id) store of
        None \<Rightarrow> (Inl NoSuchRun, store)
      | Some parent \<Rightarrow>
          (let pd = lr_doc parent in
           if rn_slot_lease pd = None \<or> rn_slot_lease pd = Some [] then (Inl NoSlotLease, store)
           else
             (let docs = issue_runs (rn_project pd) (rn_issue pd) store;
                  n = recycle_number docs parent; c = recycle_ordinal parent;
                  marked = mark_recycled parent_id now store;
                  schema = first_non_empty ref (rn_schema_ref pd) in
              case workflow_for_execution wt (rn_project pd) (rn_workflow pd) schema of
                Inl e \<Rightarrow> (Inl e, marked)
              | Inr (wkf, _) \<Rightarrow>
                  (let r = \<lparr>lr_doc = recycled_doc dd scr wkf schema target carry prior i now n c pd,
                            lr_number = Some n, lr_cycle = Some (next_cycle_number docs),
                            lr_is_cycle = True, lr_holder = lr_holder parent, lr_created = now\<rparr> in
                   (Inr r, marked @ [r])))))"

section \<open>Finding runs\<close>

definition matches_address :: "run_cycle \<Rightarrow> ledger_run \<Rightarrow> bool" where
  "matches_address a r =
     ((lr_number r = Some (rc_run a) \<and> rn_run_cycle (lr_doc r) = Some (rc_cycle a)) \<or>
      (case rn_display (lr_doc r) of None \<Rightarrow> False | Some s \<Rightarrow> trim_space s = run_cycle_string a))"

definition read_run_by_number :: "string \<Rightarrow> int \<Rightarrow> string \<Rightarrow> ledger_run list \<Rightarrow> string option" where
  "read_run_by_number project issue text store =
     (case parse_run_cycle text of
        Inl _ \<Rightarrow> None
      | Inr a \<Rightarrow> map_option (\<lambda>r. rn_id (lr_doc r)) (find (matches_address a) (issue_runs project issue store)))"

definition waiting :: "ledger_run \<Rightarrow> bool" where
  "waiting r = (rn_state (lr_doc r) = ''queued'' \<and> rn_queue (lr_doc r) = ''queued'')"

text \<open>\<open>ListQueuedRunCycles\<close>: ordered by the text of the creation time.\<close>

definition list_queued_runs :: "string \<Rightarrow> int \<Rightarrow> ledger_run list \<Rightarrow> ledger_run list" where
  "list_queued_runs project limit store =
     (let docs = sort_key lr_created
                   (filter (\<lambda>r. rn_project (lr_doc r) = project \<and> waiting r) store) in
      if 0 < limit \<and> int (length docs) > limit then take (nat limit) docs else docs)"

end
