(* ===== verification/TerminalCauses.thy ===== *)
theory TerminalCauses
  imports RunStore
begin

text \<open>
  Why a run has ended: the typed observation that is derived from the run when it is aborted, and
  the text of the abort that comes of it (\<open>terminalObservationForRun\<close> and its helpers in
  \<open>internal/store/store/postgres.go\<close>, \<open>internal/server/terminal_observation.go\<close> and
  \<open>terminal_observation_metric.go\<close>). Texts are valid UTF-8. An attempt without a conclusion or
  a decision has the empty text there.
\<close>

section \<open>Texts\<close>

text \<open>\<open>%q\<close>: control characters are escaped; characters beyond ASCII are taken to be printable.\<close>

fun quote_body :: "string \<Rightarrow> string" where
  "quote_body [] = []"
| "quote_body (c # cs) =
     (let n = byte_of c in
      (if c = CHR 0x22 \<or> c = CHR 0x5C then [CHR 0x5C, c]
       else if n = 7 then [CHR 0x5C, CHR ''a'']
       else if n = 8 then [CHR 0x5C, CHR ''b'']
       else if n = 9 then [CHR 0x5C, CHR ''t'']
       else if n = 10 then [CHR 0x5C, CHR ''n'']
       else if n = 11 then [CHR 0x5C, CHR ''v'']
       else if n = 12 then [CHR 0x5C, CHR ''f'']
       else if n = 13 then [CHR 0x5C, CHR ''r'']
       else if n < 32 \<or> n = 127
       then CHR 0x5C # CHR ''x'' # drop 2 (hex4 n)
       else [c]) @ quote_body cs)"

definition go_quote :: "string \<Rightarrow> string" where
  "go_quote s = [CHR 0x22] @ quote_body s @ [CHR 0x22]"

text \<open>The first \<open>n\<close> code points, and how many there are.\<close>

definition continuation :: "char \<Rightarrow> bool" where
  "continuation c = between 128 191 c"

fun take_runes :: "nat \<Rightarrow> string \<Rightarrow> string" where
  "take_runes n [] = []"
| "take_runes n (c # cs) =
     (if continuation c then c # take_runes n cs
      else (case n of 0 \<Rightarrow> [] | Suc m \<Rightarrow> c # take_runes m cs))"

definition rune_count :: "string \<Rightarrow> nat" where
  "rune_count s = length (filter (\<lambda>c. \<not> continuation c) s)"

definition excerpt_line :: "string \<Rightarrow> string" where
  "excerpt_line line =
     (let l = trim_space (dropWhile (\<lambda>c. c \<in> set ''#> '') line) in
      if 200 < rune_count l then take_runes 200 l @ [CHR 0xE2, CHR 0x80, CHR 0xA6] else l)"

definition summary_excerpt :: "string option \<Rightarrow> string" where
  "summary_excerpt summary =
     (case summary of
        None \<Rightarrow> []
      | Some s \<Rightarrow>
          (case find (\<lambda>l. l \<noteq> []) (map excerpt_line (split_on (CHR 0x0A) s)) of None \<Rightarrow> [] | Some l \<Rightarrow> l))"

section \<open>The observation\<close>

record terminal_observation =
  to_class :: string
  to_phase :: string
  to_job :: string
  to_step :: string
  to_conclusion :: string
  to_reason :: string
  to_exit :: "int option"
  to_source :: string
  to_message :: string

definition terminal_classes :: "string list" where
  "terminal_classes =
     [''producer_phase_failed'', ''verifier_contract_missing'', ''verifier_failed'', ''gate_failed'', ''dispatch_failed'',
      ''phase_requested_abort'', ''manual_abort'', ''malformed_terminal'']"

definition failure_detail_line :: "run_failure option \<Rightarrow> string" where
  "failure_detail_line fo =
     (case fo of
        None \<Rightarrow> []
      | Some f \<Rightarrow>
          (let expected = trim_space (fl_expected f); observed = trim_space (fl_observed f); place = trim_space (fl_where f);
               cause = trim_space (fl_suspected_cause f); detail = trim_space (fl_cause_detail f) in
           join_with ''; ''
             ((if expected = [] then [] else [''expected: '' @ expected]) @
              (if observed = [] then []
               else [''observed: '' @ observed @ (if place = [] then [] else '' ['' @ place @ '']'')]) @
              (if cause = [] then []
               else [''suspected cause: '' @ cause @
                     (if detail = [] then [] else '' '' @ [CHR 0xE2, CHR 0x80, CHR 0x94] @ '' '' @ detail)]))))"

definition step_error_line :: "step_fault \<Rightarrow> string" where
  "step_error_line b =
     join_with ''; '' ([''layer: '' @ sx_layer b] @ (if trim_space (sx_code b) = [] then [] else [''code: '' @ trim_space (sx_code b)]))"

definition append_detail :: "string \<Rightarrow> string \<Rightarrow> string" where
  "append_detail message detail =
     (let d = trim_space detail in
      if d = [] \<or> str_contains message d then message
      else if trim_space message = [] then d
      else message @ '' ('' @ d @ '')'')"

definition job_failure_message :: "terminal_observation \<Rightarrow> string \<Rightarrow> string" where
  "job_failure_message obs label =
     (let head = label @ '' '' @ to_phase obs @ '' failed at job '' @ to_job obs in
      if to_step obs \<noteq> []
      then (case to_exit obs of
              Some n \<Rightarrow> head @ '' step '' @ to_step obs @ '' with exit code '' @ itoa n
            | None \<Rightarrow> head @ '' step '' @ to_step obs)
      else head @ '': '' @ to_reason obs)"

definition dispatch_failure_message :: "terminal_observation \<Rightarrow> string" where
  "dispatch_failure_message obs =
     (if to_job obs \<noteq> []
      then ''phase '' @ to_phase obs @ '' failed to dispatch job '' @ to_job obs @ '': '' @ to_reason obs
      else ''phase '' @ to_phase obs @ '' failed to dispatch: '' @ to_reason obs)"

definition observation_message :: "terminal_observation \<Rightarrow> string" where
  "observation_message obs =
     (let c = to_class obs in
      if c = ''producer_phase_failed'' then job_failure_message obs ''producer phase''
      else if c = ''verifier_failed'' then job_failure_message obs ''verification phase''
      else if c = ''gate_failed'' then job_failure_message obs ''evidence gate''
      else if c = ''dispatch_failed'' then dispatch_failure_message obs
      else if c = ''verifier_contract_missing''
      then ''verification phase '' @ to_phase obs @ '' did not produce a well-formed verification result''
      else if to_phase obs \<noteq> [] \<and> to_conclusion obs \<noteq> []
      then ''phase '' @ to_phase obs @ '' ended with conclusion '' @ to_conclusion obs @ '': '' @ to_reason obs
      else trim_space (to_reason obs))"

section \<open>What to blame\<close>

definition workflow_phase_by_name :: "workflow option \<Rightarrow> string \<Rightarrow> phase_spec option" where
  "workflow_phase_by_name wkfo name =
     (case wkfo of None \<Rightarrow> None | Some wkf \<Rightarrow> phase_spec_by_name (wf_phases wkf) name)"

definition attempt_is_teardown :: "workflow option \<Rightarrow> string \<Rightarrow> bool" where
  "attempt_is_teardown wkfo name =
     (case workflow_phase_by_name wkfo name of None \<Rightarrow> False | Some p \<Rightarrow> ps_purpose p = ''teardown'')"

definition is_terminal_abort_decision :: "string \<Rightarrow> bool" where
  "is_terminal_abort_decision v =
     (v \<in> set (map decision_str [AbortBudgetAttempts, AbortBudgetCost, AbortMalformed, AbortRequested]))"

definition terminal_cause_attempt :: "run_doc \<Rightarrow> workflow option \<Rightarrow> attempt_doc option" where
  "terminal_cause_attempt d wkfo =
     (let as = filter (\<lambda>a. \<not> attempt_is_teardown wkfo (ad_phase a)) (rev (rn_attempts d)) in
      case find (\<lambda>a. is_terminal_abort_decision (ad_decision a)) as of
        Some a \<Rightarrow> Some a
      | None \<Rightarrow> find (\<lambda>a. ad_conclusion a \<noteq> [] \<and> \<not> is_advance_conclusion (ad_conclusion a)) as)"

definition first_failed_completion :: "completions \<Rightarrow> job_completion option" where
  "first_failed_completion cs =
     find completion_failed (List.map_filter (map_of cs) (sorted_ids cs))"

definition direct_failure :: "step_exec \<Rightarrow> bool" where
  "direct_failure s =
     (se_state s \<in> set [''failed'', ''aborted''] \<and>
      (case se_exit s of Some n \<Rightarrow> n \<noteq> 0 | None \<Rightarrow> trim_space (se_reason s) \<in> set [''exit_nonzero'', ''aborted'']))"

definition failed_execution :: "phase_exec list \<Rightarrow> string \<Rightarrow> string \<Rightarrow> job_exec option \<times> step_exec option" where
  "failed_execution ps phase job =
     (case find (\<lambda>j. je_id j = job) (concat (map pe_jobs (filter (\<lambda>p. pe_name p = phase) ps))) of
        None \<Rightarrow> (None, None)
      | Some j \<Rightarrow>
          (Some j, (case find direct_failure (je_steps j) of
                      Some s \<Rightarrow> Some s
                    | None \<Rightarrow> find (\<lambda>s. se_exit s \<noteq> None \<and> se_exit s \<noteq> Some 0) (je_steps j))))"

definition execution_reason :: "job_exec option \<Rightarrow> step_exec option \<Rightarrow> string" where
  "execution_reason jo so =
     first_non_empty (case so of None \<Rightarrow> [] | Some s \<Rightarrow> trim_space (se_reason s))
                     (case jo of None \<Rightarrow> [] | Some j \<Rightarrow> trim_space (je_reason j))"

text \<open>A dispatch failure that the projection already shows.\<close>

definition dispatch_failure_job :: "phase_exec \<Rightarrow> string \<Rightarrow> job_exec option" where
  "dispatch_failure_job p reason =
     (case find (\<lambda>j. je_state j = ''failed'' \<and> canonical_failure_reason (trim_space (je_reason j)) = reason) (pe_jobs p) of
        Some j \<Rightarrow> Some j
      | None \<Rightarrow> find (\<lambda>j. je_id j \<noteq> []) (pe_jobs p))"

definition dispatch_failure_observation :: "run_doc \<Rightarrow> string \<Rightarrow> string \<Rightarrow> terminal_observation option" where
  "dispatch_failure_observation d abort_reason src =
     (let reason = canonical_failure_reason abort_reason in
      if \<not> is_dispatch_failure reason then None
      else
        (case find (\<lambda>p. pe_state p = ''failed'' \<and> canonical_failure_reason (trim_space (pe_reason p)) = reason) (rn_execs d) of
           None \<Rightarrow> None
         | Some p \<Rightarrow>
             Some \<lparr>to_class = ''dispatch_failed'', to_phase = pe_name p,
                   to_job = (case dispatch_failure_job p reason of None \<Rightarrow> [] | Some j \<Rightarrow> je_id j), to_step = ''dispatch'',
                   to_conclusion = [], to_reason = reason, to_exit = None,
                   to_source = first_non_empty src ''decision_engine'', to_message = []\<rparr>))"

text \<open>The cause a failed job gives itself: a compact reason and a line of detail.\<close>

definition first_reason_token :: "string list \<Rightarrow> string \<Rightarrow> string" where
  "first_reason_token reasons pre =
     (case find (\<lambda>r. r \<noteq> []) (map (\<lambda>raw. if pre = [] then trim_space raw else trim_space (trim_prefix pre (trim_space raw))) reasons) of
        None \<Rightarrow> [] | Some r \<Rightarrow> r)"

definition verdict_cause :: "attempt_doc \<Rightarrow> job_completion \<Rightarrow> string \<times> run_failure option" where
  "verdict_cause a c =
     (let own = (case jc_verification c of None \<Rightarrow> ([], None) | Some v \<Rightarrow> (first_reason_token (vd_reasons v) [], vd_failure v)) in
      case ad_verification a of
        None \<Rightarrow> own
      | Some v \<Rightarrow>
          (first_non_empty (fst own) (first_reason_token (vd_reasons v) (jc_job c @ '': '')),
           (case snd own of None \<Rightarrow> vd_failure v | Some f \<Rightarrow> Some f)))"

definition job_failure_cause :: "attempt_doc \<Rightarrow> job_completion \<Rightarrow> string \<times> string" where
  "job_failure_cause a c =
     (let (reason0, failure) = verdict_cause a c;
          detail = failure_detail_line failure;
          reason = first_non_empty reason0 (case failure of None \<Rightarrow> [] | Some f \<Rightarrow> trim_space (fl_suspected_cause f)) in
      if reason \<noteq> [] then (reason, detail)
      else
        (case jc_error c of
           Some e \<Rightarrow>
             if step_error_valid (jc_error c)
             then (let b = normalize_step_error e in
                   (sx_message b, if detail = [] then step_error_line b else detail))
             else (let r = first_non_empty (summary_excerpt (jc_summary c)) (summary_excerpt (ad_summary a)) in
                   (r, if detail = [] then r else detail))
         | None \<Rightarrow>
             (let r = first_non_empty (summary_excerpt (jc_summary c)) (summary_excerpt (ad_summary a)) in
              (r, if detail = [] then r else detail))))"

definition failed_job_observation ::
  "run_doc \<Rightarrow> phase_spec option \<Rightarrow> attempt_doc \<Rightarrow> job_completion \<Rightarrow> string \<Rightarrow> terminal_observation" where
  "failed_job_observation d po a c src =
     (let (jo, so) = failed_execution (rn_execs d) (ad_phase a) (jc_job c);
          (cause, detail) = job_failure_cause a c;
          cls = (case po of None \<Rightarrow> ''producer_phase_failed''
                 | Some p \<Rightarrow> if ps_gate p then ''gate_failed'' else if ps_verify p then ''verifier_failed'' else ''producer_phase_failed'');
          obs = \<lparr>to_class = cls, to_phase = ad_phase a, to_job = jc_job c,
                 to_step = (case so of None \<Rightarrow> [] | Some s \<Rightarrow> se_slug s), to_conclusion = jc_conclusion c,
                 to_reason = first_non_empty cause (first_non_empty (jc_reason c)
                               (first_non_empty (execution_reason jo so) ''job_failed'')),
                 to_exit = (case so of None \<Rightarrow> None | Some s \<Rightarrow> se_exit s),
                 to_source = first_non_empty src ''completion_callback'', to_message = []\<rparr> in
      obs\<lparr>to_message := append_detail (observation_message obs) detail\<rparr>)"

definition malformed_missing :: "attempt_doc \<Rightarrow> string" where
  "malformed_missing a =
     (let parts =
        (if ad_completions a = [] then [''no job completions were recorded'']
         else if first_failed_completion (ad_completions a) = None then [''no job completion reported a non-success conclusion'']
         else []) @
        (if trim_space (output_of (ad_outputs a) ''abort_reason'') = [] then [''no phase abort_reason output''] else []) @
        (if ad_verification a = None then [''no verification verdict''] else []) in
      if parts = [] then ''attribution could not be resolved from any typed signal'' else join_with '', '' parts)"

definition malformed_observation :: "attempt_doc \<Rightarrow> string \<Rightarrow> string \<Rightarrow> terminal_observation" where
  "malformed_observation a abort_reason src =
     (let reason = trim_space abort_reason in
      \<lparr>to_class = ''malformed_terminal'', to_phase = ad_phase a, to_job = [], to_step = [], to_conclusion = ad_conclusion a,
       to_reason = first_non_empty reason ''malformed_terminal'', to_exit = None,
       to_source = first_non_empty src ''decision_engine'',
       to_message = ''MALFORMED TERMINAL: run aborted on phase '' @ go_quote (ad_phase a) @ '' (conclusion '' @
         go_quote (ad_conclusion a) @ '') without a resolvable typed cause '' @ [CHR 0xE2, CHR 0x80, CHR 0x94] @ '' '' @
         malformed_missing a @ (if reason = [] then [] else ''; abort_reason was: '' @ reason)\<rparr>)"

definition manual_observation :: "string \<Rightarrow> string \<Rightarrow> terminal_observation" where
  "manual_observation abort_reason src =
     (let reason = first_non_empty (trim_space abort_reason) ''aborted'' in
      \<lparr>to_class = ''manual_abort'', to_phase = [], to_job = [], to_step = [], to_conclusion = [], to_reason = reason,
       to_exit = None, to_source = first_non_empty src ''decision_engine'', to_message = ''run aborted: '' @ reason\<rparr>)"

text \<open>The observation about the attempt that is to blame.\<close>

definition blamed_observation ::
  "run_doc \<Rightarrow> workflow option \<Rightarrow> attempt_doc \<Rightarrow> string \<Rightarrow> string \<Rightarrow> terminal_observation" where
  "blamed_observation d wkfo a abort_reason src =
     (let po = workflow_phase_by_name wkfo (ad_phase a); asked = trim_space (output_of (ad_outputs a) ''abort_reason'') in
      if asked \<noteq> []
      then \<lparr>to_class = ''phase_requested_abort'', to_phase = ad_phase a, to_job = [], to_step = [],
            to_conclusion = ad_conclusion a, to_reason = asked, to_exit = None, to_source = first_non_empty src ''decision_engine'',
            to_message = append_detail (''phase '' @ ad_phase a @ '' requested a fail-closed abort: '' @ asked)
              (failure_detail_line (case ad_verification a of None \<Rightarrow> None | Some v \<Rightarrow> vd_failure v))\<rparr>
      else
        (case first_failed_completion (ad_completions a) of
           Some c \<Rightarrow> failed_job_observation d po a c src
         | None \<Rightarrow>
             (case dispatch_failure_observation d abort_reason src of
                Some obs \<Rightarrow> obs\<lparr>to_message := observation_message obs\<rparr>
              | None \<Rightarrow>
                  if (case po of None \<Rightarrow> False | Some p \<Rightarrow> ps_verify p) \<and> ad_verification a = None
                  then (let obs = \<lparr>to_class = ''verifier_contract_missing'', to_phase = ad_phase a, to_job = [], to_step = [],
                          to_conclusion = ad_conclusion a, to_reason = ''verification_contract_missing'', to_exit = None,
                          to_source = first_non_empty src ''decision_engine'', to_message = []\<rparr> in
                        obs\<lparr>to_message := observation_message obs\<rparr>)
                  else malformed_observation a abort_reason src)))"

definition terminal_observation_for_run ::
  "run_doc \<Rightarrow> workflow option \<Rightarrow> string \<Rightarrow> string option \<Rightarrow> string \<Rightarrow> terminal_observation option" where
  "terminal_observation_for_run d wkfo end_state abort_reason src =
     (let reason = (case abort_reason of None \<Rightarrow> [] | Some r \<Rightarrow> r) in
      if end_state \<noteq> ''aborted'' then None
      else (case terminal_cause_attempt d wkfo of
              None \<Rightarrow> Some (manual_observation reason src)
            | Some a \<Rightarrow> Some (blamed_observation d wkfo a reason src)))"

section \<open>The guard\<close>

definition terminal_failure_state :: "string \<Rightarrow> bool" where
  "terminal_failure_state st = (trim_space st \<in> set [''aborted'', ''failed''])"

definition attribution_gaps :: "terminal_observation option \<Rightarrow> string list" where
  "attribution_gaps obs =
     (case obs of
        None \<Rightarrow> [''no terminal observation was produced'']
      | Some o1 \<Rightarrow>
          (if trim_space (to_class o1) = [] then [''terminal class is empty'']
           else if trim_space (to_class o1) = ''unknown'' then [''terminal class is '' @ go_quote ''unknown''] else []) @
          (if trim_space (to_message o1) = [] then [''terminal message is empty''] else []))"

definition loud_message :: "string list \<Rightarrow> string \<Rightarrow> string option \<Rightarrow> string" where
  "loud_message gaps st abort_reason =
     ''MALFORMED TERMINAL: run reached terminal '' @ go_quote (trim_space st) @ '' without a well-formed terminal observation ('' @
     join_with '', '' gaps @ ''); attribution could not be resolved'' @
     (case abort_reason of
        None \<Rightarrow> [] | Some r \<Rightarrow> if trim_space r = [] then [] else ''; abort_reason was: '' @ trim_space r)"

definition guard_observation ::
  "terminal_observation option \<Rightarrow> string \<Rightarrow> string \<Rightarrow> string option \<Rightarrow> terminal_observation option" where
  "guard_observation obs st src abort_reason =
     (if \<not> terminal_failure_state st \<or> attribution_gaps obs = [] then obs
      else Some \<lparr>to_class = ''malformed_terminal'', to_phase = (case obs of None \<Rightarrow> [] | Some o1 \<Rightarrow> to_phase o1),
                 to_job = (case obs of None \<Rightarrow> [] | Some o1 \<Rightarrow> to_job o1), to_step = (case obs of None \<Rightarrow> [] | Some o1 \<Rightarrow> to_step o1),
                 to_conclusion = (case obs of None \<Rightarrow> [] | Some o1 \<Rightarrow> to_conclusion o1), to_reason = ''malformed_terminal'',
                 to_exit = None, to_source = first_non_empty src ''decision_engine'',
                 to_message = loud_message (attribution_gaps obs) st abort_reason\<rparr>)"

definition observed ::
  "run_doc \<Rightarrow> workflow option \<Rightarrow> string \<Rightarrow> string option \<Rightarrow> string \<Rightarrow> terminal_observation option" where
  "observed d wkfo st abort_reason src =
     guard_observation (terminal_observation_for_run d wkfo st abort_reason src) st src abort_reason"

definition metric_class :: "terminal_observation option \<Rightarrow> string" where
  "metric_class obs =
     (case obs of None \<Rightarrow> ''none'' | Some o1 \<Rightarrow> if trim_space (to_class o1) = [] then ''unknown'' else trim_space (to_class o1))"

definition class_unattributed :: "string \<Rightarrow> bool" where
  "class_unattributed c = (trim_space c \<in> set [''malformed_terminal'', ''unknown''])"

text \<open>What \<open>recordTerminalSettle\<close> counts and whether it raises the alarm, for a run that was not at its end before.\<close>

definition terminal_settle :: "run_doc \<Rightarrow> string \<Rightarrow> terminal_observation option \<Rightarrow> ((string \<times> string) \<times> bool) option" where
  "terminal_settle d st obs =
     (if is_terminal_run_state (rn_state d) then None
      else Some ((metric_class obs, st), class_unattributed (metric_class obs)))"

section \<open>The text of an abort\<close>

text \<open>In \<open>AbortRunByID\<close> the message replaces the reason; in \<open>SetRunTerminalState\<close> only a blank one.\<close>

definition abort_text :: "run_doc \<Rightarrow> string \<Rightarrow> string" where
  "abort_text d reason =
     (let given = (if trim_space reason = [] then None else Some reason) in
      case observed d None ''aborted'' given ''admin_abort'' of
        None \<Rightarrow> reason
      | Some o1 \<Rightarrow> if trim_space (to_message o1) = [] then reason else to_message o1)"

definition end_reason :: "run_doc \<Rightarrow> workflow option \<Rightarrow> string \<Rightarrow> string option \<Rightarrow> string option" where
  "end_reason d wkfo st reason =
     (if trim_space (case reason of None \<Rightarrow> [] | Some r \<Rightarrow> r) \<noteq> [] then reason
      else
        (case observed d wkfo st reason ''completion_callback'' of
           None \<Rightarrow> reason
         | Some o1 \<Rightarrow> if trim_space (to_message o1) = [] then reason else Some (to_message o1)))"

section \<open>The repair\<close>

text \<open>\<open>RepairRunTerminalObservation\<close>: a run with its observation, and whether anything changed.\<close>

definition repair_observation ::
  "workflow option \<Rightarrow> string \<Rightarrow> run_doc \<times> terminal_observation option \<Rightarrow> bool \<times> run_doc \<times> terminal_observation option" where
  "repair_observation wkfo now dob =
     (let d = fst dob in
      if rn_state d \<noteq> ''aborted'' then (False, dob)
      else
        (case observed d wkfo ''aborted'' (rn_abort d) ''decision_engine'' of
           None \<Rightarrow> (False, dob)
         | Some o1 \<Rightarrow>
             (let text = (if trim_space (to_message o1) = [] then None else Some (to_message o1)) in
              if snd dob = Some o1 \<and> (case rn_abort d of None \<Rightarrow> [] | Some r \<Rightarrow> r) = (case text of None \<Rightarrow> [] | Some r \<Rightarrow> r)
              then (False, dob)
              else (True, d\<lparr>rn_abort := (case text of None \<Rightarrow> rn_abort d | Some r \<Rightarrow> Some r), rn_updated := now\<rparr>, Some o1))))"

end
