(* ===== verification/Locks.thy ===== *)
theory Locks
  imports GoText "HOL-Library.AList"
begin

text \<open>
  The locks that serialise work on an issue or a pull request
  (\<open>internal/store/pg/locks.go\<close>): the rows of the table, the statements on it, and what the
  dispatch relies on, a contract of mutual exclusion until a lock expires. The expiry is written
  with the clock of the server and compared with the clock of the database; both are arguments,
  and times are whole numbers.
\<close>

section \<open>What a lock service promises\<close>

datatype ('k, 'h) lock_op =
    Claim 'k 'h int int int
  | Release 'k 'h

locale lock_service =
  fixes claim :: "'k \<Rightarrow> 'h \<Rightarrow> int \<Rightarrow> int \<Rightarrow> int \<Rightarrow> 't \<Rightarrow> 't option"
    and release :: "'k \<Rightarrow> 'h \<Rightarrow> 't \<Rightarrow> 't"
    and owner :: "'t \<Rightarrow> 'k \<Rightarrow> 'h option"
    and expiry :: "'t \<Rightarrow> 'k \<Rightarrow> int option"
  assumes claim_owner:
      "claim k h app db ttl t = Some t' \<Longrightarrow> owner t' k = Some h \<and> expiry t' k = Some (app + ttl)"
    and claim_free:
      "claim k h app db ttl t = Some t' \<Longrightarrow> owner t k = None \<or> (\<exists>e. expiry t k = Some e \<and> e < db)"
    and claim_frame:
      "claim k h app db ttl t = Some t' \<Longrightarrow> k' \<noteq> k \<Longrightarrow> owner t' k' = owner t k' \<and> expiry t' k' = expiry t k'"
    and release_owner:
      "owner (release k h t) k = (if owner t k = Some h then None else owner t k)"
    and release_frame:
      "k' \<noteq> k \<Longrightarrow> owner (release k h t) k' = owner t k'"
    and release_expiry:
      "expiry (release k h t) k' = expiry t k'"
begin

fun perform :: "('k, 'h) lock_op \<Rightarrow> 't \<Rightarrow> 't" where
  "perform (Claim k h app db ttl) t = (case claim k h app db ttl t of Some t' \<Rightarrow> t' | None \<Rightarrow> t)"
| "perform (Release k h) t = release k h t"

definition quiet :: "'k \<Rightarrow> 'h \<Rightarrow> int \<Rightarrow> ('k, 'h) lock_op \<Rightarrow> bool" where
  "quiet k h e op =
     (case op of Claim k' _ _ db _ \<Rightarrow> k' = k \<longrightarrow> db \<le> e | Release k' h' \<Rightarrow> \<not> (k' = k \<and> h' = h))"

lemma quiet_step:
  assumes "owner t k = Some h" "expiry t k = Some e" "quiet k h e op"
  shows "owner (perform op t) k = Some h \<and> expiry (perform op t) k = Some e"
proof (cases op)
  case (Claim k' h' app db ttl)
  show ?thesis
  proof (cases "claim k' h' app db ttl t")
    case None
    with assms show ?thesis by (simp add: Claim)
  next
    case (Some t')
    have "k' \<noteq> k"
      using claim_free [OF Some] assms by (auto simp: Claim quiet_def)
    with claim_frame [OF Some, of k] assms show ?thesis by (simp add: Claim Some)
  qed
next
  case (Release k' h')
  with assms show ?thesis
    by (cases "k' = k") (simp_all add: quiet_def release_owner release_frame release_expiry)
qed

lemma holds_while_quiet:
  "owner t k = Some h \<Longrightarrow> expiry t k = Some e \<Longrightarrow> list_all (quiet k h e) ops \<Longrightarrow>
     owner (fold perform ops t) k = Some h \<and> expiry (fold perform ops t) k = Some e"
  by (induction ops arbitrary: t) (simp_all add: quiet_step)

lemma excludes:
  assumes "claim k h app db ttl t = Some t'" and "list_all (quiet k h (app + ttl)) ops" and "db' \<le> app + ttl"
  shows "claim k g app' db' ttl' (fold perform ops t') = None"
proof (rule ccontr)
  assume "claim k g app' db' ttl' (fold perform ops t') \<noteq> None"
  then obtain t'' where "claim k g app' db' ttl' (fold perform ops t') = Some t''" by auto
  from claim_free [OF this] holds_while_quiet [OF _ _ assms(2)] claim_owner [OF assms(1)] assms(3)
  show False by auto
qed

lemma stale_release_harmless:
  "owner t k \<noteq> Some h \<Longrightarrow> owner (release k h t) k' = owner t k' \<and> expiry (release k h t) k' = expiry t k'"
  by (cases "k' = k") (simp_all add: release_owner release_frame release_expiry)

end

section \<open>The table\<close>

record lock_row =
  lk_holder :: string
  lk_held :: bool
  lk_expires :: "int option"

type_synonym lock_key = "string \<times> string"
type_synonym lock_table = "(lock_key \<times> lock_row) list"

datatype claim_error =
    AlreadyRunning string int
  | InspectFailed

text \<open>A comparison with a missing expiry is not true.\<close>

definition row_expired :: "int \<Rightarrow> lock_row \<Rightarrow> bool" where
  "row_expired db r = (case lk_expires r of Some e \<Rightarrow> e < db | None \<Rightarrow> False)"

definition claim_lock ::
  "lock_key \<Rightarrow> string \<Rightarrow> int \<Rightarrow> int \<Rightarrow> int \<Rightarrow> lock_table \<Rightarrow> (claim_error, lock_table) res" where
  "claim_lock k holder app db ttl tbl =
     (let row = \<lparr>lk_holder = holder, lk_held = True, lk_expires = Some (app + ttl)\<rparr> in
      case map_of tbl k of
        None \<Rightarrow> Inr (AList.update k row tbl)
      | Some r \<Rightarrow>
          if \<not> lk_held r \<or> row_expired db r then Inr (AList.update k row tbl)
          else (case lk_expires r of
                  Some e \<Rightarrow> Inl (AlreadyRunning (lk_holder r) e)
                | None \<Rightarrow> Inl InspectFailed))"

definition release_lock :: "lock_key \<Rightarrow> string \<Rightarrow> lock_table \<Rightarrow> bool \<times> lock_table" where
  "release_lock k holder tbl =
     (case map_of tbl k of
        Some r \<Rightarrow> if lk_holder r = holder \<and> lk_held r
                  then (True, AList.update k (r\<lparr>lk_held := False\<rparr>) tbl) else (False, tbl)
      | None \<Rightarrow> (False, tbl))"

definition currently_held :: "int \<Rightarrow> lock_row \<Rightarrow> bool" where
  "currently_held db r = (lk_held r \<and> (case lk_expires r of Some e \<Rightarrow> e > db | None \<Rightarrow> True))"

definition any_lock_held :: "string \<Rightarrow> int \<Rightarrow> lock_table \<Rightarrow> bool" where
  "any_lock_held scope db tbl = list_ex (\<lambda>(k, r). fst k = scope \<and> currently_held db r) tbl"

definition held_by_scope :: "string \<Rightarrow> int \<Rightarrow> lock_table \<Rightarrow> (string \<times> lock_row) list" where
  "held_by_scope scope db tbl =
     map (\<lambda>(k, r). (snd k, r)) (filter (\<lambda>(k, r). fst k = scope \<and> currently_held db r) tbl)"

definition lock_held :: "lock_key \<Rightarrow> int \<Rightarrow> lock_table \<Rightarrow> bool" where
  "lock_held k db tbl = (case map_of tbl k of Some r \<Rightarrow> currently_held db r | None \<Rightarrow> False)"

definition numbered_key :: "string \<Rightarrow> int \<Rightarrow> string" where
  "numbered_key name n = name @ ''#'' @ itoa n"

definition issue_lock :: "string \<Rightarrow> int \<Rightarrow> lock_key" where
  "issue_lock project n = (''issue'', numbered_key project n)"

definition pr_lock :: "string \<Rightarrow> int \<Rightarrow> lock_key" where
  "pr_lock repo n = (''pr'', numbered_key repo n)"

section \<open>The table keeps the promise\<close>

definition table_claim :: "lock_key \<Rightarrow> string \<Rightarrow> int \<Rightarrow> int \<Rightarrow> int \<Rightarrow> lock_table \<Rightarrow> lock_table option" where
  "table_claim k h app db ttl tbl = (case claim_lock k h app db ttl tbl of Inr t \<Rightarrow> Some t | Inl _ \<Rightarrow> None)"

definition table_release :: "lock_key \<Rightarrow> string \<Rightarrow> lock_table \<Rightarrow> lock_table" where
  "table_release k h tbl = snd (release_lock k h tbl)"

definition table_owner :: "lock_table \<Rightarrow> lock_key \<Rightarrow> string option" where
  "table_owner tbl k = (case map_of tbl k of Some r \<Rightarrow> if lk_held r then Some (lk_holder r) else None | None \<Rightarrow> None)"

definition table_expiry :: "lock_table \<Rightarrow> lock_key \<Rightarrow> int option" where
  "table_expiry tbl k = (case map_of tbl k of Some r \<Rightarrow> lk_expires r | None \<Rightarrow> None)"

lemmas table_defs = table_claim_def claim_lock_def table_release_def release_lock_def table_owner_def
  table_expiry_def row_expired_def Let_def update_conv'

interpretation locks: lock_service table_claim table_release table_owner table_expiry
  by unfold_locales
    (auto simp: table_defs split: option.splits if_splits)

lemma itoa_no_hash: "CHR ''#'' \<notin> set (itoa n)"
proof -
  have "c \<noteq> CHR ''#''" if "is_digit c" for c using that by (auto simp: char_class_defs)
  moreover have "list_all is_digit (nat_dec m)" for m by (rule nat_dec_digits)
  ultimately show ?thesis
    by (auto simp: itoa_def list_all_iff)
qed

lemma append_sep_inject:
  "c \<notin> set u \<Longrightarrow> c \<notin> set v \<Longrightarrow> s @ c # u = t @ c # v \<longleftrightarrow> s = t \<and> u = v"
proof (induction s arbitrary: t)
  case Nil
  then show ?case by (cases t) auto
next
  case (Cons x s)
  note ih = Cons.IH [OF Cons.prems]
  show ?case
  proof (cases t)
    case Nil
    have "c \<in> set (s @ c # u)" by simp
    with Cons.prems(2) have "s @ c # u \<noteq> v" by metis
    with Nil show ?thesis by simp
  next
    case (Cons y t')
    with ih show ?thesis by simp
  qed
qed

lemma itoa_inject: "0 \<le> m \<Longrightarrow> 0 \<le> n \<Longrightarrow> itoa m = itoa n \<longleftrightarrow> m = n"
  by (metis dec_val_nat_dec itoa_def linorder_not_less nat_eq_iff2)

text \<open>
  C32: While one holder has the lock of an issue no other dispatch of that issue gets it: after a
  claim has succeeded, and whatever happens to the locks of other issues and pull requests, every
  further claim fails until the holder releases it or the database clock has passed the expiry.
  A release by anyone else changes nothing, and different issues have different locks.
\<close>
theorem issue_lock_excludes:
  assumes "claim_lock (issue_lock project n) h app db ttl tbl = Inr tbl'"
    and "list_all (locks.quiet (issue_lock project n) h (app + ttl)) ops" and "db' \<le> app + ttl"
  shows "(\<exists>e. claim_lock (issue_lock project n) g app' db' ttl' (fold locks.perform ops tbl') = Inl e) \<and>
         (g \<noteq> h \<longrightarrow> snd (release_lock (issue_lock project n) g tbl') = tbl') \<and>
         (0 \<le> n \<longrightarrow> 0 \<le> m \<longrightarrow> issue_lock project n = issue_lock other m \<longrightarrow> project = other \<and> n = m)"
proof -
  have claimed: "table_claim (issue_lock project n) h app db ttl tbl = Some tbl'"
    using assms(1) by (simp add: table_claim_def)
  have "\<exists>e. claim_lock (issue_lock project n) g app' db' ttl' (fold locks.perform ops tbl') = Inl e"
    using locks.excludes [OF claimed assms(2,3), of g app' ttl']
    by (auto simp: table_claim_def split: sum.splits)
  moreover have "snd (release_lock (issue_lock project n) g tbl') = tbl'" if "g \<noteq> h"
    using locks.claim_owner [OF claimed] that
    by (auto simp: release_lock_def table_owner_def split: option.splits if_splits)
  moreover have "project = other \<and> n = m" if "0 \<le> n" "0 \<le> m" "issue_lock project n = issue_lock other m"
    using that append_sep_inject [OF itoa_no_hash itoa_no_hash, of project n other m]
    by (simp add: issue_lock_def numbered_key_def itoa_inject)
  ultimately show ?thesis by blast
qed

theorem issue_lock_witness:
  "\<exists>e. claim_lock (issue_lock ''p'' 1) ''b'' 5 5 10
         (fold locks.perform [Claim (issue_lock ''p'' 2) ''c'' 1 1 9, Release (issue_lock ''p'' 1) ''x'']
            [(issue_lock ''p'' 1, \<lparr>lk_holder = ''a'', lk_held = True, lk_expires = Some 10\<rparr>)]) = Inl e"
proof -
  have "claim_lock (issue_lock ''p'' 1) ''a'' 0 0 10 []
      = Inr [(issue_lock ''p'' 1, \<lparr>lk_holder = ''a'', lk_held = True, lk_expires = Some 10\<rparr>)]"
    by (simp add: claim_lock_def Let_def)
  from issue_lock_excludes [OF this, of "[Claim (issue_lock ''p'' 2) ''c'' 1 1 9, Release (issue_lock ''p'' 1) ''x'']"
      "5" "''b''" "5" "10"]
  show ?thesis by (simp add: locks.quiet_def)
qed

end
