(* ===== verification/Admission.thy ===== *)
theory Admission
  imports RunCreation TerminalCauses LeaseDocs Locks
begin

text \<open>
  From a dispatch request to a started run: the queue of runs that wait for a slot
  (\<open>internal/server/run_queue.go\<close>), the admission of one, and the dispatch of an issue
  (\<open>internal/server/dispatch_api.go\<close>). What these handlers call on leases is a record of
  operations on a state of its own; so are the lookups of workflows, projects and issues and the
  launch of a phase. The clock is an argument, the same for all writes of one admission.
\<close>

section \<open>What the handlers call\<close>

datatype lease_failure =
    NoCapacity
  | LeaseFailed string

record 'w lease_ops =
  lo_acquire :: "workflow \<Rightarrow> run_data \<Rightarrow> phase_spec \<Rightarrow> 'w \<Rightarrow> (lease_failure, lease) res \<times> 'w"
  lo_read :: "string \<Rightarrow> string \<Rightarrow> 'w \<Rightarrow> (string, lease) res"
  lo_persist :: "lease \<Rightarrow> phase_spec \<Rightarrow> run_data \<Rightarrow> 'w \<Rightarrow> (string, lease \<times> 'w) res"
  lo_cancel :: "string \<Rightarrow> string \<Rightarrow> 'w \<Rightarrow> 'w"

record 'w admission_state =
  as_runs :: "ledger_run list"
  as_locks :: lock_table
  as_leases :: 'w

datatype admission_cause =
    SchemaMissing
  | SchemaInvalid reg_error
  | ProjectMissing
  | IssueMissing
  | NoEntryPhase
  | BadEntryKind string
  | LeaseNotClaimed string string
  | EntryConditions dispatch_error
  | SkipsNotRecorded
  | CycleNotStarted
  | EntryNotLaunched string

datatype admission =
    Dispatched "string option"
  | Queued
  | AdmissionFailed admission_cause
  | AdmissionDispatchFailed admission_cause
  | AlreadyAdmitted

datatype admission_error =
    RunMissing
  | LeaseStoreError string
  | StartFailed
  | LookupFailed string
  | ContextDone

record admission_env =
  en_reason :: "admission_cause \<Rightarrow> string"
  en_launch :: "lease \<Rightarrow> phase_spec \<Rightarrow> run_data \<Rightarrow> (string \<times> string) list \<Rightarrow> (string, (string \<times> string) list) res"
  en_wide :: "string \<Rightarrow> bool"
  en_workflow :: "run_data \<Rightarrow> (string, (workflow \<times> workflow_register) option) res"
  en_project :: "string \<Rightarrow> (string, bool) res"
  en_issue :: "string \<Rightarrow> int \<Rightarrow> (string, bool) res"

section \<open>Runs of the table\<close>

definition row_by_id :: "string \<Rightarrow> ledger_run list \<Rightarrow> ledger_run option" where
  "row_by_id i runs = find (\<lambda>r. rn_id (lr_doc r) = i) runs"

definition run_by_id :: "string \<Rightarrow> ledger_run list \<Rightarrow> run_doc option" where
  "run_by_id i runs = map_option lr_doc (row_by_id i runs)"

definition put_run :: "string \<Rightarrow> run_doc \<Rightarrow> ledger_run list \<Rightarrow> ledger_run list" where
  "put_run i d runs = map (\<lambda>r. if rn_id (lr_doc r) = i then r\<lparr>lr_doc := d\<rparr> else r) runs"

definition patch_run ::
  "string \<Rightarrow> (run_doc \<Rightarrow> (run_error, run_doc) res) \<Rightarrow> ledger_run list \<Rightarrow> (run_error option, ledger_run list) res" where
  "patch_run i f runs =
     (case run_by_id i runs of
        None \<Rightarrow> Inl None
      | Some d \<Rightarrow> (case f d of Inl e \<Rightarrow> Inl (Some e) | Inr d' \<Rightarrow> Inr (put_run i d' runs)))"

definition release_slot :: "'w lease_ops \<Rightarrow> run_doc \<Rightarrow> 'w \<Rightarrow> 'w" where
  "release_slot ops d w =
     (let ref = trim_space (case rn_slot_lease d of Some r \<Rightarrow> r | None \<Rightarrow> []) in
      if ref = [] then w else lo_cancel ops (rn_project d) ref w)"

text \<open>
  \<open>AbortRunByID\<close> with the issue lock and the lease it releases; the flag says whether there was
  such a run. (No code sets the holder of a pull request lock.)
\<close>

definition release_issue_lock :: "ledger_run \<Rightarrow> lock_table \<Rightarrow> lock_table" where
  "release_issue_lock r locks =
     (if lr_holder r \<noteq> [] \<and> 0 < rn_issue (lr_doc r)
      then snd (release_lock (issue_lock (rn_project (lr_doc r)) (rn_issue (lr_doc r))) (lr_holder r) locks)
      else locks)"

definition abort_by_reason ::
  "'w lease_ops \<Rightarrow> string \<Rightarrow> string \<Rightarrow> string \<Rightarrow> 'w admission_state \<Rightarrow> bool \<times> 'w admission_state" where
  "abort_by_reason ops reason i now st =
     (case row_by_id i (as_runs st) of
        None \<Rightarrow> (False, st)
      | Some r \<Rightarrow>
          (let d = lr_doc r in
           (True, st\<lparr>as_runs := put_run i (abort_run d (abort_text d reason) now d) (as_runs st),
                     as_locks := (if is_terminal_run_state (rn_state d) then as_locks st
                                  else release_issue_lock r (as_locks st)),
                     as_leases := release_slot ops d (as_leases st)\<rparr>)))"

definition abort_by_id ::
  "admission_env \<Rightarrow> 'w lease_ops \<Rightarrow> admission_cause \<Rightarrow> string \<Rightarrow> string \<Rightarrow> 'w admission_state \<Rightarrow> bool \<times> 'w admission_state" where
  "abort_by_id env ops cause i now st = abort_by_reason ops (en_reason env cause) i now st"

section \<open>Admission of a cycle\<close>

definition run_entrypoint_phase :: "phase_spec list \<Rightarrow> run_data \<Rightarrow> phase_spec option" where
  "run_entrypoint_phase ps run =
     (let e = trim_space (case rd_entrypoint run of Some s \<Rightarrow> s | None \<Rightarrow> []) in
      if e \<noteq> [] then phase_spec_by_name ps e else workflow_entry_phase ps)"

definition abort_admission ::
  "admission_env \<Rightarrow> 'w lease_ops \<Rightarrow> admission_cause \<Rightarrow> run_data \<Rightarrow> string \<Rightarrow> 'w admission_state \<Rightarrow>
     (admission_error, admission) res \<times> 'w admission_state" where
  "abort_admission env ops cause run now st =
     (let (found, st') = abort_by_id env ops cause (rd_id run) now st in
      (if found then Inr (AdmissionFailed cause) else Inl RunMissing, st'))"

text \<open>
  The lease of the slot the run already has, its metadata refreshed, or a new one; the flag says
  which.
\<close>

definition slot_lease ::
  "'w lease_ops \<Rightarrow> workflow \<Rightarrow> run_data \<Rightarrow> phase_spec \<Rightarrow> 'w \<Rightarrow>
     (lease_failure, lease \<times> string \<times> bool) res \<times> 'w" where
  "slot_lease ops wkf run p w =
     (let ref = trim_space (case rd_slot_lease run of Some r \<Rightarrow> r | None \<Rightarrow> []) in
      if ref \<noteq> []
      then (case lo_read ops (rd_project run) ref w of
              Inl e \<Rightarrow> (Inl (LeaseFailed e), w)
            | Inr l \<Rightarrow>
                (case lo_persist ops l p run w of
                   Inl e \<Rightarrow> (Inl (LeaseFailed e), w)
                 | Inr (l', w') \<Rightarrow> (Inr (l', ref, False), w')))
      else (case lo_acquire ops wkf run p w of
              (Inl e, w') \<Rightarrow> (Inl e, w')
            | (Inr l, w') \<Rightarrow> (Inr (l, lease_public_ref l, True), w')))"

definition give_back :: "'w lease_ops \<Rightarrow> run_data \<Rightarrow> string \<Rightarrow> bool \<Rightarrow> 'w admission_state \<Rightarrow> 'w admission_state" where
  "give_back ops run ref acquired st =
     (if acquired then st\<lparr>as_leases := lo_cancel ops (rd_project run) ref (as_leases st)\<rparr> else st)"

definition phase_filename :: "phase_spec \<Rightarrow> string" where
  "phase_filename p =
     (if ps_workflow_filename p = [] then workflow_phase_kind (ps_kind p) @ '':'' @ ps_name p
      else ps_workflow_filename p)"

definition launched_jobs :: "(string \<times> string) list \<Rightarrow> (string \<times> string) list" where
  "launched_jobs js = filter (\<lambda>(job, k8s). job \<noteq> [] \<and> k8s \<noteq> []) js"

definition entry_skips :: "when_outcome \<Rightarrow> (string \<times> string) list" where
  "entry_skips outcome = (case outcome of PhaseRuns skipped \<Rightarrow> skipped | _ \<Rightarrow> [])"

definition started_data :: "run_data \<Rightarrow> int \<Rightarrow> string \<Rightarrow> string \<Rightarrow> run_data" where
  "started_data run i phase ref =
     run\<lparr>rd_attempts := rd_attempts run @ [(fresh_attempt run phase)\<lparr>at_index := i\<rparr>],
         rd_slot_lease := Some ref\<rparr>"

text \<open>The run is in progress; what is left is to skip jobs and to launch.\<close>

definition launch_entry ::
  "admission_env \<Rightarrow> 'w lease_ops \<Rightarrow> workflow \<Rightarrow> phase_spec \<Rightarrow> run_data \<Rightarrow> lease \<Rightarrow> string \<Rightarrow> bool \<Rightarrow> string \<Rightarrow>
     'w admission_state \<Rightarrow> admission \<times> 'w admission_state" where
  "launch_entry env ops wkf p started l ref acquired now st =
     (case evaluate_phase_when p (when_context_of wkf started) of
        Inl e \<Rightarrow> (AdmissionDispatchFailed (EntryConditions e),
                   snd (abort_by_id env ops (EntryConditions e) (rd_id started) now st))
      | Inr outcome \<Rightarrow>
          (let skipped = entry_skips outcome in
           case (if skipped = [] then Inr (as_runs st)
                 else patch_run (rd_id started) (record_runner_jobs_skipped (ps_name p) skipped now) (as_runs st)) of
             Inl _ \<Rightarrow> (AdmissionDispatchFailed SkipsNotRecorded,
                        snd (abort_by_id env ops SkipsNotRecorded (rd_id started) now st))
           | Inr runs \<Rightarrow>
               (let st1 = st\<lparr>as_runs := runs\<rparr> in
                case en_launch env l p started skipped of
                  Inl e \<Rightarrow> (AdmissionDispatchFailed (EntryNotLaunched e),
                             snd (abort_by_id env ops (EntryNotLaunched e) (rd_id started) now
                                    (give_back ops started ref acquired st1)))
                | Inr jobs \<Rightarrow>
                    (Dispatched (ls_host l),
                     st1\<lparr>as_runs := (case patch_run (rd_id started)
                            (\<lambda>d. Inr (record_runner_jobs_dispatched (ps_name p) (launched_jobs jobs) now d)) runs of
                          Inl _ \<Rightarrow> runs | Inr runs' \<Rightarrow> runs')\<rparr>))))"

definition admit_with_lease ::
  "admission_env \<Rightarrow> 'w lease_ops \<Rightarrow> workflow \<Rightarrow> phase_spec \<Rightarrow> run_data \<Rightarrow> lease \<Rightarrow> string \<Rightarrow> bool \<Rightarrow> string \<Rightarrow>
     'w admission_state \<Rightarrow> (admission_error, admission) res \<times> 'w admission_state" where
  "admit_with_lease env ops wkf p run l ref acquired now st =
     (if ls_state l \<noteq> ''claimed''
      then (let cause = LeaseNotClaimed (ls_state l) (lease_public_ref l) in
            (Inr (AdmissionDispatchFailed cause),
             snd (abort_by_id env ops cause (rd_id run) now (give_back ops run ref acquired st))))
      else
        (case patch_run (rd_id run)
                (start_run_cycle (ps_name p) (workflow_phase_kind (ps_kind p)) (phase_filename p) ref now) (as_runs st) of
           Inl (Some RunConflict) \<Rightarrow> (Inr AlreadyAdmitted, give_back ops run ref acquired st)
         | Inl _ \<Rightarrow>
             (Inl StartFailed,
              snd (abort_by_id env ops CycleNotStarted (rd_id run) now (give_back ops run ref acquired st)))
         | Inr runs \<Rightarrow>
             (let i = (case run_by_id (rd_id run) (as_runs st) of Some d \<Rightarrow> next_index (rn_attempts d) | None \<Rightarrow> 0);
                  (a, st') = launch_entry env ops wkf p (started_data run i (ps_name p) ref) l ref acquired now
                               (st\<lparr>as_runs := runs\<rparr>) in
              (Inr a, st'))))"

definition admit_run_cycle ::
  "admission_env \<Rightarrow> 'w lease_ops \<Rightarrow> workflow \<Rightarrow> run_data \<Rightarrow> string \<Rightarrow> 'w admission_state \<Rightarrow>
     (admission_error, admission) res \<times> 'w admission_state" where
  "admit_run_cycle env ops wkf run now st =
     (case run_entrypoint_phase (wf_phases wkf) run of
        None \<Rightarrow> abort_admission env ops NoEntryPhase run now st
      | Some p \<Rightarrow>
          if \<not> valid_workflow_kind (workflow_phase_kind (ps_kind p))
          then abort_admission env ops (BadEntryKind (workflow_phase_kind (ps_kind p))) run now st
          else
            (case slot_lease ops wkf run p (as_leases st) of
               (Inl NoCapacity, w) \<Rightarrow> (Inr Queued, st\<lparr>as_leases := w\<rparr>)
             | (Inl (LeaseFailed e), w) \<Rightarrow> (Inl (LeaseStoreError e), st\<lparr>as_leases := w\<rparr>)
             | (Inr (l, ref, acquired), w) \<Rightarrow>
                 admit_with_lease env ops wkf p run l ref acquired now (st\<lparr>as_leases := w\<rparr>)))"

section \<open>The queue\<close>

definition admit_queued ::
  "admission_env \<Rightarrow> 'w lease_ops \<Rightarrow> string \<Rightarrow> run_data \<Rightarrow> 'w admission_state \<Rightarrow>
     (admission_error, admission) res \<times> 'w admission_state" where
  "admit_queued env ops now run st =
     (case en_workflow env run of
        Inl e \<Rightarrow> (Inl (LookupFailed e), st)
      | Inr None \<Rightarrow> abort_admission env ops SchemaMissing run now st
      | Inr (Some (wkf, reg)) \<Rightarrow>
          (case validate_workflow_register (en_wide env) reg of
             Some e \<Rightarrow> abort_admission env ops (SchemaInvalid e) run now st
           | None \<Rightarrow>
               (case en_project env (rd_project run) of
                  Inl e \<Rightarrow> (Inl (LookupFailed e), st)
                | Inr False \<Rightarrow> abort_admission env ops ProjectMissing run now st
                | Inr True \<Rightarrow>
                    (case en_issue env (rd_project run) (rd_issue_number run) of
                       Inl e \<Rightarrow> (Inl (LookupFailed e), st)
                     | Inr False \<Rightarrow> abort_admission env ops IssueMissing run now st
                     | Inr True \<Rightarrow> admit_run_cycle env ops wkf run now st))))"

record drain_result =
  dn_admitted :: nat
  dn_queued :: nat
  dn_failed :: nat
  dn_skipped :: nat

definition nothing_drained :: drain_result where
  "nothing_drained = \<lparr>dn_admitted = 0, dn_queued = 0, dn_failed = 0, dn_skipped = 0\<rparr>"

text \<open>
  Before each run the round looks whether its context is done; \<open>halted\<close> is what it finds
  before the run at a position.
\<close>

fun drain_runs ::
  "admission_env \<Rightarrow> 'w lease_ops \<Rightarrow> string \<Rightarrow> (nat \<Rightarrow> bool) \<Rightarrow> nat \<Rightarrow> run_data list \<Rightarrow> drain_result \<Rightarrow>
     'w admission_state \<Rightarrow> admission_error option \<times> drain_result \<times> 'w admission_state" where
  "drain_runs env ops now halted n [] res st = (None, res, st)"
| "drain_runs env ops now halted n (run # rest) res st =
     (if halted n then (Some ContextDone, res, st)
      else
        (case admit_queued env ops now run st of
           (Inl e, st') \<Rightarrow> (Some e, res\<lparr>dn_failed := dn_failed res + 1\<rparr>, st')
         | (Inr (Dispatched _), st') \<Rightarrow>
             drain_runs env ops now halted (Suc n) rest (res\<lparr>dn_admitted := dn_admitted res + 1\<rparr>) st'
         | (Inr Queued, st') \<Rightarrow> (None, res\<lparr>dn_queued := dn_queued res + 1\<rparr>, st')
         | (Inr (AdmissionFailed _), st') \<Rightarrow>
             drain_runs env ops now halted (Suc n) rest (res\<lparr>dn_failed := dn_failed res + 1\<rparr>) st'
         | (Inr (AdmissionDispatchFailed _), st') \<Rightarrow> (None, res\<lparr>dn_failed := dn_failed res + 1\<rparr>, st')
         | (Inr AlreadyAdmitted, st') \<Rightarrow>
             drain_runs env ops now halted (Suc n) rest (res\<lparr>dn_skipped := dn_skipped res + 1\<rparr>) st'))"

definition drain_project ::
  "admission_env \<Rightarrow> 'w lease_ops \<Rightarrow> string \<Rightarrow> (nat \<Rightarrow> bool) \<Rightarrow> string \<Rightarrow> int \<Rightarrow> 'w admission_state \<Rightarrow>
     admission_error option \<times> drain_result \<times> 'w admission_state" where
  "drain_project env ops now halted project limit st =
     drain_runs env ops now halted 0 (map (\<lambda>r. replay_data (lr_doc r)) (list_queued_runs project limit (as_runs st)))
       nothing_drained st"

definition add_results :: "drain_result \<Rightarrow> drain_result \<Rightarrow> drain_result" where
  "add_results a b =
     \<lparr>dn_admitted = dn_admitted a + dn_admitted b, dn_queued = dn_queued a + dn_queued b,
      dn_failed = dn_failed a + dn_failed b, dn_skipped = dn_skipped a + dn_skipped b\<rparr>"

text \<open>All projects in turn; an error in one ends the round, its own counts are not added.\<close>

fun drain_projects ::
  "admission_env \<Rightarrow> 'w lease_ops \<Rightarrow> string \<Rightarrow> (string \<Rightarrow> nat \<Rightarrow> bool) \<Rightarrow> string list \<Rightarrow> int \<Rightarrow> drain_result \<Rightarrow> 'w admission_state \<Rightarrow>
     admission_error option \<times> drain_result \<times> 'w admission_state" where
  "drain_projects env ops now halted [] limit res st = (None, res, st)"
| "drain_projects env ops now halted (p # ps) limit res st =
     (if p = [] then drain_projects env ops now halted ps limit res st
      else
        (case drain_project env ops now (halted p) p limit st of
           (Some e, _, st') \<Rightarrow> (Some e, res, st')
         | (None, r, st') \<Rightarrow> drain_projects env ops now halted ps limit (add_results res r) st'))"

definition default_batch :: int where
  "default_batch = 25"

definition drain_queue ::
  "admission_env \<Rightarrow> 'w lease_ops \<Rightarrow> string \<Rightarrow> (string \<Rightarrow> nat \<Rightarrow> bool) \<Rightarrow> string list \<Rightarrow> string \<Rightarrow> int \<Rightarrow> 'w admission_state \<Rightarrow>
     admission_error option \<times> drain_result \<times> 'w admission_state" where
  "drain_queue env ops now halted all_projects project limit0 st =
     (let limit = (if limit0 \<le> 0 then default_batch else limit0); p = trim_space project in
      if p \<noteq> [] then drain_project env ops now (halted p) p limit st
      else drain_projects env ops now halted all_projects limit nothing_drained st)"

end
