(* ===== verification/Dispatch.thy ===== *)
theory Dispatch
  imports Admission
begin

text \<open>
  The dispatch of an issue (\<open>dispatchRun\<close> in \<open>internal/server/dispatch_api.go\<close>): the
  checks, the lock, the run it creates, and its admission on the spot. The resolution of the agent
  runtime is an argument, like the lookups.
\<close>

section \<open>The lifetime of a lease\<close>

definition default_lease_ttl :: int where
  "default_lease_ttl = 14400"

definition default_job_timeout :: int where
  "default_job_timeout = 60 * 60"

definition phase_lease_seconds :: "canonical_scripts \<Rightarrow> phase_spec \<Rightarrow> int" where
  "phase_lease_seconds scr p =
     (let jobs = ps_jobs (canonical_phase scr p) in
      if jobs = [] then default_job_timeout
      else foldl (\<lambda>m j. let s = positive_or default_job_timeout (js_timeout j) in if s > m then s else m) 0 jobs)"

definition runner_lease_ttl_seconds :: "canonical_scripts \<Rightarrow> workflow option \<Rightarrow> int" where
  "runner_lease_ttl_seconds scr wkfo =
     (case wkfo of
        None \<Rightarrow> default_lease_ttl
      | Some wkf \<Rightarrow>
          (let total = foldl (\<lambda>t p. t + phase_lease_seconds scr p + 5 * 60) (30 * 60) (wf_phases wkf) in
           if total < default_lease_ttl then default_lease_ttl
           else if total > 24 * 60 * 60 then 24 * 60 * 60 else total))"

section \<open>The workflow of a dispatch\<close>

definition workflow_tombstoned :: "vmap \<Rightarrow> bool" where
  "workflow_tombstoned m =
     ((case vget_any m ''deleted_at'' of VStr _ \<Rightarrow> True | _ \<Rightarrow> False) \<or>
      vget_any m ''usable'' = VBool False \<or> vget_any m ''visible'' = VBool False)"

text \<open>A registered workflow as dispatch reads it.\<close>

record found_workflow =
  fw_workflow :: workflow
  fw_register :: workflow_register

datatype unresolved =
    NotRegistered string
  | Deleted string
  | NoneRegistered
  | SeveralRegistered "string list"

record issue_data =
  id_labels :: "string list"
  id_preserve :: bool

record dispatch_env =
  dp_admission :: admission_env
  dp_project :: "string \<Rightarrow> (string, bool) res"
  dp_issue :: "string \<Rightarrow> int \<Rightarrow> (string, issue_data option) res"
  dp_named :: "string \<Rightarrow> string \<Rightarrow> (string, found_workflow option) res"
  dp_listed :: "string \<Rightarrow> (string, found_workflow list) res"
  dp_runtime :: "found_workflow \<Rightarrow> string option"
  dp_tables :: workflow_tables
  dp_scripts :: canonical_scripts
  dp_details :: doc_details
  dp_parse_float :: "string \<Rightarrow> gofloat option"

definition canonical_found :: "canonical_scripts \<Rightarrow> found_workflow \<Rightarrow> found_workflow" where
  "canonical_found scr f =
     f\<lparr>fw_workflow := canonical_workflow scr (fw_workflow f),
       fw_register := (fw_register f)\<lparr>wr_phases := map (canonical_phase scr) (wr_phases (fw_register f))\<rparr>\<rparr>"

definition resolve_dispatch_workflow ::
  "dispatch_env \<Rightarrow> string \<Rightarrow> string \<Rightarrow> (string, (unresolved, found_workflow) res) res" where
  "resolve_dispatch_workflow env project name =
     (if name \<noteq> []
      then (case dp_named env project name of
              Inl e \<Rightarrow> Inl e
            | Inr None \<Rightarrow> Inr (Inl (NotRegistered name))
            | Inr (Some f) \<Rightarrow>
                if workflow_tombstoned (wr_metadata (fw_register f)) then Inr (Inl (Deleted name))
                else Inr (Inr (canonical_found (dp_scripts env) f)))
      else (case dp_listed env project of
              Inl e \<Rightarrow> Inl e
            | Inr [] \<Rightarrow> Inr (Inl NoneRegistered)
            | Inr [f] \<Rightarrow> Inr (Inr (canonical_found (dp_scripts env) f))
            | Inr fs \<Rightarrow> Inr (Inl (SeveralRegistered (map (\<lambda>f. wf_name (fw_workflow f)) fs)))))"

section \<open>One run at a time\<close>

definition is_active_issue_run_state :: "string \<Rightarrow> bool" where
  "is_active_issue_run_state st =
     (trim_space st \<in> set [''queued'', ''in_progress'', ''review_required'', ''needs_review''])"

text \<open>The state of the latest run of the issue, latest by the text of the creation time.\<close>

definition last_run_state :: "string \<Rightarrow> int \<Rightarrow> ledger_run list \<Rightarrow> string" where
  "last_run_state project issue store =
     (case issue_runs project issue store of
        [] \<Rightarrow> []
      | rs \<Rightarrow> optional_text (rn_state (lr_doc (last rs))))"

section \<open>The dispatch\<close>

record dispatch_request =
  dq_project :: string
  dq_issue :: int
  dq_workflow_name :: string
  dq_workflow :: string
  dq_inputs :: "(string \<times> string) list"

datatype dispatch_problem =
    ProjectRequired
  | IssueRequired
  | InputsInvalid run_input_error
  | ReadFailed string
  | WorkflowInvalid reg_error
  | InputsUnresolved run_input_error
  | RuntimeUnresolved string
  | WorkflowWithoutEntry
  | EntryKindInvalid string
  | LockFailed
  | RunNotCreated create_error
  | AdmissionError admission_error

datatype dispatch_reply =
    UnknownProject
  | UnknownIssue
  | NoWorkflow unresolved
  | NoPhases
  | RunActive string
  | LockHeld string int
  | Answered admission string

text \<open>
  What the handler knows of the run it has just created; the preserve flag of the issue is not
  among it.
\<close>

definition dispatched_run_data :: "workflow \<Rightarrow> string \<Rightarrow> int \<Rightarrow> (string \<times> string) list \<Rightarrow> ledger_run \<Rightarrow> run_data" where
  "dispatched_run_data wkf project issue inputs r =
     \<lparr>rd_id = rn_id (lr_doc r), rd_project = project, rd_workflow_name = wf_name wkf,
      rd_schema_ref = wf_schema_ref wkf, rd_attempts = [], rd_cost = Fin 0, rd_budget = \<lparr>total = Fin 0\<rparr>,
      rd_issue_number = issue, rd_run_cycle = rn_run_cycle (lr_doc r), rd_display = rn_display (lr_doc r),
      rd_pr_number = None, rd_slot_lease = None, rd_entrypoint = None, rd_inputs = map_of inputs,
      rd_preserve = False, rd_state = [], rd_prior = None\<rparr>"

definition create_request_of ::
  "dispatch_env \<Rightarrow> found_workflow \<Rightarrow> issue_data \<Rightarrow> string \<Rightarrow> int \<Rightarrow> (string \<times> string) list \<Rightarrow> string \<Rightarrow> create_request" where
  "create_request_of env f issue project n inputs holder =
     (let wkf = fw_workflow f in
      \<lparr>cq_project = project, cq_workflow = wf_name wkf, cq_schema_ref = wf_schema_ref wkf, cq_issue = n,
       cq_budget = resolve_budget (dp_parse_float env) (id_labels issue)
         (if float_gt (total (wf_budget wkf)) (Fin 0) then Some (wf_budget wkf) else None),
       cq_holder = holder, cq_slot_lease = [], cq_entrypoint = [], cq_supplied = [], cq_validation = [],
       cq_inputs = inputs, cq_preserve = id_preserve issue\<rparr>)"

text \<open>The lock is held; the run is created and admitted.\<close>

definition dispatch_locked ::
  "dispatch_env \<Rightarrow> 'w lease_ops \<Rightarrow> found_workflow \<Rightarrow> issue_data \<Rightarrow> string \<Rightarrow> int \<Rightarrow> (string \<times> string) list \<Rightarrow>
     string \<Rightarrow> string \<Rightarrow> string \<Rightarrow> 'w admission_state \<Rightarrow>
     (dispatch_problem, dispatch_reply) res \<times> 'w admission_state" where
  "dispatch_locked env ops f issue project n inputs holder i now st =
     (case create_run (dp_details env) (dp_scripts env) (dp_tables env)
             (create_request_of env f issue project n inputs holder) i now (as_runs st) of
        Inl e \<Rightarrow>
          (Inl (RunNotCreated e),
           st\<lparr>as_locks := snd (release_lock (issue_lock project n) holder (as_locks st))\<rparr>)
      | Inr (r, runs) \<Rightarrow>
          (case admit_run_cycle (dp_admission env) ops (fw_workflow f)
                  (dispatched_run_data (fw_workflow f) project n inputs r) now (st\<lparr>as_runs := runs\<rparr>) of
             (Inl e, st') \<Rightarrow> (Inl (AdmissionError e), st')
           | (Inr a, st') \<Rightarrow> (Inr (Answered a i), st')))"

definition dispatch_checked ::
  "dispatch_env \<Rightarrow> 'w lease_ops \<Rightarrow> found_workflow \<Rightarrow> issue_data \<Rightarrow> string \<Rightarrow> int \<Rightarrow> (string \<times> string) list \<Rightarrow>
     string \<Rightarrow> string \<Rightarrow> string \<Rightarrow> int \<Rightarrow> int \<Rightarrow> 'w admission_state \<Rightarrow>
     (dispatch_problem, dispatch_reply) res \<times> 'w admission_state" where
  "dispatch_checked env ops f issue project n inputs holder i now app db st =
     (let wkf = fw_workflow f; active = trim_space (last_run_state project n (as_runs st)) in
      if is_active_issue_run_state active then (Inr (RunActive active), st)
      else
        (case claim_lock (issue_lock project n) holder app db
                (runner_lease_ttl_seconds (dp_scripts env) (Some wkf)) (as_locks st) of
           Inl (AlreadyRunning h e) \<Rightarrow> (Inr (LockHeld h e), st)
         | Inl InspectFailed \<Rightarrow> (Inl LockFailed, st)
         | Inr locks \<Rightarrow> dispatch_locked env ops f issue project n inputs holder i now (st\<lparr>as_locks := locks\<rparr>)))"

definition dispatch_workflow ::
  "dispatch_env \<Rightarrow> 'w lease_ops \<Rightarrow> found_workflow \<Rightarrow> issue_data \<Rightarrow> string \<Rightarrow> int \<Rightarrow> (string \<times> string) list \<Rightarrow>
     string \<Rightarrow> string \<Rightarrow> string \<Rightarrow> int \<Rightarrow> int \<Rightarrow> 'w admission_state \<Rightarrow>
     (dispatch_problem, dispatch_reply) res \<times> 'w admission_state" where
  "dispatch_workflow env ops f issue project n given holder i now app db st =
     (if wf_phases (fw_workflow f) = [] then (Inr NoPhases, st)
      else
        (case validate_workflow_register (en_wide (dp_admission env)) (fw_register f) of
           Some e \<Rightarrow> (Inl (WorkflowInvalid e), st)
         | None \<Rightarrow>
             (case resolve_dispatch_inputs (wr_inputs (fw_register f)) given of
                Inl e \<Rightarrow> (Inl (InputsUnresolved e), st)
              | Inr inputs \<Rightarrow>
                  (case dp_runtime env f of
                     Some e \<Rightarrow> (Inl (RuntimeUnresolved e), st)
                   | None \<Rightarrow>
                       (case workflow_entry_phase (wf_phases (fw_workflow f)) of
                          None \<Rightarrow> (Inl WorkflowWithoutEntry, st)
                        | Some p \<Rightarrow>
                            if \<not> valid_workflow_kind (workflow_phase_kind (ps_kind p))
                            then (Inl (EntryKindInvalid (workflow_phase_kind (ps_kind p))), st)
                            else dispatch_checked env ops f issue project n inputs holder i now app db st)))))"

definition dispatch_run ::
  "dispatch_env \<Rightarrow> 'w lease_ops \<Rightarrow> dispatch_request \<Rightarrow> string \<Rightarrow> string \<Rightarrow> string \<Rightarrow> int \<Rightarrow> int \<Rightarrow>
     'w admission_state \<Rightarrow> (dispatch_problem, dispatch_reply) res \<times> 'w admission_state" where
  "dispatch_run env ops q holder i now app db st =
     (if dq_project q = [] then (Inl ProjectRequired, st)
      else if dq_issue q \<le> 0 then (Inl IssueRequired, st)
      else
        (case normalize_run_inputs (dq_inputs q) of
           Inl e \<Rightarrow> (Inl (InputsInvalid e), st)
         | Inr given \<Rightarrow>
             (case dp_project env (dq_project q) of
                Inl e \<Rightarrow> (Inl (ReadFailed e), st)
              | Inr False \<Rightarrow> (Inr UnknownProject, st)
              | Inr True \<Rightarrow>
                  (case dp_issue env (dq_project q) (dq_issue q) of
                     Inl e \<Rightarrow> (Inl (ReadFailed e), st)
                   | Inr None \<Rightarrow> (Inr UnknownIssue, st)
                   | Inr (Some issue) \<Rightarrow>
                       (case resolve_dispatch_workflow env (dq_project q)
                               (if dq_workflow_name q \<noteq> [] then dq_workflow_name q else dq_workflow q) of
                          Inl e \<Rightarrow> (Inl (ReadFailed e), st)
                        | Inr (Inl u) \<Rightarrow> (Inr (NoWorkflow u), st)
                        | Inr (Inr f) \<Rightarrow>
                            dispatch_workflow env ops f issue (dq_project q) (dq_issue q) given holder i now app db st)))))"

end
