(* ===== verification/Playbooks.thy ===== *)
theory Playbooks
  imports Dispatch PublicIds
begin

text \<open>
  Playbooks: lists of entries, each an issue to be created and dispatched once its dependencies have
  succeeded (\<open>internal/server/playbook_api.go\<close>, the playbook store in
  \<open>internal/store/store/postgres.go\<close>, \<open>internal/store/pg/playbooks.go\<close>). The table is a
  list in the order \<open>List\<close> returns it, newest first. Formatting a time, fresh identifiers and
  the creation of an issue are arguments; \<open>created_issue_id\<close>, which no code sets, is left out.
\<close>

section \<open>The documents\<close>

record issue_spec =
  is_title :: string
  is_body :: string
  is_labels :: "string list"
  is_workflow :: "string option"
  is_meta :: vmap

record playbook_entry =
  py_id :: string
  py_title :: "string option"
  py_issue :: vmap
  py_depends :: "string list"
  py_gate :: bool
  py_state :: string
  py_issue_ref :: "string option"
  py_run_id :: "string option"
  py_run_ref :: "string option"
  py_completed :: "string option"
  py_meta :: vmap

record playbook =
  pb_id :: string
  pb_project :: string
  pb_title :: string
  pb_description :: string
  pb_entries :: "playbook_entry list"
  pb_limit :: "int option"
  pb_strategy :: string
  pb_state :: string
  pb_meta :: vmap
  pb_created :: string
  pb_updated :: string

definition issue_spec_to_map :: "issue_spec \<Rightarrow> vmap" where
  "issue_spec_to_map s =
     [(''title'', VStr (is_title s)), (''body'', VStr (is_body s)), (''labels'', VList (map VStr (is_labels s)))] @
     (case is_workflow s of None \<Rightarrow> [] | Some w \<Rightarrow> [(''workflow'', VStr w)]) @ [(''metadata'', VMap (is_meta s))]"

fun strings_of_value :: "goval \<Rightarrow> string list" where
  "strings_of_value (VList vs) = List.map_filter (\<lambda>v. case v of VStr s \<Rightarrow> Some s | _ \<Rightarrow> None) vs"
| "strings_of_value _ = []"

definition issue_spec_of_map :: "vmap \<Rightarrow> issue_spec" where
  "issue_spec_of_map m =
     \<lparr>is_title = string_value (vget_any m ''title''), is_body = string_value (vget_any m ''body''),
      is_labels = strings_of_value (vget_any m ''labels''),
      is_workflow = (case vget_any m ''workflow'' of VStr w \<Rightarrow> if w = [] then None else Some w | _ \<Rightarrow> None),
      is_meta = any_map_value (vget_any m ''metadata'')\<rparr>"

text \<open>\<open>playbookSlug\<close>: every run of other bytes becomes one dash.\<close>

fun dashed :: "bool \<Rightarrow> string \<Rightarrow> string" where
  "dashed prev [] = []"
| "dashed prev (c # cs) =
     (if is_lower c \<or> is_digit c then c # dashed False cs
      else if prev then dashed True cs else CHR ''-'' # dashed True cs)"

definition playbook_slug :: "string \<Rightarrow> string" where
  "playbook_slug title =
     (let s = trim_bytes (CHR ''-'') (dashed False (lower_key title)) in if s = [] then ''playbook'' else s)"

definition playbook_public_ref :: "(string \<Rightarrow> string) \<Rightarrow> playbook \<Rightarrow> string" where
  "playbook_public_ref stamp pb =
     (case vget (pb_meta pb) ''public_ref'' of
        Some (VStr ref) \<Rightarrow> if trim_space ref \<noteq> [] then trim_space ref
                           else playbook_slug (pb_title pb) @ ''-'' @ stamp (pb_created pb)
      | _ \<Rightarrow> playbook_slug (pb_title pb) @ ''-'' @ stamp (pb_created pb))"

section \<open>Creation\<close>

record entry_request =
  eq_id :: string
  eq_title :: "string option"
  eq_issue :: issue_spec
  eq_depends :: "string list"
  eq_gate :: bool
  eq_meta :: vmap

record playbook_request =
  pq_project :: string
  pq_title :: string
  pq_description :: string
  pq_entries :: "entry_request list"
  pq_limit :: "int option"
  pq_strategy :: string
  pq_meta :: vmap

datatype playbook_refusal =
    PlaybookProjectRequired
  | TitleRequired
  | EntryIdsNotUnique
  | UnknownDependency string string
  | BadConcurrencyLimit
  | RollingMainNotSerial
  | PlaybookProjectUnknown
  | PlaybookExists string

definition check_dependencies :: "entry_request list \<Rightarrow> playbook_refusal option" where
  "check_dependencies es =
     check_all (\<lambda>e. check_all (\<lambda>dep. reject (dep \<notin> eq_id ` set es) (UnknownDependency (eq_id e) dep)) (eq_depends e)) es"

definition check_playbook :: "playbook_request \<Rightarrow> playbook_refusal option" where
  "check_playbook q =
     first_error
       [reject (pq_project q = []) PlaybookProjectRequired,
        reject (trim_space (pq_title q) = []) TitleRequired,
        reject (\<not> distinct (map eq_id (pq_entries q))) EntryIdsNotUnique,
        check_dependencies (pq_entries q),
        reject (case pq_limit q of None \<Rightarrow> False | Some n \<Rightarrow> n < 1) BadConcurrencyLimit,
        reject (pq_strategy q = ''rolling_main'' \<and> pq_limit q \<noteq> Some 1) RollingMainNotSerial]"

definition new_entry :: "entry_request \<Rightarrow> playbook_entry" where
  "new_entry e =
     \<lparr>py_id = eq_id e, py_title = eq_title e, py_issue = reload_map (issue_spec_to_map (eq_issue e)), py_depends = eq_depends e,
      py_gate = eq_gate e, py_state = ''pending'', py_issue_ref = None, py_run_id = None, py_run_ref = None,
      py_completed = None, py_meta = reload_map (eq_meta e)\<rparr>"

definition new_playbook :: "(string \<Rightarrow> string) \<Rightarrow> string \<Rightarrow> string \<Rightarrow> playbook_request \<Rightarrow> playbook" where
  "new_playbook stamp i now q =
     \<lparr>pb_id = i, pb_project = pq_project q, pb_title = pq_title q, pb_description = pq_description q,
      pb_entries = map new_entry (pq_entries q), pb_limit = pq_limit q,
      pb_strategy = first_non_empty (pq_strategy q) ''isolated_prs'', pb_state = ''draft'',
      pb_meta = reload_map (if vget (pq_meta q) ''public_ref'' = None
                 then vset ''public_ref'' (VStr (playbook_slug (pq_title q) @ ''-'' @ stamp now)) (pq_meta q) else pq_meta q),
      pb_created = now, pb_updated = now\<rparr>"

definition create_playbook ::
  "(string \<Rightarrow> bool) \<Rightarrow> (string \<Rightarrow> string) \<Rightarrow> string \<Rightarrow> string \<Rightarrow> playbook_request \<Rightarrow> playbook list \<Rightarrow>
     (playbook_refusal, playbook \<times> playbook list) res" where
  "create_playbook known stamp i now q tbl =
     (case check_playbook q of
        Some e \<Rightarrow> Inl e
      | None \<Rightarrow>
          if \<not> known (pq_project q) then Inl PlaybookProjectUnknown
          else if (pq_project q, i) \<in> (\<lambda>pb. (pb_project pb, pb_id pb)) ` set tbl then Inl (PlaybookExists i)
          else (let pb = new_playbook stamp i now q in Inr (pb, pb # tbl)))"

section \<open>The gate of an entry\<close>

definition playbooks_of :: "string \<Rightarrow> playbook list \<Rightarrow> playbook list" where
  "playbooks_of project tbl = filter (\<lambda>pb. project = [] \<or> pb_project pb = project) tbl"

definition playbook_by_ref :: "(string \<Rightarrow> string) \<Rightarrow> string \<Rightarrow> string \<Rightarrow> playbook list \<Rightarrow> playbook option" where
  "playbook_by_ref stamp project ref tbl = find (\<lambda>pb. playbook_public_ref stamp pb = ref) (playbooks_of project tbl)"

definition patch_playbook :: "string \<Rightarrow> string \<Rightarrow> (playbook \<Rightarrow> playbook) \<Rightarrow> playbook list \<Rightarrow> playbook list option" where
  "patch_playbook project i f tbl =
     (if (project, i) \<in> (\<lambda>pb. (pb_project pb, pb_id pb)) ` set tbl
      then Some (map (\<lambda>pb. if pb_project pb = project \<and> pb_id pb = i then f pb else pb) tbl) else None)"

definition patch_entry_gate ::
  "(string \<Rightarrow> string) \<Rightarrow> string \<Rightarrow> string \<Rightarrow> string \<Rightarrow> bool \<Rightarrow> string \<Rightarrow> playbook list \<Rightarrow> playbook list option" where
  "patch_entry_gate stamp project ref entry gate now tbl =
     (case playbook_by_ref stamp project ref tbl of
        None \<Rightarrow> None
      | Some pb \<Rightarrow>
          if entry \<notin> py_id ` set (pb_entries pb) then None
          else patch_playbook project (pb_id pb)
                 (\<lambda>d. d\<lparr>pb_entries := update_first (\<lambda>e. py_id e = entry)
                        (\<lambda>e. e\<lparr>py_gate := gate, py_meta := vset ''manual_gate_updated_at'' (VStr now) (py_meta e)\<rparr>) (pb_entries d),
                      pb_updated := now\<rparr>) tbl)"

section \<open>What the runs say\<close>

definition run_of_project :: "string \<Rightarrow> string \<Rightarrow> ledger_run list \<Rightarrow> run_doc option" where
  "run_of_project project i runs =
     map_option lr_doc (find (\<lambda>r. rn_project (lr_doc r) = project \<and> rn_id (lr_doc r) = i) runs)"

definition resolve_run_ref :: "string \<Rightarrow> string \<Rightarrow> ledger_run list \<Rightarrow> string option" where
  "resolve_run_ref project ref runs =
     (case (go_index ref ''#'', go_index ref ''/runs/'') of
        (Some h, Some s) \<Rightarrow>
          if s \<le> h then None
          else
            (case atoi (drop (h + 1) (take s ref)) of
               None \<Rightarrow> None
             | Some n \<Rightarrow>
                 (let part = drop (s + 6) ref in
                  if part = [] then None else read_run_by_number project n part runs))
      | _ \<Rightarrow> None)"

definition entry_run :: "string \<Rightarrow> ledger_run list \<Rightarrow> playbook_entry \<Rightarrow> run_doc option" where
  "entry_run project runs e =
     (let i = (case py_run_id e of
                 Some i \<Rightarrow> if i \<noteq> [] then i
                           else (case py_run_ref e of None \<Rightarrow> [] | Some ref \<Rightarrow>
                                   if ref = [] then [] else (case resolve_run_ref project ref runs of None \<Rightarrow> [] | Some j \<Rightarrow> j))
               | None \<Rightarrow> (case py_run_ref e of None \<Rightarrow> [] | Some ref \<Rightarrow>
                            if ref = [] then [] else (case resolve_run_ref project ref runs of None \<Rightarrow> [] | Some j \<Rightarrow> j))) in
      if i = [] then None else run_of_project project i runs)"

definition refresh_entry :: "string \<Rightarrow> ledger_run list \<Rightarrow> string \<Rightarrow> playbook_entry \<Rightarrow> playbook_entry" where
  "refresh_entry project runs now e =
     (case entry_run project runs e of
        None \<Rightarrow> e
      | Some d \<Rightarrow>
          (let ended = Some (first_non_empty (rn_updated d) now) in
           if rn_state d = ''passed'' then e\<lparr>py_state := ''succeeded'', py_completed := ended\<rparr>
           else if rn_state d \<in> set [''review_required'', ''aborted'']
           then e\<lparr>py_state := ''failed'', py_completed := ended,
                  py_meta := vset ''abort_reason'' (VStr (case rn_abort d of None \<Rightarrow> [] | Some r \<Rightarrow> r))
                    (vset ''run_state'' (VStr (rn_state d)) (py_meta e))\<rparr>
           else if rn_state d = ''in_progress'' \<and> py_state e \<in> set [[], ''pending'', ''created'']
           then e\<lparr>py_state := ''running''\<rparr>
           else e))"

section \<open>Advancing\<close>

definition entry_phase :: "playbook_entry \<Rightarrow> string" where
  "entry_phase e = first_non_empty (py_state e) ''pending''"

text \<open>A map by identifier keeps the last entry.\<close>

definition dependencies_met :: "playbook_entry list \<Rightarrow> playbook_entry \<Rightarrow> bool" where
  "dependencies_met es e =
     list_all (\<lambda>dep. case map_of (rev (map (\<lambda>c. (py_id c, c)) es)) dep of
                       None \<Rightarrow> False | Some c \<Rightarrow> py_state c = ''succeeded'') (py_depends e)"

definition entry_ready :: "playbook_entry list \<Rightarrow> playbook_entry \<Rightarrow> bool" where
  "entry_ready es e = (entry_phase e \<in> set [''pending'', ''created''] \<and> \<not> py_gate e \<and> dependencies_met es e)"

definition all_succeeded :: "playbook_entry list \<Rightarrow> bool" where
  "all_succeeded es = (es \<noteq> [] \<and> list_all (\<lambda>e. py_state e \<in> set [''succeeded'', ''skipped'']) es)"

definition blocking_failure :: "playbook_entry list \<Rightarrow> bool" where
  "blocking_failure es = list_ex (\<lambda>e. py_state e = ''failed'') es"

definition open_manual_gate :: "playbook_entry list \<Rightarrow> bool" where
  "open_manual_gate es = list_ex (\<lambda>e. py_gate e \<and> entry_phase e = ''pending'' \<and> dependencies_met es e) es"

text \<open>
  The branch an entry works on. A context written earlier in the same call (\<open>fresh\<close>) is a map of
  strings, which the type assertion on the metadata does not accept.
\<close>

definition short_id :: "string \<Rightarrow> string" where
  "short_id s = (if length s \<le> 8 then s else take 8 s)"

definition base_ref_of :: "playbook \<Rightarrow> string" where
  "base_ref_of pb =
     (case vget (pb_meta pb) ''base_ref'' of
        Some (VStr v) \<Rightarrow> if trim_space v \<noteq> [] then trim_space v else ''main'' | _ \<Rightarrow> ''main'')"

definition strategy_of :: "playbook \<Rightarrow> string" where
  "strategy_of pb = first_non_empty (pb_strategy pb) ''isolated_prs''"

definition context_entries ::
  "playbook \<Rightarrow> playbook_entry \<Rightarrow> string \<Rightarrow> string \<Rightarrow> string \<Rightarrow> (string \<times> string) list" where
  "context_entries pb e i branch base =
     [(''id'', i), (''strategy'', strategy_of pb), (''branch'', branch), (''base_ref'', base),
      (''owner_playbook_id'', pb_id pb), (''current_entry_id'', py_id e), (''state'', ''in_use'')]"

definition shared_context :: "playbook \<Rightarrow> bool \<Rightarrow> vmap option" where
  "shared_context pb fresh =
     (case vget (pb_meta pb) ''work_context'' of
        Some (VMap m) \<Rightarrow> if fresh then None
                         else (case vget m ''branch'' of Some (VStr b) \<Rightarrow> if b \<noteq> [] then Some m else None | _ \<Rightarrow> None)
      | _ \<Rightarrow> None)"

definition work_context_for ::
  "playbook \<Rightarrow> bool \<Rightarrow> playbook_entry \<Rightarrow> (string \<times> string) list \<times> bool" where
  "work_context_for pb fresh e =
     (let base = base_ref_of pb in
      if strategy_of pb = ''rolling_main''
      then (context_entries pb e (''project:'' @ pb_project pb @ '':main:'' @ base) base base, True)
      else if strategy_of pb = ''shared_feature_branch''
      then (case shared_context pb fresh of
              Some m \<Rightarrow>
                (context_entries pb e
                   (first_non_empty (string_value (vget_any m ''id'')) (''playbook:'' @ pb_id pb @ '':shared''))
                   (string_value (vget_any m ''branch''))
                   (first_non_empty (string_value (vget_any m ''base_ref'')) base), True)
            | None \<Rightarrow>
                (context_entries pb e (''playbook:'' @ pb_id pb @ '':shared'')
                   (''glimmung/playbooks/'' @ short_id (pb_id pb)) base, True))
      else (context_entries pb e (''playbook:'' @ pb_id pb @ '':'' @ py_id e)
              (''glimmung/playbooks/'' @ short_id (pb_id pb) @ ''/'' @ playbook_slug (py_id e)) base, False))"

definition context_value :: "(string \<times> string) list \<Rightarrow> goval" where
  "context_value ctx = VMap (map (\<lambda>(k, v). (k, VStr v)) ctx)"

text \<open>The dispatcher the store is handed, and its answer with the text of an error.\<close>

record entry_dispatch =
  xd_project :: string
  xd_playbook :: string
  xd_ref :: string
  xd_entry :: string
  xd_issue :: issue_spec
  xd_issue_ref :: "string option"
  xd_strategy :: string
  xd_context :: "(string \<times> string) list"

record entry_answer =
  xa_state :: string
  xa_detail :: "string option"
  xa_issue_ref :: "string option"
  xa_run_id :: "string option"
  xa_run_ref :: "string option"
  xa_error :: "string option"

type_synonym 'w dispatcher = "entry_dispatch \<Rightarrow> 'w \<Rightarrow> entry_answer \<times> 'w"

definition given_or :: "string option \<Rightarrow> string option \<Rightarrow> string option" where
  "given_or new old = (case new of None \<Rightarrow> old | Some s \<Rightarrow> if s = [] then old else Some s)"

definition answered_entry :: "(string \<times> string) list \<Rightarrow> entry_answer \<Rightarrow> string \<Rightarrow> playbook_entry \<Rightarrow> playbook_entry" where
  "answered_entry ctx a now e =
     (let m1 = vset ''dispatch_state'' (VStr (xa_state a)) (vset ''work_context'' (context_value ctx) (py_meta e));
          m2 = (case xa_detail a of None \<Rightarrow> m1 | Some d \<Rightarrow> vset ''dispatch_detail'' (VStr d) m1);
          e1 = e\<lparr>py_meta := m2,
                 py_issue_ref := given_or (xa_issue_ref a) (py_issue_ref e),
                 py_state := (if given_or (xa_issue_ref a) None = None then py_state e else ''created''),
                 py_run_id := given_or (xa_run_id a) (py_run_id e), py_run_ref := given_or (xa_run_ref a) (py_run_ref e)\<rparr> in
      case xa_error a of
        Some msg \<Rightarrow> e1\<lparr>py_state := ''failed'', py_completed := Some now, py_meta := vset ''dispatch_error'' (VStr msg) m2\<rparr>
      | None \<Rightarrow>
          if xa_state a \<in> set [''dispatched'', ''pending'', ''already_running''] then e1\<lparr>py_state := ''running''\<rparr>
          else e1\<lparr>py_state := ''failed'', py_completed := Some now\<rparr>)"

definition starts :: "entry_answer \<Rightarrow> bool" where
  "starts a = (xa_error a = None \<and> xa_state a \<in> set [''dispatched'', ''pending'', ''already_running''])"

definition dispatch_of_entry ::
  "(string \<Rightarrow> string) \<Rightarrow> playbook \<Rightarrow> playbook_entry \<Rightarrow> (string \<times> string) list \<Rightarrow> entry_dispatch" where
  "dispatch_of_entry stamp pb e ctx =
     \<lparr>xd_project = pb_project pb, xd_playbook = pb_id pb, xd_ref = playbook_public_ref stamp pb, xd_entry = py_id e,
      xd_issue = issue_spec_of_map (py_issue e), xd_issue_ref = py_issue_ref e, xd_strategy = strategy_of pb,
      xd_context = ctx\<rparr>"

text \<open>The loop over the entries by position; it ends as soon as the limit is reached.\<close>

fun start_entries ::
  "(string \<Rightarrow> string) \<Rightarrow> 'w dispatcher \<Rightarrow> string \<Rightarrow> int \<Rightarrow> nat list \<Rightarrow> bool \<Rightarrow> int \<Rightarrow> playbook \<Rightarrow> 'w \<Rightarrow> playbook \<times> int \<times> 'w" where
  "start_entries stamp dispatch now limit [] fresh active pb w = (pb, active, w)"
| "start_entries stamp dispatch now limit (k # ks) fresh active pb w =
     (if limit \<le> active then (pb, active, w)
      else if \<not> entry_ready (pb_entries pb) (pb_entries pb ! k)
      then start_entries stamp dispatch now limit ks fresh active pb w
      else
        (let e = pb_entries pb ! k; (ctx, kept) = work_context_for pb fresh e;
             pb1 = (if kept then pb\<lparr>pb_meta := vset ''work_context'' (context_value ctx) (pb_meta pb)\<rparr> else pb);
             (a, w') = dispatch (dispatch_of_entry stamp pb1 e ctx) w;
             pb2 = pb1\<lparr>pb_entries := (pb_entries pb1)[k := answered_entry ctx a now e]\<rparr> in
         start_entries stamp dispatch now limit ks (fresh \<or> kept) (if starts a then active + 1 else active) pb2 w'))"

definition running_entries :: "playbook_entry list \<Rightarrow> int" where
  "running_entries es = int (length (filter (\<lambda>e. py_state e = ''running'') es))"

definition playbook_limit :: "playbook \<Rightarrow> int" where
  "playbook_limit pb = (case pb_limit pb of None \<Rightarrow> 1 | Some n \<Rightarrow> if 0 < n then n else 1)"

definition settled_state :: "playbook_entry list \<Rightarrow> int \<Rightarrow> string" where
  "settled_state es active =
     (if all_succeeded es then ''succeeded''
      else if blocking_failure es then ''failed''
      else if open_manual_gate es then ''paused''
      else if 0 < active then ''running'' else ''ready'')"

definition refresh_playbook :: "ledger_run list \<Rightarrow> string \<Rightarrow> playbook \<Rightarrow> playbook" where
  "refresh_playbook runs now pb = pb\<lparr>pb_entries := map (refresh_entry (pb_project pb) runs now) (pb_entries pb)\<rparr>"

definition advance_playbook_doc ::
  "(string \<Rightarrow> string) \<Rightarrow> 'w dispatcher \<Rightarrow> ledger_run list \<Rightarrow> string \<Rightarrow> playbook \<Rightarrow> 'w \<Rightarrow> playbook \<times> 'w" where
  "advance_playbook_doc stamp dispatch runs now pb0 w =
     (let pb = refresh_playbook runs now pb0 in
      if pb_state pb = ''cancelled'' then (pb, w)
      else if all_succeeded (pb_entries pb) then (pb\<lparr>pb_state := ''succeeded''\<rparr>, w)
      else if blocking_failure (pb_entries pb) then (pb\<lparr>pb_state := ''failed''\<rparr>, w)
      else
        (let (pb', active, w') = start_entries stamp dispatch now (playbook_limit pb) [0..<length (pb_entries pb)] False
               (running_entries (pb_entries pb)) pb w in
         (pb'\<lparr>pb_state := settled_state (pb_entries pb') active\<rparr>, w')))"

text \<open>The whole document is written back, whatever the row has become meanwhile.\<close>

definition replace_playbook :: "string \<Rightarrow> playbook \<Rightarrow> playbook list \<Rightarrow> playbook list option" where
  "replace_playbook now pb tbl = patch_playbook (pb_project pb) (pb_id pb) (\<lambda>_. pb\<lparr>pb_updated := now\<rparr>) tbl"

definition advance_playbook ::
  "(string \<Rightarrow> string) \<Rightarrow> 'w dispatcher \<Rightarrow> string \<Rightarrow> string \<Rightarrow> string \<Rightarrow> ledger_run list \<Rightarrow> playbook list \<Rightarrow> 'w \<Rightarrow>
     playbook list option \<times> 'w" where
  "advance_playbook stamp dispatch project ref now runs tbl w =
     (case playbook_by_ref stamp project ref tbl of
        None \<Rightarrow> (None, w)
      | Some pb \<Rightarrow>
          (let (pb', w') = advance_playbook_doc stamp dispatch runs now pb w in
           (replace_playbook now pb' tbl, w')))"

section \<open>After a run has ended\<close>

definition run_display :: "ledger_run list \<Rightarrow> ledger_run \<Rightarrow> string" where
  "run_display siblings r =
     (case rn_display (lr_doc r) of
        Some s \<Rightarrow> if trim_space s \<noteq> [] then trim_space s
                  else (case lr_number r of Some n \<Rightarrow> itoa n
                        | None \<Rightarrow> (case map_of (run_number_map siblings) (rn_id (lr_doc r)) of
                                     Some n \<Rightarrow> if 0 < n then itoa n else [] | None \<Rightarrow> []))
      | None \<Rightarrow> (case lr_number r of Some n \<Rightarrow> itoa n
                 | None \<Rightarrow> (case map_of (run_number_map siblings) (rn_id (lr_doc r)) of
                              Some n \<Rightarrow> if 0 < n then itoa n else [] | None \<Rightarrow> [])))"

text \<open>\<open>RunRef\<close> panics on an issue number that is not positive; such a run cannot be created.\<close>

definition run_ref_by_id :: "string \<Rightarrow> string \<Rightarrow> ledger_run list \<Rightarrow> string option" where
  "run_ref_by_id project i runs =
     (case find (\<lambda>r. rn_project (lr_doc r) = project \<and> rn_id (lr_doc r) = i) runs of
        None \<Rightarrow> None
      | Some r \<Rightarrow> run_ref project (rn_issue (lr_doc r)) (run_display (issue_runs project (rn_issue (lr_doc r)) runs) r))"

definition references_run :: "playbook \<Rightarrow> string \<Rightarrow> string \<Rightarrow> bool" where
  "references_run pb i ref =
     list_ex (\<lambda>e. py_run_id e = Some i \<or> (ref \<noteq> [] \<and> py_run_ref e = Some ref)) (pb_entries pb)"

fun advance_referencing ::
  "(string \<Rightarrow> string) \<Rightarrow> 'w dispatcher \<Rightarrow> ('w \<Rightarrow> ledger_run list) \<Rightarrow> string \<Rightarrow> string \<Rightarrow> string \<Rightarrow>
     playbook list \<Rightarrow> playbook list \<Rightarrow> 'w \<Rightarrow> playbook list \<times> 'w" where
  "advance_referencing stamp dispatch runs_of i ref now [] tbl w = (tbl, w)"
| "advance_referencing stamp dispatch runs_of i ref now (pb # rest) tbl w =
     (if \<not> references_run pb i ref then advance_referencing stamp dispatch runs_of i ref now rest tbl w
      else
        (let (pb', w') = advance_playbook_doc stamp dispatch (runs_of w) now pb w in
         case replace_playbook now pb' tbl of
           None \<Rightarrow> (tbl, w')
         | Some tbl' \<Rightarrow> advance_referencing stamp dispatch runs_of i ref now rest tbl' w'))"

definition advance_playbooks_for_run ::
  "(string \<Rightarrow> string) \<Rightarrow> 'w dispatcher \<Rightarrow> ('w \<Rightarrow> ledger_run list) \<Rightarrow> string \<Rightarrow> string \<Rightarrow> string \<Rightarrow>
     playbook list \<Rightarrow> 'w \<Rightarrow> playbook list \<times> 'w" where
  "advance_playbooks_for_run stamp dispatch runs_of project i now tbl w =
     (case run_ref_by_id project i (runs_of w) of
        None \<Rightarrow> (tbl, w)
      | Some ref \<Rightarrow> advance_referencing stamp dispatch runs_of i ref now (playbooks_of project tbl) tbl w)"

section \<open>The dispatcher\<close>

definition issue_number_of_ref :: "string \<Rightarrow> string \<Rightarrow> int option" where
  "issue_number_of_ref project ref =
     (if \<not> prefix (project @ ''#'') ref then None
      else (case atoi (drop (length project + 1) ref) of None \<Rightarrow> None | Some n \<Rightarrow> if n < 1 then None else Some n))"

fun reply_state :: "dispatch_reply \<Rightarrow> string" where
  "reply_state UnknownProject = ''no_project''"
| "reply_state UnknownIssue = ''no_project''"
| "reply_state (NoWorkflow _) = ''no_workflow''"
| "reply_state NoPhases = ''no_workflow''"
| "reply_state (RunActive _) = ''already_running''"
| "reply_state (LockHeld _ _) = ''already_running''"
| "reply_state (Answered (Dispatched _) _) = ''dispatched''"
| "reply_state (Answered Queued _) = ''queued''"
| "reply_state (Answered (AdmissionFailed _) _) = ''admission_failed''"
| "reply_state (Answered (AdmissionDispatchFailed _) _) = ''dispatch_failed''"
| "reply_state (Answered AlreadyAdmitted _) = ''skipped''"

definition no_answer :: entry_answer where
  "no_answer = \<lparr>xa_state = [], xa_detail = None, xa_issue_ref = None, xa_run_id = None, xa_run_ref = None, xa_error = None\<rparr>"

text \<open>Creating an issue gives its reference and its number, or an error; so does an issue made before.\<close>

record playbook_env =
  pl_dispatch :: dispatch_env
  pl_create_issue :: "string \<Rightarrow> issue_spec \<Rightarrow> (string, string \<times> int) res"
  pl_fresh :: "entry_dispatch \<Rightarrow> string \<times> string"
  pl_problem :: "dispatch_problem \<Rightarrow> string"
  pl_detail :: "dispatch_reply \<Rightarrow> string option"

definition entry_issue :: "playbook_env \<Rightarrow> entry_dispatch \<Rightarrow> (string, string \<times> int) res" where
  "entry_issue env x =
     (let ref = (case xd_issue_ref x of None \<Rightarrow> [] | Some r \<Rightarrow> r) in
      if ref \<noteq> []
      then (case issue_number_of_ref (xd_project x) ref of
              None \<Rightarrow> Inl ''playbook entry has invalid created issue ref'' | Some n \<Rightarrow> Inr (ref, n))
      else pl_create_issue env (xd_project x) (xd_issue x))"

definition reply_run :: "dispatch_reply \<Rightarrow> string option" where
  "reply_run r = (case r of Answered _ i \<Rightarrow> Some i | _ \<Rightarrow> None)"

definition playbook_dispatcher ::
  "playbook_env \<Rightarrow> 'w lease_ops \<Rightarrow> string \<Rightarrow> int \<Rightarrow> int \<Rightarrow> 'w admission_state dispatcher" where
  "playbook_dispatcher env ops now app db x st =
     (case entry_issue env x of
        Inl e \<Rightarrow> (no_answer\<lparr>xa_error := Some e\<rparr>, st)
      | Inr (ref, n) \<Rightarrow>
          (let (reply, st') = dispatch_run (pl_dispatch env) ops
                 \<lparr>dq_project = xd_project x, dq_issue = n,
                  dq_workflow_name = (case is_workflow (xd_issue x) of None \<Rightarrow> [] | Some wn \<Rightarrow> wn),
                  dq_workflow = [], dq_inputs = []\<rparr>
                 (fst (pl_fresh env x)) (snd (pl_fresh env x)) now app db st in
           case reply of
             Inl p \<Rightarrow> (no_answer\<lparr>xa_state := ''failed'', xa_detail := Some (pl_problem env p), xa_issue_ref := Some ref,
                                 xa_error := Some (pl_problem env p)\<rparr>, st')
           | Inr r \<Rightarrow>
               (no_answer\<lparr>xa_state := reply_state r, xa_detail := pl_detail env r, xa_issue_ref := Some ref,
                          xa_run_id := reply_run r,
                          xa_run_ref := (case reply_run r of None \<Rightarrow> None | Some i \<Rightarrow> run_ref_by_id (xd_project x) i (as_runs st'))\<rparr>,
                st')))"

end
