(* ===== verification/PlaybookSafety.thy ===== *)
theory PlaybookSafety
  imports Playbooks
begin

text \<open>
  What advancing a playbook guarantees (the limit on running entries, the order of dependencies)
  and where a playbook gets stuck: a dispatch that is queued, a run that is retried, a cycle of
  dependencies, a shared branch that is not shared.
\<close>

section \<open>The entries of an advance\<close>

lemma count_update:
  "k < length xs \<Longrightarrow>
     int (length (filter P (xs[k := x]))) = int (length (filter P xs)) + (if P x then 1 else 0) - (if P (xs ! k) then 1 else 0)"
proof (induction xs arbitrary: k)
  case (Cons y ys)
  show ?case
  proof (cases k)
    case (Suc n)
    with Cons.IH [of n] Cons.prems show ?thesis by (auto split: if_splits)
  qed simp
qed simp

lemma answered_fields [simp]:
  "py_id (answered_entry ctx a now e) = py_id e" "py_gate (answered_entry ctx a now e) = py_gate e"
  "py_depends (answered_entry ctx a now e) = py_depends e"
  by (simp_all add: answered_entry_def Let_def split: option.split)

lemma answered_state: "py_state (answered_entry ctx a now e) = (if starts a then ''running'' else ''failed'')"
  by (auto simp: answered_entry_def starts_def Let_def split: option.splits)

lemma ready_not_running: "entry_ready es e \<Longrightarrow> py_state e \<noteq> ''running'' \<and> py_state e \<noteq> ''succeeded''"
  by (auto simp: entry_ready_def entry_phase_def first_non_empty_def split: if_splits)

lemma meta_irrelevant [simp]: "pb_entries (if c then pb\<lparr>pb_meta := m\<rparr> else pb) = pb_entries pb"
  by simp

lemma start_running:
  "running_entries (pb_entries pb) = active \<Longrightarrow> set ks \<subseteq> {..<length (pb_entries pb)} \<Longrightarrow>
   start_entries stamp dispatch now limit ks fresh active pb w = (pb', active', w') \<Longrightarrow>
     running_entries (pb_entries pb') = active' \<and> active' \<le> max limit active"
proof (induction stamp dispatch now limit ks fresh active pb w rule: start_entries.induct)
  case (2 stamp dispatch now limit k ks fresh active pb w)
  show ?case
  proof (cases "limit \<le> active \<or> \<not> entry_ready (pb_entries pb) (pb_entries pb ! k)")
    case True
    with 2 show ?thesis by (auto split: if_splits)
  next
    case False
    obtain ctx kept where ctx: "work_context_for pb fresh (pb_entries pb ! k) = (ctx, kept)" by fastforce
    let ?pb1 = "if kept then pb\<lparr>pb_meta := vset ''work_context'' (context_value ctx) (pb_meta pb)\<rparr> else pb"
    obtain a w1 where a: "dispatch (dispatch_of_entry stamp ?pb1 (pb_entries pb ! k) ctx) w = (a, w1)" by fastforce
    let ?e = "answered_entry ctx a now (pb_entries pb ! k)"
    let ?pb2 = "?pb1\<lparr>pb_entries := (pb_entries ?pb1)[k := ?e]\<rparr>"
    let ?active = "if starts a then active + 1 else active"
    have "py_state (pb_entries pb ! k) \<noteq> ''running''" using False ready_not_running by blast
    then have "running_entries (pb_entries ?pb2) = ?active"
      using "2.prems"(1,2) by (simp add: running_entries_def count_update answered_state)
    moreover have "set ks \<subseteq> {..<length (pb_entries ?pb2)}" using "2.prems"(2) by auto
    moreover have "start_entries stamp dispatch now limit ks (fresh \<or> kept) ?active ?pb2 w1 = (pb', active', w')"
      using "2.prems"(3) False ctx a by (simp add: Let_def)
    ultimately have "running_entries (pb_entries pb') = active' \<and> active' \<le> max limit ?active"
      using "2.IH"(2) [OF _ _ refl ctx [symmetric] refl refl a [symmetric] refl refl] False by auto
    with False show ?thesis by auto
  qed
qed simp

text \<open>
  C22: Advancing a playbook never has more entries running than its concurrency limit allows,
  whatever the dispatches answer; only entries that were running already can exceed it.
\<close>
theorem concurrency_limit_kept:
  "running_entries (pb_entries (fst (advance_playbook_doc stamp dispatch runs now pb w)))
     \<le> max (playbook_limit pb) (running_entries (pb_entries (refresh_playbook runs now pb)))"
proof -
  let ?pb = "refresh_playbook runs now pb"
  obtain pb' active w' where start: "start_entries stamp dispatch now (playbook_limit ?pb) [0..<length (pb_entries ?pb)] False
      (running_entries (pb_entries ?pb)) ?pb w = (pb', active, w')" by (metis prod_cases3)
  have "playbook_limit ?pb = playbook_limit pb" by (simp add: refresh_playbook_def playbook_limit_def)
  have "running_entries (pb_entries pb') \<le> max (playbook_limit ?pb) (running_entries (pb_entries ?pb))"
    using start_running [OF refl _ start] by (simp add: subset_iff)
  with start \<open>playbook_limit ?pb = playbook_limit pb\<close> show ?thesis
    by (auto simp: advance_playbook_doc_def Let_def)
qed

text \<open>How the entries change while they are started: only ready ones, and none becomes succeeded.\<close>

definition kept_or_started :: "playbook_entry list \<Rightarrow> playbook_entry \<Rightarrow> playbook_entry \<Rightarrow> bool" where
  "kept_or_started es0 e0 e \<longleftrightarrow>
     e = e0 \<or> (entry_ready es0 e0 \<and> py_state e \<in> {''running'', ''failed''} \<and> py_id e = py_id e0)"

lemma kept_id: "kept_or_started es0 e0 e \<Longrightarrow> py_id e = py_id e0"
  by (auto simp: kept_or_started_def)

lemma lookup_kept:
  assumes "list_all2 (kept_or_started es0) xs ys"
  shows "rel_option (kept_or_started es0) (map_of (map (\<lambda>c. (py_id c, c)) xs) dep) (map_of (map (\<lambda>c. (py_id c, c)) ys) dep)"
  using assms by (induction rule: list_all2_induct) (auto dest: kept_id)

lemma dependencies_back:
  assumes "list_all2 (kept_or_started es0) es0 es" "dependencies_met es e"
  shows "dependencies_met es0 e"
proof -
  have "list_all2 (kept_or_started es0) (rev es0) (rev es)" using assms(1) by (simp add: list_all2_rev)
  note look = lookup_kept [OF this]
  show ?thesis
    unfolding dependencies_met_def list_all_iff
  proof
    fix dep assume "dep \<in> set (py_depends e)"
    with assms(2) obtain c where "map_of (rev (map (\<lambda>c. (py_id c, c)) es)) dep = Some c" "py_state c = ''succeeded''"
      by (auto simp: dependencies_met_def list_all_iff split: option.splits)
    with look [of dep] obtain c0 where "map_of (rev (map (\<lambda>c. (py_id c, c)) es0)) dep = Some c0" "kept_or_started es0 c0 c"
      by (auto simp: rev_map option_rel_Some2)
    then show "case map_of (rev (map (\<lambda>c. (py_id c, c)) es0)) dep of None \<Rightarrow> False | Some c \<Rightarrow> py_state c = ''succeeded''"
      using \<open>py_state c = ''succeeded''\<close> by (auto simp: kept_or_started_def)
  qed
qed

lemma start_kept:
  "list_all2 (kept_or_started es0) es0 (pb_entries pb) \<Longrightarrow> distinct ks \<Longrightarrow> set ks \<subseteq> {..<length es0} \<Longrightarrow>
   (\<And>k. k \<in> set ks \<Longrightarrow> pb_entries pb ! k = es0 ! k) \<Longrightarrow>
   start_entries stamp dispatch now limit ks fresh active pb w = (pb', active', w') \<Longrightarrow>
     list_all2 (kept_or_started es0) es0 (pb_entries pb')"
proof (induction stamp dispatch now limit ks fresh active pb w rule: start_entries.induct)
  case (2 stamp dispatch now limit k ks fresh active pb w)
  show ?case
  proof (cases "limit \<le> active \<or> \<not> entry_ready (pb_entries pb) (pb_entries pb ! k)")
    case True
    with 2 show ?thesis by (auto split: if_splits)
  next
    case False
    obtain ctx kept where ctx: "work_context_for pb fresh (pb_entries pb ! k) = (ctx, kept)" by fastforce
    let ?pb1 = "if kept then pb\<lparr>pb_meta := vset ''work_context'' (context_value ctx) (pb_meta pb)\<rparr> else pb"
    obtain a w1 where a: "dispatch (dispatch_of_entry stamp ?pb1 (pb_entries pb ! k) ctx) w = (a, w1)" by fastforce
    let ?e = "answered_entry ctx a now (pb_entries pb ! k)"
    let ?pb2 = "?pb1\<lparr>pb_entries := (pb_entries ?pb1)[k := ?e]\<rparr>"
    have same: "pb_entries pb ! k = es0 ! k" using "2.prems"(4) by simp
    have "entry_ready es0 (es0 ! k)"
      using False same dependencies_back [OF "2.prems"(1)] by (auto simp: entry_ready_def)
    then have "kept_or_started es0 (es0 ! k) ?e" by (simp add: kept_or_started_def same answered_state)
    then have "list_all2 (kept_or_started es0) es0 (pb_entries ?pb2)"
      using "2.prems"(1,3) by (simp add: list_all2_conv_all_nth nth_list_update)
    moreover have "pb_entries ?pb2 ! j = es0 ! j" if "j \<in> set ks" for j
    proof -
      have "j \<noteq> k" using that "2.prems"(2) by auto
      then show ?thesis using that "2.prems"(4) by simp
    qed
    moreover have "start_entries stamp dispatch now limit ks (fresh \<or> kept) (if starts a then active + 1 else active) ?pb2 w1
        = (pb', active', w')"
      using "2.prems"(5) False ctx a by (simp add: Let_def)
    ultimately show ?thesis
      using "2.IH"(2) [OF _ _ refl ctx [symmetric] refl refl a [symmetric] refl refl] False "2.prems"(2,3) by auto
  qed
qed simp

lemma advance_kept:
  "list_all2 (kept_or_started (pb_entries (refresh_playbook runs now pb))) (pb_entries (refresh_playbook runs now pb))
     (pb_entries (fst (advance_playbook_doc stamp dispatch runs now pb w)))"
proof -
  let ?pb = "refresh_playbook runs now pb"
  let ?es = "pb_entries ?pb"
  have same: "list_all2 (kept_or_started ?es) ?es ?es" by (rule list_all2_refl) (simp add: kept_or_started_def)
  obtain pb' active w' where start: "start_entries stamp dispatch now (playbook_limit ?pb) [0..<length ?es] False
      (running_entries ?es) ?pb w = (pb', active, w')" by (metis prod_cases3)
  have "list_all2 (kept_or_started ?es) ?es (pb_entries pb')"
    by (rule start_kept [OF same _ _ _ start]) auto
  with same start show ?thesis by (simp add: advance_playbook_doc_def Let_def)
qed


section \<open>Entries that never start\<close>

definition stuck_entry :: "string set \<Rightarrow> playbook_entry \<Rightarrow> bool" where
  "stuck_entry S e \<longleftrightarrow>
     py_state e = ''pending'' \<and> py_run_id e = None \<and> py_run_ref e = None \<and> (\<exists>dep \<in> set (py_depends e). dep \<in> S)"

definition stuck_in :: "string set \<Rightarrow> playbook_entry list \<Rightarrow> bool" where
  "stuck_in S es \<longleftrightarrow> (\<forall>e \<in> set es. py_id e \<in> S \<longrightarrow> stuck_entry S e)"

lemma refresh_stuck: "stuck_entry S e \<Longrightarrow> refresh_entry project runs now e = e"
  by (simp add: stuck_entry_def refresh_entry_def entry_run_def)

lemma refresh_id [simp]: "py_id (refresh_entry project runs now e) = py_id e"
  by (simp add: refresh_entry_def Let_def split: option.split)

lemma stuck_not_ready:
  assumes "stuck_in S es" "stuck_entry S e"
  shows "\<not> entry_ready es e"
proof
  assume "entry_ready es e"
  moreover obtain dep where "dep \<in> set (py_depends e)" "dep \<in> S" using assms(2) by (auto simp: stuck_entry_def)
  ultimately obtain c where c: "map_of (rev (map (\<lambda>c. (py_id c, c)) es)) dep = Some c" "py_state c = ''succeeded''"
    by (auto simp: entry_ready_def dependencies_met_def list_all_iff split: option.splits)
  from map_of_SomeD [OF c(1)] have "c \<in> set es" "py_id c = dep" by auto
  with assms(1) \<open>dep \<in> S\<close> have "stuck_entry S c" by (auto simp: stuck_in_def)
  with c(2) show False by (simp add: stuck_entry_def)
qed

lemma advance_stuck:
  assumes "stuck_in S (pb_entries pb)" "e \<in> set (pb_entries pb)" "py_id e \<in> S"
  shows "e \<in> set (pb_entries (fst (advance_playbook_doc stamp dispatch runs now pb w)))"
    "stuck_in S (pb_entries (fst (advance_playbook_doc stamp dispatch runs now pb w)))"
proof -
  let ?es = "pb_entries (refresh_playbook runs now pb)" and ?new = "pb_entries (fst (advance_playbook_doc stamp dispatch runs now pb w))"
  have es: "?es = map (refresh_entry (pb_project pb) runs now) (pb_entries pb)" by (simp add: refresh_playbook_def)
  have refreshed: "stuck_in S ?es"
    using assms(1) by (auto simp: stuck_in_def es refresh_stuck)
  have "refresh_entry (pb_project pb) runs now e = e" by (rule refresh_stuck [of S]) (use assms in \<open>simp add: stuck_in_def\<close>)
  with assms(2) have e: "e \<in> set ?es" by (force simp: es)
  have same: "?new ! k = ?es ! k" if "k < length ?es" "py_id (?es ! k) \<in> S" for k
  proof -
    have "stuck_entry S (?es ! k)" using refreshed that by (simp add: stuck_in_def)
    with stuck_not_ready [OF refreshed] list_all2_nthD [OF advance_kept that(1), of stamp dispatch w] show ?thesis
      by (auto simp: kept_or_started_def)
  qed
  have len: "length ?new = length ?es" by (rule list_all2_lengthD [OF advance_kept, symmetric])
  have ids: "py_id (?new ! k) = py_id (?es ! k)" if "k < length ?es" for k
    by (rule kept_id [OF list_all2_nthD [OF advance_kept that]])
  show "e \<in> set ?new" using e same assms(3) len by (metis in_set_conv_nth)
  show "stuck_in S ?new"
    unfolding stuck_in_def
  proof (intro ballI impI)
    fix x assume "x \<in> set ?new" "py_id x \<in> S"
    then obtain k where "k < length ?es" "x = ?new ! k" using len by (metis in_set_conv_nth)
    with same ids \<open>py_id x \<in> S\<close> refreshed show "stuck_entry S x" by (simp add: stuck_in_def)
  qed
qed

definition advances ::
  "(string \<Rightarrow> string) \<Rightarrow> ('w dispatcher \<times> ledger_run list \<times> string) list \<Rightarrow> playbook \<times> 'w \<Rightarrow> playbook \<times> 'w" where
  "advances stamp steps s =
     foldl (\<lambda>(pb, w) (dispatch, runs, now). advance_playbook_doc stamp dispatch runs now pb w) s steps"

text \<open>
  A playbook whose entries depend on each other in a circle is accepted, and none of these
  entries ever starts: however often the playbook is advanced, with whatever runs and dispatches,
  they are still waiting, so the playbook never succeeds.
\<close>
theorem dependency_circle_never_starts:
  assumes "create_playbook known stamp i now0 q tbl = Inr (pb, tbl')"
    and "\<forall>e \<in> set (pq_entries q). eq_id e \<in> S \<longrightarrow> (\<exists>dep \<in> set (eq_depends e). dep \<in> S)"
    and "e \<in> set (pb_entries pb)" and "py_id e \<in> S"
  shows "e \<in> set (pb_entries (fst (advances stamp steps (pb, w)))) \<and> py_state e = ''pending'' \<and>
    \<not> all_succeeded (pb_entries (fst (advances stamp steps (pb, w))))"
proof -
  have pb: "pb_entries pb = map new_entry (pq_entries q)"
    using assms(1) by (auto simp: create_playbook_def new_playbook_def Let_def split: option.splits if_splits)
  then have start: "stuck_in S (pb_entries pb)"
    using assms(2) by (auto simp: stuck_in_def stuck_entry_def new_entry_def)
  have "e \<in> set (pb_entries (fst (advances stamp steps s))) \<and> stuck_in S (pb_entries (fst (advances stamp steps s)))"
    if "e \<in> set (pb_entries (fst s))" "stuck_in S (pb_entries (fst s))" for s
    using that
  proof (induction steps arbitrary: s)
    case (Cons st steps)
    obtain pb0 w0 where s: "s = (pb0, w0)" by fastforce
    obtain dispatch runs now where st: "st = (dispatch, runs, now)" by (cases st)
    let ?s = "advance_playbook_doc stamp dispatch runs now pb0 w0"
    have "e \<in> set (pb_entries (fst ?s))" "stuck_in S (pb_entries (fst ?s))"
      using advance_stuck [of S pb0 e] Cons.prems assms(4) s by auto
    from Cons.IH [OF this] show ?case by (simp add: advances_def s st)
  qed (simp add: advances_def)
  with assms(3) start have final: "e \<in> set (pb_entries (fst (advances stamp steps (pb, w))))" by simp
  have "py_state e = ''pending''" using assms(3) by (auto simp: pb new_entry_def)
  moreover from this final have "\<not> all_succeeded (pb_entries (fst (advances stamp steps (pb, w))))"
    by (fastforce simp: all_succeeded_def list_all_iff)
  ultimately show ?thesis using final by blast
qed

lemma start_ready:
  assumes "active < limit" "entry_ready (pb_entries pb) (pb_entries pb ! k)"
    and "work_context_for pb fresh (pb_entries pb ! k) = (ctx, kept)"
    and "pb1 = (if kept then pb\<lparr>pb_meta := vset ''work_context'' (context_value ctx) (pb_meta pb)\<rparr> else pb)"
    and "dispatch (dispatch_of_entry stamp pb1 (pb_entries pb ! k) ctx) w = (a, w1)"
  shows "start_entries stamp dispatch now limit (k # ks) fresh active pb w =
    start_entries stamp dispatch now limit ks (fresh \<or> kept) (if starts a then active + 1 else active)
      (pb1\<lparr>pb_entries := (pb_entries pb)[k := answered_entry ctx a now (pb_entries pb ! k)]\<rparr>) w1"
  using assms(1,2,3,5) by (simp add: assms(4) [symmetric] Let_def)

text \<open>
  A dispatch that has to wait for a slot fails its playbook: the answer \<open>queued\<close> is not among
  those that count as started, so the entry is marked failed although its run waits in the queue
  and will be worked off, and the playbook fails with it.
\<close>
theorem queued_dispatch_fails_playbook:
  assumes "refresh_playbook runs now pb = pb" and "pb_state pb \<noteq> ''cancelled''"
    and "\<not> all_succeeded (pb_entries pb)" and "\<not> blocking_failure (pb_entries pb)"
    and "pb_entries pb = before @ e # after" and "\<forall>x \<in> set before. \<not> entry_ready (pb_entries pb) x"
    and "entry_ready (pb_entries pb) e" and "running_entries (pb_entries pb) < playbook_limit pb"
    and "\<And>x. fst (dispatch x w) =
      no_answer\<lparr>xa_state := reply_state (Answered Queued i), xa_issue_ref := Some ref, xa_run_id := Some i\<rparr>"
    and "i \<noteq> []"
  shows "\<exists>pb' w' e'. advance_playbook_doc stamp dispatch runs now pb w = (pb', w') \<and> pb_state pb' = ''failed'' \<and>
    pb_entries pb' ! length before = e' \<and> py_state e' = ''failed'' \<and> py_run_id e' = Some i"
proof -
  let ?es = "pb_entries pb" and ?k = "length before" and ?limit = "playbook_limit pb" and ?active = "running_entries (pb_entries pb)"
  have skip: "start_entries stamp dispatch now ?limit ks False ?active pb w = start_entries stamp dispatch now ?limit (dropWhile (\<lambda>j. j < ?k) ks) False ?active pb w"
    for ks
  proof (induction ks)
    case (Cons j ks)
    have "\<not> entry_ready ?es (?es ! j)" if "j < ?k"
      using that assms(5,6) by (simp add: nth_append)
    with Cons assms(8) show ?case by simp
  qed simp
  have range: "dropWhile (\<lambda>j. j < ?k) [0..<length ?es] = ?k # [Suc ?k..<length ?es]"
  proof -
    have k: "?k < length ?es" using assms(5) by simp
    then have "[0..<length ?es] = [0..<?k] @ [?k..<length ?es]" using upt_add_eq_append [of 0 ?k "length ?es - ?k"] by simp
    then have split: "[0..<length ?es] = [0..<?k] @ ?k # [Suc ?k..<length ?es]" using upt_conv_Cons [OF k] by (rule subst [rotated])
    have "dropWhile (\<lambda>j. j < ?k) ([0..<?k] @ ?k # [Suc ?k..<length ?es]) = ?k # [Suc ?k..<length ?es]"
      by (subst dropWhile_append2) simp_all
    then show ?thesis by (simp only: split)
  qed
  have at_k: "?es ! ?k = e" using assms(5) by simp
  obtain ctx kept where ctx: "work_context_for pb False e = (ctx, kept)" by fastforce
  obtain pb1 where pb1: "pb1 = (if kept then pb\<lparr>pb_meta := vset ''work_context'' (context_value ctx) (pb_meta pb)\<rparr> else pb)" by blast
  then have es1: "pb_entries pb1 = ?es" by simp
  obtain a w1 where a: "dispatch (dispatch_of_entry stamp pb1 e ctx) w = (a, w1)" by fastforce
  have answer: "a = no_answer\<lparr>xa_state := reply_state (Answered Queued i), xa_issue_ref := Some ref, xa_run_id := Some i\<rparr>"
    using assms(9) [of "dispatch_of_entry stamp pb1 e ctx"] a by simp
  let ?e = "answered_entry ctx a now e"
  let ?pb2 = "pb1\<lparr>pb_entries := ?es[?k := ?e]\<rparr>"
  have not_started: "\<not> starts a" by (simp add: starts_def answer)
  obtain pb' active' w' where rest: "start_entries stamp dispatch now ?limit [Suc ?k..<length ?es] (False \<or> kept) ?active ?pb2 w1
      = (pb', active', w')" by (metis prod_cases3)
  have "start_entries stamp dispatch now ?limit (?k # [Suc ?k..<length ?es]) False ?active pb w =
      start_entries stamp dispatch now ?limit [Suc ?k..<length ?es] (False \<or> kept) (if starts a then ?active + 1 else ?active) ?pb2 w1"
    by (rule start_ready [where k = ?k and pb = pb and dispatch = dispatch and w = w and fresh = False and stamp = stamp, OF assms(8) _ _ pb1, unfolded at_k, OF assms(7) ctx a])
  also have "\<dots> = (pb', active', w')" by (simp only: not_started if_False rest)
  finally have "start_entries stamp dispatch now ?limit (?k # [Suc ?k..<length ?es]) False ?active pb w = (pb', active', w')" .
  then have start: "start_entries stamp dispatch now ?limit [0..<length ?es] False ?active pb w = (pb', active', w')"
    by (rule trans [OF skip [of "[0..<length ?es]", unfolded range]])
  have e: "py_state ?e = ''failed''" "py_run_id ?e = Some i"
    using not_started assms(10) by (simp_all add: answered_state) (simp add: answered_entry_def answer given_or_def Let_def no_answer_def)
  have "list_all2 (kept_or_started (pb_entries ?pb2)) (pb_entries ?pb2) (pb_entries pb')"
    by (rule start_kept [OF _ _ _ _ rest]) (auto intro: list_all2_refl simp: kept_or_started_def)
  moreover have k: "?k < length ?es" using assms(5) by simp
  ultimately have "kept_or_started (pb_entries ?pb2) ?e (pb_entries pb' ! ?k)"
    using list_all2_nthD by fastforce
  moreover have "\<not> entry_ready (pb_entries ?pb2) ?e" using e(1) by (auto simp: entry_ready_def entry_phase_def first_non_empty_def)
  ultimately have at_end: "pb_entries pb' ! ?k = ?e" by (simp add: kept_or_started_def)
  have "?k < length (pb_entries pb')"
    using list_all2_lengthD [OF \<open>list_all2 _ _ (pb_entries pb')\<close>] k by simp
  with at_end have "?e \<in> set (pb_entries pb')" by (metis nth_mem)
  with e(1) have failed: "blocking_failure (pb_entries pb')" "\<not> all_succeeded (pb_entries pb')"
    by (fastforce simp: blocking_failure_def all_succeeded_def list_ex_iff list_all_iff)+
  have "advance_playbook_doc stamp dispatch runs now pb w = (pb'\<lparr>pb_state := ''failed''\<rparr>, w')"
    using assms(1-4) start failed by (simp add: advance_playbook_doc_def settled_state_def Let_def)
  with at_end e show ?thesis by auto
qed

lemma recycled_stored:
  assumes "run_of_project project i store \<noteq> None"
  shows "\<exists>d. run_of_project project i (mark_recycled i now store @ rest) = Some d \<and> rn_state d = ''recycled''"
proof -
  have "\<exists>r. find (\<lambda>r. rn_project (lr_doc r) = project \<and> rn_id (lr_doc r) = i) (mark_recycled i now store @ rest) = Some r \<and>
      rn_state (lr_doc r) = ''recycled''"
    if "find (\<lambda>r. rn_project (lr_doc r) = project \<and> rn_id (lr_doc r) = i) store \<noteq> None"
    using that by (induction store) (auto simp: mark_recycled_def)
  with assms show ?thesis by (auto simp: run_of_project_def)
qed

text \<open>
  A retried run is lost to its playbook: the entry keeps the identifier of the run that has been
  recycled, no advance changes that entry any more, and it goes on holding a place in the
  playbook's limit.
\<close>
theorem recycled_run_blocks_entry:
  assumes "create_recycle_cycle dd scr wt i ref target carry prior j now0 store = (Inr r, store')"
    and "run_of_project (pb_project pb) i store \<noteq> None" and "i \<noteq> []"
    and "e \<in> set (pb_entries pb)" and "py_run_id e = Some i" and "py_state e = ''running''"
  shows "e \<in> set (pb_entries (fst (advance_playbook_doc stamp dispatch store' now pb w))) \<and>
    \<not> all_succeeded (pb_entries (fst (advance_playbook_doc stamp dispatch store' now pb w)))"
proof -
  let ?es = "pb_entries (refresh_playbook store' now pb)" and ?new = "pb_entries (fst (advance_playbook_doc stamp dispatch store' now pb w))"
  have "store' = mark_recycled i now0 store @ [r]"
    using assms(1) by (auto simp: create_recycle_cycle_def Let_def split: option.splits if_splits sum.splits)
  with recycled_stored [OF assms(2)] obtain d where d: "run_of_project (pb_project pb) i store' = Some d" "rn_state d = ''recycled''"
    by blast
  have "refresh_entry (pb_project pb) store' now e = e"
    using assms(3,5) d by (simp add: refresh_entry_def entry_run_def)
  then have "e \<in> set ?es" using assms(4) by (force simp: refresh_playbook_def)
  then obtain k where k: "k < length ?es" "?es ! k = e" by (metis in_set_conv_nth)
  have "?new ! k = e"
    using list_all2_nthD [OF advance_kept k(1), of stamp dispatch w] ready_not_running [of ?es e] assms(6) k(2)
    by (auto simp: kept_or_started_def)
  moreover have "length ?new = length ?es" by (rule list_all2_lengthD [OF advance_kept, symmetric])
  ultimately have "e \<in> set ?new" using k(1) by (metis nth_mem)
  moreover from this assms(6) have "\<not> all_succeeded ?new" by (fastforce simp: all_succeeded_def list_all_iff)
  ultimately show ?thesis by blast
qed

end
