(* ===== verification/TerminalOutcomes.thy ===== *)
theory TerminalOutcomes
  imports TerminalCauses
begin

text \<open>
  What the attribution of an aborted run guarantees, and where it goes wrong: every abort gets a
  class and a message, cleanup is never blamed, a failed dispatch is taken for a manual abort, and
  the repair is not idempotent.
\<close>

section \<open>Messages are not blank\<close>

lemma strip_heads_keeps:
  "s \<noteq> [] \<Longrightarrow> (\<And>w. w \<in> set ws \<Longrightarrow> w \<noteq> [] \<Longrightarrow> last w \<noteq> last s) \<Longrightarrow> strip_heads ws s \<noteq> []"
proof (induction ws s rule: strip_heads.induct)
  case (1 ws s)
  show ?case
  proof (cases "find (\<lambda>w. w \<noteq> [] \<and> prefix w s) ws")
    case None
    with "1.prems" show ?thesis by (simp add: strip_heads_stop)
  next
    case (Some v)
    then have v: "v \<in> set ws" "v \<noteq> []" "prefix v s" by (auto simp: find_Some_iff)
    then obtain t where t: "s = v @ t" by (auto elim: prefixE)
    have "t \<noteq> []" using "1.prems"(2) [OF v(1,2)] t by auto
    with "1.IH" [OF Some] "1.prems"(2) t Some show ?thesis by (simp add: strip_heads_step)
  qed
qed

lemma head_not_blank:
  assumes "c \<notin> set white_heads"
  shows "trim_space (c # s) \<noteq> []"
proof -
  have left: "trim_left (c # s) = c # s"
    using white_seq_head assms by (auto simp: trim_left_id_iff)
  have "strip_heads (map rev white_seqs) (rev (c # s)) \<noteq> []"
  proof (rule strip_heads_keeps)
    fix w assume "w \<in> set (map rev white_seqs)" "w \<noteq> []"
    then have "last w \<in> set white_heads" by (auto simp: white_seqs_def white_heads_def)
    with assms show "last w \<noteq> last (rev (c # s))" by auto
  qed simp
  then show ?thesis unfolding trim_space_def left trim_right_def by simp
qed

lemma plain_heads [simp]:
  "trim_space (CHR ''r'' # s) \<noteq> []" "trim_space (CHR ''p'' # s) \<noteq> []" "trim_space (CHR ''v'' # s) \<noteq> []"
  "trim_space (CHR ''e'' # s) \<noteq> []" "trim_space (CHR ''M'' # s) \<noteq> []" "trim_space (CHR ''m'' # s) \<noteq> []"
  "trim_space (CHR ''d'' # s) \<noteq> []" "trim_space (CHR ''g'' # s) \<noteq> []"
  by (rule head_not_blank, simp add: white_heads_def)+

lemma append_detail_not_blank:
  assumes "c \<notin> set white_heads"
  shows "trim_space (append_detail (c # s) detail) \<noteq> []"
  using assms by (simp add: append_detail_def head_not_blank Let_def)

lemma job_message_not_blank:
  "trim_space (append_detail (observation_message obs) detail) \<noteq> []"
  if "to_class obs \<in> set [''producer_phase_failed'', ''verifier_failed'', ''gate_failed'']"
  using that append_detail_not_blank [of "CHR ''p''"] append_detail_not_blank [of "CHR ''v''"]
    append_detail_not_blank [of "CHR ''e''"]
  by (auto simp: observation_message_def job_failure_message_def white_heads_def Let_def split: option.split)

section \<open>Every abort is attributed\<close>

definition attributed :: "terminal_observation \<Rightarrow> bool" where
  "attributed o1 \<longleftrightarrow> to_class o1 \<in> set terminal_classes \<and> trim_space (to_message o1) \<noteq> []"

lemma failed_job_attributed: "attributed (failed_job_observation d po a c src)"
proof -
  obtain jo so where e: "failed_execution (rn_execs d) (ad_phase a) (jc_job c) = (jo, so)" by fastforce
  obtain cause detail where f: "job_failure_cause a c = (cause, detail)" by fastforce
  show ?thesis
    using job_message_not_blank
    by (auto simp: failed_job_observation_def e f attributed_def terminal_classes_def Let_def split: option.split)
qed

lemma dispatch_attributed:
  "dispatch_failure_observation d reason src = Some o1 \<Longrightarrow> attributed (o1\<lparr>to_message := observation_message o1\<rparr>)"
  by (auto simp: dispatch_failure_observation_def attributed_def terminal_classes_def observation_message_def
      dispatch_failure_message_def Let_def split: if_splits option.splits)

lemma plain_attributed:
  "attributed (manual_observation reason src)" "attributed (malformed_observation a reason src)"
  by (simp_all add: attributed_def manual_observation_def malformed_observation_def terminal_classes_def Let_def)

lemma blamed_attributed: "attributed (blamed_observation d wkfo a reason src)"
proof (cases "trim_space (output_of (ad_outputs a) ''abort_reason'') = []")
  case False
  with append_detail_not_blank [of "CHR ''p''"] show ?thesis
    by (simp add: blamed_observation_def attributed_def terminal_classes_def white_heads_def Let_def)
next
  case True
  show ?thesis
  proof (cases "first_failed_completion (ad_completions a)")
    case (Some c)
    with True show ?thesis by (simp add: blamed_observation_def failed_job_attributed Let_def)
  next
    case None
    show ?thesis
    proof (cases "dispatch_failure_observation d reason src")
      case (Some o1)
      with True None show ?thesis by (simp add: blamed_observation_def dispatch_attributed Let_def)
    next
      case no: None
      have contract: "attributed (obs\<lparr>to_message := observation_message obs\<rparr>)" if "to_class obs = ''verifier_contract_missing''" for obs
        using that by (simp add: attributed_def terminal_classes_def observation_message_def Let_def)
      let ?obs = "\<lparr>to_class = ''verifier_contract_missing'', to_phase = ad_phase a, to_job = [], to_step = [],
        to_conclusion = ad_conclusion a, to_reason = ''verification_contract_missing'', to_exit = None,
        to_source = first_non_empty src ''decision_engine'', to_message = []\<rparr>"
      from True None no contract [of ?obs] plain_attributed show ?thesis
        by (auto simp: blamed_observation_def Let_def split: option.splits)
    qed
  qed
qed

lemma class_known: "cls \<in> set terminal_classes \<Longrightarrow> trim_space cls \<notin> {[], ''unknown''}"
proof -
  assume "cls \<in> set terminal_classes"
  moreover have "list_all (\<lambda>c. trim_space c \<noteq> [] \<and> trim_space c \<noteq> ''unknown'') terminal_classes" by code_simp
  ultimately show ?thesis by (auto simp: list_all_iff)
qed

lemma attributed_guard: "attributed o1 \<Longrightarrow> guard_observation (Some o1) st src reason = Some o1"
  using class_known by (auto simp: attributed_def guard_observation_def attribution_gaps_def)

lemma abort_attributed_aux:
  "\<exists>o1. terminal_observation_for_run d wkfo ''aborted'' reason src = Some o1 \<and> attributed o1"
  using plain_attributed blamed_attributed
  by (auto simp: terminal_observation_for_run_def Let_def split: option.split)

lemma observed_aborted: "observed d wkfo ''aborted'' reason src = terminal_observation_for_run d wkfo ''aborted'' reason src"
  using abort_attributed_aux [of d wkfo reason src] attributed_guard by (auto simp: observed_def)

text \<open>
  C19: Every aborted run gets its cause: whatever the run, the workflow and the reason are, the
  observation is derived with one of the eight known classes and a message that is not blank, so
  the guard behind it never has to replace it, and the text stored as the reason of the abort is
  never blank.
\<close>
theorem abort_always_attributed:
  "\<exists>o1. terminal_observation_for_run d wkfo ''aborted'' reason src = Some o1 \<and>
     observed d wkfo ''aborted'' reason src = Some o1 \<and> to_class o1 \<in> set terminal_classes \<and>
     trim_space (to_message o1) \<noteq> [] \<and> trim_space (abort_text d given) \<noteq> [] \<and>
     (\<exists>r. end_reason d wkfo ''aborted'' reason = Some r \<and> trim_space r \<noteq> [])"
proof -
  obtain o1 where o1: "terminal_observation_for_run d wkfo ''aborted'' reason src = Some o1" "attributed o1"
    using abort_attributed_aux by blast
  obtain o2 where o2: "observed d None ''aborted'' (if trim_space given = [] then None else Some given) ''admin_abort'' = Some o2" "attributed o2"
    unfolding observed_aborted using abort_attributed_aux by blast
  obtain o3 where o3: "observed d wkfo ''aborted'' reason ''completion_callback'' = Some o3" "attributed o3"
    unfolding observed_aborted using abort_attributed_aux by blast
  have "trim_space (abort_text d given) \<noteq> []"
    using o2 by (simp add: abort_text_def attributed_def Let_def)
  moreover have "\<exists>r. end_reason d wkfo ''aborted'' reason = Some r \<and> trim_space r \<noteq> []"
    using o3 by (cases reason) (auto simp: end_reason_def attributed_def)
  ultimately show ?thesis using o1 by (simp add: observed_aborted attributed_def)
qed

section \<open>Who is blamed\<close>

lemma find_member: "find P xs = Some x \<Longrightarrow> x \<in> set xs \<and> P x"
  by (auto simp: find_Some_iff)

lemma cause_attempt_sound:
  assumes "terminal_cause_attempt d wkfo = Some a"
  shows "a \<in> set (rn_attempts d) \<and> \<not> attempt_is_teardown wkfo (ad_phase a) \<and>
    (is_terminal_abort_decision (ad_decision a) \<or> (ad_conclusion a \<noteq> [] \<and> \<not> is_advance_conclusion (ad_conclusion a)))"
  using assms
  by (auto simp: terminal_cause_attempt_def Let_def split: option.splits dest!: find_member)

lemma cause_attempt_none:
  "terminal_cause_attempt d wkfo = None \<longleftrightarrow>
     (\<forall>a \<in> set (rn_attempts d). attempt_is_teardown wkfo (ad_phase a) \<or>
        (\<not> is_terminal_abort_decision (ad_decision a) \<and> (ad_conclusion a = [] \<or> is_advance_conclusion (ad_conclusion a))))"
  unfolding terminal_cause_attempt_def Let_def
  by (auto simp: find_None_iff split: option.split dest!: find_member)

lemma blamed_phase:
  assumes "to_class (blamed_observation d wkfo a reason src) \<noteq> ''dispatch_failed''"
  shows "to_phase (blamed_observation d wkfo a reason src) = ad_phase a"
  using assms
  by (auto simp: blamed_observation_def failed_job_observation_def malformed_observation_def dispatch_failure_observation_def
      Let_def split: option.splits prod.splits if_splits)


text \<open>
  A dispatch that fails is not attributed to the dispatch: as long as every attempt of the run
  has advanced or is unfinished, which is how a run looks when its next phase cannot be launched,
  the abort is recorded as a manual one without a phase, and the reason is only kept as text.
\<close>
theorem dispatch_failure_called_manual:
  assumes "\<forall>a \<in> set (rn_attempts d). ad_decision a \<in> {[], ''advance''} \<and> (ad_conclusion a = [] \<or> is_advance_conclusion (ad_conclusion a))"
    and "trim_space reason \<noteq> []"
  shows "observed d wkfo ''aborted'' (Some reason) src = Some (manual_observation reason src) \<and>
    to_class (manual_observation reason src) = ''manual_abort'' \<and> to_phase (manual_observation reason src) = [] \<and>
    abort_text d reason = ''run aborted: '' @ trim_space reason"
proof -
  have "\<not> is_terminal_abort_decision v" if "v \<in> {[], ''advance''}" for v :: string
    using that by (auto simp: is_terminal_abort_decision_def)
  with assms(1) have none: "terminal_cause_attempt d w = None" for w
    by (auto simp: cause_attempt_none)
  then show ?thesis
    using assms(2)
    by (simp add: observed_aborted terminal_observation_for_run_def manual_observation_def abort_text_def first_non_empty_def Let_def)
qed

section \<open>The repair\<close>

lemma repair_manual:
  assumes "rn_state d = ''aborted''" "terminal_cause_attempt d wkfo = None" "rn_abort d = Some r" "trim_space r = r" "r \<noteq> []"
  shows "\<exists>o1. repair_observation wkfo now (d, obs) =
    (True, d\<lparr>rn_abort := Some (''run aborted: '' @ r), rn_updated := now\<rparr>, Some o1)"
  using assms
  by (auto simp: repair_observation_def observed_aborted terminal_observation_for_run_def manual_observation_def first_non_empty_def Let_def)

lemma white_seq_blank: "w \<in> set white_seqs \<Longrightarrow> CHR '' '' \<in> set w \<Longrightarrow> w = '' ''"
  by (auto simp: white_seqs_def)

lemma strip_rev_kept:
  assumes "trim_right r = r" "r \<noteq> []"
  shows "trim_right (p @ '' '' @ r) = p @ '' '' @ r"
proof -
  have "strip_heads (map rev white_seqs) (rev r @ '' '' @ rev p) = rev r @ '' '' @ rev p"
  proof (rule strip_heads_id)
    fix w assume w: "w \<in> set (map rev white_seqs)" "w \<noteq> []"
    have own: "\<not> prefix w (rev r)"
      using strip_heads_no_head [OF w, of "rev r"] assms(1) by (metis trim_right_def rev_rev_ident)
    show "\<not> prefix w (rev r @ '' '' @ rev p)"
    proof
      assume "prefix w (rev r @ '' '' @ rev p)"
      with own obtain z where z: "w = rev r @ z" "prefix z ('' '' @ rev p)" by (auto simp: prefix_append)
      with own have "z \<noteq> []" by auto
      with z(2) have "CHR '' '' \<in> set w" by (cases z) (auto simp: z(1))
      moreover have "rev w \<in> set white_seqs" using w by auto
      ultimately have "rev w = '' ''" using white_seq_blank by (metis set_rev)
      then have "w = '' ''" by (metis rev_rev_ident rev_singleton_conv)
      with z(1) \<open>z \<noteq> []\<close> assms(2) show False by (cases "rev r") auto
    qed
  qed
  then show ?thesis by (simp add: trim_right_def)
qed

lemma prefixed_trimmed:
  assumes "trim_space r = r" "r \<noteq> []"
  shows "trim_space (''run aborted: '' @ r) = ''run aborted: '' @ r"
proof -
  have "trim_right r = r" using assms(1) by (metis trim_right_idem trim_space_def)
  from strip_rev_kept [OF this assms(2), of "''run aborted:''"] have "trim_right (''run aborted: '' @ r) = ''run aborted: '' @ r" by simp
  moreover have "trim_left (''run aborted: '' @ r) = ''run aborted: '' @ r"
    using white_seq_head by (auto simp: trim_left_id_iff white_heads_def)
  ultimately show ?thesis by (simp only: trim_space_def)
qed

definition grown :: "nat \<Rightarrow> string \<Rightarrow> string" where
  "grown n r = concat (replicate n ''run aborted: '') @ r"

lemma grown_trimmed: "trim_space r = r \<Longrightarrow> r \<noteq> [] \<Longrightarrow> trim_space (grown n r) = grown n r \<and> grown n r \<noteq> []"
proof (induction n)
  case (Suc n)
  then show ?case using prefixed_trimmed [of "grown n r"] by (simp add: grown_def)
qed (simp add: grown_def)

text \<open>
  Repairing the observation of a manually aborted run is not idempotent: every repair finds
  something to change and puts one more \<open>run aborted: \<close> in front of the stored reason, because it
  takes the message of the observation before for the reason of the abort.
\<close>
theorem repair_grows_reason:
  assumes "rn_state d = ''aborted''" and "terminal_cause_attempt d wkfo = None"
    and "rn_abort d = Some r" and "trim_space r = r" and "r \<noteq> []"
  shows "rn_abort (fst (((\<lambda>x. snd (repair_observation wkfo now x)) ^^ n) (d, obs))) = Some (grown n r) \<and>
    fst (repair_observation wkfo now (((\<lambda>x. snd (repair_observation wkfo now x)) ^^ n) (d, obs)))"
proof -
  let ?step = "\<lambda>x. snd (repair_observation wkfo now x)"
  have "\<exists>d' obs'. (?step ^^ n) (d, obs) = (d', obs') \<and> rn_state d' = ''aborted'' \<and> rn_attempts d' = rn_attempts d \<and>
      rn_abort d' = Some (grown n r)"
  proof (induction n)
    case 0
    then show ?case using assms by (simp add: grown_def)
  next
    case (Suc n)
    then obtain d' obs' where d': "(?step ^^ n) (d, obs) = (d', obs')" "rn_state d' = ''aborted''"
      "rn_attempts d' = rn_attempts d" "rn_abort d' = Some (grown n r)" by blast
    have "terminal_cause_attempt d' wkfo = None" using assms(2) d'(3) by (simp add: terminal_cause_attempt_def)
    from repair_manual [OF d'(2) this d'(4), of now obs'] grown_trimmed [OF assms(4,5), of n] d'
    show ?case by (auto simp: grown_def)
  qed
  then obtain d' obs' where d': "(?step ^^ n) (d, obs) = (d', obs')" "rn_state d' = ''aborted''"
      "rn_attempts d' = rn_attempts d" "rn_abort d' = Some (grown n r)" by blast
  have "terminal_cause_attempt d' wkfo = None" using assms(2) d'(3) by (simp add: terminal_cause_attempt_def)
  from repair_manual [OF d'(2) this d'(4), of now obs'] grown_trimmed [OF assms(4,5), of n] d'
  show ?thesis by auto
qed

end
