(* ===== verification/AdmissionSafety.thy ===== *)
theory AdmissionSafety
  imports Dispatch RunStoreSafety
begin

text \<open>
  What the admission of a run guarantees: a dispatched run is started and launched, the queue is
  worked off in order, and, for every lease store that keeps the contract below, an admission
  that does not end in a dispatched run leaves no lease behind.
\<close>

section \<open>Rows of the table\<close>

lemma row_by_id_Some: "row_by_id i runs = Some r \<Longrightarrow> rn_id (lr_doc r) = i \<and> r \<in> set runs"
  unfolding row_by_id_def by (drule find_result_in) simp

lemma run_by_id_Some: "run_by_id i runs = Some d \<Longrightarrow> rn_id d = i"
  by (auto simp: run_by_id_def dest!: row_by_id_Some)

lemma run_by_id_put:
  assumes "rn_id d = i"
  shows "run_by_id j (put_run i d runs) = (if j = i then map_option (\<lambda>_. d) (run_by_id i runs) else run_by_id j runs)"
  using assms by (induction runs) (auto simp: run_by_id_def row_by_id_def put_run_def)

lemma put_run_ids [simp]: "rn_id d = i \<Longrightarrow> map (\<lambda>r. rn_id (lr_doc r)) (put_run i d runs) = map (\<lambda>r. rn_id (lr_doc r)) runs"
  by (auto simp: put_run_def)

text \<open>Between two tables only the document of one run may differ.\<close>

definition same_row :: "string \<Rightarrow> ledger_run \<Rightarrow> ledger_run \<Rightarrow> bool" where
  "same_row i r r' \<longleftrightarrow> (if rn_id (lr_doc r) = i then \<exists>d. r' = r\<lparr>lr_doc := d\<rparr> \<and> rn_id d = i else r' = r)"

definition only_changes :: "string \<Rightarrow> ledger_run list \<Rightarrow> ledger_run list \<Rightarrow> bool" where
  "only_changes i before after \<longleftrightarrow> list_all2 (same_row i) before after"

lemma same_row_refl [simp]: "same_row i r r"
  by (auto simp: same_row_def intro: exI [of _ "lr_doc r"])

lemma same_row_trans: "same_row i a b \<Longrightarrow> same_row i b c \<Longrightarrow> same_row i a c"
  by (auto simp: same_row_def split: if_splits)

lemma only_changes_refl [simp]: "only_changes i s s"
  by (simp add: only_changes_def list_all2_refl)

lemma only_changes_trans: "only_changes i s t \<Longrightarrow> only_changes i t u \<Longrightarrow> only_changes i s u"
  unfolding only_changes_def by (rule list_all2_trans [OF same_row_trans])

lemma only_changes_put: "rn_id d = i \<Longrightarrow> only_changes i s (put_run i d s)"
  by (auto simp: only_changes_def put_run_def list_all2_conv_all_nth same_row_def)

lemma only_changes_other: "only_changes i s t \<Longrightarrow> j \<noteq> i \<Longrightarrow> run_by_id j t = run_by_id j s"
  unfolding only_changes_def run_by_id_def row_by_id_def
  by (induction rule: list_all2_induct) (auto simp: same_row_def split: if_splits)

lemma only_changes_fresh:
  assumes "only_changes i (s @ [r]) t" "\<forall>x \<in> set s. rn_id (lr_doc x) \<noteq> i"
  obtains r' where "t = s @ [r']" "same_row i r r'"
proof -
  obtain u r' where t: "t = u @ [r']" "list_all2 (same_row i) s u" "same_row i r r'"
    using assms(1) by (auto simp: only_changes_def list_all2_append1 list_all2_Cons1)
  from t(2) assms(2) have "u = s"
    by (induction rule: list_all2_induct) (auto simp: same_row_def)
  with t that show thesis by simp
qed

text \<open>The operations keep the identity of a run.\<close>

lemma kept_ids [simp]:
  "rn_id (abort_patch reason now d) = rn_id d" "rn_id (abort_run seen reason now d) = rn_id d"
  "rn_id (record_runner_jobs_dispatched phase jobs now d) = rn_id d"
  by (simp_all add: abort_patch_def abort_run_def record_runner_jobs_dispatched_def)

lemma started_parts:
  assumes "start_run_cycle phase kind wff lease now d = Inr d'"
  shows "rn_state d = ''queued'' \<and> list_all carried (rn_attempts d) \<and> rn_id d' = rn_id d \<and> rn_project d' = rn_project d \<and>
    rn_state d' = ''in_progress'' \<and> rn_queue d' = ''admitted'' \<and> rn_slot_lease d' = Some lease \<and>
    rn_attempts d' = rn_attempts d @ [new_attempt (next_index (rn_attempts d)) phase kind wff now] \<and>
    rn_issue d' = rn_issue d"
  using assms by (auto simp: start_run_cycle_def append_run_attempt_def add_attempt_def split: if_splits)

lemma map_update_last: "(\<And>x. g (f x) = g x) \<Longrightarrow> map g (update_last f xs) = map g xs"
  by (cases xs rule: rev_cases) (simp_all add: update_last_def)

lemma skipped_parts:
  assumes "record_runner_jobs_skipped phase skipped now d = Inr d'"
  shows "rn_id d' = rn_id d \<and> rn_project d' = rn_project d \<and> rn_state d' = rn_state d \<and> rn_queue d' = rn_queue d \<and>
    rn_slot_lease d' = rn_slot_lease d \<and>
    map attempt_doc.ad_phase (rn_attempts d') = map attempt_doc.ad_phase (rn_attempts d) \<and> rn_issue d' = rn_issue d"
  using assms
  by (auto simp: record_runner_jobs_skipped_def edit_last_def map_update_last split: if_splits)

lemma dispatched_parts:
  "rn_project (record_runner_jobs_dispatched phase jobs now d) = rn_project d"
  "rn_state (record_runner_jobs_dispatched phase jobs now d) = rn_state d"
  "rn_queue (record_runner_jobs_dispatched phase jobs now d) = rn_queue d"
  "rn_slot_lease (record_runner_jobs_dispatched phase jobs now d) = rn_slot_lease d"
  "rn_attempts (record_runner_jobs_dispatched phase jobs now d) = rn_attempts d"
  "rn_issue (record_runner_jobs_dispatched phase jobs now d) = rn_issue d"
  by (simp_all add: record_runner_jobs_dispatched_def)

lemma patch_run_Inr:
  assumes "patch_run i f runs = Inr runs'" and "\<And>d d'. f d = Inr d' \<Longrightarrow> rn_id d' = rn_id d"
  obtains d d' where "run_by_id i runs = Some d" "f d = Inr d'" "run_by_id i runs' = Some d'" "rn_id d' = i"
    "only_changes i runs runs'" "runs' = put_run i d' runs"
proof -
  obtain d d' where d: "run_by_id i runs = Some d" "f d = Inr d'" "runs' = put_run i d' runs"
    using assms(1) by (auto simp: patch_run_def split: option.splits sum.splits)
  have i: "rn_id d' = i" using assms(2) [OF d(2)] run_by_id_Some [OF d(1)] by simp
  show thesis
    by (rule that [OF d(1,2)]) (simp_all add: d i run_by_id_put only_changes_put)
qed

section \<open>What an admission changes\<close>

lemma abort_by_id_only: "only_changes i (as_runs st) (as_runs (snd (abort_by_id env ops cause i now st)))"
  by (auto simp: abort_by_id_def abort_by_reason_def Let_def only_changes_put row_by_id_Some split: option.split)

lemma give_back_runs [simp]: "as_runs (give_back ops run ref b st) = as_runs st" "as_locks (give_back ops run ref b st) = as_locks st"
  by (simp_all add: give_back_def)

lemma aborted_only:
  "only_changes i runs (as_runs st) \<Longrightarrow> only_changes i runs (as_runs (snd (abort_by_id env ops cause i now st)))"
  by (rule only_changes_trans [OF _ abort_by_id_only])

text \<open>
  A run that has been dispatched: its document is in progress on the lease, one attempt longer,
  and nothing else has changed.
\<close>

definition started_from :: "run_doc \<Rightarrow> phase_spec \<Rightarrow> string \<Rightarrow> run_doc \<Rightarrow> bool" where
  "started_from d p ref d' \<longleftrightarrow>
     rn_state d = ''queued'' \<and> rn_state d' = ''in_progress'' \<and> rn_queue d' = ''admitted'' \<and>
     rn_slot_lease d' = Some ref \<and> rn_project d' = rn_project d \<and> rn_id d' = rn_id d \<and> rn_issue d' = rn_issue d \<and>
     map attempt_doc.ad_phase (rn_attempts d') = map attempt_doc.ad_phase (rn_attempts d) @ [ps_name p]"

definition same_run :: "run_doc \<Rightarrow> run_doc \<Rightarrow> bool" where
  "same_run d d' \<longleftrightarrow>
     rn_state d' = rn_state d \<and> rn_queue d' = rn_queue d \<and> rn_slot_lease d' = rn_slot_lease d \<and>
     rn_project d' = rn_project d \<and> rn_id d' = rn_id d \<and> rn_issue d' = rn_issue d \<and>
     map attempt_doc.ad_phase (rn_attempts d') = map attempt_doc.ad_phase (rn_attempts d)"

lemma same_run_refl [simp]: "same_run d d"
  by (simp add: same_run_def)

lemma same_run_trans: "same_run a b \<Longrightarrow> same_run b c \<Longrightarrow> same_run a c"
  by (simp add: same_run_def)

lemma skips_recorded:
  assumes "(if skipped = [] then Inr runs else patch_run i (record_runner_jobs_skipped phase skipped now) runs) = Inr runs'"
    and "run_by_id i runs = Some d"
  shows "only_changes i runs runs' \<and> (\<exists>d'. run_by_id i runs' = Some d' \<and> same_run d d')"
proof (cases "skipped = []")
  case True
  with assms show ?thesis by auto
next
  case False
  with assms(1) have patch: "patch_run i (record_runner_jobs_skipped phase skipped now) runs = Inr runs'" by simp
  show ?thesis
  proof (rule patch_run_Inr [OF patch])
    show "rn_id d' = rn_id d" if "record_runner_jobs_skipped phase skipped now d = Inr d'" for d d'
      using skipped_parts [OF that] by simp
  next
    fix e e'
    assume "run_by_id i runs = Some e" "record_runner_jobs_skipped phase skipped now e = Inr e'"
      "run_by_id i runs' = Some e'" "only_changes i runs runs'"
    with assms(2) skipped_parts show ?thesis by (fastforce simp: same_run_def)
  qed
qed

lemma dispatched_recorded:
  assumes "run_by_id i runs = Some d"
  shows "\<exists>d'. run_by_id i (case patch_run i (\<lambda>d. Inr (record_runner_jobs_dispatched phase jobs now d)) runs of
              Inl _ \<Rightarrow> runs | Inr runs' \<Rightarrow> runs') = Some d' \<and> same_run d d'"
    and "only_changes i runs (case patch_run i (\<lambda>d. Inr (record_runner_jobs_dispatched phase jobs now d)) runs of
              Inl _ \<Rightarrow> runs | Inr runs' \<Rightarrow> runs')"
  using assms run_by_id_Some [OF assms]
  by (simp_all add: patch_run_def run_by_id_put same_run_def dispatched_parts only_changes_put)

lemma launch_entry_cases:
  assumes "launch_entry env ops wkf p started l ref acquired now st = (a, st')" "run_by_id (rd_id started) (as_runs st) = Some d"
  shows "only_changes (rd_id started) (as_runs st) (as_runs st') \<and>
    (case a of
       Dispatched h \<Rightarrow> h = ls_host l \<and> as_leases st' = as_leases st \<and> as_locks st' = as_locks st \<and>
         (\<exists>d'. run_by_id (rd_id started) (as_runs st') = Some d' \<and> same_run d d')
     | AdmissionDispatchFailed cause \<Rightarrow>
         (\<exists>st0 d0. st' = snd (abort_by_id env ops cause (rd_id started) now st0) \<and>
            run_by_id (rd_id started) (as_runs st0) = Some d0 \<and> same_run d d0 \<and> as_locks st0 = as_locks st \<and>
            only_changes (rd_id started) (as_runs st) (as_runs st0) \<and>
            (as_leases st0 = as_leases st \<or> as_leases st0 = as_leases (give_back ops started ref acquired st)))
     | _ \<Rightarrow> False)"
proof (cases "evaluate_phase_when p (when_context_of wkf started)")
  case (Inl e)
  have "only_changes (rd_id started) (as_runs st) (as_runs st')"
    using assms(1) Inl abort_by_id_only by (auto simp: launch_entry_def)
  moreover have "a = AdmissionDispatchFailed (EntryConditions e)"
    "st' = snd (abort_by_id env ops (EntryConditions e) (rd_id started) now st)"
    using assms(1) Inl by (simp_all add: launch_entry_def)
  ultimately show ?thesis using assms(2) by auto
next
  case (Inr outcome)
  let ?skipped = "entry_skips outcome"
  let ?noted = "if ?skipped = [] then Inr (as_runs st)
    else patch_run (rd_id started) (record_runner_jobs_skipped (ps_name p) ?skipped now) (as_runs st)"
  show ?thesis
  proof (cases ?noted)
    case err: (Inl e)
    have "a = AdmissionDispatchFailed SkipsNotRecorded"
      "st' = snd (abort_by_id env ops SkipsNotRecorded (rd_id started) now st)"
      using assms(1) Inr err by (auto simp: launch_entry_def Let_def)
    with assms(2) abort_by_id_only show ?thesis by auto
  next
    case runs: (Inr runs)
    from skips_recorded [OF runs assms(2)] obtain d1
      where d1: "only_changes (rd_id started) (as_runs st) runs" "run_by_id (rd_id started) runs = Some d1" "same_run d d1"
      by blast
    let ?st1 = "st\<lparr>as_runs := runs\<rparr>"
    have step: "launch_entry env ops wkf p started l ref acquired now st =
        (case en_launch env l p started ?skipped of
           Inl e \<Rightarrow> (AdmissionDispatchFailed (EntryNotLaunched e),
              snd (abort_by_id env ops (EntryNotLaunched e) (rd_id started) now (give_back ops started ref acquired ?st1)))
         | Inr jobs \<Rightarrow> (Dispatched (ls_host l),
              ?st1\<lparr>as_runs := (case patch_run (rd_id started)
                  (\<lambda>d. Inr (record_runner_jobs_dispatched (ps_name p) (launched_jobs jobs) now d)) runs of
                    Inl _ \<Rightarrow> runs | Inr runs' \<Rightarrow> runs')\<rparr>))"
      by (simp only: launch_entry_def Inr runs sum.simps Let_def)
    show ?thesis
    proof (cases "en_launch env l p started ?skipped")
      case (Inl e)
      let ?st0 = "give_back ops started ref acquired ?st1"
      have "a = AdmissionDispatchFailed (EntryNotLaunched e)"
        "st' = snd (abort_by_id env ops (EntryNotLaunched e) (rd_id started) now ?st0)"
        using assms(1) step Inl by simp_all
      moreover have "as_leases ?st0 = as_leases (give_back ops started ref acquired st)"
        by (simp add: give_back_def)
      moreover have "run_by_id (rd_id started) (as_runs ?st0) = Some d1" using d1(2) by simp
      moreover have "only_changes (rd_id started) (as_runs st) (as_runs ?st0)" using d1(1) by simp
      moreover have "only_changes (rd_id started) (as_runs st)
          (as_runs (snd (abort_by_id env ops (EntryNotLaunched e) (rd_id started) now ?st0)))"
        by (rule aborted_only) (simp add: d1(1))
      ultimately show ?thesis using d1(3) by fastforce
    next
      case (Inr jobs)
      note sent = dispatched_recorded [OF d1(2), of "ps_name p" "launched_jobs jobs" now]
      from sent(1) obtain d2 where "run_by_id (rd_id started) (as_runs st') = Some d2" "same_run d1 d2"
        using assms(1) step Inr by auto
      moreover have "only_changes (rd_id started) (as_runs st) (as_runs st')"
        using assms(1) step Inr only_changes_trans [OF d1(1) sent(2)] by auto
      ultimately show ?thesis
        using assms(1) step Inr d1(3) same_run_trans by auto
    qed
  qed
qed

lemma admit_started:
  assumes "start_run_cycle (ps_name p) kind wff ref now d = Inr d'"
  shows "started_from d p ref d'"
  using started_parts [OF assms] by (auto simp: started_from_def new_attempt_def)

lemma started_same: "started_from d p ref d' \<Longrightarrow> same_run d' d'' \<Longrightarrow> started_from d p ref d''"
  by (simp add: started_from_def same_run_def)

lemma admit_with_lease_cases:
  assumes "admit_with_lease env ops wkf p run l ref acquired now st = (res, st')"
  shows "only_changes (rd_id run) (as_runs st) (as_runs st') \<and>
    (case res of
       Inr (Dispatched h) \<Rightarrow> ls_state l = ''claimed'' \<and> h = ls_host l \<and> as_leases st' = as_leases st \<and>
         as_locks st' = as_locks st \<and>
         (\<exists>d d'. run_by_id (rd_id run) (as_runs st) = Some d \<and> run_by_id (rd_id run) (as_runs st') = Some d' \<and>
            started_from d p ref d')
     | Inr (AdmissionDispatchFailed cause) \<Rightarrow>
         (\<exists>st0. st' = snd (abort_by_id env ops cause (rd_id run) now st0) \<and> as_locks st0 = as_locks st \<and>
            ((as_runs st0 = as_runs st \<and> as_leases st0 = as_leases (give_back ops run ref acquired st)) \<or>
             (\<exists>d d0. run_by_id (rd_id run) (as_runs st) = Some d \<and> run_by_id (rd_id run) (as_runs st0) = Some d0 \<and>
                started_from d p ref d0 \<and>
                (as_leases st0 = as_leases st \<or> as_leases st0 = as_leases (give_back ops run ref acquired st)))))
     | Inr AlreadyAdmitted \<Rightarrow> st' = give_back ops run ref acquired st
     | Inl e \<Rightarrow> e = StartFailed \<and>
         st' = snd (abort_by_id env ops CycleNotStarted (rd_id run) now (give_back ops run ref acquired st))
     | _ \<Rightarrow> False)"
proof (cases "ls_state l = ''claimed''")
  case False
  let ?cause = "LeaseNotClaimed (ls_state l) (lease_public_ref l)"
  have "res = Inr (AdmissionDispatchFailed ?cause)"
    "st' = snd (abort_by_id env ops ?cause (rd_id run) now (give_back ops run ref acquired st))"
    using assms False by (auto simp: admit_with_lease_def Let_def)
  moreover have "only_changes (rd_id run) (as_runs st)
      (as_runs (snd (abort_by_id env ops ?cause (rd_id run) now (give_back ops run ref acquired st))))"
    by (rule aborted_only) simp
  ultimately show ?thesis
    by (simp del: give_back_runs) (rule exI [of _ "give_back ops run ref acquired st"], simp)
next
  case True
  let ?start = "start_run_cycle (ps_name p) (workflow_phase_kind (ps_kind p)) (phase_filename p) ref now"
  show ?thesis
  proof (cases "patch_run (rd_id run) ?start (as_runs st)")
    case (Inl e)
    show ?thesis
    proof (cases "e = Some RunConflict")
      case conflict: True
      have "res = Inr AlreadyAdmitted" "st' = give_back ops run ref acquired st"
        using assms True Inl conflict by (simp_all add: admit_with_lease_def)
      then show ?thesis by simp
    next
      case False
      have "res = Inl StartFailed"
        "st' = snd (abort_by_id env ops CycleNotStarted (rd_id run) now (give_back ops run ref acquired st))"
        using assms True Inl False
        by (simp_all add: admit_with_lease_def split: option.splits run_error.splits)
      moreover have "only_changes (rd_id run) (as_runs st)
          (as_runs (snd (abort_by_id env ops CycleNotStarted (rd_id run) now (give_back ops run ref acquired st))))"
        by (rule aborted_only) simp
      ultimately show ?thesis by simp
    qed
  next
    case (Inr runs)
    obtain d d' where d: "run_by_id (rd_id run) (as_runs st) = Some d" "?start d = Inr d'"
      "run_by_id (rd_id run) runs = Some d'" "only_changes (rd_id run) (as_runs st) runs"
      by (rule patch_run_Inr [OF Inr]) (simp_all add: started_parts)
    let ?run = "started_data run (next_index (rn_attempts d)) (ps_name p) ref"
    obtain a where a: "launch_entry env ops wkf p ?run l ref acquired now (st\<lparr>as_runs := runs\<rparr>) = (a, st')" "res = Inr a"
      using assms True Inr d(1)
      by (cases "launch_entry env ops wkf p ?run l ref acquired now (st\<lparr>as_runs := runs\<rparr>)")
        (simp add: admit_with_lease_def Let_def)
    have ids [simp]: "rd_id ?run = rd_id run" "rd_project ?run = rd_project run"
      by (simp_all add: started_data_def)
    have given: "as_leases (give_back ops ?run ref acquired (st\<lparr>as_runs := runs\<rparr>)) = as_leases (give_back ops run ref acquired st)"
      by (simp add: give_back_def)
    from d(3) have "run_by_id (rd_id ?run) (as_runs (st\<lparr>as_runs := runs\<rparr>)) = Some d'" by simp
    note cases = launch_entry_cases [OF a(1) this, unfolded ids given]
    have changed: "only_changes (rd_id run) (as_runs st) (as_runs st')"
      using only_changes_trans [OF d(4)] cases by simp
    note from_started = started_same [OF admit_started [OF d(2)]]
    show ?thesis
    proof (cases a)
      case (Dispatched h)
      with cases True changed d(1) from_started show ?thesis unfolding a(2) by auto
    next
      case (AdmissionDispatchFailed cause)
      with cases obtain st0 d0 where "st' = snd (abort_by_id env ops cause (rd_id run) now st0)"
          "run_by_id (rd_id run) (as_runs st0) = Some d0" "same_run d' d0" "as_locks st0 = as_locks st"
          "as_leases st0 = as_leases st \<or> as_leases st0 = as_leases (give_back ops run ref acquired st)"
        by auto
      with AdmissionDispatchFailed changed d(1) from_started show ?thesis
        unfolding a(2) by (simp del: give_back_runs) blast
    qed (use cases in simp_all)
  qed
qed

definition no_lease :: "string option \<Rightarrow> bool" where
  "no_lease r \<longleftrightarrow> trim_space (case r of Some s \<Rightarrow> s | None \<Rightarrow> []) = []"

lemma release_slot_none: "no_lease (rn_slot_lease d) \<Longrightarrow> release_slot ops d w = w"
  by (simp add: no_lease_def release_slot_def)

lemma release_slot_some:
  "rn_slot_lease d = Some ref \<Longrightarrow> trim_space ref = ref \<Longrightarrow> ref \<noteq> [] \<Longrightarrow> release_slot ops d w = lo_cancel ops (rn_project d) ref w"
  by (simp add: release_slot_def)

lemma abort_by_id_leases:
  "as_leases (snd (abort_by_id env ops cause i now st)) =
     (case run_by_id i (as_runs st) of None \<Rightarrow> as_leases st | Some d \<Rightarrow> release_slot ops d (as_leases st))"
  by (simp add: abort_by_id_def abort_by_reason_def run_by_id_def Let_def split: option.split)

lemma slot_lease_fresh:
  assumes "slot_lease ops wkf run p w = (r, w')" "no_lease (rd_slot_lease run)"
  shows "case r of
      Inl e \<Rightarrow> lo_acquire ops wkf run p w = (Inl e, w')
    | Inr (l, ref, acquired) \<Rightarrow> lo_acquire ops wkf run p w = (Inr l, w') \<and> ref = lease_public_ref l \<and> acquired"
  using assms unfolding slot_lease_def no_lease_def Let_def
  by (auto split: prod.splits sum.splits if_splits)

section \<open>Leases an admission leaves behind\<close>

text \<open>
  What the admission relies on: an acquisition books exactly the reference it returns, which was
  not booked before; one that fails books nothing; refreshing the lease a run carries books
  nothing and frees nothing; a cancellation ends the booking of exactly its reference.
  \<open>fit\<close> holds before an acquisition, \<open>sound\<close> afterwards.
\<close>

locale slot_leases =
  fixes ops :: "'w lease_ops"
    and fit :: "workflow \<Rightarrow> run_data \<Rightarrow> phase_spec \<Rightarrow> 'w \<Rightarrow> bool"
    and sound :: "'w \<Rightarrow> bool"
    and booked :: "'w \<Rightarrow> (string \<times> string) set"
  assumes fit_sound: "fit wkf run p w \<Longrightarrow> sound w"
    and acquired: "fit wkf run p w \<Longrightarrow> lo_acquire ops wkf run p w = (Inr l, w') \<Longrightarrow>
      sound w' \<and> ls_state l = ''claimed'' \<and> (rd_project run, lease_public_ref l) \<notin> booked w \<and>
      booked w' = insert (rd_project run, lease_public_ref l) (booked w) \<and>
      trim_space (lease_public_ref l) = lease_public_ref l \<and> lease_public_ref l \<noteq> []"
    and refused: "fit wkf run p w \<Longrightarrow> lo_acquire ops wkf run p w = (Inl e, w') \<Longrightarrow> booked w' = booked w"
    and cancelled: "sound w \<Longrightarrow> sound (lo_cancel ops project r w) \<and>
      booked (lo_cancel ops project r w) = booked w - {(project, r)}"
    and refreshed: "sound w \<Longrightarrow> lo_read ops project r w = Inr l \<Longrightarrow> lo_persist ops l p run w = Inr (l', w') \<Longrightarrow>
      sound w' \<and> booked w' = booked w"
begin

definition holds_now :: "run_data \<Rightarrow> (admission_error, admission) res \<Rightarrow> 'w admission_state \<Rightarrow> 'w admission_state \<Rightarrow> bool" where
  "holds_now run res st st' \<longleftrightarrow>
     (case res of
        Inr (Dispatched _) \<Rightarrow>
          (\<exists>d ref. run_by_id (rd_id run) (as_runs st') = Some d \<and> rn_slot_lease d = Some ref \<and>
             (rd_project run, ref) \<notin> booked (as_leases st) \<and>
             booked (as_leases st') = insert (rd_project run, ref) (booked (as_leases st)))
      | _ \<Rightarrow> booked (as_leases st') = booked (as_leases st))"

lemma abort_keeps:
  assumes "\<And>d. run_by_id (rd_id run) (as_runs st) = Some d \<Longrightarrow> no_lease (rn_slot_lease d)"
  shows "as_leases (snd (abort_by_id env ops cause (rd_id run) now st)) = as_leases st"
  by (auto simp: abort_by_id_leases assms release_slot_none split: option.split)

lemma given_back:
  assumes "sound w'" "booked w' = insert (rd_project run, ref) B" "(rd_project run, ref) \<notin> B"
  shows "sound (as_leases (give_back ops run ref True (st\<lparr>as_leases := w'\<rparr>)))"
    and "booked (as_leases (give_back ops run ref True (st\<lparr>as_leases := w'\<rparr>))) = B"
  using assms cancelled [OF assms(1), of "rd_project run" ref] by (simp_all add: give_back_def)

lemma with_lease_settles:
  assumes "admit_with_lease env ops wkf p run l ref True now (st\<lparr>as_leases := w'\<rparr>) = (res, st')"
    and "sound w'" "booked w' = insert (rd_project run, ref) B" "(rd_project run, ref) \<notin> B"
    and "trim_space ref = ref" "ref \<noteq> []" and "booked (as_leases st) = B"
    and row: "\<And>d. run_by_id (rd_id run) (as_runs st) = Some d \<Longrightarrow> no_lease (rn_slot_lease d) \<and> rn_project d = rd_project run"
  shows "holds_now run res st st'"
proof -
  let ?st = "st\<lparr>as_leases := w'\<rparr>"
  note returned = given_back [OF assms(2,3,4), of st]
  note cases = conjunct2 [OF admit_with_lease_cases [OF assms(1)]]
  have plain: "as_leases (snd (abort_by_id env ops cause (rd_id run) now (give_back ops run ref True ?st)))
      = as_leases (give_back ops run ref True ?st)" for cause
    using row by (intro abort_keeps) simp
  show ?thesis
  proof (cases res)
    case (Inl e)
    with cases have "as_leases st' = as_leases (give_back ops run ref True ?st)"
      using plain by simp
    with Inl returned(2) assms(7) show ?thesis by (simp add: holds_now_def)
  next
    case (Inr a)
    show ?thesis
    proof (cases a)
      case (Dispatched h)
      with cases Inr obtain d d' where "run_by_id (rd_id run) (as_runs st') = Some d'" "started_from d p ref d'"
          "as_leases st' = w'" by auto
      with Inr Dispatched assms(3,4,7) show ?thesis by (auto simp: holds_now_def started_from_def)
    next
      case (AdmissionDispatchFailed cause)
      with cases Inr obtain st0 where st': "st' = snd (abort_by_id env ops cause (rd_id run) now st0)"
        and or: "(as_runs st0 = as_runs ?st \<and> as_leases st0 = as_leases (give_back ops run ref True ?st)) \<or>
             (\<exists>d d0. run_by_id (rd_id run) (as_runs ?st) = Some d \<and> run_by_id (rd_id run) (as_runs st0) = Some d0 \<and>
                started_from d p ref d0 \<and>
                (as_leases st0 = as_leases ?st \<or> as_leases st0 = as_leases (give_back ops run ref True ?st)))"
        by auto
      have "booked (as_leases st') = B"
        using or
      proof
        assume "as_runs st0 = as_runs ?st \<and> as_leases st0 = as_leases (give_back ops run ref True ?st)"
        moreover from this have "as_leases st' = as_leases st0"
          unfolding st' using row by (intro abort_keeps) simp
        ultimately show ?thesis using returned(2) by simp
      next
        assume "\<exists>d d0. run_by_id (rd_id run) (as_runs ?st) = Some d \<and> run_by_id (rd_id run) (as_runs st0) = Some d0 \<and>
                started_from d p ref d0 \<and>
                (as_leases st0 = as_leases ?st \<or> as_leases st0 = as_leases (give_back ops run ref True ?st))"
        then obtain d d0 where d: "run_by_id (rd_id run) (as_runs ?st) = Some d" "run_by_id (rd_id run) (as_runs st0) = Some d0"
          "started_from d p ref d0"
          and w: "as_leases st0 = w' \<or> as_leases st0 = as_leases (give_back ops run ref True ?st)" by auto
        have "rn_project d0 = rd_project run" "rn_slot_lease d0 = Some ref"
          using d(1,3) row by (auto simp: started_from_def)
        then have "as_leases st' = lo_cancel ops (rd_project run) ref (as_leases st0)"
          unfolding st' abort_by_id_leases using d(2) by (simp add: release_slot_some assms(5,6))
        moreover have "sound (as_leases st0)" "booked (as_leases st0) - {(rd_project run, ref)} = B"
          using w assms(2,3,4) returned by auto
        ultimately show ?thesis using cancelled by simp
      qed
      with Inr AdmissionDispatchFailed assms(7) show ?thesis by (simp add: holds_now_def)
    next
      case AlreadyAdmitted
      with cases Inr returned(2) assms(7) show ?thesis by (simp add: holds_now_def)
    qed (use cases Inr in simp_all)
  qed
qed

lemma admission_settles:
  assumes "admit_run_cycle env ops wkf run now st = (res, st')"
    and "\<And>p. fit wkf run p (as_leases st)" and "no_lease (rd_slot_lease run)"
    and row: "\<And>d. run_by_id (rd_id run) (as_runs st) = Some d \<Longrightarrow> no_lease (rn_slot_lease d) \<and> rn_project d = rd_project run"
  shows "holds_now run res st st'"
proof -
  have failed: "holds_now run res st st'" if "abort_admission env ops cause run now st = (res, st')" for cause
    using that abort_keeps [of run st env cause now] row
    by (auto simp: abort_admission_def holds_now_def split: prod.splits if_splits)
  show ?thesis
  proof (cases "run_entrypoint_phase (wf_phases wkf) run")
    case None
    with assms(1) failed show ?thesis by (simp add: admit_run_cycle_def)
  next
    case (Some p)
    obtain r w where sl: "slot_lease ops wkf run p (as_leases st) = (r, w)" by fastforce
    note fresh = slot_lease_fresh [OF sl assms(3)]
    show ?thesis
    proof (cases r)
      case (Inl e)
      with fresh refused [OF assms(2)] have same: "booked w = booked (as_leases st)" by simp
      from assms(1) Some Inl sl failed show ?thesis
        by (auto simp: admit_run_cycle_def holds_now_def same split: if_splits lease_failure.splits)
    next
      case (Inr x)
      obtain l ref b where x: "x = (l, ref, b)" by (cases x)
      with Inr fresh have l: "lo_acquire ops wkf run p (as_leases st) = (Inr l, w)" "ref = lease_public_ref l" b by auto
      note law = acquired [OF assms(2) l(1)]
      show ?thesis
      proof (cases "valid_workflow_kind (workflow_phase_kind (ps_kind p))")
        case False
        with assms(1) Some failed show ?thesis by (simp add: admit_run_cycle_def)
      next
        case True
        have step: "admit_with_lease env ops wkf p run l ref True now (st\<lparr>as_leases := w\<rparr>) = (res, st')"
          using assms(1) Some True sl l(3) by (simp add: admit_run_cycle_def Inr x)
        from law l(2) show ?thesis
          by (intro with_lease_settles [OF step _ _ _ _ _ refl row]) simp_all
      qed
    qed
  qed
qed

text \<open>
  A run that carries the lease \<open>ref\<close>: an admission that ends by aborting the run gives that
  lease up, and no other changes what is booked.
\<close>

definition gives_up :: "(admission_error, admission) res \<Rightarrow> bool" where
  "gives_up res \<longleftrightarrow> (case res of Inr (AdmissionFailed _) \<Rightarrow> True | Inr (AdmissionDispatchFailed _) \<Rightarrow> True | _ \<Rightarrow> False)"

definition left_booked :: "run_data \<Rightarrow> string \<Rightarrow> (admission_error, admission) res \<Rightarrow> 'w \<Rightarrow> (string \<times> string) set" where
  "left_booked run ref res w = (if gives_up res then booked w - {(rd_project run, ref)} else booked w)"

lemma abort_gives_up:
  assumes "run_by_id i (as_runs st) = Some d" "rn_slot_lease d = Some r" "trim_space r = ref" "ref \<noteq> []" "sound (as_leases st)"
  shows "booked (as_leases (snd (abort_by_id env ops cause i now st))) = booked (as_leases st) - {(rn_project d, ref)}"
  using assms(1-4) cancelled [OF assms(5)] by (simp add: abort_by_id_leases release_slot_def Let_def)

lemma carried_with_lease:
  assumes "admit_with_lease env ops wkf p run l ref False now st = (res, st')" "sound (as_leases st)"
    and "run_by_id (rd_id run) (as_runs st) = Some d" "rn_slot_lease d = Some r" "rn_project d = rd_project run"
    and "trim_space r = ref" "ref \<noteq> []"
  shows "booked (as_leases st') = left_booked run ref res (as_leases st) \<and>
    (\<forall>h. res = Inr (Dispatched h) \<longrightarrow>
       (\<exists>d'. run_by_id (rd_id run) (as_runs st') = Some d' \<and> rn_slot_lease d' = Some ref))"
proof -
  have same: "give_back ops run ref False st = st" by (simp add: give_back_def)
  note cases = conjunct2 [OF admit_with_lease_cases [OF assms(1)], unfolded same]
  have trimmed: "trim_space ref = ref" using assms(6) by auto
  show ?thesis
  proof (cases res)
    case (Inl e)
    have start: "start_run_cycle (ps_name p) k wff ref now d = Inl e \<Longrightarrow> e = RunConflict" for k wff e
      by (auto simp: start_run_cycle_def split: if_splits)
    have "\<not> (\<exists>e. res = Inl e)"
      using assms(1,3) start
      by (auto simp: admit_with_lease_def Let_def patch_run_def split: if_splits sum.splits prod.splits run_error.splits option.splits)
    with Inl show ?thesis by simp
  next
    case (Inr a)
    show ?thesis
    proof (cases a)
      case (AdmissionDispatchFailed cause)
      with cases Inr obtain st0 d0 where st0: "st' = snd (abort_by_id env ops cause (rd_id run) now st0)"
          "as_leases st0 = as_leases st" "run_by_id (rd_id run) (as_runs st0) = Some d0"
        and d0: "d0 = d \<or> started_from d p ref d0"
        using assms(3) by (auto simp: same)
      have "\<exists>r'. rn_slot_lease d0 = Some r' \<and> trim_space r' = ref" "rn_project d0 = rd_project run"
        using d0 assms(4-6) trimmed by (auto simp: started_from_def)
      with abort_gives_up [OF st0(3) _ _ assms(7)] assms(2) st0(1,2) show ?thesis
        by (auto simp: Inr AdmissionDispatchFailed left_booked_def gives_up_def)
    qed (use cases Inr same in \<open>auto simp: left_booked_def gives_up_def started_from_def\<close>)
  qed
qed

lemma carried_settles:
  assumes "admit_run_cycle env ops wkf run now st = (res, st')" "sound (as_leases st)"
    and row: "run_by_id (rd_id run) (as_runs st) = Some d" "rn_slot_lease d = rd_slot_lease run" "rn_project d = rd_project run"
    and r: "rd_slot_lease run = Some r" "trim_space r = ref" "ref \<noteq> []"
  shows "booked (as_leases st') = left_booked run ref res (as_leases st) \<and>
    (\<forall>h. res = Inr (Dispatched h) \<longrightarrow>
       (\<exists>d'. run_by_id (rd_id run) (as_runs st') = Some d' \<and> rn_slot_lease d' = Some ref))"
proof -
  have aborted: "booked (as_leases st') = left_booked run ref res (as_leases st) \<and> (\<forall>h. res \<noteq> Inr (Dispatched h))"
    if "abort_admission env ops cause run now st = (res, st')" for cause
  proof -
    obtain x where x: "row_by_id (rd_id run) (as_runs st) = Some x" using row(1) by (auto simp: run_by_id_def)
    have "res = Inr (AdmissionFailed cause)" "st' = snd (abort_by_id env ops cause (rd_id run) now st)"
      using that x by (auto simp: abort_admission_def abort_by_id_def abort_by_reason_def Let_def)
    with abort_gives_up [OF row(1) _ r(2,3) assms(2)] row(2,3) r(1) show ?thesis
      by (simp add: left_booked_def gives_up_def)
  qed
  show ?thesis
  proof (cases "run_entrypoint_phase (wf_phases wkf) run")
    case None
    with assms(1) aborted show ?thesis by (auto simp: admit_run_cycle_def)
  next
    case (Some p)
    show ?thesis
    proof (cases "valid_workflow_kind (workflow_phase_kind (ps_kind p))")
      case False
      with assms(1) Some aborted show ?thesis by (auto simp: admit_run_cycle_def)
    next
      case True
      obtain s w where sl: "slot_lease ops wkf run p (as_leases st) = (s, w)" by fastforce
      show ?thesis
      proof (cases s)
        case (Inl e)
        with sl r have "w = as_leases st \<and> (\<exists>t. e = LeaseFailed t)"
          by (auto simp: slot_lease_def Let_def split: sum.splits)
        with assms(1) Some True sl Inl show ?thesis
          by (auto simp: admit_run_cycle_def left_booked_def gives_up_def)
      next
        case (Inr x)
        with sl r obtain l l' where l: "x = (l', ref, False)" "lo_read ops (rd_project run) ref (as_leases st) = Inr l"
            "lo_persist ops l p run (as_leases st) = Inr (l', w)"
          by (auto simp: slot_lease_def Let_def split: sum.splits)
        note same = refreshed [OF assms(2) l(2,3)]
        have step: "admit_with_lease env ops wkf p run l' ref False now (st\<lparr>as_leases := w\<rparr>) = (res, st')"
          using assms(1) Some True sl l(1) by (simp add: admit_run_cycle_def Inr)
        show ?thesis
          using carried_with_lease [OF step, of d r] same row r by (simp add: left_booked_def)
      qed
    qed
  qed
qed

end

section \<open>A dispatched run is started\<close>

lemma abort_admission_only:
  assumes "abort_admission env ops cause run now st = (res, st')"
  shows "only_changes (rd_id run) (as_runs st) (as_runs st') \<and> (\<forall>h. res \<noteq> Inr (Dispatched h))"
  using assms abort_by_id_only [of "rd_id run" st env ops cause now]
  by (auto simp: abort_admission_def split: prod.splits if_splits)

lemma admit_run_cycle_cases:
  assumes "admit_run_cycle env ops wkf run now st = (res, st')"
  obtains (unstarted) "only_changes (rd_id run) (as_runs st) (as_runs st')" "\<forall>h. res \<noteq> Inr (Dispatched h)"
  | (leased) p l ref b w where "run_entrypoint_phase (wf_phases wkf) run = Some p"
      "slot_lease ops wkf run p (as_leases st) = (Inr (l, ref, b), w)"
      "admit_with_lease env ops wkf p run l ref b now (st\<lparr>as_leases := w\<rparr>) = (res, st')"
proof (cases "run_entrypoint_phase (wf_phases wkf) run")
  case None
  with assms have "abort_admission env ops NoEntryPhase run now st = (res, st')" by (simp add: admit_run_cycle_def)
  with abort_admission_only unstarted show thesis by blast
next
  case (Some p)
  show thesis
  proof (cases "valid_workflow_kind (workflow_phase_kind (ps_kind p))")
    case False
    with assms Some
    have "abort_admission env ops (BadEntryKind (workflow_phase_kind (ps_kind p))) run now st = (res, st')"
      by (simp add: admit_run_cycle_def)
    with abort_admission_only unstarted show thesis by blast
  next
    case True
    obtain r w where sl: "slot_lease ops wkf run p (as_leases st) = (r, w)" by fastforce
    show thesis
    proof (cases r)
      case (Inl e)
      with assms Some True sl unstarted show thesis
        by (cases e) (auto simp: admit_run_cycle_def)
    next
      case (Inr x)
      obtain l ref b where "x = (l, ref, b)" by (cases x)
      with assms Some True sl Inr leased show thesis by (simp add: admit_run_cycle_def)
    qed
  qed
qed

lemma admit_run_cycle_only:
  assumes "admit_run_cycle env ops wkf run now st = (res, st')"
  shows "only_changes (rd_id run) (as_runs st) (as_runs st')"
  using assms
proof (cases rule: admit_run_cycle_cases)
  case (leased p l ref b w)
  then show ?thesis using admit_with_lease_cases [OF leased(3)] by simp
qed

text \<open>The document of a run right before its entry phase is launched.\<close>

definition entered_attempt :: "phase_spec \<Rightarrow> (string \<times> string) list \<Rightarrow> string \<Rightarrow> run_doc \<Rightarrow> attempt_doc" where
  "entered_attempt p skipped now d =
     (new_attempt (next_index (rn_attempts d)) (ps_name p) (workflow_phase_kind (ps_kind p)) (phase_filename p) now)
       \<lparr>ad_completions := put_skipped now skipped []\<rparr>"

definition entered_execs :: "phase_spec \<Rightarrow> (string \<times> string) list \<Rightarrow> string \<Rightarrow> run_doc \<Rightarrow> phase_exec list" where
  "entered_execs p skipped now d =
     foldl (\<lambda>ps (job, reason). mark_job_completion (ps_name p) job ''skipped'' reason now ps)
       (mark_phase_dispatching (ps_name p) (workflow_phase_kind (ps_kind p)) now (rn_execs d)) skipped"

definition entered_doc :: "phase_spec \<Rightarrow> string \<Rightarrow> (string \<times> string) list \<Rightarrow> string \<Rightarrow> run_doc \<Rightarrow> run_doc" where
  "entered_doc p ref skipped now d =
     d\<lparr>rn_state := ''in_progress'', rn_queue := ''admitted'', rn_slot_lease := Some ref, rn_admission_error := [],
       rn_attempts := rn_attempts d @ [entered_attempt p skipped now d],
       rn_execs := entered_execs p skipped now d, rn_updated := now\<rparr>"

lemma put_run_put: "rn_id d = i \<Longrightarrow> put_run i e (put_run i d runs) = put_run i e runs"
  by (simp add: put_run_def)

lemma put_skipped_none: "put_skipped now [] cs = cs"
  by (simp add: put_skipped_def)

lemma start_entered:
  assumes "start_run_cycle (ps_name p) (workflow_phase_kind (ps_kind p)) (phase_filename p) ref now d = Inr d'"
  shows "rn_state d = ''queued'' \<and> list_all carried (rn_attempts d) \<and> d' = entered_doc p ref [] now d"
  using assms
  by (auto simp: start_run_cycle_def append_run_attempt_def add_attempt_def entered_doc_def entered_attempt_def
      entered_execs_def put_skipped_none new_attempt_def split: if_splits)

lemma skips_entered:
  assumes "record_runner_jobs_skipped (ps_name p) skipped now (entered_doc p ref [] now d) = Inr d'"
  shows "d' = entered_doc p ref skipped now d"
  using assms
  by (auto simp: record_runner_jobs_skipped_def entered_doc_def entered_attempt_def edit_last_def entered_execs_def
      put_skipped_none new_attempt_def update_last_def split: if_splits)

lemma launch_entry_dispatched:
  assumes "launch_entry env ops wkf p started l ref acquired now st = (Dispatched h, st')"
    and "as_runs st = put_run (rd_id started) (entered_doc p r [] now d) runs"
    and "run_by_id (rd_id started) runs = Some d"
  shows "\<exists>outcome jobs. evaluate_phase_when p (when_context_of wkf started) = Inr outcome \<and> h = ls_host l \<and>
      en_launch env l p started (entry_skips outcome) = Inr jobs \<and>
      st' = st\<lparr>as_runs := put_run (rd_id started)
        (record_runner_jobs_dispatched (ps_name p) (launched_jobs jobs) now (entered_doc p r (entry_skips outcome) now d)) runs\<rparr>"
proof (cases "evaluate_phase_when p (when_context_of wkf started)")
  case (Inl e)
  with assms(1) show ?thesis by (simp add: launch_entry_def)
next
  case (Inr outcome)
  let ?skipped = "entry_skips outcome" and ?i = "rd_id started"
  have ids: "rn_id (entered_doc p r s now d) = ?i" for s
    using run_by_id_Some [OF assms(3)] by (simp add: entered_doc_def)
  have found: "run_by_id ?i (as_runs st) = Some (entered_doc p r [] now d)"
    by (simp add: assms(2) run_by_id_put ids assms(3))
  let ?noted = "if ?skipped = [] then Inr (as_runs st)
    else patch_run ?i (record_runner_jobs_skipped (ps_name p) ?skipped now) (as_runs st)"
  have recorded: "?noted = Inr (put_run ?i (entered_doc p r ?skipped now d) runs)" if "?noted = Inr rs" for rs
  proof (cases "?skipped = []")
    case True
    then show ?thesis by (simp add: assms(2))
  next
    case False
    with that found obtain d1 where "record_runner_jobs_skipped (ps_name p) ?skipped now (entered_doc p r [] now d) = Inr d1"
      by (auto simp: patch_run_def split: sum.splits)
    with skips_entered [OF this] False found show ?thesis
      by (simp add: patch_run_def assms(2) put_run_put ids)
  qed
  obtain rs where rs: "?noted = Inr rs"
    using assms(1) Inr by (cases ?noted) (auto simp: launch_entry_def Let_def)
  note noted = recorded [OF rs]
  have sent: "patch_run ?i (\<lambda>d. Inr (record_runner_jobs_dispatched (ps_name p) js now d))
      (put_run ?i (entered_doc p r ?skipped now d) runs) =
      Inr (put_run ?i (record_runner_jobs_dispatched (ps_name p) js now (entered_doc p r ?skipped now d)) runs)" for js
    by (simp add: patch_run_def run_by_id_put ids assms(3) put_run_put)
  show ?thesis
  proof (cases "en_launch env l p started ?skipped")
    case (Inl e)
    with assms(1) Inr noted show ?thesis by (simp add: launch_entry_def Let_def del: if_split)
  next
    case launched: (Inr jobs)
    with assms(1) Inr noted sent show ?thesis by (simp add: launch_entry_def Let_def del: if_split)
  qed
qed

lemma admission_dispatched:
  assumes "admit_run_cycle env ops wkf run now st = (Inr (Dispatched h), st')"
  shows "\<exists>p l ref b w d started outcome jobs. run_entrypoint_phase (wf_phases wkf) run = Some p \<and>
      slot_lease ops wkf run p (as_leases st) = (Inr (l, ref, b), w) \<and> ls_state l = ''claimed'' \<and> h = ls_host l \<and>
      run_by_id (rd_id run) (as_runs st) = Some d \<and> rn_state d = ''queued'' \<and> list_all carried (rn_attempts d) \<and>
      started = started_data run (next_index (rn_attempts d)) (ps_name p) ref \<and>
      evaluate_phase_when p (when_context_of wkf started) = Inr outcome \<and>
      en_launch env l p started (entry_skips outcome) = Inr jobs \<and>
      st' = st\<lparr>as_leases := w, as_runs := put_run (rd_id run)
        (record_runner_jobs_dispatched (ps_name p) (launched_jobs jobs) now
          (entered_doc p ref (entry_skips outcome) now d)) (as_runs st)\<rparr>"
  using assms
proof (cases rule: admit_run_cycle_cases)
  case (leased p l ref b w)
  let ?start = "start_run_cycle (ps_name p) (workflow_phase_kind (ps_kind p)) (phase_filename p) ref now"
  have claimed: "ls_state l = ''claimed''"
    using leased(3) by (auto simp: admit_with_lease_def Let_def split: if_splits)
  obtain runs where runs: "patch_run (rd_id run) ?start (as_runs st) = Inr runs"
    using leased(3) claimed by (cases "patch_run (rd_id run) ?start (as_runs st)")
      (auto simp: admit_with_lease_def split: option.splits run_error.splits)
  then obtain d d1 where d: "run_by_id (rd_id run) (as_runs st) = Some d" "?start d = Inr d1"
      "runs = put_run (rd_id run) d1 (as_runs st)"
    by (auto simp: patch_run_def split: option.splits sum.splits)
  let ?run = "started_data run (next_index (rn_attempts d)) (ps_name p) ref"
  note entered = start_entered [OF d(2)]
  have id: "rd_id ?run = rd_id run" by (simp add: started_data_def)
  have launch: "launch_entry env ops wkf p ?run l ref b now (st\<lparr>as_leases := w, as_runs := runs\<rparr>) = (Dispatched h, st')"
    using leased(3) claimed runs d(1) by (auto simp: admit_with_lease_def Let_def split: prod.splits)
  from launch_entry_dispatched [OF launch, of ref d "as_runs st"] d(1,3) entered id obtain outcome jobs where
    "evaluate_phase_when p (when_context_of wkf ?run) = Inr outcome" "h = ls_host l"
    "en_launch env l p ?run (entry_skips outcome) = Inr jobs"
    "st' = st\<lparr>as_leases := w, as_runs := put_run (rd_id run)
        (record_runner_jobs_dispatched (ps_name p) (launched_jobs jobs) now
          (entered_doc p ref (entry_skips outcome) now d)) (as_runs st)\<rparr>"
    by auto
  with leased(1,2) claimed d(1) entered show ?thesis by blast
qed simp

lemma entered_started: "started_from d p ref (record_runner_jobs_dispatched (ps_name p) jobs now (entered_doc p ref skipped now d))
    \<longleftrightarrow> rn_state d = ''queued''"
  by (simp add: started_from_def dispatched_parts entered_doc_def entered_attempt_def new_attempt_def)

lemma admission_started:
  assumes "admit_run_cycle env ops wkf run now st = (Inr (Dispatched h), st')"
  obtains p ref d d' where "run_by_id (rd_id run) (as_runs st) = Some d" "run_by_id (rd_id run) (as_runs st') = Some d'"
    "started_from d p ref d'" "only_changes (rd_id run) (as_runs st) (as_runs st')"
proof -
  from admission_dispatched [OF assms] obtain p ref d jobs skipped where
    d: "run_by_id (rd_id run) (as_runs st) = Some d" "rn_state d = ''queued''" and
    after: "as_runs st' = put_run (rd_id run)
      (record_runner_jobs_dispatched (ps_name p) jobs now (entered_doc p ref skipped now d)) (as_runs st)" (is "_ = put_run _ ?d _")
    by auto
  have "rn_id ?d = rd_id run" using run_by_id_Some [OF d(1)] by (simp add: entered_doc_def)
  with after d show thesis
    by (intro that [of d ?d p ref]) (simp_all add: run_by_id_put only_changes_put entered_started)
qed

text \<open>
  C14: A run that is reported as dispatched was queued, with no attempts but carried ones, and has
  been started and launched. With its slot lease \<open>l\<close>, which is claimed, its document is in
  progress on that lease, has one more attempt, of the phase the run enters with, in which exactly
  the jobs that the phase's conditions skip are completed; the phase has been launched on that
  lease without these jobs, and the jobs of Kubernetes the launch named are recorded. The state
  after it is given in full: the lease store is the one that lending or reading the lease left, and
  no other field of the run, no other run and no lock has changed.
\<close>
theorem dispatched_run_started:
  assumes "admit_run_cycle env ops wkf run now st = (Inr (Dispatched h), st')"
  shows "\<exists>p l ref b w d started outcome jobs. run_entrypoint_phase (wf_phases wkf) run = Some p \<and>
      slot_lease ops wkf run p (as_leases st) = (Inr (l, ref, b), w) \<and> ls_state l = ''claimed'' \<and> h = ls_host l \<and>
      run_by_id (rd_id run) (as_runs st) = Some d \<and> rn_state d = ''queued'' \<and> list_all carried (rn_attempts d) \<and>
      started = started_data run (next_index (rn_attempts d)) (ps_name p) ref \<and>
      evaluate_phase_when p (when_context_of wkf started) = Inr outcome \<and>
      en_launch env l p started (entry_skips outcome) = Inr jobs \<and>
      st' = st\<lparr>as_leases := w, as_runs := put_run (rd_id run)
        (record_runner_jobs_dispatched (ps_name p) (launched_jobs jobs) now
          (entered_doc p ref (entry_skips outcome) now d)) (as_runs st)\<rparr>"
  using assms by (rule admission_dispatched)

section \<open>The queue is worked off in order\<close>

lemma admit_queued_only:
  assumes "admit_queued env ops now run st = (res, st')"
  shows "only_changes (rd_id run) (as_runs st) (as_runs st')"
  using assms
  by (auto simp: admit_queued_def dest: abort_admission_only admit_run_cycle_only
      split: sum.splits option.splits prod.splits bool.splits)

definition stops_drain :: "(admission_error, admission) res \<Rightarrow> bool" where
  "stops_drain res \<longleftrightarrow>
     (case res of Inl _ \<Rightarrow> True | Inr Queued \<Rightarrow> True | Inr (AdmissionDispatchFailed _) \<Rightarrow> True | _ \<Rightarrow> False)"

definition drained :: "drain_result \<Rightarrow> nat" where
  "drained r = dn_admitted r + dn_queued r + dn_failed r + dn_skipped r"

lemma drained_count [simp]:
  "drained (r\<lparr>dn_admitted := Suc (dn_admitted r)\<rparr>) = Suc (drained r)"
  "drained (r\<lparr>dn_queued := Suc (dn_queued r)\<rparr>) = Suc (drained r)"
  "drained (r\<lparr>dn_failed := Suc (dn_failed r)\<rparr>) = Suc (drained r)"
  "drained (r\<lparr>dn_skipped := Suc (dn_skipped r)\<rparr>) = Suc (drained r)"
  by (simp_all add: drained_def)

lemma drain_step:
  assumes "drain_runs env ops now halted n (run # rest) res st = (err, res', st')" "\<not> halted n"
    "admit_queued env ops now run st = (a, st1)"
  shows "if stops_drain a then st' = st1 \<and> drained res' = Suc (drained res)
         else \<exists>res1. drained res1 = Suc (drained res) \<and> drain_runs env ops now halted (Suc n) rest res1 st1 = (err, res', st')"
proof (cases a)
  case (Inl e)
  with assms show ?thesis by (auto simp: stops_drain_def)
next
  case (Inr x)
  have more: "\<exists>res1. drained res1 = Suc (drained res) \<and> drain_runs env ops now halted (Suc n) rest res1 st1 = (err, res', st')"
    if "drain_runs env ops now halted (Suc n) rest r st1 = (err, res', st')" "drained r = Suc (drained res)" for r
    using that by blast
  show ?thesis
    using assms Inr by (cases x) (auto simp: stops_drain_def intro!: more)
qed

text \<open>The state after some runs have been admitted one after the other.\<close>

definition after_admissions ::
  "admission_env \<Rightarrow> 'w lease_ops \<Rightarrow> string \<Rightarrow> 'w admission_state \<Rightarrow> run_data list \<Rightarrow> 'w admission_state" where
  "after_admissions env ops now st runs = foldl (\<lambda>s r. snd (admit_queued env ops now r s)) st runs"

lemma after_admissions_simps [simp]:
  "after_admissions env ops now st [] = st"
  "after_admissions env ops now st (r # rs) = after_admissions env ops now (snd (admit_queued env ops now r st)) rs"
  by (simp_all add: after_admissions_def)

text \<open>
  C16: A round admits the runs at the front of the queue one after the other, each in the state
  the one before has left, counts one outcome for each, and leaves every other run exactly as it
  was. No admission but the last one stopped the round. It ends before the end of the list only
  behind a run that stays queued, cannot be launched or hits an error, or because its context is
  done, which it reports as its error, so that no run overtakes one that waits for a slot.
\<close>
theorem drain_keeps_order:
  assumes "drain_runs env ops now halted n runs res st = (err, res', st')"
  shows "\<exists>k \<le> length runs. st' = after_admissions env ops now st (take k runs) \<and> drained res' = drained res + k \<and>
      (\<forall>j. j \<notin> rd_id ` set (take k runs) \<longrightarrow> run_by_id j (as_runs st') = run_by_id j (as_runs st)) \<and>
      (\<forall>m < k. \<not> halted (n + m) \<and> (Suc m < k \<longrightarrow>
         \<not> stops_drain (fst (admit_queued env ops now (runs ! m) (after_admissions env ops now st (take m runs)))))) \<and>
      (k = length runs \<or> (halted (n + k) \<and> err = Some ContextDone) \<or>
       (0 < k \<and> stops_drain (fst (admit_queued env ops now (runs ! (k - 1)) (after_admissions env ops now st (take (k - 1) runs))))))"
  using assms
proof (induction runs arbitrary: n res st)
  case Nil
  then show ?case by simp
next
  case (Cons run rest)
  obtain a st1 where a: "admit_queued env ops now run st = (a, st1)" by fastforce
  note only = admit_queued_only [OF a]
  show ?case
  proof (cases "halted n")
    case True
    with Cons.prems show ?thesis by (intro exI [of _ 0]) simp
  next
    case go: False
    show ?thesis
    proof (cases "stops_drain a")
      case True
      with drain_step [OF Cons.prems go a] have "st' = st1" "drained res' = Suc (drained res)" by simp_all
      with True a only go show ?thesis by (intro exI [of _ 1]) (auto simp: only_changes_other)
    next
      case False
      with drain_step [OF Cons.prems go a] obtain res1 where res1: "drained res1 = Suc (drained res)"
        "drain_runs env ops now halted (Suc n) rest res1 st1 = (err, res', st')" by auto
      from Cons.IH [OF res1(2)] obtain k where k: "k \<le> length rest"
        "st' = after_admissions env ops now st1 (take k rest)" "drained res' = drained res1 + k"
        "\<forall>j. j \<notin> rd_id ` set (take k rest) \<longrightarrow> run_by_id j (as_runs st') = run_by_id j (as_runs st1)"
        "\<forall>m < k. \<not> halted (Suc n + m) \<and> (Suc m < k \<longrightarrow>
           \<not> stops_drain (fst (admit_queued env ops now (rest ! m) (after_admissions env ops now st1 (take m rest)))))"
        "k = length rest \<or> (halted (Suc n + k) \<and> err = Some ContextDone) \<or>
         (0 < k \<and> stops_drain (fst (admit_queued env ops now (rest ! (k - 1)) (after_admissions env ops now st1 (take (k - 1) rest)))))"
        by blast
      have before: "\<not> halted (n + m) \<and> (Suc m < Suc k \<longrightarrow>
          \<not> stops_drain (fst (admit_queued env ops now ((run # rest) ! m) (after_admissions env ops now st (take m (run # rest))))))"
        if "m < Suc k" for m
        using that k(5) False go a by (cases m) auto
      have last: "Suc k = length (run # rest) \<or> (halted (n + Suc k) \<and> err = Some ContextDone) \<or>
          (0 < Suc k \<and> stops_drain (fst (admit_queued env ops now ((run # rest) ! (Suc k - 1))
             (after_admissions env ops now st (take (Suc k - 1) (run # rest))))))"
        using k(6) a by (cases k) auto
      have same: "run_by_id j (as_runs st') = run_by_id j (as_runs st)" if "j \<notin> rd_id ` set (take (Suc k) (run # rest))" for j
        using that k(4) only by (simp add: only_changes_other)
      show ?thesis
        using k(1-3) res1(1) a before last same by (intro exI [of _ "Suc k"] conjI allI impI) simp_all
    qed
  qed
qed

end
