(* ===== verification/RunCreationSafety.thy ===== *)
theory RunCreationSafety
  imports RunCreation RunStoreSafety
begin

text \<open>
  A created run is well formed, can be started, shows every job its phases will wait for, and is
  found under the address it is given; a run that is recycled twice shadows one of its cycles, and
  the queue is ordered by the text of the creation times.
\<close>

section \<open>Created runs can start\<close>

definition carry_ok :: "attempt_doc list \<Rightarrow> bool" where
  "carry_ok as \<longleftrightarrow>
     map ad_index as = map int [0..<length as] \<and> list_all carried as \<and> (\<forall>a \<in> set as. ad_completions a = [])"

lemma carry_ok_add:
  "carry_ok out \<Longrightarrow> now \<noteq> [] \<Longrightarrow> carry_ok (out @ [carried_attempt dd now (int (length out)) p a])"
  by (simp add: carry_ok_def carried_attempt_def new_attempt_def carried_def Let_def)

lemma carry_attempts_ok: "carry_ok out \<Longrightarrow> now \<noteq> [] \<Longrightarrow> carry_ok (carry_attempts dd ps now out as)"
  by (induction as arbitrary: out) (simp_all add: carry_ok_add split: option.split)

lemma plan_names [simp]: "map pe_name (plan_phases dd now given e b ps) = map ps_name ps"
  by (induction ps arbitrary: b) (simp_all add: planned_phase_def)

lemma plan_inner: "p \<in> set (plan_phases dd now given e b ps) \<Longrightarrow> pe_inner p = []"
  by (induction ps arbitrary: b) (auto simp: planned_phase_def split: if_splits)

lemma canonical_names [simp]: "map ps_name (wf_phases (canonical_workflow scr wkf)) = map ps_name (wf_phases wkf)"
  by (simp add: canonical_workflow_def canonical_phase_def)

lemma execution_docs_ok:
  assumes "distinct (map ps_name (wf_phases wkf))"
  shows "projection_ok (execution_docs dd scr wkf now entry given)"
  using assms
  by (auto simp: projection_ok_def phase_names_def execution_docs_def Let_def inner_ok_def inner_keys_def
      good_keys_def dest: plan_inner)

lemma created_parts:
  assumes "create_run dd scr wt q i now store = Inr (r, store')"
  obtains wkf declared where
    "workflow_for_execution wt (cq_project q) (cq_workflow q) (cq_schema_ref q) = Inr (wkf, declared)"
    "validate_run_inputs declared (cq_inputs q) = None"
    "lr_doc r = new_run_doc dd scr wkf q i now (next_run_number (issue_runs (cq_project q) (cq_issue q) store))"
    "lr_number r = Some (next_run_number (issue_runs (cq_project q) (cq_issue q) store))"
    "store' = store @ [r]"
proof (cases "workflow_for_execution wt (cq_project q) (cq_workflow q) (cq_schema_ref q)")
  case (Inl e)
  with assms show thesis by (simp add: create_run_def Let_def)
next
  case (Inr w)
  obtain wkf declared where w: "w = (wkf, declared)" by (cases w)
  with Inr assms that show thesis
    by (auto simp: create_run_def Let_def split: option.splits)
qed

text \<open>
  A run that has been created is well formed and can be started: the attempts it was supplied
  with never count as a conflict, whatever phases they name, and the start gives it one new
  attempt behind them.
\<close>
theorem created_run_can_start:
  assumes "create_run dd scr wt q i now store = Inr (r, store')" and "now \<noteq> []"
    and "\<And>wkf declared. workflow_for_execution wt (cq_project q) (cq_workflow q) (cq_schema_ref q)
            = Inr (wkf, declared) \<Longrightarrow> distinct (map ps_name (wf_phases wkf))"
  shows "run_doc_ok (lr_doc r) \<and>
         (\<exists>d. start_run_cycle phase kind wff lease t (lr_doc r) = Inr d \<and> rn_state d = ''in_progress'' \<and>
            rn_slot_lease d = Some lease \<and> length (rn_attempts d) = Suc (length (rn_attempts (lr_doc r))) \<and>
            ad_index (last (rn_attempts d)) = int (length (rn_attempts (lr_doc r))))"
  using assms(1)
proof (cases rule: created_parts)
  case (1 wkf declared)
  let ?as = "carry_attempts dd (wf_phases (canonical_workflow scr wkf)) now [] (cq_supplied q)"
  have "carry_ok ?as" by (rule carry_attempts_ok [OF _ assms(2)]) (simp add: carry_ok_def)
  then have as: "map ad_index ?as = map int [0..<length ?as]" "list_all carried ?as" "\<forall>a \<in> set ?as. ad_completions a = []"
    by (simp_all add: carry_ok_def)
  have doc: "rn_attempts (lr_doc r) = ?as" "rn_state (lr_doc r) = ''queued''"
    "rn_execs (lr_doc r) = execution_docs dd scr wkf now (optional_string (cq_entrypoint q)) (supplied_phases (cq_supplied q))"
    by (simp_all add: 1(3) new_run_doc_def)
  have "run_doc_ok (lr_doc r)"
    using as execution_docs_ok [OF assms(3) [OF 1(1)]] by (simp add: run_doc_ok_def doc)
  then show ?thesis
    using as(1,2)
    by (simp add: start_run_cycle_def doc append_run_attempt_def add_attempt_def new_attempt_def next_index_length)
qed

section \<open>Resolved inputs\<close>

definition honours :: "(string \<times> string) list \<Rightarrow> (string \<times> string) list \<Rightarrow> bool" where
  "honours supplied m \<longleftrightarrow>
     (\<forall>k v. map_of m k = Some v \<longrightarrow> v \<noteq> [] \<and> (\<forall>w. map_of supplied k = Some w \<longrightarrow> w \<noteq> [] \<longrightarrow> v = w))"

lemma honours_update:
  "honours supplied m \<Longrightarrow> v \<noteq> [] \<Longrightarrow> (\<forall>w. map_of supplied k = Some w \<longrightarrow> w \<noteq> [] \<longrightarrow> v = w) \<Longrightarrow>
     honours supplied (AList.update k v m)"
  by (auto simp: honours_def update_conv')

lemma resolve_inputs_ok:
  "resolve_inputs supplied out is = Inr r \<Longrightarrow> honours supplied out \<Longrightarrow>
     fst ` set r = fst ` set out \<union> di_name ` set is \<and> honours supplied r"
proof (induction supplied out "is" rule: resolve_inputs.induct)
  case (2 supplied out i "is")
  let ?v = "case map_of supplied (di_name i) of Some v \<Rightarrow> v | None \<Rightarrow> []"
  show ?case
  proof (cases "?v \<noteq> []")
    case True
    then have "honours supplied (AList.update (di_name i) ?v out)"
      using "2.prems"(2) by (intro honours_update) (auto split: option.splits)
    with "2.IH"(1) [OF refl True] "2.prems"(1) True show ?thesis by (auto simp: keys_update)
  next
    case False
    then have v: "?v = []" by simp
    with "2.prems"(1) have d: "di_default i \<noteq> []" by (simp split: if_splits)
    then have "honours supplied (AList.update (di_name i) (di_default i) out)"
      using "2.prems"(2) v by (intro honours_update) (auto split: option.splits)
    with "2.IH"(2) [OF refl _ d] "2.prems"(1) v d show ?thesis by (auto simp: keys_update)
  qed
qed simp

text \<open>
  Inputs the dispatch has resolved pass the check at the creation of the run: exactly the
  declared inputs have a value, no value is empty, and what the caller supplied is kept.
\<close>
theorem resolved_inputs_pass:
  assumes "resolve_dispatch_inputs declared supplied = Inr inputs"
  shows "validate_run_inputs declared inputs = None \<and> fst ` set inputs = di_name ` set declared \<and>
         (\<forall>k v. map_of inputs k = Some v \<longrightarrow> v \<noteq> []) \<and>
         (\<forall>k w. map_of supplied k = Some w \<longrightarrow> w \<noteq> [] \<longrightarrow> map_of inputs k = Some w)"
proof -
  from assms have r: "check_declared declared supplied = None" "resolve_inputs supplied [] declared = Inr inputs"
    by (auto simp: resolve_dispatch_inputs_def split: option.splits)
  from resolve_inputs_ok [OF r(2)] have keys: "fst ` set inputs = di_name ` set declared" and ok: "honours supplied inputs"
    by (simp_all add: honours_def)
  have "map_of inputs (di_name i) \<noteq> None" if "i \<in> set declared" for i
    using that keys by (simp add: map_of_eq_None_iff)
  moreover have "declared_input declared k" if "k \<in> fst ` set inputs" for k
    using that keys by (auto simp: declared_input_def list_ex_iff)
  ultimately have "validate_run_inputs declared inputs = None"
    by (auto simp: validate_run_inputs_def check_declared_def sorted_input_keys_def)
  moreover have "map_of inputs k = Some w" if "map_of supplied k = Some w" "w \<noteq> []" for k w
  proof -
    have "k \<in> fst ` set supplied" using that(1) by (metis map_of_eq_None_iff option.distinct(1))
    with r(1) have "declared_input declared k"
      by (auto simp: check_declared_def sorted_input_keys_def split: if_splits)
    with keys have "k \<in> fst ` set inputs" by (auto simp: declared_input_def list_ex_iff)
    then obtain v where "map_of inputs k = Some v" by (metis map_of_eq_None_iff not_None_eq)
    moreover from this ok that have "v = w" unfolding honours_def by blast
    ultimately show ?thesis by simp
  qed
  moreover have "v \<noteq> []" if "map_of inputs k = Some v" for k v
    using ok that unfolding honours_def by blast
  ultimately show ?thesis using keys by blast
qed

section \<open>The projection covers the jobs\<close>

lemma distinct_ids_set: "set (distinct_ids seen is) = set is - set seen - {[]}"
  by (induction seen "is" rule: distinct_ids.induct) auto

lemma planned_job_ids:
  "\<exists>j \<in> set (ps_jobs p). trim_space (js_id j) \<noteq> [] \<Longrightarrow>
     je_id ` set (planned_jobs dd st now p) = (trim_space \<circ> js_id) ` set (ps_jobs p) - {[]}"
  by (auto simp: planned_jobs_def planned_job_def Let_def filter_empty_conv image_iff)

lemma plan_has:
  "find (\<lambda>p. ps_name p = n) ps = Some p \<Longrightarrow>
     \<exists>st. planned_phase dd st now p \<in> set (plan_phases dd now given e b ps)"
  by (induction ps arbitrary: b) (auto split: if_splits)

lemma find_mapped:
  "(\<And>p. g (h p) = g p) \<Longrightarrow> find (\<lambda>p. g p = n) (map h ps) = map_option h (find (\<lambda>p. g p = n) ps)"
  by (induction ps) auto

text \<open>
  The projection of a new run has an entry for every phase whose completion will be waited
  for, and its jobs are exactly those that must report: no completion is recorded for a job that
  the projection does not show, and no job is shown that nobody waits for.
\<close>
theorem projection_lists_expected_jobs:
  assumes "expected_job_ids scr wkf phase = Inr ids"
  shows "\<exists>pe \<in> set (execution_docs dd scr wkf now entry given). pe_name pe = phase \<and> je_id ` set (pe_jobs pe) = set ids"
proof -
  obtain p where p: "find (\<lambda>p. ps_name p = phase) (wf_phases wkf) = Some p"
    and ids: "ids = distinct_ids [] (map (\<lambda>j. trim_space (js_id j)) (ps_jobs (canonical_phase scr p)))" "ids \<noteq> []"
    using assms by (auto simp: expected_job_ids_def Let_def split: option.splits if_splits)
  let ?p = "canonical_phase scr p"
  have "find (\<lambda>p. ps_name p = phase) (wf_phases (canonical_workflow scr wkf)) = Some ?p"
    using p find_mapped [of ps_name "canonical_phase scr" phase "wf_phases wkf"]
    by (simp add: canonical_workflow_def canonical_phase_def)
  from plan_has [OF this]
  obtain st where "planned_phase dd st now ?p \<in> set (execution_docs dd scr wkf now entry given)"
    unfolding execution_docs_def Let_def by blast
  moreover have "set ids = (trim_space \<circ> js_id) ` set (ps_jobs ?p) - {[]}"
    unfolding ids(1) distinct_ids_set by auto
  moreover from this ids(2) have "\<exists>j \<in> set (ps_jobs ?p). trim_space (js_id j) \<noteq> []"
    by (metis (no_types, lifting) Diff_iff comp_apply empty_set equals0I imageE insertCI set_empty)
  then have "je_id ` set (planned_jobs dd st now ?p) = (trim_space \<circ> js_id) ` set (ps_jobs ?p) - {[]}"
    by (rule planned_job_ids)
  moreover have "ps_name ?p = phase"
    using find_result_in [OF p] by (simp add: canonical_phase_def)
  ultimately show ?thesis
    by (intro bexI [of _ "planned_phase dd st now ?p"]) (simp_all add: planned_phase_def)
qed

section \<open>Addresses\<close>

definition numbered :: "ledger_run \<Rightarrow> bool" where
  "numbered r \<longleftrightarrow>
     (\<exists>n c. lr_number r = Some n \<and> rn_run_cycle (lr_doc r) = Some c \<and> rn_display (lr_doc r) = Some (display_number n c) \<and>
        1 \<le> n \<and> int64_ok n \<and> 1 \<le> c \<and> int64_ok c)"

lemma display_is_address: "display_number n c = run_cycle_string \<lparr>rc_run = n, rc_cycle = c\<rparr>"
  by (simp add: display_number_def run_cycle_string_def)

lemma parse_display:
  assumes "1 \<le> n" "int64_ok n" "1 \<le> c" "int64_ok c"
  shows "parse_run_cycle (display_number n c) = Inr \<lparr>rc_run = n, rc_cycle = c\<rparr>"
  using run_cycle_round_trip [of "\<lparr>rc_run = n, rc_cycle = c\<rparr>"] assms by (simp add: display_is_address)

lemma trim_display:
  assumes "1 \<le> n" "1 \<le> c"
  shows "trim_space (display_number n c) = display_number n c"
  unfolding display_number_def using assms itoa_ends by (intro clean_trim clean_ends_append) simp_all

lemma numbered_matches:
  assumes "numbered r" "1 \<le> n" "int64_ok n" "1 \<le> c" "int64_ok c"
  shows "matches_address \<lparr>rc_run = n, rc_cycle = c\<rparr> r \<longleftrightarrow>
           lr_number r = Some n \<and> rn_run_cycle (lr_doc r) = Some c"
proof -
  obtain m d where r: "lr_number r = Some m" "rn_run_cycle (lr_doc r) = Some d"
      "rn_display (lr_doc r) = Some (display_number m d)" "1 \<le> m" "int64_ok m" "1 \<le> d" "int64_ok d"
    using assms(1) by (auto simp: numbered_def)
  have "display_number m d = display_number n c \<longleftrightarrow> m = n \<and> d = c"
  proof
    assume e: "display_number m d = display_number n c"
    from parse_display [OF r(4-7)] have "parse_run_cycle (display_number n c) = Inr \<lparr>rc_run = m, rc_cycle = d\<rparr>"
      unfolding e .
    with parse_display [OF assms(2-5)] show "m = n \<and> d = c" by simp
  qed simp
  then show ?thesis
    using r by (auto simp: matches_address_def trim_display display_is_address [symmetric])
qed

lemma next_run_mono: "c \<le> foldl (\<lambda>c n. case n of Some k \<Rightarrow> if k \<ge> c then k + 1 else c | None \<Rightarrow> c) (c::int) ns"
proof (induction ns arbitrary: c)
  case (Cons n ns)
  show ?case using Cons.IH [of "case n of Some k \<Rightarrow> if k \<ge> c then k + 1 else c | None \<Rightarrow> c"]
    by (auto split: option.splits if_splits)
qed simp

lemma next_run_above:
  "Some k \<in> set ns \<Longrightarrow> k < foldl (\<lambda>c n. case n of Some k \<Rightarrow> if k \<ge> c then k + 1 else c | None \<Rightarrow> c) (c::int) ns"
proof (induction ns arbitrary: c)
  case (Cons n ns)
  then show ?case
    using next_run_mono [of "if k \<ge> c then k + 1 else c" ns]
    by (auto split: option.splits if_splits)
qed simp

lemma find_unique: "x \<in> set xs \<Longrightarrow> P x \<Longrightarrow> \<forall>y \<in> set xs. P y \<longrightarrow> y = x \<Longrightarrow> find P xs = Some x"
proof -
  assume x: "x \<in> set xs" "P x" and only: "\<forall>y \<in> set xs. P y \<longrightarrow> y = x"
  show "find P xs = Some x"
  proof (cases "find P xs")
    case None
    with x show ?thesis by (simp add: find_None_iff)
  next
    case (Some y)
    with only find_result_in [OF Some] show ?thesis by simp
  qed
qed

text \<open>
  The address a created run is given finds it: no other run of the issue has the address, and
  reading by the displayed number returns the id of the new run.
\<close>
theorem created_run_is_found:
  assumes "create_run dd scr wt q i now store = Inr (r, store')"
    and "\<forall>s \<in> set (issue_runs (cq_project q) (cq_issue q) store). numbered s"
    and "int64_ok (next_run_number (issue_runs (cq_project q) (cq_issue q) store))"
  shows "numbered r \<and>
         read_run_by_number (cq_project q) (cq_issue q)
           (case rn_display (lr_doc r) of Some s \<Rightarrow> s | None \<Rightarrow> []) store' = Some i"
  using assms(1)
proof (cases rule: created_parts)
  case (1 wkf declared)
  let ?docs = "issue_runs (cq_project q) (cq_issue q) store"
  let ?n = "next_run_number ?docs" and ?all = "issue_runs (cq_project q) (cq_issue q) store'"
  have one: "int64_ok (1::int)" by (simp add: int64_ok_def)
  have n: "1 \<le> ?n" unfolding next_run_number_def by (rule next_run_mono)
  have doc: "rn_display (lr_doc r) = Some (display_number ?n 1)" "rn_run_cycle (lr_doc r) = Some 1"
      "rn_project (lr_doc r) = cq_project q" "rn_issue (lr_doc r) = cq_issue q" "rn_id (lr_doc r) = i"
    by (simp_all add: 1(3) new_run_doc_def)
  have num: "numbered r" using 1(4) doc n assms(3) one by (auto simp: numbered_def)
  have mem: "set ?all = insert r (set ?docs)" by (auto simp: issue_runs_def 1(5) doc)
  have others: "lr_number s \<noteq> Some ?n" if "s \<in> set ?docs" for s
    using next_run_above [of _ "map lr_number ?docs" 1] that by (force simp: next_run_number_def)
  let ?a = "\<lparr>rc_run = ?n, rc_cycle = 1\<rparr>"
  have match: "matches_address ?a s \<longleftrightarrow> lr_number s = Some ?n \<and> rn_run_cycle (lr_doc s) = Some 1"
    if "numbered s" for s
    by (rule numbered_matches [OF that n assms(3) _ one]) simp
  have "find (matches_address ?a) ?all = Some r"
  proof (rule find_unique)
    show "r \<in> set ?all" by (simp add: mem)
    show "matches_address ?a r" using match [OF num] 1(4) doc by simp
    show "\<forall>s \<in> set ?all. matches_address ?a s \<longrightarrow> s = r"
      using match others assms(2) by (auto simp: mem)
  qed
  then show ?thesis
    using num parse_display [OF n assms(3) _ one]
    by (simp add: read_run_by_number_def doc)
qed

section \<open>Recycling twice\<close>

lemma recycled_parts:
  assumes "create_recycle_cycle dd scr wt parent ref target carry prior i now store = (Inr r, store')"
  obtains p where "find (\<lambda>r. rn_id (lr_doc r) = parent) store = Some p"
    "rn_slot_lease (lr_doc p) \<noteq> None"
    "lr_number r = Some (recycle_number (issue_runs (rn_project (lr_doc p)) (rn_issue (lr_doc p)) store) p)"
    "rn_run_cycle (lr_doc r) = Some (recycle_ordinal p)"
    "rn_display (lr_doc r) = Some (display_number
        (recycle_number (issue_runs (rn_project (lr_doc p)) (rn_issue (lr_doc p)) store) p) (recycle_ordinal p))"
    "rn_project (lr_doc r) = rn_project (lr_doc p)" "rn_issue (lr_doc r) = rn_issue (lr_doc p)"
    "rn_id (lr_doc r) = i" "store' = mark_recycled parent now store @ [r]"
  using assms
  by (auto simp: create_recycle_cycle_def Let_def recycled_doc_def split: option.splits if_splits sum.splits prod.splits)

lemma find_marked:
  assumes "find (\<lambda>r. rn_id (lr_doc r) = i) store = Some p"
  shows "find (\<lambda>r. rn_id (lr_doc r) = i) (mark_recycled i now store @ rest)
       = Some (p\<lparr>lr_doc := (lr_doc p)\<lparr>rn_state := ''recycled'', rn_queue := [], rn_updated := now\<rparr>\<rparr>)"
  using assms by (induction store) (auto simp: mark_recycled_def split: if_splits)

text \<open>
  Recycling does not look at the state of the parent: recycled a second time, a numbered run
  gets a second cycle of the same number and display, so that two runs have one address.
\<close>
theorem recycled_twice_shares_address:
  assumes "create_recycle_cycle dd scr wt parent ref target carry prior i now store = (Inr r, s1)"
    and "create_recycle_cycle dd scr wt parent ref' target' carry' prior' j later s1 = (Inr s, s2)"
    and "\<forall>p \<in> set store. numbered p" and "i \<noteq> j"
  shows "rn_display (lr_doc r) = rn_display (lr_doc s) \<and> lr_number r = lr_number s \<and>
         rn_run_cycle (lr_doc r) = rn_run_cycle (lr_doc s) \<and>
         rn_id (lr_doc r) \<noteq> rn_id (lr_doc s) \<and> (\<exists>a. matches_address a r \<and> matches_address a s)"
proof -
  obtain p where p: "find (\<lambda>r. rn_id (lr_doc r) = parent) store = Some p"
      "rn_slot_lease (lr_doc p) \<noteq> None"
      "lr_number r = Some (recycle_number (issue_runs (rn_project (lr_doc p)) (rn_issue (lr_doc p)) store) p)"
      "rn_run_cycle (lr_doc r) = Some (recycle_ordinal p)"
      "rn_display (lr_doc r) = Some (display_number
        (recycle_number (issue_runs (rn_project (lr_doc p)) (rn_issue (lr_doc p)) store) p) (recycle_ordinal p))"
      "rn_project (lr_doc r) = rn_project (lr_doc p)" "rn_issue (lr_doc r) = rn_issue (lr_doc p)"
      "rn_id (lr_doc r) = i" "s1 = mark_recycled parent now store @ [r]"
    by (rule recycled_parts [OF assms(1)])
  let ?p = "p\<lparr>lr_doc := (lr_doc p)\<lparr>rn_state := ''recycled'', rn_queue := [], rn_updated := now\<rparr>\<rparr>"
  obtain p' where p': "find (\<lambda>r. rn_id (lr_doc r) = parent) s1 = Some p'"
      "rn_slot_lease (lr_doc p') \<noteq> None"
      "lr_number s = Some (recycle_number (issue_runs (rn_project (lr_doc p')) (rn_issue (lr_doc p')) s1) p')"
      "rn_run_cycle (lr_doc s) = Some (recycle_ordinal p')"
      "rn_display (lr_doc s) = Some (display_number
        (recycle_number (issue_runs (rn_project (lr_doc p')) (rn_issue (lr_doc p')) s1) p') (recycle_ordinal p'))"
      "rn_project (lr_doc s) = rn_project (lr_doc p')" "rn_issue (lr_doc s) = rn_issue (lr_doc p')"
      "rn_id (lr_doc s) = j" "s2 = mark_recycled parent later s1 @ [s]"
    by (rule recycled_parts [OF assms(2)])
  have p'_eq: "p' = ?p" using p'(1) find_marked [OF p(1)] p(9) by simp
  obtain n where n: "lr_number p = Some n" "1 \<le> n"
    using find_result_in [OF p(1)] assms(3) by (auto simp: numbered_def)
  have num: "recycle_number ds p = n" "recycle_number ds ?p = n" for ds
    using n by (simp_all add: recycle_number_def positive_def)
  have ord: "recycle_ordinal ?p = recycle_ordinal p"
    by (simp add: recycle_ordinal_def cong: option.case_cong if_cong)
  have same: "lr_number r = lr_number s" "rn_run_cycle (lr_doc r) = rn_run_cycle (lr_doc s)"
      "rn_display (lr_doc r) = rn_display (lr_doc s)"
    using p(3-5) p'(3-5) unfolding p'_eq num ord by simp_all
  moreover have "matches_address \<lparr>rc_run = n, rc_cycle = recycle_ordinal p\<rparr> r"
      "matches_address \<lparr>rc_run = n, rc_cycle = recycle_ordinal p\<rparr> s"
    using p(3,4) same num by (simp_all add: matches_address_def)
  ultimately show ?thesis using p(8) p'(8) assms(4) by blast
qed

section \<open>The order of the queue\<close>

lemma prefix_text_less:
  assumes "byte_of d < 90"
  shows "(p @ d # q @ ''Z'') < (p @ ''Z'' :: string)"
  using assms by (induction p) (simp_all add: less_char_def byte_of_def)

text \<open>
  The queue is ordered by the text of the creation times, which is not their order in time:
  Go leaves out trailing zeros of the fraction, so of two runs of one second the later one, whose
  fraction continues that of the earlier, comes first, and with a limit of one the earlier run is
  not seen at all.
\<close>
theorem later_run_queues_first:
  assumes "lr_created a = p @ ''Z''" and "lr_created b = p @ d # q @ ''Z''" and "is_digit d"
    and "waiting a" and "waiting b" and "rn_project (lr_doc a) = project" and "rn_project (lr_doc b) = project"
  shows "list_queued_runs project 0 [a, b] = [b, a] \<and> list_queued_runs project 1 [a, b] = [b]"
proof -
  have "byte_of d < 90" using assms(3) by (simp add: is_digit_def between_def)
  from prefix_text_less [OF this] have "lr_created b < lr_created a" using assms(1,2) by simp
  then have "sort_key lr_created [a, b] = [b, a]" by simp
  then show ?thesis using assms(4-) by (simp add: list_queued_runs_def)
qed

end
