(* ===== verification/DispatchSafety.thy ===== *)
theory DispatchSafety
  imports AdmissionSafety RunCreationSafety
begin

text \<open>
  Dispatching an issue: while its latest run is active a further dispatch changes nothing, and
  what the dispatch forgets of the run it has created.
\<close>

section \<open>A second dispatch\<close>

lemma sort_key_last:
  "\<forall>x \<in> set xs. f x \<le> f y \<Longrightarrow> sort_key f (xs @ [y]) = sort_key f xs @ [y]"
proof (rule properties_for_sort_key)
  assume le: "\<forall>x \<in> set xs. f x \<le> f y"
  show "mset (sort_key f xs @ [y]) = mset (xs @ [y])" by simp
  show "filter (\<lambda>x. f k = f x) (sort_key f xs @ [y]) = filter (\<lambda>x. f k = f x) (xs @ [y])" for k
    using sort_key_stable [of f "f k" xs] by (simp add: eq_commute)
  show "sorted (map f (sort_key f xs @ [y]))"
    using le by (auto simp: sorted_append)
qed

lemma newest_is_last:
  assumes "\<forall>x \<in> set (issue_runs project n s). lr_created x \<le> lr_created r" "issue_runs project n added = []"
    and "rn_project (lr_doc r) = project" "rn_issue (lr_doc r) = n"
  shows "last_run_state project n (s @ [r] @ added) = optional_text (rn_state (lr_doc r))"
proof -
  let ?of = "filter (\<lambda>r. rn_project (lr_doc r) = project \<and> rn_issue (lr_doc r) = n)"
  have "?of added = []"
    using arg_cong [OF assms(2), of length] by (simp add: issue_runs_def)
  then have "issue_runs project n (s @ [r] @ added) = sort_key lr_created (?of s @ [r])"
    using assms(3,4) by (simp add: issue_runs_def)
  also have "\<dots> = issue_runs project n s @ [r]"
    using assms(1) by (subst sort_key_last) (simp_all add: issue_runs_def)
  finally have "issue_runs project n (s @ [r] @ added) = issue_runs project n s @ [r]" .
  then show ?thesis
    by (cases "issue_runs project n s") (simp_all add: last_run_state_def)
qed

lemma active_text:
  assumes "is_active_issue_run_state s"
  shows "is_active_issue_run_state (trim_space (optional_text s))"
proof -
  have "trim_space s \<noteq> []" using assms by (auto simp: is_active_issue_run_state_def)
  with assms show ?thesis by (simp add: is_active_issue_run_state_def optional_text_def)
qed

lemma admit_queued_keeps:
  assumes "admit_run_cycle env ops wkf run now st = (Inr Queued, st')"
  shows "as_runs st' = as_runs st"
  using assms
  by (auto simp: admit_run_cycle_def abort_admission_def dest: admit_with_lease_cases
      split: option.splits if_splits prod.splits sum.splits lease_failure.splits)

lemma created_row:
  assumes "create_run dd scr wt q i now store = Inr (r, store')"
  shows "store' = store @ [r] \<and> rn_id (lr_doc r) = i \<and> rn_project (lr_doc r) = cq_project q \<and>
    rn_issue (lr_doc r) = cq_issue q \<and> rn_state (lr_doc r) = ''queued'' \<and> lr_created r = now"
proof (cases "workflow_for_execution wt (cq_project q) (cq_workflow q) (cq_schema_ref q)")
  case (Inl e)
  with assms show ?thesis by (simp add: create_run_def Let_def)
next
  case (Inr w)
  with assms show ?thesis
    by (cases w) (auto simp: create_run_def new_run_doc_def Let_def split: option.splits)
qed

text \<open>The runs after a dispatch: one more, in progress or still queued.\<close>

lemma run_by_id_new: "\<forall>x \<in> set s. rn_id (lr_doc x) \<noteq> rn_id (lr_doc r) \<Longrightarrow> run_by_id (rn_id (lr_doc r)) (s @ [r]) = Some (lr_doc r)"
  by (induction s) (auto simp: run_by_id_def row_by_id_def)

lemma dispatch_locked_adds:
  assumes "dispatch_locked env ops f issue project n inputs holder i now st = (Inr (Answered a i'), st')"
    and "a = Queued \<or> (\<exists>h. a = Dispatched h)" and "\<forall>r \<in> set (as_runs st). rn_id (lr_doc r) \<noteq> i"
  obtains r where "as_runs st' = as_runs st @ [r]" "lr_created r = now" "rn_project (lr_doc r) = project"
    "rn_issue (lr_doc r) = n" "rn_id (lr_doc r) = i"
proof -
  obtain r runs where new: "create_run (dp_details env) (dp_scripts env) (dp_tables env)
      (create_request_of env f issue project n inputs holder) i now (as_runs st) = Inr (r, runs)"
    and adm: "admit_run_cycle (dp_admission env) ops (fw_workflow f)
      (dispatched_run_data (fw_workflow f) project n inputs r) now (st\<lparr>as_runs := runs\<rparr>) = (Inr a, st')"
    using assms(1) by (auto simp: dispatch_locked_def split: sum.splits prod.splits)
  let ?run = "dispatched_run_data (fw_workflow f) project n inputs r"
  have row: "runs = as_runs st @ [r]" "rn_id (lr_doc r) = i" "rn_project (lr_doc r) = project"
      "rn_issue (lr_doc r) = n" "rn_state (lr_doc r) = ''queued''" "lr_created r = now"
    using created_row [OF new] by (simp_all add: create_request_of_def Let_def)
  have id: "rd_id ?run = i" by (simp add: dispatched_run_data_def row(2))
  have found: "run_by_id i runs = Some (lr_doc r)"
    using run_by_id_new [of "as_runs st" r] assms(3) by (simp add: row(1,2))
  show thesis
    using assms(2)
  proof
    assume "a = Queued"
    with adm admit_queued_keeps have "as_runs st' = as_runs st @ [r]" by (fastforce simp: row(1))
    with row that show thesis by blast
  next
    assume "\<exists>h. a = Dispatched h"
    then obtain h where h: "a = Dispatched h" by blast
    obtain p ref d d' where d: "run_by_id i runs = Some d" "run_by_id i (as_runs st') = Some d'" "started_from d p ref d'"
      and only: "only_changes i runs (as_runs st')"
      by (rule admission_started [OF adm [unfolded h]]) (simp add: id)
    obtain r' where r': "as_runs st' = as_runs st @ [r']" "same_row i r r'"
      by (rule only_changes_fresh [OF only [unfolded row(1)] assms(3)])
    then have "lr_created r' = now" "rn_id (lr_doc r') = i"
      using row by (auto simp: same_row_def)
    moreover from this have "run_by_id i (as_runs st') = Some (lr_doc r')"
      using run_by_id_new [of "as_runs st" r'] assms(3) by (simp add: r'(1))
    ultimately show thesis
      using d found row r'(1) by (intro that [of r']) (auto simp: started_from_def)
  qed
qed

lemma dispatch_run_checked:
  assumes "dispatch_run env ops q holder i now app db st = (x, st')"
  obtains (refused) "st' = st" "\<forall>a i'. x \<noteq> Inr (Answered a i')"
  | (checked) f issue given where
      "dispatch_checked env ops f issue (dq_project q) (dq_issue q) given holder i now app db st = (x, st')"
proof -
  have "(st' = st \<and> (\<forall>a i'. x \<noteq> Inr (Answered a i'))) \<or>
      (\<exists>f issue given. dispatch_checked env ops f issue (dq_project q) (dq_issue q) given holder i now app db st = (x, st'))"
    using assms unfolding dispatch_run_def dispatch_workflow_def
    by (auto split: if_splits sum.splits option.splits bool.splits)
  with refused checked show thesis by blast
qed

text \<open>
  Writing to a run changes its document, never its identity, its issue or its creation time; the
  store's operations do not.
\<close>

definition kept_row :: "ledger_run \<Rightarrow> ledger_run \<Rightarrow> bool" where
  "kept_row r r' \<longleftrightarrow>
     lr_created r' = lr_created r \<and> rn_id (lr_doc r') = rn_id (lr_doc r) \<and>
     rn_project (lr_doc r') = rn_project (lr_doc r) \<and> rn_issue (lr_doc r') = rn_issue (lr_doc r)"

lemma promote_keeps_place [simp]:
  "rn_id (promote_output d kv) = rn_id d" "rn_project (promote_output d kv) = rn_project d"
  "rn_issue (promote_output d kv) = rn_issue d"
  by (simp_all add: promote_output_def Let_def)

lemma promote_all_place [simp]:
  "rn_id (foldl promote_output d m) = rn_id d" "rn_project (foldl promote_output d m) = rn_project d"
  "rn_issue (foldl promote_output d m) = rn_issue d"
  by (induction m arbitrary: d) simp_all

lemma operations_keep_place:
  "rn_id (apply_op add scr wkf d op) = rn_id d \<and> rn_project (apply_op add scr wkf d op) = rn_project d \<and>
   rn_issue (apply_op add scr wkf d op) = rn_issue d"
proof (cases op)
  case (OpRecord p now)
  show ?thesis
  proof (cases "record_job_completion scr wkf p now d")
    case (Inr x)
    obtain r d' where x: "record_job_completion scr wkf p now d = Inr (r, d')" using Inr by (cases x) simp
    have "apply_op add scr wkf d op = d'" by (simp add: OpRecord x kept_def)
    with x show ?thesis
      by (elim record_cases) (simp_all add: with_completions_def edit_at_def)
  qed (simp add: OpRecord kept_def)
next
  case (OpEvent ev)
  have "rn_id d' = rn_id d \<and> rn_project d' = rn_project d \<and> rn_issue d' = rn_issue d" if "apply_run_event ev d = Inr d'" for d'
    using that by (auto simp: apply_run_event_def set_phase_output_def edit_at_def Let_def split: option.splits if_splits)
  then show ?thesis by (cases "apply_run_event ev d") (auto simp: OpEvent kept_def)
qed (auto simp: append_run_attempt_def add_attempt_def start_run_cycle_def stamp_attempt_skipped_def edit_last_def edit_at_def
    stamp_run_completion_def stamp_run_decision_def park_run_def release_gate_def cancel_gate_def set_terminal_def
    abort_run_def abort_patch_def record_runner_jobs_skipped_def record_runner_steps_skipped_def
    record_runner_jobs_dispatched_def kept_def Let_def split: option.splits)

lemma operations_keep_row:
  "lr_doc r' = run_ops add scr wkf (lr_doc r) ops \<Longrightarrow> lr_created r' = lr_created r \<Longrightarrow> kept_row r r'"
proof -
  have "rn_id (run_ops add scr wkf d ops) = rn_id d \<and> rn_project (run_ops add scr wkf d ops) = rn_project d \<and>
    rn_issue (run_ops add scr wkf d ops) = rn_issue d" for d
    by (induction ops arbitrary: d) (simp_all add: operations_keep_place)
  then show "lr_doc r' = run_ops add scr wkf (lr_doc r) ops \<Longrightarrow> lr_created r' = lr_created r \<Longrightarrow> kept_row r r'"
    by (simp add: kept_row_def)
qed

lemma kept_rows_issue:
  "list_all2 kept_row s s' \<Longrightarrow> x \<in> set (issue_runs project n s') \<Longrightarrow>
    \<exists>y \<in> set (issue_runs project n s). lr_created y = lr_created x"
  by (induction rule: list_all2_induct) (auto simp: issue_runs_def kept_row_def)

lemma kept_rows_ids: "list_all2 kept_row s s' \<Longrightarrow> \<forall>r \<in> set s. rn_id (lr_doc r) \<noteq> i \<Longrightarrow> \<forall>r \<in> set s'. rn_id (lr_doc r) \<noteq> i"
  by (induction rule: list_all2_induct) (auto simp: kept_row_def)

lemma later_state:
  assumes "list_all2 kept_row (s @ [r]) rows" "\<forall>x \<in> set s. rn_id (lr_doc x) \<noteq> i"
    and "\<forall>x \<in> set (issue_runs project n s). lr_created x \<le> lr_created r" "issue_runs project n added = []"
    and "rn_project (lr_doc r) = project" "rn_issue (lr_doc r) = n" "rn_id (lr_doc r) = i"
    and "run_by_id i (rows @ added) = Some d"
  shows "last_run_state project n (rows @ added) = optional_text (rn_state d)"
proof -
  obtain s' r' where k: "rows = s' @ [r']" "list_all2 kept_row s s'" "kept_row r r'"
    using assms(1) by (auto simp: list_all2_append1 list_all2_Cons1)
  have "\<forall>x \<in> set (issue_runs project n s'). lr_created x \<le> lr_created r'"
    using kept_rows_issue [OF k(2)] assms(3) k(3) by (fastforce simp: kept_row_def)
  then have last: "last_run_state project n (rows @ added) = optional_text (rn_state (lr_doc r'))"
    using newest_is_last [of project n s' r' added] assms(4-6) k(1,3) by (simp add: kept_row_def)
  have "find (\<lambda>r. rn_id (lr_doc r) = i) (s' @ r' # added) = Some r'" if "\<forall>x \<in> set s'. rn_id (lr_doc x) \<noteq> i" for s'
    using that k(3) assms(7) by (induction s') (auto simp: kept_row_def)
  with kept_rows_ids [OF k(2) assms(2)] assms(8) have "lr_doc r' = d"
    by (simp add: run_by_id_def row_by_id_def k(1))
  with last show ?thesis by simp
qed

text \<open>
  C13: As long as the run of a dispatch is queued, in progress or waiting for a review, a further
  dispatch of the issue changes nothing and creates no run, with any workflow, input and holder.
  In between any documents may have been written and the locks and leases may have become
  anything: it is only asked that rows keep their identity, issue and creation time, that no other
  run of the issue has been added, and that at the dispatch no run of the issue had a later
  creation time.
\<close>
theorem second_dispatch_refused:
  assumes "dispatch_run env ops q holder i now app db st = (Inr (Answered a i'), st')"
    and "a = Queued \<or> (\<exists>h. a = Dispatched h)" and "\<forall>r \<in> set (as_runs st). rn_id (lr_doc r) \<noteq> i"
    and "\<forall>r \<in> set (issue_runs (dq_project q) (dq_issue q) (as_runs st)). lr_created r \<le> now"
    and "as_runs later = rows @ added" "list_all2 kept_row (as_runs st') rows"
    and "issue_runs (dq_project q) (dq_issue q) added = []"
    and "run_by_id i (as_runs later) = Some d" "is_active_issue_run_state (rn_state d)"
    and "dq_project q2 = dq_project q" "dq_issue q2 = dq_issue q"
  shows "\<exists>x. dispatch_run env2 ops2 q2 holder2 i2 now2 app2 db2 later = (x, later) \<and> (\<forall>b j. x \<noteq> Inr (Answered b j))"
proof -
  obtain f issue given where c: "dispatch_checked env ops f issue (dq_project q) (dq_issue q) given holder i now app db st
      = (Inr (Answered a i'), st')"
    using assms(1) by (cases rule: dispatch_run_checked) auto
  then obtain locks where l: "dispatch_locked env ops f issue (dq_project q) (dq_issue q) given holder i now
      (st\<lparr>as_locks := locks\<rparr>) = (Inr (Answered a i'), st')"
    by (auto simp: dispatch_checked_def Let_def split: if_splits sum.splits claim_error.splits)
  obtain r where r: "as_runs st' = as_runs st @ [r]" "lr_created r = now" "rn_project (lr_doc r) = dq_project q"
    "rn_issue (lr_doc r) = dq_issue q" "rn_id (lr_doc r) = i"
    using dispatch_locked_adds [OF l assms(2)] assms(3) by auto
  have "last_run_state (dq_project q) (dq_issue q) (as_runs later) = optional_text (rn_state d)"
    using later_state [of "as_runs st" r rows i "dq_project q" "dq_issue q" added d] assms(3-8) r by simp
  with active_text [OF assms(9)]
  have active: "is_active_issue_run_state (trim_space (last_run_state (dq_project q) (dq_issue q) (as_runs later)))"
    by simp
  obtain x st2 where second: "dispatch_run env2 ops2 q2 holder2 i2 now2 app2 db2 later = (x, st2)" by fastforce
  then show ?thesis
  proof (cases rule: dispatch_run_checked)
    case refused
    with second show ?thesis by auto
  next
    case (checked f issue given)
    with active assms(10,11) second show ?thesis
      by (auto simp: dispatch_checked_def Let_def)
  qed
qed

section \<open>What the dispatch forgets\<close>

definition flag_phase :: phase_spec where
  "flag_phase =
     (let job = \<lparr>js_id = ''build'', js_primitive = [], js_command = [], js_args = [], js_steps = [], js_timeout = None,
                 js_managed = True, js_checkout = None, js_extra_checkouts = [], js_when = [], js_tools = []\<rparr> in
      \<lparr>ps_name = ''prepare'', ps_kind = ''k8s_job'', ps_run_on = ''success'', ps_purpose = ''work'',
       ps_workflow_filename = [], ps_workflow_ref = ''main'', ps_inputs = [], ps_outputs = [],
       ps_verify = False, ps_recycle = None, ps_always = False, ps_gate = False, ps_depends_on = [],
       ps_jobs = [job, job\<lparr>js_id := ''keep'', js_when := ''${{ run.preserve_test_env }} == true''\<rparr>],
       ps_when = [], ps_skip_preserve = False\<rparr>)"

lemma flag_condition:
  "when_parse ''${{ run.preserve_test_env }} == true'' =
     Inr (Some \<lparr>we_literal = None, we_left = \<lparr>wt_ref = ''run.preserve_test_env'', wt_value = []\<rparr>,
       we_right = \<lparr>wt_ref = [], wt_value = ''true''\<rparr>, we_negate = False,
       we_source = ''${{ run.preserve_test_env }} == true''\<rparr>)"
  "when_parse [] = Inr None"
  by code_simp+

lemma flag_phase_runs:
  "\<exists>why. evaluate_phase_when flag_phase ctx = Inr (PhaseRuns (if wc_preserve ctx then [] else [(''keep'', why)]))"
  by (simp add: evaluate_phase_when_def flag_phase_def flag_condition when_eval_def when_resolve_def
      empty_term_def trim_prefix_def Let_def)

text \<open>
  A run dispatched on the spot is judged as if its issue did not ask to preserve the test
  environment, although its stored document says so: an entry job that is to run exactly when the
  environment is preserved is skipped, and it runs when the same run is admitted from the queue.
\<close>
theorem dispatch_forgets_preserve:
  assumes "create_run dd scr wt (create_request_of env f issue project n inputs holder) i now store = Inr (r, store')"
    and "id_preserve issue"
  shows "rn_preserve (lr_doc r) \<and>
    (\<exists>why. evaluate_phase_when flag_phase (when_context_of wkf
        (started_data (dispatched_run_data (fw_workflow f) project n inputs r) k ''prepare'' ref)) =
       Inr (PhaseRuns [(''keep'', why)])) \<and>
    evaluate_phase_when flag_phase (when_context_of wkf (started_data (replay_data (lr_doc r)) k ''prepare'' ref)) =
       Inr (PhaseRuns [])"
proof -
  have doc: "rn_preserve (lr_doc r)"
    using assms(1)
  proof (cases rule: created_parts)
    case (1 wkf declared)
    then show ?thesis using assms(2) by (simp add: new_run_doc_def create_request_of_def Let_def)
  qed
  let ?ctx = "\<lambda>run. when_context_of wkf (started_data run k ''prepare'' ref)"
  have "\<not> wc_preserve (?ctx (dispatched_run_data (fw_workflow f) project n inputs r))"
    "wc_preserve (?ctx (replay_data (lr_doc r)))"
    using doc by (simp_all add: when_context_of_def started_data_def dispatched_run_data_def replay_data_def)
  with doc flag_phase_runs [of "?ctx (dispatched_run_data (fw_workflow f) project n inputs r)"]
    flag_phase_runs [of "?ctx (replay_data (lr_doc r))"]
  show ?thesis by simp
qed

lemma recycled_entrypoint:
  assumes "create_recycle_cycle dd scr wt parent sref target carry prior i now store = (Inr r, store')"
  shows "rn_entrypoint (lr_doc r) = optional_string target"
  using assms unfolding create_recycle_cycle_def Let_def
  by (simp split: option.splits if_splits sum.splits prod.splits)
    (auto simp: recycled_doc_def)

text \<open>
  A retry runs its target phase whatever its conditions say: the admission of the new cycle
  looks only at the jobs a condition skips, so a phase that the routing would skip, by its own
  condition or because every job's condition is false, is launched with all its jobs.
\<close>
theorem recycle_ignores_conditions:
  assumes "create_recycle_cycle dd scr wt parent sref target carry prior i now store = (Inr r, store')"
    and "trim_space target \<noteq> []" and "phase_spec_by_name (wf_phases wkf) (trim_space target) = Some p"
    and "started = started_data (replay_data (lr_doc r)) k (ps_name p) ref"
    and "evaluate_phase_when p (when_context_of wkf started) = Inr outcome"
    and "\<nexists>skipped. outcome = PhaseRuns skipped" and "en_launch env l p started [] = Inr jobs"
  shows "run_entrypoint_phase (wf_phases wkf) (replay_data (lr_doc r)) = Some p \<and>
         fst (launch_entry env ops wkf p started l ref acquired later st) = Dispatched (ls_host l)"
proof
  have "rn_entrypoint (lr_doc r) = optional_string target"
    by (rule recycled_entrypoint [OF assms(1)])
  then show "run_entrypoint_phase (wf_phases wkf) (replay_data (lr_doc r)) = Some p"
    using assms(2,3) by (simp add: run_entrypoint_phase_def replay_data_def optional_string_def)
  have "entry_skips outcome = []" using assms(6) by (cases outcome) (auto simp: entry_skips_def)
  then show "fst (launch_entry env ops wkf p started l ref acquired later st) = Dispatched (ls_host l)"
    using assms(5,7) by (simp add: launch_entry_def)
qed

end
