(* ===== verification/RunLeases.thy ===== *)
theory RunLeases
  imports Dispatch Leases
begin

text \<open>
  The leases of the admission: the metadata a run's lease carries
  (\<open>runCycleLeaseMetadata\<close>, \<open>persistLeaseMetadata\<close> in
  \<open>internal/server/run_queue.go\<close>, \<open>internal/server/work_context.go\<close>), the request
  that is made for it, and the lease operations of the store put in the place of the handlers'
  parameters.
\<close>

section \<open>Metadata\<close>

text \<open>What the metadata says beyond the run as routing reads it.\<close>

record lease_facts =
  lf_issue_body :: string
  lf_issue_title :: string
  lf_repo :: string
  lf_run_number :: "int option"
  lf_cycle_number :: "int option"
  lf_token :: "string option"
  lf_holder :: "string option"
  lf_evidence :: "goval list"
  lf_runtime :: "vmap option"
  lf_trigger :: vmap
  lf_inputs :: "(string \<times> string) list"

definition positive_int_string :: "int option \<Rightarrow> string" where
  "positive_int_string n = (case n of Some k \<Rightarrow> if k \<le> 0 then [] else itoa k | None \<Rightarrow> [])"

definition run_inputs_for_metadata :: "(string \<times> string) list \<Rightarrow> vmap" where
  "run_inputs_for_metadata inputs =
     foldl (\<lambda>m (k, v). if trim_space k = [] then m else vset (trim_space k) (VStr (trim_space v)) m) [] inputs"

definition run_ref_from_data :: "lease_facts \<Rightarrow> run_data \<Rightarrow> string" where
  "run_ref_from_data f run =
     (let d = (case rd_display run of Some s \<Rightarrow> s | None \<Rightarrow> []);
          shown = (if d = [] then (case lf_run_number f of Some n \<Rightarrow> itoa n | None \<Rightarrow> []) else d) in
      case run_ref (rd_project run) (rd_issue_number run) shown of Some r \<Rightarrow> r | None \<Rightarrow> [])"

definition set_trimmed :: "string \<Rightarrow> string \<Rightarrow> vmap \<Rightarrow> vmap" where
  "set_trimmed k s m = (if trim_space s \<noteq> [] then vset k (VStr (trim_space s)) m else m)"

definition apply_work_context :: "lease_facts \<Rightarrow> run_data \<Rightarrow> vmap \<Rightarrow> vmap" where
  "apply_work_context f run m =
     (let ctx = any_map_value (vget_any (lf_trigger f) ''work_context'') in
      if ctx \<noteq> []
      then set_trimmed ''work_context_state'' (string_value (vget_any ctx ''state''))
             (set_trimmed ''work_context_base_ref'' (string_value (vget_any ctx ''base_ref''))
               (set_trimmed ''work_context_branch'' (string_value (vget_any ctx ''branch''))
                 (vset ''work_context'' (VMap ctx) m)))
      else if trim_space (string_value (vget_any m ''work_context_id'')) \<noteq> [] then m
      else if trim_space (string_value (vget_any m ''work_context_branch'')) \<noteq> [] then m
      else set_trimmed ''work_context_id'' (rd_id run) m)"

definition issue_run_branch :: "run_data \<Rightarrow> string" where
  "issue_run_branch run =
     (let d = trim_space (case rd_display run of Some s \<Rightarrow> s | None \<Rightarrow> []) in
      if d = [] then [] else ''issue-'' @ itoa (rd_issue_number run) @ ''-run-'' @ d)"

definition work_context_branch :: "run_data \<Rightarrow> vmap \<Rightarrow> string" where
  "work_context_branch run m =
     (let i = trim_space (string_value (vget_any m ''work_context_id''));
          b = trim_space (string_value (vget_any m ''work_context_branch'')) in
      if i \<noteq> [] then (if CHR ''/'' \<in> set i then i else ''glimmung/'' @ i)
      else if b \<noteq> [] then b
      else issue_run_branch run)"

definition add_if :: "bool \<Rightarrow> string \<Rightarrow> goval \<Rightarrow> vmap \<Rightarrow> vmap" where
  "add_if b k v m = (if b then vset k v m else m)"

definition base_lease_metadata :: "lease_facts \<Rightarrow> run_data \<Rightarrow> string \<Rightarrow> int \<Rightarrow> vmap" where
  "base_lease_metadata f run phase i =
     [(''issue_body'', VStr (lf_issue_body f)),
      (''issue_ref'', VStr (issue_ref (rd_project run) (Some (rd_issue_number run)))),
      (''issue_repo'', VStr (lf_repo f)), (''issue_title'', VStr (lf_issue_title f)),
      (''run_id'', VStr (rd_id run)), (''run_ref'', VStr (run_ref_from_data f run)),
      (''run_number'', VStr (positive_int_string (lf_run_number f))),
      (''cycle_number'', VStr (positive_int_string (lf_cycle_number f))),
      (''run_cycle_number'', VStr (positive_int_string (rd_run_cycle run))),
      (''run_display_number'', VStr (first_non_empty (case rd_display run of Some s \<Rightarrow> s | None \<Rightarrow> []) ''unknown'')),
      (''attempt_index'', VStr (itoa i)), (''phase_name'', VStr phase),
      (''issue_number'', VStr (itoa (rd_issue_number run))), (''runner_k8s'', VBool True)]"

definition run_cycle_lease_metadata ::
  "lease_facts \<Rightarrow> run_data \<Rightarrow> string \<Rightarrow> int \<Rightarrow> (string \<times> string) list \<Rightarrow> vmap" where
  "run_cycle_lease_metadata f run phase i phase_inputs =
     (let token = (case lf_token f of Some t \<Rightarrow> t | None \<Rightarrow> []);
          holder = (case lf_holder f of Some h \<Rightarrow> h | None \<Rightarrow> []);
          feedback = string_value (vget_any (lf_trigger f) ''feedback'');
          inputs = run_inputs_for_metadata (lf_inputs f);
          m1 = add_if (token \<noteq> []) ''run_callback_token'' (VStr token) (base_lease_metadata f run phase i);
          m2 = add_if (holder \<noteq> []) ''issue_lock_holder_id'' (VStr holder) m1;
          m3 = add_if (lf_evidence f \<noteq> []) ''evidence_requirements'' (VList (lf_evidence f)) m2;
          m4 = (case lf_runtime f of Some r \<Rightarrow> vset ''agent_runtime'' (VMap r) m3 | None \<Rightarrow> m3);
          m5 = add_if (phase_inputs \<noteq> []) ''phase_inputs'' (VMap (map (\<lambda>(k, v). (k, VStr v)) phase_inputs)) m4;
          m6 = add_if (lf_trigger f \<noteq> []) ''trigger_source'' (VMap (lf_trigger f)) m5;
          m7 = add_if (feedback \<noteq> []) ''feedback'' (VStr feedback) m6;
          m8 = add_if (inputs \<noteq> []) ''run_inputs'' (VMap inputs) m7;
          m9 = apply_work_context f run m8;
          branch = work_context_branch run m9 in
      add_if (branch \<noteq> []) ''work_context_branch'' (VStr branch) m9)"

definition merge_into :: "vmap \<Rightarrow> vmap \<Rightarrow> vmap" where
  "merge_into new old = foldr (\<lambda>(k, v) m. vset k v m) new old"

text \<open>\<open>persistLeaseMetadata\<close>; the stored metadata of another type counts as empty.\<close>

definition persist_payload :: "vmap \<Rightarrow> vmap \<Rightarrow> (lease_error, vmap) res" where
  "persist_payload m p = Inr (vset ''metadata'' (VMap (merge_into m (any_map_value (vget_any p ''metadata'')))) p)"

lemma vget_merge: "vget (merge_into new old) k = (case vget new k of Some v \<Rightarrow> Some v | None \<Rightarrow> vget old k)"
  by (induction new) (auto simp: merge_into_def vget_vset split: option.splits)

section \<open>The lease operations of the store\<close>

record store_env =
  se_acquire :: acquire_env
  se_parse_time :: "string \<Rightarrow> instant option"
  se_facts :: "run_data \<Rightarrow> lease_facts"
  se_requirements :: "workflow \<Rightarrow> phase_spec \<Rightarrow> vmap"
  se_scripts :: canonical_scripts
  se_text :: "lease_error \<Rightarrow> string"

definition lease_request_of :: "store_env \<Rightarrow> workflow \<Rightarrow> run_data \<Rightarrow> phase_spec \<Rightarrow> lease_request" where
  "lease_request_of se wkf run p =
     \<lparr>aq_project = rd_project run, aq_workflow = Some (wf_name wkf), aq_requirements = se_requirements se wkf p,
      aq_metadata = run_cycle_lease_metadata (se_facts se run) run (ps_name p) 0 [],
      aq_requester = \<lparr>rq_consumer = [], rq_kind = [], rq_ref = [], rq_label = None, rq_url = None, rq_metadata = []\<rparr>,
      aq_ttl = Some (runner_lease_ttl_seconds (se_scripts se) (Some wkf))\<rparr>"

definition store_acquire ::
  "store_env \<Rightarrow> workflow \<Rightarrow> run_data \<Rightarrow> phase_spec \<Rightarrow> lease_db \<Rightarrow> (lease_failure, lease) res \<times> lease_db" where
  "store_acquire se wkf run p db =
     (case acquire_lease (se_parse_time se) (se_acquire se) (lease_request_of se wkf run p) db of
        (Inl LeaseUnavailable, db') \<Rightarrow> (Inl NoCapacity, db')
      | (Inl e, db') \<Rightarrow> (Inl (LeaseFailed (se_text se e)), db')
      | (Inr d, db') \<Rightarrow> (Inr (lease_from_doc (se_parse_time se) (ae_now (se_acquire se)) d), db'))"

definition store_read :: "store_env \<Rightarrow> string \<Rightarrow> string \<Rightarrow> lease_db \<Rightarrow> (string, lease) res" where
  "store_read se project ref db =
     (case list_lease_docs db project of
        Inl e \<Rightarrow> Inl (se_text se e)
      | Inr docs \<Rightarrow>
          (case select_by_ref ref None docs of
             None \<Rightarrow> Inl (se_text se LeaseNotFound)
           | Some d \<Rightarrow> Inr (lease_from_doc (se_parse_time se) (ae_now (se_acquire se)) d)))"

definition store_persist :: "store_env \<Rightarrow> lease \<Rightarrow> phase_spec \<Rightarrow> run_data \<Rightarrow> lease_db \<Rightarrow>
     (string, lease \<times> lease_db) res" where
  "store_persist se l p run db =
     (if trim_space (ls_id l) = [] then Inl ''lease id required''
      else
        (let m = merge_into (run_cycle_lease_metadata (se_facts se run) run (ps_name p) 0 []) (ls_metadata l) in
         case patch_payload (se_parse_time se) (ls_project l) (ls_id l) (persist_payload m) db of
           Inl e \<Rightarrow> Inl (se_text se e)
         | Inr (_, db') \<Rightarrow> Inr (l\<lparr>ls_metadata := m\<rparr>, db')))"

text \<open>The error of a cancellation is dropped by the handlers.\<close>

definition store_cancel :: "store_env \<Rightarrow> string \<Rightarrow> string \<Rightarrow> lease_db \<Rightarrow> lease_db" where
  "store_cancel se project ref db =
     (case cancel_lease_by_ref (se_parse_time se) (se_acquire se) project ref db of
        Inl _ \<Rightarrow> db | Inr (_, db') \<Rightarrow> db')"

definition store_lease_ops :: "store_env \<Rightarrow> lease_db lease_ops" where
  "store_lease_ops se =
     \<lparr>lo_acquire = store_acquire se, lo_read = store_read se, lo_persist = store_persist se,
      lo_cancel = store_cancel se\<rparr>"

end
