(* ===== verification/SlotRuns.thy ===== *)
theory SlotRuns
  imports DispatchSafety RunLeases LeaseSafety
begin

text \<open>
  Admission on the lease store itself: the store keeps the contract the admission relies on, so
  an admission that fails leaves no slot booked; and the end of a run releases a lease by the
  name of its slot, whoever holds the slot by then.
\<close>

section \<open>Labels of slots\<close>

lemma trim_left_keeps: "c \<notin> set (concat white_seqs) \<Longrightarrow> \<exists>t. trim_left (s @ c # v) = t @ c # v"
proof -
  assume c: "c \<notin> set (concat white_seqs)"
  have step: "\<exists>t. strip_heads ws x = t @ c # v" if "\<forall>w \<in> set ws. c \<notin> set w" "x = s @ c # v" for ws x s
    using that
  proof (induction ws x arbitrary: s rule: strip_heads.induct)
    case (1 ws x)
    show ?case
    proof (cases "find (\<lambda>w. w \<noteq> [] \<and> prefix w x) ws")
      case None
      with "1.prems" show ?thesis by (simp add: strip_heads_stop)
    next
      case (Some w)
      then have w: "w \<in> set ws" "prefix w (s @ c # v)"
        using "1.prems"(2) find_result_in [OF Some] by simp_all
      have "c \<notin> set w" using w(1) "1.prems"(1) by blast
      with w(2) have "prefix w s" by (auto simp: prefix_append prefix_Cons)
      then obtain u where "s = w @ u" by (auto simp: prefix_def)
      then have "drop (length w) x = u @ c # v" using "1.prems"(2) by simp
      with "1.IH" [OF Some "1.prems"(1)] Some show ?thesis by (simp only: strip_heads_step)
    qed
  qed
  show ?thesis unfolding trim_left_def using c by (intro step) auto
qed

lemma trimmed_label: "1 \<le> i \<Longrightarrow> \<exists>u. trim_space (slot_label p pre i) = u @ CHR ''-'' # itoa i"
proof -
  assume i: "1 \<le> i"
  have "CHR ''-'' \<notin> set (concat white_seqs)" by (auto simp: white_seqs_def)
  from trim_left_keeps [OF this] obtain u where "trim_left (slot_label p pre i) = u @ CHR ''-'' # itoa i"
    by (metis append_Cons append_Nil append_assoc slot_label_def)
  moreover have "trim_right (u @ CHR ''-'' # itoa i) = u @ CHR ''-'' # itoa i"
  proof -
    have "u @ CHR ''-'' # itoa i = (u @ CHR ''-'' # butlast (itoa i)) @ [last (itoa i)]"
      using itoa_ne by simp
    moreover have "trim_right ((u @ CHR ''-'' # butlast (itoa i)) @ [last (itoa i)]) = (u @ CHR ''-'' # butlast (itoa i)) @ [last (itoa i)]"
      using i itoa_ends by (intro trim_right_plain) blast
    ultimately show ?thesis by simp
  qed
  ultimately show ?thesis by (simp add: trim_space_def)
qed

lemma no_minus: "1 \<le> i \<Longrightarrow> CHR ''-'' \<notin> set (itoa i)"
  using itoa_nonneg_digits [of i] by (auto simp: list_all_iff char_class_defs)

lemma label_index:
  assumes "trim_space (slot_label p pre i) = trim_space (slot_label p' pre' j)" "1 \<le> i" "1 \<le> j"
  shows "i = j"
proof -
  obtain u v where "trim_space (slot_label p pre i) = u @ CHR ''-'' # itoa i"
    "trim_space (slot_label p' pre' j) = v @ CHR ''-'' # itoa j"
    using trimmed_label assms(2,3) by metis
  with assms(1) have "itoa i = itoa j"
    using append_sep_inject [OF no_minus no_minus] assms(2,3) by metis
  with assms(2,3) itoa_inject show ?thesis by simp
qed

section \<open>Which references are booked\<close>

definition stored_lease :: "lease_row \<Rightarrow> lease_doc option" where
  "stored_lease r = decode_lease (lr_payload r)"

definition booking :: "lease_doc \<Rightarrow> bool" where
  "booking d \<longleftrightarrow> ld_state d = ''claimed'' \<and> \<not> is_bookkeeping d"

definition booked_refs :: "lease_db \<Rightarrow> (string \<times> string) set" where
  "booked_refs db =
     {(lr_project r, doc_public_ref d) | r d. r \<in> set (db_leases db) \<and> stored_lease r = Some d \<and> booking d}"

definition row_written :: "lease_row \<Rightarrow> bool" where
  "row_written r \<longleftrightarrow>
     reload_map (lr_payload r) = lr_payload r \<and>
     (\<exists>d. stored_lease r = Some d \<and> ld_id d = lr_id r \<and> ld_project d = lr_project r)"

definition one_booking :: "lease_row list \<Rightarrow> bool" where
  "one_booking rs \<longleftrightarrow>
     (\<forall>r \<in> set rs. \<forall>s \<in> set rs. \<forall>d e. stored_lease r = Some d \<longrightarrow> stored_lease s = Some e \<longrightarrow> booking d \<longrightarrow> booking e \<longrightarrow>
        lr_project r = lr_project s \<longrightarrow> doc_public_ref d = doc_public_ref e \<longrightarrow> row_key r = row_key s)"

definition store_sound :: "lease_db \<Rightarrow> bool" where
  "store_sound db \<longleftrightarrow>
     distinct (map row_key (db_leases db)) \<and> (\<forall>r \<in> set (db_leases db). row_written r) \<and> one_booking (db_leases db)"

text \<open>Every claimed lease is a runner lease, named after the slot it uses.\<close>

definition row_labelled :: "lease_row \<Rightarrow> bool" where
  "row_labelled r \<longleftrightarrow>
     (\<forall>d. stored_lease r = Some d \<longrightarrow> booking d \<longrightarrow>
        (\<exists>i pre. 1 \<le> i \<and> runner_slot_index (ld_metadata d) = Some i \<and>
           vget_any (ld_metadata d) ''runner_k8s'' = VBool True \<and>
           doc_public_ref d = trim_space (slot_label (lr_project r) pre i)))"

definition store_fit :: "store_env \<Rightarrow> workflow \<Rightarrow> run_data \<Rightarrow> phase_spec \<Rightarrow> lease_db \<Rightarrow> bool" where
  "store_fit se wkf run p db \<longleftrightarrow>
     store_sound db \<and> (\<forall>r \<in> set (db_leases db). row_labelled r) \<and> slots_keyed (db_slots db) \<and>
     int64_ok (seeded_counter db (rd_project run)) \<and>
     \<not> prefix ''__counter:lease-number:'' (ae_lease_id (se_acquire se))"

section \<open>Cancelling\<close>

lemma decode_rows_map:
  "\<forall>r \<in> set rs. stored_lease r \<noteq> None \<Longrightarrow> decode_rows rs = Inr (map (\<lambda>r. the (stored_lease r)) rs)"
  by (induction rs) (auto simp: stored_lease_def)

lemma docs_of_project:
  "store_sound db \<Longrightarrow> list_lease_docs db p =
     Inr (map (\<lambda>r. the (stored_lease r)) (filter (\<lambda>r. lr_project r = p) (db_leases db)))"
  unfolding list_lease_docs_def
  by (intro decode_rows_map) (auto simp: store_sound_def row_written_def)

lemma select_by_ref_None: "select_by_ref ref found ds = None \<longleftrightarrow>
    found = None \<and> (\<forall>d \<in> set ds. is_bookkeeping d \<or> doc_public_ref d \<noteq> ref)"
  by (induction ref found ds rule: select_by_ref.induct) (auto split: option.splits)

lemma select_by_ref_best:
  "select_by_ref ref found ds = Some d \<Longrightarrow>
     (found = Some d \<or> (d \<in> set ds \<and> \<not> is_bookkeeping d \<and> doc_public_ref d = ref)) \<and>
     (\<forall>e \<in> set ds. is_bookkeeping e \<or> doc_public_ref e \<noteq> ref \<or> candidate_rank d \<le> candidate_rank e) \<and>
     (\<forall>f. found = Some f \<longrightarrow> candidate_rank d \<le> candidate_rank f)"
proof (induction ref found ds rule: select_by_ref.induct)
  case (2 ref found x ds)
  show ?case
  proof (cases "is_bookkeeping x \<or> doc_public_ref x \<noteq> ref")
    case True
    with 2 show ?thesis by auto
  next
    case False
    show ?thesis
    proof (cases found)
      case None
      with 2 False show ?thesis by auto
    next
      case (Some f)
      with 2 False show ?thesis by (cases "candidate_rank x < candidate_rank f") auto
    qed
  qed
qed simp

lemma released_doc:
  assumes "reload_map p = p" "decode_lease p = Some d"
  shows "decode_lease (reload_map (vset ''released_at'' (VStr t) (vset ''state'' (VStr s) p))) = Some (d\<lparr>ld_state := s\<rparr>)"
proof -
  have "decode_lease (reload_map (vset ''released_at'' (VStr t) (vset ''state'' (VStr s) p)))
      = decode_lease (vset ''state'' (VStr s) p)"
    unfolding reload_map_vset assms(1) by (rule decode_lease_cong) (auto simp: lease_keys_def)
  also have "\<dots> = Some (d\<lparr>ld_state := s\<rparr>)"
    using assms(2) by (auto simp: decode_lease_def lease_values_ok_def lease_strings_ok_def split: if_splits)
  finally show ?thesis .
qed

text \<open>A row whose lease has been released.\<close>

definition released_row :: "(string \<Rightarrow> instant option) \<Rightarrow> string \<Rightarrow> lease_row \<Rightarrow> lease_row" where
  "released_row parse_time t r = (case patch_row parse_time (release_payload t) r of Inl _ \<Rightarrow> r | Inr r' \<Rightarrow> r')"

lemma patch_release: "patch_row parse_time (release_payload t) r = Inr (released_row parse_time t r)"
  by (simp add: released_row_def patch_row_def release_payload_def)

lemma released_row_fields:
  assumes "row_written r" "stored_lease r = Some d"
  shows "row_key (released_row parse_time t r) = row_key r \<and> lr_project (released_row parse_time t r) = lr_project r \<and>
    stored_lease (released_row parse_time t r) = Some (d\<lparr>ld_state := ''released''\<rparr>) \<and> row_written (released_row parse_time t r)"
proof -
  have "stored_lease (released_row parse_time t r) = Some (d\<lparr>ld_state := ''released''\<rparr>)"
    using released_doc assms
    by (simp add: stored_lease_def released_row_def patch_row_def release_payload_def row_written_def)
  then show ?thesis
    using assms by (simp add: row_written_def row_key_def released_row_def patch_row_def release_payload_def)
qed

lemma patch_released:
  assumes "store_sound db" "r \<in> set (db_leases db)" "lr_project r = p" "lr_id r = i"
  shows "patch_payload parse_time p i (release_payload t) db =
    Inr (released_row parse_time t r,
         db\<lparr>db_leases := map (\<lambda>x. if row_key x = row_key r then released_row parse_time t x else x) (db_leases db)\<rparr>)"
proof -
  have key: "row_key r = (p, i)" using assms(3,4) by (simp add: row_key_def)
  have d: "distinct (map row_key (db_leases db))" using assms(1) by (simp add: store_sound_def)
  have "find (lease_at p i) (db_leases db) = Some r"
    using assms(2) key d by (intro find_unique) (auto simp: lease_at_key distinct_map inj_on_def)
  then show ?thesis
    using map_at_key [OF d, of p i r "released_row parse_time t"]
    by (simp add: patch_payload_def patch_release map_at_key [OF d] key lease_at_key)
qed

definition release_at :: "(string \<Rightarrow> instant option) \<Rightarrow> string \<Rightarrow> string \<times> string \<Rightarrow> lease_row list \<Rightarrow> lease_row list" where
  "release_at parse_time t k rs = map (\<lambda>x. if row_key x = k then released_row parse_time t x else x) rs"

lemma same_key_same_row:
  "distinct (map row_key rs) \<Longrightarrow> r \<in> set rs \<Longrightarrow> s \<in> set rs \<Longrightarrow> row_key r = row_key s \<Longrightarrow> r = s"
  by (simp add: distinct_map inj_on_def)

lemma booking_released [simp]: "\<not> booking (d\<lparr>ld_state := ''released''\<rparr>)"
  by (simp add: booking_def)

lemma release_at_bookings:
  assumes "store_sound db" "y \<in> set (release_at parse_time t k (db_leases db))" "stored_lease y = Some d" "booking d"
  shows "y \<in> set (db_leases db) \<and> row_key y \<noteq> k"
proof -
  obtain x where x: "x \<in> set (db_leases db)" "y = (if row_key x = k then released_row parse_time t x else x)"
    using assms(2) by (auto simp: release_at_def)
  obtain e where "row_written x" "stored_lease x = Some e"
    using assms(1) x(1) by (auto simp: store_sound_def row_written_def)
  then show ?thesis
    using released_row_fields x assms(3,4) by (cases "row_key x = k") fastforce+
qed

lemma released_key [simp]: "row_key (released_row parse_time t r) = row_key r"
  by (simp add: row_key_def released_row_def patch_row_def release_payload_def)

lemma release_at_keys [simp]: "map row_key (release_at parse_time t k rs) = map row_key rs"
  by (simp add: release_at_def)

lemma release_at_written:
  assumes "store_sound db" "y \<in> set (release_at parse_time t k (db_leases db))"
  shows "row_written y"
proof -
  obtain x where x: "x \<in> set (db_leases db)" "y = (if row_key x = k then released_row parse_time t x else x)"
    using assms(2) by (auto simp: release_at_def)
  then have w: "row_written x" using assms(1) by (simp add: store_sound_def)
  then obtain d where "stored_lease x = Some d" by (auto simp: row_written_def)
  with released_row_fields [OF w] w x(2) show ?thesis by simp
qed

lemma one_bookingD:
  "store_sound db \<Longrightarrow> r \<in> set (db_leases db) \<Longrightarrow> s \<in> set (db_leases db) \<Longrightarrow> stored_lease r = Some d \<Longrightarrow> stored_lease s = Some e \<Longrightarrow>
     booking d \<Longrightarrow> booking e \<Longrightarrow> lr_project r = lr_project s \<Longrightarrow> doc_public_ref d = doc_public_ref e \<Longrightarrow> row_key r = row_key s"
  unfolding store_sound_def one_booking_def by (elim conjE, drule (1) bspec, drule (1) bspec, iprover)

lemma release_at_one:
  assumes "store_sound db"
  shows "one_booking (release_at parse_time t k (db_leases db))"
  unfolding one_booking_def
proof (intro ballI allI impI)
  fix r s d e
  assume r: "r \<in> set (release_at parse_time t k (db_leases db))" "stored_lease r = Some d" "booking d"
    and s: "s \<in> set (release_at parse_time t k (db_leases db))" "stored_lease s = Some e" "booking e"
    and same: "lr_project r = lr_project s" "doc_public_ref d = doc_public_ref e"
  from release_at_bookings [OF assms r] release_at_bookings [OF assms s]
  show "row_key r = row_key s"
    using one_bookingD [OF assms _ _ r(2) s(2) r(3) s(3) same] by simp
qed

lemma release_at_sound:
  assumes "store_sound db" "db_leases db' = release_at parse_time t k (db_leases db)"
  shows "store_sound db'"
  using assms(1) release_at_written [OF assms(1)] release_at_one [OF assms(1)]
  by (simp add: store_sound_def assms(2))

lemma release_at_booked:
  assumes "store_sound db" "db_leases db' = release_at parse_time t (row_key r) (db_leases db)"
    and r: "r \<in> set (db_leases db)" "stored_lease r = Some d" "\<not> is_bookkeeping d"
    and claimed: "(lr_project r, doc_public_ref d) \<in> booked_refs db \<Longrightarrow> ld_state d = ''claimed''"
  shows "booked_refs db' = booked_refs db - {(lr_project r, doc_public_ref d)}"
proof (intro equalityI subsetI)
  fix b
  assume "b \<in> booked_refs db'"
  then obtain y e where y: "y \<in> set (db_leases db')" "stored_lease y = Some e" "booking e" "b = (lr_project y, doc_public_ref e)"
    by (auto simp: booked_refs_def)
  with release_at_bookings [OF assms(1)] assms(2) have old: "y \<in> set (db_leases db)" "row_key y \<noteq> row_key r" by auto
  have b: "b \<in> booked_refs db" using y old by (auto simp: booked_refs_def)
  have "b \<noteq> (lr_project r, doc_public_ref d)"
  proof
    assume eq: "b = (lr_project r, doc_public_ref d)"
    with b claimed r(3) have "booking d" by (simp add: booking_def)
    have "row_key y = row_key r"
      using eq y(4) by (intro one_bookingD [OF assms(1) old(1) r(1) y(2) r(2) y(3) \<open>booking d\<close>]) simp_all
    with old show False by simp
  qed
  with b show "b \<in> booked_refs db - {(lr_project r, doc_public_ref d)}" by simp
next
  fix b
  assume "b \<in> booked_refs db - {(lr_project r, doc_public_ref d)}"
  then obtain x e where x: "x \<in> set (db_leases db)" "stored_lease x = Some e" "booking e" "b = (lr_project x, doc_public_ref e)"
      "b \<noteq> (lr_project r, doc_public_ref d)"
    by (auto simp: booked_refs_def)
  have "row_key x \<noteq> row_key r"
    using same_key_same_row [of "db_leases db" x r] assms(1) x r by (auto simp: store_sound_def)
  then have "x \<in> set (db_leases db')" using x(1) by (force simp: assms(2) release_at_def)
  with x show "b \<in> booked_refs db'" by (auto simp: booked_refs_def)
qed

lemma store_cancelled:
  assumes "store_sound db"
  shows "store_sound (store_cancel se p ref db) \<and> booked_refs (store_cancel se p ref db) = booked_refs db - {(p, ref)}"
proof -
  let ?docs = "map (\<lambda>r. the (stored_lease r)) (filter (\<lambda>r. lr_project r = p) (db_leases db))"
  note docs = docs_of_project [OF assms, of p]
  have member: "(p, ref) \<in> booked_refs db \<longleftrightarrow> (\<exists>d \<in> set ?docs. booking d \<and> doc_public_ref d = ref)"
    using assms by (force simp: booked_refs_def store_sound_def row_written_def)
  show ?thesis
  proof (cases "select_by_ref ref None ?docs")
    case None
    then have "(p, ref) \<notin> booked_refs db" unfolding member by (auto simp: select_by_ref_None booking_def)
    with None docs assms show ?thesis by (simp add: store_cancel_def cancel_lease_by_ref_def)
  next
    case (Some d)
    note best = select_by_ref_best [OF Some]
    from best obtain r where r: "r \<in> set (db_leases db)" "lr_project r = p" "stored_lease r = Some d"
        "\<not> is_bookkeeping d" "doc_public_ref d = ref" "row_written r" "ld_id d = lr_id r"
      using assms by (fastforce simp: store_sound_def row_written_def)
    have claimed: "ld_state d = ''claimed''" if "(p, ref) \<in> booked_refs db"
      using that best unfolding member by (force simp: booking_def candidate_rank_def split: if_splits)
    show ?thesis
    proof (cases "ended (ld_state d)")
      case True
      with claimed have "(p, ref) \<notin> booked_refs db" by (auto simp: ended_def)
      with True Some docs assms show ?thesis by (simp add: store_cancel_def cancel_lease_by_ref_def)
    next
      case False
      let ?rs = "release_at (se_parse_time se) (ae_now_text (se_acquire se)) (row_key r) (db_leases db)"
      let ?r' = "released_row (se_parse_time se) (ae_now_text (se_acquire se)) r"
      have "decode_lease (lr_payload ?r') = Some (d\<lparr>ld_state := ''released''\<rparr>)"
        using released_row_fields [OF r(6,3)] by (simp add: stored_lease_def)
      then have "db_leases (store_cancel se p ref db) = ?rs"
        using False Some docs patch_released [OF assms r(1,2) refl, of "se_parse_time se" "ae_now_text (se_acquire se)"]
        by (simp add: store_cancel_def cancel_lease_by_ref_def r(7) release_at_def)
      with release_at_sound [OF assms] release_at_booked [OF assms _ r(1,3,4)] claimed r(2,5)
      show ?thesis by simp
    qed
  qed
qed

section \<open>Acquiring\<close>

lemma runner_ttl_bounds: "14400 \<le> runner_lease_ttl_seconds scr w \<and> runner_lease_ttl_seconds scr w \<le> 86400"
  by (auto simp: runner_lease_ttl_seconds_def default_lease_ttl_def Let_def split: option.split)

lemma request_fields [simp]:
  "aq_project (lease_request_of se wkf run p) = rd_project run"
  by (simp add: lease_request_of_def)

lemma request_ttl_ok: "int64_ok (lease_ttl (lease_request_of se wkf run p))"
  using runner_ttl_bounds [of "se_scripts se" "Some wkf"]
  by (simp add: lease_ttl_def lease_request_of_def int64_ok_def)

lemma new_doc_decodes:
  assumes "int64_ok n" "int64_ok (lease_ttl q)" and d: "d = new_lease_doc env q n i pre"
  shows "\<exists>e. stored_lease (new_lease_row env d) = Some e \<and> doc_public_ref e = doc_public_ref d \<and> ld_state e = ''claimed'' \<and>
    ld_id e = ae_lease_id env \<and> ld_project e = aq_project q \<and> ld_kind e = []"
proof -
  have "lease_ints_ok d" using assms by (simp add: lease_ints_ok_def new_lease_doc_def)
  from decode_encode_lease [OF this] show ?thesis
    by (simp add: stored_lease_def new_lease_row_def doc_public_ref_def lease_public_ref_def lease_from_doc_def
        string_from_map_def vget_any_reload Let_def)
      (simp add: d new_lease_doc_def set_runner_slot_metadata_def)
qed

lemma decoded_fields:
  assumes "decode_lease p = Some d"
  shows "dec_str (vget_any p ''state'') = Some (ld_state d)" "dec_map (vget_any p ''metadata'') = Some (ld_metadata d)"
  using assms by (auto simp: decode_lease_def lease_values_ok_def lease_strings_ok_def split: if_splits)

lemma decoded_state: "decode_lease p = Some d \<Longrightarrow> ld_state d = ''claimed'' \<Longrightarrow> vget_any p ''state'' = VStr ''claimed''"
  using decoded_fields(1) [of p d] by (cases "vget_any p ''state''") simp_all

lemma decoded_metadata: "decode_lease p = Some d \<Longrightarrow> any_map_value (vget_any p ''metadata'') = ld_metadata d"
  using decoded_fields(2) [of p d] by (cases "vget_any p ''metadata''") simp_all

lemma used_by_booking:
  assumes "store_sound db" "r \<in> set (db_leases db)" "row_labelled r" "stored_lease r = Some d" "booking d"
    and "decode_rows (filter (claimed_runner_row (lr_project r)) (db_leases db)) = Inr docs"
  shows "\<exists>i pre. 1 \<le> i \<and> i \<in> set (used_slots (lr_project r) docs) \<and> doc_public_ref d = trim_space (slot_label (lr_project r) pre i)"
proof -
  obtain i pre where i: "1 \<le> i" "runner_slot_index (ld_metadata d) = Some i" "vget_any (ld_metadata d) ''runner_k8s'' = VBool True"
      "doc_public_ref d = trim_space (slot_label (lr_project r) pre i)"
    using assms(3-5) by (auto simp: row_labelled_def)
  have "claimed_runner_row (lr_project r) r"
    using assms(4,5) i(3)
    by (simp add: claimed_runner_row_def stored_lease_def booking_def decoded_state decoded_metadata)
  moreover have "decode_rows (filter (claimed_runner_row (lr_project r)) (db_leases db))
      = Inr (map (\<lambda>r. the (stored_lease r)) (filter (claimed_runner_row (lr_project r)) (db_leases db)))"
    using assms(1) by (intro decode_rows_map) (auto simp: store_sound_def row_written_def)
  ultimately have "d \<in> set docs" using assms(2,4,6) by force
  moreover have "ld_project d = lr_project r"
    using assms(1,2,4) by (auto simp: store_sound_def row_written_def)
  ultimately show ?thesis
    using i by (intro exI [of _ i] exI [of _ pre]) (force simp: used_slots_def List.map_filter_def)
qed

lemma bookedI: "r \<in> set (db_leases db) \<Longrightarrow> stored_lease r = Some d \<Longrightarrow> booking d \<Longrightarrow> (lr_project r, doc_public_ref d) \<in> booked_refs db"
  unfolding booked_refs_def by blast

lemma booked_Cons:
  assumes "db_leases db' = r # db_leases db" "stored_lease r = Some d" "booking d"
  shows "booked_refs db' = insert (lr_project r, doc_public_ref d) (booked_refs db)"
  using assms by (auto simp: booked_refs_def)

lemma sound_Cons:
  assumes "store_sound db" "db_leases db' = r # db_leases db" "row_written r" "lr_id r \<notin> lr_id ` set (db_leases db)"
    and "stored_lease r = Some d" "(lr_project r, doc_public_ref d) \<notin> booked_refs db"
  shows "store_sound db'"
proof -
  have "row_key r \<notin> row_key ` set (db_leases db)" using assms(4) by (auto simp: row_key_def)
  moreover have "one_booking (r # db_leases db)"
    unfolding one_booking_def
  proof (intro ballI allI impI)
    fix x y e f
    assume x: "x \<in> set (r # db_leases db)" "stored_lease x = Some e" "booking e"
      and y: "y \<in> set (r # db_leases db)" "stored_lease y = Some f" "booking f"
      and same: "lr_project x = lr_project y" "doc_public_ref e = doc_public_ref f"
    have clash: False if "z \<in> set (db_leases db)" "stored_lease z = Some g" "booking g" "lr_project z = lr_project r"
        "doc_public_ref g = doc_public_ref d" for z g
      using bookedI [OF that(1-3)] that(4,5) assms(6) by simp
    consider "x = r" "y = r" | "x = r" "y \<in> set (db_leases db)" | "x \<in> set (db_leases db)" "y = r"
      | "x \<in> set (db_leases db)" "y \<in> set (db_leases db)" using x(1) y(1) by auto
    then show "row_key x = row_key y"
    proof cases
      case 2
      then show ?thesis using clash [OF 2(2) y(2,3)] x(2) same assms(5) by simp
    next
      case 3
      then show ?thesis using clash [OF 3(1) x(2,3)] y(2) same assms(5) by simp
    next
      case 4
      then show ?thesis by (rule one_bookingD [OF assms(1) _ _ x(2) y(2) x(3) y(3) same])
    qed simp
  qed
  ultimately show ?thesis using assms(1,2,3) by (simp add: store_sound_def)
qed

text \<open>The new row, before its slot is reserved.\<close>

lemma inserted_row:
  assumes fit: "store_fit se wkf run p db"
    and d: "d = new_lease_doc (se_acquire se) (lease_request_of se wkf run p) (seeded_counter db (rd_project run)) i pre"
    and avail: "available_runner_slot db (rd_project run) = Inr (Some i)"
    and fresh: "ae_lease_id (se_acquire se) \<notin> lr_id ` set (db_leases db)"
    and ins: "db_leases db2 = new_lease_row (se_acquire se) d # db_leases db"
  shows "store_sound db2 \<and> (rd_project run, doc_public_ref d) \<notin> booked_refs db \<and>
    booked_refs db2 = insert (rd_project run, doc_public_ref d) (booked_refs db) \<and>
    trim_space (doc_public_ref d) = doc_public_ref d \<and> doc_public_ref d \<noteq> []"
proof -
  let ?row = "new_lease_row (se_acquire se) d"
  have sound: "store_sound db" and number: "int64_ok (seeded_counter db (rd_project run))"
    and id: "\<not> prefix ''__counter:lease-number:'' (ae_lease_id (se_acquire se))"
    using fit by (simp_all add: store_fit_def)
  obtain e where e: "stored_lease ?row = Some e" "doc_public_ref e = doc_public_ref d" "ld_state e = ''claimed''"
      "ld_id e = ae_lease_id (se_acquire se)" "ld_project e = rd_project run" "ld_kind e = []"
    using new_doc_decodes [OF number request_ttl_ok [of se wkf run p] d] by auto
  have booking: "booking e" using e id by (simp add: booking_def is_bookkeeping_def)
  have row: "lr_project ?row = rd_project run" "lr_id ?row = ae_lease_id (se_acquire se)"
    by (simp_all add: new_lease_row_def d new_lease_doc_def)
  have written: "row_written ?row"
    using e row by (simp add: row_written_def new_lease_row_def)
  obtain docs where ready: "i \<in> set (runner_ready_slots db (rd_project run))"
      and docs: "decode_rows (filter (claimed_runner_row (rd_project run)) (db_leases db)) = Inr docs"
      and free: "i \<notin> set (used_slots (rd_project run) docs)"
    using available_slot_Some [OF avail] by blast
  have keyed: "sl_index (row_payload r) = j" if "db_slots db (rd_project run, j) = Some r" for j r
    using fit that by (fastforce simp: store_fit_def slots_keyed_def slot_key_def)
  have i: "1 \<le> i" using ready_slot_in [OF ready keyed] by simp
  have ref: "doc_public_ref d = trim_space (slot_label (rd_project run) pre i)"
    using trimmed_label_ne [OF i] by (simp add: d doc_ref_new_lease lease_ref_def)
  have unbooked: "(rd_project run, doc_public_ref d) \<notin> booked_refs db"
  proof
    assume "(rd_project run, doc_public_ref d) \<in> booked_refs db"
    then obtain r f where r: "r \<in> set (db_leases db)" "stored_lease r = Some f" "booking f" "lr_project r = rd_project run"
        "doc_public_ref f = doc_public_ref d" by (auto simp: booked_refs_def)
    have "row_labelled r" using fit r(1) by (simp add: store_fit_def)
    from used_by_booking [OF sound r(1) this r(2,3)] r(4) docs
    obtain j pre' where j: "1 \<le> j" "j \<in> set (used_slots (rd_project run) docs)"
        "doc_public_ref f = trim_space (slot_label (rd_project run) pre' j)" by auto
    with ref r(5) label_index i have "i = j" by metis
    with j(2) free show False by simp
  qed
  have trimmed: "trim_space (doc_public_ref d) = doc_public_ref d" "doc_public_ref d \<noteq> []"
    using trimmed_label_ne [OF i, of "rd_project run" pre] by (simp_all add: ref)
  show ?thesis
    using sound_Cons [OF sound ins written _ e(1)] booked_Cons [OF ins e(1) booking] fresh unbooked trimmed
    by (simp add: row e(2))
qed

lemma reserve_leases: "reserve_slot t now d db = Inr db' \<Longrightarrow> db_leases db' = db_leases db"
  by (auto simp: reserve_slot_def on_lease_slot_leases split: option.splits if_splits)

lemma leases_only:
  "db_leases a = db_leases b \<Longrightarrow> booked_refs a = booked_refs b" "db_leases a = db_leases b \<Longrightarrow> store_sound a = store_sound b"
  by (simp_all add: booked_refs_def store_sound_def)

lemma acquire_refused:
  assumes "acquire_runner_lease parse_time env q db = (Inl e, db')"
  obtains (early) "db_leases db' = db_leases db"
  | (late) i pre d db2 where "d = new_lease_doc env q (seeded_counter db (aq_project q)) i pre"
      "available_runner_slot db (aq_project q) = Inr (Some i)" "ae_lease_id env \<notin> lr_id ` set (db_leases db)"
      "db_leases db2 = new_lease_row env d # db_leases db"
      "db' = (case cancel_lease_by_ref parse_time env (aq_project q) (doc_public_ref d) db2 of Inl _ \<Rightarrow> db2 | Inr (_, x) \<Rightarrow> x)"
proof (cases "validate_slot_identity (aq_metadata q)")
  case (Some x)
  with assms early show thesis by (simp add: acquire_runner_lease_def)
next
  case None
  obtain n db1 where a: "allocate_number (aq_project q) db = (n, db1)" by (cases "allocate_number (aq_project q) db")
  note f = allocate_fields [OF a]
  have n: "n = seeded_counter db (aq_project q)" using a by (simp add: allocate_number_def Let_def)
  have av: "available_runner_slot db1 (aq_project q) = available_runner_slot db (aq_project q)"
    using f by (intro available_cong) simp_all
  show thesis
  proof (cases "available_runner_slot db (aq_project q)")
    case (Inl x)
    with assms None a av f early show thesis by (simp add: acquire_runner_lease_def)
  next
    case (Inr o')
    show thesis
    proof (cases o')
      case none: None
      with Inr assms None a av f early show thesis by (simp add: acquire_runner_lease_def)
    next
      case (Some i)
      let ?d = "new_lease_doc env q n i (runner_slot_prefix db1 (aq_project q))"
      show thesis
      proof (cases "insert_lease (new_lease_row env ?d) db1")
        case (Inl x)
        with Some Inr assms None a av f early show thesis by (simp add: acquire_runner_lease_def Let_def)
      next
        case ins: (Inr db2)
        then have db2: "db_leases db2 = new_lease_row env ?d # db_leases db" "ae_lease_id env \<notin> lr_id ` set (db_leases db)"
          using f by (auto simp: insert_lease_def new_lease_row_def new_lease_doc_def split: if_splits)
        show thesis
        proof (cases "reserve_slot (ae_write env) (ae_now env) ?d db2")
          case (Inr db3)
          with Some \<open>available_runner_slot db (aq_project q) = Inr o'\<close> assms None a av ins show thesis
            by (simp add: acquire_runner_lease_def Let_def)
        next
          case (Inl x)
          with Some \<open>available_runner_slot db (aq_project q) = Inr o'\<close> assms None a av ins
          have "db' = (case cancel_lease_by_ref parse_time env (aq_project q) (doc_public_ref ?d) db2 of
              Inl _ \<Rightarrow> db2 | Inr (_, x) \<Rightarrow> x)"
            by (simp add: acquire_runner_lease_def Let_def)
          with late [OF _ _ db2(2,1)] n Some \<open>available_runner_slot db (aq_project q) = Inr o'\<close>
          show thesis by simp
        qed
      qed
    qed
  qed
qed

lemma store_acquired:
  assumes "store_fit se wkf run p db" "store_acquire se wkf run p db = (Inr l, db')"
  shows "store_sound db' \<and> ls_state l = ''claimed'' \<and> (rd_project run, lease_public_ref l) \<notin> booked_refs db \<and>
    booked_refs db' = insert (rd_project run, lease_public_ref l) (booked_refs db) \<and>
    trim_space (lease_public_ref l) = lease_public_ref l \<and> lease_public_ref l \<noteq> []"
proof -
  obtain d where d: "acquire_runner_lease (se_parse_time se) (se_acquire se) (lease_request_of se wkf run p) db = (Inr d, db')"
      "l = lease_from_doc (se_parse_time se) (ae_now (se_acquire se)) d"
    using assms(2) by (auto simp: store_acquire_def acquire_lease_def split: prod.splits sum.splits if_splits lease_error.splits)
  obtain i pre db2 where new: "d = new_lease_doc (se_acquire se) (lease_request_of se wkf run p)
        (seeded_counter db (rd_project run)) i pre"
      "available_runner_slot db (rd_project run) = Inr (Some i)"
      "db_leases db2 = new_lease_row (se_acquire se) d # db_leases db"
      "reserve_slot (ae_write (se_acquire se)) (ae_now (se_acquire se)) d db2 = Inr db'"
      "ae_lease_id (se_acquire se) \<notin> lr_id ` set (db_leases db)"
    using acquire_success [OF d(1)] by auto
  have ref: "lease_public_ref l = doc_public_ref d"
    by (simp add: d(2) doc_public_ref_def lease_public_ref_def lease_from_doc_def)
  have claimed: "ls_state l = ''claimed''"
    by (simp add: d(2) lease_from_doc_def new(1) new_lease_doc_def first_non_empty_def)
  show ?thesis
    using inserted_row [OF assms(1) new(1,2,5,3)] leases_only [OF reserve_leases [OF new(4)]] ref claimed by simp
qed

lemma store_refused:
  assumes "store_fit se wkf run p db" "store_acquire se wkf run p db = (Inl e, db')"
  shows "booked_refs db' = booked_refs db"
proof (cases "is_runner_lease_request (lease_request_of se wkf run p)")
  case False
  with assms(2) show ?thesis by (simp add: store_acquire_def acquire_lease_def)
next
  case True
  then obtain x where "acquire_runner_lease (se_parse_time se) (se_acquire se) (lease_request_of se wkf run p) db = (Inl x, db')"
    using assms(2) by (auto simp: store_acquire_def acquire_lease_def split: prod.splits sum.splits lease_error.splits)
  then show ?thesis
  proof (cases rule: acquire_refused)
    case early
    then show ?thesis by (rule leases_only)
  next
    case (late i pre d db2)
    from inserted_row [OF assms(1) late(1) [simplified] late(2) [simplified] late(3,4)]
    have new: "store_sound db2" "booked_refs db2 = insert (rd_project run, doc_public_ref d) (booked_refs db)"
      "(rd_project run, doc_public_ref d) \<notin> booked_refs db" by simp_all
    have "db' = store_cancel se (rd_project run) (doc_public_ref d) db2"
      using late(5) by (simp add: store_cancel_def)
    with store_cancelled [OF new(1)] new(2,3) show ?thesis by simp
  qed
qed

section \<open>Refreshing\<close>

text \<open>A run carries its slot name in no metadata of its own, so refreshing a lease keeps the name.\<close>

abbreviation slot_key :: string where
  "slot_key \<equiv> ''runner_slot_name''"

lemma set_trimmed_slot [simp]: "k \<noteq> slot_key \<Longrightarrow> vget (set_trimmed k v m) slot_key = vget m slot_key"
  by (simp add: set_trimmed_def vget_vset)

lemma add_if_slot [simp]: "k \<noteq> slot_key \<Longrightarrow> vget (add_if b k v m) slot_key = vget m slot_key"
  by (simp add: add_if_def vget_vset)

lemma work_context_slot [simp]: "vget (apply_work_context f run m) slot_key = vget m slot_key"
  by (simp add: apply_work_context_def Let_def vget_vset)

lemma run_metadata_slot: "vget (run_cycle_lease_metadata f run phase i ins) slot_key = None"
  by (simp add: run_cycle_lease_metadata_def Let_def vget_vset base_lease_metadata_def split: option.split)

lemma refreshed_slot:
  "vget (merge_into (merge_into (run_cycle_lease_metadata f run phase i ins) m) m) slot_key = vget m slot_key"
  by (simp add: vget_merge run_metadata_slot split: option.split)

lemma patched_doc:
  assumes "reload_map p = p" "decode_lease p = Some d"
  shows "decode_lease (reload_map (vset ''metadata'' (VMap m) p)) = Some (d\<lparr>ld_metadata := reload_map m\<rparr>)"
  unfolding reload_map_vset assms(1) reload_VMap
  using assms(2) by (auto simp: decode_lease_def lease_values_ok_def lease_strings_ok_def split: if_splits)

lemma ref_of_metadata:
  assumes "vget m slot_key = vget (ld_metadata d) slot_key"
  shows "doc_public_ref (d\<lparr>ld_metadata := reload_map m\<rparr>) = doc_public_ref d"
  using assms
  by (simp add: doc_public_ref_def lease_public_ref_def lease_from_doc_def string_from_map_def vget_any_reload)
    (simp add: vget_any_def)

text \<open>A row may be replaced by one that says the same of its booking.\<close>

definition books_alike :: "lease_row \<Rightarrow> lease_row \<Rightarrow> bool" where
  "books_alike r r' \<longleftrightarrow>
     row_key r' = row_key r \<and> lr_project r' = lr_project r \<and> (row_written r \<longrightarrow> row_written r') \<and>
     (\<forall>e. stored_lease r' = Some e \<longrightarrow> (\<exists>d. stored_lease r = Some d \<and> booking e = booking d \<and> doc_public_ref e = doc_public_ref d)) \<and>
     (\<forall>d. stored_lease r = Some d \<longrightarrow> (\<exists>e. stored_lease r' = Some e \<and> booking e = booking d \<and> doc_public_ref e = doc_public_ref d))"

lemma books_alike_refl [simp]: "books_alike r r"
  by (auto simp: books_alike_def)

lemma books_alike_bookings:
  assumes "\<forall>r \<in> set rs. books_alike r (f r)"
  shows "{(lr_project r, doc_public_ref d) | r d. r \<in> set (map f rs) \<and> stored_lease r = Some d \<and> booking d} =
    {(lr_project r, doc_public_ref d) | r d. r \<in> set rs \<and> stored_lease r = Some d \<and> booking d}" (is "?L = ?R")
proof (intro equalityI subsetI)
  fix b assume "b \<in> ?L"
  then obtain r e where "r \<in> set rs" "stored_lease (f r) = Some e" "booking e" "b = (lr_project (f r), doc_public_ref e)" by auto
  with assms show "b \<in> ?R" by (fastforce simp: books_alike_def)
next
  fix b assume "b \<in> ?R"
  then obtain r d where r: "r \<in> set rs" "stored_lease r = Some d" "booking d" "b = (lr_project r, doc_public_ref d)" by auto
  with assms obtain e where "stored_lease (f r) = Some e" "booking e" "b = (lr_project (f r), doc_public_ref e)"
    by (fastforce simp: books_alike_def)
  with r(1) show "b \<in> ?L" by fastforce
qed

lemma books_alike_sound:
  assumes "store_sound db" "db_leases db' = map f (db_leases db)" "\<forall>r \<in> set (db_leases db). books_alike r (f r)"
  shows "store_sound db' \<and> booked_refs db' = booked_refs db"
proof
  have keys: "map row_key (map f (db_leases db)) = map row_key (db_leases db)"
    using assms(3) by (simp add: books_alike_def)
  have written: "\<forall>r \<in> set (map f (db_leases db)). row_written r"
    using assms(1,3) by (simp add: store_sound_def books_alike_def)
  have "one_booking (map f (db_leases db))"
    unfolding one_booking_def
  proof (intro ballI allI impI)
    fix r s d e
    assume r: "r \<in> set (map f (db_leases db))" "stored_lease r = Some d" "booking d"
      and s: "s \<in> set (map f (db_leases db))" "stored_lease s = Some e" "booking e"
      and same: "lr_project r = lr_project s" "doc_public_ref d = doc_public_ref e"
    from r assms(3) obtain r0 d0 where r0: "r0 \<in> set (db_leases db)" "row_key r = row_key r0" "lr_project r = lr_project r0"
        "stored_lease r0 = Some d0" "booking d0" "doc_public_ref d0 = doc_public_ref d"
      by (fastforce simp: books_alike_def)
    from s assms(3) obtain s0 e0 where s0: "s0 \<in> set (db_leases db)" "row_key s = row_key s0" "lr_project s = lr_project s0"
        "stored_lease s0 = Some e0" "booking e0" "doc_public_ref e0 = doc_public_ref e"
      by (fastforce simp: books_alike_def)
    show "row_key r = row_key s"
      using one_bookingD [OF assms(1) r0(1) s0(1) r0(4) s0(4) r0(5) s0(5)] same r0 s0 by simp
  qed
  with keys written assms(1,2) show "store_sound db'" by (simp add: store_sound_def del: map_map)
  show "booked_refs db' = booked_refs db"
    using books_alike_bookings [OF assms(3)] by (simp add: booked_refs_def assms(2))
qed

lemma store_refreshed:
  assumes "store_sound db" "store_read se project ref db = Inr l" "store_persist se l p run db = Inr (l', db')"
  shows "store_sound db' \<and> booked_refs db' = booked_refs db"
proof -
  let ?docs = "map (\<lambda>r. the (stored_lease r)) (filter (\<lambda>r. lr_project r = project) (db_leases db))"
  obtain d where d: "select_by_ref ref None ?docs = Some d" "l = lease_from_doc (se_parse_time se) (ae_now (se_acquire se)) d"
    using assms(2) docs_of_project [OF assms(1)] by (auto simp: store_read_def split: option.splits)
  obtain r where r: "r \<in> set (db_leases db)" "lr_project r = project" "stored_lease r = Some d" "row_written r"
      "ld_id d = lr_id r" "ld_project d = lr_project r"
    using select_by_ref_best [OF d(1)] assms(1) by (fastforce simp: store_sound_def row_written_def)
  let ?m = "merge_into (run_cycle_lease_metadata (se_facts se run) run (ps_name p) 0 []) (ld_metadata d)"
  have l: "ls_project l = lr_project r" "ls_id l = lr_id r" "ls_metadata l = ld_metadata d"
    by (simp_all add: d(2) lease_from_doc_def r)
  have keys: "distinct (map row_key (db_leases db))" using assms(1) by (simp add: store_sound_def)
  have at: "lease_at (lr_project r) (lr_id r) x \<longleftrightarrow> x = r" if "x \<in> set (db_leases db)" for x
    using same_key_same_row [OF keys that r(1)] by (auto simp: lease_at_def row_key_def)
  have found: "find (lease_at (lr_project r) (lr_id r)) (db_leases db) = Some r"
    using r(1) at by (intro find_unique) auto
  obtain r' where patch: "patch_row (se_parse_time se) (persist_payload ?m) r = Inr r'"
    by (simp add: patch_row_def persist_payload_def)
  have "db_leases db' = map (\<lambda>x. if lease_at (lr_project r) (lr_id r) x then r' else x) (db_leases db)"
    using assms(3) found patch by (auto simp: store_persist_def patch_payload_def l Let_def split: if_splits)
  note r' = patch this
  have stored: "stored_lease r' = Some (d\<lparr>ld_metadata := reload_map (merge_into ?m (ld_metadata d))\<rparr>)"
      "row_key r' = row_key r" "lr_project r' = lr_project r" "lr_id r' = lr_id r" "reload_map (lr_payload r') = lr_payload r'"
    using r'(1) r(3,4) patched_doc [of "lr_payload r" d "merge_into ?m (ld_metadata d)"]
      decoded_metadata [of "lr_payload r" d]
    by (auto simp: patch_row_def persist_payload_def stored_lease_def row_written_def row_key_def)
  have "books_alike r r'"
    using stored r(3-6) ref_of_metadata [OF refreshed_slot, where d = d]
    by (simp add: books_alike_def row_written_def booking_def is_bookkeeping_def)
  with at have "\<forall>x \<in> set (db_leases db). books_alike x (if lease_at (lr_project r) (lr_id r) x then r' else x)" by simp
  with books_alike_sound [OF assms(1) r'(2)] show ?thesis by simp
qed

interpretation store: slot_leases "store_lease_ops se" "store_fit se" store_sound booked_refs for se
proof
  show "store_sound w" if "store_fit se wkf run p w" for wkf run p w
    using that by (simp add: store_fit_def)
  show "store_sound w' \<and> booked_refs w' = booked_refs w"
    if "store_sound w" "lo_read (store_lease_ops se) project r w = Inr l"
      "lo_persist (store_lease_ops se) l p run w = Inr (l', w')" for w w' project r l l' p run
    using store_refreshed [OF that(1)] that(2,3) by (simp add: store_lease_ops_def)
qed (simp_all add: store_lease_ops_def store_acquired store_refused store_cancelled)


section \<open>Aborting a run that has ended\<close>

text \<open>
  Aborting a run that has already ended releases the slot again by its name: whoever holds a
  claimed lease under that name, which is every later lease of the same slot, loses it, while all
  run documents, that of the holder included, and all locks stay as they are.
\<close>
theorem ended_run_frees_foreign_slot:
  assumes "row_by_id i (as_runs st) = Some r" and "is_terminal_run_state (rn_state (lr_doc r))"
    and "rn_slot_lease (lr_doc r) = Some ref" and "trim_space ref = ref" and "ref \<noteq> []"
    and "store_sound (as_leases st)" and "(rn_project (lr_doc r), ref) \<in> booked_refs (as_leases st)"
    and "abort_by_id env (store_lease_ops se) cause i now st = (found, st')"
  shows "booked_refs (as_leases st') = booked_refs (as_leases st) - {(rn_project (lr_doc r), ref)} \<and>
    booked_refs (as_leases st') \<noteq> booked_refs (as_leases st) \<and>
    (\<forall>j. run_by_id j (as_runs st') = run_by_id j (as_runs st)) \<and> as_locks st' = as_locks st"
proof -
  have st': "st' = snd (abort_by_id env (store_lease_ops se) cause i now st)" using assms(8) by simp
  have run: "run_by_id i (as_runs st) = Some (lr_doc r)" "rn_id (lr_doc r) = i"
    using assms(1) row_by_id_Some by (simp_all add: run_by_id_def)
  have "as_leases st' = store_cancel se (rn_project (lr_doc r)) ref (as_leases st)"
    unfolding st' abort_by_id_leases using run
    by (simp add: release_slot_some [OF assms(3,4,5)] store_lease_ops_def)
  with store_cancelled [OF assms(6)] have "booked_refs (as_leases st') = booked_refs (as_leases st) - {(rn_project (lr_doc r), ref)}"
    by simp
  moreover have "as_runs st' = put_run i (lr_doc r) (as_runs st)" "as_locks st' = as_locks st"
    using assms(1,2) by (simp_all add: st' abort_by_id_def abort_by_reason_def abort_run_def Let_def)
  ultimately show ?thesis using run assms(7) by (auto simp: run_by_id_put)
qed

end
