(* ===== verification/CreationExamples.thy ===== *)
theory CreationExamples
  imports SlotRuns RunExamples RegistryExamples
begin

text \<open>A registered workflow, requests for runs of it and stores they are made in, at which the
  theorems on the creation, the queue and the admission of runs are instantiated.\<close>

section \<open>Creating runs\<close>

definition plain_details :: doc_details where
  "plain_details =
     \<lparr>dd_step_title = (\<lambda>_. []), dd_group_title = (\<lambda>_. []), dd_dynamic = (\<lambda>_. None), dd_job_name = js_id,
      dd_evidence = (\<lambda>_. [])\<rparr>"

definition demo_tables :: workflow_tables where
  "demo_tables = \<lparr>wt_versions = (\<lambda>_ _. None), wt_names = (\<lambda>_ _. Some (demo_workflow, []))\<rparr>"

definition demo_request :: create_request where
  "demo_request =
     \<lparr>cq_project = ''p'', cq_workflow = ''agent'', cq_schema_ref = [], cq_issue = 1, cq_budget = \<lparr>total = Fin 25\<rparr>,
      cq_holder = ''h'', cq_slot_lease = [], cq_entrypoint = [], cq_supplied = [], cq_validation = [], cq_inputs = [],
      cq_preserve = False\<rparr>"

definition first_run :: ledger_run where
  "first_run = (case create_run plain_details demo_scripts demo_tables demo_request ''a'' ''t1'' [] of Inr (r, _) \<Rightarrow> r)"

definition second_run :: ledger_run where
  "second_run = (case create_run plain_details demo_scripts demo_tables demo_request ''b'' ''t2'' [first_run] of Inr (r, _) \<Rightarrow> r)"

lemma demo_lookup [simp]: "workflow_for_execution demo_tables p n s = Inr (demo_workflow, [])"
  by (simp add: workflow_for_execution_def demo_tables_def)

lemma no_inputs [simp]: "validate_run_inputs [] [] = None"
  by (simp add: validate_run_inputs_def check_declared_def sorted_input_keys_def)

lemma create_demo:
  "\<exists>r. create_run plain_details demo_scripts demo_tables demo_request i now store = Inr (r, store @ [r])"
  by (simp add: create_run_def demo_request_def Let_def)

lemma first_created: "create_run plain_details demo_scripts demo_tables demo_request ''a'' ''t1'' [] = Inr (first_run, [first_run])"
  using create_demo [of "''a''" "''t1''" "[]"] by (auto simp: first_run_def)

lemma second_created:
  "create_run plain_details demo_scripts demo_tables demo_request ''b'' ''t2'' [first_run] = Inr (second_run, [first_run, second_run])"
  using create_demo [of "''b''" "''t2''" "[first_run]"] by (auto simp: second_run_def)

lemma first_numbered: "numbered first_run" "lr_number first_run = Some 1" "lr_created first_run = ''t1''"
    "rn_project (lr_doc first_run) = ''p''" "rn_issue (lr_doc first_run) = 1"
proof -
  have n: "lr_number first_run = Some 1" "rn_run_cycle (lr_doc first_run) = Some 1"
    "rn_display (lr_doc first_run) = Some (display_number 1 1)" by code_simp+
  then show "numbered first_run" by (simp add: numbered_def int64_ok_def)
  show "lr_number first_run = Some 1" by (rule n)
  show "lr_created first_run = ''t1''" "rn_project (lr_doc first_run) = ''p''" "rn_issue (lr_doc first_run) = 1"
    by code_simp+
qed

theorem created_run_witness:
  "\<exists>d. start_run_cycle ''work'' ''k8s_job'' [] ''slot'' ''t2'' (lr_doc first_run) = Inr d \<and> rn_state d = ''in_progress''"
proof -
  have names: "distinct (map ps_name (wf_phases wkf))"
    if "workflow_for_execution demo_tables (cq_project demo_request) (cq_workflow demo_request) (cq_schema_ref demo_request)
      = Inr (wkf, declared)" for wkf declared
    using that by (auto simp: demo_workflow_def demo_phase_def)
  have "\<exists>d. start_run_cycle ''work'' ''k8s_job'' [] ''slot'' ''t2'' (lr_doc first_run) = Inr d \<and> rn_state d = ''in_progress'' \<and>
      rn_slot_lease d = Some ''slot'' \<and> length (rn_attempts d) = Suc (length (rn_attempts (lr_doc first_run))) \<and>
      ad_index (last (rn_attempts d)) = int (length (rn_attempts (lr_doc first_run)))"
    by (rule created_run_can_start [OF first_created _ names, THEN conjunct2]) simp_all
  then show ?thesis by blast
qed

theorem projection_witness:
  "\<exists>pe \<in> set (execution_docs plain_details demo_scripts demo_workflow ''t1'' None []).
     pe_name pe = ''work'' \<and> je_id ` set (pe_jobs pe) = {''build'', ''lint''}"
  using projection_lists_expected_jobs [OF demo_ids(1), of plain_details "''t1''" None "[]"] by simp

theorem created_run_found_witness:
  "numbered second_run \<and>
   read_run_by_number ''p'' 1 (case rn_display (lr_doc second_run) of Some s \<Rightarrow> s | None \<Rightarrow> []) [first_run, second_run] = Some ''b''"
proof -
  have q: "cq_project demo_request = ''p''" "cq_issue demo_request = 1" by (simp_all add: demo_request_def)
  have docs: "issue_runs ''p'' 1 [first_run] = [first_run]" by (simp add: issue_runs_def first_numbered)
  show ?thesis
    using created_run_is_found [OF second_created] first_numbered
    by (simp add: q docs next_run_number_def int64_ok_def)
qed

definition bound_run :: ledger_run where
  "bound_run = first_run\<lparr>lr_doc := (lr_doc first_run)\<lparr>rn_state := ''passed'', rn_slot_lease := Some ''p-1''\<rparr>\<rparr>"

definition demo_recycle :: "string \<Rightarrow> string \<Rightarrow> ledger_run list \<Rightarrow> (create_error, ledger_run) res \<times> ledger_run list" where
  "demo_recycle i now store =
     create_recycle_cycle plain_details demo_scripts demo_tables ''a'' [] ''check'' [] None i now store"

theorem recycled_twice_witness:
  "\<exists>r s s1 s2. demo_recycle ''b'' ''t2'' [bound_run] = (Inr r, s1) \<and> demo_recycle ''c'' ''t3'' s1 = (Inr s, s2) \<and>
     rn_display (lr_doc r) = rn_display (lr_doc s) \<and> rn_id (lr_doc r) \<noteq> rn_id (lr_doc s)"
proof -
  have ok: "\<not> isl (fst (demo_recycle ''b'' ''t2'' [bound_run]))"
    "\<not> isl (fst (demo_recycle ''c'' ''t3'' (snd (demo_recycle ''b'' ''t2'' [bound_run]))))" by code_simp+
  then obtain r s1 where r: "demo_recycle ''b'' ''t2'' [bound_run] = (Inr r, s1)"
    by (metis prod.collapse sum.collapse(2))
  with ok(2) obtain s s2 where s: "demo_recycle ''c'' ''t3'' s1 = (Inr s, s2)"
    by (metis prod.collapse snd_conv sum.collapse(2))
  have "\<forall>p \<in> set [bound_run]. numbered p"
    using first_numbered(1) by (simp add: numbered_def bound_run_def)
  from recycled_twice_shares_address [OF r [unfolded demo_recycle_def] s [unfolded demo_recycle_def] this]
  show ?thesis using r s by blast
qed

theorem later_run_witness:
  "list_queued_runs ''p'' 1
     [first_run\<lparr>lr_created := ''2026-01-01T00:00:05.1Z''\<rparr>, second_run\<lparr>lr_created := ''2026-01-01T00:00:05.12Z''\<rparr>]
   = [second_run\<lparr>lr_created := ''2026-01-01T00:00:05.12Z''\<rparr>]"
proof -
  have "waiting first_run" "waiting second_run" "rn_project (lr_doc second_run) = ''p''" by code_simp+
  moreover have "waiting (r\<lparr>lr_created := t\<rparr>) = waiting r" for r t by (simp add: waiting_def)
  ultimately show ?thesis
    by (intro later_run_queues_first [of _ "''2026-01-01T00:00:05.1''" _ "CHR ''2''" "[]", THEN conjunct2])
      (simp_all add: first_numbered is_digit_def between_def byte_of_def)
qed

definition ref_input :: dispatch_input where
  "ref_input = \<lparr>di_name = ''ref'', di_required = False, di_default = ''main''\<rparr>"

theorem resolved_inputs_witness:
  "validate_run_inputs [ref_input] [(''ref'', ''main'')] = None"
proof -
  have "resolve_dispatch_inputs [ref_input] [] = Inr [(''ref'', ''main'')]" by code_simp
  then show ?thesis by (rule resolved_inputs_pass [THEN conjunct1])
qed

section \<open>Dispatching\<close>

definition agent_workflow :: workflow where
  "agent_workflow =
     \<lparr>wf_name = ''agent'', wf_schema_ref = ''wfs_0'', wf_phases = stored_phases, wf_budget = \<lparr>total = Fin 25\<rparr>,
      wf_vars = Map.empty\<rparr>"

definition agent_found :: found_workflow where
  "agent_found = \<lparr>fw_workflow = agent_workflow, fw_register = stored_reg [] 25\<rparr>"

definition plain_env :: admission_env where
  "plain_env =
     \<lparr>en_reason = (\<lambda>_. ''failed''), en_launch = (\<lambda>_ _ _ _. Inl ''no cluster''), en_wide = (\<lambda>_. False),
      en_workflow = (\<lambda>_. Inr (Some (agent_workflow, stored_reg [] 25))), en_project = (\<lambda>_. Inr True),
      en_issue = (\<lambda>_ _. Inr True)\<rparr>"

definition agent_tables :: workflow_tables where
  "agent_tables = \<lparr>wt_versions = (\<lambda>_ _. None), wt_names = (\<lambda>_ _. Some (agent_workflow, []))\<rparr>"

definition agent_env :: dispatch_env where
  "agent_env =
     \<lparr>dp_admission = plain_env, dp_project = (\<lambda>_. Inr True),
      dp_issue = (\<lambda>_ _. Inr (Some \<lparr>id_labels = [], id_preserve = True\<rparr>)), dp_named = (\<lambda>_ _. Inr (Some agent_found)),
      dp_listed = (\<lambda>_. Inr [agent_found]), dp_runtime = (\<lambda>_. None), dp_tables = agent_tables,
      dp_scripts = scripts, dp_details = plain_details, dp_parse_float = (\<lambda>_. None)\<rparr>"

definition no_slots :: "unit lease_ops" where
  "no_slots =
     \<lparr>lo_acquire = (\<lambda>_ _ _ w. (Inl NoCapacity, w)), lo_read = (\<lambda>_ _ _. Inl []), lo_persist = (\<lambda>l _ _ w. Inr (l, w)),
      lo_cancel = (\<lambda>_ _ w. w)\<rparr>"

definition nothing_yet :: "'w \<Rightarrow> 'w admission_state" where
  "nothing_yet w = \<lparr>as_runs = [], as_locks = [], as_leases = w\<rparr>"

definition agent_dispatch :: dispatch_request where
  "agent_dispatch = \<lparr>dq_project = ''p'', dq_issue = 1, dq_workflow_name = ''agent'', dq_workflow = [], dq_inputs = []\<rparr>"

lemma stored_canonical: "map (canonical_phase scripts) stored_phases = stored_phases"
  using stored_phases_normal [of "[]" 25]
  by (simp add: phases_normal_def stored_reg_def register_of_def phase_normal_def map_idI)

lemma agent_canonical [simp]: "canonical_found scripts agent_found = agent_found"
  by (simp add: canonical_found_def agent_found_def agent_workflow_def canonical_workflow_def stored_canonical
      stored_reg_def register_of_def)

lemma agent_resolved: "resolve_dispatch_workflow agent_env ''p'' ''agent'' = Inr (Inr agent_found)"
  by (simp add: resolve_dispatch_workflow_def agent_env_def workflow_tombstoned_def)
    (simp add: agent_found_def stored_reg_def register_of_def vget_any_def)

lemma agent_entry: "workflow_entry_phase (wf_phases agent_workflow) = Some prepare_phase"
  by (simp add: agent_workflow_def workflow_entry_phase_def stored_phases_def prepare_phase_def example_phase_def)

lemma prepare_kind [simp]: "workflow_phase_kind (ps_kind prepare_phase) = ''k8s_job''" "valid_workflow_kind ''k8s_job''"
  by code_simp+

lemma agent_lookup [simp]: "workflow_for_execution agent_tables p n s = Inr (agent_workflow, [])"
  by (simp add: workflow_for_execution_def agent_tables_def)

lemma agent_request:
  "cq_project (create_request_of agent_env agent_found issue ''p'' 1 [] h) = ''p''"
  "cq_issue (create_request_of agent_env agent_found issue ''p'' 1 [] h) = 1"
  "cq_inputs (create_request_of agent_env agent_found issue ''p'' 1 [] h) = []"
  "cq_entrypoint (create_request_of agent_env agent_found issue ''p'' 1 [] h) = []"
  "cq_slot_lease (create_request_of agent_env agent_found issue ''p'' 1 [] h) = []"
  "cq_preserve (create_request_of agent_env agent_found issue ''p'' 1 [] h) = id_preserve issue"
  by (simp_all add: create_request_of_def Let_def)

lemma agent_created:
  "\<exists>r. create_run plain_details scripts agent_tables (create_request_of agent_env agent_found issue ''p'' 1 [] h) i now store
     = Inr (r, store @ [r])"
  by (simp add: create_run_def agent_request Let_def)

lemma agent_checked:
  "dispatch_run agent_env ops agent_dispatch h i now app db (nothing_yet w) =
     dispatch_locked agent_env ops agent_found \<lparr>id_labels = [], id_preserve = True\<rparr> ''p'' 1 [] h i now
       ((nothing_yet w)\<lparr>as_locks := [(issue_lock ''p'' 1,
          \<lparr>lk_holder = h, lk_held = True,
           lk_expires = Some (app + runner_lease_ttl_seconds scripts (Some agent_workflow))\<rparr>)]\<rparr>)"
proof -
  have found: "wr_inputs (stored_reg [] 25) = []" "fw_workflow agent_found = agent_workflow"
    "fw_register agent_found = stored_reg [] 25" "wf_phases agent_workflow \<noteq> []"
    by (simp_all add: agent_found_def stored_reg_def register_of_def agent_workflow_def stored_phases_def)
  have env: "dp_project agent_env p = Inr True" "dp_issue agent_env p n = Inr (Some \<lparr>id_labels = [], id_preserve = True\<rparr>)"
      "dp_runtime agent_env f = None" "dp_scripts agent_env = scripts" "en_wide (dp_admission agent_env) = (\<lambda>_. False)" for p n f
    by (simp_all add: agent_env_def plain_env_def)
  have inputs: "normalize_run_inputs [] = Inr []" "resolve_dispatch_inputs [] [] = Inr []" by code_simp+
  have none: "\<not> is_active_issue_run_state (trim_space [])" by code_simp
  have runs: "last_run_state ''p'' 1 [] = []" by (simp add: last_run_state_def issue_runs_def)
  have claim: "claim_lock k h app db ttl [] = Inr [(k, \<lparr>lk_holder = h, lk_held = True, lk_expires = Some (app + ttl)\<rparr>)]" for k ttl
    by (simp add: claim_lock_def Let_def)
  have "dispatch_run agent_env ops agent_dispatch h i now app db (nothing_yet w) =
      dispatch_workflow agent_env ops agent_found \<lparr>id_labels = [], id_preserve = True\<rparr> ''p'' 1 [] h i now app db (nothing_yet w)"
    by (simp add: dispatch_run_def agent_dispatch_def inputs env agent_resolved)
  also have "\<dots> = dispatch_checked agent_env ops agent_found \<lparr>id_labels = [], id_preserve = True\<rparr> ''p'' 1 [] h i now app db (nothing_yet w)"
    using stored_registered [OF no_vars, of "\<lambda>_. False" 25]
    by (simp add: dispatch_workflow_def found env inputs agent_entry)
  finally show ?thesis
    using none runs by (simp add: dispatch_checked_def found env claim nothing_yet_def)
qed

lemma agent_queued:
  "\<exists>st'. dispatch_run agent_env no_slots agent_dispatch ''h'' ''a'' ''t1'' 0 0 (nothing_yet ()) = (Inr (Answered Queued ''a''), st') \<and>
     (\<exists>r. as_runs st' = [r] \<and> rn_id (lr_doc r) = ''a'')"
proof -
  have entry: "run_entrypoint_phase (wf_phases agent_workflow) (dispatched_run_data agent_workflow ''p'' 1 [] r) = Some prepare_phase" for r
    using agent_entry by (simp add: run_entrypoint_phase_def dispatched_run_data_def)
  obtain r where r: "create_run plain_details scripts agent_tables
      (create_request_of agent_env agent_found \<lparr>id_labels = [], id_preserve = True\<rparr> ''p'' 1 [] ''h'') ''a'' ''t1'' [] = Inr (r, [r])"
    using agent_created [of "\<lparr>id_labels = [], id_preserve = True\<rparr>" "''h''" "''a''" "''t1''" "[]"] by auto
  have env: "dp_tables agent_env = agent_tables" "dp_details agent_env = plain_details" "dp_scripts agent_env = scripts"
    "fw_workflow agent_found = agent_workflow"
    by (simp_all add: agent_env_def agent_found_def)
  have slot: "slot_lease no_slots wkf (dispatched_run_data agent_workflow ''p'' 1 [] r) p () = (Inl NoCapacity, ())" for wkf p
    by (simp add: slot_lease_def dispatched_run_data_def no_slots_def)
  show ?thesis
    unfolding agent_checked using created_row [OF r]
    by (simp add: dispatch_locked_def env nothing_yet_def r admit_run_cycle_def entry slot)
qed

lemma trim_in_progress: "trim_space ''in_progress'' = ''in_progress''"
  by code_simp

theorem second_dispatch_witness:
  "\<exists>st' r x. dispatch_run agent_env no_slots agent_dispatch ''h'' ''a'' ''t1'' 0 0 (nothing_yet ()) = (Inr (Answered Queued ''a''), st') \<and>
     as_runs st' = [r] \<and>
     (let started = st'\<lparr>as_runs := [r\<lparr>lr_doc := (lr_doc r)\<lparr>rn_state := ''in_progress''\<rparr>\<rparr>], as_locks := []\<rparr> in
      dispatch_run agent_env no_slots agent_dispatch ''g'' ''b'' ''t2'' 90000 90000 started = (x, started) \<and>
      (\<forall>b j. x \<noteq> Inr (Answered b j)))"
proof -
  obtain st' r where st': "dispatch_run agent_env no_slots agent_dispatch ''h'' ''a'' ''t1'' 0 0 (nothing_yet ()) = (Inr (Answered Queued ''a''), st')"
    and r: "as_runs st' = [r]" "rn_id (lr_doc r) = ''a''"
    using agent_queued by blast
  let ?d = "(lr_doc r)\<lparr>rn_state := ''in_progress''\<rparr>"
  let ?started = "st'\<lparr>as_runs := [r\<lparr>lr_doc := ?d\<rparr>], as_locks := []\<rparr>"
  have active: "is_active_issue_run_state ''in_progress''" by (simp add: is_active_issue_run_state_def trim_in_progress)
  have "\<exists>x. dispatch_run agent_env no_slots agent_dispatch ''g'' ''b'' ''t2'' 90000 90000 ?started = (x, ?started) \<and> (\<forall>b j. x \<noteq> Inr (Answered b j))"
    by (rule second_dispatch_refused [OF st', where later = ?started and rows = "[r\<lparr>lr_doc := ?d\<rparr>]" and added = "[]" and d = ?d])
      (simp_all add: nothing_yet_def issue_runs_def r kept_row_def run_by_id_def row_by_id_def active)
  with st' r show ?thesis by (auto simp: Let_def)
qed

theorem forgotten_preserve_witness:
  "\<exists>r :: ledger_run. rn_preserve (lr_doc r) \<and>
     evaluate_phase_when flag_phase (when_context_of agent_workflow (started_data (replay_data (lr_doc r)) 0 ''prepare'' ''p-1'')) =
       Inr (PhaseRuns [])"
proof -
  obtain r where "create_run plain_details scripts agent_tables
      (create_request_of agent_env agent_found \<lparr>id_labels = [], id_preserve = True\<rparr> ''p'' 1 [] ''h'') ''a'' ''t1'' [] = Inr (r, [] @ [r])"
    using agent_created by blast
  note forgotten = dispatch_forgets_preserve [OF this, of agent_workflow 0 "''p-1''"]
  have "rn_preserve (lr_doc r)" by (rule forgotten [THEN conjunct1]) simp
  moreover have "evaluate_phase_when flag_phase
      (when_context_of agent_workflow (started_data (replay_data (lr_doc r)) 0 ''prepare'' ''p-1'')) = Inr (PhaseRuns [])"
    by (rule forgotten [THEN conjunct2, THEN conjunct2]) simp
  ultimately show ?thesis by blast
qed

section \<open>Admitting\<close>

definition open_lease :: lease where
  "open_lease =
     \<lparr>ls_id = ''l1'', ls_kind = [], ls_number = Some 1, ls_project = ''p'', ls_workflow = None, ls_host = None,
      ls_state = ''claimed'', ls_requirements = [], ls_metadata = [], ls_requested_at = 0, ls_assigned_at = None,
      ls_released_at = None, ls_ttl = 900, ls_requested_slot = None, ls_fulfilled_at = None, ls_fulfilled_ref = None\<rparr>"

definition one_slot :: "unit lease_ops" where
  "one_slot = no_slots\<lparr>lo_acquire := (\<lambda>_ _ _ w. (Inr open_lease, w))\<rparr>"

definition launching :: admission_env where
  "launching = plain_env\<lparr>en_launch := (\<lambda>_ _ _ _. Inr [])\<rparr>"

definition queued_run :: ledger_run where
  "queued_run = first_run\<lparr>lr_doc := (lr_doc first_run)\<lparr>rn_attempts := [], rn_execs := []\<rparr>\<rparr>"

definition queued_state :: "'w \<Rightarrow> 'w admission_state" where
  "queued_state w = \<lparr>as_runs = [queued_run], as_locks = [], as_leases = w\<rparr>"

abbreviation queued_data :: run_data where
  "queued_data \<equiv> replay_data (lr_doc queued_run)"

lemma demo_admission:
  "fst (admit_run_cycle launching one_slot demo_workflow queued_data ''t2'' (queued_state ())) = Inr (Dispatched None)"
  by code_simp

theorem dispatched_run_started_witness:
  "\<exists>st' d. admit_run_cycle launching one_slot demo_workflow queued_data ''t2'' (queued_state ()) = (Inr (Dispatched None), st') \<and>
     run_by_id ''a'' (as_runs st') = Some d \<and> rn_state d = ''in_progress'' \<and> as_leases st' = ()"
proof -
  obtain st' where st': "admit_run_cycle launching one_slot demo_workflow queued_data ''t2'' (queued_state ()) = (Inr (Dispatched None), st')"
    using demo_admission by (metis prod.collapse)
  have id: "rd_id queued_data = ''a''" by code_simp
  from dispatched_run_started [OF st'] obtain p ref d jobs skipped where
    d: "run_by_id (rd_id queued_data) (as_runs (queued_state ())) = Some d" and
    after: "as_runs st' = put_run (rd_id queued_data)
      (record_runner_jobs_dispatched (ps_name p) jobs ''t2'' (entered_doc p ref skipped ''t2'' d)) (as_runs (queued_state ()))"
    by auto
  have "rn_id d = ''a''" using run_by_id_Some [OF d] id by simp
  with d id st' show ?thesis
    by (auto simp: after run_by_id_put dispatched_parts entered_doc_def)
qed

theorem drain_order_witness:
  "\<exists>k \<le> 2. drained (fst (snd (drain_runs plain_env no_slots ''t2'' (\<lambda>i. i = 1) 0 [queued_data, queued_data\<lparr>rd_id := ''b''\<rparr>]
      nothing_drained (queued_state ())))) = k"
proof -
  let ?runs = "[queued_data, queued_data\<lparr>rd_id := ''b''\<rparr>]"
  obtain err res st' where run: "drain_runs plain_env no_slots ''t2'' (\<lambda>i. i = 1) 0 ?runs nothing_drained (queued_state ()) =
      (err, res, st')"
    by (metis prod.collapse)
  from drain_keeps_order [OF run] obtain k where "k \<le> length ?runs" "drained res = drained nothing_drained + k" by blast
  then show ?thesis unfolding run by (auto simp: drained_def nothing_drained_def)
qed

definition plain_facts :: lease_facts where
  "plain_facts =
     \<lparr>lf_issue_body = [], lf_issue_title = [], lf_repo = [], lf_run_number = None, lf_cycle_number = None,
      lf_token = None, lf_holder = None, lf_evidence = [], lf_runtime = None, lf_trigger = [], lf_inputs = []\<rparr>"

definition plain_store :: store_env where
  "plain_store =
     \<lparr>se_acquire = env_of ''a'' 2, se_parse_time = (\<lambda>_. None), se_facts = (\<lambda>_. plain_facts),
      se_requirements = (\<lambda>_ _. []), se_scripts = scripts, se_text = (\<lambda>_. ''error'')\<rparr>"

lemma one_slot_fit: "store_fit plain_store wkf queued_data p one_slot_db"
proof -
  have "seeded_counter one_slot_db (rd_project queued_data) = 1" by (simp add: seeded_counter_def one_slot_db_def List.map_filter_def)
  moreover have "store_sound one_slot_db" by (simp add: store_sound_def one_booking_def one_slot_db_def)
  ultimately show ?thesis
    using one_slot_keyed
    by (simp add: store_fit_def plain_store_def env_of_def int64_ok_def) (simp add: one_slot_db_def)
qed

lemma launch_fails:
  "fst (admit_run_cycle plain_env (store_lease_ops plain_store) demo_workflow queued_data ''t2'' (queued_state one_slot_db)) =
     Inr (AdmissionDispatchFailed (EntryNotLaunched ''no cluster''))"
  by code_simp


definition ended_run :: ledger_run where
  "ended_run = first_run\<lparr>lr_doc := (lr_doc first_run)\<lparr>rn_state := ''passed'', rn_slot_lease := Some ''p-1''\<rparr>\<rparr>"

definition shared_slot :: "lease_db admission_state" where
  "shared_slot = \<lparr>as_runs = [ended_run, second_run\<lparr>lr_doc := (lr_doc second_run)\<lparr>rn_state := ''in_progress'', rn_slot_lease := Some ''p-1''\<rparr>\<rparr>],
     as_locks = [], as_leases = held_db\<rparr>"

lemma old_lease_ref: "doc_public_ref old_lease = ''p-1''"
  by code_simp

lemma held_row: "stored_lease (new_lease_row (env_of ''a'' 2) old_lease) = Some old_lease"
    "lr_project (new_lease_row (env_of ''a'' 2) old_lease) = ''p''" "lr_id (new_lease_row (env_of ''a'' 2) old_lease) = ''a''"
  by (simp_all add: stored_lease_def new_lease_row_def old_lease_decodes old_lease_fields)

lemma held_sound: "store_sound held_db"
proof -
  have "row_written (new_lease_row (env_of ''a'' 2) old_lease)"
    using held_row by (simp add: row_written_def old_lease_fields) (simp add: new_lease_row_def reload_encode_lease)
  then show ?thesis by (simp add: store_sound_def one_booking_def held_db_def)
qed

lemma held_booked: "(''p'', ''p-1'') \<in> booked_refs held_db"
proof -
  have "booking old_lease" by (simp add: booking_def old_lease_fields is_bookkeeping_def)
  from bookedI [OF _ held_row(1) this, of held_db] show ?thesis
    by (simp add: held_row old_lease_ref) (simp add: held_db_def)
qed

theorem foreign_slot_witness:
  "booked_refs (as_leases (snd (abort_by_id plain_env (store_lease_ops plain_store) NoEntryPhase ''a'' ''t9'' shared_slot)))
     \<noteq> booked_refs (as_leases shared_slot)"
proof -
  obtain found st' where run: "abort_by_id plain_env (store_lease_ops plain_store) NoEntryPhase ''a'' ''t9'' shared_slot = (found, st')"
    by fastforce
  have "rn_id (lr_doc ended_run) = ''a''" by code_simp
  then have ended_row: "row_by_id ''a'' (as_runs shared_slot) = Some ended_run" by (simp add: row_by_id_def shared_slot_def)
  have ended: "is_terminal_run_state (rn_state (lr_doc ended_run))"
    "rn_slot_lease (lr_doc ended_run) = Some ''p-1''" "trim_space ''p-1'' = ''p-1''" "rn_project (lr_doc ended_run) = ''p''"
    by code_simp+
  have "store_sound (as_leases shared_slot)" "(rn_project (lr_doc ended_run), ''p-1'') \<in> booked_refs (as_leases shared_slot)"
    using held_sound held_booked ended(4) by (simp_all add: shared_slot_def)
  from ended_run_frees_foreign_slot [OF ended_row ended(1-3) _ this run]
  show ?thesis unfolding run snd_conv by blast
qed

definition dark_phase :: phase_spec where
  "dark_phase = (demo_phase ''check'' [''test''])\<lparr>ps_when := ''false''\<rparr>"

definition dark_workflow :: workflow where
  "dark_workflow = demo_workflow\<lparr>wf_phases := [demo_phase ''work'' [''build''], dark_phase]\<rparr>"

lemma dark_skipped: "evaluate_phase_when dark_phase ctx = Inr (PhaseSkipped ''phase when condition: false'')"
proof -
  have "when_parse ''false'' = Inr (Some \<lparr>we_literal = Some False, we_left = empty_term, we_right = empty_term,
      we_negate = False, we_source = ''false''\<rparr>)" by code_simp
  then show ?thesis by (simp add: evaluate_phase_when_def when_eval_def dark_phase_def)
qed

theorem ignored_condition_witness:
  "\<exists>r s1. demo_recycle ''b'' ''t2'' [bound_run] = (Inr r, s1) \<and>
     fst (launch_entry launching one_slot dark_workflow dark_phase (started_data (replay_data (lr_doc r)) 0 ''check'' ''p-1'')
        open_lease ''p-1'' False ''t3'' (queued_state ())) = Dispatched None"
proof -
  have "\<not> isl (fst (demo_recycle ''b'' ''t2'' [bound_run]))" by code_simp
  then obtain r s1 where r: "demo_recycle ''b'' ''t2'' [bound_run] = (Inr r, s1)"
    by (metis prod.collapse sum.collapse(2))
  have "fst (launch_entry launching one_slot dark_workflow dark_phase (started_data (replay_data (lr_doc r)) 0 (ps_name dark_phase) ''p-1'')
        open_lease ''p-1'' False ''t3'' (queued_state ())) = Dispatched (ls_host open_lease)"
    by (rule recycle_ignores_conditions [OF r [unfolded demo_recycle_def] _ _ refl dark_skipped, THEN conjunct2])
      (code_simp, code_simp, simp, simp add: launching_def)
  with r show ?thesis by (intro exI [of _ r] exI [of _ s1]) (simp add: open_lease_def dark_phase_def demo_phase_def)
qed

end
