(* ===== verification/PlaybookExamples.thy ===== *)
theory PlaybookExamples
  imports PlaybookSafety TerminalOutcomes CreationExamples
begin

text \<open>Playbooks of one and two entries and aborted runs, at which the theorems on playbooks and on the
  attribution of aborts are instantiated.\<close>

section \<open>Attribution\<close>

definition failed_work :: attempt_doc where
  "failed_work = work_attempt\<lparr>ad_conclusion := ''failure'', ad_decision := ''abort_budget_attempts''\<rparr>"

definition torn_down_attempt :: attempt_doc where
  "torn_down_attempt = (new_attempt 1 ''cleanup'' ''k8s_job'' [] ''t0'')\<lparr>ad_conclusion := ''failure''\<rparr>"

definition cleanup_phase :: phase_spec where
  "cleanup_phase = (demo_phase ''cleanup'' [''destroy''])\<lparr>ps_purpose := ''teardown''\<rparr>"

definition torn_down_run :: run_doc where
  "torn_down_run = demo_run [failed_work, torn_down_attempt]"

definition cleaning_workflow :: workflow where
  "cleaning_workflow = demo_workflow\<lparr>wf_phases := [demo_phase ''work'' [''build''], cleanup_phase]\<rparr>"


definition advanced_run :: run_doc where
  "advanced_run = demo_run [work_attempt\<lparr>ad_conclusion := ''success'', ad_decision := ''advance''\<rparr>, check_attempt]"

theorem dispatch_manual_witness:
  "observed advanced_run (Some demo_workflow) ''aborted'' (Some ''dispatch_failed: no capacity'') [] =
     Some (manual_observation ''dispatch_failed: no capacity'' [])"
proof -
  have "list_all (\<lambda>a. ad_decision a \<in> set [[], ''advance''] \<and> (ad_conclusion a = [] \<or> is_advance_conclusion (ad_conclusion a)))
      (rn_attempts advanced_run)" "trim_space ''dispatch_failed: no capacity'' \<noteq> []" by code_simp+
  then show ?thesis
    using dispatch_failure_called_manual [of advanced_run "''dispatch_failed: no capacity''" "Some demo_workflow" "[]"]
    by (simp add: list_all_iff)
qed

theorem repair_grows_witness:
  "rn_abort (fst (((\<lambda>x. snd (repair_observation None ''t9'' x)) ^^ 2)
     (advanced_run\<lparr>rn_state := ''aborted'', rn_abort := Some ''stopped''\<rparr>, None)))
   = Some ''run aborted: run aborted: stopped''"
proof -
  let ?d = "advanced_run\<lparr>rn_state := ''aborted'', rn_abort := Some ''stopped''\<rparr>"
  have none: "terminal_cause_attempt ?d None = None" "trim_space ''stopped'' = ''stopped''" by code_simp+
  have "grown 2 ''stopped'' = ''run aborted: run aborted: stopped''" by code_simp
  with repair_grows_reason [of ?d None "''stopped''" 2 "''t9''" None] none show ?thesis by simp
qed

section \<open>Playbooks\<close>

definition plain_spec :: issue_spec where
  "plain_spec = \<lparr>is_title = ''Fix it'', is_body = [], is_labels = [], is_workflow = None, is_meta = []\<rparr>"

definition plain_entry :: "string \<Rightarrow> string list \<Rightarrow> entry_request" where
  "plain_entry i deps =
     \<lparr>eq_id = i, eq_title = None, eq_issue = plain_spec, eq_depends = deps, eq_gate = False, eq_meta = []\<rparr>"

definition plain_playbook :: "entry_request list \<Rightarrow> playbook_request" where
  "plain_playbook es =
     \<lparr>pq_project = ''p'', pq_title = ''Plan'', pq_description = [], pq_entries = es, pq_limit = None,
      pq_strategy = [], pq_meta = []\<rparr>"

definition made_playbook :: "entry_request list \<Rightarrow> playbook" where
  "made_playbook es = new_playbook (\<lambda>t. t) ''pb'' ''t0'' (plain_playbook es)"

lemma made_entries [simp]: "pb_entries (made_playbook es) = map new_entry es" "pb_project (made_playbook es) = ''p''"
    "pb_limit (made_playbook es) = None" "pb_state (made_playbook es) = ''draft''"
  by (simp_all add: made_playbook_def new_playbook_def plain_playbook_def)

lemma plain_fields [simp]:
  "py_id (new_entry e) = eq_id e" "py_state (new_entry e) = ''pending''" "py_depends (new_entry e) = eq_depends e"
  "py_gate (new_entry e) = eq_gate e" "py_run_id (new_entry e) = None" "py_run_ref (new_entry e) = None"
  "eq_id (plain_entry i deps) = i" "eq_depends (plain_entry i deps) = deps" "\<not> eq_gate (plain_entry i deps)"
  by (simp_all add: new_entry_def plain_entry_def)

definition answering :: "string \<Rightarrow> string \<Rightarrow> unit dispatcher" where
  "answering state i x w = (no_answer\<lparr>xa_state := state, xa_issue_ref := Some ''p#1'', xa_run_id := Some i\<rparr>, w)"

definition one_done :: playbook where
  "one_done = (made_playbook [plain_entry ''x'' [], plain_entry ''y'' [''x'']])
     \<lparr>pb_entries := [(new_entry (plain_entry ''x'' []))\<lparr>py_state := ''succeeded''\<rparr>, new_entry (plain_entry ''y'' [''x''])]\<rparr>"


definition circle :: playbook_request where
  "circle = plain_playbook [plain_entry ''x'' [''y''], plain_entry ''y'' [''x'']]"

theorem circle_witness:
  "\<exists>pb tbl. create_playbook (\<lambda>_. True) (\<lambda>t. t) ''pb'' ''t0'' circle [] = Inr (pb, tbl) \<and>
     \<not> all_succeeded (pb_entries (fst (advances (\<lambda>t. t) [(answering ''dispatched'' ''a'', [], ''t1'')] (pb, ()))))"
proof -
  have "check_playbook circle = None" by code_simp
  then obtain pb tbl where made: "create_playbook (\<lambda>_. True) (\<lambda>t. t) ''pb'' ''t0'' circle [] = Inr (pb, tbl)"
    "pb = new_playbook (\<lambda>t. t) ''pb'' ''t0'' circle"
    by (simp add: create_playbook_def Let_def)
  have entries: "pq_entries circle = [plain_entry ''x'' [''y''], plain_entry ''y'' [''x'']]"
    by (simp add: circle_def plain_playbook_def)
  then have deps: "\<forall>e \<in> set (pq_entries circle). eq_id e \<in> {''x'', ''y''} \<longrightarrow> (\<exists>dep \<in> set (eq_depends e). dep \<in> {''x'', ''y''})"
    by simp
  have "new_entry (plain_entry ''x'' [''y'']) \<in> set (pb_entries pb)" by (simp add: made(2) new_playbook_def entries)
  from dependency_circle_never_starts [OF made(1) deps this,
      where steps = "[(answering ''dispatched'' ''a'', [], ''t1'')]" and w = "()"] made(1)
  show ?thesis by simp
qed

theorem queued_playbook_witness:
  "pb_state (fst (advance_playbook_doc (\<lambda>t. t) (answering (reply_state (Answered Queued ''a'')) ''a'') [] ''t1''
     (made_playbook [plain_entry ''x'' []]) ())) = ''failed''"
proof -
  let ?pb = "made_playbook [plain_entry ''x'' []]"
  have "refresh_playbook [] ''t1'' ?pb = ?pb"
    by (simp add: refresh_playbook_def refresh_entry_def entry_run_def made_playbook_def new_playbook_def plain_playbook_def)
  moreover have "\<not> all_succeeded (pb_entries ?pb)" "\<not> blocking_failure (pb_entries ?pb)"
    "entry_ready (pb_entries ?pb) (new_entry (plain_entry ''x'' []))" "running_entries (pb_entries ?pb) < playbook_limit ?pb"
    by (simp_all add: all_succeeded_def blocking_failure_def entry_ready_def entry_phase_def dependencies_met_def
        running_entries_def playbook_limit_def first_non_empty_def)
  ultimately show ?thesis
    using queued_dispatch_fails_playbook [of "[]" "''t1''" ?pb "[]" "new_entry (plain_entry ''x'' [])" "[]"
        "answering (reply_state (Answered Queued ''a'')) ''a''" "()" "''a''" "''p#1''" "\<lambda>t. t"]
    by (auto simp: answering_def)
qed

theorem recycled_entry_witness:
  "\<exists>r store. demo_recycle ''b'' ''t2'' [bound_run] = (Inr r, store) \<and>
     \<not> all_succeeded (pb_entries (fst (advance_playbook_doc (\<lambda>t. t) (answering ''dispatched'' ''c'') store ''t3''
         ((made_playbook [])\<lparr>pb_entries := [(new_entry (plain_entry ''x'' []))\<lparr>py_state := ''running'', py_run_id := Some ''a''\<rparr>]\<rparr>) ())))"
proof -
  let ?e = "(new_entry (plain_entry ''x'' []))\<lparr>py_state := ''running'', py_run_id := Some ''a''\<rparr>"
  let ?pb = "(made_playbook [])\<lparr>pb_entries := [?e]\<rparr>"
  have "\<not> isl (fst (demo_recycle ''b'' ''t2'' [bound_run]))" by code_simp
  then obtain r store where r: "demo_recycle ''b'' ''t2'' [bound_run] = (Inr r, store)"
    by (metis prod.collapse sum.collapse(2))
  have "run_of_project ''p'' ''a'' [bound_run] \<noteq> None" by code_simp
  with recycled_run_blocks_entry [OF r [unfolded demo_recycle_def], where pb = ?pb and e = ?e and w = "()" and stamp = "\<lambda>t. t"
      and dispatch = "answering ''dispatched'' ''c''" and now = "''t3''"] r show ?thesis
    by simp
qed

end
