(* ===== verification/PhaseDispatch.thy ===== *)
theory PhaseDispatch
  imports RunLeases
begin

text \<open>
  Dispatching a phase of a stored run (\<open>dispatchForwardPhase\<close> and \<open>leaseForRunPhase\<close> in
  \<open>internal/server/completion_api.go\<close>) and ending a stored run (\<open>SetRunTerminalState\<close>): the
  composition of the run documents, the lease of the run's slot, the locks and the launcher. The
  run a handler works on is the one it has read (\<open>snap\<close>).
\<close>

section \<open>The lease of a phase\<close>

datatype lease_trouble =
    NoSlotLease
  | LeaseNotRead string
  | LeaseNotPersisted string
  | LeaseUnclaimed string string

record 'w phase_env =
  pv_metadata :: "run_data \<Rightarrow> string \<Rightarrow> int \<Rightarrow> (string \<times> string) list option \<Rightarrow> vmap \<Rightarrow> vmap"
  pv_persist :: "lease \<Rightarrow> 'w \<Rightarrow> (string, 'w) res"
  pv_schema :: "run_doc \<Rightarrow> workflow option"

definition lease_for_run_phase ::
  "'w lease_ops \<Rightarrow> 'w phase_env \<Rightarrow> run_data \<Rightarrow> string \<Rightarrow> int \<Rightarrow> (string \<times> string) list option \<Rightarrow> 'w \<Rightarrow>
     (lease_trouble, lease \<times> 'w) res" where
  "lease_for_run_phase ops pv run phase i inputs w =
     (let ref = (case rd_slot_lease run of Some r \<Rightarrow> r | None \<Rightarrow> []) in
      if ref = [] then Inl NoSlotLease
      else
        (case lo_read ops (rd_project run) ref w of
           Inl e \<Rightarrow> Inl (LeaseNotRead e)
         | Inr l \<Rightarrow>
             (let l' = l\<lparr>ls_metadata := pv_metadata pv run phase i inputs (ls_metadata l)\<rparr> in
              case pv_persist pv l' w of
                Inl e \<Rightarrow> Inl (LeaseNotPersisted e)
              | Inr w' \<Rightarrow> Inr (l', w'))))"

text \<open>A map of inputs is stored as an object, a missing one as null.\<close>

definition inputs_value :: "(string \<times> string) list option \<Rightarrow> goval" where
  "inputs_value m = (case m of Some kvs \<Rightarrow> VMap (map (\<lambda>(k, v). (k, VStr v)) kvs) | None \<Rightarrow> VNull)"

definition phase_lease_metadata ::
  "lease_facts \<Rightarrow> run_data \<Rightarrow> string \<Rightarrow> int \<Rightarrow> (string \<times> string) list option \<Rightarrow> vmap \<Rightarrow> vmap" where
  "phase_lease_metadata f run phase i phase_inputs m =
     (let token = (case lf_token f of Some t \<Rightarrow> t | None \<Rightarrow> []);
          holder = (case lf_holder f of Some h \<Rightarrow> h | None \<Rightarrow> []);
          inputs = run_inputs_for_metadata (lf_inputs f);
          m1 = merge_into
            [(''run_id'', VStr (rd_id run)), (''run_ref'', VStr (run_ref_from_data f run)),
             (''phase_name'', VStr phase), (''attempt_index'', VStr (itoa i)),
             (''phase_inputs'', inputs_value phase_inputs),
             (''issue_ref'', VStr (issue_ref (rd_project run) (Some (rd_issue_number run)))),
             (''issue_number'', VStr (itoa (rd_issue_number run)))] m;
          m2 = add_if (inputs \<noteq> []) ''run_inputs'' (VMap inputs) m1;
          m3 = apply_work_context f run m2;
          branch = work_context_branch run m3;
          m4 = vset ''runner_k8s'' (VBool True) (add_if (branch \<noteq> []) ''work_context_branch'' (VStr branch) m3);
          m5 = add_if (token \<noteq> []) ''run_callback_token'' (VStr token) m4;
          m6 = add_if (holder \<noteq> []) ''issue_lock_holder_id'' (VStr holder) m5 in
      (case lf_runtime f of Some r \<Rightarrow> vset ''agent_runtime'' (VMap r) m6 | None \<Rightarrow> m6))"

definition store_persist_metadata :: "store_env \<Rightarrow> lease \<Rightarrow> lease_db \<Rightarrow> (string, lease_db) res" where
  "store_persist_metadata se l db =
     (if trim_space (ls_id l) = [] then Inl ''lease id required''
      else (case patch_payload (se_parse_time se) (ls_project l) (ls_id l) (persist_payload (ls_metadata l)) db of
              Inl e \<Rightarrow> Inl (se_text se e)
            | Inr (_, db') \<Rightarrow> Inr db'))"

text \<open>The version of the workflow a stored run was created with.\<close>

definition executed_workflow :: "workflow_tables \<Rightarrow> run_doc \<Rightarrow> workflow option" where
  "executed_workflow wt d =
     (case workflow_for_execution wt (rn_project d) (rn_workflow d) (rn_schema_ref d) of
        Inl _ \<Rightarrow> None | Inr (wkf, _) \<Rightarrow> Some wkf)"

definition workflow_of_run :: "canonical_scripts \<Rightarrow> workflow_tables \<Rightarrow> run_doc \<Rightarrow> workflow option" where
  "workflow_of_run scr wt d = map_option (canonical_workflow scr) (executed_workflow wt d)"

definition store_phase_env :: "canonical_scripts \<Rightarrow> workflow_tables \<Rightarrow> store_env \<Rightarrow> lease_db phase_env" where
  "store_phase_env scr wt se =
     \<lparr>pv_metadata = (\<lambda>run. phase_lease_metadata (se_facts se run) run), pv_persist = store_persist_metadata se,
      pv_schema = workflow_of_run scr wt\<rparr>"

section \<open>Dispatching the next phases\<close>

datatype forward_error =
    PhaseError dispatch_error
  | RunNotStored "run_error option"
  | PhaseLease lease_trouble

datatype forward_step =
    ForwardFailed forward_error
  | ForwardSettled
  | ForwardSkipped

definition skip_text :: "(string \<times> string) list \<Rightarrow> string" where
  "skip_text skipped =
     ''every job skipped by when conditions: '' @
     join_with ''; '' (map (\<lambda>job. job @ '': '' @ the (map_of (rev skipped) job)) (sort (remdups (map fst skipped))))"

definition outcome_reason :: "when_outcome \<Rightarrow> string" where
  "outcome_reason outcome =
     (case outcome of PhaseSkipped why \<Rightarrow> why | AllJobsSkipped skipped \<Rightarrow> skip_text skipped | PhaseRuns _ \<Rightarrow> [])"

definition substituted_inputs :: "phase_spec \<Rightarrow> (string \<rightharpoonup> string) \<Rightarrow> (string \<times> string) list" where
  "substituted_inputs p m = List.map_filter (\<lambda>(k, _). map_option (Pair k) (m k)) (ps_inputs p)"

definition with_attempt :: "run_data \<Rightarrow> int \<Rightarrow> string \<Rightarrow> run_data" where
  "with_attempt run i phase = run\<lparr>rd_attempts := rd_attempts run @ [(fresh_attempt run phase)\<lparr>at_index := i\<rparr>]\<rparr>"

text \<open>The launch on the run's lease; which jobs were started is recorded, an error of that is dropped.\<close>

definition launch_on_lease ::
  "admission_env \<Rightarrow> 'w lease_ops \<Rightarrow> 'w phase_env \<Rightarrow> phase_spec \<Rightarrow> run_data \<Rightarrow> run_data \<Rightarrow> int \<Rightarrow>
     (string \<times> string) list option \<Rightarrow> (string \<times> string) list \<Rightarrow> string \<Rightarrow> 'w admission_state \<Rightarrow>
     forward_error option \<times> 'w admission_state" where
  "launch_on_lease env ops pv p run started i inputs skipped now st =
     (case lease_for_run_phase ops pv run (ps_name p) i inputs (as_leases st) of
        Inl e \<Rightarrow> (Some (PhaseLease e), st)
      | Inr (l, w) \<Rightarrow>
          (let st1 = st\<lparr>as_leases := w\<rparr> in
           if ls_state l \<noteq> ''claimed'' then (Some (PhaseLease (LeaseUnclaimed (ls_state l) (lease_public_ref l))), st1)
           else
             (case en_launch env l p started skipped of
                Inl e \<Rightarrow> (Some (PhaseError (LaunchFailed e)), st1)
              | Inr jobs \<Rightarrow>
                  (None, st1\<lparr>as_runs := (case patch_run (rd_id run)
                       (\<lambda>d. Inr (record_runner_jobs_dispatched (ps_name p) (launched_jobs jobs) now d)) (as_runs st1) of
                     Inl _ \<Rightarrow> as_runs st1 | Inr runs \<Rightarrow> runs)\<rparr>))))"

definition forward_start ::
  "admission_env \<Rightarrow> 'w lease_ops \<Rightarrow> 'w phase_env \<Rightarrow> phase_spec \<Rightarrow> run_data \<Rightarrow> (string \<times> string) list \<Rightarrow>
     (string \<times> string) list \<Rightarrow> string \<Rightarrow> 'w admission_state \<Rightarrow> forward_step \<times> 'w admission_state" where
  "forward_start env ops pv p snap inputs skipped now st =
     (case run_by_id (rd_id snap) (as_runs st) of
        None \<Rightarrow> (ForwardFailed (RunNotStored None), st)
      | Some d \<Rightarrow>
          (let i = next_index (rn_attempts d);
               d1 = append_run_attempt (ps_name p) (workflow_phase_kind (ps_kind p)) (phase_filename p) now d;
               st1 = st\<lparr>as_runs := put_run (rd_id snap) d1 (as_runs st)\<rparr> in
           case (if skipped = [] then Inr (as_runs st1)
                 else patch_run (rd_id snap) (record_runner_jobs_skipped (ps_name p) skipped now) (as_runs st1)) of
             Inl e \<Rightarrow> (ForwardFailed (RunNotStored e), st1)
           | Inr runs \<Rightarrow>
               (case launch_on_lease env ops pv p snap (with_attempt snap i (ps_name p)) i (Some inputs) skipped now
                       (st1\<lparr>as_runs := runs\<rparr>) of
                  (Some e, st2) \<Rightarrow> (ForwardFailed e, st2)
                | (None, st2) \<Rightarrow> (ForwardSettled, st2))))"

definition forward_skip ::
  "phase_spec \<Rightarrow> run_data \<Rightarrow> string \<Rightarrow> string \<Rightarrow> ledger_run list \<Rightarrow> run_error option option \<times> ledger_run list" where
  "forward_skip p snap reason now runs =
     (case patch_run (rd_id snap)
             (\<lambda>d. Inr (append_run_attempt (ps_name p) (workflow_phase_kind (ps_kind p)) (phase_filename p) now d)) runs of
        Inl e \<Rightarrow> (Some e, runs)
      | Inr runs1 \<Rightarrow>
          (case patch_run (rd_id snap) (stamp_attempt_skipped reason now) runs1 of
             Inl e \<Rightarrow> (Some e, runs1)
           | Inr runs2 \<Rightarrow> (None, runs2)))"

definition forward_one ::
  "admission_env \<Rightarrow> 'w lease_ops \<Rightarrow> 'w phase_env \<Rightarrow> workflow \<Rightarrow> phase_spec \<Rightarrow> run_data \<Rightarrow> string \<Rightarrow> 'w admission_state \<Rightarrow>
     forward_step \<times> 'w admission_state" where
  "forward_one env ops pv wkf p snap now st =
     (let kind = workflow_phase_kind (ps_kind p) in
      if \<not> valid_workflow_kind kind then (ForwardFailed (PhaseError (BadPhaseKind kind)), st)
      else
        (case substitute_completion_inputs p (rd_attempts snap) of
           Inl e \<Rightarrow> (ForwardFailed (PhaseError (BadPhaseInputs e)), st)
         | Inr m \<Rightarrow>
             if phase_purpose p = ''review_gate''
             then (case patch_run (rd_id snap) (\<lambda>d. Inr (park_run (ps_name p) kind (phase_filename p) now d)) (as_runs st) of
                     Inl e \<Rightarrow> (ForwardFailed (RunNotStored e), st)
                   | Inr runs \<Rightarrow> (ForwardSettled, st\<lparr>as_runs := runs\<rparr>))
             else
               (case evaluate_phase_when p (when_context_of wkf snap) of
                  Inl e \<Rightarrow> (ForwardFailed (PhaseError e), st)
                | Inr (PhaseRuns skipped) \<Rightarrow> forward_start env ops pv p snap (substituted_inputs p m) skipped now st
                | Inr outcome \<Rightarrow>
                    (case forward_skip p snap (outcome_reason outcome) now (as_runs st) of
                       (Some e, runs) \<Rightarrow> (ForwardFailed (RunNotStored e), st\<lparr>as_runs := runs\<rparr>)
                     | (None, runs) \<Rightarrow> (ForwardSkipped, st\<lparr>as_runs := runs\<rparr>)))))"

text \<open>The targets in order; after a skip the run is read again. The fuel bounds the nested skips.\<close>

function forward_phases ::
  "nat \<Rightarrow> admission_env \<Rightarrow> 'w lease_ops \<Rightarrow> 'w phase_env \<Rightarrow> workflow \<Rightarrow> phase_spec list \<Rightarrow> run_data \<Rightarrow> string \<Rightarrow>
     'w admission_state \<Rightarrow> forward_error option \<times> 'w admission_state" where
  "forward_phases fuel env ops pv wkf [] snap now st = (None, st)"
| "forward_phases 0 env ops pv wkf (p # ps) snap now st = (Some (PhaseError OutOfFuel), st)"
| "forward_phases (Suc fuel) env ops pv wkf (p # ps) snap now st =
     (case forward_one env ops pv wkf p snap now st of
        (ForwardFailed e, st1) \<Rightarrow> (Some e, st1)
      | (ForwardSettled, st1) \<Rightarrow> forward_phases (Suc fuel) env ops pv wkf ps snap now st1
      | (ForwardSkipped, st1) \<Rightarrow>
          (case run_by_id (rd_id snap) (as_runs st1) of
             None \<Rightarrow> (Some (RunNotStored None), st1)
           | Some d \<Rightarrow>
               (case forward_phases fuel env ops pv wkf (all_ready_dispatch_targets wkf (replay_data d) Advance)
                       (replay_data d) now st1 of
                  (Some e, st2) \<Rightarrow> (Some e, st2)
                | (None, st2) \<Rightarrow> forward_phases (Suc fuel) env ops pv wkf ps snap now st2)))"
  by pat_completeness auto
termination
  by (relation "measures [\<lambda>(fuel, _). fuel, \<lambda>(_, _, _, _, _, ps, _). length ps]") auto

definition dispatch_targets ::
  "admission_env \<Rightarrow> 'w lease_ops \<Rightarrow> 'w phase_env \<Rightarrow> workflow \<Rightarrow> phase_spec list \<Rightarrow> run_data \<Rightarrow> string \<Rightarrow>
     'w admission_state \<Rightarrow> forward_error option \<times> 'w admission_state" where
  "dispatch_targets env ops pv wkf targets snap now st =
     forward_phases (Suc (length (wf_phases wkf))) env ops pv wkf targets snap now st"

section \<open>The end of a stored run\<close>

definition end_by_id ::
  "'w lease_ops \<Rightarrow> 'w phase_env \<Rightarrow> string \<Rightarrow> string option \<Rightarrow> string \<Rightarrow> string \<Rightarrow> 'w admission_state \<Rightarrow>
     bool \<times> 'w admission_state" where
  "end_by_id ops pv end_state reason i now st =
     (case row_by_id i (as_runs st) of
        None \<Rightarrow> (False, st)
      | Some r \<Rightarrow>
          (let d = lr_doc r in
           (True, st\<lparr>as_runs := put_run i (set_terminal end_state (end_reason d (pv_schema pv d) end_state reason) now d) (as_runs st),
                     as_locks := release_issue_lock r (as_locks st),
                     as_leases := (if terminal_state_releases_lease end_state (rn_preserve d)
                                   then release_slot ops d (as_leases st) else as_leases st)\<rparr>)))"

end
