(* ===== verification/RunCompletion.thy ===== *)
theory RunCompletion
  imports PhaseDispatch Playbooks
begin

text \<open>
  The completion of a phase on the stored run (\<open>processRunCompletion\<close> and the callback of a job in
  \<open>internal/server/completion_api.go\<close>): the completion and the decision are stamped on the
  document, the next phases are dispatched, a retry creates and starts a new cycle, and at the end
  the lock, the slot, the playbooks and the issue are seen to. Texts of errors and explanations,
  the sum of two costs and the identifier of a new cycle are arguments.
\<close>

datatype retry_error =
    RetryStep forward_error
  | RetryNotCreated create_error
  | RetryNotStarted "run_error option"

record 'w completion_env =
  ce_admission :: admission_env
  ce_phase :: "'w phase_env"
  ce_details :: doc_details
  ce_scripts :: canonical_scripts
  ce_tables :: workflow_tables
  ce_add :: "gofloat \<Rightarrow> gofloat \<Rightarrow> gofloat"
  ce_fresh :: "run_data \<Rightarrow> string"
  ce_forward :: "forward_error \<Rightarrow> string"
  ce_retry :: "retry_error \<Rightarrow> string"
  ce_explain :: "abort_explanation \<Rightarrow> string"

text \<open>\<open>workflowForRun\<close>: the pinned version alone when there is one, without falling back on the name.\<close>

definition workflow_for_run :: "canonical_scripts \<Rightarrow> workflow_tables \<Rightarrow> run_data \<Rightarrow> workflow option" where
  "workflow_for_run scr wt run =
     map_option (\<lambda>(wkf, _). canonical_workflow scr wkf)
       (if rd_schema_ref run \<noteq> [] then wt_versions wt (rd_project run) (rd_schema_ref run)
        else wt_names wt (rd_project run) (rd_workflow_name run))"

section \<open>A retry\<close>

definition carried_data :: "attempt_doc list \<Rightarrow> attempt_data list" where
  "carried_data as = map replay_attempt (filter ad_carry as)"

text \<open>The run the launcher is given; it is put together from the parent, not read.\<close>

definition recycled_data ::
  "run_data \<Rightarrow> workflow \<Rightarrow> phase_spec \<Rightarrow> prior_verification option \<Rightarrow> run_doc \<Rightarrow> run_data" where
  "recycled_data run wkf target prior d =
     run\<lparr>rd_id := rn_id d, rd_schema_ref := wf_schema_ref wkf, rd_attempts := carried_data (rn_attempts d),
         rd_run_cycle := rn_run_cycle d, rd_display := rn_display d, rd_pr_number := None,
         rd_slot_lease := Some (case rd_slot_lease run of None \<Rightarrow> [] | Some r \<Rightarrow> r),
         rd_entrypoint := Some (ps_name target), rd_state := [], rd_prior := prior\<rparr>"

text \<open>The new cycle is started; its jobs are chosen, its lease is written and it is launched.\<close>

definition launch_recycled ::
  "'w completion_env \<Rightarrow> 'w lease_ops \<Rightarrow> workflow \<Rightarrow> phase_spec \<Rightarrow> (string \<times> string) list \<Rightarrow> run_data \<Rightarrow> int \<Rightarrow> string \<Rightarrow>
     'w admission_state \<Rightarrow> retry_error option \<times> 'w admission_state" where
  "launch_recycled env ops wkf target inputs fresh i now st =
     (case evaluate_phase_when target (when_context_of wkf fresh) of
        Inl e \<Rightarrow> (Some (RetryStep (PhaseError e)), st)
      | Inr outcome \<Rightarrow>
          (let skipped = entry_skips outcome in
           case (if skipped = [] then Inr (as_runs st)
                 else patch_run (rd_id fresh) (record_runner_jobs_skipped (ps_name target) skipped now) (as_runs st)) of
             Inl e \<Rightarrow> (Some (RetryStep (RunNotStored e)), st)
           | Inr runs \<Rightarrow>
               (case launch_on_lease (ce_admission env) ops (ce_phase env) target fresh fresh i (Some inputs) skipped now
                       (st\<lparr>as_runs := runs\<rparr>) of
                  (Some e, st') \<Rightarrow> (Some (RetryStep e), st')
                | (None, st') \<Rightarrow> (None, st'))))"

definition start_recycled ::
  "'w completion_env \<Rightarrow> 'w lease_ops \<Rightarrow> workflow \<Rightarrow> string \<Rightarrow> phase_spec \<Rightarrow> (string \<times> string) list \<Rightarrow>
     prior_verification option \<Rightarrow> run_data \<Rightarrow> run_doc \<Rightarrow> string \<Rightarrow> 'w admission_state \<Rightarrow>
     retry_error option \<times> 'w admission_state" where
  "start_recycled env ops wkf kind target inputs prior run d now st =
     (let ref = (case rd_slot_lease run of None \<Rightarrow> [] | Some r \<Rightarrow> r) in
      case patch_run (rn_id d) (start_run_cycle (ps_name target) kind (phase_filename target) ref now) (as_runs st) of
        Inl e \<Rightarrow> (Some (RetryNotStarted e), st)
      | Inr runs \<Rightarrow>
          (let i = next_index (rn_attempts d) in
           launch_recycled env ops wkf target inputs (with_attempt (recycled_data run wkf target prior d) i (ps_name target)) i now
             (st\<lparr>as_runs := runs\<rparr>)))"

definition retry_stored ::
  "'w completion_env \<Rightarrow> 'w lease_ops \<Rightarrow> workflow \<Rightarrow> string \<Rightarrow> run_data \<Rightarrow> string \<Rightarrow> 'w admission_state \<Rightarrow>
     retry_error option \<times> 'w admission_state" where
  "retry_stored env ops wkf failing run now st =
     (case retry_target wkf failing of
        None \<Rightarrow> (Some (RetryStep (PhaseError (NoRetryTarget failing))), st)
      | Some target \<Rightarrow>
          (let kind = workflow_phase_kind (ps_kind target); carry = retry_carry_forward run wkf (ps_name target);
               prior = prior_verification_for_retry run failing in
           if \<not> valid_workflow_kind kind then (Some (RetryStep (PhaseError (BadPhaseKind kind))), st)
           else
             (case substitute_completion_inputs target (rd_attempts run @ carry) of
                Inl e \<Rightarrow> (Some (RetryStep (PhaseError (BadPhaseInputs e))), st)
              | Inr m \<Rightarrow>
                  (case create_recycle_cycle (ce_details env) (ce_scripts env) (ce_tables env) (rd_id run) (wf_schema_ref wkf)
                          (ps_name target) carry prior (ce_fresh env run) now (as_runs st) of
                     (Inl e, runs) \<Rightarrow> (Some (RetryNotCreated e), st\<lparr>as_runs := runs\<rparr>)
                   | (Inr r, runs) \<Rightarrow>
                       start_recycled env ops wkf kind target (substituted_inputs target m) prior run (lr_doc r) now
                         (st\<lparr>as_runs := runs\<rparr>)))))"

section \<open>The route\<close>

datatype completion_outcome =
    CompletionRunMissing
  | CompletionNotRecorded run_error
  | CompletionWithoutAttempts
  | CompletionUndecided decide_error
  | CompletionNotEnded
  | CompletionReplied string
  | CompletionEnded string string

definition end_stored ::
  "'w completion_env \<Rightarrow> 'w lease_ops \<Rightarrow> string \<Rightarrow> string option \<Rightarrow> string \<Rightarrow> string \<Rightarrow> string \<Rightarrow> 'w admission_state \<Rightarrow>
     completion_outcome \<times> 'w admission_state" where
  "end_stored env ops end_state reason verdict i now st =
     (let (found, st') = end_by_id ops (ce_phase env) end_state reason i now st in
      (if found then CompletionEnded verdict end_state else CompletionNotEnded, st'))"

definition dispatch_stored ::
  "'w completion_env \<Rightarrow> 'w lease_ops \<Rightarrow> workflow \<Rightarrow> phase_spec list \<Rightarrow> run_data \<Rightarrow> string \<Rightarrow> 'w admission_state \<Rightarrow>
     forward_error option \<times> 'w admission_state" where
  "dispatch_stored env ops wkf targets run now st =
     dispatch_targets (ce_admission env) ops (ce_phase env) wkf targets run now st"

definition cleanup_stored ::
  "'w completion_env \<Rightarrow> 'w lease_ops \<Rightarrow> workflow \<Rightarrow> run_decision \<Rightarrow> string \<Rightarrow> run_data \<Rightarrow> string \<Rightarrow> 'w admission_state \<Rightarrow>
     completion_outcome \<times> 'w admission_state" where
  "cleanup_stored env ops wkf verdict reason run now st =
     (let targets = all_ready_dispatch_targets wkf run verdict in
      if targets \<noteq> [] then
        (case dispatch_stored env ops wkf targets run now st of
           (Some e, st') \<Rightarrow>
             end_stored env ops ''aborted'' (Some (reason @ ''; cleanup_dispatch_failed: '' @ ce_forward env e))
               ''abort_malformed'' (rd_id run) now st'
         | (None, st') \<Rightarrow> (CompletionReplied ''advance_phase'', st'))
      else if has_in_flight_attempts run then (CompletionReplied (decision_str verdict), st)
      else end_stored env ops ''aborted'' (Some reason) (decision_str verdict) (rd_id run) now st)"

definition explained :: "'w completion_env \<Rightarrow> abort_explanation option \<Rightarrow> string option" where
  "explained env x = (case x of None \<Rightarrow> None | Some e \<Rightarrow> if ce_explain env e = [] then None else Some (ce_explain env e))"

definition finish_stored ::
  "'w completion_env \<Rightarrow> 'w lease_ops \<Rightarrow> workflow \<Rightarrow> drun \<Rightarrow> run_data \<Rightarrow> string \<Rightarrow> 'w admission_state \<Rightarrow>
     completion_outcome \<times> 'w admission_state" where
  "finish_stored env ops wkf drn run now st =
     (case latest_abort_decision run of
        Some s \<Rightarrow>
          end_stored env ops ''aborted''
            (explained env (abort_explanation drn (decision_workflow (wf_phases wkf)) (decision_of_str s)))
            ''advance'' (rd_id run) now st
      | None \<Rightarrow>
          if (case rd_pr_number run of None \<Rightarrow> True | Some n \<Rightarrow> n < 1)
          then end_stored env ops ''aborted'' (Some ''PR primitive: review job completed without linking a PR'')
                 ''abort_malformed'' (rd_id run) now st
          else end_stored env ops ''passed'' None ''advance'' (rd_id run) now st)"

definition advance_stored ::
  "'w completion_env \<Rightarrow> 'w lease_ops \<Rightarrow> workflow \<Rightarrow> drun \<Rightarrow> run_data \<Rightarrow> string \<Rightarrow> 'w admission_state \<Rightarrow>
     completion_outcome \<times> 'w admission_state" where
  "advance_stored env ops wkf drn run now st =
     (let targets = all_ready_dispatch_targets wkf run Advance in
      if targets \<noteq> [] then
        (case dispatch_stored env ops wkf targets run now st of
           (Some e, st') \<Rightarrow>
             cleanup_stored env ops wkf AbortMalformed (''forward_dispatch_failed: '' @ ce_forward env e) run now st'
         | (None, st') \<Rightarrow> (CompletionReplied ''advance_phase'', st'))
      else if has_in_flight_attempts run then (CompletionReplied ''advance'', st)
      else finish_stored env ops wkf drn run now st)"

definition abort_stored ::
  "'w completion_env \<Rightarrow> 'w lease_ops \<Rightarrow> workflow \<Rightarrow> drun \<Rightarrow> run_decision \<Rightarrow> run_data \<Rightarrow> string \<Rightarrow> 'w admission_state \<Rightarrow>
     completion_outcome \<times> 'w admission_state" where
  "abort_stored env ops wkf drn verdict run now st =
     (let targets = all_ready_dispatch_targets wkf run verdict in
      if targets \<noteq> [] then
        (case dispatch_stored env ops wkf targets run now st of
           (Some e, st') \<Rightarrow>
             end_stored env ops ''aborted'' (Some (''teardown_dispatch_failed: '' @ ce_forward env e)) ''abort_malformed''
               (rd_id run) now st'
         | (None, st') \<Rightarrow> (CompletionReplied ''advance_phase'', st'))
      else if has_in_flight_attempts run then (CompletionReplied (decision_str verdict), st)
      else end_stored env ops ''aborted'' (explained env (abort_explanation drn (decision_workflow (wf_phases wkf)) verdict))
             (decision_str verdict) (rd_id run) now st)"

definition route_stored ::
  "'w completion_env \<Rightarrow> 'w lease_ops \<Rightarrow> workflow \<Rightarrow> drun \<Rightarrow> run_decision \<Rightarrow> string \<Rightarrow> run_data \<Rightarrow> string \<Rightarrow>
     'w admission_state \<Rightarrow> completion_outcome \<times> 'w admission_state" where
  "route_stored env ops wkf drn verdict failing run now st =
     (case verdict of
        Retry \<Rightarrow>
          (case retry_stored env ops wkf failing run now st of
             (Some e, st') \<Rightarrow>
               cleanup_stored env ops wkf AbortMalformed (''retry_dispatch_failed: '' @ ce_retry env e) run now st'
           | (None, st') \<Rightarrow> (CompletionReplied ''retry'', st'))
      | Advance \<Rightarrow> advance_stored env ops wkf drn run now st
      | _ \<Rightarrow> abort_stored env ops wkf drn verdict run now st)"

text \<open>The handler up to the end of the run, on the run as \<open>StampRunCompletion\<close> returns it.\<close>

definition decide_stored ::
  "'w completion_env \<Rightarrow> 'w lease_ops \<Rightarrow> job_payload \<Rightarrow> run_data \<Rightarrow> string \<Rightarrow> 'w admission_state \<Rightarrow>
     completion_outcome \<times> 'w admission_state" where
  "decide_stored env ops p run now st =
     (case workflow_for_run (ce_scripts env) (ce_tables env) run of
        None \<Rightarrow> (CompletionReplied ''abort_malformed'', snd (abort_by_reason ops ''workflow_schema_missing'' (rd_id run) now st))
      | Some wkf \<Rightarrow>
          if rd_attempts run = [] then (CompletionWithoutAttempts, st)
          else
            (let last_at = last (rd_attempts run); dwkf = decision_workflow (wf_phases wkf) in
             if \<not> list_ex (\<lambda>p. dp_name p = at_phase last_at) dwkf
             then (CompletionReplied ''abort_malformed'',
                   snd (abort_by_reason ops ''completing_phase_not_in_workflow'' (rd_id run) now st))
             else
               (let drn = completion_decision_run wkf run in
                case decide drn dwkf None of
                  Inl e \<Rightarrow> (CompletionUndecided e, st)
                | Inr verdict \<Rightarrow>
                    (let runs = (case patch_run (rd_id run) (\<lambda>d. Inr (stamp_run_decision (decision_str verdict) now d)) (as_runs st) of
                                   Inl _ \<Rightarrow> as_runs st | Inr runs \<Rightarrow> runs);
                         run1 = with_stamped_decision run (at_index last_at) verdict
                                  \<lparr>cp_conclusion = jp_conclusion p, cp_outputs = jp_outputs p\<rparr> in
                     route_stored env ops wkf drn verdict (at_phase last_at) run1 now (st\<lparr>as_runs := runs\<rparr>)))))"

definition complete_stored ::
  "'w completion_env \<Rightarrow> 'w lease_ops \<Rightarrow> string \<Rightarrow> job_payload \<Rightarrow> string \<Rightarrow> 'w admission_state \<Rightarrow>
     completion_outcome \<times> 'w admission_state" where
  "complete_stored env ops i p now st =
     (case patch_run i (stamp_run_completion (ce_add env) p now) (as_runs st) of
        Inl None \<Rightarrow> (CompletionRunMissing, st)
      | Inl (Some e) \<Rightarrow> (CompletionNotRecorded e, st)
      | Inr runs \<Rightarrow>
          (case run_by_id i runs of
             None \<Rightarrow> (CompletionRunMissing, st)
           | Some d \<Rightarrow> decide_stored env ops p (replay_data d) now (st\<lparr>as_runs := runs\<rparr>)))"

section \<open>What follows the end\<close>

record 'w completion_state =
  cs_store :: "'w admission_state"
  cs_playbooks :: "playbook list"
  cs_closed :: "(string \<times> int) list"

record 'w full_env =
  fe_completion :: "'w completion_env"
  fe_playbooks :: playbook_env
  fe_stamp :: "string \<Rightarrow> string"

text \<open>The issues the handler closes are listed in order.\<close>

definition close_issue :: "workflow option \<Rightarrow> run_data \<Rightarrow> (string \<times> int) list \<Rightarrow> (string \<times> int) list" where
  "close_issue wkfo run shut =
     (if rd_issue_number run \<le> 0 then shut
      else (case wkfo of
              None \<Rightarrow> shut
            | Some wkf \<Rightarrow>
                if list_ex (\<lambda>p. phase_purpose p = ''review_gate'') (wf_phases wkf)
                then shut @ [(rd_project run, rd_issue_number run)] else shut))"

definition after_end ::
  "'w full_env \<Rightarrow> 'w lease_ops \<Rightarrow> string \<Rightarrow> run_data \<Rightarrow> string \<Rightarrow> int \<Rightarrow> int \<Rightarrow> 'w completion_state \<Rightarrow> 'w completion_state" where
  "after_end env ops end_state run now app db cs =
     (let (tbl, st) = advance_playbooks_for_run (fe_stamp env) (playbook_dispatcher (fe_playbooks env) ops now app db) as_runs
            (rd_project run) (rd_id run) now (cs_playbooks cs) (cs_store cs) in
      cs\<lparr>cs_store := st, cs_playbooks := tbl,
         cs_closed := (if end_state = ''passed''
           then close_issue (workflow_for_run (ce_scripts (fe_completion env)) (ce_tables (fe_completion env)) run) run (cs_closed cs)
           else cs_closed cs)\<rparr>)"

definition process_run_completion ::
  "'w full_env \<Rightarrow> 'w lease_ops \<Rightarrow> string \<Rightarrow> job_payload \<Rightarrow> string \<Rightarrow> int \<Rightarrow> int \<Rightarrow> 'w completion_state \<Rightarrow>
     completion_outcome \<times> 'w completion_state" where
  "process_run_completion env ops i p now app db cs =
     (let (out, st) = complete_stored (fe_completion env) ops i p now (cs_store cs); cs1 = cs\<lparr>cs_store := st\<rparr> in
      case (out, run_by_id i (as_runs (cs_store cs))) of
        (CompletionEnded verdict end_state, Some d) \<Rightarrow> (out, after_end env ops end_state (replay_data d) now app db cs1)
      | _ \<Rightarrow> (out, cs1))"

section \<open>The callback of a job\<close>

datatype callback_reply =
    ConclusionRequired
  | JobRequired
  | CallbackRunMissing
  | CallbackRefused run_error
  | CallbackWaits
  | CallbackAlreadyCompleted
  | CallbackProcessed completion_outcome

definition record_stored ::
  "'w completion_env \<Rightarrow> string \<Rightarrow> job_payload \<Rightarrow> string \<Rightarrow> 'w admission_state \<Rightarrow>
     (run_error option, completion_result) res \<times> 'w admission_state" where
  "record_stored env i p now st =
     (case run_by_id i (as_runs st) of
        None \<Rightarrow> (Inl None, st)
      | Some d \<Rightarrow>
          (case record_job_completion (ce_scripts env) (executed_workflow (ce_tables env) d) p now d of
             Inl e \<Rightarrow> (Inl (Some e), st)
           | Inr (reply, d') \<Rightarrow>
               (Inr (completion_result_of (ce_add env) reply), st\<lparr>as_runs := put_run i d' (as_runs st)\<rparr>)))"

definition runner_completed ::
  "'w full_env \<Rightarrow> 'w lease_ops \<Rightarrow> string \<Rightarrow> job_payload \<Rightarrow> string \<Rightarrow> int \<Rightarrow> int \<Rightarrow> 'w completion_state \<Rightarrow>
     callback_reply \<times> 'w completion_state" where
  "runner_completed env ops i p now app db cs =
     (if jp_conclusion p = [] then (ConclusionRequired, cs)
      else if jp_job p = None \<or> jp_job p = Some [] then (JobRequired, cs)
      else
        (case record_stored (fe_completion env) i p now (cs_store cs) of
           (Inl None, st) \<Rightarrow> (CallbackRunMissing, cs\<lparr>cs_store := st\<rparr>)
         | (Inl (Some e), st) \<Rightarrow> (CallbackRefused e, cs\<lparr>cs_store := st\<rparr>)
         | (Inr r, st) \<Rightarrow>
             if \<not> cr_ready r
             then (if cr_phase_complete r then CallbackAlreadyCompleted else CallbackWaits, cs\<lparr>cs_store := st\<rparr>)
             else (let (out, cs') = process_run_completion env ops i (cr_payload r) now app db (cs\<lparr>cs_store := st\<rparr>) in
                   (CallbackProcessed out, cs'))))"

end
