(* ===== verification/StoredRouting.thy ===== *)
theory StoredRouting
  imports RunStoreOutcomes PhaseDispatch AdmissionSafety
begin

text \<open>
  The dispatch of phases on stored documents refines the routing on runs: whatever the routing
  theory shows of the run it computes holds of the document that is stored.
\<close>

section \<open>Routing does not look at missing outputs\<close>

lemma as_read_fields [simp]:
  "rd_id (as_read r) = rd_id r" "rd_inputs (as_read r) = rd_inputs r" "rd_preserve (as_read r) = rd_preserve r"
  "rd_attempts (as_read r) = map as_read_attempt (rd_attempts r)"
  by (simp_all add: as_read_def)

lemma as_read_attempt_fields [simp]:
  "at_phase (as_read_attempt a) = at_phase a" "at_index (as_read_attempt a) = at_index a"
  "at_decision (as_read_attempt a) = at_decision a" "at_completed (as_read_attempt a) = at_completed a"
  "at_conclusion (as_read_attempt a) = at_conclusion a" "at_has_skipped_jobs (as_read_attempt a) = at_has_skipped_jobs a"
  by (simp_all add: as_read_attempt_def)

lemma as_read_idem [simp]: "as_read_attempt (as_read_attempt a) = as_read_attempt a" "as_read (as_read r) = as_read r"
  "as_read_attempt \<circ> as_read_attempt = as_read_attempt"
  by (simp_all add: as_read_def as_read_attempt_def fun_eq_iff)

lemma find_map: "find P (map f xs) = map_option f (find (\<lambda>x. P (f x)) xs)"
  by (induction xs) simp_all

lemma prior_outputs_read: "prior_outputs (map as_read_attempt as) phase = prior_outputs as phase"
proof -
  have "(at_phase (as_read_attempt a) = phase \<and> at_outputs (as_read_attempt a) \<noteq> None \<and> at_outputs (as_read_attempt a) \<noteq> Some []) =
      (at_phase a = phase \<and> at_outputs a \<noteq> None \<and> at_outputs a \<noteq> Some [])" for a
    by (cases "at_outputs a") (simp_all add: as_read_attempt_def)
  moreover have "(case at_outputs (as_read_attempt a) of None \<Rightarrow> [] | Some m \<Rightarrow> m) = (case at_outputs a of None \<Rightarrow> [] | Some m \<Rightarrow> m)" for a
    by (cases "at_outputs a") (simp_all add: as_read_attempt_def)
  ultimately show ?thesis
    unfolding prior_outputs_def rev_map find_map by (simp add: option.map_comp comp_def)
qed

lemma skipped_phases_read: "skipped_phases (map as_read_attempt as) phase = skipped_phases as phase"
  by (simp add: skipped_phases_def list_ex_iff)

lemma substitute_read [simp]:
  "substitute_completion_inputs p (map as_read_attempt as) = substitute_completion_inputs p as"
  by (simp add: substitute_completion_inputs_def prior_outputs_read [abs_def] skipped_phases_read [abs_def])

lemma when_context_read [simp]: "when_context_of wkf (as_read r) = when_context_of wkf r"
  by (simp add: when_context_of_def)

lemma read_parts [simp]:
  "attempted_phases (as_read r) = attempted_phases r" "has_in_flight_attempts (as_read r) = has_in_flight_attempts r"
  "run_has_abort_decision (as_read r) = run_has_abort_decision r"
  by (auto simp: attempted_phases_def has_in_flight_attempts_def in_flight_def list_ex_iff run_has_abort_decision_def
      latest_abort_decision_def rev_map find_map option.map_comp comp_def image_image)

lemma latest_read [simp]: "latest_attempt (as_read r) phase = map_option as_read_attempt (latest_attempt r phase)"
  by (simp add: latest_attempt_def rev_map find_map)

lemma advance_read [simp]: "completed_advance (as_read r) phase = completed_advance r phase"
  by (simp add: completed_advance_def attempt_advanced_def split: option.split)

lemma ready_read [simp]: "list_ready_phases ps (as_read r) b = list_ready_phases ps r b"
proof -
  have "succeeds_completed (as_read r) b prev p = succeeds_completed r b prev p" for prev p
    by (simp add: succeeds_completed_def)
  then have "ready_after (as_read r) b prev qs = ready_after r b prev qs" for prev qs
    by (induction qs arbitrary: prev) simp_all
  then show ?thesis by (simp add: list_ready_phases_def split: list.split)
qed

lemma abort_read [simp]: "first_unattempted_abort_phase ps (as_read r) = first_unattempted_abort_phase ps r"
  by (simp add: first_unattempted_abort_phase_def)

lemma targets_read [simp]: "all_ready_dispatch_targets wkf (as_read r) v = all_ready_dispatch_targets wkf r v"
  by (simp add: all_ready_dispatch_targets_def last_map Let_def)

lemma read_again:
  "as_read (append_attempt phase (as_read r)) = as_read (append_attempt phase r)"
  "as_read (park_at_review_gate phase (as_read r)) = as_read (park_at_review_gate phase r)"
  by (simp_all add: append_attempt_def park_at_review_gate_def fresh_attempt_def next_attempt_index_def last_map)
    (simp_all add: as_read_def)

lemma update_last_read:
  "(\<And>a. as_read_attempt (f a) = f (as_read_attempt a)) \<Longrightarrow>
     map as_read_attempt (update_last f as) = update_last f (map as_read_attempt as)"
  by (rule update_last_map) simp

lemma stamp_read:
  "stamp_latest_skipped (as_read r) = as_read (stamp_latest_skipped r)" "record_jobs_skipped (as_read r) = as_read (record_jobs_skipped r)"
  unfolding stamp_latest_skipped_def record_jobs_skipped_def as_read_def
  by (simp_all add: update_last_read as_read_attempt_def)

section \<open>Dispatching a stored run\<close>

text \<open>The stored run, read back, is the run the routing has computed, and its leases are as expected.\<close>

definition stored_as :: "string \<Rightarrow> string option \<Rightarrow> ('w \<Rightarrow> bool) \<Rightarrow> 'w admission_state \<Rightarrow> run_data \<Rightarrow> bool" where
  "stored_as i ref P st r \<longleftrightarrow>
     (\<exists>d. run_by_id i (as_runs st) = Some d \<and> replay_data d = as_read r) \<and> P (as_leases st) \<and> rd_slot_lease r = ref"

text \<open>
  Whether a launch on the slot succeeds depends on the phase alone, as long as the leases are as
  expected, and they stay so.
\<close>

definition launches_as ::
  "admission_env \<Rightarrow> 'w lease_ops \<Rightarrow> 'w phase_env \<Rightarrow> string option \<Rightarrow> ('w \<Rightarrow> bool) \<Rightarrow> (phase_spec \<Rightarrow> string option) \<Rightarrow> bool" where
  "launches_as env ops pv ref P verdict \<longleftrightarrow>
     (\<forall>p run started i inputs skipped now st. rd_slot_lease run = ref \<longrightarrow> P (as_leases st) \<longrightarrow>
        (fst (launch_on_lease env ops pv p run started i inputs skipped now st) = None) = (verdict p = None) \<and>
        P (as_leases (snd (launch_on_lease env ops pv p run started i inputs skipped now st))))"

lemma slot_kept [simp]:
  "rd_slot_lease (append_attempt phase r) = rd_slot_lease r" "rd_slot_lease (park_at_review_gate phase r) = rd_slot_lease r"
  "rd_slot_lease (stamp_latest_skipped r) = rd_slot_lease r" "rd_slot_lease (record_jobs_skipped r) = rd_slot_lease r"
  by (simp_all add: append_attempt_def park_at_review_gate_def stamp_latest_skipped_def record_jobs_skipped_def)

lemma slot_read: "replay_data d = as_read r \<Longrightarrow> rd_slot_lease (replay_data d) = rd_slot_lease r"
  by (simp add: as_read_def)

lemma replay_dispatched [simp]: "replay_data (record_runner_jobs_dispatched phase jobs now d) = replay_data d"
  by (simp add: record_runner_jobs_dispatched_def replay_data_def)

lemma launch_stored:
  assumes "launch_on_lease env ops pv p run started i inputs skipped now st = (e, st')" "stored_as j ref P st r"
    and "P (as_leases st')"
  shows "stored_as j ref P st' r"
proof -
  obtain d where d: "run_by_id j (as_runs st) = Some d" "replay_data d = as_read r" "rd_slot_lease r = ref"
    using assms(2) by (auto simp: stored_as_def)
  show ?thesis
    using assms(1,3) d run_by_id_Some
    by (auto simp: launch_on_lease_def Let_def patch_run_def stored_as_def run_by_id_put
        split: sum.splits prod.splits if_splits option.splits)
qed

lemma appended_id [simp]: "rn_id (append_run_attempt phase kind wff now d) = rn_id d" "rn_id (park_run phase kind wff now d) = rn_id d"
  by (simp_all add: append_run_attempt_def add_attempt_def park_run_def)

lemma appended_last:
  "rn_attempts (append_run_attempt phase kind wff now d) \<noteq> [] \<and>
   attempt_doc.ad_phase (last (rn_attempts (append_run_attempt phase kind wff now d))) = phase"
  by (simp add: append_run_attempt_def add_attempt_def new_attempt_def)

definition step_matches ::
  "string \<Rightarrow> string option \<Rightarrow> ('w \<Rightarrow> bool) \<Rightarrow> dispatch_step \<Rightarrow> forward_step \<times> 'w admission_state \<Rightarrow> bool" where
  "step_matches i ref P pure stored \<longleftrightarrow>
     (case pure of
        DispatchFailed e r \<Rightarrow> (\<exists>x. fst stored = ForwardFailed x) \<and> stored_as i ref P (snd stored) r
      | DispatchSettled r \<Rightarrow> fst stored = ForwardSettled \<and> stored_as i ref P (snd stored) r
      | DispatchSkipped r \<Rightarrow> fst stored = ForwardSkipped \<and> stored_as i ref P (snd stored) r)"

lemma start_matches:
  assumes "launches_as env ops pv ref P verdict" "stored_as i ref P st stored" "rd_id snap = i" "rd_slot_lease snap = ref"
  shows "step_matches i ref P (start_phase (\<lambda>p _. verdict p) p skipped stored) (forward_start env ops pv p snap inputs skipped now st)"
proof -
  obtain d where d: "run_by_id i (as_runs st) = Some d" "replay_data d = as_read stored"
      and fit: "P (as_leases st)" "rd_slot_lease stored = ref"
    using assms(2) by (auto simp: stored_as_def)
  let ?d1 = "append_run_attempt (ps_name p) (workflow_phase_kind (ps_kind p)) (phase_filename p) now d"
  let ?st1 = "st\<lparr>as_runs := put_run i ?d1 (as_runs st)\<rparr>"
  let ?r1 = "append_attempt (ps_name p) stored"
  let ?r2 = "if skipped = [] then ?r1 else record_jobs_skipped ?r1"
  have id: "rn_id d = i" using d(1) by (rule run_by_id_Some)
  have found: "run_by_id i (as_runs ?st1) = Some ?d1" using d(1) id by (simp add: run_by_id_put)
  have r1: "replay_data ?d1 = as_read ?r1" by (simp add: replay_append d(2) read_again)
  obtain runs where runs: "(if skipped = [] then Inr (as_runs ?st1)
      else patch_run i (record_runner_jobs_skipped (ps_name p) skipped now) (as_runs ?st1)) = Inr runs"
    "stored_as i ref P (?st1\<lparr>as_runs := runs\<rparr>) ?r2"
  proof (cases "skipped = []")
    case True
    with found r1 fit that [of "as_runs ?st1"] show thesis by (simp add: stored_as_def)
  next
    case False
    obtain d2 where d2: "record_runner_jobs_skipped (ps_name p) skipped now ?d1 = Inr d2"
      using appended_last [of "ps_name p" _ _ now d] False by (auto simp: record_runner_jobs_skipped_def)
    have "replay_data d2 = as_read (record_jobs_skipped ?r1)"
      using replay_jobs_skipped [OF d2 False] by (simp add: r1 stamp_read)
    moreover have "rn_id d2 = i" using skipped_parts [OF d2] id by simp
    ultimately show thesis
      using False found d2 fit by (intro that [of "put_run i d2 (as_runs ?st1)"])
        (simp_all add: patch_run_def stored_as_def run_by_id_put)
  qed
  obtain e st2 where launch: "launch_on_lease env ops pv p snap (with_attempt snap (next_index (rn_attempts d)) (ps_name p))
      (next_index (rn_attempts d)) (Some inputs) skipped now (?st1\<lparr>as_runs := runs\<rparr>) = (e, st2)" by fastforce
  have outcome: "(e = None) = (verdict p = None)" "P (as_leases st2)"
    using assms(1) [unfolded launches_as_def, rule_format, OF assms(4), of "?st1\<lparr>as_runs := runs\<rparr>" p
        "with_attempt snap (next_index (rn_attempts d)) (ps_name p)" "next_index (rn_attempts d)" "Some inputs" skipped now]
      launch fit by simp_all
  have "stored_as i ref P st2 ?r2" by (rule launch_stored [OF launch runs(2) outcome(2)])
  moreover note outcome(1)
  moreover have "forward_start env ops pv p snap inputs skipped now st =
      (case e of Some x \<Rightarrow> (ForwardFailed x, st2) | None \<Rightarrow> (ForwardSettled, st2))"
    by (cases e) (simp_all only: forward_start_def assms(3) d(1) option.simps Let_def runs(1) sum.simps launch prod.simps)
  ultimately show ?thesis
    by (cases e; cases "verdict p") (auto simp: step_matches_def start_phase_def Let_def)
qed

lemma skip_stored:
  assumes "stored_as i ref P st stored" "rd_id snap = i" "now \<noteq> []"
  shows "\<exists>runs. forward_skip p snap reason now (as_runs st) = (None, runs) \<and>
    stored_as i ref P (st\<lparr>as_runs := runs\<rparr>) (stamp_latest_skipped (append_attempt (ps_name p) stored))"
proof -
  obtain d where d: "run_by_id i (as_runs st) = Some d" "replay_data d = as_read stored"
    using assms(1) by (auto simp: stored_as_def)
  have fit: "P (as_leases st)" "rd_slot_lease stored = ref" using assms(1) by (simp_all add: stored_as_def)
  let ?d1 = "append_run_attempt (ps_name p) (workflow_phase_kind (ps_kind p)) (phase_filename p) now d"
  have id: "rn_id d = i" using d(1) by (rule run_by_id_Some)
  obtain d2 where d2: "stamp_attempt_skipped reason now ?d1 = Inr d2"
    using appended_last [of "ps_name p" _ _ now d] by (auto simp: stamp_attempt_skipped_def)
  have r2: "replay_data d2 = as_read (stamp_latest_skipped (append_attempt (ps_name p) stored))"
    using replay_skip [OF d2 assms(3)] by (simp add: replay_append d(2) read_again stamp_read)
  have id2: "rn_id d2 = i" using d2 id by (auto simp: stamp_attempt_skipped_def edit_last_def split: if_splits)
  show ?thesis
    using d(1) id id2 d2 r2 assms(2) fit
    by (intro exI [of _ "put_run i d2 (put_run i ?d1 (as_runs st))"])
      (simp add: forward_skip_def patch_run_def run_by_id_put stored_as_def)
qed

lemma forward_one_matches:
  assumes "launches_as env ops pv ref P verdict" "stored_as i ref P st stored" "rd_id snap = i" "as_read snap = as_read snap'" "now \<noteq> []"
    "rd_slot_lease snap = ref"
  shows "step_matches i ref P (dispatch_one (\<lambda>p _. verdict p) wkf p snap' stored) (forward_one env ops pv wkf p snap now st)"
proof -
  obtain d where d: "run_by_id i (as_runs st) = Some d" "replay_data d = as_read stored"
    using assms(2) by (auto simp: stored_as_def)
  have fit: "P (as_leases st)" "rd_slot_lease stored = ref" using assms(2) by (simp_all add: stored_as_def)
  have id: "rn_id d = i" using d(1) by (rule run_by_id_Some)
  have sub: "substitute_completion_inputs p (rd_attempts snap) = substitute_completion_inputs p (rd_attempts snap')"
    by (metis as_read_fields(4) assms(4) substitute_read)
  have ctx: "when_context_of wkf snap = when_context_of wkf snap'"
    by (metis assms(4) when_context_read)
  let ?kind = "workflow_phase_kind (ps_kind p)"
  show ?thesis
  proof (cases "valid_workflow_kind ?kind")
    case False
    with assms(2) show ?thesis by (simp add: forward_one_def dispatch_one_def step_matches_def)
  next
    case kind: True
    show ?thesis
    proof (cases "substitute_completion_inputs p (rd_attempts snap')")
      case (Inl e)
      with kind sub assms(2) show ?thesis by (simp add: forward_one_def dispatch_one_def step_matches_def)
    next
      case m: (Inr m)
      show ?thesis
      proof (cases "phase_purpose p = ''review_gate''")
        case True
        have "replay_data (park_run (ps_name p) ?kind (phase_filename p) now d) = as_read (park_at_review_gate (ps_name p) stored)"
          by (simp add: replay_park d(2) read_again)
        with kind sub m True d(1) id assms(3) fit show ?thesis
          by (simp add: forward_one_def dispatch_one_def step_matches_def patch_run_def stored_as_def run_by_id_put)
      next
        case False
        have skip: "step_matches i ref P (dispatch_one (\<lambda>p _. verdict p) wkf p snap' stored) (forward_one env ops pv wkf p snap now st)"
          if "evaluate_phase_when p (when_context_of wkf snap') = Inr outcome" "\<nexists>sk. outcome = PhaseRuns sk" for outcome
        proof -
          obtain runs where "forward_skip p snap (outcome_reason outcome) now (as_runs st) = (None, runs)"
            "stored_as i ref P (st\<lparr>as_runs := runs\<rparr>) (stamp_latest_skipped (append_attempt (ps_name p) stored))"
            using skip_stored [OF assms(2,3,5)] by blast
          with that kind sub m False ctx show ?thesis
            by (cases outcome) (simp_all add: forward_one_def dispatch_one_def step_matches_def)
        qed
        show ?thesis
        proof (cases "evaluate_phase_when p (when_context_of wkf snap')")
          case (Inl e)
          with kind sub m False ctx assms(2) show ?thesis by (simp add: forward_one_def dispatch_one_def step_matches_def)
        next
          case (Inr outcome)
          show ?thesis
          proof (cases outcome)
            case (PhaseRuns sk)
            with start_matches [OF assms(1-3,6), of p sk "substituted_inputs p m" now] Inr kind sub m False ctx
            show ?thesis by (simp add: forward_one_def dispatch_one_def)
          qed (use skip [OF Inr] in simp_all)
        qed
      qed
    qed
  qed
qed

lemma forward_phases_match:
  assumes "launches_as env ops pv ref P verdict" "now \<noteq> []"
  shows "stored_as i ref P st stored \<Longrightarrow> rd_id snap = i \<Longrightarrow> as_read snap = as_read snap' \<Longrightarrow> rd_slot_lease snap = ref \<Longrightarrow>
    (fst (forward_phases fuel env ops pv wkf ps snap now st) = None)
      = (fst (dispatch_phases fuel (\<lambda>p _. verdict p) wkf ps snap' stored) = None) \<and>
    stored_as i ref P (snd (forward_phases fuel env ops pv wkf ps snap now st))
      (snd (dispatch_phases fuel (\<lambda>p _. verdict p) wkf ps snap' stored))"
proof (induction fuel "\<lambda>(p :: phase_spec) (r :: run_data). verdict p" wkf ps snap' stored arbitrary: st snap rule: dispatch_phases.induct)
  case (3 fuel wkf p ps snap' stored)
  obtain r st1 where one: "forward_one env ops pv wkf p snap now st = (r, st1)" by fastforce
  note m = forward_one_matches [OF assms(1) "3.prems"(1-3) assms(2) "3.prems"(4), of wkf p, unfolded one step_matches_def fst_conv snd_conv]
  show ?case
  proof (cases "dispatch_one (\<lambda>p _. verdict p) wkf p snap' stored")
    case (DispatchFailed e run1)
    with m one show ?thesis by auto
  next
    case (DispatchSettled run1)
    with m have "r = ForwardSettled" "stored_as i ref P st1 run1" by simp_all
    with "3.hyps"(1) [OF DispatchSettled] "3.prems" one DispatchSettled show ?thesis by simp
  next
    case (DispatchSkipped run1)
    with m have r: "r = ForwardSkipped" "stored_as i ref P st1 run1" by simp_all
    then obtain d where d: "run_by_id i (as_runs st1) = Some d" "replay_data d = as_read run1"
      by (auto simp: stored_as_def)
    have id: "rd_id (replay_data d) = i" using run_by_id_Some [OF d(1)] by (simp add: replay_data_def)
    have slot: "rd_slot_lease (replay_data d) = ref" using slot_read [OF d(2)] r(2) by (simp add: stored_as_def)
    have again: "as_read (replay_data d) = as_read run1" using d(2) by simp
    have targets: "all_ready_dispatch_targets wkf (replay_data d) Advance = all_ready_dispatch_targets wkf run1 Advance"
      by (simp add: d(2))
    obtain e2 st2 where two: "forward_phases fuel env ops pv wkf (all_ready_dispatch_targets wkf run1 Advance) (replay_data d) now st1
        = (e2, st2)" by fastforce
    obtain e3 run2 where three: "dispatch_phases fuel (\<lambda>p _. verdict p) wkf (all_ready_dispatch_targets wkf run1 Advance) run1 run1
        = (e3, run2)" by fastforce
    have match: "(e2 = None) = (e3 = None)" "stored_as i ref P st2 run2"
      using "3.hyps"(2) [OF DispatchSkipped r(2) id again slot] two three by simp_all
    show ?thesis
    proof (cases e3)
      case None
      with match "3.hyps"(3) [OF DispatchSkipped three [symmetric] None match(2) "3.prems"(2-4)] "3.prems" one r d targets two three
        DispatchSkipped
      show ?thesis by simp
    next
      case (Some x)
      with match obtain y where "e2 = Some y" by auto
      with Some match "3.prems" one r d targets two three DispatchSkipped show ?thesis by simp
    qed
  qed
qed simp_all

lemma stored_dispatch_refines_aux:
  assumes "launches_as env ops pv (rn_slot_lease d) P verdict" and "now \<noteq> []" and "run_by_id i (as_runs st) = Some d"
    and "P (as_leases st)"
  shows "case dispatch_forward (\<lambda>p _. verdict p) wkf targets (replay_data d) (replay_data d) of (e, r) \<Rightarrow>
      (fst (dispatch_targets env ops pv wkf targets (replay_data d) now st) = None) = (e = None) \<and>
      (\<exists>d'. run_by_id i (as_runs (snd (dispatch_targets env ops pv wkf targets (replay_data d) now st))) = Some d' \<and>
         replay_data d' = as_read r)"
proof -
  have "stored_as i (rn_slot_lease d) P st (replay_data d)" "rd_id (replay_data d) = i"
      "rd_slot_lease (replay_data d) = rn_slot_lease d"
    using assms(3,4) run_by_id_Some [OF assms(3)] by (simp_all add: stored_as_def) (simp_all add: replay_data_def)
  from forward_phases_match [OF assms(1,2) this(1,2) refl this(3), of "Suc (length (wf_phases wkf))" wkf targets]
  show ?thesis by (auto simp: dispatch_targets_def dispatch_forward_def stored_as_def split: prod.split)
qed

text \<open>
  C7: Dispatching phases of a stored run refines the routing: when a launch on the run's slot succeeds
  or fails by the phase alone, the dispatch on the documents, with its skips, its parking at the
  gate, its lease and its launches, fails exactly when the routing fails, and the document it
  leaves, read back, is the run the routing computes.
\<close>
theorem stored_dispatch_refines:
  assumes "launches_as env ops pv (rn_slot_lease d) P verdict" and "now \<noteq> []" and "run_by_id i (as_runs st) = Some d"
    and "P (as_leases st)"
  shows "case dispatch_forward (\<lambda>p _. verdict p) wkf targets (replay_data d) (replay_data d) of (e, r) \<Rightarrow>
      (fst (dispatch_targets env ops pv wkf targets (replay_data d) now st) = None) = (e = None) \<and>
      (\<exists>d'. run_by_id i (as_runs (snd (dispatch_targets env ops pv wkf targets (replay_data d) now st))) = Some d' \<and>
         replay_data d' = as_read r)"
  by (rule stored_dispatch_refines_aux [OF assms])

end
