(* ===== verification/Signals.thy ===== *)
theory Signals
  imports PhaseDispatch
begin

text \<open>
  Review signals: the queue they wait in (\<open>internal/server/signal_api.go\<close>,
  \<open>internal/store/pg/signals.go\<close> and its callers in \<open>internal/store/store/postgres.go\<close>), what is
  decided about each of them, and what the drain does with the run
  (\<open>internal/server/signal_drain.go\<close>). The rows of the table are in the order of their creation.
  The lookups, the texts of errors and the fresh identifiers are arguments; a run launcher is
  configured.
\<close>

section \<open>The queue\<close>

record signal_doc =
  sg_id :: string
  sg_type :: string
  sg_repo :: string
  sg_target :: string
  sg_source :: string
  sg_payload :: vmap
  sg_state :: string
  sg_actor :: string
  sg_enqueued :: string
  sg_processed :: "string option"
  sg_decision :: "string option"
  sg_failure :: "string option"

type_synonym signal_table = "signal_doc list"

record signal_request =
  sq_type :: string
  sq_repo :: string
  sq_ref :: string
  sq_source :: string
  sq_payload :: vmap

datatype signal_refusal =
    BadTargetType
  | RepoRequired
  | RefRequired
  | BadPRTarget
  | BadSource
  | TargetNotFound
  | UnknownTargetType string
  | SignalExists string

definition valid_pr_target :: "string \<Rightarrow> string \<Rightarrow> bool" where
  "valid_pr_target repo ref =
     (CHR ''/'' \<in> set repo \<and> (case atoi (trim_space ref) of Some n \<Rightarrow> 0 < n | None \<Rightarrow> False))"

definition check_signal :: "signal_request \<Rightarrow> signal_refusal option" where
  "check_signal q =
     first_error
       [reject (sq_type q \<notin> set [''pr'', ''issue'', ''run'']) BadTargetType,
        reject (trim_space (sq_repo q) = []) RepoRequired,
        reject (trim_space (sq_ref q) = []) RefRequired,
        reject (sq_type q = ''pr'' \<and> \<not> valid_pr_target (sq_repo q) (sq_ref q)) BadPRTarget,
        reject (first_non_empty (sq_source q) ''glimmung_ui'' \<notin>
            set [''gh_review'', ''gh_review_comment'', ''gh_comment'', ''glimmung_ui'', ''scheduled'', ''system'']) BadSource]"

text \<open>The identifiers of an issue and of a run by their references.\<close>

record signal_refs =
  gr_issue :: "string \<Rightarrow> string \<Rightarrow> string option"
  gr_run :: "string \<Rightarrow> string \<Rightarrow> string option"

definition signal_target :: "signal_refs \<Rightarrow> signal_request \<Rightarrow> (signal_refusal, string) res" where
  "signal_target refs q =
     (if sq_type q = ''pr'' then Inr (sq_ref q)
      else if sq_type q = ''issue''
      then (case gr_issue refs (sq_repo q) (sq_ref q) of None \<Rightarrow> Inl TargetNotFound | Some i \<Rightarrow> Inr i)
      else if sq_type q = ''run''
      then (case gr_run refs (sq_repo q) (sq_ref q) of None \<Rightarrow> Inl TargetNotFound | Some i \<Rightarrow> Inr i)
      else Inl (UnknownTargetType (sq_type q)))"

definition enqueue_signal ::
  "signal_refs \<Rightarrow> string \<Rightarrow> string \<Rightarrow> string \<Rightarrow> signal_request \<Rightarrow> signal_table \<Rightarrow> (signal_refusal, signal_doc \<times> signal_table) res" where
  "enqueue_signal refs i now actor q tbl =
     (case signal_target refs q of
        Inl e \<Rightarrow> Inl e
      | Inr target \<Rightarrow>
          (let s = \<lparr>sg_id = i, sg_type = sq_type q, sg_repo = sq_repo q, sg_target = target, sg_source = sq_source q,
                    sg_payload = reload_map (sq_payload q), sg_state = ''pending'', sg_actor = actor, sg_enqueued = now,
                    sg_processed = None, sg_decision = None, sg_failure = None\<rparr> in
           if i \<in> sg_id ` set tbl then Inl (SignalExists i) else Inr (s, tbl @ [s])))"

definition create_signal ::
  "signal_refs \<Rightarrow> string \<Rightarrow> string \<Rightarrow> string \<Rightarrow> signal_request \<Rightarrow> signal_table \<Rightarrow> (signal_refusal, signal_doc \<times> signal_table) res" where
  "create_signal refs i now actor q tbl =
     (case check_signal q of
        Some e \<Rightarrow> Inl e
      | None \<Rightarrow> enqueue_signal refs i now actor (q\<lparr>sq_source := first_non_empty (sq_source q) ''glimmung_ui''\<rparr>) tbl)"

definition list_pending :: "int \<Rightarrow> signal_table \<Rightarrow> signal_doc list" where
  "list_pending limit tbl =
     (let ps = filter (\<lambda>s. sg_state s = ''pending'') tbl in if 0 < limit then take (nat limit) ps else ps)"

definition signal_by_id :: "string \<Rightarrow> signal_table \<Rightarrow> signal_doc option" where
  "signal_by_id i tbl = find (\<lambda>s. sg_id s = i) tbl"

definition put_signal :: "string \<Rightarrow> signal_doc \<Rightarrow> signal_table \<Rightarrow> signal_table" where
  "put_signal i d tbl = map (\<lambda>s. if sg_id s = i then d else s) tbl"

text \<open>The claim of a signal: no row, lost to someone else, or now being processed.\<close>

definition mark_processing :: "string \<Rightarrow> signal_table \<Rightarrow> (bool \<times> signal_doc \<times> signal_table) option" where
  "mark_processing i tbl =
     (case signal_by_id i tbl of
        None \<Rightarrow> None
      | Some d \<Rightarrow>
          if sg_state d \<noteq> ''pending'' then Some (False, d, tbl)
          else (let d' = d\<lparr>sg_state := ''processing''\<rparr> in Some (True, d', put_signal i d' tbl)))"

definition mark_processed :: "string \<Rightarrow> string \<Rightarrow> string \<Rightarrow> signal_table \<Rightarrow> (signal_doc \<times> signal_table) option" where
  "mark_processed i decision now tbl =
     (case signal_by_id i tbl of
        None \<Rightarrow> None
      | Some d \<Rightarrow>
          (let d' = d\<lparr>sg_state := ''processed'', sg_processed := Some now, sg_decision := Some decision\<rparr> in
           Some (d', put_signal i d' tbl)))"

text \<open>The reason is cut at 500 bytes; an error of the statement is dropped by the drain.\<close>

definition mark_failed :: "string \<Rightarrow> string \<Rightarrow> string \<Rightarrow> signal_table \<Rightarrow> signal_table" where
  "mark_failed i reason now tbl =
     (case signal_by_id i tbl of
        None \<Rightarrow> tbl
      | Some d \<Rightarrow>
          put_signal i (d\<lparr>sg_state := ''failed'', sg_processed := Some now, sg_failure := Some (take 500 reason)\<rparr>) tbl)"

definition signal_lock :: "signal_doc \<Rightarrow> lock_key" where
  "signal_lock s = (if sg_type s = [] then ''signal'' else sg_type s, sg_repo s @ ''#'' @ sg_target s)"

section \<open>What is decided\<close>

definition triage_actionable :: "signal_doc \<Rightarrow> bool" where
  "triage_actionable s =
     (if sg_source s = ''glimmung_ui''
      then string_value (vget_any (sg_payload s) ''kind'') \<in> set [''reject'', ''approve'', ''cancel'']
      else sg_source s = ''gh_review'' \<and> string_value (vget_any (sg_payload s) ''state'') = ''changes_requested'' \<and>
           trim_space (string_value (vget_any (sg_payload s) ''body'')) \<noteq> [])"

definition signal_is_approve :: "signal_doc \<Rightarrow> bool" where
  "signal_is_approve s = (sg_source s = ''glimmung_ui'' \<and> string_value (vget_any (sg_payload s) ''kind'') = ''approve'')"

definition signal_is_cancel :: "signal_doc \<Rightarrow> bool" where
  "signal_is_cancel s = (sg_source s = ''glimmung_ui'' \<and> string_value (vget_any (sg_payload s) ''kind'') = ''cancel'')"

definition triage_feedback :: "signal_doc \<Rightarrow> string" where
  "triage_feedback s =
     (if sg_source s = ''glimmung_ui'' then string_value (vget_any (sg_payload s) ''feedback'')
      else if sg_source s = ''gh_review'' then string_value (vget_any (sg_payload s) ''body'') else [])"

datatype triage_detail =
    NotPositiveNumber
  | NoTrackedRun string string
  | NothingToRelease
  | NothingToCancel
  | TargetUnregistered
  | CostReached gofloat gofloat
  | AttemptsReached int

datatype triage =
    TriageIgnore "triage_detail option"
  | TriageNoRun triage_detail
  | TriageOverCost triage_detail
  | TriageOverAttempts triage_detail
  | TriageRelease run_data workflow phase_spec
  | TriageCancel run_data workflow phase_spec string
  | TriageDispatch run_data workflow phase_spec string

fun triage_decision :: "triage \<Rightarrow> string" where
  "triage_decision (TriageIgnore _) = ''ignore''"
| "triage_decision (TriageNoRun _) = ''abort_no_run''"
| "triage_decision (TriageOverCost _) = ''abort_budget_cost''"
| "triage_decision (TriageOverAttempts _) = ''abort_budget_attempts''"
| "triage_decision (TriageRelease _ _ _) = ''release_review_gate''"
| "triage_decision (TriageCancel _ _ _ _) = ''cancel_review_gate''"
| "triage_decision (TriageDispatch _ _ _ _) = ''dispatch_triage''"

text \<open>
  The columns of a stored run the lookup by pull request reads, and a registered workflow with
  the recycle policy of its pull request.
\<close>

record review_env =
  re_repo :: "ledger_run \<Rightarrow> string"
  re_touched :: "ledger_run \<Rightarrow> int"
  re_workflow :: "string \<Rightarrow> string \<Rightarrow> (string, (workflow \<times> recycle_policy option) option) res"

definition find_run_for_pr :: "review_env \<Rightarrow> string \<Rightarrow> int \<Rightarrow> ledger_run list \<Rightarrow> run_doc option" where
  "find_run_for_pr re repo n runs =
     (let rs = filter (\<lambda>r. re_repo re r = repo \<and> rn_pr (lr_doc r) = Some n) runs in
      if rs = [] then None
      else map_option lr_doc (find (\<lambda>r. re_touched re r = Max (re_touched re ` set rs)) rs))"

definition gate_phase :: "phase_spec list \<Rightarrow> phase_spec option" where
  "gate_phase ps =
     (case find (\<lambda>p. phase_purpose p = ''review_gate'') ps of Some p \<Rightarrow> Some p | None \<Rightarrow> phase_spec_by_name ps [])"

definition triage_changes :: "workflow \<Rightarrow> recycle_policy option \<Rightarrow> run_data \<Rightarrow> string \<Rightarrow> triage" where
  "triage_changes wkf policy run feedback =
     (case policy of
        None \<Rightarrow> TriageIgnore None
      | Some rp \<Rightarrow>
          (case phase_spec_by_name (wf_phases wkf) (rc_lands_at rp) of
             None \<Rightarrow> TriageNoRun TargetUnregistered
           | Some target \<Rightarrow>
               (let cap = (if float_le (total (rd_budget run)) (Fin 0) then total (wf_budget wkf) else total (rd_budget run));
                    attempts = int (length (filter (\<lambda>a. at_phase a = ps_name target) (rd_attempts run))) in
                if float_gt cap (Fin 0) \<and> float_ge (rd_cost run) cap then TriageOverCost (CostReached (rd_cost run) cap)
                else if 0 < rc_max_attempts rp \<and> rc_max_attempts rp \<le> attempts
                then TriageOverAttempts (AttemptsReached (rc_max_attempts rp))
                else TriageDispatch run wkf target feedback)))"

definition decide_triage :: "review_env \<Rightarrow> ledger_run list \<Rightarrow> signal_doc \<Rightarrow> (string, triage) res" where
  "decide_triage re runs s =
     (if sg_type s \<noteq> ''pr'' \<or> \<not> triage_actionable s then Inr (TriageIgnore None)
      else
        (case atoi (sg_target s) of
           None \<Rightarrow> Inr (TriageNoRun NotPositiveNumber)
         | Some n \<Rightarrow>
             if n < 1 then Inr (TriageNoRun NotPositiveNumber)
             else
               (case find_run_for_pr re (sg_repo s) n runs of
                  None \<Rightarrow> Inr (TriageNoRun (NoTrackedRun (sg_repo s) (sg_target s)))
                | Some d \<Rightarrow>
                    (let run = replay_data d in
                     case re_workflow re (rd_project run) (rd_workflow_name run) of
                       Inl e \<Rightarrow> Inl e
                     | Inr None \<Rightarrow> Inr (TriageIgnore None)
                     | Inr (Some (wkf, policy)) \<Rightarrow>
                         Inr (if signal_is_approve s
                              then (case gate_phase (wf_phases wkf) of
                                      None \<Rightarrow> TriageIgnore (Some NothingToRelease)
                                    | Some gate \<Rightarrow> TriageRelease run wkf gate)
                              else if signal_is_cancel s
                              then (case gate_phase (wf_phases wkf) of
                                      None \<Rightarrow> TriageIgnore (Some NothingToCancel)
                                    | Some gate \<Rightarrow> TriageCancel run wkf gate (triage_feedback s))
                              else triage_changes wkf policy run (triage_feedback s))))))"

section \<open>Who decided\<close>

text \<open>
  The stamp on the run's document, kept beside it because nothing in the model reads it, and the
  event in the run's ledger. They are two statements, the stamp first.
\<close>

record review_stamp =
  rs_actor :: string
  rs_at :: string
  rs_decision :: string

record 'w signal_state =
  ss_signals :: signal_table
  ss_store :: "'w admission_state"
  ss_reviews :: "string \<rightharpoonup> review_stamp"
  ss_events :: "string \<Rightarrow> event_table"

record review_decision =
  rw_decision :: string
  rw_actor :: string
  rw_feedback :: string
  rw_signal :: string
  rw_phase :: string
  rw_attempt :: int

datatype review_error =
    DecisionRequired
  | ReviewedRunMissing
  | ReviewConflict

definition review_message :: "string \<Rightarrow> string \<Rightarrow> string" where
  "review_message decision actor =
     (let who = (if trim_space actor = [] then ''an unattributed principal'' else trim_space actor) in
      if decision = ''approve'' then ''review approved by '' @ who
      else if decision = ''reject'' then ''changes requested by '' @ who
      else if decision = ''cancel'' then ''review cancelled by '' @ who
      else ''review '' @ decision @ '' by '' @ who)"

definition review_event :: "review_decision \<Rightarrow> event_row" where
  "review_event r =
     (let decision = trim_space (rw_decision r) in
      \<lparr>ew_event = ''review_'' @ decision, ew_phase = rw_phase r, ew_slug = [],
       ew_message = review_message decision (rw_actor r), ew_exit = None,
       ew_meta = [(''actor'', VStr (rw_actor r)), (''decision'', VStr decision), (''signal_id'', VStr (rw_signal r)),
                  (''feedback'', VStr (rw_feedback r))]\<rparr>)"

definition record_review_decision ::
  "string \<Rightarrow> review_decision \<Rightarrow> string \<Rightarrow> 'w signal_state \<Rightarrow> review_error option \<times> 'w signal_state" where
  "record_review_decision i r now ss =
     (let decision = trim_space (rw_decision r) in
      if decision = [] then (Some DecisionRequired, ss)
      else
        (case patch_run i (\<lambda>d. Inr (d\<lparr>rn_updated := now\<rparr>)) (as_runs (ss_store ss)) of
           Inl _ \<Rightarrow> (Some ReviewedRunMissing, ss)
         | Inr runs \<Rightarrow>
             (let ss1 = ss\<lparr>ss_store := (ss_store ss)\<lparr>as_runs := runs\<rparr>,
                           ss_reviews := (ss_reviews ss)(i \<mapsto> \<lparr>rs_actor = rw_actor r, rs_at = now, rs_decision = decision\<rparr>)\<rparr> in
              case insert_event (rw_attempt r, ''review-decision-'' @ decision, 0) (review_event r) (ss_events ss i) of
                InsertedEvent tbl \<Rightarrow> (None, ss1\<lparr>ss_events := (ss_events ss)(i := tbl)\<rparr>)
              | KnownEvent \<Rightarrow> (None, ss1)
              | ConflictingEvent \<Rightarrow> (Some ReviewConflict, ss1))))"

end
