(* ===== verification/SignalDrain.thy ===== *)
theory SignalDrain
  imports Signals
begin

text \<open>
  What the drain of the signals does with a decision, and the drain itself
  (\<open>internal/server/signal_drain.go\<close>): an approval releases the review gate and launches its
  merge job, a cancellation sends the run down its abort path, a request for changes dispatches
  the issue again.
\<close>

section \<open>The review gate\<close>

record drain_env =
  de_review :: review_env
  de_dispatch :: dispatch_env
  de_fresh :: "signal_doc \<Rightarrow> string \<times> string"

datatype signal_error =
    DecideFailed string
  | NoParkedAttempt string
  | NotAttributed review_error
  | GateKindWrong string
  | GatePurposeWrong string
  | GateNotReleased "run_error option"
  | GateNotLaunched forward_error
  | GateNotCancelled "run_error option"
  | ReviewedRunGone
  | RunNotEnded
  | TeardownNotDispatched forward_error
  | IssueNotDispatched dispatch_problem
  | IssueRefused dispatch_reply

definition parked_attempt :: "run_data \<Rightarrow> string \<Rightarrow> int option" where
  "parked_attempt run phase =
     map_option at_index
       (find (\<lambda>a. at_phase a = phase \<and> \<not> at_completed a \<and> at_decision a = []) (rev (rd_attempts run)))"

definition with_latest_attempt :: "run_data \<Rightarrow> int \<Rightarrow> string \<Rightarrow> run_data" where
  "with_latest_attempt run i phase =
     (if rd_attempts run \<noteq> [] \<and> at_index (last (rd_attempts run)) = i \<and> at_phase (last (rd_attempts run)) = phase
      then run else with_attempt run i phase)"

definition launch_gate_merge ::
  "admission_env \<Rightarrow> 'w lease_ops \<Rightarrow> 'w phase_env \<Rightarrow> canonical_scripts \<Rightarrow> run_data \<Rightarrow> phase_spec \<Rightarrow> string \<Rightarrow>
     'w admission_state \<Rightarrow> signal_error option \<times> 'w admission_state" where
  "launch_gate_merge env ops pv scr run gate now st =
     (if workflow_phase_kind (ps_kind gate) \<noteq> ''k8s_job'' then (Some (GateKindWrong (workflow_phase_kind (ps_kind gate))), st)
      else if phase_purpose gate \<noteq> ''review_gate'' then (Some (GatePurposeWrong (phase_purpose gate)), st)
      else
        (case parked_attempt run (ps_name gate) of
           None \<Rightarrow> (Some (NoParkedAttempt (ps_name gate)), st)
         | Some i \<Rightarrow>
             (case patch_run (rd_id run) (release_gate (ps_name gate) i now) (as_runs st) of
                Inl e \<Rightarrow> (Some (GateNotReleased e), st)
              | Inr runs \<Rightarrow>
                  (case launch_on_lease env ops pv (canonical_phase scr gate) run (with_latest_attempt run i (ps_name gate)) i
                          None [] now (st\<lparr>as_runs := runs\<rparr>) of
                     (Some e, st') \<Rightarrow> (Some (GateNotLaunched e), st')
                   | (None, st') \<Rightarrow> (None, st')))))"

definition release_review_gate ::
  "drain_env \<Rightarrow> 'w lease_ops \<Rightarrow> 'w phase_env \<Rightarrow> signal_doc \<Rightarrow> run_data \<Rightarrow> phase_spec \<Rightarrow> string \<Rightarrow>
     'w signal_state \<Rightarrow> signal_error option \<times> 'w signal_state" where
  "release_review_gate de ops pv s run gate now ss =
     (if rd_state run \<noteq> ''review_required'' then (None, ss)
      else
        (case parked_attempt run (ps_name gate) of
           None \<Rightarrow> (Some (NoParkedAttempt (ps_name gate)), ss)
         | Some i \<Rightarrow>
             (case record_review_decision (rd_id run)
                     \<lparr>rw_decision = ''approve'', rw_actor = sg_actor s, rw_feedback = [], rw_signal = sg_id s,
                      rw_phase = ps_name gate, rw_attempt = i\<rparr> now ss of
                (Some e, ss1) \<Rightarrow> (Some (NotAttributed e), ss1)
              | (None, ss1) \<Rightarrow>
                  (let (err, st) = launch_gate_merge (dp_admission (de_dispatch de)) ops pv (dp_scripts (de_dispatch de))
                                     run gate now (ss_store ss1) in
                   (err, ss1\<lparr>ss_store := st\<rparr>)))))"

definition cancel_reason :: "string \<Rightarrow> string" where
  "cancel_reason feedback =
     (if trim_space feedback = [] then ''review cancelled by reviewer'' else trim_space feedback)"

text \<open>The gate is cancelled; the run goes down its abort path or ends at once.\<close>

definition drive_teardown ::
  "admission_env \<Rightarrow> 'w lease_ops \<Rightarrow> 'w phase_env \<Rightarrow> run_data \<Rightarrow> workflow \<Rightarrow> string \<Rightarrow> string \<Rightarrow>
     'w admission_state \<Rightarrow> signal_error option \<times> 'w admission_state" where
  "drive_teardown env ops pv reviewed wkf reason now st =
     (case run_by_id (rd_id reviewed) (as_runs st) of
        None \<Rightarrow> (Some ReviewedRunGone, st)
      | Some d \<Rightarrow>
          (let run = replay_data d; targets = all_ready_dispatch_targets wkf run AbortRequested in
           if targets = []
           then (let (found, st') = end_by_id ops pv ''aborted'' (Some reason) (rd_id run) now st in
                 (if found then None else Some RunNotEnded, st'))
           else
             (case dispatch_targets env ops pv wkf targets run now st of
                (Some e, st') \<Rightarrow> (Some (TeardownNotDispatched e), st')
              | (None, st') \<Rightarrow> (None, st'))))"

definition cancel_review_gate ::
  "drain_env \<Rightarrow> 'w lease_ops \<Rightarrow> 'w phase_env \<Rightarrow> signal_doc \<Rightarrow> run_data \<Rightarrow> workflow \<Rightarrow> phase_spec \<Rightarrow> string \<Rightarrow> string \<Rightarrow>
     'w signal_state \<Rightarrow> signal_error option \<times> 'w signal_state" where
  "cancel_review_gate de ops pv s run wkf gate feedback now ss =
     (if rd_state run \<noteq> ''review_required'' then (None, ss)
      else
        (case parked_attempt run (ps_name gate) of
           None \<Rightarrow> (Some (NoParkedAttempt (ps_name gate)), ss)
         | Some i \<Rightarrow>
             (case record_review_decision (rd_id run)
                     \<lparr>rw_decision = ''cancel'', rw_actor = sg_actor s, rw_feedback = cancel_reason feedback,
                      rw_signal = sg_id s, rw_phase = ps_name gate, rw_attempt = i\<rparr> now ss of
                (Some e, ss1) \<Rightarrow> (Some (NotAttributed e), ss1)
              | (None, ss1) \<Rightarrow>
                  (case patch_run (rd_id run) (cancel_gate (ps_name gate) i (cancel_reason feedback) now)
                          (as_runs (ss_store ss1)) of
                     Inl e \<Rightarrow> (Some (GateNotCancelled e), ss1)
                   | Inr runs \<Rightarrow>
                       (let (err, st) = drive_teardown (dp_admission (de_dispatch de)) ops pv run wkf (cancel_reason feedback)
                                          now ((ss_store ss1)\<lparr>as_runs := runs\<rparr>) in
                        (err, ss1\<lparr>ss_store := st\<rparr>))))))"

section \<open>Changes are requested\<close>

definition reviewed_attempt :: "run_data \<Rightarrow> int \<times> string" where
  "reviewed_attempt run =
     (if rd_attempts run = [] then (0, []) else (at_index (last (rd_attempts run)), at_phase (last (rd_attempts run))))"

definition dispatch_triage ::
  "drain_env \<Rightarrow> 'w lease_ops \<Rightarrow> signal_doc \<Rightarrow> run_data \<Rightarrow> workflow \<Rightarrow> string \<Rightarrow> string \<Rightarrow> int \<Rightarrow> int \<Rightarrow>
     'w signal_state \<Rightarrow> signal_error option \<times> 'w signal_state" where
  "dispatch_triage de ops s run wkf feedback now app db ss =
     (case record_review_decision (rd_id run)
             \<lparr>rw_decision = ''reject'', rw_actor = sg_actor s, rw_feedback = feedback, rw_signal = sg_id s,
              rw_phase = snd (reviewed_attempt run), rw_attempt = fst (reviewed_attempt run)\<rparr> now ss of
        (Some e, ss1) \<Rightarrow> (Some (NotAttributed e), ss1)
      | (None, ss1) \<Rightarrow>
          (let (reply, st) = dispatch_run (de_dispatch de) ops
                 \<lparr>dq_project = rd_project run, dq_issue = rd_issue_number run, dq_workflow_name = wf_name wkf,
                  dq_workflow = [], dq_inputs = []\<rparr>
                 (fst (de_fresh de s)) (snd (de_fresh de s)) now app db (ss_store ss1);
               ss2 = ss1\<lparr>ss_store := st\<rparr> in
           case reply of
             Inl e \<Rightarrow> (Some (IssueNotDispatched e), ss2)
           | Inr (Answered (Dispatched h) i) \<Rightarrow> (None, ss2)
           | Inr (Answered Queued i) \<Rightarrow> (None, ss2)
           | Inr r \<Rightarrow> (Some (IssueRefused r), ss2)))"

section \<open>The drain\<close>

definition act_on ::
  "drain_env \<Rightarrow> 'w lease_ops \<Rightarrow> 'w phase_env \<Rightarrow> signal_doc \<Rightarrow> triage \<Rightarrow> string \<Rightarrow> int \<Rightarrow> int \<Rightarrow>
     'w signal_state \<Rightarrow> signal_error option \<times> 'w signal_state" where
  "act_on de ops pv s t now app db ss =
     (case t of
        TriageDispatch run wkf _ feedback \<Rightarrow> dispatch_triage de ops s run wkf feedback now app db ss
      | TriageRelease run wkf gate \<Rightarrow> release_review_gate de ops pv s run gate now ss
      | TriageCancel run wkf gate feedback \<Rightarrow> cancel_review_gate de ops pv s run wkf gate feedback now ss
      | _ \<Rightarrow> (None, ss))"

datatype drained =
    SignalProcessed triage
  | SignalSkipped
  | SignalFailed "signal_error option"

definition signal_lock_ttl :: int where
  "signal_lock_ttl = 14400"

definition with_locks :: "lock_table \<Rightarrow> 'w signal_state \<Rightarrow> 'w signal_state" where
  "with_locks locks ss = ss\<lparr>ss_store := (ss_store ss)\<lparr>as_locks := locks\<rparr>\<rparr>"

definition unlock_signal :: "signal_doc \<Rightarrow> 'w signal_state \<Rightarrow> 'w signal_state" where
  "unlock_signal s ss = with_locks (snd (release_lock (signal_lock s) (sg_id s) (as_locks (ss_store ss)))) ss"

definition fail_signal :: "(signal_error \<Rightarrow> string) \<Rightarrow> signal_doc \<Rightarrow> signal_error \<Rightarrow> string \<Rightarrow> 'w signal_state \<Rightarrow> 'w signal_state" where
  "fail_signal text s e now ss = ss\<lparr>ss_signals := mark_failed (sg_id s) (text e) now (ss_signals ss)\<rparr>"

text \<open>The lock is held and the signal is claimed.\<close>

definition handle_claimed ::
  "drain_env \<Rightarrow> 'w lease_ops \<Rightarrow> 'w phase_env \<Rightarrow> (signal_error \<Rightarrow> string) \<Rightarrow> signal_doc \<Rightarrow> string \<Rightarrow> int \<Rightarrow> int \<Rightarrow>
     'w signal_state \<Rightarrow> drained \<times> 'w signal_state" where
  "handle_claimed de ops pv text s now app db ss =
     (case decide_triage (de_review de) (as_runs (ss_store ss)) s of
        Inl e \<Rightarrow> (SignalFailed (Some (DecideFailed e)), fail_signal text s (DecideFailed e) now ss)
      | Inr t \<Rightarrow>
          (case mark_processed (sg_id s) (triage_decision t) now (ss_signals ss) of
             None \<Rightarrow> (SignalFailed None, ss)
           | Some (s', tbl) \<Rightarrow>
               (case act_on de ops pv s' t now app db (ss\<lparr>ss_signals := tbl\<rparr>) of
                  (Some e, ss') \<Rightarrow> (SignalFailed (Some e), fail_signal text s' e now ss')
                | (None, ss') \<Rightarrow> (SignalProcessed t, ss'))))"

definition drain_signal ::
  "drain_env \<Rightarrow> 'w lease_ops \<Rightarrow> 'w phase_env \<Rightarrow> (signal_error \<Rightarrow> string) \<Rightarrow> signal_doc \<Rightarrow> string \<Rightarrow> int \<Rightarrow> int \<Rightarrow>
     'w signal_state \<Rightarrow> drained \<times> 'w signal_state" where
  "drain_signal de ops pv text s now app db ss =
     (case claim_lock (signal_lock s) (sg_id s) app db signal_lock_ttl (as_locks (ss_store ss)) of
        Inl (AlreadyRunning _ _) \<Rightarrow> (SignalSkipped, ss)
      | Inl InspectFailed \<Rightarrow> (SignalFailed None, ss)
      | Inr locks \<Rightarrow>
          (let ss1 = with_locks locks ss in
           case mark_processing (sg_id s) (ss_signals ss1) of
             None \<Rightarrow> (SignalFailed None, unlock_signal s ss1)
           | Some (False, _, _) \<Rightarrow> (SignalSkipped, unlock_signal s ss1)
           | Some (True, s', tbl) \<Rightarrow>
               (let (out, ss2) = handle_claimed de ops pv text s' now app db (ss1\<lparr>ss_signals := tbl\<rparr>) in
                (out, unlock_signal s' ss2))))"

record signal_counts =
  sc_processed :: nat
  sc_skipped :: nat
  sc_failed :: nat
  sc_decisions :: "(string \<times> string) list"

definition count_signal :: "signal_doc \<Rightarrow> drained \<Rightarrow> signal_counts \<Rightarrow> signal_counts" where
  "count_signal s out c =
     (case out of
        SignalProcessed t \<Rightarrow>
          c\<lparr>sc_processed := sc_processed c + 1, sc_decisions := sc_decisions c @ [(sg_id s, triage_decision t)]\<rparr>
      | SignalSkipped \<Rightarrow> c\<lparr>sc_skipped := sc_skipped c + 1\<rparr>
      | SignalFailed _ \<Rightarrow> c\<lparr>sc_failed := sc_failed c + 1\<rparr>)"

fun drain_listed ::
  "drain_env \<Rightarrow> 'w lease_ops \<Rightarrow> 'w phase_env \<Rightarrow> (signal_error \<Rightarrow> string) \<Rightarrow> string \<Rightarrow> int \<Rightarrow> int \<Rightarrow>
     signal_doc list \<Rightarrow> signal_counts \<Rightarrow> 'w signal_state \<Rightarrow> signal_counts \<times> 'w signal_state" where
  "drain_listed de ops pv text now app db [] c ss = (c, ss)"
| "drain_listed de ops pv text now app db (s # rest) c ss =
     (let (out, ss') = drain_signal de ops pv text s now app db ss in
      drain_listed de ops pv text now app db rest (count_signal s out c) ss')"

definition signal_batch :: int where
  "signal_batch = 50"

definition drain_signals ::
  "drain_env \<Rightarrow> 'w lease_ops \<Rightarrow> 'w phase_env \<Rightarrow> (signal_error \<Rightarrow> string) \<Rightarrow> string \<Rightarrow> int \<Rightarrow> int \<Rightarrow> int \<Rightarrow>
     'w signal_state \<Rightarrow> signal_counts \<times> 'w signal_state" where
  "drain_signals de ops pv text now app db limit ss =
     drain_listed de ops pv text now app db
       (list_pending (if limit \<le> 0 then signal_batch else limit) (ss_signals ss))
       \<lparr>sc_processed = 0, sc_skipped = 0, sc_failed = 0, sc_decisions = []\<rparr> ss"

end
