(* ===== verification/SignalSafety.thy ===== *)
theory SignalSafety
  imports SignalDrain DispatchSafety
begin

text \<open>
  The drain of the signals: every signal it claims is settled and its lock is free again, a settled
  signal is never taken up again, and what the drain cannot do: request changes on a run that waits
  at its review gate, or repair an approval whose launch has failed.
\<close>

section \<open>Locks of pull requests\<close>

definition pr_locks_kept :: "'w admission_state \<Rightarrow> 'w admission_state \<Rightarrow> bool" where
  "pr_locks_kept st st' \<longleftrightarrow> (\<forall>k. fst k = ''pr'' \<longrightarrow> table_owner (as_locks st') k = table_owner (as_locks st) k)"

lemma pr_locks_refl [simp]: "pr_locks_kept st st"
  by (simp add: pr_locks_kept_def)

lemma pr_locks_trans: "pr_locks_kept a b \<Longrightarrow> pr_locks_kept b c \<Longrightarrow> pr_locks_kept a c"
  by (simp add: pr_locks_kept_def)

lemma same_locks_kept: "as_locks st' = as_locks st \<Longrightarrow> pr_locks_kept st st'"
  by (simp add: pr_locks_kept_def)

lemma released_owner: "k' \<noteq> k \<Longrightarrow> table_owner (snd (release_lock k h t)) k' = table_owner t k'"
  using locks.release_frame [of k' k h t] by (simp add: table_release_def)

lemma issue_key_scope [simp]: "fst (issue_lock p n) = ''issue''"
  by (simp add: issue_lock_def)

lemma not_issue: "fst k = ''pr'' \<Longrightarrow> k \<noteq> issue_lock p n"
  by auto

lemma issue_release_kept: "fst k = ''pr'' \<Longrightarrow> table_owner (snd (release_lock (issue_lock p n) h t)) k = table_owner t k"
  by (rule released_owner) auto

lemma release_issue_kept: "fst k = ''pr'' \<Longrightarrow> table_owner (release_issue_lock r t) k = table_owner t k"
  by (simp add: release_issue_lock_def issue_release_kept)

lemma abort_kept: "pr_locks_kept st0 st \<Longrightarrow> pr_locks_kept st0 (snd (abort_by_id env ops cause i now st))"
  by (auto simp: abort_by_id_def abort_by_reason_def pr_locks_kept_def release_issue_kept Let_def split: option.split)

lemma admitted_kept:
  assumes "admit_with_lease env ops wkf p run l ref acquired now st = (res, st')"
  shows "pr_locks_kept st st'"
proof -
  note parts = admit_with_lease_cases [OF assms, THEN conjunct2]
  have gave: "pr_locks_kept st (give_back ops run ref acquired st)" by (simp add: same_locks_kept)
  show ?thesis
    using parts abort_kept [OF gave] abort_kept [OF same_locks_kept]
    by (auto simp: gave same_locks_kept split: sum.splits admission.splits)
qed

lemma admit_run_kept:
  assumes "admit_run_cycle env ops wkf run now st = (res, st')"
  shows "pr_locks_kept st st'"
proof -
  have abort: "pr_locks_kept st st'" if "abort_admission env ops cause run now st = (res, st')" for cause
    using that abort_kept [of st st env ops cause "rd_id run" now]
    by (auto simp: abort_admission_def Let_def split: prod.splits)
  have lease: "pr_locks_kept st st'" if "admit_with_lease env ops wkf p run l ref b now (st\<lparr>as_leases := w\<rparr>) = (res, st')" for p l ref b w
    using admitted_kept [OF that] by (simp add: pr_locks_kept_def)
  show ?thesis
    using assms by (auto simp: admit_run_cycle_def same_locks_kept intro: abort lease
        split: option.splits if_splits prod.splits sum.splits lease_failure.splits)
qed

lemma dispatch_kept:
  assumes "dispatch_run env ops q holder i now app db st = (x, st')"
  shows "pr_locks_kept st st'"
  using assms
proof (cases rule: dispatch_run_checked)
  case refused
  then show ?thesis by simp
next
  case (checked f issue given)
  let ?k = "issue_lock (dq_project q) (dq_issue q)"
  have claimed: "pr_locks_kept st (st\<lparr>as_locks := locks\<rparr>)" if "claim_lock ?k holder app db ttl (as_locks st) = Inr locks" for ttl locks
  proof -
    have "table_claim ?k holder app db ttl (as_locks st) = Some locks" using that by (simp add: table_claim_def)
    then have "table_owner locks k = table_owner (as_locks st) k" if "k \<noteq> ?k" for k
      using locks.claim_frame that by blast
    then show ?thesis using not_issue by (simp add: pr_locks_kept_def)
  qed
  have locked: "pr_locks_kept st1 st'"
    if "dispatch_locked env ops f issue (dq_project q) (dq_issue q) given holder i now st1 = (x, st')" for st1
  proof -
    have runs: "pr_locks_kept st1 st2" if "admit_run_cycle a b c d now (st1\<lparr>as_runs := r\<rparr>) = (y, st2)" for a b c d r y st2
      using admit_run_kept [OF that] by (simp add: pr_locks_kept_def)
    show ?thesis
      using that by (auto simp: dispatch_locked_def pr_locks_kept_def [of st1 "st1\<lparr>as_locks := _\<rparr>"] issue_release_kept
          intro: runs split: sum.splits prod.splits)
  qed
  show ?thesis
    using checked claimed locked
    by (auto simp: dispatch_checked_def Let_def intro: pr_locks_trans split: if_splits sum.splits claim_error.splits)
qed

lemma launch_on_lease_locks:
  assumes "launch_on_lease env ops pv p run started i inputs skipped now st = (e, st')"
  shows "as_locks st' = as_locks st"
  using assms by (auto simp: launch_on_lease_def Let_def split: sum.splits prod.splits if_splits)

lemma forward_one_locks:
  assumes "forward_one env ops pv wkf p snap now st = (r, st')"
  shows "as_locks st' = as_locks st"
  using assms
  by (auto simp: forward_one_def forward_start_def Let_def dest!: launch_on_lease_locks
      split: if_splits sum.splits prod.splits option.splits when_outcome.splits)

lemma forward_phases_locks:
  "forward_phases fuel env ops pv wkf ps snap now st = (e, st') \<Longrightarrow> as_locks st' = as_locks st"
proof (induction fuel env ops pv wkf ps snap now st arbitrary: e st' rule: forward_phases.induct)
  case (3 fuel env ops pv wkf p ps snap now st)
  obtain r st1 where one: "forward_one env ops pv wkf p snap now st = (r, st1)" by fastforce
  note locks = forward_one_locks [OF one]
  show ?case
  proof (cases r)
    case (ForwardFailed x)
    with "3.prems" one locks show ?thesis by simp
  next
    case ForwardSettled
    with "3.prems" one locks "3.IH"(1) [OF one [symmetric] ForwardSettled] show ?thesis by simp
  next
    case ForwardSkipped
    show ?thesis
    proof (cases "run_by_id (rd_id snap) (as_runs st1)")
      case None
      with "3.prems" one locks ForwardSkipped show ?thesis by simp
    next
      case (Some d)
      obtain e2 st2 where two: "forward_phases fuel env ops pv wkf (all_ready_dispatch_targets wkf (replay_data d) Advance)
          (replay_data d) now st1 = (e2, st2)" by fastforce
      from "3.IH"(2) [OF one [symmetric] ForwardSkipped Some two] have "as_locks st2 = as_locks st1" .
      with "3.prems" one locks ForwardSkipped Some two "3.IH"(3) [OF one [symmetric] ForwardSkipped Some two [symmetric]]
      show ?thesis by (cases e2) simp_all
    qed
  qed
qed simp_all

lemma end_kept: "pr_locks_kept st (snd (end_by_id ops pv x reason i now st))"
  by (auto simp: end_by_id_def pr_locks_kept_def release_issue_kept Let_def split: option.split)

definition queue_kept :: "'w signal_state \<Rightarrow> 'w signal_state \<Rightarrow> bool" where
  "queue_kept ss ss' \<longleftrightarrow> ss_signals ss' = ss_signals ss \<and> pr_locks_kept (ss_store ss) (ss_store ss')"

lemma queue_kept_refl [simp]: "queue_kept ss ss"
  by (simp add: queue_kept_def)

lemma queue_kept_trans: "queue_kept a b \<Longrightarrow> queue_kept b c \<Longrightarrow> queue_kept a c"
  by (auto simp: queue_kept_def intro: pr_locks_trans)

lemma queue_kept_store: "pr_locks_kept (ss_store ss) st \<Longrightarrow> queue_kept ss (ss\<lparr>ss_store := st\<rparr>)"
  by (simp add: queue_kept_def)

lemma review_keeps:
  assumes "record_review_decision i r now ss = (e, ss')"
  shows "queue_kept ss ss' \<and> as_locks (ss_store ss') = as_locks (ss_store ss) \<and>
    as_leases (ss_store ss') = as_leases (ss_store ss)"
  using assms
  by (auto simp: record_review_decision_def queue_kept_def pr_locks_kept_def Let_def
      split: if_splits sum.splits insert_outcome.splits)

lemma launch_gate_locks:
  assumes "launch_gate_merge env ops pv scr run gate now st = (e, st')"
  shows "as_locks st' = as_locks st"
  using assms
  by (auto simp: launch_gate_merge_def dest!: launch_on_lease_locks
      split: if_splits sum.splits prod.splits option.splits)

lemma release_gate_keeps:
  assumes "release_review_gate de ops pv s run gate now ss = (e, ss')"
  shows "queue_kept ss ss'"
  using assms
  by (auto simp: release_review_gate_def same_locks_kept dest!: review_keeps launch_gate_locks
      intro: queue_kept_trans [OF _ queue_kept_store]
      split: if_splits prod.splits option.splits)

lemma teardown_kept:
  assumes "drive_teardown env ops pv reviewed wkf reason now st = (e, st')"
  shows "pr_locks_kept st st'"
proof (cases "run_by_id (rd_id reviewed) (as_runs st)")
  case None
  with assms show ?thesis by (simp add: drive_teardown_def)
next
  case (Some d)
  let ?targets = "all_ready_dispatch_targets wkf (replay_data d) AbortRequested"
  show ?thesis
  proof (cases "?targets = []")
    case True
    with assms Some end_kept [of st ops pv "''aborted''" "Some reason" "rd_id (replay_data d)" now] show ?thesis
      by (auto simp: drive_teardown_def Let_def split: prod.splits)
  next
    case False
    with assms Some show ?thesis
      by (auto simp: drive_teardown_def Let_def dispatch_targets_def same_locks_kept dest!: forward_phases_locks
          split: prod.splits option.splits)
  qed
qed

lemma cancel_gate_keeps:
  assumes "cancel_review_gate de ops pv s run wkf gate feedback now ss = (e, ss')"
  shows "queue_kept ss ss'"
proof -
  have down: "queue_kept ss (ss1\<lparr>ss_store := st\<rparr>)"
    if "queue_kept ss ss1" "drive_teardown env ops pv run wkf reason now ((ss_store ss1)\<lparr>as_runs := runs\<rparr>) = (err, st)"
    for ss1 env reason runs err st
    using that(1) teardown_kept [OF that(2)] by (simp add: queue_kept_def pr_locks_kept_def)
  show ?thesis
    using assms
    by (auto simp: cancel_review_gate_def dest!: review_keeps intro: down split: if_splits prod.splits option.splits sum.splits)
qed

lemma dispatch_triage_cases:
  assumes "dispatch_triage de ops s run wkf feedback now app db ss = (e, ss')"
  obtains e1 where "record_review_decision (rd_id run)
        \<lparr>rw_decision = ''reject'', rw_actor = sg_actor s, rw_feedback = feedback, rw_signal = sg_id s,
         rw_phase = snd (reviewed_attempt run), rw_attempt = fst (reviewed_attempt run)\<rparr> now ss = (Some e1, ss')"
      "e = Some (NotAttributed e1)"
  | ss1 reply st where "record_review_decision (rd_id run)
        \<lparr>rw_decision = ''reject'', rw_actor = sg_actor s, rw_feedback = feedback, rw_signal = sg_id s,
         rw_phase = snd (reviewed_attempt run), rw_attempt = fst (reviewed_attempt run)\<rparr> now ss = (None, ss1)"
      "dispatch_run (de_dispatch de) ops
         \<lparr>dq_project = rd_project run, dq_issue = rd_issue_number run, dq_workflow_name = wf_name wkf,
          dq_workflow = [], dq_inputs = []\<rparr>
         (fst (de_fresh de s)) (snd (de_fresh de s)) now app db (ss_store ss1) = (reply, st)"
      "ss' = ss1\<lparr>ss_store := st\<rparr>" "e = None \<longleftrightarrow> (\<exists>a i. reply = Inr (Answered a i) \<and> (a = Queued \<or> (\<exists>h. a = Dispatched h)))"
proof -
  obtain e0 ss1 where rec: "record_review_decision (rd_id run)
        \<lparr>rw_decision = ''reject'', rw_actor = sg_actor s, rw_feedback = feedback, rw_signal = sg_id s,
         rw_phase = snd (reviewed_attempt run), rw_attempt = fst (reviewed_attempt run)\<rparr> now ss = (e0, ss1)"
    by fastforce
  show thesis
  proof (cases e0)
    case (Some e1)
    with assms rec show thesis by (intro that(1) [of e1]) (auto simp: dispatch_triage_def)
  next
    case None
    obtain reply st where run: "dispatch_run (de_dispatch de) ops
         \<lparr>dq_project = rd_project run, dq_issue = rd_issue_number run, dq_workflow_name = wf_name wkf,
          dq_workflow = [], dq_inputs = []\<rparr>
         (fst (de_fresh de s)) (snd (de_fresh de s)) now app db (ss_store ss1) = (reply, st)"
      by fastforce
    show thesis
    proof (rule that(2) [OF rec [unfolded None] run])
      show "ss' = ss1\<lparr>ss_store := st\<rparr>"
        using assms by (auto simp: dispatch_triage_def rec None run Let_def split: sum.splits dispatch_reply.splits admission.splits)
      show "e = None \<longleftrightarrow> (\<exists>a i. reply = Inr (Answered a i) \<and> (a = Queued \<or> (\<exists>h. a = Dispatched h)))"
        using assms by (auto simp: dispatch_triage_def rec None run Let_def split: sum.splits dispatch_reply.splits admission.splits)
    qed
  qed
qed

lemma dispatch_triage_keeps:
  assumes "dispatch_triage de ops s run wkf feedback now app db ss = (e, ss')"
  shows "queue_kept ss ss'"
  using assms
proof (cases rule: dispatch_triage_cases)
  case (1 e1)
  then show ?thesis by (auto dest: review_keeps)
next
  case (2 ss1 reply st)
  with review_keeps [OF 2(1)] dispatch_kept [OF 2(2)] show ?thesis
    by (auto intro: queue_kept_trans queue_kept_store)
qed

lemma act_on_keeps:
  assumes "act_on de ops pv s t now app db ss = (e, ss')"
  shows "queue_kept ss ss'"
  using assms
  by (cases t) (auto simp: act_on_def dest: release_gate_keeps cancel_gate_keeps dispatch_triage_keeps)

lemma act_on_other:
  assumes "sg_type s \<noteq> ''pr''" "decide_triage re runs s = Inr t"
  shows "act_on de ops pv s' t now app db ss = (None, ss)"
  using assms by (auto simp: decide_triage_def act_on_def)

section \<open>Every claimed signal is settled\<close>

lemma signal_by_id_Some: "signal_by_id i tbl = Some d \<Longrightarrow> sg_id d = i"
  by (auto simp: signal_by_id_def find_Some_iff)

lemma signal_by_id_put:
  "sg_id d = i \<Longrightarrow> signal_by_id j (put_signal i d tbl) = (if j = i then map_option (\<lambda>_. d) (signal_by_id i tbl) else signal_by_id j tbl)"
  by (induction tbl) (auto simp: signal_by_id_def put_signal_def)

lemma signal_by_id_failed:
  "signal_by_id j (mark_failed i reason now tbl) =
     (if j = i then map_option (\<lambda>d. d\<lparr>sg_state := ''failed'', sg_processed := Some now, sg_failure := Some (take 500 reason)\<rparr>)
        (signal_by_id i tbl) else signal_by_id j tbl)"
  by (auto simp: mark_failed_def signal_by_id_put signal_by_id_Some split: option.split)

definition settled_as :: "drained \<Rightarrow> signal_doc \<Rightarrow> bool" where
  "settled_as out d =
     (case out of
        SignalProcessed t \<Rightarrow> sg_state d = ''processed'' \<and> sg_decision d = Some (triage_decision t)
      | SignalFailed _ \<Rightarrow> sg_state d = ''failed''
      | SignalSkipped \<Rightarrow> False)"

lemma handled_settles:
  assumes "handle_claimed de ops pv text s now app db ss = (out, ss')" and "signal_by_id (sg_id s) (ss_signals ss) = Some s"
  shows "(\<exists>d. signal_by_id (sg_id s) (ss_signals ss') = Some d \<and> settled_as out d) \<and>
    (\<forall>j. j \<noteq> sg_id s \<longrightarrow> signal_by_id j (ss_signals ss') = signal_by_id j (ss_signals ss)) \<and>
    pr_locks_kept (ss_store ss) (ss_store ss') \<and> (sg_type s \<noteq> ''pr'' \<longrightarrow> ss_store ss' = ss_store ss)"
proof (cases "decide_triage (de_review de) (as_runs (ss_store ss)) s")
  case (Inl e)
  with assms show ?thesis by (auto simp: handle_claimed_def fail_signal_def signal_by_id_failed settled_as_def)
next
  case (Inr t)
  let ?d = "s\<lparr>sg_state := ''processed'', sg_processed := Some now, sg_decision := Some (triage_decision t)\<rparr>"
  let ?ss1 = "ss\<lparr>ss_signals := put_signal (sg_id s) ?d (ss_signals ss)\<rparr>"
  obtain e ss2 where act: "act_on de ops pv ?d t now app db ?ss1 = (e, ss2)" by fastforce
  from act_on_keeps [OF act] have kept: "ss_signals ss2 = put_signal (sg_id s) ?d (ss_signals ss)"
    "pr_locks_kept (ss_store ss) (ss_store ss2)" by (simp_all add: queue_kept_def)
  have other: "sg_type s \<noteq> ''pr'' \<Longrightarrow> ss_store ss2 = ss_store ss"
    using act_on_other [OF _ Inr, of de ops pv ?d now app db ?ss1] act by simp
  have step: "handle_claimed de ops pv text s now app db ss =
      (case e of Some e \<Rightarrow> (SignalFailed (Some e), fail_signal text ?d e now ss2) | None \<Rightarrow> (SignalProcessed t, ss2))"
    using Inr assms(2) act by (simp add: handle_claimed_def mark_processed_def Let_def split: option.split)
  show ?thesis
    using assms step kept other
    by (cases e) (auto simp: fail_signal_def signal_by_id_failed signal_by_id_put settled_as_def)
qed

lemma unlock_signals [simp]: "ss_signals (unlock_signal s ss) = ss_signals ss" "ss_signals (with_locks l ss) = ss_signals ss"
  by (simp_all add: unlock_signal_def with_locks_def)

lemma unlocked:
  assumes "table_owner (as_locks (ss_store ss)) (signal_lock s) = Some (sg_id s)"
  shows "table_owner (as_locks (ss_store (unlock_signal s ss))) (signal_lock s) = None"
  using locks.release_owner [of "signal_lock s" "sg_id s" "as_locks (ss_store ss)"] assms
  by (simp add: unlock_signal_def with_locks_def table_release_def)

lemma same_lock [simp]: "signal_lock (s\<lparr>sg_state := x\<rparr>) = signal_lock s" "unlock_signal (s\<lparr>sg_state := x\<rparr>) ss = unlock_signal s ss"
  by (simp_all add: signal_lock_def unlock_signal_def)

lemma drained_signal_settled_aux:
  assumes "drain_signal de ops pv text s now app db ss = (out, ss')"
    and "signal_by_id (sg_id s) (ss_signals ss) = Some s" and "sg_state s = ''pending''"
  shows "(case claim_lock (signal_lock s) (sg_id s) app db signal_lock_ttl (as_locks (ss_store ss)) of
            Inl _ \<Rightarrow> ss' = ss
          | Inr _ \<Rightarrow> table_owner (as_locks (ss_store ss')) (signal_lock s) = None \<and>
              (\<exists>d. signal_by_id (sg_id s) (ss_signals ss') = Some d \<and> settled_as out d)) \<and>
         (\<forall>j. j \<noteq> sg_id s \<longrightarrow> signal_by_id j (ss_signals ss') = signal_by_id j (ss_signals ss))"
proof (cases "claim_lock (signal_lock s) (sg_id s) app db signal_lock_ttl (as_locks (ss_store ss))")
  case (Inl e)
  with assms(1) show ?thesis by (cases e) (auto simp: drain_signal_def)
next
  case (Inr locks)
  let ?s = "s\<lparr>sg_state := ''processing''\<rparr>"
  let ?ss1 = "(with_locks locks ss)\<lparr>ss_signals := put_signal (sg_id s) ?s (ss_signals ss)\<rparr>"
  have marked: "mark_processing (sg_id s) (ss_signals ss) = Some (True, ?s, put_signal (sg_id s) ?s (ss_signals ss))"
    using assms(2,3) by (simp add: mark_processing_def Let_def)
  obtain ss2 where handled: "handle_claimed de ops pv text ?s now app db ?ss1 = (out, ss2)" and ss': "ss' = unlock_signal s ss2"
    using assms(1) Inr marked by (auto simp: drain_signal_def Let_def split: prod.splits)
  have "signal_by_id (sg_id ?s) (ss_signals ?ss1) = Some ?s" using assms(2) by (simp add: signal_by_id_put)
  note after = handled_settles [OF handled this]
  have owner: "table_owner (as_locks (ss_store ?ss1)) (signal_lock s) = Some (sg_id s)"
    using locks.claim_owner [of "signal_lock s" "sg_id s" app db signal_lock_ttl "as_locks (ss_store ss)" locks] Inr
    by (simp add: table_claim_def with_locks_def)
  have "table_owner (as_locks (ss_store ss2)) (signal_lock s) = Some (sg_id s)"
  proof (cases "sg_type s = ''pr''")
    case True
    then have "fst (signal_lock s) = ''pr''" by (simp add: signal_lock_def)
    with after owner show ?thesis by (cases "signal_lock s") (simp add: pr_locks_kept_def)
  next
    case False
    with after owner show ?thesis by simp
  qed
  from unlocked [OF this] after show ?thesis by (auto simp: Inr ss' signal_by_id_put)
qed

text \<open>
  C15: The drain settles every signal it can lock: a pending signal ends as processed, with the
  decision that was made, or as failed, whichever step went wrong, and the lock of its target is
  free again. It stays pending, and nothing changes at all, only when its target is locked. No
  other signal is touched.
\<close>
theorem drained_signal_settled:
  assumes "drain_signal de ops pv text s now app db ss = (out, ss')"
    and "signal_by_id (sg_id s) (ss_signals ss) = Some s" and "sg_state s = ''pending''"
  shows "(case claim_lock (signal_lock s) (sg_id s) app db signal_lock_ttl (as_locks (ss_store ss)) of
            Inl _ \<Rightarrow> ss' = ss
          | Inr _ \<Rightarrow> table_owner (as_locks (ss_store ss')) (signal_lock s) = None \<and>
              (\<exists>d. signal_by_id (sg_id s) (ss_signals ss') = Some d \<and> settled_as out d)) \<and>
         (\<forall>j. j \<noteq> sg_id s \<longrightarrow> signal_by_id j (ss_signals ss') = signal_by_id j (ss_signals ss))"
  by (rule drained_signal_settled_aux [OF assms])

section \<open>A settled signal is final\<close>

lemma drain_signal_final:
  assumes "drain_signal de ops pv text s now app db ss = (out, ss')"
    and "signal_by_id i (ss_signals ss) = Some d" and "sg_state d \<noteq> ''pending''"
  shows "signal_by_id i (ss_signals ss') = Some d \<and> (sg_id s = i \<longrightarrow> (\<forall>t. out \<noteq> SignalProcessed t))"
proof (cases "claim_lock (signal_lock s) (sg_id s) app db signal_lock_ttl (as_locks (ss_store ss))")
  case (Inl e)
  with assms show ?thesis by (cases e) (auto simp: drain_signal_def)
next
  case locks: (Inr locks)
  show ?thesis
  proof (cases "mark_processing (sg_id s) (ss_signals ss)")
    case None
    with assms locks show ?thesis by (auto simp: drain_signal_def Let_def)
  next
    case (Some x)
    obtain b s' tbl where x: "x = (b, s', tbl)" by (cases x)
    show ?thesis
    proof (cases b)
      case False
      with assms locks Some x show ?thesis by (auto simp: drain_signal_def Let_def)
    next
      case True
      obtain e where e: "signal_by_id (sg_id s) (ss_signals ss) = Some e" "sg_state e = ''pending''"
          "s' = e\<lparr>sg_state := ''processing''\<rparr>" "tbl = put_signal (sg_id s) s' (ss_signals ss)"
        using Some x True by (auto simp: mark_processing_def Let_def split: option.splits if_splits)
      have ids: "sg_id s' = sg_id s" "i \<noteq> sg_id s" using e assms(2,3) signal_by_id_Some [OF e(1)] by auto
      obtain ss2 where h: "handle_claimed de ops pv text s' now app db ((with_locks locks ss)\<lparr>ss_signals := tbl\<rparr>) = (out, ss2)"
          "ss' = unlock_signal s' ss2"
        using assms(1) locks Some x True by (auto simp: drain_signal_def Let_def split: prod.splits)
      have "signal_by_id (sg_id s') (ss_signals ((with_locks locks ss)\<lparr>ss_signals := tbl\<rparr>)) = Some s'"
        using e ids by (simp add: signal_by_id_put)
      from handled_settles [OF h(1) this] show ?thesis
        using ids assms(2) e h(2) by (simp add: signal_by_id_put)
    qed
  qed
qed

lemma drain_listed_final:
  "drain_listed de ops pv text now app db ss0 c ss = (c', ss') \<Longrightarrow> signal_by_id i (ss_signals ss) = Some d \<Longrightarrow>
     sg_state d \<noteq> ''pending'' \<Longrightarrow> i \<notin> fst ` set (sc_decisions c) \<Longrightarrow>
     signal_by_id i (ss_signals ss') = Some d \<and> i \<notin> fst ` set (sc_decisions c')"
proof (induction de ops pv "text" now app db ss0 c ss rule: drain_listed.induct)
  case (2 de ops pv tx now app d1 s rest c ss)
  obtain out ss1 where one: "drain_signal de ops pv tx s now app d1 ss = (out, ss1)" by fastforce
  note final = drain_signal_final [OF one "2.prems"(2,3)]
  have "i \<notin> fst ` set (sc_decisions (count_signal s out c))"
    using final "2.prems"(4) by (auto simp: count_signal_def split: drained.split)
  from "2.IH" [OF one [symmetric] refl _ _ "2.prems"(3) this] "2.prems"(1) one final show ?case by simp
qed simp

text \<open>
  A signal that is being processed, processed or failed is never taken up again: a round of the
  drain leaves it exactly as it is and reports no decision for it, whatever the round does with
  other signals. So one signal is acted on at most once, and one whose processing stopped halfway
  is never acted on again.
\<close>
theorem settled_signals_final:
  assumes "drain_signals de ops pv text now app db limit ss = (c, ss')"
    and "signal_by_id i (ss_signals ss) = Some d" and "sg_state d \<noteq> ''pending''"
  shows "signal_by_id i (ss_signals ss') = Some d \<and> i \<notin> fst ` set (sc_decisions c)"
  using drain_listed_final [OF assms(1) [unfolded drain_signals_def] assms(2,3)] by simp

section \<open>Requests for changes\<close>

lemma decide_state [simp]: "decide_triage re runs (s\<lparr>sg_state := x\<rparr>) = decide_triage re runs s"
proof -
  have parts: "triage_actionable (s\<lparr>sg_state := x\<rparr>) = triage_actionable s" "signal_is_approve (s\<lparr>sg_state := x\<rparr>) = signal_is_approve s"
    "signal_is_cancel (s\<lparr>sg_state := x\<rparr>) = signal_is_cancel s" "triage_feedback (s\<lparr>sg_state := x\<rparr>) = triage_feedback s"
    "sg_type (s\<lparr>sg_state := x\<rparr>) = sg_type s" "sg_repo (s\<lparr>sg_state := x\<rparr>) = sg_repo s" "sg_target (s\<lparr>sg_state := x\<rparr>) = sg_target s"
    by (simp_all add: triage_actionable_def signal_is_approve_def signal_is_cancel_def triage_feedback_def)
  show ?thesis
    unfolding decide_triage_def parts by (rule refl)
qed

definition touch_run :: "string \<Rightarrow> string \<Rightarrow> ledger_run \<Rightarrow> ledger_run" where
  "touch_run i now r = (if rn_id (lr_doc r) = i then r\<lparr>lr_doc := (lr_doc r)\<lparr>rn_updated := now\<rparr>\<rparr> else r)"

definition distinct_runs :: "ledger_run list \<Rightarrow> bool" where
  "distinct_runs runs \<longleftrightarrow> distinct (map (\<lambda>r. rn_id (lr_doc r)) runs)"

lemma put_touched:
  assumes "distinct_runs runs" "run_by_id i runs = Some d"
  shows "put_run i (d\<lparr>rn_updated := now\<rparr>) runs = map (touch_run i now) runs"
proof -
  obtain r0 where r0: "row_by_id i runs = Some r0" "d = lr_doc r0"
    using assms(2) by (auto simp: run_by_id_def)
  then have r0': "r0 \<in> set runs" "rn_id (lr_doc r0) = i"
    unfolding row_by_id_def by (auto simp: find_Some_iff)
  have "lr_doc r = d" if "r \<in> set runs" "rn_id (lr_doc r) = i" for r
  proof -
    have "r0 = r" using assms(1) that r0' by (auto simp: distinct_runs_def distinct_map inj_on_def)
    with r0 show ?thesis by simp
  qed
  then show ?thesis by (auto simp: put_run_def touch_run_def)
qed

lemma insort_key_map: "insort_key f (g x) (map g xs) = map g (insort_key (\<lambda>y. f (g y)) x xs)"
  by (induction xs) simp_all

lemma sort_key_map: "sort_key f (map g xs) = map g (sort_key (\<lambda>y. f (g y)) xs)"
  by (induction xs) (simp_all add: insort_key_map)

lemma touch_same [simp]:
  "lr_created (touch_run i now r) = lr_created r" "rn_state (lr_doc (touch_run i now r)) = rn_state (lr_doc r)"
  "rn_project (lr_doc (touch_run i now r)) = rn_project (lr_doc r)" "rn_issue (lr_doc (touch_run i now r)) = rn_issue (lr_doc r)"
  by (simp_all add: touch_run_def)

lemma last_state_touched: "last_run_state p n (map (touch_run i now) runs) = last_run_state p n runs"
  by (auto simp: last_run_state_def issue_runs_def filter_map sort_key_map comp_def last_map split: list.split)

lemma review_parts:
  assumes "record_review_decision i r now ss = (e, ss')" and "distinct_runs (as_runs (ss_store ss))"
    and "run_by_id i (as_runs (ss_store ss)) \<noteq> None" and "trim_space (rw_decision r) \<noteq> []"
  shows "as_runs (ss_store ss') = map (touch_run i now) (as_runs (ss_store ss)) \<and>
    ss_reviews ss' = (ss_reviews ss)(i \<mapsto> \<lparr>rs_actor = rw_actor r, rs_at = now, rs_decision = trim_space (rw_decision r)\<rparr>) \<and>
    (e = None \<or> (e = Some ReviewConflict \<and> ss_events ss' = ss_events ss)) \<and>
    (e = None \<longleftrightarrow> insert_event (rw_attempt r, ''review-decision-'' @ trim_space (rw_decision r), 0) (review_event r) (ss_events ss i)
       \<noteq> ConflictingEvent)"
proof -
  obtain d where d: "run_by_id i (as_runs (ss_store ss)) = Some d" using assms(3) by blast
  have "patch_run i (\<lambda>d. Inr (d\<lparr>rn_updated := now\<rparr>)) (as_runs (ss_store ss)) = Inr (map (touch_run i now) (as_runs (ss_store ss)))"
    using d put_touched [OF assms(2) d] by (simp add: patch_run_def)
  then show ?thesis
    using assms(1,4) by (auto simp: record_review_decision_def Let_def split: insert_outcome.splits)
qed

lemma reject_words [simp]: "trim_space ''reject'' = ''reject''" "trim_space ''approve'' = ''approve''" "trim_space ''cancel'' = ''cancel''"
  by code_simp+

lemma active_refused:
  assumes "is_active_issue_run_state (trim_space (last_run_state (dq_project q) (dq_issue q) (as_runs st)))"
    and "dispatch_run env ops q holder i now app db st = (x, st')"
  shows "st' = st \<and> (\<forall>a j. x \<noteq> Inr (Answered a j))"
  using assms(2)
proof (cases rule: dispatch_run_checked)
  case (checked f issue given)
  with assms(1) show ?thesis by (auto simp: dispatch_checked_def Let_def)
qed simp

lemma parked_is_active [simp]: "is_active_issue_run_state (trim_space (optional_text ''review_required''))"
  by code_simp

lemma reject_refused:
  assumes "dispatch_triage de ops s run wkf feedback now app db ss = (e, ss')"
    and "distinct_runs (as_runs (ss_store ss))" "run_by_id (rd_id run) (as_runs (ss_store ss)) \<noteq> None"
    and "is_active_issue_run_state (trim_space (last_run_state (rd_project run) (rd_issue_number run) (as_runs (ss_store ss))))"
  shows "e \<noteq> None \<and> as_runs (ss_store ss') = map (touch_run (rd_id run) now) (as_runs (ss_store ss)) \<and>
    as_leases (ss_store ss') = as_leases (ss_store ss) \<and> as_locks (ss_store ss') = as_locks (ss_store ss) \<and>
    ss_reviews ss' (rd_id run) = Some \<lparr>rs_actor = sg_actor s, rs_at = now, rs_decision = ''reject''\<rparr>"
  using assms(1)
proof (cases rule: dispatch_triage_cases)
  case (1 e1)
  with review_parts [OF 1(1) assms(2,3)] review_keeps [OF 1(1)] show ?thesis by simp
next
  case (2 ss1 reply st)
  note rec = review_parts [OF 2(1) assms(2,3)] review_keeps [OF 2(1)]
  have "st = ss_store ss1 \<and> (\<forall>a j. reply \<noteq> Inr (Answered a j))"
    using active_refused [OF _ 2(2)] rec assms(4) by (simp add: last_state_touched)
  with 2 rec show ?thesis by auto
qed

lemma found_run: "find_run_for_pr re repo n runs = Some d \<Longrightarrow> \<exists>r \<in> set runs. d = lr_doc r"
  by (force simp: find_run_for_pr_def Let_def dest: find_result_in split: if_splits)

lemma decided_run:
  assumes "decide_triage re runs s = Inr t"
    and "t = TriageDispatch run wkf target feedback \<or> t = TriageRelease run wkf target \<or> t = TriageCancel run wkf target feedback"
  shows "sg_type s = ''pr'' \<and> (\<exists>r \<in> set runs. run = replay_data (lr_doc r))"
  using assms found_run
  by (fastforce simp: decide_triage_def triage_changes_def Let_def split: if_splits option.splits sum.splits)

lemma run_by_id_member: "r \<in> set runs \<Longrightarrow> run_by_id (rn_id (lr_doc r)) runs \<noteq> None"
  by (auto simp: run_by_id_def row_by_id_def find_None_iff)

lemma parked_word [simp]: "is_active_issue_run_state (trim_space ''review_required'')"
  by code_simp

text \<open>
  While a run waits for its review, a request for changes never does what it asks for. The run
  is active, so the new dispatch is refused: the signal fails, no run is created, no lease and no
  lock is taken, and the run stays parked; but the run's document already says that changes were
  requested and by whom.
\<close>
theorem changes_refused_while_parked:
  assumes "drain_signal de ops pv text s now app db ss = (out, ss')"
    and "signal_by_id (sg_id s) (ss_signals ss) = Some s" and "sg_state s = ''pending''"
    and "claim_lock (signal_lock s) (sg_id s) app db signal_lock_ttl (as_locks (ss_store ss)) = Inr locks"
    and "decide_triage (de_review de) (as_runs (ss_store ss)) s = Inr (TriageDispatch run wkf target feedback)"
    and "distinct_runs (as_runs (ss_store ss))"
    and "last_run_state (rd_project run) (rd_issue_number run) (as_runs (ss_store ss)) = ''review_required''"
  shows "(\<exists>e. out = SignalFailed (Some e)) \<and>
    (\<exists>d. signal_by_id (sg_id s) (ss_signals ss') = Some d \<and> sg_state d = ''failed'') \<and>
    as_runs (ss_store ss') = map (touch_run (rd_id run) now) (as_runs (ss_store ss)) \<and>
    as_leases (ss_store ss') = as_leases (ss_store ss) \<and>
    last_run_state (rd_project run) (rd_issue_number run) (as_runs (ss_store ss')) = ''review_required'' \<and>
    ss_reviews ss' (rd_id run) = Some \<lparr>rs_actor = sg_actor s, rs_at = now, rs_decision = ''reject''\<rparr>"
proof -
  let ?p = "s\<lparr>sg_state := ''processing''\<rparr>"
  let ?d = "?p\<lparr>sg_state := ''processed'', sg_processed := Some now, sg_decision := Some ''dispatch_triage''\<rparr>"
  let ?ss1 = "(with_locks locks ss)\<lparr>ss_signals := put_signal (sg_id s) ?p (ss_signals ss)\<rparr>"
  let ?ss2 = "?ss1\<lparr>ss_signals := put_signal (sg_id s) ?d (ss_signals ?ss1)\<rparr>"
  obtain e ss3 where tri: "dispatch_triage de ops ?d run wkf feedback now app db ?ss2 = (e, ss3)" by fastforce
  have runs: "as_runs (ss_store ?ss2) = as_runs (ss_store ss)" "as_leases (ss_store ?ss2) = as_leases (ss_store ss)"
    by (simp_all add: with_locks_def)
  have "run_by_id (rd_id run) (as_runs (ss_store ss)) \<noteq> None"
    using decided_run [OF assms(5) disjI1 [OF refl]] run_by_id_member by (force simp: replay_data_def)
  with tri assms(6,7) runs have ref: "e \<noteq> None" "as_runs (ss_store ss3) = map (touch_run (rd_id run) now) (as_runs (ss_store ss))"
    "as_leases (ss_store ss3) = as_leases (ss_store ss)"
    "ss_reviews ss3 (rd_id run) = Some \<lparr>rs_actor = sg_actor s, rs_at = now, rs_decision = ''reject''\<rparr>"
    using reject_refused [OF tri] by simp_all
  obtain x where x: "e = Some x" using ref(1) by auto
  have "mark_processing (sg_id s) (ss_signals ss) = Some (True, ?p, put_signal (sg_id s) ?p (ss_signals ss))"
    using assms(2,3) by (simp add: mark_processing_def Let_def)
  moreover have "handle_claimed de ops pv text ?p now app db ?ss1 = (SignalFailed (Some x), fail_signal text ?d x now ss3)"
    using assms(2,5) runs tri x
    by (simp add: handle_claimed_def mark_processed_def Let_def signal_by_id_put act_on_def)
  ultimately have "drain_signal de ops pv text s now app db ss = (SignalFailed (Some x), unlock_signal s (fail_signal text ?d x now ss3))"
    using assms(4) by (simp add: drain_signal_def Let_def)
  then have out: "out = SignalFailed (Some x)" "ss' = unlock_signal s (fail_signal text ?d x now ss3)"
    using assms(1) by simp_all
  have "\<exists>d. signal_by_id (sg_id s) (ss_signals ss') = Some d \<and> settled_as out d"
    using drained_signal_settled_aux [OF assms(1-3)] assms(4) by simp
  with out ref assms(7) show ?thesis
    by (auto simp: settled_as_def unlock_signal_def with_locks_def fail_signal_def last_state_touched)
qed

end
