(* ===== verification/CompletedRuns.thy ===== *)
theory CompletedRuns
  imports RunCompletion StoredRouting SignalSafety
begin

text \<open>
  The completion of a stored run refines the routing, a run closes its issue only when it has passed,
  and a retry whose launch fails leaves its new cycle behind.
\<close>

section \<open>The stored run follows the routing\<close>

definition settles_as :: "string \<Rightarrow> completion_reply \<Rightarrow> completion_outcome \<times> 'w admission_state \<Rightarrow> bool" where
  "settles_as i reply out \<longleftrightarrow>
     (\<exists>d. run_by_id i (as_runs (snd out)) = Some d \<and>
        (case reply of
           Replied s r \<Rightarrow> fst out = CompletionReplied s \<and> replay_data d = as_read r
         | RunAborted s cause r \<Rightarrow> fst out = CompletionEnded s ''aborted'' \<and> replay_data d = as_read r
         | RunPassed r \<Rightarrow> fst out = CompletionEnded ''advance'' ''passed'' \<and> replay_data d = as_read r
         | _ \<Rightarrow> False))"

lemma ended_read: "as_read (ended_as es r) = ended_as es (as_read r)"
  by (simp add: as_read_def ended_as_def)

lemma end_settles:
  assumes "stored_as i ref P st r"
  shows "\<exists>st' d'. end_stored env ops es reason v i now st = (CompletionEnded v es, st') \<and>
    run_by_id i (as_runs st') = Some d' \<and> replay_data d' = as_read (ended_as es r)"
proof -
  obtain d where d: "run_by_id i (as_runs st) = Some d" "replay_data d = as_read r"
    using assms by (auto simp: stored_as_def)
  then obtain row where row: "row_by_id i (as_runs st) = Some row" "lr_doc row = d" by (auto simp: run_by_id_def)
  have "rn_id (set_terminal es why now d) = i" for why
    using run_by_id_Some [OF d(1)] by (simp add: set_terminal_def)
  then show ?thesis
    using d row by (simp add: end_stored_def end_by_id_def run_by_id_put replay_end ended_read)
qed

lemma replied_settles: "stored_as i ref P st r \<Longrightarrow> settles_as i (Replied s r) (CompletionReplied s, st)"
  by (auto simp: settles_as_def stored_as_def)

lemma aborted_settles:
  "stored_as i ref P st r \<Longrightarrow>
     settles_as i (RunAborted v cause (ended_as ''aborted'' r)) (end_stored env ops ''aborted'' reason v i now st)"
  using end_settles [of i ref P st r env ops "''aborted''" reason v now] by (auto simp: settles_as_def)

lemma dispatch_settles:
  assumes "launches_as (ce_admission env) ops (ce_phase env) ref P verdict" "now \<noteq> []"
    and "stored_as i ref P st r" "rd_id snap = i" "rd_slot_lease snap = ref"
    and "dispatch_forward (\<lambda>p _. verdict p) wkf targets snap r = (e, r')"
  obtains x st' where "dispatch_stored env ops wkf targets snap now st = (x, st')" "(x = None) = (e = None)"
    "stored_as i ref P st' r'"
proof -
  obtain x st' where "dispatch_stored env ops wkf targets snap now st = (x, st')" by fastforce
  with forward_phases_match [OF assms(1,2,3,4) refl assms(5), of "Suc (length (wf_phases wkf))" wkf targets] assms(6) that
  show thesis by (simp add: dispatch_stored_def dispatch_targets_def dispatch_forward_def)
qed

lemma cleanup_settles:
  assumes "launches_as (ce_admission env) ops (ce_phase env) ref P verdict" "now \<noteq> []"
    and "stored_as i ref P st r" "rd_id snap = i" "rd_slot_lease snap = ref"
  shows "settles_as i (abort_with_cleanup (\<lambda>p _. verdict p) wkf v cause snap r) (cleanup_stored env ops wkf v reason snap now st)"
proof (cases "all_ready_dispatch_targets wkf snap v = []")
  case True
  with assms(3,4) show ?thesis
    by (simp add: abort_with_cleanup_def cleanup_stored_def mark_run_aborted_def replied_settles aborted_settles)
next
  case False
  obtain e r' where fwd: "dispatch_forward (\<lambda>p _. verdict p) wkf (all_ready_dispatch_targets wkf snap v) snap r = (e, r')"
    by fastforce
  obtain x st' where st: "dispatch_stored env ops wkf (all_ready_dispatch_targets wkf snap v) snap now st = (x, st')"
    "(x = None) = (e = None)" "stored_as i ref P st' r'"
    by (rule dispatch_settles [OF assms fwd])
  show ?thesis
  proof (cases e)
    case None
    with st False fwd show ?thesis
      by (simp add: abort_with_cleanup_def cleanup_stored_def replied_settles [OF st(3)])
  next
    case (Some y)
    with st(2) obtain z where "x = Some z" by auto
    with st Some False fwd assms(4) show ?thesis
      by (simp add: abort_with_cleanup_def cleanup_stored_def mark_run_aborted_def aborted_settles [OF st(3)])
  qed
qed

lemma advance_settles:
  assumes "launches_as (ce_admission env) ops (ce_phase env) ref P verdict" "now \<noteq> []"
    and "stored_as i ref P st r" "rd_id r = i"
  shows "settles_as i (route_advance (\<lambda>p _. verdict p) wkf drn r) (advance_stored env ops wkf drn r now st)"
proof -
  have slot: "rd_slot_lease r = ref" using assms(3) by (simp add: stored_as_def)
  let ?targets = "all_ready_dispatch_targets wkf r Advance"
  show ?thesis
  proof (cases "?targets = []")
    case True
    obtain st' d' where "end_stored env ops ''passed'' None ''advance'' i now st = (CompletionEnded ''advance'' ''passed'', st')"
      "run_by_id i (as_runs st') = Some d'" "replay_data d' = as_read (ended_as ''passed'' r)"
      using end_settles [OF assms(3)] by blast
    then have passed: "settles_as i (RunPassed (ended_as ''passed'' r)) (end_stored env ops ''passed'' None ''advance'' i now st)"
      by (simp add: settles_as_def)
    from True assms(3,4) passed show ?thesis
      by (simp add: route_advance_def advance_stored_def finish_advanced_def finish_stored_def mark_run_aborted_def
          replied_settles aborted_settles split: option.split)
  next
    case False
    obtain e r' where fwd: "dispatch_forward (\<lambda>p _. verdict p) wkf ?targets r r = (e, r')" by fastforce
    obtain x st' where st: "dispatch_stored env ops wkf ?targets r now st = (x, st')"
      "(x = None) = (e = None)" "stored_as i ref P st' r'"
      by (rule dispatch_settles [OF assms slot fwd])
    show ?thesis
    proof (cases e)
      case None
      with st False fwd show ?thesis
        by (simp add: route_advance_def advance_stored_def replied_settles [OF st(3)])
    next
      case (Some y)
      with st(2) obtain z where "x = Some z" by auto
      with st Some False fwd cleanup_settles [OF assms(1,2) st(3) assms(4) slot] show ?thesis
        by (simp add: route_advance_def advance_stored_def)
    qed
  qed
qed

lemma abort_settles:
  assumes "launches_as (ce_admission env) ops (ce_phase env) ref P verdict" "now \<noteq> []"
    and "stored_as i ref P st r" "rd_id r = i"
  shows "settles_as i (route_abort (\<lambda>p _. verdict p) wkf drn v r) (abort_stored env ops wkf drn v r now st)"
proof -
  have slot: "rd_slot_lease r = ref" using assms(3) by (simp add: stored_as_def)
  let ?targets = "all_ready_dispatch_targets wkf r v"
  show ?thesis
  proof (cases "?targets = []")
    case True
    with assms(3,4) show ?thesis
      by (simp add: route_abort_def abort_stored_def replied_settles aborted_settles)
  next
    case False
    obtain e r' where fwd: "dispatch_forward (\<lambda>p _. verdict p) wkf ?targets r r = (e, r')" by fastforce
    obtain x st' where st: "dispatch_stored env ops wkf ?targets r now st = (x, st')"
      "(x = None) = (e = None)" "stored_as i ref P st' r'"
      by (rule dispatch_settles [OF assms slot fwd])
    show ?thesis
    proof (cases e)
      case None
      with st False fwd show ?thesis
        by (simp add: route_abort_def abort_stored_def replied_settles [OF st(3)])
    next
      case (Some y)
      with st(2) obtain z where "x = Some z" by auto
      with st Some False fwd assms(4) show ?thesis
        by (simp add: route_abort_def abort_stored_def mark_run_aborted_def aborted_settles [OF st(3)])
    qed
  qed
qed

lemma replay_kept [simp]: "as_read (replay_data d) = replay_data d"
  by (simp add: as_read_def as_read_attempt_def replay_data_def replay_attempt_def comp_def)

lemma replay_fields [simp]:
  "rd_id (replay_data d) = rn_id d" "rd_slot_lease (replay_data d) = rn_slot_lease d" "rd_project (replay_data d) = rn_project d"
  "rd_issue_number (replay_data d) = rn_issue d" "rd_pr_number (replay_data d) = rn_pr d" "rd_state (replay_data d) = rn_state d"
  "rd_attempts (replay_data d) = map replay_attempt (rn_attempts d)"
  by (simp_all add: replay_data_def)

lemma decided_fields [simp]:
  "rd_id (with_stamped_decision run i v pl) = rd_id run" "rd_slot_lease (with_stamped_decision run i v pl) = rd_slot_lease run"
  "rd_pr_number (with_stamped_decision run i v pl) = rd_pr_number run"
  by (simp_all add: with_stamped_decision_def Let_def)

lemma decided_id [simp]: "rn_id (stamp_run_decision s now d) = rn_id d"
  by (simp add: stamp_run_decision_def edit_last_def)

lemma promote_keeps [simp]:
  "rn_id (foldl promote_output d m) = rn_id d" "rn_slot_lease (foldl promote_output d m) = rn_slot_lease d"
proof -
  have one: "rn_id (promote_output d kv) = rn_id d" "rn_slot_lease (promote_output d kv) = rn_slot_lease d" for d kv
    by (simp_all add: promote_output_def Let_def)
  show "rn_id (foldl promote_output d m) = rn_id d" "rn_slot_lease (foldl promote_output d m) = rn_slot_lease d"
    by (induction m arbitrary: d) (simp_all add: one)
qed

lemma stamp_keeps_row:
  assumes "stamp_run_completion add p now d = Inr d'"
  shows "rn_id d' = rn_id d \<and> rn_slot_lease d' = rn_slot_lease d \<and> length (rn_attempts d') = length (rn_attempts d)"
  using assms by (auto simp: stamp_run_completion_def edit_at_def Let_def split: if_splits option.splits)

lemma stored_as_read:
  "run_by_id i (as_runs st) = Some d \<Longrightarrow> replay_data d = r \<Longrightarrow> P (as_leases st) \<Longrightarrow> rd_slot_lease r = ref \<Longrightarrow> stored_as i ref P st r"
  by (auto simp: stored_as_def)

text \<open>
  C8: The completion of a phase on the stored run refines the routing: unless the verdict is a retry,
  stamping the completion and the decision on the document, dispatching on it, cleaning up on it
  and ending it answers what the routing answers for the run read back, and the document it
  leaves, read back again, is the run the routing computes.
\<close>
theorem stored_completion_refines:
  assumes "launches_as (ce_admission env) ops (ce_phase env) (rn_slot_lease d) P verdict" and "P (as_leases st)"
    and "now \<noteq> []" and "run_by_id i (as_runs st) = Some d" and "run_doc_ok d" and "jp_attempt p = None"
    and "stamp_run_completion (ce_add env) p now d = Inr d1"
    and "workflow_for_run (ce_scripts env) (ce_tables env) (replay_data d1) = Some wkf"
    and "list_ex (\<lambda>q. dp_name q = attempt_doc.ad_phase (last (rn_attempts d1))) (decision_workflow (wf_phases wkf))"
    and "decide (completion_decision_run wkf (replay_data d1)) (decision_workflow (wf_phases wkf)) None = Inr v" and "v \<noteq> Retry"
  shows "settles_as i
    (process_completion (\<lambda>q _. verdict q) cycles (Some wkf) \<lparr>cp_conclusion = jp_conclusion p, cp_outputs = jp_outputs p\<rparr> (replay_data d1))
    (complete_stored env ops i p now st)"
proof -
  let ?payload = "\<lparr>cp_conclusion = jp_conclusion p, cp_outputs = jp_outputs p\<rparr>" and ?run = "replay_data d1"
  have some: "rn_attempts d \<noteq> []" using assms(7) by (auto simp: stamp_run_completion_def split: if_splits)
  have id: "rn_id d = i" using assms(4) by (rule run_by_id_Some)
  have kept: "rn_id d1 = i" "rn_slot_lease d1 = rn_slot_lease d" "rn_attempts d1 \<noteq> []"
    using stamp_keeps_row [OF assms(7)] id some by auto
  let ?i = "at_index (last (rd_attempts ?run))" and ?runs1 = "put_run i d1 (as_runs st)"
  let ?run1 = "with_stamped_decision ?run ?i v ?payload" and ?d2 = "stamp_run_decision (decision_str v) now d1"
  have stored: "patch_run i (stamp_run_completion (ce_add env) p now) (as_runs st) = Inr ?runs1" "run_by_id i ?runs1 = Some d1"
    using assms(4,7) kept(1) by (simp_all add: patch_run_def run_by_id_put)
  have d2: "replay_data ?d2 = ?run1" by (rule replay_decision [OF assms(5,3) some assms(6,7)])
  have ids: "rn_id ?d2 = i" "rd_id ?run = i" "rd_id ?run1 = i" "rd_slot_lease ?run1 = rn_slot_lease d"
    using kept by simp_all
  let ?runs2 = "put_run i ?d2 ?runs1" and ?drn = "completion_decision_run wkf ?run"
  let ?st = "st\<lparr>as_runs := ?runs2\<rparr>"
  have "run_by_id i ?runs2 = Some ?d2" using stored(2) ids(1) by (simp add: run_by_id_put)
  then have fit: "stored_as i (rn_slot_lease d) P ?st ?run1"
    by (intro stored_as_read [OF _ d2 _ ids(4)]) (simp_all add: assms(2))
  have attempts: "rd_attempts ?run \<noteq> []" "at_phase (last (rd_attempts ?run)) = attempt_doc.ad_phase (last (rn_attempts d1))"
    using kept(3) by (simp_all add: last_map replay_attempt_def)
  have complete: "complete_stored env ops i p now st = route_stored env ops wkf ?drn v (at_phase (last (rd_attempts ?run))) ?run1 now ?st"
    using stored attempts assms(8-10) ids kept(1)
    by (simp add: complete_stored_def decide_stored_def patch_run_def Let_def)
  show ?thesis
  proof (cases "v = Advance")
    case True
    with advance_settles [OF assms(1,3) fit ids(3), of wkf ?drn] attempts assms(9,10) show ?thesis
      by (simp add: complete process_completion_def route_stored_def Let_def)
  next
    case False
    with assms(11) have route: "route_stored env ops wkf ?drn v failing ?run1 now ?st = abort_stored env ops wkf ?drn v ?run1 now ?st" for failing
      by (cases v) (simp_all add: route_stored_def)
    from False assms(10,11) attempts assms(9)
    have "process_completion (\<lambda>q _. verdict q) cycles (Some wkf) ?payload ?run = route_abort (\<lambda>q _. verdict q) wkf ?drn v ?run1"
      by (cases v) (simp_all add: process_completion_def Let_def)
    with abort_settles [OF assms(1,3) fit ids(3), of wkf ?drn v] show ?thesis
      by (simp only: complete route)
  qed
qed

section \<open>Only the document of the run is written\<close>

lemma patched_only:
  assumes "patch_run i f runs = Inr runs'" "\<And>d d'. f d = Inr d' \<Longrightarrow> rn_id d' = rn_id d"
  shows "only_changes i runs runs'"
  using assms run_by_id_Some by (fastforce simp: patch_run_def only_changes_put split: option.splits sum.splits)

lemma skipped_keep_id:
  "record_runner_jobs_skipped phase sk now d = Inr d' \<Longrightarrow> rn_id d' = rn_id d"
  "stamp_attempt_skipped reason now d = Inr d' \<Longrightarrow> rn_id d' = rn_id d"
  "start_run_cycle phase kind wff lease now d = Inr d' \<Longrightarrow> rn_id d' = rn_id d"
  by (auto simp: record_runner_jobs_skipped_def stamp_attempt_skipped_def start_run_cycle_def edit_last_def edit_at_def Let_def
      split: if_splits option.splits)

lemma launch_only:
  assumes "launch_on_lease env ops pv p run started i inputs skipped now st = (e, st')"
  shows "only_changes (rd_id run) (as_runs st) (as_runs st')"
proof -
  have "only_changes (rd_id run) runs runs'"
    if "patch_run (rd_id run) (\<lambda>d. Inr (record_runner_jobs_dispatched (ps_name p) jobs now d)) runs = Inr runs'" for runs runs' jobs
    by (rule patched_only [OF that]) (auto simp: record_runner_jobs_dispatched_def)
  with assms show ?thesis
    by (auto simp: launch_on_lease_def Let_def split: sum.splits if_splits prod.splits)
qed

lemma start_only:
  assumes "forward_start env ops pv p snap inputs skipped now st = (x, st')"
  shows "only_changes (rd_id snap) (as_runs st) (as_runs st')"
proof (cases "run_by_id (rd_id snap) (as_runs st)")
  case None
  with assms show ?thesis by (simp add: forward_start_def)
next
  case (Some d)
  let ?runs = "put_run (rd_id snap) (append_run_attempt (ps_name p) (workflow_phase_kind (ps_kind p)) (phase_filename p) now d) (as_runs st)"
  have put: "only_changes (rd_id snap) (as_runs st) ?runs"
    using run_by_id_Some [OF Some] by (intro only_changes_put) simp
  have skip: "only_changes (rd_id snap) ?runs runs"
    if "patch_run (rd_id snap) (record_runner_jobs_skipped (ps_name p) skipped now) ?runs = Inr runs" for runs
    by (rule patched_only [OF that]) (rule skipped_keep_id)
  have launch: "only_changes (rd_id snap) runs (as_runs st2)"
    if "launch_on_lease env ops pv p snap started i ins skipped now (s\<lparr>as_runs := runs\<rparr>) = (e, st2)" for started i ins s runs e st2
    using launch_only [OF that] by simp
  show ?thesis
    using assms Some put only_changes_trans [OF put] only_changes_trans [OF put only_changes_trans [OF skip]] launch skip
    by (fastforce simp: forward_start_def Let_def split: sum.splits prod.splits option.splits if_splits)
qed

lemma skip_only:
  assumes "forward_skip p snap reason now runs = (x, runs')"
  shows "only_changes (rd_id snap) runs runs'"
proof (cases "patch_run (rd_id snap) (\<lambda>d. Inr (append_run_attempt (ps_name p) (workflow_phase_kind (ps_kind p)) (phase_filename p) now d)) runs")
  case (Inl e)
  with assms show ?thesis by (simp add: forward_skip_def)
next
  case (Inr runs1)
  have first: "only_changes (rd_id snap) runs runs1" by (rule patched_only [OF Inr]) auto
  have "only_changes (rd_id snap) runs1 runs2"
    if "patch_run (rd_id snap) (stamp_attempt_skipped reason now) runs1 = Inr runs2" for runs2
    by (rule patched_only [OF that]) (rule skipped_keep_id)
  with assms Inr first show ?thesis
    by (auto simp: forward_skip_def intro: only_changes_trans [OF first] split: sum.splits)
qed

lemma one_only:
  assumes "forward_one env ops pv wkf p snap now st = (x, st')"
  shows "only_changes (rd_id snap) (as_runs st) (as_runs st')"
proof -
  have "only_changes (rd_id snap) runs runs'"
    if "patch_run (rd_id snap) (\<lambda>d. Inr (park_run ph k wff now d)) runs = Inr runs'" for runs runs' ph k wff
    by (rule patched_only [OF that]) auto
  with assms start_only skip_only show ?thesis
    unfolding forward_one_def Let_def
    by (auto split: if_splits sum.splits prod.splits when_outcome.splits option.splits) fastforce+
qed

lemma phases_only:
  "forward_phases fuel env ops pv wkf ps snap now st = (x, st') \<Longrightarrow> only_changes (rd_id snap) (as_runs st) (as_runs st')"
proof (induction fuel env ops pv wkf ps snap now st arbitrary: x st' rule: forward_phases.induct)
  case (3 fuel env ops pv wkf p ps snap now st)
  obtain r st1 where one: "forward_one env ops pv wkf p snap now st = (r, st1)" by fastforce
  note first = one_only [OF one]
  show ?case
  proof (cases r)
    case (ForwardFailed e)
    with "3.prems" one first show ?thesis by simp
  next
    case ForwardSettled
    with "3.IH"(1) [OF one [symmetric] ForwardSettled] "3.prems" one show ?thesis
      by (simp add: only_changes_trans [OF first])
  next
    case ForwardSkipped
    show ?thesis
    proof (cases "run_by_id (rd_id snap) (as_runs st1)")
      case None
      with ForwardSkipped "3.prems" one first show ?thesis by simp
    next
      case (Some d)
      have id: "rn_id d = rd_id snap" by (rule run_by_id_Some [OF Some])
      obtain e st2 where two: "forward_phases fuel env ops pv wkf (all_ready_dispatch_targets wkf (replay_data d) Advance) (replay_data d) now st1
          = (e, st2)" by fastforce
      have second: "only_changes (rd_id snap) (as_runs st) (as_runs st2)"
        using "3.IH"(2) [OF one [symmetric] ForwardSkipped Some two] id by (simp add: only_changes_trans [OF first])
      show ?thesis
      proof (cases e)
        case None
        with "3.IH"(3) [OF one [symmetric] ForwardSkipped Some two [symmetric] None] "3.prems" one ForwardSkipped Some two
        show ?thesis by (simp add: only_changes_trans [OF second])
      next
        case (Some y)
        with second "3.prems" one ForwardSkipped \<open>run_by_id (rd_id snap) (as_runs st1) = _\<close> two show ?thesis by simp
      qed
    qed
  qed
qed simp_all

lemma end_only: "only_changes i (as_runs st) (as_runs (snd (end_stored env ops es reason v i now st)))"
  by (auto simp: end_stored_def end_by_id_def Let_def set_terminal_def intro!: only_changes_put dest: row_by_id_Some split: option.split)

lemma cleanup_only: "only_changes (rd_id run) (as_runs st) (as_runs (snd (cleanup_stored env ops wkf v reason run now st)))"
proof -
  obtain x st1 where fwd: "dispatch_stored env ops wkf (all_ready_dispatch_targets wkf run v) run now st = (x, st1)" by fastforce
  then have "only_changes (rd_id run) (as_runs st) (as_runs st1)"
    unfolding dispatch_stored_def dispatch_targets_def by (rule phases_only)
  with fwd only_changes_trans [OF this end_only] end_only show ?thesis
    by (auto simp: cleanup_stored_def Let_def split: option.split)
qed

section \<open>A retry that cannot be launched\<close>

lemma dispatched_patched:
  assumes "run_by_id i runs = Some d" "patch_run i (\<lambda>d. Inr (record_runner_jobs_dispatched phase jobs now d)) runs = Inr runs'"
  shows "only_changes i runs runs' \<and> (\<exists>d'. run_by_id i runs' = Some d' \<and> same_run d d')"
  using dispatched_recorded [OF assms(1), of phase jobs now] assms(2) by simp

lemma launched_row:
  assumes "launch_recycled env ops wkf target inputs fresh i now st = (x, st')" "run_by_id (rd_id fresh) (as_runs st) = Some d"
  shows "only_changes (rd_id fresh) (as_runs st) (as_runs st') \<and> (\<exists>d'. run_by_id (rd_id fresh) (as_runs st') = Some d' \<and> same_run d d')"
proof (cases "evaluate_phase_when target (when_context_of wkf fresh)")
  case (Inl e)
  with assms show ?thesis by (auto simp: launch_recycled_def)
next
  case (Inr outcome)
  let ?sk = "entry_skips outcome"
  show ?thesis
  proof (cases "if ?sk = [] then Inr (as_runs st) else patch_run (rd_id fresh) (record_runner_jobs_skipped (ps_name target) ?sk now) (as_runs st)")
    case (Inl e)
    with Inr assms show ?thesis by (auto simp: launch_recycled_def Let_def)
  next
    case runs: (Inr runs)
    from skips_recorded [OF this assms(2)] obtain d1 where d1: "only_changes (rd_id fresh) (as_runs st) runs"
      "run_by_id (rd_id fresh) runs = Some d1" "same_run d d1" by blast
    obtain y st2 where launch: "launch_on_lease (ce_admission env) ops (ce_phase env) target fresh fresh i (Some inputs) ?sk now
        (st\<lparr>as_runs := runs\<rparr>) = (y, st2)" by fastforce
    have "as_runs st' = as_runs st2"
      using assms(1) Inr runs launch by (auto simp: launch_recycled_def Let_def split: option.splits)
    moreover have "only_changes (rd_id fresh) runs (as_runs st2) \<and> (\<exists>d'. run_by_id (rd_id fresh) (as_runs st2) = Some d' \<and> same_run d1 d')"
      using launch d1(2) dispatched_patched [OF d1(2)]
      by (auto simp: launch_on_lease_def Let_def split: sum.splits if_splits)
    ultimately show ?thesis
      using d1 only_changes_trans [OF d1(1)] same_run_trans [OF d1(3)] by metis
  qed
qed

lemma started_row:
  assumes "start_recycled env ops wkf kind target inputs prior run d now st = (x, st')" "run_by_id (rn_id d) (as_runs st) = Some d"
  shows "as_runs st' = as_runs st \<or>
    (only_changes (rn_id d) (as_runs st) (as_runs st') \<and>
     (\<exists>d'. run_by_id (rn_id d) (as_runs st') = Some d' \<and> rn_state d' = ''in_progress'' \<and> rn_project d' = rn_project d \<and> rn_issue d' = rn_issue d))"
proof -
  let ?ref = "case rd_slot_lease run of None \<Rightarrow> [] | Some r \<Rightarrow> r" and ?i = "next_index (rn_attempts d)"
  let ?fresh = "with_attempt (recycled_data run wkf target prior d) ?i (ps_name target)"
  have id: "rd_id ?fresh = rn_id d" by (simp add: with_attempt_def recycled_data_def)
  show ?thesis
  proof (cases "patch_run (rn_id d) (start_run_cycle (ps_name target) kind (phase_filename target) ?ref now) (as_runs st)")
    case (Inl e)
    with assms show ?thesis by (simp add: start_recycled_def Let_def)
  next
    case (Inr runs)
    obtain d1 where d1: "start_run_cycle (ps_name target) kind (phase_filename target) ?ref now d = Inr d1"
      "run_by_id (rn_id d) runs = Some d1" "only_changes (rn_id d) (as_runs st) runs"
      by (rule patch_run_Inr [OF Inr skipped_keep_id(3)]) (use assms(2) in auto)
    have parts: "rn_state d1 = ''in_progress''" "rn_project d1 = rn_project d" "rn_issue d1 = rn_issue d"
      using d1(1) by (auto simp: start_run_cycle_def append_run_attempt_def add_attempt_def split: if_splits)
    have "launch_recycled env ops wkf target inputs ?fresh ?i now (st\<lparr>as_runs := runs\<rparr>) = (x, st')"
      using assms(1) Inr by (simp add: start_recycled_def Let_def)
    from launched_row [OF this, unfolded id, of d1] d1(2) obtain d2
      where "only_changes (rn_id d) runs (as_runs st')" "run_by_id (rn_id d) (as_runs st') = Some d2" "same_run d1 d2" by auto
    with only_changes_trans [OF d1(3)] parts show ?thesis by (auto simp: same_run_def)
  qed
qed

text \<open>The table after a retry that has gone as far as starting the new cycle.\<close>

lemma retry_row:
  assumes "retry_stored env ops wkf failing run now st = (x, st1)" and "run_by_id (ce_fresh env run) (as_runs st) = None"
    and "run_by_id (ce_fresh env run) (as_runs st1) = Some d" and "rn_state d \<noteq> ''queued''"
  obtains r p where "as_runs st1 = mark_recycled (rd_id run) now (as_runs st) @ [r]" "lr_doc r = d" "lr_created r = now"
    "rn_state d = ''in_progress''" "rd_id run \<noteq> ce_fresh env run" "run_by_id (rd_id run) (as_runs st1) = Some p"
proof -
  let ?j = "ce_fresh env run"
  obtain target m where t: "retry_target wkf failing = Some target"
    "valid_workflow_kind (workflow_phase_kind (ps_kind target))"
    "substitute_completion_inputs target (rd_attempts run @ retry_carry_forward run wkf (ps_name target)) = Inr m"
    using assms by (auto simp: retry_stored_def Let_def split: option.splits if_splits sum.splits)
  let ?carry = "retry_carry_forward run wkf (ps_name target)" and ?prior = "prior_verification_for_retry run failing"
  obtain y runs where create: "create_recycle_cycle (ce_details env) (ce_scripts env) (ce_tables env) (rd_id run) (wf_schema_ref wkf)
      (ps_name target) ?carry ?prior ?j now (as_runs st) = (y, runs)" by fastforce
  have marked_none: "run_by_id ?j (mark_recycled (rd_id run) now (as_runs st)) = None"
    using assms(2) by (auto simp: run_by_id_def row_by_id_def mark_recycled_def find_None_iff)
  have "\<exists>r. y = Inr r"
  proof (cases y)
    case (Inl e)
    then have "runs = as_runs st \<or> runs = mark_recycled (rd_id run) now (as_runs st)"
      using create by (auto simp: create_recycle_cycle_def Let_def split: option.splits if_splits sum.splits)
    moreover have "as_runs st1 = runs" using assms(1) t create Inl by (auto simp: retry_stored_def Let_def)
    ultimately show ?thesis using assms(2,3) marked_none by auto
  qed simp
  then obtain r where r: "y = Inr r" by blast
  note create = create [unfolded r]
  have row: "rn_id (lr_doc r) = ?j" "runs = mark_recycled (rd_id run) now (as_runs st) @ [r]" "rn_state (lr_doc r) = ''queued''" "lr_created r = now"
    using create by (auto simp: create_recycle_cycle_def Let_def recycled_doc_def split: option.splits if_splits sum.splits)
  have parent: "rd_id run \<noteq> ?j"
    using create assms(2) by (auto simp: create_recycle_cycle_def run_by_id_def row_by_id_def split: option.splits)
  have others: "\<forall>x \<in> set (mark_recycled (rd_id run) now (as_runs st)). rn_id (lr_doc x) \<noteq> ?j"
    using marked_none by (auto simp: run_by_id_def row_by_id_def find_None_iff)
  have start: "start_recycled env ops wkf (workflow_phase_kind (ps_kind target)) target (substituted_inputs target m) ?prior run (lr_doc r) now
      (st\<lparr>as_runs := runs\<rparr>) = (x, st1)"
    using assms(1) t create by (simp add: retry_stored_def Let_def)
  have found: "run_by_id ?j runs = Some (lr_doc r)"
    using run_by_id_new [of "mark_recycled (rd_id run) now (as_runs st)" r] others by (simp add: row)
  from started_row [OF start] found row assms(3,4) have
    only: "only_changes ?j runs (as_runs st1)" and state: "rn_state d = ''in_progress''" by auto
  obtain r' where r': "as_runs st1 = mark_recycled (rd_id run) now (as_runs st) @ [r']" "same_row ?j r r'"
    by (rule only_changes_fresh [OF only [unfolded row(2)] others])
  have id: "rn_id (lr_doc r') = ?j" "lr_created r' = now" using r'(2) row by (auto simp: same_row_def)
  then have "lr_doc r' = d"
    using assms(3) run_by_id_new [of "mark_recycled (rd_id run) now (as_runs st)" r'] others by (simp add: r'(1))
  moreover have "row_by_id (rd_id run) (as_runs st) \<noteq> None"
    using create by (auto simp: create_recycle_cycle_def row_by_id_def split: option.splits)
  then have "row_by_id (rd_id run) (as_runs st1) \<noteq> None"
    by (auto simp: r'(1) row_by_id_def mark_recycled_def find_None_iff)
  ultimately show thesis using that r'(1) id(2) state parent by (auto simp: run_by_id_def)
qed

lemma only_changes_created:
  "only_changes i s t \<Longrightarrow> map lr_created t = map lr_created s"
  unfolding only_changes_def
  by (induction rule: list_all2_induct) (auto simp: same_row_def split: if_splits)

lemma only_changes_ids:
  "only_changes i s t \<Longrightarrow> map (\<lambda>r. rn_id (lr_doc r)) t = map (\<lambda>r. rn_id (lr_doc r)) s"
  unfolding only_changes_def
  by (induction rule: list_all2_induct) (auto simp: same_row_def split: if_splits)

lemma row_by_id_None: "row_by_id i s = None \<longleftrightarrow> i \<notin> set (map (\<lambda>r. rn_id (lr_doc r)) s)"
  by (auto simp: row_by_id_def find_None_iff)

text \<open>
  What the clean-up makes of a run: its phases that run after a failure are dispatched, or it waits
  for phases that are still running, or it ends as aborted.
\<close>

definition cleaned_up ::
  "'w completion_env \<Rightarrow> 'w lease_ops \<Rightarrow> workflow \<Rightarrow> run_data \<Rightarrow> string \<Rightarrow> 'w admission_state \<Rightarrow>
     completion_outcome \<Rightarrow> 'w admission_state \<Rightarrow> bool" where
  "cleaned_up env ops wkf run now st1 out st' \<longleftrightarrow>
     (let targets = all_ready_dispatch_targets wkf run AbortMalformed;
          (x, st2) = dispatch_stored env ops wkf targets run now st1 in
      if targets \<noteq> [] \<and> x = None then out = CompletionReplied ''advance_phase'' \<and> st' = st2
      else if targets = [] \<and> has_in_flight_attempts run then out = CompletionReplied ''abort_malformed'' \<and> st' = st1
      else (\<exists>v p. out = CompletionEnded v ''aborted'' \<and> run_by_id (rd_id run) (as_runs st') = Some p \<and> rn_state p = ''aborted''))"

lemma end_aborts:
  assumes "run_by_id i (as_runs st) = Some d"
  shows "\<exists>st' p. end_stored env ops ''aborted'' reason v i now st = (CompletionEnded v ''aborted'', st') \<and>
    run_by_id i (as_runs st') = Some p \<and> rn_state p = ''aborted''"
proof -
  obtain row where row: "row_by_id i (as_runs st) = Some row" "lr_doc row = d"
    using assms by (auto simp: run_by_id_def)
  have "rn_id (set_terminal ''aborted'' why now d) = i" for why
    using run_by_id_Some [OF assms] by (simp add: set_terminal_def)
  then show ?thesis
    using row assms by (simp add: end_stored_def end_by_id_def run_by_id_put Let_def) (simp add: set_terminal_def)
qed

lemma cleanup_cleans:
  assumes "run_by_id (rd_id run) (as_runs st1) = Some p"
    and "cleanup_stored env ops wkf AbortMalformed reason run now st1 = (out, st')"
  shows "cleaned_up env ops wkf run now st1 out st'"
proof -
  let ?targets = "all_ready_dispatch_targets wkf run AbortMalformed"
  obtain x st2 where fwd: "dispatch_stored env ops wkf ?targets run now st1 = (x, st2)" by fastforce
  then have "only_changes (rd_id run) (as_runs st1) (as_runs st2)"
    unfolding dispatch_stored_def dispatch_targets_def by (rule phases_only)
  note ids = only_changes_ids [OF this]
  have "rd_id run \<in> set (map (\<lambda>r. rn_id (lr_doc r)) (as_runs st1))"
    using assms(1) row_by_id_None [of "rd_id run" "as_runs st1"] by (auto simp: run_by_id_def)
  then have "row_by_id (rd_id run) (as_runs st2) \<noteq> None"
    unfolding row_by_id_None ids by simp
  then obtain p2 where p2: "run_by_id (rd_id run) (as_runs st2) = Some p2" by (auto simp: run_by_id_def)
  show ?thesis
  proof (cases "?targets = []")
    case True
    obtain st3 q where "end_stored env ops ''aborted'' (Some reason) ''abort_malformed'' (rd_id run) now st1 =
        (CompletionEnded ''abort_malformed'' ''aborted'', st3)" "run_by_id (rd_id run) (as_runs st3) = Some q" "rn_state q = ''aborted''"
      using end_aborts [OF assms(1)] by blast
    with assms(2) True show ?thesis
      by (auto simp: cleanup_stored_def cleaned_up_def Let_def case_prod_beta split: if_splits)
  next
    case False
    show ?thesis
    proof (cases x)
      case None
      with assms(2) fwd False show ?thesis by (simp add: cleanup_stored_def cleaned_up_def)
    next
      case (Some y)
      let ?why = "Some (reason @ ''; cleanup_dispatch_failed: '' @ ce_forward env y)"
      obtain st3 q where "end_stored env ops ''aborted'' ?why ''abort_malformed'' (rd_id run) now st2 =
          (CompletionEnded ''abort_malformed'' ''aborted'', st3)" "run_by_id (rd_id run) (as_runs st3) = Some q" "rn_state q = ''aborted''"
        using end_aborts [OF p2] by blast
      with assms(2) fwd False Some show ?thesis by (simp add: cleanup_stored_def cleaned_up_def)
    qed
  qed
qed

text \<open>
  C9: A retry whose launch fails leaves its new cycle behind. The run that was to be retried is
  cleaned up: its phases for a failed run are dispatched, or it waits for phases still running, or
  it is aborted. But the cycle that was already created and started stays in progress as it was.
  As long as it is active a dispatch of the issue changes nothing: any documents may have been
  written since, provided rows keep their identity, issue and creation time, no further run of the
  issue has been added, and at the retry no run had a later creation time than its time.
\<close>
theorem failed_retry_leaves_cycle:
  assumes "route_stored env ops wkf drn Retry failing run now st = (out, st')"
    and "retry_stored env ops wkf failing run now st = (Some e, st1)"
    and "run_by_id (ce_fresh env run) (as_runs st) = None"
    and "run_by_id (ce_fresh env run) (as_runs st1) = Some d" and "rn_state d \<noteq> ''queued''"
    and "\<forall>r \<in> set (as_runs st). lr_created r \<le> now"
  shows "out \<noteq> CompletionReplied ''retry'' \<and> cleaned_up env ops wkf run now st1 out st' \<and>
    run_by_id (ce_fresh env run) (as_runs st') = Some d \<and> rn_state d = ''in_progress'' \<and>
    (\<forall>later rows added d2 q.
       as_runs later = rows @ added \<longrightarrow> list_all2 kept_row (as_runs st') rows \<longrightarrow>
       issue_runs (rn_project d) (rn_issue d) added = [] \<longrightarrow>
       run_by_id (ce_fresh env run) (as_runs later) = Some d2 \<longrightarrow> is_active_issue_run_state (rn_state d2) \<longrightarrow>
       dq_project q = rn_project d \<longrightarrow> dq_issue q = rn_issue d \<longrightarrow>
       (\<exists>x. dispatch_run env2 ops2 q holder i2 now2 app db later = (x, later) \<and> (\<forall>a j. x \<noteq> Inr (Answered a j))))"
proof -
  let ?j = "ce_fresh env run" and ?reason = "''retry_dispatch_failed: '' @ ce_retry env e"
  obtain r p where r: "as_runs st1 = mark_recycled (rd_id run) now (as_runs st) @ [r]" "lr_doc r = d" "lr_created r = now"
    "rn_state d = ''in_progress''" "rd_id run \<noteq> ?j" and p: "run_by_id (rd_id run) (as_runs st1) = Some p"
    by (rule retry_row [OF assms(2-5)])
  have clean: "cleanup_stored env ops wkf AbortMalformed ?reason run now st1 = (out, st')"
    using assms(1,2) by (simp add: route_stored_def)
  then have only: "only_changes (rd_id run) (as_runs st1) (as_runs st')"
    using cleanup_only [of run st1 env ops wkf AbortMalformed ?reason now] by simp
  have kept: "run_by_id ?j (as_runs st') = Some d"
    using only_changes_other [OF only r(5) [symmetric]] assms(4) by simp
  have "out \<noteq> CompletionReplied ''retry''"
    using clean by (auto simp: cleanup_stored_def end_stored_def Let_def split: if_splits option.splits prod.splits)
  have id: "rn_id d = ?j" using assms(4) by (rule run_by_id_Some)
  with only r obtain u where u: "as_runs st' = u @ [r]"
    by (fastforce simp: only_changes_def list_all2_append1 list_all2_Cons1 same_row_def)
  have "map lr_created (as_runs st') = map lr_created (as_runs st) @ [now]"
    using only_changes_created [OF only] by (simp add: r mark_recycled_def comp_def if_distrib cong: if_cong)
  then have "set (map lr_created u) = set (map lr_created (as_runs st))" by (simp add: u)
  then have old: "\<forall>x \<in> set u. lr_created x \<le> lr_created r" using assms(6) r(3) by (metis image_iff image_set)
  have ids: "map (\<lambda>r. rn_id (lr_doc r)) u = map (\<lambda>r. rn_id (lr_doc r)) (as_runs st)"
    using only_changes_ids [OF only] by (simp add: r u mark_recycled_def comp_def if_distrib cong: if_cong)
  have "?j \<notin> set (map (\<lambda>r. rn_id (lr_doc r)) u)"
    using assms(3) row_by_id_None [of ?j "as_runs st"] unfolding ids by (simp add: run_by_id_def)
  then have others: "\<forall>x \<in> set u. rn_id (lr_doc x) \<noteq> ?j" by (auto simp: image_iff)
  have "\<exists>x. dispatch_run env2 ops2 q holder i2 now2 app db later = (x, later) \<and> (\<forall>a j. x \<noteq> Inr (Answered a j))"
    if later: "as_runs later = rows @ added" "list_all2 kept_row (as_runs st') rows"
      "issue_runs (rn_project d) (rn_issue d) added = []" "run_by_id ?j (as_runs later) = Some d2"
      "is_active_issue_run_state (rn_state d2)" "dq_project q = rn_project d" "dq_issue q = rn_issue d"
    for later rows added d2 q
  proof -
    have "last_run_state (rn_project d) (rn_issue d) (rows @ added) = optional_text (rn_state d2)"
      using later(1-4) old r(2) id
      by (intro later_state [OF _ others]) (auto simp: u issue_runs_def)
    then have "is_active_issue_run_state (trim_space (last_run_state (dq_project q) (dq_issue q) (as_runs later)))"
      using active_text [OF later(5)] by (simp add: later(1,6,7))
    moreover obtain x st2 where "dispatch_run env2 ops2 q holder i2 now2 app db later = (x, st2)" by fastforce
    ultimately show ?thesis using active_refused by blast
  qed
  then show ?thesis
    using kept r(4) \<open>out \<noteq> _\<close> cleanup_cleans [OF p clean] by blast
qed

section \<open>Closing the issue\<close>

lemma end_passed:
  assumes "end_stored env ops es reason v i now st = (CompletionEnded v' ''passed'', st')"
  shows "es = ''passed'' \<and> v' = v \<and>
    (\<exists>r. row_by_id i (as_runs st) = Some r \<and> as_runs st' = put_run i (set_terminal ''passed'' (end_reason (lr_doc r) (pv_schema (ce_phase env) (lr_doc r)) ''passed'' reason) now (lr_doc r)) (as_runs st))"
  using assms by (auto simp: end_stored_def end_by_id_def Let_def split: option.splits)

lemma aborted_not_passed [simp]: "fst (end_stored env ops ''aborted'' reason v i now st) \<noteq> CompletionEnded v' ''passed''"
  by (auto simp: end_stored_def Let_def split: prod.split)

lemma cleanup_not_passed [simp]: "fst (cleanup_stored env ops wkf v reason run now st) \<noteq> CompletionEnded v' ''passed''"
  by (simp add: cleanup_stored_def Let_def split: prod.split option.split)

lemma abort_not_passed [simp]: "fst (abort_stored env ops wkf drn v run now st) \<noteq> CompletionEnded v' ''passed''"
  by (simp add: abort_stored_def Let_def split: prod.split option.split)

lemma advance_passed:
  assumes "advance_stored env ops wkf drn run now st = (CompletionEnded v ''passed'', st')"
  shows "(\<exists>n. rd_pr_number run = Some n \<and> 1 \<le> n) \<and>
    end_stored env ops ''passed'' None ''advance'' (rd_id run) now st = (CompletionEnded v ''passed'', st')"
proof -
  have out: "fst (advance_stored env ops wkf drn run now st) = CompletionEnded v ''passed''" using assms by simp
  have no_targets: "all_ready_dispatch_targets wkf run Advance = []" "\<not> has_in_flight_attempts run"
    using out by (auto simp: advance_stored_def Let_def split: prod.splits option.splits if_splits)
  then have "advance_stored env ops wkf drn run now st = finish_stored env ops wkf drn run now st"
    by (simp add: advance_stored_def)
  moreover from this out have "latest_abort_decision run = None" "\<not> (case rd_pr_number run of None \<Rightarrow> True | Some n \<Rightarrow> n < 1)"
    by (auto simp: finish_stored_def split: option.splits if_splits)
  ultimately show ?thesis
    using assms by (auto simp: finish_stored_def not_less split: option.splits)
qed

lemma route_passed:
  assumes "route_stored env ops wkf drn verdict failing run now st = (CompletionEnded v ''passed'', st')"
  shows "advance_stored env ops wkf drn run now st = (CompletionEnded v ''passed'', st')"
proof -
  have out: "fst (route_stored env ops wkf drn verdict failing run now st) = CompletionEnded v ''passed''" using assms by simp
  then have "verdict = Advance"
    by (cases verdict) (auto simp: route_stored_def split: prod.splits option.splits)
  with assms show ?thesis by (simp add: route_stored_def)
qed

lemma promote_issue [simp]:
  "rn_issue (foldl promote_output d m) = rn_issue d" "rn_project (foldl promote_output d m) = rn_project d"
proof -
  have one: "rn_issue (promote_output d kv) = rn_issue d" "rn_project (promote_output d kv) = rn_project d" for d kv
    by (simp_all add: promote_output_def Let_def)
  show "rn_issue (foldl promote_output d m) = rn_issue d" "rn_project (foldl promote_output d m) = rn_project d"
    by (induction m arbitrary: d) (simp_all add: one)
qed

lemma complete_passed:
  assumes "complete_stored env ops i p now st = (CompletionEnded v ''passed'', st')"
  shows "v = ''advance'' \<and> (\<exists>d n. run_by_id i (as_runs st') = Some d \<and> rn_state d = ''passed'' \<and> rn_pr d = Some n \<and> 1 \<le> n)"
proof -
  obtain runs where patch: "patch_run i (stamp_run_completion (ce_add env) p now) (as_runs st) = Inr runs"
    using assms by (auto simp: complete_stored_def split: sum.splits option.splits)
  obtain d d1 where d1: "stamp_run_completion (ce_add env) p now d = Inr d1" "run_by_id i runs = Some d1" "rn_id d1 = i"
    by (rule patch_run_Inr [OF patch]) (use stamp_keeps_row in auto)
  let ?run = "replay_data d1"
  from assms patch d1(2) have "decide_stored env ops p ?run now (st\<lparr>as_runs := runs\<rparr>) = (CompletionEnded v ''passed'', st')"
    by (simp add: complete_stored_def)
  then obtain wkf drn verdict failing where
    "route_stored env ops wkf drn verdict failing
       (with_stamped_decision ?run (at_index (last (rd_attempts ?run))) verdict \<lparr>cp_conclusion = jp_conclusion p, cp_outputs = jp_outputs p\<rparr>) now
       (st\<lparr>as_runs := put_run i (stamp_run_decision (decision_str verdict) now d1) runs\<rparr>) = (CompletionEnded v ''passed'', st')"
    using d1(2,3) by (auto simp: decide_stored_def patch_run_def Let_def split: option.splits if_splits sum.splits)
  from advance_passed [OF route_passed [OF this]] d1(3) obtain n where n: "rn_pr d1 = Some n" "1 \<le> n"
    and end_it: "end_stored env ops ''passed'' None ''advance'' i now
       (st\<lparr>as_runs := put_run i (stamp_run_decision (decision_str verdict) now d1) runs\<rparr>) = (CompletionEnded v ''passed'', st')"
    by auto
  have stored: "run_by_id i (put_run i (stamp_run_decision (decision_str verdict) now d1) runs) = Some (stamp_run_decision (decision_str verdict) now d1)"
    using d1 by (simp add: run_by_id_put)
  from end_passed [OF end_it] obtain r where r: "v = ''advance''" "row_by_id i (put_run i (stamp_run_decision (decision_str verdict) now d1) runs) = Some r"
    "as_runs st' = put_run i (set_terminal ''passed'' (end_reason (lr_doc r) (pv_schema (ce_phase env) (lr_doc r)) ''passed'' None) now (lr_doc r))
       (put_run i (stamp_run_decision (decision_str verdict) now d1) runs)" by auto
  have "lr_doc r = stamp_run_decision (decision_str verdict) now d1" using stored r(2) by (simp add: run_by_id_def)
  with r(3) stored d1(3) n show ?thesis
    by (simp add: run_by_id_put set_terminal_def stamp_run_decision_def edit_last_def r(1))
qed

text \<open>
  C10: The completion of a phase closes an issue only with a run that has passed: when it does, the
  answer is that the run has ended as passed, the stored run has passed with a pull request linked,
  its workflow has a review gate, and just the issue of this run is closed.
\<close>
theorem issue_closed_only_when_passed:
  assumes "process_run_completion env ops i p now app db cs = (out, cs')" and "cs_closed cs' \<noteq> cs_closed cs"
  shows "out = CompletionEnded ''advance'' ''passed'' \<and>
    (\<exists>d n. run_by_id i (as_runs (snd (complete_stored (fe_completion env) ops i p now (cs_store cs)))) = Some d \<and>
       rn_state d = ''passed'' \<and> rn_pr d = Some n \<and> 1 \<le> n) \<and>
    (\<exists>d wkf. run_by_id i (as_runs (cs_store cs)) = Some d \<and> 0 < rn_issue d \<and>
       workflow_for_run (ce_scripts (fe_completion env)) (ce_tables (fe_completion env)) (replay_data d) = Some wkf \<and>
       (\<exists>q \<in> set (wf_phases wkf). phase_purpose q = ''review_gate'') \<and>
       cs_closed cs' = cs_closed cs @ [(rn_project d, rn_issue d)])"
proof -
  obtain st where st: "complete_stored (fe_completion env) ops i p now (cs_store cs) = (out, st)"
    using assms(1) by (auto simp: process_run_completion_def Let_def split: prod.splits completion_outcome.splits option.splits)
  obtain v es d where d: "out = CompletionEnded v es" "run_by_id i (as_runs (cs_store cs)) = Some d"
    "cs' = after_end env ops es (replay_data d) now app db (cs\<lparr>cs_store := st\<rparr>)"
    using assms st by (auto simp: process_run_completion_def Let_def split: completion_outcome.splits option.splits)
  with assms(2) have closed_by: "es = ''passed''" "cs_closed cs' = close_issue (workflow_for_run (ce_scripts (fe_completion env))
      (ce_tables (fe_completion env)) (replay_data d)) (replay_data d) (cs_closed cs)"
    by (auto simp: after_end_def Let_def split: prod.splits if_splits)
  have passed: "out = CompletionEnded v ''passed''" by (simp only: d(1) closed_by(1))
  from closed_by(2) assms(2) obtain wkf where "0 < rn_issue d"
    "workflow_for_run (ce_scripts (fe_completion env)) (ce_tables (fe_completion env)) (replay_data d) = Some wkf"
    "\<exists>q \<in> set (wf_phases wkf). phase_purpose q = ''review_gate''" "cs_closed cs' = cs_closed cs @ [(rn_project d, rn_issue d)]"
    by (auto simp: close_issue_def list_ex_iff split: if_splits option.splits)
  with complete_passed [OF st [unfolded passed]] passed st d(2) show ?thesis by auto
qed

end
