(* ===== verification/ReviewOutcomes.thy ===== *)
theory ReviewOutcomes
  imports SignalSafety StoredRouting RoutingSafety
begin

text \<open>
  What an approval and a cancellation do to a run parked at its review gate, and what repeating
  them does: an approval whose launch fails is not repaired by another one, a decision cannot be
  recorded twice, and a padded pull request number is accepted but never acted on.
\<close>

section \<open>The parked attempt\<close>

lemma indexed_member:
  assumes "map ad_index as = map int [0..<length as]" "a \<in> set as"
  shows "0 \<le> ad_index a \<and> ad_index a < int (length as) \<and> as ! nat (ad_index a) = a"
proof -
  obtain k where k: "k < length as" "a = as ! k" using assms(2) by (auto simp: in_set_conv_nth)
  have "ad_index a = int k" using arg_cong [OF assms(1), of "\<lambda>l. l ! k"] k by simp
  with k show ?thesis by simp
qed

lemma parked_gate_open:
  assumes "run_doc_ok d" "rn_state d = ''review_required''" "parked_attempt (replay_data d) phase = Some i"
  shows "gate_open phase i d"
proof -
  obtain a where a: "find (\<lambda>a. at_phase a = phase \<and> \<not> at_completed a \<and> at_decision a = []) (rev (rd_attempts (replay_data d))) = Some a"
      "i = at_index a"
    using assms(3) by (auto simp: parked_attempt_def)
  from find_result_in [OF a(1)] obtain b where b: "b \<in> set (rn_attempts d)" "a = replay_attempt b" "at_phase a = phase" "\<not> at_completed a"
    by (auto simp: replay_data_def)
  with indexed_member [of "rn_attempts d" b] assms(1) a(2) show ?thesis
    by (simp add: gate_open_def assms(2) run_doc_ok_def replay_attempt_def)
qed

lemma released_parts:
  assumes "release_gate phase i now d = Inr d'"
  shows "rn_id d' = rn_id d \<and> rn_state d' = ''in_progress'' \<and> gate_open phase i d \<and>
    length (rn_attempts d') = length (rn_attempts d) \<and> attempt_doc.ad_kind (rn_attempts d' ! nat i) = ''k8s_job'' \<and>
    attempt_doc.ad_phase (rn_attempts d' ! nat i) = phase \<and> ad_completed (rn_attempts d' ! nat i) = []"
  using assms by (auto simp: release_gate_def edit_at_def gate_open_def split: if_splits)

lemma lease_failure_runs:
  assumes "launch_on_lease env ops pv p run started i inputs skipped now st = (Some e, st')"
  shows "as_runs st' = as_runs st"
  using assms by (auto simp: launch_on_lease_def Let_def split: sum.splits prod.splits if_splits)

section \<open>Approving\<close>


lemma not_parked:
  assumes "rd_state run \<noteq> ''review_required''"
  shows "release_review_gate de ops pv s run gate now ss = (None, ss)"
    "cancel_review_gate de ops pv s run wkf gate feedback now ss = (None, ss)"
  using assms by (simp_all add: release_review_gate_def cancel_review_gate_def)

lemma gate_launch_failed:
  assumes "launch_gate_merge env ops pv scr run gate now st = (Some (GateNotLaunched x), st')"
  shows "\<exists>i d d'. parked_attempt run (ps_name gate) = Some i \<and> run_by_id (rd_id run) (as_runs st) = Some d \<and>
    release_gate (ps_name gate) i now d = Inr d' \<and> as_runs st' = put_run (rd_id run) d' (as_runs st)"
  using assms
  by (auto simp: launch_gate_merge_def patch_run_def dest: lease_failure_runs
      split: if_splits option.splits sum.splits prod.splits)

text \<open>
  An approval whose merge job cannot be launched leaves the gate released: the signal fails,
  but the run is in progress with the gate's attempt open and nothing running for it, and every
  later approval or cancellation of the run succeeds without doing anything.
\<close>
theorem failed_approval_not_repaired:
  assumes "release_review_gate de ops pv s run gate now ss = (Some (GateNotLaunched x), ss')"
  shows "\<exists>i d. parked_attempt run (ps_name gate) = Some i \<and> run_by_id (rd_id run) (as_runs (ss_store ss')) = Some d \<and>
    rn_state d = ''in_progress'' \<and> attempt_doc.ad_phase (rn_attempts d ! nat i) = ps_name gate \<and>
    ad_completed (rn_attempts d ! nat i) = [] \<and>
    release_review_gate de ops pv s2 (replay_data d) gate2 later ss' = (None, ss') \<and>
    cancel_review_gate de ops pv s2 (replay_data d) wkf gate2 feedback later ss' = (None, ss')"
proof -
  obtain ss1 st where launch: "launch_gate_merge (dp_admission (de_dispatch de)) ops pv (dp_scripts (de_dispatch de)) run gate now
      (ss_store ss1) = (Some (GateNotLaunched x), st)" "ss' = ss1\<lparr>ss_store := st\<rparr>"
    using assms by (auto simp: release_review_gate_def split: if_splits option.splits prod.splits)
  obtain i d d' where d: "parked_attempt run (ps_name gate) = Some i" "run_by_id (rd_id run) (as_runs (ss_store ss1)) = Some d"
      "release_gate (ps_name gate) i now d = Inr d'" "as_runs st = put_run (rd_id run) d' (as_runs (ss_store ss1))"
    using gate_launch_failed [OF launch(1)] by blast
  have id: "rn_id d' = rd_id run" using released_parts [OF d(3)] run_by_id_Some [OF d(2)] by simp
  have "run_by_id (rd_id run) (as_runs (ss_store ss')) = Some d'"
    using d(2,4) id by (simp add: launch(2) run_by_id_put)
  moreover have "rd_state (replay_data d') \<noteq> ''review_required''"
    using released_parts [OF d(3)] by (simp add: replay_data_def)
  ultimately show ?thesis using d(1) released_parts [OF d(3)] not_parked by blast
qed

section \<open>Recording a decision twice\<close>

lemma signal_of_event:
  assumes "same_event (review_event r) (review_event r2)"
  shows "rw_signal r = rw_signal r2"
proof -
  have "canonical_value (VMap (ew_meta (review_event r))) = canonical_value (VMap (ew_meta (review_event r2)))"
    using assms by (simp add: same_event_def)
  then have "sort_key fst (map (\<lambda>(k, v). (k, canonical_value v)) (ew_meta (review_event r))) =
      sort_key fst (map (\<lambda>(k, v). (k, canonical_value v)) (ew_meta (review_event r2)))"
    by (simp only: canonical_value.simps goval.inject)
  from arg_cong [OF this, of set] have
    same: "(\<lambda>(k, v). (k, canonical_value v)) ` set (ew_meta (review_event r)) =
      (\<lambda>(k, v). (k, canonical_value v)) ` set (ew_meta (review_event r2))"
    by (simp only: set_sort set_map)
  have meta: "(\<lambda>(k, v). (k, canonical_value v)) ` set (ew_meta (review_event q)) =
      {(''actor'', VStr (rw_actor q)), (''decision'', VStr (trim_space (rw_decision q))),
       (''signal_id'', VStr (rw_signal q)), (''feedback'', VStr (rw_feedback q))}" for q
  proof -
    have "ew_meta (review_event q) =
        [(''actor'', VStr (rw_actor q)), (''decision'', VStr (trim_space (rw_decision q))),
         (''signal_id'', VStr (rw_signal q)), (''feedback'', VStr (rw_feedback q))]"
      by (simp add: review_event_def Let_def)
    then show ?thesis
      by (simp only: list.set image_insert image_empty case_prod_conv canonical_value.simps)
  qed
  have "(''signal_id'', VStr (rw_signal r)) \<in> (\<lambda>(k, v). (k, canonical_value v)) ` set (ew_meta (review_event r))"
    unfolding meta by (rule insertI2, rule insertI2, rule insertI1)
  then have "(''signal_id'', VStr (rw_signal r)) \<in> (\<lambda>(k, v). (k, canonical_value v)) ` set (ew_meta (review_event r2))"
    unfolding same .
  then show ?thesis unfolding meta by simp
qed

text \<open>
  A decision about an attempt can be recorded from one signal only: the same decision from
  another signal is refused because the ledger already has its event, yet the stamp on the run is
  overwritten first, so the run then names an author and a time the ledger does not have.
\<close>
theorem review_recorded_once:
  assumes "record_review_decision i r now ss = (None, ss1)"
    and "rw_attempt r2 = rw_attempt r" and "trim_space (rw_decision r2) = trim_space (rw_decision r)"
    and "rw_signal r2 \<noteq> rw_signal r"
    and "ss_events ss2 i = ss_events ss1 i" and "run_by_id i (as_runs (ss_store ss2)) \<noteq> None"
  shows "\<exists>ss3. record_review_decision i r2 later ss2 = (Some ReviewConflict, ss3) \<and> ss_events ss3 = ss_events ss2 \<and>
    ss_reviews ss3 i = Some \<lparr>rs_actor = rw_actor r2, rs_at = later, rs_decision = trim_space (rw_decision r2)\<rparr>"
proof -
  let ?key = "(rw_attempt r, ''review-decision-'' @ trim_space (rw_decision r), 0)"
  have "trim_space (rw_decision r) \<noteq> [] \<and> (\<exists>row. ss_events ss1 i ?key = Some row \<and> (row = review_event r \<or> same_event row (review_event r)))"
    using assms(1)
    by (auto simp: record_review_decision_def insert_event_def Let_def
        split: if_splits sum.splits insert_outcome.splits option.splits)
  then obtain row where row: "trim_space (rw_decision r) \<noteq> []" "ss_events ss1 i ?key = Some row"
      "row = review_event r \<or> same_event row (review_event r)" by blast
  have "\<not> same_event row (review_event r2)"
  proof
    assume "same_event row (review_event r2)"
    with row(3) have "same_event (review_event r) (review_event r2)" by (auto simp: same_event_def)
    with signal_of_event assms(4) show False by metis
  qed
  then have "insert_event (rw_attempt r2, ''review-decision-'' @ trim_space (rw_decision r2), 0) (review_event r2) (ss_events ss2 i)
      = ConflictingEvent"
    using row(2) assms(2,3,5) by (simp add: insert_event_def)
  then show ?thesis
    using assms(3,6) row(1) by (auto simp: record_review_decision_def patch_run_def Let_def)
qed

section \<open>Padded numbers\<close>

lemma atoi_blank: "atoi (CHR '' '' # t) = None"
  by (simp add: atoi_def is_digit_def between_def byte_of_def)

text \<open>
  A pull request number with a blank before it passes the check of the interface, which trims it,
  and is stored as it is; the drain does not trim, so whatever the signal asks for, it is never
  looked up as a pull request.
\<close>
theorem padded_target_never_acted_on:
  assumes "create_signal refs i when_at actor q tbl = Inr (s, tbl')"
    and "sq_type q = ''pr''" and "sq_ref q = CHR '' '' # t"
  shows "valid_pr_target (sq_repo q) (sq_ref q) \<and>
    decide_triage re runs s \<in> {Inr (TriageIgnore None), Inr (TriageNoRun NotPositiveNumber)}"
proof
  have "check_signal q = None" using assms(1) by (auto simp: create_signal_def split: option.splits)
  then show "valid_pr_target (sq_repo q) (sq_ref q)"
    using assms(2) by (auto simp: check_signal_def reject_def split: if_splits)
  have "sg_target s = CHR '' '' # t"
    using assms by (auto simp: create_signal_def enqueue_signal_def signal_target_def Let_def split: option.splits if_splits)
  then show "decide_triage re runs s \<in> {Inr (TriageIgnore None), Inr (TriageNoRun NotPositiveNumber)}"
    by (simp add: decide_triage_def atoi_blank)
qed

section \<open>Cancelling\<close>

lemma cancelled_parts:
  assumes "cancel_gate phase i reason now d = Inr d'"
  shows "rn_id d' = rn_id d \<and> rn_state d' = ''in_progress'' \<and> rn_slot_lease d' = rn_slot_lease d \<and> rn_project d' = rn_project d \<and>
    length (rn_attempts d') = length (rn_attempts d) \<and> ad_decision (rn_attempts d' ! nat i) = ''abort_requested'' \<and>
    ad_conclusion (rn_attempts d' ! nat i) = ''cancelled'' \<and> ad_completed (rn_attempts d' ! nat i) = now"
  using assms by (auto simp: cancel_gate_def edit_at_def gate_open_def cancelled_attempt_def split: if_splits)

lemma abort_decision_iff: "run_has_abort_decision r \<longleftrightarrow> (\<exists>a \<in> set (rd_attempts r). is_abort_decision (at_decision a))"
  by (auto simp: run_has_abort_decision_def latest_abort_decision_def find_None_iff)

definition adds_teardown :: "workflow \<Rightarrow> run_data \<Rightarrow> run_data \<Rightarrow> bool" where
  "adds_teardown wkf r r' \<longleftrightarrow>
     (\<exists>new. map at_phase (rd_attempts r') = map at_phase (rd_attempts r) @ new \<and>
        (\<forall>ph \<in> set new. \<exists>p \<in> set (wf_phases wkf). ps_name p = ph \<and> phase_purpose p = ''teardown'')) \<and>
     (run_has_abort_decision r \<longrightarrow> run_has_abort_decision r')"

lemma adds_teardown_refl [simp]: "adds_teardown wkf r r"
  by (simp add: adds_teardown_def)

lemma adds_teardown_trans: "adds_teardown wkf a b \<Longrightarrow> adds_teardown wkf b c \<Longrightarrow> adds_teardown wkf a c"
  by (auto simp: adds_teardown_def)

lemma one_teardown:
  assumes "dispatch_one launch wkf p snap r = step" "p \<in> set (wf_phases wkf)" "phase_purpose p = ''teardown''"
  shows "adds_teardown wkf r (case step of DispatchFailed e r' \<Rightarrow> r' | DispatchSettled r' \<Rightarrow> r' | DispatchSkipped r' \<Rightarrow> r')"
  using assms
  by (auto simp: dispatch_one_def start_phase_def Let_def record_jobs_skipped_def stamp_latest_skipped_def append_attempt_def
      park_at_review_gate_def adds_teardown_def abort_decision_iff split: if_splits sum.splits when_outcome.splits option.splits)

lemma phases_teardown:
  "run_has_abort_decision stored \<Longrightarrow> \<forall>p \<in> set ps. p \<in> set (wf_phases wkf) \<and> phase_purpose p = ''teardown'' \<Longrightarrow>
     adds_teardown wkf stored (snd (dispatch_phases fuel launch wkf ps snap stored))"
proof (induction fuel launch wkf ps snap stored rule: dispatch_phases.induct)
  case (3 fuel launch wkf p ps snap stored)
  obtain step where step: "dispatch_one launch wkf p snap stored = step" by blast
  note one = one_teardown [OF step]
  show ?case
  proof (cases step)
    case (DispatchFailed e r)
    with step one "3.prems"(2) show ?thesis by simp
  next
    case (DispatchSettled r)
    with one "3.prems" have r: "adds_teardown wkf stored r" "run_has_abort_decision r" by (auto simp: adds_teardown_def)
    from "3.IH"(1) [OF step [unfolded DispatchSettled] r(2)] "3.prems"(2) adds_teardown_trans [OF r(1)] step DispatchSettled
    show ?thesis by simp
  next
    case (DispatchSkipped r)
    with one "3.prems" have r: "adds_teardown wkf stored r" "run_has_abort_decision r" by (auto simp: adds_teardown_def)
    have ts: "\<forall>p \<in> set (all_ready_dispatch_targets wkf r Advance). p \<in> set (wf_phases wkf) \<and> phase_purpose p = ''teardown''"
      using abort_phase_sound [of "wf_phases wkf" r] r(2)
      by (auto simp: abort_targets phase_runs_on_abort_path_def split: option.splits if_splits)
    obtain e2 run2 where two: "dispatch_phases fuel launch wkf (all_ready_dispatch_targets wkf r Advance) r r = (e2, run2)" by fastforce
    with "3.IH"(2) [OF step [unfolded DispatchSkipped] r(2) ts] have run2: "adds_teardown wkf r run2" by simp
    then have ab: "run_has_abort_decision run2" using r(2) by (simp add: adds_teardown_def)
    show ?thesis
    proof (cases e2)
      case None
      from "3.IH"(3) [OF step [unfolded DispatchSkipped] two [symmetric] None ab] "3.prems"(2)
        adds_teardown_trans [OF r(1) adds_teardown_trans [OF run2]] step DispatchSkipped two None
      show ?thesis by simp
    next
      case (Some x)
      with step DispatchSkipped two adds_teardown_trans [OF r(1) run2] show ?thesis by simp
    qed
  qed
qed simp_all

lemma cancelled_abort:
  assumes "cancel_gate phase i reason now d = Inr d'"
  shows "run_has_abort_decision (replay_data d')"
proof -
  have "nat i < length (rn_attempts d')" "ad_decision (rn_attempts d' ! nat i) = ''abort_requested''"
    using assms by (auto simp: cancel_gate_def gate_open_def edit_at_def cancelled_attempt_def split: if_splits)
  then have "\<exists>a \<in> set (rn_attempts d'). ad_decision a = ''abort_requested''" using nth_mem by blast
  then show ?thesis
    by (auto simp: abort_decision_iff replay_data_def replay_attempt_def is_abort_decision_def)
qed

text \<open>
  C23: A cancelled review only tears down: whatever the drain then dispatches, every attempt it
  adds is of a teardown phase of the workflow, neither the gate's merge nor any other phase runs;
  and when there is no teardown to dispatch the run is aborted at once with the reviewer's reason.
\<close>
theorem cancelled_review_tears_down:
  assumes "cancel_gate phase i reason now d0 = Inr d" and "run_by_id (rd_id reviewed) (as_runs st) = Some d"
    and "launches_as env ops pv (rn_slot_lease d) P verdict" and "P (as_leases st)" and "now \<noteq> []"
    and "drive_teardown env ops pv reviewed wkf reason now st = (e, st')" and "trim_space reason \<noteq> []"
  shows "\<exists>d'. run_by_id (rd_id reviewed) (as_runs st') = Some d' \<and>
    (\<exists>new. map attempt_doc.ad_phase (rn_attempts d') = map attempt_doc.ad_phase (rn_attempts d) @ new \<and>
       (\<forall>ph \<in> set new. \<exists>p \<in> set (wf_phases wkf). ps_name p = ph \<and> phase_purpose p = ''teardown'')) \<and>
    (all_ready_dispatch_targets wkf (replay_data d) AbortRequested = [] \<longrightarrow>
       e = None \<and> rn_state d' = ''aborted'' \<and> rn_abort d' = Some reason)"
proof -
  let ?i = "rd_id reviewed" and ?targets = "all_ready_dispatch_targets wkf (replay_data d) AbortRequested"
  have id: "rn_id d = ?i" using assms(2) by (rule run_by_id_Some)
  then have rid: "rd_id (replay_data d) = ?i" by (simp add: replay_data_def)
  have abort: "run_has_abort_decision (replay_data d)" by (rule cancelled_abort [OF assms(1)])
  show ?thesis
  proof (cases "?targets = []")
    case True
    obtain r where r: "row_by_id ?i (as_runs st) = Some r" "lr_doc r = d" using assms(2) by (auto simp: run_by_id_def)
    have "e = None" "as_runs st' = put_run ?i (set_terminal ''aborted'' (Some reason) now d) (as_runs st)"
      using assms(2,6,7) True r by (auto simp: drive_teardown_def end_by_id_def end_reason_def rid Let_def)
    then show ?thesis using assms(2) id by (simp add: run_by_id_put set_terminal_def)
  next
    case False
    obtain x st2 where x: "dispatch_targets env ops pv wkf ?targets (replay_data d) now st = (x, st2)" by fastforce
    have st': "st' = st2" using assms(2,6) False x by (auto simp: drive_teardown_def Let_def split: option.splits)
    obtain y r where y: "dispatch_forward (\<lambda>p _. verdict p) wkf ?targets (replay_data d) (replay_data d) = (y, r)" by fastforce
    obtain d' where d': "run_by_id ?i (as_runs st2) = Some d'" "replay_data d' = as_read r"
      using stored_dispatch_refines_aux [OF assms(3,5,2,4), of wkf ?targets] x y by auto
    have "\<forall>p \<in> set ?targets. p \<in> set (wf_phases wkf) \<and> phase_purpose p = ''teardown''"
      using abort_phase_sound [of "wf_phases wkf" "replay_data d"] abort
      by (auto simp: abort_targets phase_runs_on_abort_path_def split: option.splits if_splits)
    from phases_teardown [OF abort this, of "Suc (length (wf_phases wkf))" "\<lambda>p _. verdict p" "replay_data d"] y obtain new
      where new: "map at_phase (rd_attempts r) = map at_phase (rd_attempts (replay_data d)) @ new"
        "\<forall>ph \<in> set new. \<exists>p \<in> set (wf_phases wkf). ps_name p = ph \<and> phase_purpose p = ''teardown''"
      by (auto simp: dispatch_forward_def adds_teardown_def)
    have "map at_phase (rd_attempts (replay_data d')) = map at_phase (rd_attempts r)" by (simp add: d'(2) comp_def)
    then have "map attempt_doc.ad_phase (rn_attempts d') = map attempt_doc.ad_phase (rn_attempts d) @ new"
      using new(1) by (simp add: replay_data_def replay_attempt_def comp_def)
    with d'(1) new(2) st' False show ?thesis by blast
  qed
qed

end
