(* ===== verification/ReviewExamples.thy ===== *)
theory ReviewExamples
  imports ReviewOutcomes CreationExamples
begin

text \<open>A run parked at its review gate and signals about it, at which the theorems on reviews and on
  the dispatch of stored runs are instantiated.\<close>

section \<open>A parked run\<close>

definition gate_step :: phase_spec where
  "gate_step = (demo_phase ''gate'' [''merge''])\<lparr>ps_purpose := ''review_gate''\<rparr>"

definition gated_workflow :: workflow where
  "gated_workflow = demo_workflow\<lparr>wf_phases := [demo_phase ''work'' [''build''], gate_step]\<rparr>"

definition busy_doc :: run_doc where
  "busy_doc = (demo_run [])\<lparr>rn_id := ''a'', rn_pr := Some 7, rn_slot_lease := Some ''p-1'', rn_budget := Some \<lparr>total = Fin 25\<rparr>\<rparr>"

definition parked_doc :: run_doc where
  "parked_doc = park_run ''gate'' ''k8s_job'' [] ''t2'' busy_doc"

definition parked_row :: ledger_run where
  "parked_row = \<lparr>lr_doc = parked_doc, lr_number = Some 1, lr_cycle = None, lr_is_cycle = False, lr_holder = ''h'', lr_created = ''t1''\<rparr>"

definition parked_store :: "'w \<Rightarrow> 'w admission_state" where
  "parked_store w = \<lparr>as_runs = [parked_row], as_locks = [], as_leases = w\<rparr>"

definition review_signal :: "string \<Rightarrow> string \<Rightarrow> signal_doc" where
  "review_signal i kind =
     \<lparr>sg_id = i, sg_type = ''pr'', sg_repo = ''o/r'', sg_target = ''7'', sg_source = ''glimmung_ui'',
      sg_payload = [(''kind'', VStr kind)], sg_state = ''pending'', sg_actor = ''ann'', sg_enqueued = ''t3'',
      sg_processed = None, sg_decision = None, sg_failure = None\<rparr>"

definition parked_state :: "signal_doc list \<Rightarrow> unit signal_state" where
  "parked_state sigs =
     \<lparr>ss_signals = sigs, ss_store = parked_store (), ss_reviews = Map.empty, ss_events = (\<lambda>_. Map.empty)\<rparr>"

definition demo_policy :: recycle_policy where
  "demo_policy = \<lparr>rc_max_attempts = 0, rc_on = [], rc_lands_at = ''work''\<rparr>"

definition demo_review :: review_env where
  "demo_review =
     \<lparr>re_repo = (\<lambda>_. ''o/r''), re_touched = (\<lambda>_. 0), re_workflow = (\<lambda>_ _. Inr (Some (gated_workflow, Some demo_policy)))\<rparr>"

definition review_drain :: "admission_env \<Rightarrow> drain_env" where
  "review_drain env = \<lparr>de_review = demo_review, de_dispatch = agent_env\<lparr>dp_admission := env\<rparr>, de_fresh = (\<lambda>_. (''h2'', ''b''))\<rparr>"

text \<open>Leases that are there and stay as they are.\<close>

definition held_slot :: "unit lease_ops" where
  "held_slot = no_slots\<lparr>lo_read := (\<lambda>_ _ _. Inr open_lease)\<rparr>"

definition plain_phase_env :: "unit phase_env" where
  "plain_phase_env = \<lparr>pv_metadata = (\<lambda>_ _ _ _ m. m), pv_persist = (\<lambda>_ w. Inr w), pv_schema = (\<lambda>_. None)\<rparr>"

abbreviation parked_run :: run_data where
  "parked_run \<equiv> replay_data parked_doc"

lemma parked_facts:
  "rn_id parked_doc = ''a''" "rn_state parked_doc = ''review_required''" "rd_project parked_run = ''p''"
  "rd_issue_number parked_run = 1" "rd_id parked_run = ''a''" "rn_slot_lease parked_doc = Some ''p-1''"
  "parked_attempt parked_run ''gate'' = Some 0" "gate_open ''gate'' 0 parked_doc"
  by code_simp+

lemma parked_ok: "run_doc_ok parked_doc"
  by (simp add: run_doc_ok_def parked_doc_def park_run_def add_attempt_def new_attempt_def next_index_def busy_doc_def demo_run_def
      mark_phase_review_required_def unplanned_review_def projection_ok_def phase_names_def inner_ok_def good_keys_def inner_keys_def)

lemma parked_row_doc [simp]: "lr_doc parked_row = parked_doc"
  by (simp add: parked_row_def)

lemma parked_alone [simp]: "run_by_id ''a'' [parked_row] = Some parked_doc"
  by (simp add: run_by_id_def row_by_id_def parked_facts)

lemma parked_found [simp]: "run_by_id ''a'' (as_runs (ss_store (parked_state sigs))) = Some parked_doc"
  by (simp add: run_by_id_def row_by_id_def parked_state_def parked_store_def parked_facts)

lemma gate_facts [simp]: "workflow_phase_kind (ps_kind gate_step) = ''k8s_job''" "phase_purpose gate_step = ''review_gate''"
    "ps_name gate_step = ''gate''"
  by code_simp+

section \<open>Signals\<close>

abbreviation no_text :: "signal_error \<Rightarrow> string" where
  "no_text \<equiv> \<lambda>_. ''failed''"

lemma plain_locks [simp]: "as_locks (ss_store (parked_state sigs)) = []" "ss_signals (parked_state sigs) = sigs"
    "as_runs (ss_store (parked_state sigs)) = [parked_row]" "as_leases (ss_store (parked_state sigs)) = ()"
    "ss_events (parked_state sigs) = (\<lambda>_. Map.empty)"
  by (simp_all add: parked_state_def parked_store_def)

lemma review_fields [simp]: "sg_id (review_signal i kind) = i" "sg_state (review_signal i kind) = ''pending''"
    "sg_actor (review_signal i kind) = ''ann''"
  by (simp_all add: review_signal_def)

lemma alone_found [simp]: "signal_by_id i [review_signal i kind] = Some (review_signal i kind)"
  by (simp add: signal_by_id_def)

lemma first_claim: "\<exists>locks. claim_lock k h app db ttl [] = Inr locks"
  by (simp add: claim_lock_def Let_def)

theorem settled_witness:
  "\<exists>out ss'. drain_signal (review_drain launching) no_slots plain_phase_env no_text (review_signal ''s'' ''reject'') ''t4'' 0 0
       (parked_state [review_signal ''s'' ''reject'']) = (out, ss') \<and>
     table_owner (as_locks (ss_store ss')) (signal_lock (review_signal ''s'' ''reject'')) = None"
proof -
  obtain out ss' where run: "drain_signal (review_drain launching) no_slots plain_phase_env no_text (review_signal ''s'' ''reject'')
      ''t4'' 0 0 (parked_state [review_signal ''s'' ''reject'']) = (out, ss')" by fastforce
  obtain locks where "claim_lock (signal_lock (review_signal ''s'' ''reject'')) ''s'' 0 0 signal_lock_ttl [] = Inr locks"
    using first_claim by blast
  with drained_signal_settled [OF run] run show ?thesis by simp
qed

theorem final_witness:
  "\<exists>c ss'. drain_signals (review_drain launching) no_slots plain_phase_env no_text ''t4'' 0 0 0
       (parked_state [(review_signal ''s'' ''reject'')\<lparr>sg_state := ''failed''\<rparr>]) = (c, ss') \<and> ''s'' \<notin> fst ` set (sc_decisions c)"
proof -
  let ?s = "(review_signal ''s'' ''reject'')\<lparr>sg_state := ''failed''\<rparr>"
  obtain c ss' where run: "drain_signals (review_drain launching) no_slots plain_phase_env no_text ''t4'' 0 0 0 (parked_state [?s])
      = (c, ss')" by fastforce
  have "signal_by_id ''s'' (ss_signals (parked_state [?s])) = Some ?s" by (simp add: signal_by_id_def)
  from settled_signals_final [OF run this] run show ?thesis by simp
qed

lemma reject_decided:
  "decide_triage demo_review [parked_row] (review_signal ''s'' ''reject'') =
     Inr (TriageDispatch parked_run gated_workflow (demo_phase ''work'' [''build'']) [])"
proof -
  have target: "atoi (sg_target (review_signal ''s'' ''reject'')) = Some 7" by code_simp
  have found: "find_run_for_pr demo_review (sg_repo (review_signal ''s'' ''reject'')) 7 [parked_row] = Some parked_doc"
  proof -
    have "rn_pr parked_doc = Some 7" by code_simp
    then show ?thesis by (simp add: find_run_for_pr_def demo_review_def review_signal_def)
  qed
  have wanted: "sg_type (review_signal ''s'' ''reject'') = ''pr'' \<and> triage_actionable (review_signal ''s'' ''reject'')"
    "\<not> signal_is_approve (review_signal ''s'' ''reject'')" "\<not> signal_is_cancel (review_signal ''s'' ''reject'')"
    "triage_feedback (review_signal ''s'' ''reject'') = []" by code_simp+
  have changes: "triage_changes gated_workflow (Some demo_policy) parked_run [] =
      TriageDispatch parked_run gated_workflow (demo_phase ''work'' [''build'']) []"
  proof -
    have "phase_spec_by_name (wf_phases gated_workflow) (rc_lands_at demo_policy) = Some (demo_phase ''work'' [''build''])"
      by (simp add: phase_spec_by_name_def gated_workflow_def demo_policy_def demo_phase_def)
    moreover have "float_le (total (rd_budget parked_run)) (Fin 0) \<longleftrightarrow> False" "float_ge (rd_cost parked_run) (total (rd_budget parked_run)) \<longleftrightarrow> False"
      by code_simp+
    ultimately show ?thesis by (simp add: triage_changes_def Let_def demo_policy_def)
  qed
  show ?thesis
    using wanted by (simp add: decide_triage_def target found changes Let_def) (simp add: demo_review_def changes)
qed

theorem changes_refused_witness:
  "\<exists>e ss'. drain_signal (review_drain launching) no_slots plain_phase_env no_text (review_signal ''s'' ''reject'') ''t4'' 0 0
       (parked_state [review_signal ''s'' ''reject'']) = (SignalFailed (Some e), ss') \<and>
     ss_reviews ss' ''a'' = Some \<lparr>rs_actor = ''ann'', rs_at = ''t4'', rs_decision = ''reject''\<rparr>"
proof -
  let ?s = "review_signal ''s'' ''reject''"
  obtain out ss' where run: "drain_signal (review_drain launching) no_slots plain_phase_env no_text ?s ''t4'' 0 0 (parked_state [?s]) = (out, ss')"
    by fastforce
  obtain locks where locks: "claim_lock (signal_lock ?s) (sg_id ?s) 0 0 signal_lock_ttl (as_locks (ss_store (parked_state [?s]))) = Inr locks"
    using first_claim [of "signal_lock ?s" "sg_id ?s" 0 0 signal_lock_ttl] by auto
  have decided: "decide_triage (de_review (review_drain launching)) (as_runs (ss_store (parked_state [?s]))) ?s =
      Inr (TriageDispatch parked_run gated_workflow (demo_phase ''work'' [''build'']) [])"
    using reject_decided by (simp add: review_drain_def)
  have runs: "distinct_runs (as_runs (ss_store (parked_state [?s])))" by (simp add: distinct_runs_def)
  have "last_run_state ''p'' 1 [parked_row] = ''review_required''" by code_simp
  then have last: "last_run_state (rd_project parked_run) (rd_issue_number parked_run) (as_runs (ss_store (parked_state [?s]))) = ''review_required''"
    by (simp add: parked_facts)
  from changes_refused_while_parked [OF run _ _ locks decided runs last] run show ?thesis
    by (auto simp: parked_facts)
qed

section \<open>Approvals and cancellations\<close>

lemma gate_lease: "lease_for_run_phase held_slot plain_phase_env parked_run ''gate'' i inputs () = Inr (open_lease, ())"
  by (simp add: lease_for_run_phase_def replay_data_def parked_facts held_slot_def plain_phase_env_def)

lemma drain_parts [simp]: "dp_admission (de_dispatch (review_drain env)) = env"
  by (simp add: review_drain_def)


theorem failed_approval_witness:
  "\<exists>x ss' d. release_review_gate (review_drain plain_env) held_slot plain_phase_env (review_signal ''s'' ''approve'') parked_run gate_step
       ''t4'' (parked_state []) = (Some (GateNotLaunched x), ss') \<and>
     run_by_id ''a'' (as_runs (ss_store ss')) = Some d \<and>
     release_review_gate (review_drain plain_env) held_slot plain_phase_env (review_signal ''s2'' ''approve'') (replay_data d) gate_step
       ''t5'' ss' = (None, ss')"
proof -
  have "fst (release_review_gate (review_drain plain_env) held_slot plain_phase_env (review_signal ''s'' ''approve'') parked_run gate_step
      ''t4'' (parked_state [])) = Some (GateNotLaunched (PhaseError (LaunchFailed ''no cluster'')))" by code_simp
  then obtain ss' where run: "release_review_gate (review_drain plain_env) held_slot plain_phase_env (review_signal ''s'' ''approve'')
      parked_run gate_step ''t4'' (parked_state []) = (Some (GateNotLaunched (PhaseError (LaunchFailed ''no cluster''))), ss')"
    by (metis prod.collapse)
  from failed_approval_not_repaired [OF run] run show ?thesis by (fastforce simp: parked_facts)
qed

definition demo_decision :: "string \<Rightarrow> string \<Rightarrow> review_decision" where
  "demo_decision signal actor =
     \<lparr>rw_decision = ''reject'', rw_actor = actor, rw_feedback = [], rw_signal = signal, rw_phase = ''gate'', rw_attempt = 0\<rparr>"

theorem recorded_once_witness:
  "\<exists>ss1 ss2. record_review_decision ''a'' (demo_decision ''s'' ''ann'') ''t4'' (parked_state []) = (None, ss1) \<and>
     record_review_decision ''a'' (demo_decision ''s2'' ''bob'') ''t5'' ss1 = (Some ReviewConflict, ss2) \<and>
     ss_reviews ss2 ''a'' = Some \<lparr>rs_actor = ''bob'', rs_at = ''t5'', rs_decision = ''reject''\<rparr>"
proof -
  obtain ss1 where one: "record_review_decision ''a'' (demo_decision ''s'' ''ann'') ''t4'' (parked_state []) = (None, ss1)"
  proof -
    have "fst (record_review_decision ''a'' (demo_decision ''s'' ''ann'') ''t4'' (parked_state [])) = None" by code_simp
    then show thesis using that by (metis prod.collapse)
  qed
  have "as_runs (ss_store ss1) = map (touch_run ''a'' ''t4'') (as_runs (ss_store (parked_state [])))"
    using review_parts [OF one] by (simp add: distinct_runs_def demo_decision_def parked_state_def parked_store_def parked_facts
        run_by_id_def row_by_id_def)
  then have "run_by_id ''a'' (as_runs (ss_store ss1)) \<noteq> None"
    by (simp add: run_by_id_def row_by_id_def touch_run_def parked_facts)
  from review_recorded_once [OF one _ _ _ refl this, of "demo_decision ''s2'' ''bob''" "''t5''"] one
  show ?thesis by (auto simp: demo_decision_def)
qed

definition padded_request :: signal_request where
  "padded_request =
     \<lparr>sq_type = ''pr'', sq_repo = ''o/r'', sq_ref = '' 7'', sq_source = [], sq_payload = [(''kind'', VStr ''approve'')]\<rparr>"

theorem padded_witness:
  "\<exists>s tbl. create_signal \<lparr>gr_issue = (\<lambda>_ _. None), gr_run = (\<lambda>_ _. None)\<rparr> ''s'' ''t1'' ''ann'' padded_request [] = Inr (s, tbl) \<and>
     decide_triage demo_review [parked_row] s \<in> {Inr (TriageIgnore None), Inr (TriageNoRun NotPositiveNumber)}"
proof -
  have "\<not> isl (create_signal \<lparr>gr_issue = (\<lambda>_ _. None), gr_run = (\<lambda>_ _. None)\<rparr> ''s'' ''t1'' ''ann'' padded_request [])" by code_simp
  then obtain s tbl where made: "create_signal \<lparr>gr_issue = (\<lambda>_ _. None), gr_run = (\<lambda>_ _. None)\<rparr> ''s'' ''t1'' ''ann'' padded_request []
      = Inr (s, tbl)" by (metis prod.collapse sum.collapse(2))
  have "sq_type padded_request = ''pr''" "sq_ref padded_request = CHR '' '' # ''7''" by (simp_all add: padded_request_def)
  from padded_target_never_acted_on [OF made this, of demo_review "[parked_row]"] made
  show ?thesis by blast
qed

section \<open>Dispatching stored runs\<close>

lemma held_launches: "launches_as launching held_slot plain_phase_env (Some ''p-1'') (\<lambda>_. True) (\<lambda>_. None)"
  by (simp add: launches_as_def launch_on_lease_def lease_for_run_phase_def held_slot_def plain_phase_env_def launching_def
      open_lease_def Let_def)

theorem stored_dispatch_witness:
  "\<exists>d'. run_by_id ''a'' (as_runs (snd (dispatch_targets launching held_slot plain_phase_env gated_workflow
        [demo_phase ''work'' [''build'']] parked_run ''t4'' (parked_store ())))) = Some d' \<and>
     replay_data d' = as_read (snd (dispatch_forward (\<lambda>_ _. None) gated_workflow [demo_phase ''work'' [''build'']] parked_run parked_run))"
proof -
  have "run_by_id ''a'' (as_runs (parked_store ())) = Some parked_doc"
    by (simp add: run_by_id_def row_by_id_def parked_store_def parked_facts)
  from stored_dispatch_refines [OF held_launches [folded parked_facts(6)] _ this, of "''t4''" gated_workflow "[demo_phase ''work'' [''build'']]"]
  show ?thesis by (auto split: prod.splits)
qed

theorem torn_down_witness:
  "\<exists>e st' d d'. cancel_gate ''gate'' 0 ''no'' ''t4'' parked_doc = Inr d \<and>
     drive_teardown launching held_slot plain_phase_env parked_run gated_workflow ''no'' ''t4''
       ((parked_store ())\<lparr>as_runs := put_run ''a'' d (as_runs (parked_store ()))\<rparr>) = (e, st') \<and>
     run_by_id ''a'' (as_runs st') = Some d' \<and> rn_state d' = ''aborted''"
proof -
  obtain d where d: "cancel_gate ''gate'' 0 ''no'' ''t4'' parked_doc = Inr d"
    using parked_facts(8) by (simp add: cancel_gate_def)
  let ?st = "(parked_store ())\<lparr>as_runs := put_run ''a'' d (as_runs (parked_store ()))\<rparr>"
  have parts: "rn_id d = ''a''" "rn_slot_lease d = Some ''p-1''"
    using cancelled_parts [OF d] by (simp_all add: parked_facts)
  then have found: "run_by_id (rd_id parked_run) (as_runs ?st) = Some d"
    by (simp add: run_by_id_def row_by_id_def put_run_def parked_store_def parked_facts)
  obtain e st' where run: "drive_teardown launching held_slot plain_phase_env parked_run gated_workflow ''no'' ''t4'' ?st = (e, st')" by fastforce
  have "(case cancel_gate ''gate'' 0 ''no'' ''t4'' parked_doc of
      Inl _ \<Rightarrow> [gate_step] | Inr x \<Rightarrow> all_ready_dispatch_targets gated_workflow (replay_data x) AbortRequested) = []" by code_simp
  then have none: "all_ready_dispatch_targets gated_workflow (replay_data d) AbortRequested = []" by (simp add: d)
  have "trim_space ''no'' \<noteq> []" by code_simp
  from cancelled_review_tears_down [OF d found held_launches [folded parts(2)] _ _ run this] none d run
  show ?thesis by (auto simp: parked_facts)
qed

end
