(* ===== verification/CompletionExamples.thy ===== *)
theory CompletionExamples
  imports CompletedRuns ReviewExamples
begin

text \<open>A run whose last phase completes and a retry whose launch fails, at which the theorems on the
  completion of stored runs are instantiated.\<close>

definition completing :: "admission_env \<Rightarrow> workflow \<Rightarrow> unit completion_env" where
  "completing env wkf =
     \<lparr>ce_admission = env, ce_phase = plain_phase_env, ce_details = plain_details, ce_scripts = demo_scripts,
      ce_tables = \<lparr>wt_versions = (\<lambda>_ _. Some (wkf, [])), wt_names = (\<lambda>_ _. Some (wkf, []))\<rparr>, ce_add = demo_add,
      ce_fresh = (\<lambda>_. ''b''), ce_forward = (\<lambda>_. []), ce_retry = (\<lambda>_. []), ce_explain = (\<lambda>_. ''stopped'')\<rparr>"

definition passing_workflow :: workflow where
  "passing_workflow = demo_workflow\<lparr>wf_phases := [gate_step, demo_phase ''work'' [''build'']]\<rparr>"

definition passing_doc :: run_doc where
  "passing_doc =
     (demo_run [(new_attempt 0 ''gate'' ''k8s_job'' [] ''t0'')\<lparr>ad_conclusion := ''success'', ad_decision := ''advance'', ad_completed := ''t0''\<rparr>,
                new_attempt 1 ''work'' ''k8s_job'' [] ''t0''])
       \<lparr>rn_id := ''a'', rn_pr := Some 7, rn_slot_lease := Some ''p-1''\<rparr>"

definition row_of :: "run_doc \<Rightarrow> ledger_run" where
  "row_of d = \<lparr>lr_doc = d, lr_number = Some 1, lr_cycle = None, lr_is_cycle = False, lr_holder = ''h'', lr_created = ''t1''\<rparr>"

definition stored_alone :: "run_doc \<Rightarrow> unit admission_state" where
  "stored_alone d = \<lparr>as_runs = [row_of d], as_locks = [], as_leases = ()\<rparr>"

definition work_done :: job_payload where
  "work_done = plain_payload ''work'' ''success'' [] None"

lemma passing_ok: "run_doc_ok passing_doc"
  by (simp add: run_doc_ok_def passing_doc_def demo_run_def new_attempt_def projection_ok_def phase_names_def)

definition worked_doc :: run_doc where
  "worked_doc = (case stamp_run_completion demo_add work_done ''t2'' passing_doc of Inr d \<Rightarrow> d | Inl _ \<Rightarrow> passing_doc)"

lemma worked: "stamp_run_completion demo_add work_done ''t2'' passing_doc = Inr worked_doc"
proof -
  have "\<not> isl (stamp_run_completion demo_add work_done ''t2'' passing_doc)" by code_simp
  then show ?thesis by (cases "stamp_run_completion demo_add work_done ''t2'' passing_doc") (simp_all add: worked_doc_def)
qed

definition passing_canonical :: workflow where
  "passing_canonical = canonical_workflow demo_scripts passing_workflow"

theorem completion_refines_witness:
  "settles_as ''a''
     (process_completion (\<lambda>_ _. None) (\<lambda>_. Inl []) (Some passing_canonical)
        \<lparr>cp_conclusion = ''success'', cp_outputs = Some []\<rparr> (replay_data worked_doc))
     (complete_stored (completing launching passing_workflow) held_slot ''a'' work_done ''t2'' (stored_alone passing_doc))"
proof -
  have lease: "rn_slot_lease passing_doc = Some ''p-1''" by (simp add: passing_doc_def)
  have found: "run_by_id ''a'' (as_runs (stored_alone passing_doc)) = Some passing_doc"
    by (simp add: run_by_id_def row_by_id_def stored_alone_def row_of_def passing_doc_def)
  have flow: "workflow_for_run demo_scripts (ce_tables (completing launching passing_workflow)) (replay_data worked_doc) = Some passing_canonical"
    by (simp add: workflow_for_run_def completing_def passing_canonical_def)
  have facts: "list_ex (\<lambda>q. dp_name q = attempt_doc.ad_phase (last (rn_attempts worked_doc))) (decision_workflow (wf_phases passing_canonical))"
    "decide (completion_decision_run passing_canonical (replay_data worked_doc)) (decision_workflow (wf_phases passing_canonical)) None = Inr Advance"
    "jp_attempt work_done = None" "jp_conclusion work_done = ''success''" "jp_outputs work_done = Some []"
    by code_simp+
  show ?thesis
    using stored_completion_refines [of "completing launching passing_workflow" held_slot passing_doc "\<lambda>_. True" "\<lambda>_. None"
        "stored_alone passing_doc" "''t2''" "''a''" work_done worked_doc passing_canonical Advance "\<lambda>_. Inl []"]
      held_launches lease found passing_ok worked flow facts
    by (simp add: completing_def)
qed

definition full_completing :: "workflow \<Rightarrow> unit full_env" where
  "full_completing wkf =
     \<lparr>fe_completion = completing launching wkf,
      fe_playbooks = \<lparr>pl_dispatch = agent_env, pl_create_issue = (\<lambda>_ _. Inl []), pl_fresh = (\<lambda>_. ([], [])),
                      pl_problem = (\<lambda>_. []), pl_detail = (\<lambda>_. None)\<rparr>,
      fe_stamp = (\<lambda>t. t)\<rparr>"

definition nothing_else :: "unit completion_state" where
  "nothing_else = \<lparr>cs_store = stored_alone passing_doc, cs_playbooks = [], cs_closed = []\<rparr>"

theorem closed_issue_witness:
  "\<exists>cs. process_run_completion (full_completing passing_workflow) held_slot ''a'' work_done ''t2'' 0 0 nothing_else
      = (CompletionEnded ''advance'' ''passed'', cs) \<and> cs_closed cs = [(''p'', 1)]"
proof -
  let ?run = "process_run_completion (full_completing passing_workflow) held_slot ''a'' work_done ''t2'' 0 0 nothing_else"
  have closed_one: "cs_closed (snd ?run) = [(''p'', 1)]" by code_simp
  obtain out cs where run: "?run = (out, cs)" by fastforce
  with closed_one have "cs_closed cs \<noteq> cs_closed nothing_else" by (simp add: nothing_else_def)
  from issue_closed_only_when_passed [OF run this] closed_one run show ?thesis by auto
qed

section \<open>A retry that cannot be launched\<close>

definition retrying_workflow :: workflow where
  "retrying_workflow = demo_workflow\<lparr>wf_phases := [(demo_phase ''work'' [''build''])\<lparr>ps_recycle := Some demo_policy\<rparr>]\<rparr>"

definition failing_launch :: admission_env where
  "failing_launch = plain_env\<lparr>en_launch := (\<lambda>_ _ _ _. Inl ''no capacity'')\<rparr>"

definition failed_doc :: run_doc where
  "failed_doc =
     (demo_run [(new_attempt 0 ''work'' ''k8s_job'' [] ''t0'')\<lparr>ad_conclusion := ''failure'', ad_decision := ''retry'', ad_completed := ''t1''\<rparr>])
       \<lparr>rn_id := ''a'', rn_slot_lease := Some ''p-1''\<rparr>"

definition retry_phase :: phase_spec where
  "retry_phase = (demo_phase ''work'' [''build''])\<lparr>ps_recycle := Some demo_policy\<rparr>"

definition new_row :: "(create_error, ledger_run) res \<times> ledger_run list" where
  "new_row = create_recycle_cycle plain_details demo_scripts (ce_tables (completing failing_launch retrying_workflow)) ''a''
     ''schema'' ''work'' [] None ''b'' ''t2'' [row_of failed_doc]"

lemma retry_steps:
  "retry_target retrying_workflow ''work'' = Some retry_phase" "wf_schema_ref retrying_workflow = ''schema''"
  "retry_carry_forward (replay_data failed_doc) retrying_workflow ''work'' = []" "ps_name retry_phase = ''work''"
  "workflow_phase_kind (ps_kind retry_phase) = ''k8s_job''" "ps_inputs retry_phase = []"
  "prior_verification_for_retry (replay_data failed_doc) ''work'' = None"
  "rn_id failed_doc = ''a''" "rn_slot_lease failed_doc = Some ''p-1''"
  by code_simp+

lemma retry_conditions: "evaluate_phase_when retry_phase ctx = Inr (PhaseRuns [])"
  by code_simp

lemma new_row_parts:
  obtains r where "new_row = (Inr r, mark_recycled ''a'' ''t2'' [row_of failed_doc] @ [r])" "rn_id (lr_doc r) = ''b''"
    "rn_state (lr_doc r) = ''queued''" "rn_attempts (lr_doc r) = []"
proof -
  have ok: "\<not> isl (fst new_row)" by code_simp
  then obtain r where r: "fst new_row = Inr r" by (cases "fst new_row") auto
  have "map_sum (\<lambda>_. ()) (\<lambda>r. rn_attempts (lr_doc r)) (fst new_row) = Inr []"
    by code_simp
  then have none: "rn_attempts (lr_doc r) = []" by (simp add: r)
  obtain runs where runs: "new_row = (Inr r, runs)" using r by (metis prod.collapse)
  show thesis
    by (rule that [of r])
      (use runs none in \<open>auto simp: new_row_def create_recycle_cycle_def Let_def recycled_doc_def split: option.splits if_splits sum.splits prod.splits\<close>)
qed

lemma failing_steps:
  obtains e st1 d where "retry_stored (completing failing_launch retrying_workflow) held_slot retrying_workflow ''work''
      (replay_data failed_doc) ''t2'' (stored_alone failed_doc) = (Some e, st1)"
    "run_by_id ''b'' (as_runs st1) = Some d" "rn_state d = ''in_progress''"
proof -
  let ?env = "completing failing_launch retrying_workflow" and ?run = "replay_data failed_doc"
  obtain r where r: "new_row = (Inr r, mark_recycled ''a'' ''t2'' [row_of failed_doc] @ [r])" "rn_id (lr_doc r) = ''b''"
    "rn_state (lr_doc r) = ''queued''" "rn_attempts (lr_doc r) = []" by (rule new_row_parts)
  have "\<not> isl (substitute_completion_inputs retry_phase (rd_attempts ?run))" by code_simp
  then obtain m where m: "substitute_completion_inputs retry_phase (rd_attempts ?run) = Inr m"
    by (cases "substitute_completion_inputs retry_phase (rd_attempts ?run)") auto
  let ?st = "(stored_alone failed_doc)\<lparr>as_runs := mark_recycled ''a'' ''t2'' [row_of failed_doc] @ [r]\<rparr>"
  have env: "ce_details ?env = plain_details" "ce_scripts ?env = demo_scripts" "ce_fresh ?env run = ''b''"
    "ce_admission ?env = failing_launch" "ce_phase ?env = plain_phase_env" for run
    by (simp_all add: completing_def)
  have launch: "en_launch failing_launch l q x sk = Inl ''no capacity''" for l q x sk by (simp add: failing_launch_def)
  have retry: "retry_stored ?env held_slot retrying_workflow ''work'' ?run ''t2'' (stored_alone failed_doc) =
      start_recycled ?env held_slot retrying_workflow ''k8s_job'' retry_phase (substituted_inputs retry_phase m) None ?run (lr_doc r) ''t2'' ?st"
    using r(1) m by (simp add: retry_stored_def retry_steps valid_workflow_kind_def env new_row_def stored_alone_def)
  let ?d = "(append_run_attempt ''work'' ''k8s_job'' (phase_filename retry_phase) ''t2'' (lr_doc r))
     \<lparr>rn_state := ''in_progress'', rn_queue := ''admitted'', rn_slot_lease := Some ''p-1'', rn_admission_error := []\<rparr>"
  have found: "run_by_id ''b'' (as_runs ?st) = Some (lr_doc r)"
    using r(2) by (simp add: run_by_id_def row_by_id_def mark_recycled_def row_of_def retry_steps)
  have "start_run_cycle ''work'' ''k8s_job'' (phase_filename retry_phase) ''p-1'' ''t2'' (lr_doc r) = Inr ?d"
    by (simp add: start_run_cycle_def r(3,4))
  then have patch: "patch_run ''b'' (start_run_cycle ''work'' ''k8s_job'' (phase_filename retry_phase) ''p-1'' ''t2'') (as_runs ?st)
      = Inr (put_run ''b'' ?d (as_runs ?st))" using found by (simp add: patch_run_def)
  have "start_recycled ?env held_slot retrying_workflow ''k8s_job'' retry_phase (substituted_inputs retry_phase m) None ?run (lr_doc r) ''t2'' ?st
      = (Some (RetryStep (PhaseError (LaunchFailed ''no capacity''))), ?st\<lparr>as_runs := put_run ''b'' ?d (as_runs ?st)\<rparr>)"
    using patch r(2)
    by (simp add: start_recycled_def retry_steps launch_recycled_def retry_conditions entry_skips_def env launch_on_lease_def
        lease_for_run_phase_def with_attempt_def recycled_data_def held_slot_def plain_phase_env_def open_lease_def launch Let_def)
  moreover have "run_by_id ''b'' (put_run ''b'' ?d (as_runs ?st)) = Some ?d"
    using found r(2) by (simp add: run_by_id_put)
  ultimately show thesis by (intro that [OF trans [OF retry]]) auto
qed

theorem failed_retry_witness:
  "\<exists>out st' d. route_stored (completing failing_launch retrying_workflow) held_slot retrying_workflow
      (completion_decision_run retrying_workflow (replay_data failed_doc)) Retry ''work'' (replay_data failed_doc) ''t2''
      (stored_alone failed_doc) = (out, st') \<and> run_by_id ''b'' (as_runs st') = Some d \<and> rn_state d = ''in_progress'' \<and>
      (\<forall>env2 ops2 holder i2 now2 app db. \<exists>x. dispatch_run env2 ops2 \<lparr>dq_project = rn_project d, dq_issue = rn_issue d, dq_workflow_name = [],
         dq_workflow = [], dq_inputs = []\<rparr> holder i2 now2 app db st' = (x, st') \<and> (\<forall>a j. x \<noteq> Inr (Answered a j)))"
proof -
  let ?env = "completing failing_launch retrying_workflow" and ?run = "replay_data failed_doc"
  obtain e st1 d where retry: "retry_stored ?env held_slot retrying_workflow ''work'' ?run ''t2'' (stored_alone failed_doc) = (Some e, st1)"
    "run_by_id ''b'' (as_runs st1) = Some d" "rn_state d = ''in_progress''" by (rule failing_steps)
  have fresh: "ce_fresh ?env ?run = ''b''" by (simp add: completing_def)
  have unused: "run_by_id ''b'' (as_runs (stored_alone failed_doc)) = None"
    by (simp add: run_by_id_def row_by_id_def stored_alone_def row_of_def retry_steps)
  obtain out st' where route: "route_stored ?env held_slot retrying_workflow (completion_decision_run retrying_workflow ?run) Retry ''work'' ?run ''t2''
      (stored_alone failed_doc) = (out, st')" by fastforce
  have old: "\<forall>r \<in> set (as_runs (stored_alone failed_doc)). lr_created r \<le> ''t2''"
    by (simp add: stored_alone_def row_of_def less_char_def byte_of_def)
  let ?q = "\<lparr>dq_project = rn_project d, dq_issue = rn_issue d, dq_workflow_name = [], dq_workflow = [], dq_inputs = []\<rparr>"
  have rows: "list_all2 kept_row s s" for s by (simp add: list_all2_refl kept_row_def)
  have active: "is_active_issue_run_state ''in_progress''" by (simp add: is_active_issue_run_state_def trim_in_progress)
  have "run_by_id (ce_fresh ?env ?run) (as_runs (stored_alone failed_doc)) = None"
    "run_by_id (ce_fresh ?env ?run) (as_runs st1) = Some d" "rn_state d \<noteq> ''queued''"
    using unused retry(2,3) fresh by simp_all
  note left = failed_retry_leaves_cycle [OF route retry(1) this old, unfolded fresh]
  note cycle = left [THEN conjunct2, THEN conjunct2, THEN conjunct1]
  have "\<exists>x. dispatch_run env2 ops2 ?q holder i2 now2 app db st' = (x, st') \<and> (\<forall>a j. x \<noteq> Inr (Answered a j))"
    for env2 ops2 holder i2 now2 app db
    using left [THEN conjunct2, THEN conjunct2, THEN conjunct2, THEN conjunct2, rule_format, of st' "as_runs st'" "[]" d ?q]
      cycle retry(3) rows active by (simp add: issue_runs_def)
  with cycle retry(3) route show ?thesis by auto
qed

end
