(* ===== verification/Reconciler.thy ===== *)
theory Reconciler
  imports RunCompletion "HOL-Library.Word"
begin

text \<open>
  What the server does about jobs whose runner never reports: the reconciler
  (\<open>internal/server/run_execution_reconciler.go\<close>), the watch on Kubernetes jobs
  (\<open>internal/server/run_watcher.go\<close>) and the status of a job
  (\<open>internal/server/run_launcher.go\<close>). A time is a number of nanoseconds; a missing one is the
  zero time. Parsing and formatting of times, the texts of summaries, the links to logs, the status
  Kubernetes returns and the order of the rows are arguments.
\<close>

section \<open>Labels\<close>

text \<open>\<open>dnsLabel\<close> and \<open>labelValue\<close>: each stretch of other characters becomes one dash.\<close>

definition dns_char :: "char \<Rightarrow> bool" where
  "dns_char c = (is_lower c \<or> is_digit c \<or> c = CHR ''-'')"

fun dash_others :: "bool \<Rightarrow> string \<Rightarrow> string" where
  "dash_others inside [] = []"
| "dash_others inside (c # cs) =
     (if dns_char c then c # dash_others False cs
      else if inside then dash_others True cs
      else CHR ''-'' # dash_others True cs)"

definition dns_label :: "string \<Rightarrow> string" where
  "dns_label v =
     (let s = trim_bytes (CHR ''-'') (dash_others False (lower_key (trim_space v))) in
      if s = [] then ''job''
      else if 63 < length s then rev (dropWhile (\<lambda>c. c = CHR ''-'') (rev (take 63 s)))
      else s)"

definition label_value :: "string \<Rightarrow> string" where
  "label_value v = take 63 (dns_label v)"

section \<open>The status of a job\<close>

record job_condition =
  jn_type :: string
  jn_status :: string
  jn_reason :: string
  jn_message :: string
  jn_moved :: "int option"

record job_status =
  st_found :: bool
  st_conditions :: "job_condition list"
  st_completed :: "int option"
  st_moved :: "int option"
  st_pod :: string

definition later_time :: "int option \<Rightarrow> int option \<Rightarrow> int option" where
  "later_time a b =
     (case (a, b) of (None, t) \<Rightarrow> t | (t, None) \<Rightarrow> t | (Some x, Some y) \<Rightarrow> Some (max x y))"

definition condition_of :: "(string \<Rightarrow> int option) \<Rightarrow> vmap \<Rightarrow> job_condition" where
  "condition_of parse m =
     (let text = (\<lambda>k. trim_space (string_value (vget_any m k))); t = text ''lastTransitionTime'' in
      \<lparr>jn_type = text ''type'', jn_status = text ''status'', jn_reason = text ''reason'',
       jn_message = text ''message'', jn_moved = (if t = [] then None else parse t)\<rparr>)"

definition parse_job_status :: "(string \<Rightarrow> int option) \<Rightarrow> vmap \<Rightarrow> job_status" where
  "parse_job_status parse job =
     (let m = any_map_value (vget_any job ''status'');
          t = trim_space (string_value (vget_any m ''completionTime''));
          cs = map (condition_of parse \<circ> any_map_value) (any_slice_value (vget_any m ''conditions'')) in
      \<lparr>st_found = True, st_conditions = cs, st_completed = (if t = [] then None else parse t),
       st_moved = foldl later_time None (map jn_moved cs), st_pod = []\<rparr>)"

definition failed_condition :: "job_condition \<Rightarrow> bool" where
  "failed_condition c = (equal_fold (jn_type c) ''Failed'' \<and> equal_fold (jn_status c) ''True'')"

definition terminally_failed :: "job_status \<Rightarrow> bool" where
  "terminally_failed s = list_ex failed_condition (st_conditions s)"

definition terminally_succeeded :: "job_status \<Rightarrow> bool" where
  "terminally_succeeded s =
     list_ex (\<lambda>c. equal_fold (jn_status c) ''True'' \<and>
       (equal_fold (jn_type c) ''Complete'' \<or> equal_fold (jn_type c) ''SuccessCriteriaMet'')) (st_conditions s)"

definition failure_reason :: "job_status \<Rightarrow> string" where
  "failure_reason s = (case find failed_condition (st_conditions s) of None \<Rightarrow> [] | Some c \<Rightarrow> jn_reason c)"

definition failure_message :: "job_status \<Rightarrow> string" where
  "failure_message s = (case find failed_condition (st_conditions s) of None \<Rightarrow> [] | Some c \<Rightarrow> jn_message c)"

definition terminal_time :: "job_status \<Rightarrow> int option" where
  "terminal_time s = (case st_completed s of Some t \<Rightarrow> Some t | None \<Rightarrow> st_moved s)"

text \<open>The pod is asked for its reason only when the job has failed; an error of that is dropped.\<close>

definition status_of_response :: "(string \<Rightarrow> int option) \<Rightarrow> vmap option \<Rightarrow> (string, string) res \<Rightarrow> job_status" where
  "status_of_response parse job pod =
     (case job of
        None \<Rightarrow> \<lparr>st_found = False, st_conditions = [], st_completed = None, st_moved = None, st_pod = []\<rparr>
      | Some m \<Rightarrow>
          (let s = parse_job_status parse m in
           if terminally_failed s then s\<lparr>st_pod := (case pod of Inl _ \<Rightarrow> [] | Inr r \<Rightarrow> r)\<rparr> else s))"

section \<open>What a status means\<close>

datatype job_end =
    GarbageCollected string
  | CallbackNeverCame string
  | EndedInKubernetes string string string string
  | DispatchTimedOut string int

record job_failure =
  jf_conclusion :: string
  jf_reason :: string
  jf_end :: job_end

definition kubernetes_failure :: "string \<Rightarrow> string \<times> string" where
  "kubernetes_failure reason =
     (if reason = ''DeadlineExceeded'' then (''timed_out'', ''deadline_exceeded'')
      else if reason = ''BackoffLimitExceeded'' then (''timed_out'', ''backoff_exceeded'')
      else (''failed'', ''job_failed''))"

definition lost_callback :: "string \<Rightarrow> job_failure" where
  "lost_callback name =
     \<lparr>jf_conclusion = ''failed'', jf_reason = ''callback_lost'', jf_end = CallbackNeverCame name\<rparr>"

definition failed_job :: "string \<Rightarrow> job_status \<Rightarrow> job_failure" where
  "failed_job name s =
     (let (conclusion, reason) = kubernetes_failure (failure_reason s) in
      \<lparr>jf_conclusion = conclusion, jf_reason = refine_terminal_reason reason (st_pod s),
       jf_end = EndedInKubernetes name (failure_reason s) (trim_space (failure_message s)) (st_pod s)\<rparr>)"

definition recently_ended :: "int \<Rightarrow> int \<Rightarrow> job_status \<Rightarrow> bool" where
  "recently_ended grace now s =
     (0 < grace \<and> (case terminal_time s of None \<Rightarrow> False | Some t \<Rightarrow> now - t < grace))"

definition evaluate_active_job_failure :: "int \<Rightarrow> int \<Rightarrow> string \<Rightarrow> job_status \<Rightarrow> job_failure option" where
  "evaluate_active_job_failure grace now name s =
     (if \<not> st_found s
      then Some \<lparr>jf_conclusion = ''failed'', jf_reason = ''pod_gone'', jf_end = GarbageCollected name\<rparr>
      else if terminally_succeeded s \<and> \<not> terminally_failed s
      then (if recently_ended grace now s then None else Some (lost_callback name))
      else if \<not> terminally_failed s then None
      else if recently_ended grace now s then None
      else Some (failed_job name s))"

definition derive_terminal_from_status :: "string \<Rightarrow> job_status \<Rightarrow> job_failure" where
  "derive_terminal_from_status name s =
     (if terminally_succeeded s \<and> \<not> terminally_failed s then lost_callback name else failed_job name s)"

text \<open>The completion that is made up for the runner.\<close>

definition synthetic_payload :: "string \<Rightarrow> string \<Rightarrow> string \<Rightarrow> string \<Rightarrow> string \<Rightarrow> job_payload" where
  "synthetic_payload job conclusion reason summary url =
     \<lparr>jp_job = Some job, jp_conclusion = conclusion, jp_status = [], jp_reasons = [], jp_failure = None,
      jp_refs = [], jp_evidence = [], jp_cost = Fin 0, jp_usage = [], jp_summary = Some summary,
      jp_screenshots = None, jp_outputs = None, jp_attempt = None, jp_error = None, jp_reason = reason,
      jp_log = url\<rparr>"

section \<open>The end of an inner job\<close>

definition fnv_hash64 :: "string \<Rightarrow> 64 word" where
  "fnv_hash64 s = foldl (\<lambda>h c. xor h (word_of_nat (byte_of c)) * 1099511628211) 14695981039346656037 s"

definition inner_job_seq :: "string \<Rightarrow> string \<Rightarrow> int" where
  "inner_job_seq namespace name =
     2 ^ 30 + int (unat (fnv_hash64 (namespace @ ''/'' @ name @ ''::termination'') mod (2 ^ 31 - 1 - 2 ^ 30)))"

record inner_end =
  ie_state :: string
  ie_reason :: string
  ie_time :: int

definition inner_reason :: "string \<Rightarrow> string" where
  "inner_reason reason = snd (kubernetes_failure reason)"

definition ended_at :: "int \<Rightarrow> job_status \<Rightarrow> int" where
  "ended_at now s = (case terminal_time s of None \<Rightarrow> now | Some t \<Rightarrow> t)"

definition inner_job_end :: "int \<Rightarrow> int \<Rightarrow> job_status \<Rightarrow> inner_end option" where
  "inner_job_end grace now s =
     (if \<not> st_found s then Some \<lparr>ie_state = ''failed'', ie_reason = ''pod_gone'', ie_time = now\<rparr>
      else if terminally_succeeded s \<and> \<not> terminally_failed s
      then (if recently_ended grace now s then None
            else Some \<lparr>ie_state = ''succeeded'', ie_reason = [], ie_time = ended_at now s\<rparr>)
      else if terminally_failed s
      then (if recently_ended grace now s then None
            else Some \<lparr>ie_state = ''failed'',
                       ie_reason = refine_terminal_reason (inner_reason (failure_reason s)) (st_pod s),
                       ie_time = ended_at now s\<rparr>)
      else None)"

text \<open>The event, without an attempt; the link is to the stored log or else to the log service.\<close>

definition termination_request :: "(int \<Rightarrow> string) \<Rightarrow> string \<Rightarrow> inner_job \<Rightarrow> inner_end \<Rightarrow> string \<Rightarrow> event_request" where
  "termination_request format phase r e url =
     \<lparr>eq_attempt = None, eq_job = ij_parent_job r, eq_seq = inner_job_seq (ij_namespace r) (ij_name r),
      eq_event = ''inner_job_terminated'', eq_slug = ij_parent_step r, eq_message = [], eq_exit = None,
      eq_meta = [(''namespace'', VStr (ij_namespace r)), (''job_name'', VStr (ij_name r)),
                 (''state'', VStr (ie_state e)), (''reason'', VStr (ie_reason e)),
                 (''completed_at'', VStr (format (ie_time e))), (''phase'', VStr phase)] @
                (if url = [] then [] else [(''log_archive_url'', VStr url)])\<rparr>"

end
