(* ===== verification/RunWatch.thy ===== *)
theory RunWatch
  imports Reconciler
begin

text \<open>
  The passes of the reconciler over the runs of every project, and what the watch does with a job
  Kubernetes reports (\<open>internal/server/run_execution_reconciler.go\<close>,
  \<open>internal/server/run_watcher.go\<close>). A pass reads the runs of a project once and works on what it
  has read; each write looks the run up again. The store and a run launcher are configured.
\<close>

record 'w watch_state =
  wa_done :: "'w completion_state"
  wa_events :: "string \<Rightarrow> event_table"

record watch_clock =
  wc_text :: string
  wc_time :: int
  wc_app :: int
  wc_db :: int

record 'w watch_env =
  we_full :: "'w full_env"
  we_parse :: "string \<Rightarrow> int option"
  we_format :: "int \<Rightarrow> string"
  we_updated :: "ledger_run \<Rightarrow> int"
  we_ref :: "ledger_run \<Rightarrow> string"
  we_text :: "job_end \<Rightarrow> string"
  we_link :: "string \<Rightarrow> string \<Rightarrow> int option \<Rightarrow> int \<Rightarrow> string"
  we_capture :: "string \<Rightarrow> string \<Rightarrow> string \<Rightarrow> string \<Rightarrow> string"
  we_capture_job :: "string \<Rightarrow> string \<Rightarrow> string \<Rightarrow> string \<Rightarrow> string"
  we_status :: "string \<Rightarrow> string \<Rightarrow> (string, job_status) res"

datatype watch_error =
    WatchRefused run_error
  | WatchRunMissing
  | WatchNotProcessed completion_outcome
  | StatusNotRead string
  | EventNotRecorded event_reply

definition watched_runs :: "'w watch_state \<Rightarrow> ledger_run list" where
  "watched_runs wa = as_runs (cs_store (wa_done wa))"

definition with_store :: "'w watch_state \<Rightarrow> 'w admission_state \<Rightarrow> 'w watch_state" where
  "with_store wa st = wa\<lparr>wa_done := (wa_done wa)\<lparr>cs_store := st\<rparr>\<rparr>"

text \<open>\<open>ListProjectRuns\<close> with the limit of 500: the rows written last come first.\<close>

definition list_project_runs :: "(ledger_run \<Rightarrow> int) \<Rightarrow> string \<Rightarrow> ledger_run list \<Rightarrow> ledger_run list" where
  "list_project_runs updated project runs =
     take 500 (sort_key (\<lambda>r. - updated r) (filter (\<lambda>r. rn_project (lr_doc r) = project) runs))"

definition report_state :: "run_doc \<Rightarrow> string" where
  "report_state d = first_non_empty (rn_state d) ''in_progress''"

definition in_progress :: "ledger_run \<Rightarrow> bool" where
  "in_progress r = (report_state (lr_doc r) = ''in_progress'' \<and> rn_id (lr_doc r) \<noteq> [])"

fun over_projects ::
  "(string \<Rightarrow> int \<Rightarrow> 's \<Rightarrow> (int \<times> 'e option) \<times> 's) \<Rightarrow> (string \<times> string) list \<Rightarrow> int \<Rightarrow> 's \<Rightarrow> (int \<times> 'e option) \<times> 's" where
  "over_projects f [] n s = ((n, None), s)"
| "over_projects f ((name, i) # ps) n s =
     (let project = first_non_empty name i in
      if project = [] then over_projects f ps n s
      else (case f project n s of
              ((m, None), s') \<Rightarrow> over_projects f ps m s'
            | stopped \<Rightarrow> stopped))"

section \<open>A completion that is made up\<close>

definition record_synthetic ::
  "'w watch_env \<Rightarrow> string \<Rightarrow> job_payload \<Rightarrow> watch_clock \<Rightarrow> 'w watch_state \<Rightarrow>
     (watch_error, completion_result) res \<times> 'w watch_state" where
  "record_synthetic env i p ck wa =
     (case record_stored (fe_completion (we_full env)) i p (wc_text ck) (cs_store (wa_done wa)) of
        (Inl None, st) \<Rightarrow> (Inl WatchRunMissing, with_store wa st)
      | (Inl (Some e), st) \<Rightarrow> (Inl (WatchRefused e), with_store wa st)
      | (Inr r, st) \<Rightarrow> (Inr r, with_store wa st))"

definition was_processed :: "completion_outcome \<Rightarrow> bool" where
  "was_processed out = (case out of CompletionReplied _ \<Rightarrow> True | CompletionEnded _ _ \<Rightarrow> True | _ \<Rightarrow> False)"

definition process_synthetic ::
  "'w watch_env \<Rightarrow> 'w lease_ops \<Rightarrow> string \<Rightarrow> job_payload \<Rightarrow> watch_clock \<Rightarrow> 'w watch_state \<Rightarrow>
     watch_error option \<times> 'w watch_state" where
  "process_synthetic env ops i p ck wa =
     (let (out, cs) = process_run_completion (we_full env) ops i p (wc_text ck) (wc_app ck) (wc_db ck) (wa_done wa) in
      (if was_processed out then None else Some (WatchNotProcessed out), wa\<lparr>wa_done := cs\<rparr>))"

section \<open>Dispatches that timed out\<close>

definition phase_dispatch_time :: "(string \<Rightarrow> int option) \<Rightarrow> phase_exec \<Rightarrow> int option" where
  "phase_dispatch_time parse p =
     (case (if pe_dispatched p = [] then None else parse (pe_dispatched p)) of
        Some t \<Rightarrow> Some t
      | None \<Rightarrow> if pe_created p = [] then None else parse (pe_created p))"

definition overdue_phase :: "(string \<Rightarrow> int option) \<Rightarrow> int \<Rightarrow> int \<Rightarrow> phase_exec \<Rightarrow> bool" where
  "overdue_phase parse timeout now p =
     (pe_state p = ''dispatching'' \<and>
      (case phase_dispatch_time parse p of None \<Rightarrow> False | Some t \<Rightarrow> timeout \<le> now - t))"

definition parsed_or :: "(string \<Rightarrow> int option) \<Rightarrow> int \<Rightarrow> string \<Rightarrow> int" where
  "parsed_or parse now t = (case parse t of Some x \<Rightarrow> x | None \<Rightarrow> now)"

definition dispatch_timed_out_phase :: "(string \<Rightarrow> int option) \<Rightarrow> int \<Rightarrow> int \<Rightarrow> run_doc \<Rightarrow> string option" where
  "dispatch_timed_out_phase parse timeout now d =
     (case find (overdue_phase parse timeout now) (rn_execs d) of
        Some p \<Rightarrow> Some (pe_name p)
      | None \<Rightarrow>
          if rn_execs d \<noteq> [] \<or> rn_attempts d = [] then None
          else
            (let a = last (rn_attempts d) in
             if ad_completed a \<noteq> [] \<and> parse (ad_completed a) \<noteq> None then None
             else if timeout \<le> now - parsed_or parse now (ad_dispatched a)
             then Some (first_non_empty (attempt_doc.ad_phase a) ''phase'') else None))"

definition unfinished_job :: "job_exec \<Rightarrow> bool" where
  "unfinished_job j =
     (je_state j \<in> set [[], ''not_started'', ''dispatching'', ''active''] \<and> je_id j \<noteq> [])"

definition timed_out_job_ids :: "run_doc \<Rightarrow> string \<Rightarrow> string list" where
  "timed_out_job_ids d phase =
     (case find (\<lambda>p. pe_name p = phase) (rn_execs d) of
        None \<Rightarrow> [] | Some p \<Rightarrow> map je_id (filter unfinished_job (pe_jobs p)))"

text \<open>The payload that is handed on is that of the last job whose completion made the phase ready.\<close>

fun record_timed_out ::
  "'w watch_env \<Rightarrow> string \<Rightarrow> string \<Rightarrow> string list \<Rightarrow> job_payload option \<Rightarrow> watch_clock \<Rightarrow> 'w watch_state \<Rightarrow>
     (watch_error, job_payload option) res \<times> 'w watch_state" where
  "record_timed_out env i summary [] ready ck wa = (Inr ready, wa)"
| "record_timed_out env i summary (job # jobs) ready ck wa =
     (case record_synthetic env i (synthetic_payload job ''timed_out'' [] summary []) ck wa of
        (Inl e, wa') \<Rightarrow> (Inl e, wa')
      | (Inr r, wa') \<Rightarrow>
          record_timed_out env i summary jobs (if cr_ready r then Some (cr_payload r) else ready) ck wa')"

definition complete_timed_out ::
  "'w watch_env \<Rightarrow> 'w lease_ops \<Rightarrow> int \<Rightarrow> run_doc \<Rightarrow> string \<Rightarrow> watch_clock \<Rightarrow> 'w watch_state \<Rightarrow>
     (watch_error, bool) res \<times> 'w watch_state" where
  "complete_timed_out env ops timeout d phase ck wa =
     (let ids = timed_out_job_ids d phase in
      if ids = [] then (Inr False, wa)
      else
        (case record_timed_out env (rn_id d) (we_text env (DispatchTimedOut phase timeout)) ids None ck wa of
           (Inl e, wa') \<Rightarrow> (Inl e, wa')
         | (Inr None, wa') \<Rightarrow> (Inr True, wa')
         | (Inr (Some p), wa') \<Rightarrow>
             (case process_synthetic env ops (rn_id d) p ck wa' of
                (Some e, wa2) \<Rightarrow> (Inl e, wa2)
              | (None, wa2) \<Rightarrow> (Inr True, wa2))))"

definition expire_run ::
  "'w watch_env \<Rightarrow> 'w lease_ops \<Rightarrow> int \<Rightarrow> run_doc \<Rightarrow> string \<Rightarrow> watch_clock \<Rightarrow> 'w watch_state \<Rightarrow>
     watch_error option \<times> 'w watch_state" where
  "expire_run env ops timeout d phase ck wa =
     (case complete_timed_out env ops timeout d phase ck wa of
        (Inl e, wa') \<Rightarrow> (Some e, wa')
      | (Inr True, wa') \<Rightarrow> (None, wa')
      | (Inr False, wa') \<Rightarrow>
          (let (found, st) = abort_by_reason ops ''dispatch_timeout'' (rn_id d) (wc_text ck) (cs_store (wa_done wa')) in
           (if found then None else Some WatchRunMissing, with_store wa' st)))"

fun expire_runs ::
  "'w watch_env \<Rightarrow> 'w lease_ops \<Rightarrow> int \<Rightarrow> watch_clock \<Rightarrow> ledger_run list \<Rightarrow> int \<Rightarrow> 'w watch_state \<Rightarrow>
     (int \<times> watch_error option) \<times> 'w watch_state" where
  "expire_runs env ops timeout ck [] n wa = ((n, None), wa)"
| "expire_runs env ops timeout ck (r # rs) n wa =
     (case (if in_progress r then dispatch_timed_out_phase (we_parse env) timeout (wc_time ck) (lr_doc r) else None) of
        None \<Rightarrow> expire_runs env ops timeout ck rs n wa
      | Some phase \<Rightarrow>
          (case expire_run env ops timeout (lr_doc r) phase ck wa of
             (Some e, wa') \<Rightarrow> ((n, Some e), wa')
           | (None, wa') \<Rightarrow> expire_runs env ops timeout ck rs (n + 1) wa'))"

definition expire_dispatch_timeouts ::
  "'w watch_env \<Rightarrow> 'w lease_ops \<Rightarrow> int \<Rightarrow> watch_clock \<Rightarrow> (string \<times> string) list \<Rightarrow> 'w watch_state \<Rightarrow>
     (int \<times> watch_error option) \<times> 'w watch_state" where
  "expire_dispatch_timeouts env ops timeout ck projects wa =
     (if timeout \<le> 0 then ((0, None), wa)
      else over_projects
             (\<lambda>project n s. expire_runs env ops timeout ck (list_project_runs (we_updated env) project (watched_runs s)) n s)
             projects 0 wa)"

section \<open>Jobs that failed\<close>

definition active_jobs :: "run_doc \<Rightarrow> job_exec list" where
  "active_jobs d =
     concat (map (\<lambda>p. filter (\<lambda>j. je_state j = ''active'' \<and> trim_space (je_k8s_name j) \<noteq> []) (pe_jobs p))
              (filter (\<lambda>p. pe_state p = ''active'') (rn_execs d)))"

definition failure_payload :: "'w watch_env \<Rightarrow> string \<Rightarrow> job_failure \<Rightarrow> string \<Rightarrow> job_payload" where
  "failure_payload env job f url = synthetic_payload job (jf_conclusion f) (jf_reason f) (we_text env (jf_end f)) url"

definition complete_failed_job ::
  "'w watch_env \<Rightarrow> 'w lease_ops \<Rightarrow> string \<Rightarrow> job_payload \<Rightarrow> watch_clock \<Rightarrow> 'w watch_state \<Rightarrow>
     bool \<times> watch_error option \<times> 'w watch_state" where
  "complete_failed_job env ops i p ck wa =
     (case record_synthetic env i p ck wa of
        (Inl e, wa') \<Rightarrow> (False, Some e, wa')
      | (Inr r, wa') \<Rightarrow>
          (True, if cr_ready r then process_synthetic env ops i (cr_payload r) ck wa' else (None, wa')))"

fun reconcile_jobs ::
  "'w watch_env \<Rightarrow> 'w lease_ops \<Rightarrow> string \<Rightarrow> int \<Rightarrow> ledger_run \<Rightarrow> watch_clock \<Rightarrow> job_exec list \<Rightarrow> int \<Rightarrow> 'w watch_state \<Rightarrow>
     (int \<times> watch_error option) \<times> 'w watch_state" where
  "reconcile_jobs env ops namespace grace r ck [] n wa = ((n, None), wa)"
| "reconcile_jobs env ops namespace grace r ck (j # js) n wa =
     (case we_status env namespace (je_k8s_name j) of
        Inl e \<Rightarrow> ((n, Some (StatusNotRead e)), wa)
      | Inr s \<Rightarrow>
          (case evaluate_active_job_failure grace (wc_time ck) (je_k8s_name j) s of
             None \<Rightarrow> reconcile_jobs env ops namespace grace r ck js n wa
           | Some f \<Rightarrow>
               (let url = we_link env namespace (je_k8s_name j)
                            (Some (parsed_or (we_parse env) (wc_time ck) (lr_created r))) (wc_time ck) in
                case complete_failed_job env ops (rn_id (lr_doc r)) (failure_payload env (je_id j) f url) ck wa of
                  (counted, Some e, wa') \<Rightarrow> ((if counted then n + 1 else n, Some e), wa')
                | (_, None, wa') \<Rightarrow> reconcile_jobs env ops namespace grace r ck js (n + 1) wa')))"

text \<open>An error ends the pass; the completions of the run it came up in are not counted then.\<close>

fun reconcile_runs ::
  "'w watch_env \<Rightarrow> 'w lease_ops \<Rightarrow> string \<Rightarrow> int \<Rightarrow> watch_clock \<Rightarrow> ledger_run list \<Rightarrow> int \<Rightarrow> 'w watch_state \<Rightarrow>
     (int \<times> watch_error option) \<times> 'w watch_state" where
  "reconcile_runs env ops namespace grace ck [] n wa = ((n, None), wa)"
| "reconcile_runs env ops namespace grace ck (r # rs) n wa =
     (if \<not> in_progress r then reconcile_runs env ops namespace grace ck rs n wa
      else
        (case reconcile_jobs env ops namespace grace r ck (active_jobs (lr_doc r)) 0 wa of
           ((_, Some e), wa') \<Rightarrow> ((n, Some e), wa')
         | ((m, None), wa') \<Rightarrow> reconcile_runs env ops namespace grace ck rs (n + m) wa'))"

definition expire_failed_jobs ::
  "'w watch_env \<Rightarrow> 'w lease_ops \<Rightarrow> string \<Rightarrow> int \<Rightarrow> watch_clock \<Rightarrow> (string \<times> string) list \<Rightarrow> 'w watch_state \<Rightarrow>
     (int \<times> watch_error option) \<times> 'w watch_state" where
  "expire_failed_jobs env ops namespace grace ck projects wa =
     (let ns = trim_space namespace in
      if ns = [] then ((0, None), wa)
      else over_projects
             (\<lambda>project n s. reconcile_runs env ops ns grace ck (list_project_runs (we_updated env) project (watched_runs s)) n s)
             projects 0 wa)"

section \<open>Inner jobs that ended\<close>

definition open_inner_jobs :: "run_doc \<Rightarrow> (string \<times> inner_job) list" where
  "open_inner_jobs d =
     concat (map (\<lambda>p. map (Pair (pe_name p))
                (filter (\<lambda>r. (ij_state r = [] \<or> ij_state r = ''active'') \<and>
                             trim_space (ij_namespace r) \<noteq> [] \<and> trim_space (ij_name r) \<noteq> []) (pe_inner p)))
              (rn_execs d))"

definition inner_log :: "'w watch_env \<Rightarrow> string \<Rightarrow> string \<Rightarrow> inner_job \<Rightarrow> inner_end \<Rightarrow> string" where
  "inner_log env project i r e =
     (let url = we_capture env project i (ij_namespace r) (ij_name r) in
      if url \<noteq> [] then url
      else we_link env (ij_namespace r) (ij_name r) (we_parse env (trim_space (ij_registered r))) (ie_time e))"

definition record_event_by_id ::
  "string \<Rightarrow> event_request \<Rightarrow> watch_clock \<Rightarrow> 'w watch_state \<Rightarrow> event_reply option \<times> 'w watch_state" where
  "record_event_by_id i q ck wa =
     (case run_by_id i (watched_runs wa) of
        None \<Rightarrow> (None, wa)
      | Some d \<Rightarrow>
          (case record_runner_event d q (wc_text ck) (wa_events wa i, d) of
             (reply, tbl, d') \<Rightarrow>
               (Some reply,
                (with_store wa ((cs_store (wa_done wa))\<lparr>as_runs := put_run i d' (watched_runs wa)\<rparr>))
                  \<lparr>wa_events := (wa_events wa)(i := tbl)\<rparr>)))"

text \<open>A status that cannot be read, and an event that is known with other data, are passed over.\<close>

fun terminate_inner_jobs ::
  "'w watch_env \<Rightarrow> int \<Rightarrow> run_doc \<Rightarrow> watch_clock \<Rightarrow> (string \<times> inner_job) list \<Rightarrow> int \<Rightarrow> 'w watch_state \<Rightarrow>
     (int \<times> watch_error option) \<times> 'w watch_state" where
  "terminate_inner_jobs env grace d ck [] n wa = ((n, None), wa)"
| "terminate_inner_jobs env grace d ck ((phase, r) # rs) n wa =
     (case we_status env (ij_namespace r) (ij_name r) of
        Inl _ \<Rightarrow> terminate_inner_jobs env grace d ck rs n wa
      | Inr s \<Rightarrow>
          (case inner_job_end grace (wc_time ck) s of
             None \<Rightarrow> terminate_inner_jobs env grace d ck rs n wa
           | Some e \<Rightarrow>
               (let q = termination_request (we_format env) phase r e (inner_log env (rn_project d) (rn_id d) r e) in
                case record_event_by_id (rn_id d) q ck wa of
                  (None, wa') \<Rightarrow> ((n, Some WatchRunMissing), wa')
                | (Some EventAccepted, wa') \<Rightarrow> terminate_inner_jobs env grace d ck rs (n + 1) wa'
                | (Some (EventRefused RunConflict), wa') \<Rightarrow> terminate_inner_jobs env grace d ck rs n wa'
                | (Some reply, wa') \<Rightarrow> ((n, Some (EventNotRecorded reply)), wa'))))"

fun terminate_runs ::
  "'w watch_env \<Rightarrow> int \<Rightarrow> watch_clock \<Rightarrow> ledger_run list \<Rightarrow> int \<Rightarrow> 'w watch_state \<Rightarrow>
     (int \<times> watch_error option) \<times> 'w watch_state" where
  "terminate_runs env grace ck [] n wa = ((n, None), wa)"
| "terminate_runs env grace ck (r # rs) n wa =
     (if \<not> in_progress r then terminate_runs env grace ck rs n wa
      else
        (case terminate_inner_jobs env grace (lr_doc r) ck (open_inner_jobs (lr_doc r)) n wa of
           ((m, None), wa') \<Rightarrow> terminate_runs env grace ck rs m wa'
         | stopped \<Rightarrow> stopped))"

definition expire_inner_jobs ::
  "'w watch_env \<Rightarrow> int \<Rightarrow> watch_clock \<Rightarrow> (string \<times> string) list \<Rightarrow> 'w watch_state \<Rightarrow>
     (int \<times> watch_error option) \<times> 'w watch_state" where
  "expire_inner_jobs env grace ck projects wa =
     over_projects
       (\<lambda>project n s. terminate_runs env grace ck (list_project_runs (we_updated env) project (watched_runs s)) n s)
       projects 0 wa"

section \<open>The watch\<close>

datatype watch_result =
    WatchIgnored
  | WatchSettled
  | WatchFailed watch_error

definition job_labels :: "vmap \<Rightarrow> vmap" where
  "job_labels job = any_map_value (vget_any (any_map_value (vget_any job ''metadata'')) ''labels'')"

fun text_of :: "goval \<Rightarrow> string" where
  "text_of (VStr s) = s"
| "text_of _ = []"

definition job_label :: "vmap \<Rightarrow> string \<Rightarrow> string" where
  "job_label job k = text_of (vget_any (job_labels job) k)"

definition job_meta :: "vmap \<Rightarrow> string \<Rightarrow> string" where
  "job_meta job k = trim_space (text_of (vget_any (any_map_value (vget_any job ''metadata'')) k))"

text \<open>Labels are normalised when the launcher sets them; the run is found by its normalised address.\<close>

definition find_run_by_ref :: "'w watch_env \<Rightarrow> string \<Rightarrow> string \<Rightarrow> ledger_run list \<Rightarrow> ledger_run option" where
  "find_run_by_ref env project ref runs =
     find (\<lambda>r. in_progress r \<and> label_value (we_ref env r) = ref) (list_project_runs (we_updated env) project runs)"

text \<open>A conflict or a missing run at the recording says that the job has been settled already.\<close>

fun settled_elsewhere :: "watch_error \<Rightarrow> bool" where
  "settled_elsewhere WatchRunMissing = True"
| "settled_elsewhere (WatchRefused RunConflict) = True"
| "settled_elsewhere (WatchRefused (Recording RecordConflict)) = True"
| "settled_elsewhere _ = False"

definition dispatch_outer_terminal ::
  "'w watch_env \<Rightarrow> 'w lease_ops \<Rightarrow> string \<Rightarrow> watch_clock \<Rightarrow> vmap \<Rightarrow> job_status \<Rightarrow> 'w watch_state \<Rightarrow>
     watch_result \<times> 'w watch_state" where
  "dispatch_outer_terminal env ops namespace ck job s wa =
     (let label = (\<lambda>k. trim_space (job_label job (''glimmung.romaine.life/'' @ k)));
          project = label ''project''; ref = label ''run-ref''; job_id = label ''job-id'' in
      if project = [] \<or> ref = [] \<or> label ''phase'' = [] \<or> job_id = [] then (WatchIgnored, wa)
      else
        (case find_run_by_ref env project ref (watched_runs wa) of
           None \<Rightarrow> (WatchIgnored, wa)
         | Some r \<Rightarrow>
             (let i = rn_id (lr_doc r); name = job_meta job ''name'';
                  captured = we_capture_job env project i namespace name;
                  url = (if captured \<noteq> [] then captured else we_link env namespace name None (wc_time ck)) in
              case complete_failed_job env ops i
                     (failure_payload env job_id (derive_terminal_from_status name s) url) ck wa of
                (_, None, wa') \<Rightarrow> (WatchSettled, wa')
              | (recorded, Some e, wa') \<Rightarrow>
                  (if \<not> recorded \<and> settled_elsewhere e then WatchIgnored else WatchFailed e, wa'))))"

text \<open>The owner of an inner job: project, run, phase and the entry that was registered, the first that fits.\<close>

definition inner_owners :: "string \<Rightarrow> string \<Rightarrow> ledger_run \<Rightarrow> (string \<times> inner_job) list" where
  "inner_owners namespace name r =
     concat (map (\<lambda>p. map (Pair (pe_name p)) (filter (\<lambda>j. ij_namespace j = namespace \<and> ij_name j = name) (pe_inner p)))
              (rn_execs (lr_doc r)))"

definition owners_in ::
  "'w watch_env \<Rightarrow> string \<Rightarrow> string \<Rightarrow> 'w watch_state \<Rightarrow> string \<times> string \<Rightarrow>
     (string \<times> string \<times> string \<times> inner_job) list" where
  "owners_in env namespace name wa p =
     (let project = first_non_empty (fst p) (snd p) in
      if project = [] then []
      else concat (map (\<lambda>r. map (\<lambda>(phase, j). (project, rn_id (lr_doc r), phase, j)) (inner_owners namespace name r))
             (filter (\<lambda>r. report_state (lr_doc r) = ''in_progress'')
                (list_project_runs (we_updated env) project (watched_runs wa)))))"

definition watched_inner_end :: "int \<Rightarrow> job_status \<Rightarrow> inner_end" where
  "watched_inner_end now s =
     (if terminally_succeeded s \<and> \<not> terminally_failed s
      then \<lparr>ie_state = ''succeeded'', ie_reason = [], ie_time = ended_at now s\<rparr>
      else \<lparr>ie_state = ''failed'', ie_reason = inner_reason (failure_reason s), ie_time = ended_at now s\<rparr>)"

definition dispatch_inner_terminal ::
  "'w watch_env \<Rightarrow> (string \<times> string) list \<Rightarrow> watch_clock \<Rightarrow> vmap \<Rightarrow> job_status \<Rightarrow> 'w watch_state \<Rightarrow>
     watch_result \<times> 'w watch_state" where
  "dispatch_inner_terminal env projects ck job s wa =
     (let namespace = job_meta job ''namespace''; name = job_meta job ''name'' in
      if namespace = [] \<or> name = [] then (WatchIgnored, wa)
      else
        (case concat (map (owners_in env namespace name wa) projects) of
           [] \<Rightarrow> (WatchIgnored, wa)
         | (project, i, phase, j) # _ \<Rightarrow>
             (let e = watched_inner_end (wc_time ck) s;
                  r = j\<lparr>ij_parent_step := trim_space (ij_parent_step j)\<rparr>;
                  q = termination_request (we_format env) phase r e (inner_log env project i r e) in
              case record_event_by_id i q ck wa of
                (Some EventAccepted, wa') \<Rightarrow> (WatchSettled, wa')
              | (Some reply, wa') \<Rightarrow> (WatchFailed (EventNotRecorded reply), wa')
              | (None, wa') \<Rightarrow> (WatchFailed WatchRunMissing, wa'))))"

definition dispatch_job_object ::
  "'w watch_env \<Rightarrow> 'w lease_ops \<Rightarrow> string \<Rightarrow> (string \<times> string) list \<Rightarrow> watch_clock \<Rightarrow> vmap \<Rightarrow> 'w watch_state \<Rightarrow>
     watch_result \<times> 'w watch_state" where
  "dispatch_job_object env ops namespace projects ck job wa =
     (let s = parse_job_status (we_parse env) job; owner = job_label job ''app.kubernetes.io/managed-by'' in
      if \<not> terminally_succeeded s \<and> \<not> terminally_failed s then (WatchIgnored, wa)
      else if owner = ''glimmung'' then dispatch_outer_terminal env ops namespace ck job s wa
      else if owner = ''glimmung-inner'' then dispatch_inner_terminal env projects ck job s wa
      else (WatchIgnored, wa))"

definition handle_watch_event ::
  "'w watch_env \<Rightarrow> 'w lease_ops \<Rightarrow> string \<Rightarrow> (string \<times> string) list \<Rightarrow> watch_clock \<Rightarrow> string \<Rightarrow> vmap \<Rightarrow> 'w watch_state \<Rightarrow>
     watch_result \<times> 'w watch_state" where
  "handle_watch_event env ops namespace projects ck kind job wa =
     (if kind = ''ADDED'' \<or> kind = ''MODIFIED'' then dispatch_job_object env ops namespace projects ck job wa
      else (WatchIgnored, wa))"

text \<open>Each reconnect starts with a list of the jobs.\<close>

definition list_and_sync ::
  "'w watch_env \<Rightarrow> 'w lease_ops \<Rightarrow> string \<Rightarrow> (string \<times> string) list \<Rightarrow> watch_clock \<Rightarrow> vmap list \<Rightarrow> 'w watch_state \<Rightarrow>
     'w watch_state" where
  "list_and_sync env ops namespace projects ck jobs wa =
     foldl (\<lambda>s job. snd (dispatch_job_object env ops namespace projects ck job s)) wa jobs"

definition next_backoff :: "int \<Rightarrow> int" where
  "next_backoff prev = (if 30000000000 < prev * 2 then 30000000000 else prev * 2)"

end
