(* ===== verification/ReconcilerOutcomes.thy ===== *)
theory ReconcilerOutcomes
  imports RunWatch AdmissionSafety CompletionOutcomes RoutingSafety
begin

text \<open>
  What the reconciler and the watch guarantee and where they go wrong: a job that is lost is never
  taken for a success, a phase none of whose jobs reports is handed on as timed out, a pass without
  overdue runs changes nothing; a skipped phase is overdue for ever, one run can end the pass for
  all others, an inner job of an earlier phase never ends, a job with an unusual name is not seen.
\<close>

section \<open>A lost job\<close>

lemma failure_kinds:
  assumes "evaluate_active_job_failure grace now name s = Some f"
  shows "jf_conclusion f = ''failed'' \<or> jf_conclusion f = ''timed_out''"
    and "jf_reason f \<in> set [''pod_gone'', ''callback_lost'', ''job_failed'', ''deadline_exceeded'', ''backoff_exceeded'',
                             ''oom_killed'', ''evicted'']"
  using assms
  by (auto simp: evaluate_active_job_failure_def lost_callback_def failed_job_def kubernetes_failure_def
      refine_terminal_reason_def Let_def split: if_splits)

lemma failure_payload_fields [simp]:
  "jp_conclusion (failure_payload env job f url) = jf_conclusion f"
  "jp_status (failure_payload env job f url) = []" "jp_refs (failure_payload env job f url) = []"
  "jp_evidence (failure_payload env job f url) = []" "jp_reason (failure_payload env job f url) = jf_reason f"
  by (simp_all add: failure_payload_def synthetic_payload_def)


section \<open>Recording on the stored run\<close>

lemma watched_with_store [simp]:
  "watched_runs (with_store wa st) = as_runs st" "wa_events (with_store wa st) = wa_events wa"
  "with_store wa (cs_store (wa_done wa)) = wa" "cs_store (wa_done (with_store wa st)) = st"
  by (simp_all add: watched_runs_def with_store_def)

text \<open>The run a completion without an attempt is recorded on: its last attempt is a job phase.\<close>

definition records_on ::
  "'w watch_env \<Rightarrow> run_doc \<Rightarrow> string list \<Rightarrow> bool" where
  "records_on env d expected =
     (rn_attempts d \<noteq> [] \<and> attempt_doc.ad_kind (last (rn_attempts d)) = ''k8s_job'' \<and>
      (\<exists>wkf. executed_workflow (ce_tables (fe_completion (we_full env))) d = Some wkf \<and>
             expected_job_ids (ce_scripts (fe_completion (we_full env))) wkf
               (attempt_doc.ad_phase (last (rn_attempts d))) = Inr expected))"

lemma record_on_last:
  assumes "records_on env d expected" and "trim_space job \<noteq> []" and "jp_job p = Some job" "jp_attempt p = None"
  obtains wkf where
    "executed_workflow (ce_tables (fe_completion (we_full env))) d = Some wkf"
    "record_job_completion (ce_scripts (fe_completion (we_full env))) (Some wkf) p now d =
       (let i = length (rn_attempts d) - 1; a = rn_attempts d ! i in
        case record_on_attempt expected (attempt_doc.ad_phase a) (trim_space job) p now (ad_completed a \<noteq> []) (ad_completions a) of
          Inl e \<Rightarrow> Inl (Recording e)
        | Inr AlreadyCompleted \<Rightarrow>
            Inr (\<lparr>rr_expected = expected, rr_completions = ad_completions a, rr_phase_complete = True, rr_ready = False\<rparr>, d)
        | Inr DuplicateCompletion \<Rightarrow>
            Inr (\<lparr>rr_expected = expected, rr_completions = ad_completions a,
                  rr_phase_complete = all_expected_completed expected (ad_completions a), rr_ready = False\<rparr>, d)
        | Inr (Recorded cs) \<Rightarrow>
            let all_in = all_expected_completed expected cs in
            Inr (\<lparr>rr_expected = expected, rr_completions = cs, rr_phase_complete = all_in, rr_ready = all_in\<rparr>,
                 (with_completions i cs d)
                   \<lparr>rn_updated := now,
                    rn_execs := mark_recorded (attempt_doc.ad_phase a) (trim_space job)
                      (completion_of_payload (trim_space job) p now) (rn_execs d)\<rparr>))"
  using assms unfolding records_on_def
  by (auto simp: record_job_completion_def position_of_def last_conv_nth Let_def)

section \<open>One run ends the pass\<close>

lemma synthetic_fields [simp]:
  "jp_job (synthetic_payload job c r s u) = Some job" "jp_attempt (synthetic_payload job c r s u) = None"
  "jp_conclusion (synthetic_payload job c r s u) = c" "jp_outputs (synthetic_payload job c r s u) = None"
  by (simp_all add: synthetic_payload_def)

lemma foreign_job_refused:
  assumes "run_by_id i (watched_runs wa) = Some d" and "records_on env d expected"
    and "trim_space job \<noteq> []" "trim_space job \<notin> set expected"
  shows "record_synthetic env i (synthetic_payload job c r s u) ck wa =
    (Inl (WatchRefused (Recording (JobNotOnPhase (trim_space job) (attempt_doc.ad_phase (last (rn_attempts d)))))), wa)"
proof -
  have ne: "rn_attempts d \<noteq> []" using assms(2) by (simp add: records_on_def)
  show ?thesis
    by (rule record_on_last [OF assms(2,3), of "synthetic_payload job c r s u" "wc_text ck"])
      (use assms(1,4) ne in \<open>simp_all add: record_synthetic_def record_stored_def record_on_attempt_def Let_def
         last_conv_nth watched_runs_def\<close>)
qed

text \<open>
  C28: When the projection shows a phase as dispatching that is not the phase of the run's last attempt,
  and the first unfinished job shown there is not a job of that attempt, the refusal of its
  completion ends the pass: no later run is looked at, in this project or another, and the run
  itself stays as it is.
\<close>
theorem foreign_phase_ends_pass:
  assumes "in_progress r" and "dispatch_timed_out_phase (we_parse env) timeout (wc_time ck) (lr_doc r) = Some phase"
    and "timed_out_job_ids (lr_doc r) phase = job # jobs" and "run_by_id (rn_id (lr_doc r)) (watched_runs wa) = Some d"
    and "records_on env d expected" and "trim_space job \<noteq> []" "trim_space job \<notin> set expected"
  shows "expire_runs env ops timeout ck (r # rs) n wa =
    ((n, Some (WatchRefused (Recording (JobNotOnPhase (trim_space job) (attempt_doc.ad_phase (last (rn_attempts d))))))), wa)"
  using assms(1-3) by (simp add: expire_run_def complete_timed_out_def foreign_job_refused [OF assms(4-7)])

section \<open>A phase nobody reports from\<close>

definition only_timed_out :: "string list \<Rightarrow> completions \<Rightarrow> bool" where
  "only_timed_out past cs = (map fst cs = past \<and> (\<forall>(i, c) \<in> set cs. jc_conclusion c = ''timed_out''))"

lemma only_timed_out_stored: "only_timed_out past cs \<Longrightarrow> only_timed_out past (store_all cs)"
  by (auto simp: only_timed_out_def store_all_def stored_completion_def case_prod_beta comp_def)

lemma timed_out_aggregate:
  assumes "only_timed_out past cs" and "job \<in> set past" "job \<in> set expected"
  shows "jp_conclusion (aggregate_completion add expected cs) = ''timed_out''"
proof -
  let ?js = "completed_jobs (reported_ids expected cs) cs"
  have all: "jc_conclusion c = ''timed_out''" if "(i, c) \<in> set ?js" for i c
    using that assms(1) by (auto simp: completed_jobs_set only_timed_out_def dest!: map_of_SomeD)
  have "map_of cs job \<noteq> None" using assms(1,2) by (auto simp: only_timed_out_def map_of_eq_None_iff)
  then obtain c where "map_of cs job = Some c" by blast
  moreover have "expected \<noteq> []" using assms(3) by auto
  ultimately have "(job, c) \<in> set ?js" using assms(3) by (auto simp: completed_jobs_set reported_ids_def)
  then obtain j js where js: "?js = j # js" by (cases ?js) auto
  have "verdict_bearing (snd j)" "jc_conclusion (snd j) = ''timed_out''"
    using all [of "fst j" "snd j"] js by (auto simp: verdict_bearing_def)
  then have "first_bad_conclusion (map snd ?js) = ''timed_out''" by (simp add: first_bad_conclusion_def js)
  then show ?thesis by (simp add: aggregate_completion_def Let_def)
qed

definition waiting_on :: "'w watch_env \<Rightarrow> string \<Rightarrow> string list \<Rightarrow> string list \<Rightarrow> 'w watch_state \<Rightarrow> bool" where
  "waiting_on env i expected past wa =
     (\<exists>d. run_by_id i (watched_runs wa) = Some d \<and> records_on env d expected \<and>
          ad_completed (last (rn_attempts d)) = [] \<and> only_timed_out past (ad_completions (last (rn_attempts d))))"

lemma one_more_timed_out:
  assumes "waiting_on env i (past @ job # todo) past wa" and "distinct (past @ job # todo)"
    and "trim_space job = job" "job \<noteq> []"
  obtains res wa' where
    "record_synthetic env i (synthetic_payload job ''timed_out'' [] s []) ck wa = (Inr res, wa')"
    "waiting_on env i (past @ job # todo) (past @ [job]) wa'" "cr_ready res = (todo = [])"
    "jp_conclusion (cr_payload res) = ''timed_out''"
proof -
  let ?ids = "past @ job # todo" and ?p = "synthetic_payload job ''timed_out'' [] s []"
  obtain d where d: "run_by_id i (watched_runs wa) = Some d" "records_on env d ?ids"
    "ad_completed (last (rn_attempts d)) = []" "only_timed_out past (ad_completions (last (rn_attempts d)))"
    using assms(1) by (auto simp: waiting_on_def)
  define a where "a = last (rn_attempts d)"
  define c where "c = completion_of_payload job ?p (wc_text ck)"
  define cs where "cs = ad_completions a @ [(job, c)]"
  define k where "k = length (rn_attempts d) - 1"
  have ne: "rn_attempts d \<noteq> []" using d(2) by (simp add: records_on_def)
  then have k: "rn_attempts d ! k = a" "k < length (rn_attempts d)" by (simp_all add: k_def a_def last_conv_nth)
  have k0: "length (rn_attempts d) - Suc 0 = k" by (simp add: k_def)
  have fresh: "job \<notin> fst ` set (ad_completions a)"
    using d(4) assms(2) unfolding a_def only_timed_out_def by (metis Un_iff disjoint_iff distinct_append list.set_intros(1) list.set_map)
  have outs: "JobCompletions.slice (jc_outputs c) = []" "jc_conclusion c = ''timed_out''"
    by (simp_all add: c_def completion_of_payload_def)
  have cs: "only_timed_out (past @ [job]) cs" using d(4) outs by (auto simp: only_timed_out_def cs_def a_def)
  have rec: "record_on_attempt ?ids (attempt_doc.ad_phase a) job ?p (wc_text ck) (ad_completed a \<noteq> []) (ad_completions a)
      = Inr (Recorded cs)"
    using fresh d(3) outs by (auto simp: record_on_attempt_def a_def [symmetric] c_def [symmetric] cs_def update_fresh
        validate_output_keys_def Let_def map_of_eq_None_iff split: option.split)
  have done_all: "all_expected_completed ?ids cs \<longleftrightarrow> todo = []"
  proof -
    have keys: "(\<exists>y. map_of cs j = Some y) \<longleftrightarrow> j \<in> set past \<or> j = job" for j
    proof -
      have names: "map fst cs = past @ [job]" using cs by (simp add: only_timed_out_def)
      have "map_of cs j = None \<longleftrightarrow> j \<notin> set (past @ [job])" unfolding names [symmetric] by (simp add: map_of_eq_None_iff)
      then show ?thesis by auto
    qed
    show ?thesis using assms(2) by (cases todo) (auto simp: all_expected_completed_def list_all_iff keys)
  qed
  let ?d = "(with_completions k cs d)\<lparr>rn_updated := wc_text ck,
      rn_execs := mark_recorded (attempt_doc.ad_phase a) job c (rn_execs d)\<rparr>"
  let ?st = "(cs_store (wa_done wa))\<lparr>as_runs := put_run i ?d (watched_runs wa)\<rparr>"
  let ?res = "completion_result_of (ce_add (fe_completion (we_full env)))
      \<lparr>rr_expected = ?ids, rr_completions = cs, rr_phase_complete = (todo = []), rr_ready = (todo = [])\<rparr>"
  have "record_synthetic env i ?p ck wa = (Inr ?res, with_store wa ?st)"
    by (rule record_on_last [OF d(2), of job ?p "wc_text ck"])
      (use assms(3,4) d(1) rec done_all k in \<open>simp_all add: record_synthetic_def record_stored_def Let_def
         watched_runs_def k0 c_def [symmetric]\<close>)
  moreover have "waiting_on env i ?ids (past @ [job]) (with_store wa ?st)"
  proof -
    have last: "last (rn_attempts ?d) = a\<lparr>ad_completions := store_all cs\<rparr>"
      using k ne by (simp add: with_completions_def edit_at_def last_list_update k_def)
    have "records_on env ?d ?ids"
    proof -
      have parts: "rn_project ?d = rn_project d" "rn_workflow ?d = rn_workflow d" "rn_schema_ref ?d = rn_schema_ref d"
        "rn_attempts ?d \<noteq> []"
        using ne by (simp_all add: with_completions_def edit_at_def)
      show ?thesis
        using d(2) parts(4) unfolding records_on_def last executed_workflow_def parts(1-3) by (simp add: a_def)
    qed
    moreover have "run_by_id i (put_run i ?d (watched_runs wa)) = Some ?d"
      using d(1) run_by_id_Some [OF d(1)] by (simp add: run_by_id_put with_completions_def edit_at_def)
    ultimately show ?thesis
      unfolding waiting_on_def using last d(3) only_timed_out_stored [OF cs] by (auto simp: a_def)
  qed
  moreover have "jp_conclusion (cr_payload ?res) = ''timed_out''"
    using timed_out_aggregate [OF cs, of job ?ids] by (simp add: completion_result_of_def)
  ultimately show thesis using that by (simp add: completion_result_of_def)
qed

lemma all_timed_out:
  assumes "waiting_on env i (past @ todo) past wa" and "distinct (past @ todo)"
    and "\<forall>j \<in> set todo. trim_space j = j \<and> j \<noteq> []" and "todo \<noteq> []"
  shows "\<exists>p wa'. record_timed_out env i s todo ready ck wa = (Inr (Some p), wa') \<and>
    jp_conclusion p = ''timed_out'' \<and> waiting_on env i (past @ todo) (past @ todo) wa'"
  using assms
proof (induction todo arbitrary: past ready wa)
  case (Cons job todo)
  obtain res wa' where step:
    "record_synthetic env i (synthetic_payload job ''timed_out'' [] s []) ck wa = (Inr res, wa')"
    "waiting_on env i (past @ job # todo) (past @ [job]) wa'" "cr_ready res = (todo = [])"
    "jp_conclusion (cr_payload res) = ''timed_out''"
    by (rule one_more_timed_out [OF Cons.prems(1,2)]) (use Cons.prems(3) in auto)
  show ?case
  proof (cases "todo = []")
    case True
    with step show ?thesis by simp
  next
    case False
    have "\<exists>p wa2. record_timed_out env i s todo ready ck wa' = (Inr (Some p), wa2) \<and> jp_conclusion p = ''timed_out'' \<and>
        waiting_on env i ((past @ [job]) @ todo) ((past @ [job]) @ todo) wa2"
      by (rule Cons.IH) (use Cons.prems step(2) False in auto)
    with step False show ?thesis by simp
  qed
qed simp

text \<open>
  C11: When the dispatch of the run's last attempt has timed out and none of the phase's jobs has
  reported, each of them is recorded as timed out, and the phase is handed on exactly then, with
  that conclusion.
\<close>
theorem silent_phase_timed_out:
  assumes "timed_out_job_ids d phase = ids" and "waiting_on env (rn_id d) ids [] wa" and "ids \<noteq> []"
    and "distinct ids" and "\<forall>j \<in> set ids. trim_space j = j"
  shows "\<exists>p wa'. jp_conclusion p = ''timed_out'' \<and> waiting_on env (rn_id d) ids ids wa' \<and>
    complete_timed_out env ops timeout d phase ck wa =
      (case process_synthetic env ops (rn_id d) p ck wa' of (Some e, wa2) \<Rightarrow> (Inl e, wa2) | (None, wa2) \<Rightarrow> (Inr True, wa2))"
proof -
  have "\<forall>j \<in> set ids. trim_space j = j \<and> j \<noteq> []"
    using assms(1,5) by (auto simp: timed_out_job_ids_def unfinished_job_def split: option.splits)
  from all_timed_out [of env "rn_id d" "[]" ids, simplified, OF assms(2,4) this assms(3)]
  obtain p wa' where p: "record_timed_out env (rn_id d) (we_text env (DispatchTimedOut phase timeout)) ids None ck wa
      = (Inr (Some p), wa')" "jp_conclusion p = ''timed_out''" "waiting_on env (rn_id d) ids ids wa'"
    by blast
  then show ?thesis using assms(1,3) by (auto simp: complete_timed_out_def)
qed

section \<open>Passes\<close>

lemma quiet_projects:
  assumes "\<And>project n. f project n s = ((n, None), s)"
  shows "over_projects f ps n s = ((n, None), s)"
  using assms by (induction f ps n s rule: over_projects.induct) (auto simp: Let_def)

lemma quiet_runs:
  assumes "\<forall>r \<in> set rs. in_progress r \<longrightarrow> dispatch_timed_out_phase (we_parse env) timeout (wc_time ck) (lr_doc r) = None"
  shows "expire_runs env ops timeout ck rs n wa = ((n, None), wa)"
  using assms by (induction rs) auto

lemma listed_rows: "set (list_project_runs updated project runs) \<subseteq> {r \<in> set runs. rn_project (lr_doc r) = project}"
  by (auto simp: list_project_runs_def dest!: in_set_takeD)

lemma quiet_pass:
  assumes "\<And>project r. r \<in> set (list_project_runs (we_updated env) project (watched_runs wa)) \<Longrightarrow> in_progress r \<Longrightarrow>
      dispatch_timed_out_phase (we_parse env) timeout (wc_time ck) (lr_doc r) = None"
  shows "expire_dispatch_timeouts env ops timeout ck projects wa = ((0, None), wa)"
  unfolding expire_dispatch_timeouts_def
  by (simp, intro impI quiet_projects quiet_runs) (use assms in blast)

text \<open>A pass over runs of which none is overdue changes nothing.\<close>

theorem quiet_pass_changes_nothing:
  assumes "\<forall>r \<in> set (watched_runs wa). in_progress r \<longrightarrow>
      dispatch_timed_out_phase (we_parse env) timeout (wc_time ck) (lr_doc r) = None"
  shows "expire_dispatch_timeouts env ops timeout ck projects wa = ((0, None), wa)"
  by (rule quiet_pass) (use assms listed_rows in blast)

lemma sorted_below:
  fixes g :: "'a \<Rightarrow> int"
  assumes "sorted (map g xs)" and "x \<in> set (take m xs)"
  shows "length (filter (\<lambda>y. g y < g x) xs) < m"
proof -
  obtain k where k: "k < m" "k < length xs" "xs ! k = x"
    using assms(2) by (auto simp: in_set_conv_nth)
  have "\<not> g (xs ! j) < g x" if "k \<le> j" "j < length xs" for j
    using sorted_nth_mono [OF assms(1), of k j] that k by simp
  then have "filter (\<lambda>y. g y < g x) (drop k xs) = []"
    by (fastforce simp: filter_empty_conv in_set_conv_nth)
  then have "length (filter (\<lambda>y. g y < g x) xs) = length (filter (\<lambda>y. g y < g x) (take k xs))"
    by (metis append_Nil2 append_take_drop_id filter_append)
  also have "\<dots> \<le> k" by (rule order_trans [OF length_filter_le]) simp
  finally show ?thesis using k(1) by simp
qed

lemma stale_row_not_listed:
  assumes "500 \<le> length (filter (\<lambda>x. rn_project (lr_doc x) = project \<and> updated r < updated x) runs)"
  shows "r \<notin> set (list_project_runs updated project runs)"
proof
  let ?rows = "filter (\<lambda>r. rn_project (lr_doc r) = project) runs"
  let ?xs = "sort_key (\<lambda>r. - updated r) ?rows"
  assume "r \<in> set (list_project_runs updated project runs)"
  then have "length (filter (\<lambda>y. - updated y < - updated r) ?xs) < 500"
    unfolding list_project_runs_def by (rule sorted_below [rotated]) simp
  moreover have "length (filter P ?xs) = length (filter P ?rows)" for P
    by (metis mset_filter mset_sort size_mset)
  moreover have "filter (\<lambda>y. - updated y < - updated r) ?rows
      = filter (\<lambda>x. rn_project (lr_doc x) = project \<and> updated r < updated x) runs"
    by (simp add: filter_filter)
  ultimately show False using assms by simp
qed

text \<open>
  A run is overdue because nothing happens to it, and the list a pass reads has only the 500 runs
  of a project that were written last: a run that as many others have overtaken is not seen again.
\<close>
theorem overtaken_run_is_not_seen:
  assumes "500 \<le> length (filter (\<lambda>x. rn_project (lr_doc x) = rn_project (lr_doc r) \<and> we_updated env r < we_updated env x)
      (watched_runs wa))"
    and "\<forall>x \<in> set (watched_runs wa). in_progress x \<longrightarrow> x = r \<or>
      dispatch_timed_out_phase (we_parse env) timeout (wc_time ck) (lr_doc x) = None"
  shows "expire_dispatch_timeouts env ops timeout ck projects wa = ((0, None), wa)"
proof (rule quiet_pass)
  fix project x
  assume x: "x \<in> set (list_project_runs (we_updated env) project (watched_runs wa))" "in_progress x"
  then have "x \<in> set (watched_runs wa)" "rn_project (lr_doc x) = project" using listed_rows by blast+
  moreover have "x \<noteq> r" if "rn_project (lr_doc x) = project"
    using stale_row_not_listed [OF assms(1)] x(1) that by auto
  ultimately show "dispatch_timed_out_phase (we_parse env) timeout (wc_time ck) (lr_doc x) = None"
    using assms(2) x(2) by blast
qed

section \<open>A skipped phase\<close>

lemma find_updated:
  assumes "\<And>x. P x \<Longrightarrow> P (f x) \<and> Q (f x)" and "list_ex P xs" and "\<forall>x \<in> set xs. \<not> Q x"
  shows "\<exists>y. find Q (update_first P f xs) = Some y \<and> P y"
  using assms(2,3) by (induction xs) (use assms(1) in auto)

lemma dispatching_is_overdue:
  assumes "\<forall>e \<in> set ps. \<not> overdue_phase parse timeout now e" and "parse t = Some at0" "t \<noteq> []" "timeout \<le> now - at0"
  shows "\<exists>e. find (overdue_phase parse timeout now) (mark_phase_dispatching name kind t ps) = Some e \<and> pe_name e = name"
proof (cases "list_ex (\<lambda>p. pe_name p = name) ps")
  case True
  then show ?thesis
    using find_updated [of "\<lambda>p. pe_name p = name" "dispatch_phase_exec kind t" "overdue_phase parse timeout now" ps] assms
    by (auto simp: mark_phase_dispatching_def dispatch_phase_exec_def overdue_phase_def phase_dispatch_time_def)
next
  case False
  have "find (overdue_phase parse timeout now) ps = None" using assms(1) by (simp add: find_None_iff)
  moreover have "overdue_phase parse timeout now (unplanned_dispatch name kind t)"
    using assms(2-4) by (simp add: unplanned_dispatch_def overdue_phase_def phase_dispatch_time_def)
  ultimately show ?thesis
    using False by (simp add: mark_phase_dispatching_def find_append unplanned_dispatch_def)
qed

lemma skip_stamp_parts:
  assumes "stamp_attempt_skipped reason t (append_run_attempt phase kind wff t d) = Inr d'"
  shows "rn_execs d' = mark_phase_dispatching phase kind t (rn_execs d)" "rn_attempts d' \<noteq> []"
    "ad_completed (last (rn_attempts d')) = t" "attempt_doc.ad_phase (last (rn_attempts d')) = phase"
    "attempt_doc.ad_kind (last (rn_attempts d')) = kind"
proof -
  obtain xs a where last: "rn_attempts (append_run_attempt phase kind wff t d) = xs @ [a]"
    "a = new_attempt (next_index (rn_attempts d)) phase kind wff t"
    by (simp add: append_run_attempt_def add_attempt_def)
  with assms show "rn_execs d' = mark_phase_dispatching phase kind t (rn_execs d)" "rn_attempts d' \<noteq> []"
    "ad_completed (last (rn_attempts d')) = t" "attempt_doc.ad_phase (last (rn_attempts d')) = phase"
    "attempt_doc.ad_kind (last (rn_attempts d')) = kind"
    by (auto simp: stamp_attempt_skipped_def edit_last_def update_last_snoc append_run_attempt_def new_attempt_def)
qed

lemma put_same:
  assumes "run_by_id i runs = Some d" and "distinct (map (\<lambda>r. rn_id (lr_doc r)) runs)"
  shows "put_run i d runs = runs"
proof -
  obtain r where r: "r \<in> set runs" "rn_id (lr_doc r) = i" "lr_doc r = d"
    using assms(1) by (force simp: run_by_id_def row_by_id_def find_Some_iff in_set_conv_nth)
  have "x = r" if "x \<in> set runs" "rn_id (lr_doc x) = i" for x
    using assms(2) that r by (auto simp: distinct_map inj_on_def)
  with r(3) show ?thesis unfolding put_run_def by (auto intro!: map_idI)
qed

lemma completed_attempt_kept:
  assumes "run_by_id i (watched_runs wa) = Some d" and "records_on env d expected" and "ad_completed (last (rn_attempts d)) \<noteq> []"
    and "trim_space job \<in> set expected" "trim_space job \<noteq> []" and "distinct (map (\<lambda>r. rn_id (lr_doc r)) (watched_runs wa))"
  shows "\<exists>res. record_synthetic env i (synthetic_payload job c r s u) ck wa = (Inr res, wa) \<and> \<not> cr_ready res"
proof -
  have ne: "rn_attempts d \<noteq> []" using assms(2) by (simp add: records_on_def)
  have same: "with_store wa ((cs_store (wa_done wa))\<lparr>as_runs := put_run i d (as_runs (cs_store (wa_done wa)))\<rparr>) = wa"
    using put_same [OF assms(1,6)] by (simp add: watched_runs_def)
  show ?thesis
    by (rule record_on_last [OF assms(2,5), of "synthetic_payload job c r s u" "wc_text ck"])
      (use assms(1,3,4) ne same in \<open>simp_all add: record_synthetic_def record_stored_def record_on_attempt_def Let_def
         last_conv_nth watched_runs_def completion_result_of_def\<close>)
qed

lemma nothing_recorded:
  assumes "run_by_id i (watched_runs wa) = Some d" and "records_on env d expected" and "ad_completed (last (rn_attempts d)) \<noteq> []"
    and "\<forall>job \<in> set jobs. trim_space job \<in> set expected \<and> trim_space job \<noteq> []"
    and "distinct (map (\<lambda>r. rn_id (lr_doc r)) (watched_runs wa))"
  shows "record_timed_out env i s jobs None ck wa = (Inr None, wa)"
  using assms(4)
proof (induction jobs)
  case (Cons job jobs)
  obtain res where "record_synthetic env i (synthetic_payload job ''timed_out'' [] s []) ck wa = (Inr res, wa)" "\<not> cr_ready res"
    using completed_attempt_kept [OF assms(1-3) _ _ assms(5), of job "''timed_out''" "[]" s "[]" ck] Cons.prems by auto
  with Cons show ?case by simp
qed simp

text \<open>
  C27: Skipping a phase leaves it shown as dispatching. Once the timeout has passed, a pass takes the run
  for overdue, finds that the phase's attempt has been completed, counts the run as expired and
  leaves it as it is; a run whose last phase was skipped stays in progress through every pass.
\<close>
theorem skipped_phase_is_not_rescued:
  assumes "stamp_attempt_skipped reason t (append_run_attempt phase kind wff t d) = Inr (lr_doc r)" and "in_progress r"
    and "run_by_id (rn_id (lr_doc r)) (watched_runs wa) = Some (lr_doc r)"
    and "distinct (map (\<lambda>r. rn_id (lr_doc r)) (watched_runs wa))"
    and "\<forall>e \<in> set (rn_execs d). \<not> overdue_phase (we_parse env) timeout (wc_time ck) e"
    and "we_parse env t = Some at0" "t \<noteq> []" "timeout \<le> wc_time ck - at0"
    and "records_on env (lr_doc r) expected" and "timed_out_job_ids (lr_doc r) phase \<noteq> []"
    and "\<forall>job \<in> set (timed_out_job_ids (lr_doc r) phase). trim_space job \<in> set expected \<and> trim_space job \<noteq> []"
  shows "expire_runs env ops timeout ck (r # rs) n wa = expire_runs env ops timeout ck rs (n + 1) wa"
proof -
  note parts = skip_stamp_parts [OF assms(1)]
  have "dispatch_timed_out_phase (we_parse env) timeout (wc_time ck) (lr_doc r) = Some phase"
    using dispatching_is_overdue [OF assms(5-8), of phase kind] by (auto simp: dispatch_timed_out_phase_def parts(1))
  moreover have "expire_run env ops timeout (lr_doc r) phase ck wa = (None, wa)"
    using nothing_recorded [OF assms(3,9) _ assms(11,4)] parts(3) assms(7,10)
    by (simp add: expire_run_def complete_timed_out_def)
  ultimately show ?thesis using assms(2) by simp
qed

section \<open>Inner jobs\<close>

lemma index_at: "distinct xs \<Longrightarrow> k < length xs \<Longrightarrow> index_of (xs ! k) xs = Some k"
  by (induction xs arbitrary: k) (auto simp: nth_Cons split: nat.split)

lemma inner_seq_bounds: "2 ^ 30 \<le> inner_job_seq namespace name" "inner_job_seq namespace name < 2 ^ 31 - 1"
proof -
  define m where "m = unat (fnv_hash64 (namespace @ ''/'' @ name @ ''::termination'') mod (2 ^ 31 - 1 - 2 ^ 30))"
  have "m < 1073741823" by (simp add: m_def unat_mod)
  then show "2 ^ 30 \<le> inner_job_seq namespace name" "inner_job_seq namespace name < 2 ^ 31 - 1"
    unfolding inner_job_seq_def m_def [symmetric] by simp_all
qed

lemma termination_fields [simp]:
  "eq_attempt (termination_request format phase r e url) = None"
  "eq_job (termination_request format phase r e url) = ij_parent_job r"
  "eq_seq (termination_request format phase r e url) = inner_job_seq (ij_namespace r) (ij_name r)"
  "eq_event (termination_request format phase r e url) = ''inner_job_terminated''"
  "requested_attempt (termination_request format phase r e url) = None"
  by (simp_all add: termination_request_def requested_attempt_def vget_any_def)

text \<open>The event goes to the phase of the last attempt, whichever phase the inner job belongs to.\<close>

lemma applied_termination:
  assumes "rn_attempts d \<noteq> []" and "distinct (map ad_index (rn_attempts d))"
    and "ev_attempt ev = ad_index (last (rn_attempts d))" and "ev_event ev = ''inner_job_terminated''"
  shows "apply_run_event ev d =
    Inr (d\<lparr>rn_execs := apply_event (attempt_doc.ad_phase (last (rn_attempts d))) ev (rn_execs d), rn_updated := ev_created ev\<rparr>)"
proof -
  let ?k = "length (rn_attempts d) - 1"
  have "attempt_position (ad_index (last (rn_attempts d))) (rn_attempts d) = Some ?k"
    using index_at [OF assms(2), of ?k] assms(1) by (simp add: attempt_position_def last_conv_nth)
  then show ?thesis using assms(1,3,4) by (simp add: apply_run_event_def last_conv_nth Let_def)
qed

definition terminated_entry :: "string \<Rightarrow> event_request \<Rightarrow> event_row" where
  "terminated_entry phase q =
     \<lparr>ew_event = eq_event q, ew_phase = phase, ew_slug = eq_slug q, ew_message = eq_message q, ew_exit = eq_exit q,
      ew_meta = event_request.eq_meta q\<rparr>"

lemma termination_recorded:
  fixes q :: event_request and d :: run_doc
  defines "p \<equiv> attempt_doc.ad_phase (last (rn_attempts d))" and "n \<equiv> ad_index (last (rn_attempts d))"
  assumes "rn_attempts d \<noteq> []" and "distinct (map ad_index (rn_attempts d))"
    and "requested_attempt q = None" "eq_event q = ''inner_job_terminated''"
  shows "record_runner_event d q now (tbl, d) =
    (case insert_event (n, eq_job q, eq_seq q) (terminated_entry p q) tbl of
       KnownEvent \<Rightarrow> (EventAccepted, tbl, d)
     | ConflictingEvent \<Rightarrow> (EventRefused RunConflict, tbl, d)
     | InsertedEvent tbl' \<Rightarrow>
         (EventAccepted, tbl', d\<lparr>rn_execs := apply_event p (event_of_request q n now) (rn_execs d), rn_updated := now\<rparr>))"
  using assms(3-6) applied_termination [OF assms(3,4), of "event_of_request q n now"]
  by (simp add: record_runner_event_def event_attempt_def terminated_entry_def p_def n_def event_of_request_def Let_def
      split: insert_outcome.split)

lemma other_phase_kept:
  assumes "(p, r) \<in> set (open_inner_jobs d)" and "p \<noteq> q"
  shows "(p, r) \<in> set (open_inner_jobs (d\<lparr>rn_execs := apply_event q ev (rn_execs d), rn_updated := t\<rparr>))"
proof -
  obtain x where x: "x \<in> set (rn_execs d)" "pe_name x = p" and r: "r \<in> set (pe_inner x)"
    "(ij_state r = [] \<or> ij_state r = ''active'') \<and> trim_space (ij_namespace r) \<noteq> [] \<and> trim_space (ij_name r) \<noteq> []"
    using assms(1) by (auto simp: open_inner_jobs_def)
  have "x \<in> set (apply_event q ev ps)" if "x \<in> set ps" for ps
    using that x(2) assms(2) by (induction ps) (auto simp: apply_event_def)
  from this [OF x(1)] show ?thesis using x(2) r by (force simp: open_inner_jobs_def)
qed

text \<open>The runs a pass works on, seen from one of them.\<close>

definition moved_past :: "string \<Rightarrow> string \<times> inner_job \<Rightarrow> 'w watch_state \<Rightarrow> bool" where
  "moved_past i pr wa =
     (\<exists>d. run_by_id i (watched_runs wa) = Some d \<and> pr \<in> set (open_inner_jobs d) \<and> rn_attempts d \<noteq> [] \<and>
          distinct (map ad_index (rn_attempts d)) \<and> attempt_doc.ad_phase (last (rn_attempts d)) \<noteq> fst pr)"

lemma recorded_elsewhere:
  assumes "moved_past i pr wa" and "requested_attempt q = None" "eq_event q = ''inner_job_terminated''"
  shows "moved_past i pr (snd (record_event_by_id i q ck wa))"
proof -
  obtain d where d: "run_by_id i (watched_runs wa) = Some d" "pr \<in> set (open_inner_jobs d)" "rn_attempts d \<noteq> []"
    "distinct (map ad_index (rn_attempts d))" "attempt_doc.ad_phase (last (rn_attempts d)) \<noteq> fst pr"
    using assms(1) by (auto simp: moved_past_def)
  obtain reply tbl d' where rec: "record_runner_event d q (wc_text ck) (wa_events wa i, d) = (reply, tbl, d')"
    by (metis prod_cases3)
  have d': "pr \<in> set (open_inner_jobs d') \<and> rn_attempts d' = rn_attempts d \<and> rn_id d' = rn_id d"
    using rec d(2,5) other_phase_kept [of "fst pr" "snd pr" d "attempt_doc.ad_phase (last (rn_attempts d))"]
    unfolding termination_recorded [OF d(3,4) assms(2,3)] by (auto split: insert_outcome.splits)
  have "run_by_id i (put_run i d' (watched_runs wa)) = Some d'"
    using d(1) d' run_by_id_Some [OF d(1)] by (simp add: run_by_id_put)
  then show ?thesis using d(1,3-5) d' rec by (simp add: moved_past_def record_event_by_id_def) (simp add: watched_runs_def)
qed

text \<open>
  C26: The end of an inner job is reported for the run's last attempt. When the run has moved on to
  another phase the entry of the inner job is not touched: no pass ever settles it.
\<close>
theorem earlier_inner_job_never_ends:
  assumes "moved_past (rn_id d) pr wa"
  shows "moved_past (rn_id d) pr (snd (terminate_inner_jobs env grace d ck jobs n wa))"
  using assms
proof (induction env grace d ck jobs n wa rule: terminate_inner_jobs.induct)
  case (2 env grace d ck phase r rs n wa)
  show ?case
  proof (cases "we_status env (ij_namespace r) (ij_name r)")
    case (Inl e)
    with 2 show ?thesis by simp
  next
    case (Inr s)
    show ?thesis
    proof (cases "inner_job_end grace (wc_time ck) s")
      case None
      with 2 Inr show ?thesis by simp
    next
      case (Some e)
      define q where "q = termination_request (we_format env) phase r e (inner_log env (rn_project d) (rn_id d) r e)"
      obtain reply wa' where rec: "record_event_by_id (rn_id d) q ck wa = (reply, wa')" by fastforce
      have kept: "moved_past (rn_id d) pr wa'"
        using recorded_elsewhere [OF 2(5), of q ck] rec by (simp add: q_def)
      note IH = 2(3,4) [OF Inr Some q_def rec [symmetric]]
      show ?thesis
        using IH kept Inr Some rec
        by (cases reply rule: option.exhaust; (simp add: q_def [symmetric]; fail)?)
          (auto simp: q_def [symmetric] split: event_reply.splits run_error.splits)
    qed
  qed
qed simp


section \<open>The watch\<close>

text \<open>
  The watch takes the job from a label, in which every character but lower-case letters, digits and
  dashes has been replaced. When the phase has no job of that name the job's end is refused: the
  run stays as it is until the reconciler's next pass.
\<close>
theorem relabelled_job_not_settled:
  assumes "find_run_by_ref env (trim_space (job_label job ''glimmung.romaine.life/project''))
      (trim_space (job_label job ''glimmung.romaine.life/run-ref'')) (watched_runs wa) = Some r"
    and "trim_space (job_label job ''glimmung.romaine.life/project'') \<noteq> []"
      "trim_space (job_label job ''glimmung.romaine.life/run-ref'') \<noteq> []"
      "trim_space (job_label job ''glimmung.romaine.life/phase'') \<noteq> []"
    and "trim_space (job_label job ''glimmung.romaine.life/job-id'') = label" "label \<noteq> []" "label \<notin> set expected"
    and "run_by_id (rn_id (lr_doc r)) (watched_runs wa) = Some d" and "records_on env d expected"
  shows "dispatch_outer_terminal env ops namespace ck job s wa =
    (WatchFailed (WatchRefused (Recording (JobNotOnPhase label (attempt_doc.ad_phase (last (rn_attempts d)))))), wa)"
proof -
  have trimmed: "trim_space label = label" using assms(5) trim_space_idem by metis
  have "record_synthetic env (rn_id (lr_doc r)) (failure_payload env label f u) ck wa
      = (Inl (WatchRefused (Recording (JobNotOnPhase label (attempt_doc.ad_phase (last (rn_attempts d)))))), wa)" for f u
    unfolding failure_payload_def
    using foreign_job_refused [OF assms(8,9), of label] assms(6,7) by (simp add: trimmed)
  then show ?thesis
    using assms(1-6) by (simp add: dispatch_outer_terminal_def complete_failed_job_def Let_def)
qed

end
