(* ===== verification/ReconcilerExamples.thy ===== *)
theory ReconcilerExamples
  imports ReconcilerOutcomes CompletionExamples
begin

text \<open>Runs whose jobs do not report, at which the theorems on the reconciler and the watch are
  instantiated.\<close>

section \<open>A run that is watched\<close>

definition job_shown :: "string \<Rightarrow> string \<Rightarrow> job_exec" where
  "job_shown st i =
     \<lparr>je_id = i, je_name = i, je_state = st, je_reason = [], je_k8s_name = i, je_created = ''t0'', je_dispatched = ''t0'',
      je_started = [], je_completed = [], je_steps = []\<rparr>"

definition stage_shown :: "string \<Rightarrow> string \<Rightarrow> string list \<Rightarrow> inner_job list \<Rightarrow> phase_exec" where
  "stage_shown name st jobs inner =
     \<lparr>pe_name = name, pe_kind = ''k8s_job'', pe_state = st, pe_reason = [], pe_created = ''t0'', pe_dispatched = ''t0'',
      pe_started = [], pe_completed = [], pe_jobs = map (job_shown st) jobs, pe_inner = inner\<rparr>"

definition watched_doc :: "attempt_doc list \<Rightarrow> phase_exec list \<Rightarrow> run_doc" where
  "watched_doc as ps = (demo_run as)\<lparr>rn_id := ''a'', rn_execs := ps\<rparr>"

definition gone_status :: job_status where
  "gone_status = \<lparr>st_found = False, st_conditions = [], st_completed = None, st_moved = None, st_pod = []\<rparr>"

definition watching :: "unit watch_env" where
  "watching =
     \<lparr>we_full = full_completing demo_workflow, we_parse = (\<lambda>t. if t = ''t0'' then Some 0 else None),
      we_format = (\<lambda>_. ''t9''), we_updated = (\<lambda>_. 0), we_ref = (\<lambda>_. ''p#1/runs/1.1''), we_text = (\<lambda>_. ''lost''),
      we_link = (\<lambda>_ _ _ _. []), we_capture = (\<lambda>_ _ _ _. []), we_capture_job = (\<lambda>_ _ _ _. []),
      we_status = (\<lambda>_ _. Inr gone_status)\<rparr>"

definition watch_of :: "run_doc list \<Rightarrow> unit watch_state" where
  "watch_of ds =
     \<lparr>wa_done = \<lparr>cs_store = \<lparr>as_runs = map row_of ds, as_locks = [], as_leases = ()\<rparr>, cs_playbooks = [], cs_closed = []\<rparr>,
      wa_events = (\<lambda>_. Map.empty)\<rparr>"

definition tick :: watch_clock where
  "tick = \<lparr>wc_text = ''t9'', wc_time = 900, wc_app = 0, wc_db = 0\<rparr>"

lemma watched_facts [simp]:
  "rn_id (watched_doc as ps) = ''a''" "rn_attempts (watched_doc as ps) = as" "rn_execs (watched_doc as ps) = ps"
  "watched_runs (watch_of ds) = map row_of ds" "lr_doc (row_of d) = d" "wc_time tick = 900"
  "wa_events (watch_of ds) i = Map.empty"
  by (simp_all add: watched_doc_def demo_run_def watched_runs_def watch_of_def row_of_def tick_def)

lemma alone_stored [simp]: "rn_id d = ''a'' \<Longrightarrow> run_by_id ''a'' [row_of d] = Some d"
  by (simp add: run_by_id_def row_by_id_def)

lemma watched_flow:
  "executed_workflow (ce_tables (fe_completion (we_full watching))) d = Some demo_workflow"
  "ce_scripts (fe_completion (we_full watching)) = demo_scripts"
  by (simp_all add: watching_def full_completing_def completing_def executed_workflow_def workflow_for_execution_def)

lemma watched_jobs:
  "expected_job_ids demo_scripts demo_workflow ''work'' = Inr [''build'', ''lint'']"
  "expected_job_ids demo_scripts demo_workflow ''check'' = Inr [''test'']"
  by code_simp+

lemma watched_records:
  assumes "rn_attempts d \<noteq> []" and "attempt_doc.ad_kind (last (rn_attempts d)) = ''k8s_job''"
  shows "attempt_doc.ad_phase (last (rn_attempts d)) = ''work'' \<Longrightarrow> records_on watching d [''build'', ''lint'']"
    "attempt_doc.ad_phase (last (rn_attempts d)) = ''check'' \<Longrightarrow> records_on watching d [''test'']"
  using assms by (simp_all add: records_on_def watched_flow watched_jobs)

lemma plain_names:
  "trim_space ''build'' = ''build''" "trim_space ''lint'' = ''lint''" "trim_space ''test'' = ''test''"
  by code_simp+

section \<open>A phase nobody reports from\<close>

definition silent_doc :: run_doc where
  "silent_doc = watched_doc [work_attempt] [stage_shown ''work'' ''dispatching'' [''build'', ''lint''] []]"

theorem silent_phase_witness:
  "\<exists>p wa'. jp_conclusion p = ''timed_out'' \<and>
    complete_timed_out watching held_slot 600 silent_doc ''work'' tick (watch_of [silent_doc]) =
      (case process_synthetic watching held_slot ''a'' p tick wa' of (Some e, wa2) \<Rightarrow> (Inl e, wa2) | (None, wa2) \<Rightarrow> (Inr True, wa2))"
proof -
  have "timed_out_job_ids silent_doc ''work'' = [''build'', ''lint'']"
    by (simp add: timed_out_job_ids_def silent_doc_def stage_shown_def job_shown_def unfinished_job_def)
  moreover have "waiting_on watching (rn_id silent_doc) [''build'', ''lint''] [] (watch_of [silent_doc])"
    by (simp add: waiting_on_def silent_doc_def watched_records work_attempt_def new_attempt_def only_timed_out_def)
  ultimately show ?thesis
    using silent_phase_timed_out [of silent_doc "''work''" "[''build'', ''lint'']" watching "watch_of [silent_doc]" held_slot 600 tick]
    by (auto simp: plain_names silent_doc_def)
qed

definition killed_status :: job_status where
  "killed_status =
     \<lparr>st_found = True,
      st_conditions = [\<lparr>jn_type = ''Failed'', jn_status = ''True'', jn_reason = ''DeadlineExceeded'', jn_message = [], jn_moved = Some 100\<rparr>],
      st_completed = None, st_moved = Some 100, st_pod = []\<rparr>"

definition killed_failure :: job_failure where
  "killed_failure = failed_job ''build'' killed_status"


section \<open>A skipped phase\<close>

definition before_skip :: run_doc where
  "before_skip =
     watched_doc [work_attempt\<lparr>ad_completed := ''t0''\<rparr>]
       [stage_shown ''work'' ''succeeded'' [''build'', ''lint''] [], stage_shown ''check'' ''not_started'' [''test''] []]"

definition after_skip :: run_doc where
  "after_skip = (case stamp_attempt_skipped ''off'' ''t0'' (append_run_attempt ''check'' ''k8s_job'' [] ''t0'' before_skip) of
       Inr d \<Rightarrow> d | Inl _ \<Rightarrow> before_skip)"

theorem skipped_phase_witness:
  "expire_runs watching held_slot 600 tick [row_of after_skip] 0 (watch_of [after_skip]) = ((1, None), watch_of [after_skip])"
proof -
  have made: "stamp_attempt_skipped ''off'' ''t0'' (append_run_attempt ''check'' ''k8s_job'' [] ''t0'' before_skip) = Inr after_skip"
    by (simp add: after_skip_def stamp_attempt_skipped_def append_run_attempt_def add_attempt_def)
  have last: "rn_attempts after_skip \<noteq> []" "attempt_doc.ad_kind (last (rn_attempts after_skip)) = ''k8s_job''"
    "attempt_doc.ad_phase (last (rn_attempts after_skip)) = ''check''"
    using skip_stamp_parts [OF made] by auto
  have jobs: "timed_out_job_ids after_skip ''check'' = [''test'']" "in_progress (row_of after_skip)"
    "list_all (\<lambda>e. pe_state e \<noteq> ''dispatching'') (rn_execs before_skip)"
    by code_simp+
  have id: "rn_id after_skip = ''a''" by code_simp
  have records: "records_on watching after_skip [''test'']" by (rule watched_records) (use last in simp_all)
  show ?thesis
    using skipped_phase_is_not_rescued [of "''off''" "''t0''" "''check''" "''k8s_job''" "[]" before_skip "row_of after_skip"
        "watch_of [after_skip]" watching 600 tick 0 "[''test'']" held_slot "[]" 0]
      made jobs id records plain_names
    by (simp add: list_all_iff overdue_phase_def watching_def)
qed

definition passed_over :: run_doc where
  "passed_over =
     watched_doc [work_attempt\<lparr>ad_completed := ''t0''\<rparr>, check_attempt]
       [stage_shown ''work'' ''dispatching'' [''build'', ''lint''] [], stage_shown ''check'' ''active'' [''test''] []]"

theorem foreign_phase_witness:
  "expire_runs watching held_slot 600 tick [row_of passed_over, row_of silent_doc] 0 (watch_of [passed_over]) =
    ((0, Some (WatchRefused (Recording (JobNotOnPhase ''build'' ''check'')))), watch_of [passed_over])"
proof -
  have facts: "in_progress (row_of passed_over)" "dispatch_timed_out_phase (we_parse watching) 600 900 passed_over = Some ''work''"
    "timed_out_job_ids passed_over ''work'' = [''build'', ''lint'']"
    by code_simp+
  have rec: "records_on watching passed_over [''test'']"
    unfolding passed_over_def by (rule watched_records) (simp_all add: check_attempt_def new_attempt_def)
  have last: "attempt_doc.ad_phase (last (rn_attempts passed_over)) = ''check''" "rn_id passed_over = ''a''"
    "run_by_id ''a'' [row_of passed_over] = Some passed_over"
    by (simp_all add: passed_over_def check_attempt_def new_attempt_def)
  show ?thesis
    using foreign_phase_ends_pass [of "row_of passed_over" watching 600 tick "''work''" "''build''" "[''lint'']" "watch_of [passed_over]"
        passed_over "[''test'']" held_slot "[row_of silent_doc]" 0] facts rec last
    by (simp add: plain_names)
qed

section \<open>Inner jobs\<close>

definition child :: inner_job where
  "child =
     \<lparr>ij_parent_job = ''build'', ij_parent_step = [], ij_namespace = ''slot-1'', ij_name = ''agent-1'', ij_intent = ''unknown'',
      ij_label = [], ij_selector = [], ij_registered = ''t0'', ij_state = ''active'', ij_reason = [], ij_completed = [], ij_log = []\<rparr>"

definition moved_on :: run_doc where
  "moved_on =
     watched_doc [work_attempt\<lparr>ad_completed := ''t0''\<rparr>, check_attempt]
       [stage_shown ''work'' ''succeeded'' [''build'', ''lint''] [child], stage_shown ''check'' ''active'' [''test''] []]"

theorem earlier_inner_job_witness:
  "moved_past ''a'' (''work'', child) (snd (terminate_inner_jobs watching 60 moved_on tick [(''work'', child)] 0 (watch_of [moved_on])))"
proof -
  have open_child: "open_inner_jobs moved_on = [(''work'', child)]" by code_simp
  have "moved_past (rn_id moved_on) (''work'', child) (watch_of [moved_on])"
    unfolding moved_past_def
    by (rule exI [of _ moved_on], unfold open_child)
      (simp add: moved_on_def work_attempt_def check_attempt_def new_attempt_def)
  from earlier_inner_job_never_ends [OF this] have "moved_past (rn_id moved_on) (''work'', child)
      (snd (terminate_inner_jobs watching 60 moved_on tick [(''work'', child)] 0 (watch_of [moved_on])))" .
  moreover have "rn_id moved_on = ''a''" by (simp add: moved_on_def)
  ultimately show ?thesis by (simp only:)
qed


end
