(* ===== verification/Spec2Isabelle.thy ===== *)
theory Spec2Isabelle
  imports RegistryExamples LeaseSafety PublicIds RunExamples PlaybookExamples CompletionExamples ReconcilerExamples
begin

text \<open>
  A verification development for Glimmung, the Go server (\<open>internal/\<close>) that runs agent
  workflows against issues: it leases test slots, starts the phases of a workflow as Kubernetes
  jobs, decides after each phase what comes next, and ends the run.

  The parts and how they meet. A workflow is a list of phases; a run is a list of attempts of
  those phases, grouped into cycles. When a phase completes, \<open>processRunCompletion\<close> asks the
  decision engine for a verdict (retry, advance, or one of four aborts), stamps it on the attempt
  and routes: it dispatches the phases that are ready, starts a new cycle, cleans up, or ends the
  run. A phase that is dispatched has its \<open>when\<close> conditions evaluated and its inputs
  resolved from the outputs of earlier phases, and runs in the slot the run has leased. A slot is
  a row of its own that moves through provisioning, activation and cleanup; several handlers
  write it, each on the condition that nobody wrote in between. A lease is a JSON document that
  names its slot; callbacks, cancellation and a sweep at start-up end it.

  The theories, in the order of the imports.

  \<^item> \<open>Prelude\<close>, \<open>GoText\<close>, \<open>GoValue\<close>: results, maps and lists; the
    functions of Go's \<open>strings\<close>, \<open>strconv\<close>, \<open>net/url\<close> and
    \<open>regexp\<close> the source uses, on byte strings; the comparison of floats; values of
    untyped JSON (\<open>value_helpers.go\<close>).
  \<^item> \<open>Decision\<close>: \<open>domain/decision\<close> and \<open>domain/budget\<close>.
    \<open>decide\<close> is \<open>Decide\<close>, split by the shape of the phase (\<open>decide_gate\<close>,
    \<open>decide_plain\<close>, \<open>decide_verify\<close>). Its lemmas say when a retry has head room, what
    advancing needs, when an abort is requested, and all its errors.
  \<^item> \<open>WhenExpr\<close> and \<open>PhaseRefs\<close>: the two small languages of a workflow
    (\<open>domain/whenexpr\<close>, \<open>domain/phaserefs\<close>), each with a parser, a validation at
    registration and an evaluation at dispatch. The lemmas are the round trip of printing and
    parsing, and that what was validated does not fail when it is evaluated.
  \<^item> \<open>PublicIds\<close>: addresses of runs and dashboard paths (\<open>domain/paths\<close>,
    \<open>domain/publicids\<close>), with their round trips.
  \<^item> \<open>Slots\<close>, \<open>SlotStore\<close>, \<open>SlotTransitions\<close>: the slot record and its
    \<open>Mark\<close> operations (\<open>server/slot.go\<close>), the table with compare-and-swap
    (\<open>store/pg/slots.go\<close>, \<open>store/store/slot.go\<close>), and the closures the handlers
    write with (\<open>server/slot_transitions.go\<close>). The locale \<open>cas_rows\<close> states what
    the store promises its callers and is interpreted on the table; \<open>slot_step\<close> is the
    interleaving of any number of readers and writers, and \<open>slot_ok\<close> the contract every
    stored slot keeps.
  \<^item> \<open>LeaseDocs\<close>, \<open>Leases\<close>, \<open>LeaseSafety\<close>: the lease document and its
    encoding, acquisition, cancellation, callback release, TTL update and expiry sweep
    (\<open>store/store/postgres.go\<close>, \<open>store/pg/runs.go\<close>,
    \<open>server/lease_recovery.go\<close>). \<open>acquire_step\<close> interleaves acquisitions. A lone
    caller books a free slot; two callers can book the same one.
  \<^item> \<open>RunTypes\<close>, \<open>RunRouting\<close>: phases, attempts and runs as routing reads them
    (\<open>server/read_api.go\<close>, \<open>replay_api.go\<close>), and \<open>server/completion_api.go\<close>:
    \<open>all_ready_dispatch_targets\<close>, \<open>dispatch_phases\<close>, \<open>dispatch_retry\<close>,
    \<open>process_completion\<close>.
  \<^item> \<open>RoutingSafety\<close>, \<open>RoutingOutcomes\<close>: which phases can be dispatched, in
    which order, that a dispatch ends and what it adds to a run, how many cycles there can be,
    what passing requires; and where a run leaves the path of its workflow.
  \<^item> \<open>Registration\<close>, \<open>RegisteredRuns\<close>: what \<open>ValidateWorkflowRegister\<close>
    (\<open>server/workflow_write_api.go\<close>) accepts, the shape of an accepted workflow, and what it
    gives dispatch and retries. \<open>Examples\<close> has workflows it accepts and runs of them.
  \<^item> \<open>Canonical\<close>, \<open>WorkflowStore\<close>, \<open>Registry\<close>, \<open>RegistryExamples\<close>:
    the normalisation of a workflow (\<open>server/evidence_gate.go\<close>), the control pins
    (\<open>server/workflow_write_api.go\<close>), the store of workflows and of their immutable versions
    (\<open>store/store/postgres.go\<close>, \<open>store/pg/workflows.go\<close>) and the handlers that write
    it. \<open>registry_step\<close> interleaves registrations, patches, pins and deletions. The lemmas
    say that every stored version is one that registration accepts, when a pinned value holds and
    when it is lost.

  \<^item> \<open>Executions\<close>, \<open>ExecutionOutcomes\<close>: the projection of a run that the dashboard
    shows, phases with their jobs, steps and inner jobs, and every function of
    \<open>store/store/postgres.go\<close> that edits it. The lemmas say when a phase is shown completed,
    that replaying an event changes nothing, and what the end of a run settles.
  \<^item> \<open>Evidence\<close>: evidence requirements and artifacts
    (\<open>server/evidence_contract.go\<close>).
  \<^item> \<open>JobCompletions\<close>, \<open>CompletionOutcomes\<close>: what a finished job reports, how an
    attempt records it, and what a phase makes of its jobs.
  \<^item> \<open>RunStore\<close>, \<open>RunStoreSafety\<close>, \<open>RunStoreOutcomes\<close>,
    \<open>RunExamples\<close>: the run document and the transactions on it
    (\<open>store/store/postgres.go\<close>, \<open>store/pg/run_events.go\<close>). \<open>run_ops\<close> applies
    any sequence of operations; the lemmas say what stays well formed, that a phase is handed on
    once, that the copy routing works on is what is stored, and what the operations do not check.
  \<^item> \<open>RunCreation\<close>, \<open>RunCreationSafety\<close>: how runs and cycles come into being
    (\<open>server/run_inputs.go\<close>, \<open>CreateRun\<close> and \<open>CreateRecycleCycle\<close> in
    \<open>store/store/postgres.go\<close>), their numbers and their addresses, and the list of queued
    runs. A created run can be started, shows the jobs it will wait for and is found by its address.
  \<^item> \<open>Locks\<close>: the lock table (\<open>store/pg/locks.go\<close>). The locale
    \<open>lock_service\<close> is what the dispatch relies on and is interpreted on the table.
  \<^item> \<open>Admission\<close>, \<open>Dispatch\<close>, \<open>RunLeases\<close>: the dispatch of an issue
    (\<open>server/dispatch_api.go\<close>), the admission of a run and the queue
    (\<open>server/run_queue.go\<close>), and the leases both ask for. The lease operations are an argument
    of the admission; \<open>store_lease_ops\<close> puts those of \<open>Leases\<close> in its place.
  \<^item> \<open>AdmissionSafety\<close>, \<open>DispatchSafety\<close>, \<open>SlotRuns\<close>,
    \<open>CreationExamples\<close>: a dispatched run has been started and nothing else has changed, the
    queue is worked off in order, and a second dispatch is refused. The locale \<open>slot_leases\<close>
    states what an admission relies on of the leases, and proves that only a dispatched run leaves
    one behind; its interpretation shows that the lease store keeps this contract. The end of a run
    that has ended already, a retry and the dispatch on the spot are where this goes wrong.

  \<^item> \<open>TerminalCauses\<close>, \<open>TerminalOutcomes\<close>: why an aborted run has ended, as the
    server derives it from the run (\<open>server/terminal_observation.go\<close> and
    \<open>terminalObservationForRun\<close> in \<open>store/store/postgres.go\<close>). Every abort gets a class
    and a message and cleanup is never blamed; a failed dispatch is taken for a manual abort.
  \<^item> \<open>Playbooks\<close>, \<open>PlaybookSafety\<close>, \<open>PlaybookExamples\<close>: lists of issues that
    are created and dispatched in the order of their dependencies (\<open>server/playbook_api.go\<close>,
    \<open>store/pg/playbooks.go\<close>). The lemmas bound the running entries, say that an entry starts
    after its dependencies have succeeded, and show where a playbook gets stuck.
  \<^item> \<open>PhaseDispatch\<close>, \<open>StoredRouting\<close>: dispatching phases of a stored run
    (\<open>dispatchForwardPhase\<close>, \<open>leaseForRunPhase\<close>, \<open>SetRunTerminalState\<close>), the
    composition of the run documents, the lease, the locks and the launcher. The replayed run
    simulates the routing of \<open>RunRouting\<close> (\<open>stored_dispatch_refines\<close>).
  \<^item> \<open>RunCompletion\<close>, \<open>CompletedRuns\<close>, \<open>CompletionExamples\<close>:
    \<open>processRunCompletion\<close> and the callback of a job on the stored documents: stamps, dispatch,
    retry, and at the end of a run its lock, its slot, the playbooks and the issue. It refines
    \<open>process_completion\<close>; an issue is closed only by a run that has passed; a retry whose launch
    fails leaves its new cycle behind.
  \<^item> \<open>Signals\<close>, \<open>SignalDrain\<close>, \<open>SignalSafety\<close>, \<open>ReviewOutcomes\<close>,
    \<open>ReviewExamples\<close>: the queue of review signals and its drain (\<open>server/signal_api.go\<close>,
    \<open>server/signal_drain.go\<close>, \<open>store/pg/signals.go\<close>). Every signal the drain claims is
    settled and its lock is free again; the lemmas say what an approval and a cancellation do to a
    run parked at its review gate, and which decisions are lost.

  \<^item> \<open>Reconciler\<close>, \<open>RunWatch\<close>, \<open>ReconcilerOutcomes\<close>,
    \<open>ReconcilerExamples\<close>: what is done about jobs whose runner never reports
    (\<open>server/run_execution_reconciler.go\<close>, \<open>server/run_watcher.go\<close>, the status of a job in
    \<open>server/run_launcher.go\<close>). The passes of the reconciler and the watch make up completions and
    hand them to \<open>RunCompletion\<close>. A silent phase is handed on as timed out and a lost job never
    counts as a success; a skipped phase, an inner job of an earlier phase and a run the list leaves
    out are never settled.

  Conventions. A struct is a record of the fields the modelled code reads, a string its bytes, an
  \<open>int\<close> of Go an integer (no modelled value comes near its bounds), a \<open>float64\<close> a
  rational, an infinity or NaN. A Go map is a map, or an association list in the order a
  \<open>range\<close> loop visits it where that order can be observed. An error is a constructor with the
  arguments of its message. The clock, generated ids and what other code returns are arguments.

  Bounds and fuel. \<open>dispatch_phases\<close> recurses once for every skipped phase; the fuel of
  \<open>dispatch_forward\<close> is one more than the number of phases, and \<open>dispatch_ends\<close> proves
  that it is never used up. \<open>forward_phases\<close>, the same loop on stored documents, gets the same
  fuel from \<open>dispatch_targets\<close>, and \<open>stored_dispatch_refines\<close> carries the bound over to
  it. Nothing else needs fuel: the loops of the source run over lists.

  Parameters and assumptions. Rounding of decimals (\<open>strconv.ParseFloat\<close>), parsing and
  formatting of times, and \<open>url.Parse\<close> of a full URL are arguments. So are the launch of a
  phase (\<open>launch\<close>), in \<open>RunRouting\<close> with the lease lookup before it, and there also the
  creation of a cycle (\<open>cycle_store\<close>); \<open>PhaseDispatch\<close> and \<open>RunCompletion\<close> have the
  lease and the cycle on the stored documents. The creation of an issue, the texts of errors and
  explanations, generated identifiers and the sum of two costs are arguments too. The database
  assigns strictly increasing \<open>updated_at\<close> values; one SQL statement is one step; a write that
  a handler retries up to five times is one step per try. Numbers in JSON documents are below 2 to
  the 53. What Kubernetes says of a job is an argument of the reconciler, and so is when a row was
  written last. The hash of a workflow version and the reading of a step's script are arguments. In
  \<open>RunRouting\<close> the writes whose error the completion handler drops are taken to succeed.

  Not modelled. The connection of the watch to Kubernetes, the capture of logs and the links to the
  log service. Agent cost and agent runtime are values that routing only stores. The launcher builds Kubernetes manifests; all that is used of it is whether
  a launch succeeds. The operations on test slots drive helm and Kubernetes around the slot
  transitions. The views only read; GitHub, artifacts and authentication are calls of services; the
  migrations are SQL, the commands process entry points, and the front ends other languages.
\<close>

end
